(* ===== verification/Prelude.thy ===== *)
theory Prelude
  imports Main "HOL-Library.Word"
begin

text \<open>
  Shared vocabulary of the development: machine integers, the identities of
  \<^verbatim>\<open>include/coherence/ids.hpp\<close> and the collections of facts the proofs share.  Every 64-bit identity of the
  source (\<open>StrongId\<close> over \<^verbatim>\<open>std::uint64_t\<close>) is a \<open>64 word\<close>, so that \<open>next\<close> and the
  identity counters wrap as they do in the program.  The distinct C++ types of the
  identities are type synonyms here: their distinctness is a compile-time fact with no
  run-time content.
\<close>

section \<open>Proof automation collections\<close>

named_theorems frame_simps \<open>which parts of the engine state an operation leaves alone\<close>
named_theorems codec_simps \<open>decoding what was just encoded\<close>

section \<open>Machine integers and identities\<close>

type_synonym u8 = "8 word"
type_synonym u16 = "16 word"
type_synonym u32 = "32 word"
type_synonym u64 = "64 word"
type_synonym byte = "8 word"
type_synonym bytes = "byte list"

type_synonym CoherenceDomainId = u64
type_synonym ObjectId = u64
type_synonym ObjectGeneration = u64
type_synonym RegionId = u64
type_synonym RegionGeneration = u64
type_synonym ReplicaId = u64
type_synonym ReplicaGeneration = u64
type_synonym ParticipantId = u64
type_synonym CoordinatorEpoch = u64
type_synonym OwnershipGeneration = u64
type_synonym VersionId = u64
type_synonym PublicationId = u64
type_synonym InvalidationId = u64
type_synonym SyncOperationId = u64
type_synonym LeaseId = u64
type_synonym PolicyId = u64
type_synonym PolicyGeneration = u64
type_synonym EvidenceId = u64
type_synonym EvidenceGeneration = u64
type_synonym DecisionId = u64
type_synonym RequestId = u64
type_synonym OperationSequence = u64

text \<open>The 128-bit identities (\<^verbatim>\<open>struct UInt128\<close>) and their order, the one of
  \<open>StrongId::operator<\<close>: the high half decides, then the low half.\<close>

datatype UInt128 = UInt128 (high: u64) (low: u64)

type_synonym ParticipantBootId = UInt128
type_synonym SessionId = UInt128
type_synonym ContentDigest = UInt128

instantiation UInt128 :: linorder
begin

definition less_UInt128 :: "UInt128 \<Rightarrow> UInt128 \<Rightarrow> bool" where
  "less_UInt128 a b =
     (if high a \<noteq> high b then high a < high b else low a < low b)"

definition less_eq_UInt128 :: "UInt128 \<Rightarrow> UInt128 \<Rightarrow> bool" where
  "less_eq_UInt128 a b = (\<not> (b < a))"

instance
  by standard (auto simp: less_UInt128_def less_eq_UInt128_def UInt128.expand split: if_splits)

end

instantiation UInt128 :: zero
begin

definition zero_UInt128 :: UInt128 where
  "zero_UInt128 = UInt128 0 0"

instance ..

end

text \<open>\<open>StrongId::nil\<close>, \<open>is_nil\<close>, \<open>defined\<close>: the zero value of the representation.\<close>

abbreviation (input) is_nil :: "'a::zero \<Rightarrow> bool" where
  "is_nil x \<equiv> x = 0"

abbreviation (input) is_defined :: "'a::zero \<Rightarrow> bool" where
  "is_defined x \<equiv> x \<noteq> 0"

text \<open>\<open>StrongId::next\<close>: the successor in the same authority domain; it wraps.\<close>

definition next_id :: "u64 \<Rightarrow> u64" where
  "next_id x = x + 1"

definition next_uuid :: "UInt128 \<Rightarrow> UInt128" where
  "next_uuid x =
     (let lo = low x + 1 in UInt128 (if lo = 0 then high x + 1 else high x) lo)"

lemma next_id_neq [simp]: "next_id x \<noteq> x"
  by (simp add: next_id_def)


end
