(* ===== verification/Bytes.thy ===== *)
theory Bytes
  imports Prelude
begin

text \<open>
  Byte-level primitives of \<^verbatim>\<open>include/coherence/bytes.hpp\<close> and \<^verbatim>\<open>src/bytes.cpp\<close>: overflow-checked
  arithmetic, little-endian loads and stores, CRC-32C with its slicing-by-eight loop, SHA-256 and
  digest comparison.  The table \<open>kCrc32cTable\<close> is the function from its two indices to the
  entry its constructor computes.
\<close>

unbundle bit_operations_syntax

section \<open>Overflow-checked arithmetic\<close>

definition checked_add :: "u64 \<Rightarrow> u64 \<Rightarrow> u64 option" where
  "checked_add a b = (if a > - 1 - b then None else Some (a + b))"

definition checked_mul :: "u64 \<Rightarrow> u64 \<Rightarrow> u64 option" where
  "checked_mul a b = (if a \<noteq> 0 \<and> b > - 1 div a then None else Some (a * b))"

definition checked_range :: "u64 \<Rightarrow> u64 \<Rightarrow> u64 \<Rightarrow> bool" where
  "checked_range offset len extent =
     (case checked_add offset len of None \<Rightarrow> False | Some end_off \<Rightarrow> end_off \<le> extent)"

section \<open>Little-endian codecs\<close>

definition store_u8 :: "u8 \<Rightarrow> bytes" where
  "store_u8 v = [v]"

definition store_u16 :: "u16 \<Rightarrow> bytes" where
  "store_u16 v = [ucast v, ucast (drop_bit 8 v)]"

definition store_u32 :: "u32 \<Rightarrow> bytes" where
  "store_u32 v = map (\<lambda>i. ucast (drop_bit (8 * i) v)) [0..<4]"

definition store_u64 :: "u64 \<Rightarrow> bytes" where
  "store_u64 v = map (\<lambda>i. ucast (drop_bit (8 * i) v)) [0..<8]"

definition load_u16 :: "bytes \<Rightarrow> nat \<Rightarrow> u16" where
  "load_u16 src offset = ucast (src ! offset) OR push_bit 8 (ucast (src ! (offset + 1)))"

definition load_u32 :: "bytes \<Rightarrow> nat \<Rightarrow> u32" where
  "load_u32 src offset =
     foldl (\<lambda>out i. out OR push_bit (8 * i) (ucast (src ! (offset + i)))) 0 [0..<4]"

definition load_u64 :: "bytes \<Rightarrow> nat \<Rightarrow> u64" where
  "load_u64 src offset =
     foldl (\<lambda>out i. out OR push_bit (8 * i) (ucast (src ! (offset + i)))) 0 [0..<8]"

text \<open>\<open>store_*\<close> of the source write into a span at an offset; the callers that do so patch a
  buffer they have just filled.\<close>

definition store_at :: "bytes \<Rightarrow> nat \<Rightarrow> bytes \<Rightarrow> bytes" where
  "store_at dst offset bs = take offset dst @ bs @ drop (offset + length bs) dst"

section \<open>CRC-32C\<close>

definition kPoly :: u32 where
  "kPoly = 0x82F63B78"

definition crc_bit :: "u32 \<Rightarrow> u32" where
  "crc_bit crc = (if crc AND 1 \<noteq> 0 then drop_bit 1 crc XOR kPoly else drop_bit 1 crc)"

primrec crc_entries :: "nat \<Rightarrow> u32 \<Rightarrow> u32" where
  "crc_entries 0 i = (crc_bit ^^ 8) i"
| "crc_entries (Suc k) i =
     (let crc = crc_entries k i in (crc_bit ^^ 8) (crc AND 0xFF) XOR drop_bit 8 crc)"

definition crc_slice8 :: "u32 \<Rightarrow> u64 \<Rightarrow> u32" where
  "crc_slice8 crc0 w =
     (let crc = crc0 XOR ucast (w AND 0xFFFFFFFF);
          hi = ucast (drop_bit 32 w) :: u32
      in crc_entries 7 (crc AND 0xFF) XOR
         crc_entries 6 (drop_bit 8 crc AND 0xFF) XOR
         crc_entries 5 (drop_bit 16 crc AND 0xFF) XOR
         crc_entries 4 (drop_bit 24 crc AND 0xFF) XOR
         crc_entries 3 (hi AND 0xFF) XOR
         crc_entries 2 (drop_bit 8 hi AND 0xFF) XOR
         crc_entries 1 (drop_bit 16 hi AND 0xFF) XOR
         crc_entries 0 (drop_bit 24 hi AND 0xFF))"

definition crc_byte :: "u32 \<Rightarrow> byte \<Rightarrow> u32" where
  "crc_byte crc p = crc_entries 0 ((crc XOR ucast p) AND 0xFF) XOR drop_bit 8 crc"

text \<open>The two loops of \<open>crc32c\<close>: eight bytes at a time while at least eight remain, then one.\<close>

function crc_loop :: "u32 \<Rightarrow> bytes \<Rightarrow> u32" where
  "crc_loop crc p =
     (if 8 \<le> length p then crc_loop (crc_slice8 crc (load_u64 p 0)) (drop 8 p)
      else foldl crc_byte crc p)"
  by auto
termination by (relation "measure (\<lambda>(crc, p). length p)") auto

declare crc_loop.simps [simp del]

definition crc32c_seed :: "u32 \<Rightarrow> bytes \<Rightarrow> u32" where
  "crc32c_seed seed data = NOT (crc_loop (NOT seed) data)"

definition crc32c :: "bytes \<Rightarrow> u32" where
  "crc32c data = crc32c_seed 0 data"

text \<open>The reference: one bit of the message at a time, no table.\<close>

definition crc32c_reference :: "u32 \<Rightarrow> bytes \<Rightarrow> u32" where
  "crc32c_reference seed data =
     NOT (foldl (\<lambda>crc p. (crc_bit ^^ 8) (crc XOR ucast p)) (NOT seed) data)"

section \<open>SHA-256\<close>

definition kSha256K :: "u32 list" where
  "kSha256K =
    [0x428A2F98, 0x71374491, 0xB5C0FBCF, 0xE9B5DBA5, 0x3956C25B, 0x59F111F1, 0x923F82A4,
     0xAB1C5ED5, 0xD807AA98, 0x12835B01, 0x243185BE, 0x550C7DC3, 0x72BE5D74, 0x80DEB1FE,
     0x9BDC06A7, 0xC19BF174, 0xE49B69C1, 0xEFBE4786, 0x0FC19DC6, 0x240CA1CC, 0x2DE92C6F,
     0x4A7484AA, 0x5CB0A9DC, 0x76F988DA, 0x983E5152, 0xA831C66D, 0xB00327C8, 0xBF597FC7,
     0xC6E00BF3, 0xD5A79147, 0x06CA6351, 0x14292967, 0x27B70A85, 0x2E1B2138, 0x4D2C6DFC,
     0x53380D13, 0x650A7354, 0x766A0ABB, 0x81C2C92E, 0x92722C85, 0xA2BFE8A1, 0xA81A664B,
     0xC24B8B70, 0xC76C51A3, 0xD192E819, 0xD6990624, 0xF40E3585, 0x106AA070, 0x19A4C116,
     0x1E376C08, 0x2748774C, 0x34B0BCB5, 0x391C0CB3, 0x4ED8AA4A, 0x5B9CCA4F, 0x682E6FF3,
     0x748F82EE, 0x78A5636F, 0x84C87814, 0x8CC70208, 0x90BEFFFA, 0xA4506CEB, 0xBEF9A3F7,
     0xC67178F2]"

definition rotr :: "u32 \<Rightarrow> nat \<Rightarrow> u32" where
  "rotr x n = drop_bit n x OR push_bit (32 - n) x"

definition big_sigma0 :: "u32 \<Rightarrow> u32" where
  "big_sigma0 x = rotr x 2 XOR rotr x 13 XOR rotr x 22"

definition big_sigma1 :: "u32 \<Rightarrow> u32" where
  "big_sigma1 x = rotr x 6 XOR rotr x 11 XOR rotr x 25"

definition small_sigma0 :: "u32 \<Rightarrow> u32" where
  "small_sigma0 x = rotr x 7 XOR rotr x 18 XOR drop_bit 3 x"

definition small_sigma1 :: "u32 \<Rightarrow> u32" where
  "small_sigma1 x = rotr x 17 XOR rotr x 19 XOR drop_bit 10 x"

definition sha_load_be :: "bytes \<Rightarrow> nat \<Rightarrow> u32" where
  "sha_load_be block i =
     push_bit 24 (ucast (block ! (i * 4))) OR push_bit 16 (ucast (block ! (i * 4 + 1))) OR
     push_bit 8 (ucast (block ! (i * 4 + 2))) OR ucast (block ! (i * 4 + 3))"

definition sha_schedule :: "bytes \<Rightarrow> u32 list" where
  "sha_schedule block =
     foldl (\<lambda>w i. w @ [small_sigma1 (w ! (i - 2)) + w ! (i - 7) + small_sigma0 (w ! (i - 15)) + w ! (i - 16)])
       (map (sha_load_be block) [0..<16]) [16..<64]"

type_synonym sha_regs = "u32 \<times> u32 \<times> u32 \<times> u32 \<times> u32 \<times> u32 \<times> u32 \<times> u32"

fun sha_round :: "u32 list \<Rightarrow> sha_regs \<Rightarrow> nat \<Rightarrow> sha_regs" where
  "sha_round w (a, b, c, d, e, f, g, h) i =
     (let t1 = h + big_sigma1 e + ((e AND f) XOR (NOT e AND g)) + kSha256K ! i + w ! i;
          t2 = big_sigma0 a + ((a AND b) XOR (a AND c) XOR (b AND c))
      in (t1 + t2, a, b, c, d + t1, e, f, g))"

fun sha_add :: "sha_regs \<Rightarrow> sha_regs \<Rightarrow> sha_regs" where
  "sha_add (a, b, c, d, e, f, g, h) (a', b', c', d', e', f', g', h') =
     (a + a', b + b', c + c', d + d', e + e', f + f', g + g', h + h')"

definition sha_compress :: "sha_regs \<Rightarrow> bytes \<Rightarrow> sha_regs" where
  "sha_compress st block = sha_add st (foldl (sha_round (sha_schedule block)) st [0..<64])"

text \<open>The hasher object.  \<open>buffer_\<close> is the list of its first \<open>buffered_\<close> bytes: the bytes
  behind that index are never read.\<close>

record Sha256 =
  sha_state :: sha_regs
  sha_bit_length :: u64
  sha_buffer :: bytes

definition sha256_init :: Sha256 where
  "sha256_init =
     \<lparr>sha_state = (0x6A09E667, 0xBB67AE85, 0x3C6EF372, 0xA54FF53A,
                   0x510E527F, 0x9B05688C, 0x1F83D9AB, 0x5BE0CD19),
      sha_bit_length = 0, sha_buffer = []\<rparr>"

text \<open>The block loop of \<open>update\<close>, then its tail loop.\<close>

function sha_blocks :: "sha_regs \<Rightarrow> bytes \<Rightarrow> sha_regs \<times> bytes" where
  "sha_blocks st data =
     (if 64 \<le> length data then sha_blocks (sha_compress st (take 64 data)) (drop 64 data)
      else (st, data))"
  by auto
termination by (relation "measure (\<lambda>(st, data). length data)") auto

declare sha_blocks.simps [simp del]

definition sha256_update :: "Sha256 \<Rightarrow> bytes \<Rightarrow> Sha256" where
  "sha256_update s data =
     (let bits = sha_bit_length s + of_nat (length data) * 8;
          fill = (if sha_buffer s \<noteq> [] then min (64 - length (sha_buffer s)) (length data) else 0);
          buf = sha_buffer s @ take fill data;
          rest = drop fill data;
          (st, buf) = (if length buf = 64 then (sha_compress (sha_state s) buf, []) else (sha_state s, buf));
          (st, tail) = sha_blocks st rest
      in \<lparr>sha_state = st, sha_bit_length = bits, sha_buffer = buf @ tail\<rparr>)"

definition be_bytes_u64 :: "u64 \<Rightarrow> bytes" where
  "be_bytes_u64 v = map (\<lambda>i. ucast (drop_bit (8 * (7 - i)) v)) [0..<8]"

definition be_bytes_u32 :: "u32 \<Rightarrow> bytes" where
  "be_bytes_u32 v = [ucast (drop_bit 24 v), ucast (drop_bit 16 v), ucast (drop_bit 8 v), ucast v]"

fun sha_output :: "sha_regs \<Rightarrow> bytes" where
  "sha_output (a, b, c, d, e, f, g, h) = concat (map be_bytes_u32 [a, b, c, d, e, f, g, h])"

definition sha256_finish :: "Sha256 \<Rightarrow> bytes" where
  "sha256_finish s =
     (let total_bits = sha_bit_length s;
          buf = sha_buffer s @ [0x80];
          (st, buf) = (if 56 < length buf
                       then (sha_compress (sha_state s) (buf @ replicate (64 - length buf) 0), [])
                       else (sha_state s, buf));
          buf = buf @ replicate (56 - length buf) 0
      in sha_output (sha_compress st (buf @ be_bytes_u64 total_bits)))"

definition sha256_digest :: "bytes \<Rightarrow> bytes" where
  "sha256_digest data = sha256_finish (sha256_update sha256_init data)"

definition digest_equal :: "bytes \<Rightarrow> bytes \<Rightarrow> bool" where
  "digest_equal a b =
     (if length a \<noteq> length b then False
      else foldl (\<lambda>diff i. diff OR (a ! i XOR b ! i)) 0 [0..<length a] = 0)"

section \<open>The table-driven CRC computes the reference\<close>

lemma crc_bit_alt: "crc_bit c = (if bit c 0 then drop_bit 1 c XOR kPoly else drop_bit 1 c)"
  by (simp add: crc_bit_def and_one_eq bit_0 mod_2_eq_odd)

lemma crc_bit_xor: "crc_bit (a XOR b) = crc_bit a XOR crc_bit b"
  by (rule bit_word_eqI) (auto simp: crc_bit_alt bit_simps simp del: bit_0)

lemma crc_bit_zero: "crc_bit 0 = 0"
  by (simp add: crc_bit_def)

lemma crc_bit_pow_xor: "(crc_bit ^^ n) (a XOR b) = (crc_bit ^^ n) a XOR (crc_bit ^^ n) b"
  by (induction n) (simp_all add: crc_bit_xor)

lemma crc_bit_pow_shift:
  "(\<And>i. i < n \<Longrightarrow> \<not> bit c i) \<Longrightarrow> (crc_bit ^^ n) c = drop_bit n c"
proof (induction n arbitrary: c)
  case (Suc n)
  have "crc_bit c = drop_bit 1 c" using Suc.prems [of 0] by (simp add: crc_bit_alt)
  moreover have "(crc_bit ^^ n) (drop_bit 1 c) = drop_bit n (drop_bit 1 c)"
    by (rule Suc.IH) (use Suc.prems in \<open>simp add: bit_simps\<close>)
  ultimately show ?case by (simp add: funpow_swap1 drop_bit_drop_bit del: funpow.simps(2) add: funpow_Suc_right)
qed simp

lemma ff_mask: "(0xFF :: 'a::len word) = mask 8"
  by (simp add: mask_eq_exp_minus_1)

lemma byte_bit_out: "8 \<le> n \<Longrightarrow> \<not> bit (p :: byte) n"
  using bit_imp_le_length [of p n] by auto

lemma byte_extract:
  assumes "\<And>n. n < 8 \<Longrightarrow> bit x n = bit p n" and "8 < LENGTH('a)"
  shows "(x :: 'a::len word) AND 0xFF = ucast (p :: byte)"
proof (rule bit_word_eqI)
  fix n assume "n < LENGTH('a)"
  then show "bit (x AND 0xFF) n = bit (ucast p :: 'a word) n"
    unfolding ff_mask using assms by (cases "n < 8") (simp_all add: bit_simps byte_bit_out)
qed

lemma le_fold_bit:
  "bit (foldl (\<lambda>out i. out OR push_bit (8 * i) (ucast (f i :: byte))) (0 :: 'a::len word) [0..<k]) n
   \<longleftrightarrow> n < LENGTH('a) \<and> n < 8 * k \<and> bit (f (n div 8)) (n mod 8)"
proof (induction k)
  case (Suc k)
  have "8 * k \<le> n \<and> bit (f k) (n - 8 * k) \<longleftrightarrow> n div 8 = k \<and> bit (f (n div 8)) (n mod 8)"
  proof (cases "n div 8 = k")
    case True
    then show ?thesis by (auto simp: minus_mult_div_eq_mod)
  next
    case False
    then have "n < 8 * k \<or> 8 \<le> n - 8 * k" by linarith
    with False show ?thesis using byte_bit_out [of "n - 8 * k" "f k"] by linarith
  qed
  moreover have "n < 8 * Suc k \<longleftrightarrow> n < 8 * k \<or> n div 8 = k" by auto
  ultimately show ?case using Suc by (auto simp: bit_simps)
qed simp

lemma load_u64_bit:
  "bit (load_u64 src off) n \<longleftrightarrow> n < 64 \<and> bit (src ! (off + n div 8)) (n mod 8)"
  by (auto simp: load_u64_def le_fold_bit)

lemma load_u64_byte:
  "n < 8 \<Longrightarrow> i < 8 \<Longrightarrow> bit (load_u64 src off) (8 * i + n) = bit (src ! (off + i)) n"
  by (simp add: load_u64_bit)

text \<open>One table step is eight bit steps.\<close>

lemma crc_step: "(crc_bit ^^ 8) (c AND 0xFF) XOR drop_bit 8 c = (crc_bit ^^ 8) c"
proof -
  have "(crc_bit ^^ 8) (c AND NOT (mask 8)) = drop_bit 8 (c AND NOT (mask 8))"
    by (rule crc_bit_pow_shift) (simp add: bit_simps)
  moreover have "drop_bit 8 (c AND NOT (mask 8)) = drop_bit 8 c"
    by (rule bit_word_eqI) (auto simp: bit_simps dest: bit_imp_le_length)
  moreover have "c = (c AND mask 8) XOR (c AND NOT (mask 8))"
    by (rule bit_word_eqI) (auto simp: bit_simps)
  ultimately show ?thesis unfolding ff_mask by (metis crc_bit_pow_xor)
qed

lemma crc_split:
  "(crc_bit ^^ (8 + m)) c = (crc_bit ^^ (8 + m)) (c AND 0xFF) XOR (crc_bit ^^ m) (drop_bit 8 c)"
proof -
  have pow: "(crc_bit ^^ (8 + m)) x = (crc_bit ^^ m) ((crc_bit ^^ 8) x)" for x
    by (subst add.commute) (simp only: funpow_add comp_apply)
  show ?thesis unfolding pow by (subst crc_step [of c, symmetric]) (rule crc_bit_pow_xor)
qed

lemma crc_entries_eq: "crc_entries k i = (crc_bit ^^ (8 * Suc k)) i"
proof (induction k)
  case (Suc k)
  have "crc_entries (Suc k) i = (crc_bit ^^ 8) ((crc_bit ^^ (8 * Suc k)) i)"
    by (simp only: crc_entries.simps Suc Let_def crc_step)
  also have "\<dots> = (crc_bit ^^ (8 + 8 * Suc k)) i"
    by (simp only: funpow_add comp_apply)
  finally show ?case by (simp only: mult_Suc_right)
qed (simp only: crc_entries.simps mult_Suc_right mult_0_right add_0_right)

lemma crc_byte_eq: "crc_byte c p = (crc_bit ^^ 8) (c XOR ucast p)"
proof -
  have "drop_bit 8 (c XOR ucast p) = drop_bit 8 c"
    by (rule bit_word_eqI) (auto simp: bit_simps dest: bit_imp_le_length)
  then show ?thesis by (metis crc_byte_def crc_entries.simps(1) crc_step)
qed

lemma crc_bytes8:
  "foldl crc_byte c [p0, p1, p2, p3, p4, p5, p6, p7] =
   (crc_bit ^^ 64) (c XOR ucast p0) XOR (crc_bit ^^ 56) (ucast p1) XOR
   (crc_bit ^^ 48) (ucast p2) XOR (crc_bit ^^ 40) (ucast p3) XOR
   (crc_bit ^^ 32) (ucast p4) XOR (crc_bit ^^ 24) (ucast p5) XOR
   (crc_bit ^^ 16) (ucast p6) XOR (crc_bit ^^ 8) (ucast p7)"
proof -
  have pow: "(crc_bit ^^ 8) ((crc_bit ^^ n) x) = (crc_bit ^^ (8 + n)) x" for n x
    by (simp add: funpow_add)
  show ?thesis by (simp add: crc_byte_eq crc_bit_pow_xor pow xor.assoc)
qed

lemma crc_word4:
  "(crc_bit ^^ 64) c =
   (crc_bit ^^ 64) (c AND 0xFF) XOR (crc_bit ^^ 56) (drop_bit 8 c AND 0xFF) XOR
   (crc_bit ^^ 48) (drop_bit 16 c AND 0xFF) XOR (crc_bit ^^ 40) (drop_bit 24 c AND 0xFF)"
proof -
  have zero: "(crc_bit ^^ n) 0 = 0" for n
    by (induction n) (simp_all add: crc_bit_zero)
  have "drop_bit 32 c = 0"
    by (rule bit_word_eqI) (auto simp: bit_simps dest: bit_imp_le_length)
  then have d: "(crc_bit ^^ 40) (drop_bit 24 c) = (crc_bit ^^ 40) (drop_bit 24 c AND 0xFF)"
    using crc_split [of 32 "drop_bit 24 c"] zero [of 32] by (simp add: drop_bit_drop_bit)
  have c: "(crc_bit ^^ 48) (drop_bit 16 c) =
      (crc_bit ^^ 48) (drop_bit 16 c AND 0xFF) XOR (crc_bit ^^ 40) (drop_bit 24 c)"
    using crc_split [of 40 "drop_bit 16 c"] by (simp add: drop_bit_drop_bit)
  have b: "(crc_bit ^^ 56) (drop_bit 8 c) =
      (crc_bit ^^ 56) (drop_bit 8 c AND 0xFF) XOR (crc_bit ^^ 48) (drop_bit 16 c)"
    using crc_split [of 48 "drop_bit 8 c"] by (simp add: drop_bit_drop_bit)
  have a: "(crc_bit ^^ 64) c = (crc_bit ^^ 64) (c AND 0xFF) XOR (crc_bit ^^ 56) (drop_bit 8 c)"
    using crc_split [of 56 c] by simp
  show ?thesis by (subst a, subst b, subst c, subst d, rule refl)
qed

lemma crc_slice8_bytes:
  "crc_slice8 c (load_u64 [p0, p1, p2, p3, p4, p5, p6, p7] 0) =
   foldl crc_byte c [p0, p1, p2, p3, p4, p5, p6, p7]"
proof -
  let ?p = "[p0, p1, p2, p3, p4, p5, p6, p7]"
  let ?w = "load_u64 ?p 0"
  define lo hi :: u32 where "lo = ucast (?w AND 0xFFFFFFFF)" and "hi = ucast (drop_bit 32 ?w)"
  have B: "n < 8 \<Longrightarrow> bit ?w n = bit p0 n" "n < 8 \<Longrightarrow> bit ?w (8 + n) = bit p1 n"
    "n < 8 \<Longrightarrow> bit ?w (16 + n) = bit p2 n" "n < 8 \<Longrightarrow> bit ?w (24 + n) = bit p3 n"
    "n < 8 \<Longrightarrow> bit ?w (32 + n) = bit p4 n" "n < 8 \<Longrightarrow> bit ?w (40 + n) = bit p5 n"
    "n < 8 \<Longrightarrow> bit ?w (48 + n) = bit p6 n" "n < 8 \<Longrightarrow> bit ?w (56 + n) = bit p7 n" for n
    using load_u64_byte [of n 0 ?p 0] load_u64_byte [of n 1 ?p 0] load_u64_byte [of n 2 ?p 0]
      load_u64_byte [of n 3 ?p 0] load_u64_byte [of n 4 ?p 0] load_u64_byte [of n 5 ?p 0]
      load_u64_byte [of n 6 ?p 0] load_u64_byte [of n 7 ?p 0] by simp_all
  have m: "(0xFFFFFFFF :: u64) = mask 32" by (simp add: mask_eq_exp_minus_1)
  have lo: "lo AND 0xFF = ucast p0" "drop_bit 8 lo AND 0xFF = ucast p1"
      "drop_bit 16 lo AND 0xFF = ucast p2" "drop_bit 24 lo AND 0xFF = ucast p3"
    unfolding lo_def m by (rule byte_extract; simp add: bit_simps B)+
  have hi: "hi AND 0xFF = ucast p4" "drop_bit 8 hi AND 0xFF = ucast p5"
      "drop_bit 16 hi AND 0xFF = ucast p6" "drop_bit 24 hi AND 0xFF = ucast p7"
    unfolding hi_def by (rule byte_extract; simp add: bit_simps B)+
  have eval: "8 * Suc 7 = 64" "8 * Suc 6 = 56" "8 * Suc 5 = 48" "8 * Suc 4 = 40"
    "8 * Suc 3 = 32" "8 * Suc 2 = 24" "8 * Suc 1 = 16" "8 * Suc 0 = 8" by simp_all
  have "crc_slice8 c ?w = (crc_bit ^^ 64) (c XOR lo) XOR
     ((crc_bit ^^ 32) (ucast p4) XOR (crc_bit ^^ 24) (ucast p5) XOR
      (crc_bit ^^ 16) (ucast p6) XOR (crc_bit ^^ 8) (ucast p7))"
    unfolding crc_slice8_def Let_def lo_def [symmetric] hi_def [symmetric] hi crc_entries_eq
    by (subst crc_word4 [of "c XOR lo"]) (simp only: xor.assoc eval)
  also have "(crc_bit ^^ 64) (c XOR lo) = (crc_bit ^^ 64) (c XOR ucast p0) XOR (crc_bit ^^ 56) (ucast p1) XOR
   (crc_bit ^^ 48) (ucast p2) XOR (crc_bit ^^ 40) (ucast p3)"
    by (simp only: crc_bit_pow_xor crc_word4 [of lo] lo xor.assoc)
  finally show ?thesis by (simp only: crc_bytes8 xor.assoc)
qed

lemma crc_loop_bytes: "crc_loop crc p = foldl crc_byte crc p"
proof (induction crc p rule: crc_loop.induct)
  case (1 crc p)
  show ?case
  proof (cases "8 \<le> length p")
    case True
    define q where "q = take 8 p"
    have "length q = 8" using True by (simp add: q_def)
    then obtain p0 p1 p2 p3 p4 p5 p6 p7 where q: "q = [p0, p1, p2, p3, p4, p5, p6, p7]"
      by (auto simp: length_Suc_conv eval_nat_numeral)
    have p: "p = q @ drop 8 p" by (simp add: q_def)
    have "load_u64 p 0 = load_u64 q 0"
      by (rule bit_word_eqI) (simp add: load_u64_bit q_def less_mult_imp_div_less)
    then have "crc_slice8 crc (load_u64 p 0) = foldl crc_byte crc q"
      by (simp only: q crc_slice8_bytes)
    then have "crc_loop crc p = foldl crc_byte (foldl crc_byte crc q) (drop 8 p)"
      using 1 [OF True] True by (subst crc_loop.simps) (simp only: if_True)
    also have "\<dots> = foldl crc_byte crc (q @ drop 8 p)" by (simp only: foldl_append)
    finally show ?thesis by (simp only: p [symmetric])
  next
    case False
    then show ?thesis by (subst crc_loop.simps) (simp only: if_False)
  qed
qed

lemma crc32c_eq_reference: "crc32c_seed seed data = crc32c_reference seed data"
  by (simp add: crc32c_seed_def crc32c_reference_def crc_loop_bytes crc_byte_eq [abs_def])

lemma crc32c_append: "crc32c_seed (crc32c_seed seed a) b = crc32c_seed seed (a @ b)"
  by (simp add: crc32c_seed_def crc_loop_bytes)

lemma xor_eq_zero: "a XOR b = (0 :: 'a::len word) \<longleftrightarrow> a = b"
proof
  assume "a XOR b = 0"
  then have "a XOR (a XOR b) = a" by simp
  then show "a = b" by (simp flip: xor.assoc)
qed simp

lemma crc_bit_eq_0: "crc_bit x = 0 \<Longrightarrow> x = 0"
proof -
  assume z: "crc_bit x = 0"
  have low: "\<not> bit x 0"
  proof
    assume "bit x 0"
    then have "drop_bit 1 x = kPoly" using z by (simp add: crc_bit_alt xor_eq_zero del: bit_0)
    then have "bit (drop_bit 1 x) 31" by (simp add: kPoly_def bit_simps)
    then show False by (auto simp: bit_simps dest: bit_imp_le_length)
  qed
  then have "drop_bit 1 x = 0" using z by (simp add: crc_bit_alt)
  then have up: "\<not> bit x (Suc k)" for k using bit_drop_bit_eq [of 1 x] by (simp add: fun_eq_iff)
  show "x = 0"
  proof (rule bit_word_eqI)
    fix n show "bit x n = bit 0 n" using low up by (cases n) simp_all
  qed
qed

lemma crc_bit_inj: "inj (crc_bit ^^ n)"
proof -
  have "a = b" if "crc_bit a = crc_bit b" for a b
    using that crc_bit_eq_0 [of "a XOR b"] by (simp add: crc_bit_xor xor_eq_zero)
  then have "inj crc_bit" by (rule injI)
  then show ?thesis by (rule inj_fn)
qed

lemma crc_bytes_inj: "foldl crc_byte c p = foldl crc_byte d p \<Longrightarrow> c = d"
proof (induction p arbitrary: c d)
  case (Cons b p)
  have "crc_byte c b = crc_byte d b" using Cons.IH Cons.prems by simp
  then have "(crc_bit ^^ 8) (c XOR ucast b) = (crc_bit ^^ 8) (d XOR ucast b)"
    by (simp add: crc_byte_eq)
  then have "c XOR ucast b = d XOR ucast b" by (rule injD [OF crc_bit_inj])
  then have "(c XOR ucast b) XOR ucast b = (d XOR ucast b) XOR ucast b" by simp
  then show ?case by (simp add: xor.assoc)
qed simp

text \<open>Four message bytes enter the register as one 32-bit word.\<close>

lemma crc_bytes4:
  "foldl crc_byte c [p0, p1, p2, p3] = (crc_bit ^^ 32) (c XOR load_u32 [p0, p1, p2, p3] 0)"
proof -
  let ?p = "[p0, p1, p2, p3]"
  let ?w = "load_u32 ?p 0"
  have pow: "(crc_bit ^^ 8) ((crc_bit ^^ n) x) = (crc_bit ^^ (8 + n)) x" for n x
    by (simp add: funpow_add)
  have bits: "n < 8 \<Longrightarrow> i < 4 \<Longrightarrow> bit ?w (8 * i + n) = bit (?p ! i) n" for n i
    by (simp add: load_u32_def le_fold_bit)
  have B: "n < 8 \<Longrightarrow> bit ?w n = bit p0 n" "n < 8 \<Longrightarrow> bit ?w (8 + n) = bit p1 n"
    "n < 8 \<Longrightarrow> bit ?w (16 + n) = bit p2 n" "n < 8 \<Longrightarrow> bit ?w (24 + n) = bit p3 n" for n
    using bits [of n 0] bits [of n 1] bits [of n 2] bits [of n 3] by simp_all
  have w: "?w AND 0xFF = ucast p0" "drop_bit 8 ?w AND 0xFF = ucast p1"
      "drop_bit 16 ?w AND 0xFF = ucast p2" "drop_bit 24 ?w AND 0xFF = ucast p3"
    by (rule byte_extract; simp add: bit_simps B)+
  have "drop_bit 24 ?w AND 0xFF = drop_bit 24 ?w"
    unfolding ff_mask by (rule bit_word_eqI) (auto simp: bit_simps dest: bit_imp_le_length)
  then have "(crc_bit ^^ 32) ?w = (crc_bit ^^ 32) (ucast p0) XOR (crc_bit ^^ 24) (ucast p1) XOR
      (crc_bit ^^ 16) (ucast p2) XOR (crc_bit ^^ 8) (ucast p3)"
    using crc_split [of 24 ?w] crc_split [of 16 "drop_bit 8 ?w"] crc_split [of 8 "drop_bit 16 ?w"]
    by (simp add: w drop_bit_drop_bit)
  then show ?thesis by (simp add: crc_byte_eq crc_bit_pow_xor pow xor.assoc)
qed

lemma load_u32_byte:
  "n < 8 \<Longrightarrow> i < 4 \<Longrightarrow> bit (load_u32 src off) (8 * i + n) = bit (src ! (off + i)) n"
  by (simp add: load_u32_def le_fold_bit)

lemma load_u32_inj:
  assumes "length p = 4" "length q = 4" "load_u32 p 0 = load_u32 q 0"
  shows "p = q"
proof (rule nth_equalityI)
  fix i assume "i < length p"
  with assms have "n < 8 \<Longrightarrow> bit (p ! i) n = bit (q ! i) n" for n
    using load_u32_byte [of n i p 0] load_u32_byte [of n i q 0] by simp
  then show "p ! i = q ! i" by (intro bit_word_eqI) simp
qed (simp add: assms)

lemma crc_window4_inj:
  assumes "length p = 4" "length q = 4" "foldl crc_byte c p = foldl crc_byte c q"
  shows "p = q"
proof -
  have four: "foldl crc_byte c r = (crc_bit ^^ 32) (c XOR load_u32 r 0)" if "length r = 4" for r
    using that crc_bytes4 by (auto simp: length_Suc_conv eval_nat_numeral simp del: foldl.simps)
  have "c XOR load_u32 p 0 = c XOR load_u32 q 0"
    using assms four crc_bit_inj by (metis injD)
  then have "c XOR (c XOR load_u32 p 0) = c XOR (c XOR load_u32 q 0)" by simp
  then show ?thesis using assms load_u32_inj by (simp flip: xor.assoc)
qed

lemma crc_window_inj:
  assumes len: "length p = length q" "length p \<le> 4"
    and eq: "foldl crc_byte c p = foldl crc_byte c q"
  shows "p = q"
proof -
  let ?z = "replicate (4 - length p) (0 :: byte)"
  have "foldl crc_byte c (p @ ?z) = foldl crc_byte c (q @ ?z)" by (simp add: eq)
  then have "p @ ?z = q @ ?z" using len by (intro crc_window4_inj) auto
  then show ?thesis by simp
qed

section \<open>Checked arithmetic is exact\<close>

lemma unat_u64_lt: "unat (x :: u64) < 2 ^ 64"
  using unsigned_less [of x, where ?'a = nat] by simp

lemma unat_u64_max: "unat (- 1 :: u64) = 2 ^ 64 - 1"
  by (simp add: unsigned_minus_1_eq_mask mask_eq_exp_minus_1)

lemma checked_add_eq:
  "checked_add a b = (if unat a + unat b < 2 ^ 64 then Some (a + b) else None)"
proof -
  have "unat (- 1 - b) = 2 ^ 64 - 1 - unat b"
    using unat_sub [of b "- 1"] by (simp add: unat_u64_max)
  then have "a > - 1 - b \<longleftrightarrow> 2 ^ 64 \<le> unat a + unat b"
    using unat_u64_lt [of b] by (auto simp: word_less_nat_alt)
  then show ?thesis by (auto simp: checked_add_def)
qed

lemma checked_mul_eq:
  "checked_mul a b = (if unat a * unat b < 2 ^ 64 then Some (a * b) else None)"
proof (cases "a = 0")
  case False
  then have pos: "0 < unat a" by (simp add: unat_gt_0)
  have "unat (- 1 div a) = (2 ^ 64 - 1) div unat a"
    by (simp add: unat_div unat_u64_max)
  then have "b > - 1 div a \<longleftrightarrow> (2 ^ 64 - 1) div unat a < unat b"
    by (simp add: word_less_nat_alt)
  also have "\<dots> \<longleftrightarrow> \<not> unat a * unat b < 2 ^ 64"
    using pos by (auto simp: div_less_iff_less_mult mult.commute)
  finally show ?thesis using False by (simp add: checked_mul_def)
qed (simp add: checked_mul_def)

lemma checked_range_eq: "checked_range offset len extent \<longleftrightarrow> unat offset + unat len \<le> unat extent"
proof (cases "unat offset + unat len < 2 ^ 64")
  case True
  then show ?thesis
    by (simp add: checked_range_def checked_add_eq word_le_nat_alt unat_word_ariths)
next
  case False
  then show ?thesis using unat_u64_lt [of extent]
    by (simp add: checked_range_def checked_add_eq)
qed

section \<open>Stores and loads\<close>

lemma length_stores [simp]:
  "length (store_u8 a) = 1" "length (store_u16 b) = 2" "length (store_u32 c) = 4"
  "length (store_u64 d) = 8"
  by (simp_all add: store_u8_def store_u16_def store_u32_def store_u64_def)

lemma load_store_u16: "load_u16 (store_u16 v @ rest) 0 = v"
proof (rule bit_word_eqI)
  fix n assume "n < LENGTH(16)"
  then show "bit (load_u16 (store_u16 v @ rest) 0) n = bit v n"
    by (cases "n < 8") (auto simp: load_u16_def store_u16_def bit_simps)
qed

lemma load_store_u32: "load_u32 (store_u32 v @ rest) 0 = v"
proof (rule bit_word_eqI)
  fix n assume n: "n < LENGTH(32)"
  then have "n div 8 < 4" by auto
  then show "bit (load_u32 (store_u32 v @ rest) 0) n = bit v n" using n
    by (simp add: load_u32_def le_fold_bit store_u32_def nth_append bit_simps del: upt_rec_numeral)
qed

lemma load_store_u64: "load_u64 (store_u64 v @ rest) 0 = v"
proof (rule bit_word_eqI)
  fix n assume n: "n < LENGTH(64)"
  then have "n div 8 < 8" by auto
  then show "bit (load_u64 (store_u64 v @ rest) 0) n = bit v n" using n
    by (simp add: load_u64_bit store_u64_def nth_append bit_simps del: upt_rec_numeral)
qed

lemma fold_diff_eq_0:
  "foldl (\<lambda>diff i. diff OR (a ! i XOR b ! i)) 0 [0..<n] = (0 :: byte) \<longleftrightarrow> (\<forall>i < n. a ! i = b ! i)"
proof (induction n)
  case (Suc n)
  have "foldl (\<lambda>diff i. diff OR (a ! i XOR b ! i)) 0 [0..<Suc n] = (0 :: byte) \<longleftrightarrow>
      foldl (\<lambda>diff i. diff OR (a ! i XOR b ! i)) 0 [0..<n] = (0 :: byte) \<and> a ! n XOR b ! n = 0"
    by (simp only: upt_Suc_append [OF le0] foldl_append foldl_Cons foldl_Nil or_eq_0_iff)
  also have "\<dots> \<longleftrightarrow> (\<forall>i < Suc n. a ! i = b ! i)"
    by (simp only: Suc xor_eq_zero less_Suc_eq) blast
  finally show ?case .
qed simp

lemma digest_equal_iff: "digest_equal a b \<longleftrightarrow> a = b"
  unfolding digest_equal_def fold_diff_eq_0 by (auto intro: nth_equalityI)

section \<open>SHA-256: chunking and padding\<close>

lemma sha_blocks_short: "length data < 64 \<Longrightarrow> sha_blocks st data = (st, data)"
  by (simp add: sha_blocks.simps)

lemma sha_blocks_block:
  "length block = 64 \<Longrightarrow> sha_blocks st (block @ data) = sha_blocks (sha_compress st block) data"
  by (subst sha_blocks.simps) simp

lemma sha_blocks_rest: "sha_blocks st data = (st', r) \<Longrightarrow> length r < 64"
  by (induction st data arbitrary: st' r rule: sha_blocks.induct)
    (metis linorder_not_le prod.inject sha_blocks.simps)

lemma sha_blocks_append:
  "sha_blocks st data = (st', r) \<Longrightarrow> sha_blocks st (data @ ext) = sha_blocks st' (r @ ext)"
proof (induction st data rule: sha_blocks.induct)
  case (1 st data)
  show ?case
  proof (cases "64 \<le> length data")
    case True
    let ?b = "take 64 data"
    have "sha_blocks (sha_compress st ?b) (drop 64 data) = (st', r)"
      using 1(2) True by (subst (asm) sha_blocks.simps) simp
    from 1(1) [OF True this]
    have "sha_blocks (sha_compress st ?b) (drop 64 data @ ext) = sha_blocks st' (r @ ext)" .
    moreover have "sha_blocks st (?b @ drop 64 data @ ext) =
        sha_blocks (sha_compress st ?b) (drop 64 data @ ext)"
      by (rule sha_blocks_block) (use True in simp)
    ultimately show ?thesis by (metis append.assoc append_take_drop_id)
  next
    case False
    then show ?thesis using 1(2) by (simp add: sha_blocks_short)
  qed
qed

text \<open>\<open>update\<close> absorbs the buffered bytes followed by the new ones.\<close>

lemma sha256_update_eq:
  assumes "length (sha_buffer s) < 64"
  shows "sha256_update s data =
    (let (st, r) = sha_blocks (sha_state s) (sha_buffer s @ data)
     in \<lparr>sha_state = st, sha_bit_length = sha_bit_length s + of_nat (length data) * 8, sha_buffer = r\<rparr>)"
proof (cases "sha_buffer s = []")
  case True
  then show ?thesis by (simp add: sha256_update_def Let_def)
next
  case False
  let ?fill = "min (64 - length (sha_buffer s)) (length data)"
  let ?buf = "sha_buffer s @ take ?fill data"
  show ?thesis
  proof (cases "length ?buf = 64")
    case True
    have "sha_blocks (sha_state s) (?buf @ drop ?fill data) =
        sha_blocks (sha_compress (sha_state s) ?buf) (drop ?fill data)"
      by (rule sha_blocks_block) (rule True)
    then show ?thesis using False True by (simp add: sha256_update_def Let_def split: prod.splits)
  next
    case nfull: False
    then have all: "?fill = length data" using assms by (auto simp: min_def split: if_splits)
    then show ?thesis using False nfull assms
      by (auto simp: sha256_update_def Let_def sha_blocks_short split: prod.splits)
  qed
qed

lemma sha256_update_append:
  assumes "length (sha_buffer s) < 64"
  shows "sha256_update (sha256_update s a) b = sha256_update s (a @ b)"
proof -
  obtain st r where A: "sha_blocks (sha_state s) (sha_buffer s @ a) = (st, r)" by fastforce
  then have "length r < 64" by (rule sha_blocks_rest)
  then show ?thesis
    using A assms sha_blocks_append [OF A, of b]
    by (simp add: sha256_update_eq Let_def algebra_simps split: prod.splits)
qed

text \<open>The standard's definition: pad the whole message, then compress block by block.\<close>

definition sha_pad :: "bytes \<Rightarrow> bytes" where
  "sha_pad data =
     (let r = length data mod 64;
          z = (if r < 56 then 55 - r else 119 - r)
      in data @ [0x80] @ replicate z 0 @ be_bytes_u64 (of_nat (length data) * 8))"

definition sha256_spec :: "bytes \<Rightarrow> bytes" where
  "sha256_spec data = sha_output (fst (sha_blocks (sha_state sha256_init) (sha_pad data)))"

lemma sha_blocks_mod: "sha_blocks st data = (st', r) \<Longrightarrow> length r = length data mod 64"
proof (induction st data rule: sha_blocks.induct)
  case (1 st data)
  show ?case
  proof (cases "64 \<le> length data")
    case True
    have "sha_blocks (sha_compress st (take 64 data)) (drop 64 data) = (st', r)"
      using 1(2) True by (subst (asm) sha_blocks.simps) simp
    from 1(1) [OF True this] show ?thesis using True by (simp add: le_mod_geq)
  next
    case False
    then show ?thesis using 1(2) by (simp add: sha_blocks_short)
  qed
qed

lemma length_be_bytes_u64 [simp]: "length (be_bytes_u64 v) = 8"
  by (simp add: be_bytes_u64_def)

lemma sha_blocks_one: "length block = 64 \<Longrightarrow> sha_blocks st block = (sha_compress st block, [])"
  using sha_blocks_block [of block st "[]"] by (simp add: sha_blocks_short)

lemma sha256_digest_eq_spec: "sha256_digest data = sha256_spec data"
proof -
  obtain st r where A: "sha_blocks (sha_state sha256_init) data = (st, r)" by fastforce
  then have r: "length r < 64" "length r = length data mod 64"
    by (rule sha_blocks_rest, rule sha_blocks_mod)
  let ?bits = "be_bytes_u64 (of_nat (length data) * 8)"
  have upd: "sha256_update sha256_init data =
      \<lparr>sha_state = st, sha_bit_length = of_nat (length data) * 8, sha_buffer = r\<rparr>"
    using A by (simp add: sha256_update_eq sha256_init_def)
  show ?thesis
  proof (cases "length r < 56")
    case True
    let ?last = "r @ [0x80] @ replicate (55 - length r) 0 @ ?bits"
    have "sha_blocks st ?last = (sha_compress st ?last, [])"
      by (rule sha_blocks_one) (use True in simp)
    then show ?thesis
      using True r sha_blocks_append [OF A]
      by (simp add: sha256_digest_def upd sha256_finish_def sha256_spec_def sha_pad_def Let_def)
  next
    case False
    let ?b1 = "r @ [0x80] @ replicate (63 - length r) 0" and ?b2 = "replicate 56 0 @ ?bits"
    have l: "length ?b1 = 64" "length ?b2 = 64" using False r by simp_all
    have "sha_blocks st (?b1 @ ?b2) = (sha_compress (sha_compress st ?b1) ?b2, [])"
      unfolding sha_blocks_block [OF l(1)] by (rule sha_blocks_one) (rule l(2))
    moreover have "replicate (119 - length r) 0 = replicate (63 - length r) 0 @ replicate 56 (0 :: byte)"
      using r by (simp flip: replicate_add)
    ultimately show ?thesis
      using False r sha_blocks_append [OF A]
      by (simp add: sha256_digest_def upd sha256_finish_def sha256_spec_def sha_pad_def Let_def)
  qed
qed

lemma crc32c_window:
  assumes "crc32c (pre @ w @ post) = crc32c (pre @ w' @ post)" "length w = length w'" "length w \<le> 4"
  shows "w = w'"
proof -
  have "foldl crc_byte (foldl crc_byte (foldl crc_byte (NOT 0) pre) w) post =
      foldl crc_byte (foldl crc_byte (foldl crc_byte (NOT 0) pre) w') post"
    using assms(1) by (simp add: crc32c_def crc32c_seed_def crc_loop_bytes)
  then have "foldl crc_byte (foldl crc_byte (NOT 0) pre) w = foldl crc_byte (foldl crc_byte (NOT 0) pre) w'"
    by (rule crc_bytes_inj)
  then show ?thesis using crc_window_inj assms(2,3) by blast
qed

section \<open>Properties\<close>

text \<open>C30. The slicing-by-eight CRC loop with its generated tables computes the bit-serial CRC-32C
  of the message, for every seed and every length; and a checksum continued from an earlier
  checksum is the checksum of the concatenation.\<close>

theorem crc32c_matches_reference:
  "crc32c_seed seed data = crc32c_reference seed data \<and>
   crc32c_seed (crc32c_seed seed data) more_data = crc32c_seed seed (data @ more_data)"
  by (simp only: crc32c_eq_reference [symmetric] crc32c_append simp_thms)

text \<open>C31. CRC-32C detects every corruption confined to four consecutive bytes: replacing a window
  of at most four bytes by a different window of the same length always changes the checksum.\<close>

theorem crc32c_detects_bursts:
  assumes "length w = length w'" and "length w \<le> 4" and "w \<noteq> w'"
  shows "crc32c (pre @ w @ post) \<noteq> crc32c (pre @ w' @ post)"
  using crc32c_window [of pre w post w'] assms by auto

theorem crc32c_detects_bursts_witness:
  "crc32c ([1, 2] @ [3, 4] @ [5]) \<noteq> crc32c ([1, 2] @ [3, 5] @ [5])"
  by (rule crc32c_detects_bursts) simp_all


text \<open>C33. The overflow-checked helpers are exact: a sum or product is returned just when it fits in
  64 bits, and a range is accepted just when its end, computed without wrap-around, lies within the
  extent.\<close>

theorem checked_arithmetic_exact:
  "checked_add a b = (if unat a + unat b < 2 ^ 64 then Some (a + b) else None) \<and>
   checked_mul a b = (if unat a * unat b < 2 ^ 64 then Some (a * b) else None) \<and>
   (checked_range a b c \<longleftrightarrow> unat a + unat b \<le> unat c)"
  using checked_add_eq checked_mul_eq checked_range_eq by blast

end
