(* ===== verification/Status.thy ===== *)
theory Status
  imports Prelude
begin

text \<open>
  Status codes and the result carrier of \<^verbatim>\<open>include/coherence/status.hpp\<close> and
  \<^verbatim>\<open>src/status.cpp\<close>.  A \<open>Status\<close> is its code and a \<open>Result<T>\<close> is a sum whose left side is
  the code of the failure: the message and detail texts of a status are diagnostics that no
  branch of the program reads, and are not modelled.
\<close>

section \<open>Codes\<close>

datatype (plugins only: code) StatusCode = Ok | InvalidArgument | InvalidState | InvalidTransition | Unsupported
  | CapacityExceeded | ResourceExhausted | DuplicateIdentity | UnknownDomain | UnknownObject
  | UnknownRegion | UnknownParticipant | UnknownPolicy | UnknownPublication
  | UnknownInvalidation | UnknownSyncOperation | UnknownRequest | StaleEpoch | StaleBoot
  | StaleObjectGeneration | StaleRegionGeneration | StaleReplicaGeneration | StaleOwnership
  | StalePolicy | StalePublication | StaleInvalidation | StaleSyncOperation | StaleSession
  | ReplayedRequest | NotAuthoritative | ReadNotCurrent | WriteConflict
  | ExclusiveWriterConflict | NotWriteAuthorized | Fenced | Retired | SyncRequired
  | RevalidationRequired | InvalidationOutstanding | EvidenceMissing | EvidenceStale
  | DirtyUnpublished | DirtyLost | RecoveryRequired | Quiescing | ShuttingDown
  | OutcomeUnknown | ContentMismatch | IntegrityFailure | CorruptionDetected
  | TruncatedInput | TrailingGarbage | OversizedInput | ProtocolViolation
  | UnsupportedSchema | PersistenceFailure | TransportFailure | ConnectionClosed | Timeout
  | InternalInvariantViolation | InternalError

datatype StatusSeverity = Success | Transient | Conflict | Permanent | Integrity | Internal

primrec status_code_to_u16 :: "StatusCode \<Rightarrow> u16" where
  "status_code_to_u16 StatusCode.Ok = 0"
| "status_code_to_u16 StatusCode.InvalidArgument = 1"
| "status_code_to_u16 StatusCode.InvalidState = 2"
| "status_code_to_u16 StatusCode.InvalidTransition = 3"
| "status_code_to_u16 StatusCode.Unsupported = 4"
| "status_code_to_u16 StatusCode.CapacityExceeded = 5"
| "status_code_to_u16 StatusCode.ResourceExhausted = 6"
| "status_code_to_u16 StatusCode.DuplicateIdentity = 7"
| "status_code_to_u16 StatusCode.UnknownDomain = 20"
| "status_code_to_u16 StatusCode.UnknownObject = 21"
| "status_code_to_u16 StatusCode.UnknownRegion = 22"
| "status_code_to_u16 StatusCode.UnknownParticipant = 23"
| "status_code_to_u16 StatusCode.UnknownPolicy = 24"
| "status_code_to_u16 StatusCode.UnknownPublication = 25"
| "status_code_to_u16 StatusCode.UnknownInvalidation = 26"
| "status_code_to_u16 StatusCode.UnknownSyncOperation = 27"
| "status_code_to_u16 StatusCode.UnknownRequest = 28"
| "status_code_to_u16 StatusCode.StaleEpoch = 40"
| "status_code_to_u16 StatusCode.StaleBoot = 41"
| "status_code_to_u16 StatusCode.StaleObjectGeneration = 42"
| "status_code_to_u16 StatusCode.StaleRegionGeneration = 43"
| "status_code_to_u16 StatusCode.StaleReplicaGeneration = 44"
| "status_code_to_u16 StatusCode.StaleOwnership = 45"
| "status_code_to_u16 StatusCode.StalePolicy = 46"
| "status_code_to_u16 StatusCode.StalePublication = 47"
| "status_code_to_u16 StatusCode.StaleInvalidation = 48"
| "status_code_to_u16 StatusCode.StaleSyncOperation = 49"
| "status_code_to_u16 StatusCode.StaleSession = 50"
| "status_code_to_u16 StatusCode.ReplayedRequest = 51"
| "status_code_to_u16 StatusCode.NotAuthoritative = 60"
| "status_code_to_u16 StatusCode.ReadNotCurrent = 61"
| "status_code_to_u16 StatusCode.WriteConflict = 62"
| "status_code_to_u16 StatusCode.ExclusiveWriterConflict = 63"
| "status_code_to_u16 StatusCode.NotWriteAuthorized = 64"
| "status_code_to_u16 StatusCode.Fenced = 65"
| "status_code_to_u16 StatusCode.Retired = 66"
| "status_code_to_u16 StatusCode.SyncRequired = 80"
| "status_code_to_u16 StatusCode.RevalidationRequired = 81"
| "status_code_to_u16 StatusCode.InvalidationOutstanding = 82"
| "status_code_to_u16 StatusCode.EvidenceMissing = 83"
| "status_code_to_u16 StatusCode.EvidenceStale = 84"
| "status_code_to_u16 StatusCode.DirtyUnpublished = 85"
| "status_code_to_u16 StatusCode.DirtyLost = 86"
| "status_code_to_u16 StatusCode.RecoveryRequired = 87"
| "status_code_to_u16 StatusCode.Quiescing = 88"
| "status_code_to_u16 StatusCode.ShuttingDown = 89"
| "status_code_to_u16 StatusCode.OutcomeUnknown = 100"
| "status_code_to_u16 StatusCode.ContentMismatch = 101"
| "status_code_to_u16 StatusCode.IntegrityFailure = 120"
| "status_code_to_u16 StatusCode.CorruptionDetected = 121"
| "status_code_to_u16 StatusCode.TruncatedInput = 122"
| "status_code_to_u16 StatusCode.TrailingGarbage = 123"
| "status_code_to_u16 StatusCode.OversizedInput = 124"
| "status_code_to_u16 StatusCode.ProtocolViolation = 125"
| "status_code_to_u16 StatusCode.UnsupportedSchema = 126"
| "status_code_to_u16 StatusCode.PersistenceFailure = 127"
| "status_code_to_u16 StatusCode.TransportFailure = 128"
| "status_code_to_u16 StatusCode.ConnectionClosed = 129"
| "status_code_to_u16 StatusCode.Timeout = 130"
| "status_code_to_u16 StatusCode.InternalInvariantViolation = 140"
| "status_code_to_u16 StatusCode.InternalError = 141"

definition kCodes :: "(StatusCode \<times> string \<times> StatusSeverity) list" where
  "kCodes =
    [(StatusCode.Ok, ''ok'', Success),
     (StatusCode.InvalidArgument, ''invalid_argument'', Permanent),
     (StatusCode.InvalidState, ''invalid_state'', Conflict),
     (StatusCode.InvalidTransition, ''invalid_transition'', Conflict),
     (StatusCode.Unsupported, ''unsupported'', Permanent),
     (StatusCode.CapacityExceeded, ''capacity_exceeded'', Permanent),
     (StatusCode.ResourceExhausted, ''resource_exhausted'', Transient),
     (StatusCode.DuplicateIdentity, ''duplicate_identity'', Conflict),
     (StatusCode.UnknownDomain, ''unknown_domain'', Permanent),
     (StatusCode.UnknownObject, ''unknown_object'', Permanent),
     (StatusCode.UnknownRegion, ''unknown_region'', Permanent),
     (StatusCode.UnknownParticipant, ''unknown_participant'', Permanent),
     (StatusCode.UnknownPolicy, ''unknown_policy'', Permanent),
     (StatusCode.UnknownPublication, ''unknown_publication'', Permanent),
     (StatusCode.UnknownInvalidation, ''unknown_invalidation'', Permanent),
     (StatusCode.UnknownSyncOperation, ''unknown_sync_operation'', Permanent),
     (StatusCode.UnknownRequest, ''unknown_request'', Permanent),
     (StatusCode.StaleEpoch, ''stale_epoch'', Transient),
     (StatusCode.StaleBoot, ''stale_boot'', Transient),
     (StatusCode.StaleObjectGeneration, ''stale_object_generation'', Transient),
     (StatusCode.StaleRegionGeneration, ''stale_region_generation'', Transient),
     (StatusCode.StaleReplicaGeneration, ''stale_replica_generation'', Transient),
     (StatusCode.StaleOwnership, ''stale_ownership'', Transient),
     (StatusCode.StalePolicy, ''stale_policy'', Transient),
     (StatusCode.StalePublication, ''stale_publication'', Transient),
     (StatusCode.StaleInvalidation, ''stale_invalidation'', Transient),
     (StatusCode.StaleSyncOperation, ''stale_sync_operation'', Transient),
     (StatusCode.StaleSession, ''stale_session'', Transient),
     (StatusCode.ReplayedRequest, ''replayed_request'', Conflict),
     (StatusCode.NotAuthoritative, ''not_authoritative'', Conflict),
     (StatusCode.ReadNotCurrent, ''read_not_current'', Conflict),
     (StatusCode.WriteConflict, ''write_conflict'', Conflict),
     (StatusCode.ExclusiveWriterConflict, ''exclusive_writer_conflict'', Conflict),
     (StatusCode.NotWriteAuthorized, ''not_write_authorized'', Conflict),
     (StatusCode.Fenced, ''fenced'', Conflict),
     (StatusCode.Retired, ''retired'', Permanent),
     (StatusCode.SyncRequired, ''sync_required'', Conflict),
     (StatusCode.RevalidationRequired, ''revalidation_required'', Conflict),
     (StatusCode.InvalidationOutstanding, ''invalidation_outstanding'', Conflict),
     (StatusCode.EvidenceMissing, ''evidence_missing'', Conflict),
     (StatusCode.EvidenceStale, ''evidence_stale'', Conflict),
     (StatusCode.DirtyUnpublished, ''dirty_unpublished'', Conflict),
     (StatusCode.DirtyLost, ''dirty_lost'', Conflict),
     (StatusCode.RecoveryRequired, ''recovery_required'', Conflict),
     (StatusCode.Quiescing, ''quiescing'', Transient),
     (StatusCode.ShuttingDown, ''shutting_down'', Transient),
     (StatusCode.OutcomeUnknown, ''outcome_unknown'', Transient),
     (StatusCode.ContentMismatch, ''content_mismatch'', Conflict),
     (StatusCode.IntegrityFailure, ''integrity_failure'', Integrity),
     (StatusCode.CorruptionDetected, ''corruption_detected'', Integrity),
     (StatusCode.TruncatedInput, ''truncated_input'', Integrity),
     (StatusCode.TrailingGarbage, ''trailing_garbage'', Integrity),
     (StatusCode.OversizedInput, ''oversized_input'', Permanent),
     (StatusCode.ProtocolViolation, ''protocol_violation'', Integrity),
     (StatusCode.UnsupportedSchema, ''unsupported_schema'', Permanent),
     (StatusCode.PersistenceFailure, ''persistence_failure'', Integrity),
     (StatusCode.TransportFailure, ''transport_failure'', Transient),
     (StatusCode.ConnectionClosed, ''connection_closed'', Transient),
     (StatusCode.Timeout, ''timeout'', Transient),
     (StatusCode.InternalInvariantViolation, ''internal_invariant_violation'', Internal),
     (StatusCode.InternalError, ''internal_error'', Internal)]"
section \<open>Classification\<close>

fun find_code :: "(StatusCode \<times> string \<times> StatusSeverity) list \<Rightarrow> StatusCode
    \<Rightarrow> (string \<times> StatusSeverity) option" where
  "find_code [] code = None"
| "find_code ((c, entry) # table) code = (if c = code then Some entry else find_code table code)"

definition status_code_name :: "StatusCode \<Rightarrow> string" where
  "status_code_name code =
     (case find_code kCodes code of Some entry \<Rightarrow> fst entry | None \<Rightarrow> ''unknown_status'')"

definition status_severity :: "StatusCode \<Rightarrow> StatusSeverity" where
  "status_severity code =
     (case find_code kCodes code of Some entry \<Rightarrow> snd entry | None \<Rightarrow> StatusSeverity.Internal)"

definition is_stale_code :: "StatusCode \<Rightarrow> bool" where
  "is_stale_code code =
     (case code of
        StatusCode.StaleEpoch \<Rightarrow> True
      | StatusCode.StaleBoot \<Rightarrow> True
      | StatusCode.StaleObjectGeneration \<Rightarrow> True
      | StatusCode.StaleRegionGeneration \<Rightarrow> True
      | StatusCode.StaleReplicaGeneration \<Rightarrow> True
      | StatusCode.StaleOwnership \<Rightarrow> True
      | StatusCode.StalePolicy \<Rightarrow> True
      | StatusCode.StalePublication \<Rightarrow> True
      | StatusCode.StaleInvalidation \<Rightarrow> True
      | StatusCode.StaleSyncOperation \<Rightarrow> True
      | StatusCode.StaleSession \<Rightarrow> True
      | _ \<Rightarrow> False)"

section \<open>Results\<close>

type_synonym 'a Result = "StatusCode + 'a"

section \<open>Facts\<close>

lemma stale_code_transient: "is_stale_code code \<Longrightarrow> status_severity code = StatusSeverity.Transient"
  by (cases code) (simp_all add: is_stale_code_def status_severity_def kCodes_def)

end
