(* ===== verification/Serialize.thy ===== *)
theory Serialize
  imports Bytes Status
begin

text \<open>
  \<open>ByteWriter\<close> and \<open>ByteReader\<close> of \<^verbatim>\<open>src/serialize.cpp\<close>.  A writer operation is the bytes it
  appends.  A reader is the bytes it has left: an operation returns the value and the bytes after
  it, or the failure that ended the decoding.  \<open>ReaderFailed\<close> is a failure of the reader itself
  (the source sets \<open>failed_\<close>), \<open>Refused\<close> a value the decoder refused (the source returns false
  and leaves \<open>failed_\<close> alone); \<open>ByteReader::status\<close> distinguishes the two.  Every decoder of
  the source returns at its first failure, which is what \<open>rbind\<close> does.

  The locale \<open>record_codec\<close> is the contract of an encoder/decoder pair: what was encoded decodes
  to itself and leaves the rest of the input untouched.  Injectivity, prefix-freeness and the
  treatment of collections are proved in it once.
\<close>

section \<open>Writer\<close>

definition w_u8 :: "u8 \<Rightarrow> bytes" where "w_u8 v = [v]"
definition w_u16 :: "u16 \<Rightarrow> bytes" where "w_u16 v = store_u16 v"
definition w_u32 :: "u32 \<Rightarrow> bytes" where "w_u32 v = store_u32 v"
definition w_u64 :: "u64 \<Rightarrow> bytes" where "w_u64 v = store_u64 v"

definition w_boolean :: "bool \<Rightarrow> bytes" where
  "w_boolean b = w_u8 (if b then 1 else 0)"

definition w_text :: "string \<Rightarrow> bytes" where
  "w_text s = w_u32 (of_nat (length s)) @ map of_char s"

definition w_blob :: "bytes \<Rightarrow> bytes" where
  "w_blob b = w_u64 (of_nat (length b)) @ b"

definition w_uuid :: "UInt128 \<Rightarrow> bytes" where
  "w_uuid v = w_u64 (high v) @ w_u64 (low v)"

section \<open>Reader\<close>

datatype read_error = ReaderFailed | Refused

type_synonym 'a reader = "bytes \<Rightarrow> read_error + 'a \<times> bytes"

definition rbind :: "read_error + 'a \<Rightarrow> ('a \<Rightarrow> read_error + 'b) \<Rightarrow> read_error + 'b" where
  "rbind m f = (case m of Inl e \<Rightarrow> Inl e | Inr x \<Rightarrow> f x)"

definition unless :: "bool \<Rightarrow> read_error \<Rightarrow> read_error + unit" where
  "unless bad e = (if bad then Inl e else Inr ())"

definition r_u8 :: "u8 reader" where
  "r_u8 r = (if length r < 1 then Inl ReaderFailed else Inr (hd r, tl r))"

definition r_u16 :: "u16 reader" where
  "r_u16 r = (if length r < 2 then Inl ReaderFailed else Inr (load_u16 r 0, drop 2 r))"

definition r_u32 :: "u32 reader" where
  "r_u32 r = (if length r < 4 then Inl ReaderFailed else Inr (load_u32 r 0, drop 4 r))"

definition r_u64 :: "u64 reader" where
  "r_u64 r = (if length r < 8 then Inl ReaderFailed else Inr (load_u64 r 0, drop 8 r))"

definition r_boolean :: "bool reader" where
  "r_boolean r =
     rbind (r_u8 r) (\<lambda>(raw, r).
     rbind (unless (raw > 1) ReaderFailed) (\<lambda>_.
     Inr (raw \<noteq> 0, r)))"

definition r_raw :: "nat \<Rightarrow> bytes reader" where
  "r_raw n r = (if length r < n then Inl ReaderFailed else Inr (take n r, drop n r))"

definition char_of_byte :: "byte \<Rightarrow> char" where
  "char_of_byte b = char_of (unat b)"

definition r_text :: "u32 \<Rightarrow> string reader" where
  "r_text max_length r =
     rbind (r_u32 r) (\<lambda>(len, r).
     rbind (unless (len > max_length) ReaderFailed) (\<lambda>_.
     rbind (unless (length r < unat len) ReaderFailed) (\<lambda>_.
     Inr (map char_of_byte (take (unat len) r), drop (unat len) r))))"

definition r_blob :: "u64 \<Rightarrow> bytes reader" where
  "r_blob max_length r =
     rbind (r_u64 r) (\<lambda>(len, r).
     rbind (unless (len > max_length) ReaderFailed) (\<lambda>_.
     rbind (unless (length r < unat len) ReaderFailed) (\<lambda>_.
     Inr (take (unat len) r, drop (unat len) r))))"

definition r_uuid :: "UInt128 reader" where
  "r_uuid r =
     rbind (r_u64 r) (\<lambda>(h, r).
     rbind (r_u64 r) (\<lambda>(l, r).
     Inr (UInt128 h l, r)))"

text \<open>\<open>ByteReader::status\<close> after a failed decode, and \<open>expect_end\<close> after a successful one.\<close>

definition reader_status :: "read_error \<Rightarrow> StatusCode" where
  "reader_status e = (case e of ReaderFailed \<Rightarrow> StatusCode.TruncatedInput | Refused \<Rightarrow> StatusCode.Ok)"

definition expect_end :: "bytes \<Rightarrow> StatusCode" where
  "expect_end r = (if r \<noteq> [] then StatusCode.TrailingGarbage else StatusCode.Ok)"

text \<open>The counted loops of the decoders.\<close>

fun r_repeat :: "nat \<Rightarrow> 'a reader \<Rightarrow> 'a list reader" where
  "r_repeat 0 dec r = Inr ([], r)"
| "r_repeat (Suc n) dec r =
     rbind (dec r) (\<lambda>(v, r).
     rbind (r_repeat n dec r) (\<lambda>(vs, r).
     Inr (v # vs, r)))"

section \<open>Reading back what was written\<close>

lemma rbind_simps [simp]: "rbind (Inl e) f = Inl e" "rbind (Inr x) f = f x"
  by (simp_all add: rbind_def)

lemma rbind_unless [codec_simps]: "\<not> bad \<Longrightarrow> rbind (unless bad e) f = f ()"
  by (simp add: unless_def)

lemma read_u8 [codec_simps]: "r_u8 (w_u8 v @ r) = Inr (v, r)"
  by (simp add: r_u8_def w_u8_def)

lemma read_u16 [codec_simps]: "r_u16 (w_u16 v @ r) = Inr (v, r)"
  by (simp add: r_u16_def w_u16_def load_store_u16)

lemma read_u32 [codec_simps]: "r_u32 (w_u32 v @ r) = Inr (v, r)"
  by (simp add: r_u32_def w_u32_def load_store_u32)

lemma read_u64 [codec_simps]: "r_u64 (w_u64 v @ r) = Inr (v, r)"
  by (simp add: r_u64_def w_u64_def load_store_u64)

lemma read_boolean [codec_simps]: "r_boolean (w_boolean b @ r) = Inr (b, r)"
  by (simp add: r_boolean_def w_boolean_def codec_simps)

lemma read_uuid [codec_simps]: "r_uuid (w_uuid v @ r) = Inr (v, r)"
  by (simp add: r_uuid_def w_uuid_def codec_simps)

lemma read_raw [codec_simps]: "length b = n \<Longrightarrow> r_raw n (b @ r) = Inr (b, r)"
  by (simp add: r_raw_def)

lemma unat_of_nat_le: "n \<le> unat (m :: 'a::len word) \<Longrightarrow> unat (of_nat n :: 'a word) = n"
proof -
  assume "n \<le> unat m"
  moreover have "unat m < 2 ^ LENGTH('a)" by (rule unsigned_less)
  ultimately have "n < 2 ^ LENGTH('a)" by (rule le_less_trans)
  then show ?thesis by (simp add: unat_of_nat)
qed

lemma char_of_byte_of_char [simp]: "char_of_byte (of_char c) = c"
proof -
  have c: "(of_char c :: nat) < 256" by (simp add: of_char_def)
  have "(of_char c :: byte) = of_nat (of_char c)" by (rule of_nat_of_char [symmetric])
  then have "unat (of_char c :: byte) = of_char c" using c by (simp only: unat_of_nat) simp
  then show ?thesis by (simp add: char_of_byte_def)
qed

lemma read_text [codec_simps]:
  "length s \<le> unat max_length \<Longrightarrow> r_text max_length (w_text s @ r) = Inr (s, r)"
  by (simp add: r_text_def w_text_def codec_simps unat_of_nat_le word_less_nat_alt comp_def)

lemma read_blob [codec_simps]:
  "length b \<le> unat max_length \<Longrightarrow> r_blob max_length (w_blob b @ r) = Inr (b, r)"
  by (simp add: r_blob_def w_blob_def codec_simps unat_of_nat_le word_less_nat_alt)

section \<open>The contract of a codec\<close>

locale record_codec =
  fixes enc :: "'a \<Rightarrow> bytes"
    and dec :: "'a reader"
    and ok :: "'a \<Rightarrow> bool"
  assumes decode_encode: "ok v \<Longrightarrow> dec (enc v @ r) = Inr (v, r)"
begin

lemma prefix_free: "ok v \<Longrightarrow> ok w \<Longrightarrow> enc v @ r = enc w @ s \<Longrightarrow> v = w \<and> r = s"
proof -
  assume ok: "ok v" "ok w" and eq: "enc v @ r = enc w @ s"
  have "Inr (v, r) = dec (enc w @ s)" unfolding eq [symmetric] using ok(1) by (rule decode_encode [symmetric])
  also have "\<dots> = Inr (w, s)" using ok(2) by (rule decode_encode)
  finally show ?thesis by simp
qed

lemma enc_inj: "ok v \<Longrightarrow> ok w \<Longrightarrow> enc v = enc w \<Longrightarrow> v = w"
  using prefix_free [of v w "[]" "[]"] by blast

lemma decode_all: "ok v \<Longrightarrow> dec (enc v) = Inr (v, [])"
  using decode_encode [of v "[]"] by simp

lemma repeat_encode:
  "(\<And>v. v \<in> set vs \<Longrightarrow> ok v) \<Longrightarrow> length vs = n \<Longrightarrow>
   r_repeat n dec (concat (map enc vs) @ r) = Inr (vs, r)"
  by (induction vs arbitrary: n) (auto simp: decode_encode)

end

interpretation u64_codec: record_codec w_u64 r_u64 "\<lambda>_. True"
  by unfold_locales (rule read_u64)

end
