(* ===== verification/Enums.thy ===== *)
theory Enums
  imports Prelude
begin

text \<open>
  The enumerations of \<^verbatim>\<open>include/coherence/enums.hpp\<close>, their token tables, validating
  parsers and numeric decoders (\<^verbatim>\<open>src/enums.cpp\<close>), and the transition tables.  The enumerator
  \<open>None\<close>, which would hide the constructor of \<open>option\<close>, is renamed in the three enumerations
  that have it.  An enumeration value of the model is always a declared member: the sources
  build enumeration values only from literals and from the validating decoders below.

  The interface of a table is the locale \<open>enum_table\<close>: the table is complete and its bytes
  distinct.  Every enumeration of the source is an interpretation of it, and the round trips of
  the codecs rest on the facts these interpretations give.
\<close>

section \<open>Enumerations\<close>

datatype MemoryDomain = Unknown | HostPageable | HostPinned | HostShared | AcceleratorLocal
  | CxlClass | PersistentMapped | Remote | Synthetic

datatype EvidenceClass = Unsupported | Synthetic | Real

datatype CoherenceState = Unknown | Invalid | Stale | Current | SyncRequired
  | RevalidationRequired | Dirty | Fenced | Retired

datatype ObjectLifecycle = Created | Active | Quiescing | RecoveryRequired | Retired

datatype RegionLifecycle = Registered | Active | Quiescing | Retired

datatype ParticipantLifecycle = Observed | Admitted | Active | Degraded | Fenced | Retired

datatype DomainLifecycle = Created | Active | Quiescing | RecoveryRequired | Retired

datatype ConsistencyModel = Unspecified | Strict | ReleaseAcquire | Snapshot | Eventual

datatype WriteOwnershipMode = Unspecified | SingleWriterExclusive | ReadOnlyObject
  | MultiWriterUnsupported

datatype PublicationDurability = Unspecified | Ephemeral | DurableMetadata

datatype ConflictBehavior = Unspecified | Reject | InvalidateReaders

datatype RecoveryPolicy = Unspecified | Conservative | CompleteDurablePending

datatype StaleReadPolicy = Unspecified | Never | Bounded | Always

datatype DirtyLossPolicy = Unspecified | ReportUnknown | ReportLost | RequireRecovery

datatype ReadOutcome = Unknown | ReadCurrent | ReadAfterSync | ReadStaleAllowed
  | ReadBlocked | Unsupported

datatype AuthorityMode = NoAuthority | SharedReaders | ExclusiveWriter | TransferPending
  | RevalidationRequired

datatype PublicationState = NoPublication | PendingDurable | Committed | Aborted
  | RecoveryRequired

datatype InvalidationState = Requested | Acknowledged | Superseded | Unknown

datatype DirtyCondition = Clean | DirtyUnpublished | DirtyPublished | DirtyLost
  | DirtyUnknown

datatype SyncOperationKind = Copy | Flush | Invalidate | Reload | Publish | Acquire
  | Release | Revalidate

datatype SyncState = Planned | Requested | InProgress | Completed | Failed | OutcomeUnknown
  | Cancelled

datatype DecisionKind = DomainCreate | ParticipantRegister | ObjectRegister | RegionRegister
  | ReadAcquire | WriteAcquire | MarkDirty | Publish | Invalidate | SyncBegin | SyncComplete
  | Release | Fence | Recovery | Audit | PolicyChange | RegionRetire | ObjectRetire
  | Shutdown | Revalidate | Recover

datatype EvidenceKind = NoEvidence | RuntimeObservation | ByteComparison | BackendCompletion
  | ProcessLifecycle | ExplicitAck | PersistedMetadata | HardwareQuery | SyntheticFixture

section \<open>Table lookups\<close>

fun lookup_token :: "('e \<times> string) list \<Rightarrow> 'e \<Rightarrow> string" where
  "lookup_token [] value = ''unknown''"
| "lookup_token (entry # table) value =
     (if fst entry = value then snd entry else lookup_token table value)"

fun lookup_value :: "('e \<times> string) list \<Rightarrow> string \<Rightarrow> 'e option" where
  "lookup_value [] token = None"
| "lookup_value (entry # table) token =
     (if snd entry = token then Some (fst entry) else lookup_value table token)"

text \<open>The cast of a raw byte to the enumeration is the byte's own value, so the test
  \<^verbatim>\<open>entry.first == candidate\<close> compares the entry's underlying value with the byte.\<close>

fun enum_from_u8_impl :: "('e \<Rightarrow> u8) \<Rightarrow> ('e \<times> string) list \<Rightarrow> u8 \<Rightarrow> 'e option" where
  "enum_from_u8_impl repr [] raw = None"
| "enum_from_u8_impl repr (entry # table) raw =
     (if repr (fst entry) = raw then Some (fst entry) else enum_from_u8_impl repr table raw)"

section \<open>Underlying values, tokens, parsers and decoders\<close>

primrec memory_domain_to_u8 :: "MemoryDomain \<Rightarrow> u8" where
  "memory_domain_to_u8 MemoryDomain.Unknown = 0"
| "memory_domain_to_u8 MemoryDomain.HostPageable = 1"
| "memory_domain_to_u8 MemoryDomain.HostPinned = 2"
| "memory_domain_to_u8 MemoryDomain.HostShared = 3"
| "memory_domain_to_u8 MemoryDomain.AcceleratorLocal = 4"
| "memory_domain_to_u8 MemoryDomain.CxlClass = 5"
| "memory_domain_to_u8 MemoryDomain.PersistentMapped = 6"
| "memory_domain_to_u8 MemoryDomain.Remote = 7"
| "memory_domain_to_u8 MemoryDomain.Synthetic = 8"

definition kMemoryDomain :: "(MemoryDomain \<times> string) list" where
  "kMemoryDomain =
    [(MemoryDomain.Unknown, ''unknown''),
     (MemoryDomain.HostPageable, ''host_pageable''),
     (MemoryDomain.HostPinned, ''host_pinned''),
     (MemoryDomain.HostShared, ''host_shared''),
     (MemoryDomain.AcceleratorLocal, ''accelerator_local''),
     (MemoryDomain.CxlClass, ''cxl_class''),
     (MemoryDomain.PersistentMapped, ''persistent_mapped''),
     (MemoryDomain.Remote, ''remote''),
     (MemoryDomain.Synthetic, ''synthetic'')]"

definition memory_domain_to_token :: "MemoryDomain \<Rightarrow> string" where
  "memory_domain_to_token = lookup_token kMemoryDomain"

definition parse_memory_domain :: "string \<Rightarrow> MemoryDomain option" where
  "parse_memory_domain = lookup_value kMemoryDomain"

definition memory_domain_from_u8 :: "u8 \<Rightarrow> MemoryDomain option" where
  "memory_domain_from_u8 = enum_from_u8_impl memory_domain_to_u8 kMemoryDomain"

primrec evidence_class_to_u8 :: "EvidenceClass \<Rightarrow> u8" where
  "evidence_class_to_u8 EvidenceClass.Unsupported = 0"
| "evidence_class_to_u8 EvidenceClass.Synthetic = 1"
| "evidence_class_to_u8 EvidenceClass.Real = 2"

definition kEvidenceClass :: "(EvidenceClass \<times> string) list" where
  "kEvidenceClass =
    [(EvidenceClass.Unsupported, ''unsupported''),
     (EvidenceClass.Synthetic, ''synthetic''),
     (EvidenceClass.Real, ''real'')]"

definition evidence_class_to_token :: "EvidenceClass \<Rightarrow> string" where
  "evidence_class_to_token = lookup_token kEvidenceClass"

definition parse_evidence_class :: "string \<Rightarrow> EvidenceClass option" where
  "parse_evidence_class = lookup_value kEvidenceClass"

definition evidence_class_from_u8 :: "u8 \<Rightarrow> EvidenceClass option" where
  "evidence_class_from_u8 = enum_from_u8_impl evidence_class_to_u8 kEvidenceClass"

primrec coherence_state_to_u8 :: "CoherenceState \<Rightarrow> u8" where
  "coherence_state_to_u8 CoherenceState.Unknown = 0"
| "coherence_state_to_u8 CoherenceState.Invalid = 1"
| "coherence_state_to_u8 CoherenceState.Stale = 2"
| "coherence_state_to_u8 CoherenceState.Current = 3"
| "coherence_state_to_u8 CoherenceState.SyncRequired = 4"
| "coherence_state_to_u8 CoherenceState.RevalidationRequired = 5"
| "coherence_state_to_u8 CoherenceState.Dirty = 6"
| "coherence_state_to_u8 CoherenceState.Fenced = 7"
| "coherence_state_to_u8 CoherenceState.Retired = 8"

definition kCoherenceState :: "(CoherenceState \<times> string) list" where
  "kCoherenceState =
    [(CoherenceState.Unknown, ''unknown''),
     (CoherenceState.Invalid, ''invalid''),
     (CoherenceState.Stale, ''stale''),
     (CoherenceState.Current, ''current''),
     (CoherenceState.SyncRequired, ''sync_required''),
     (CoherenceState.RevalidationRequired, ''revalidation_required''),
     (CoherenceState.Dirty, ''dirty''),
     (CoherenceState.Fenced, ''fenced''),
     (CoherenceState.Retired, ''retired'')]"

definition coherence_state_to_token :: "CoherenceState \<Rightarrow> string" where
  "coherence_state_to_token = lookup_token kCoherenceState"

definition parse_coherence_state :: "string \<Rightarrow> CoherenceState option" where
  "parse_coherence_state = lookup_value kCoherenceState"

definition coherence_state_from_u8 :: "u8 \<Rightarrow> CoherenceState option" where
  "coherence_state_from_u8 = enum_from_u8_impl coherence_state_to_u8 kCoherenceState"

primrec object_lifecycle_to_u8 :: "ObjectLifecycle \<Rightarrow> u8" where
  "object_lifecycle_to_u8 ObjectLifecycle.Created = 0"
| "object_lifecycle_to_u8 ObjectLifecycle.Active = 1"
| "object_lifecycle_to_u8 ObjectLifecycle.Quiescing = 2"
| "object_lifecycle_to_u8 ObjectLifecycle.RecoveryRequired = 3"
| "object_lifecycle_to_u8 ObjectLifecycle.Retired = 4"

definition kObjectLifecycle :: "(ObjectLifecycle \<times> string) list" where
  "kObjectLifecycle =
    [(ObjectLifecycle.Created, ''created''),
     (ObjectLifecycle.Active, ''active''),
     (ObjectLifecycle.Quiescing, ''quiescing''),
     (ObjectLifecycle.RecoveryRequired, ''recovery_required''),
     (ObjectLifecycle.Retired, ''retired'')]"

definition object_lifecycle_to_token :: "ObjectLifecycle \<Rightarrow> string" where
  "object_lifecycle_to_token = lookup_token kObjectLifecycle"

definition parse_object_lifecycle :: "string \<Rightarrow> ObjectLifecycle option" where
  "parse_object_lifecycle = lookup_value kObjectLifecycle"

definition object_lifecycle_from_u8 :: "u8 \<Rightarrow> ObjectLifecycle option" where
  "object_lifecycle_from_u8 = enum_from_u8_impl object_lifecycle_to_u8 kObjectLifecycle"

primrec region_lifecycle_to_u8 :: "RegionLifecycle \<Rightarrow> u8" where
  "region_lifecycle_to_u8 RegionLifecycle.Registered = 0"
| "region_lifecycle_to_u8 RegionLifecycle.Active = 1"
| "region_lifecycle_to_u8 RegionLifecycle.Quiescing = 2"
| "region_lifecycle_to_u8 RegionLifecycle.Retired = 3"

definition kRegionLifecycle :: "(RegionLifecycle \<times> string) list" where
  "kRegionLifecycle =
    [(RegionLifecycle.Registered, ''registered''),
     (RegionLifecycle.Active, ''active''),
     (RegionLifecycle.Quiescing, ''quiescing''),
     (RegionLifecycle.Retired, ''retired'')]"

definition region_lifecycle_to_token :: "RegionLifecycle \<Rightarrow> string" where
  "region_lifecycle_to_token = lookup_token kRegionLifecycle"

definition parse_region_lifecycle :: "string \<Rightarrow> RegionLifecycle option" where
  "parse_region_lifecycle = lookup_value kRegionLifecycle"

definition region_lifecycle_from_u8 :: "u8 \<Rightarrow> RegionLifecycle option" where
  "region_lifecycle_from_u8 = enum_from_u8_impl region_lifecycle_to_u8 kRegionLifecycle"

primrec participant_lifecycle_to_u8 :: "ParticipantLifecycle \<Rightarrow> u8" where
  "participant_lifecycle_to_u8 ParticipantLifecycle.Observed = 0"
| "participant_lifecycle_to_u8 ParticipantLifecycle.Admitted = 1"
| "participant_lifecycle_to_u8 ParticipantLifecycle.Active = 2"
| "participant_lifecycle_to_u8 ParticipantLifecycle.Degraded = 3"
| "participant_lifecycle_to_u8 ParticipantLifecycle.Fenced = 4"
| "participant_lifecycle_to_u8 ParticipantLifecycle.Retired = 5"

definition kParticipantLifecycle :: "(ParticipantLifecycle \<times> string) list" where
  "kParticipantLifecycle =
    [(ParticipantLifecycle.Observed, ''observed''),
     (ParticipantLifecycle.Admitted, ''admitted''),
     (ParticipantLifecycle.Active, ''active''),
     (ParticipantLifecycle.Degraded, ''degraded''),
     (ParticipantLifecycle.Fenced, ''fenced''),
     (ParticipantLifecycle.Retired, ''retired'')]"

definition participant_lifecycle_to_token :: "ParticipantLifecycle \<Rightarrow> string" where
  "participant_lifecycle_to_token = lookup_token kParticipantLifecycle"

definition parse_participant_lifecycle :: "string \<Rightarrow> ParticipantLifecycle option" where
  "parse_participant_lifecycle = lookup_value kParticipantLifecycle"

definition participant_lifecycle_from_u8 :: "u8 \<Rightarrow> ParticipantLifecycle option" where
  "participant_lifecycle_from_u8 = enum_from_u8_impl participant_lifecycle_to_u8 kParticipantLifecycle"

primrec domain_lifecycle_to_u8 :: "DomainLifecycle \<Rightarrow> u8" where
  "domain_lifecycle_to_u8 DomainLifecycle.Created = 0"
| "domain_lifecycle_to_u8 DomainLifecycle.Active = 1"
| "domain_lifecycle_to_u8 DomainLifecycle.Quiescing = 2"
| "domain_lifecycle_to_u8 DomainLifecycle.RecoveryRequired = 3"
| "domain_lifecycle_to_u8 DomainLifecycle.Retired = 4"

definition kDomainLifecycle :: "(DomainLifecycle \<times> string) list" where
  "kDomainLifecycle =
    [(DomainLifecycle.Created, ''created''),
     (DomainLifecycle.Active, ''active''),
     (DomainLifecycle.Quiescing, ''quiescing''),
     (DomainLifecycle.RecoveryRequired, ''recovery_required''),
     (DomainLifecycle.Retired, ''retired'')]"

definition domain_lifecycle_to_token :: "DomainLifecycle \<Rightarrow> string" where
  "domain_lifecycle_to_token = lookup_token kDomainLifecycle"

definition parse_domain_lifecycle :: "string \<Rightarrow> DomainLifecycle option" where
  "parse_domain_lifecycle = lookup_value kDomainLifecycle"

definition domain_lifecycle_from_u8 :: "u8 \<Rightarrow> DomainLifecycle option" where
  "domain_lifecycle_from_u8 = enum_from_u8_impl domain_lifecycle_to_u8 kDomainLifecycle"

primrec consistency_model_to_u8 :: "ConsistencyModel \<Rightarrow> u8" where
  "consistency_model_to_u8 ConsistencyModel.Unspecified = 0"
| "consistency_model_to_u8 ConsistencyModel.Strict = 1"
| "consistency_model_to_u8 ConsistencyModel.ReleaseAcquire = 2"
| "consistency_model_to_u8 ConsistencyModel.Snapshot = 3"
| "consistency_model_to_u8 ConsistencyModel.Eventual = 4"

definition kConsistencyModel :: "(ConsistencyModel \<times> string) list" where
  "kConsistencyModel =
    [(ConsistencyModel.Unspecified, ''unspecified''),
     (ConsistencyModel.Strict, ''strict''),
     (ConsistencyModel.ReleaseAcquire, ''release_acquire''),
     (ConsistencyModel.Snapshot, ''snapshot''),
     (ConsistencyModel.Eventual, ''eventual'')]"

definition consistency_model_to_token :: "ConsistencyModel \<Rightarrow> string" where
  "consistency_model_to_token = lookup_token kConsistencyModel"

definition parse_consistency_model :: "string \<Rightarrow> ConsistencyModel option" where
  "parse_consistency_model = lookup_value kConsistencyModel"

definition consistency_model_from_u8 :: "u8 \<Rightarrow> ConsistencyModel option" where
  "consistency_model_from_u8 = enum_from_u8_impl consistency_model_to_u8 kConsistencyModel"

primrec write_ownership_mode_to_u8 :: "WriteOwnershipMode \<Rightarrow> u8" where
  "write_ownership_mode_to_u8 WriteOwnershipMode.Unspecified = 0"
| "write_ownership_mode_to_u8 WriteOwnershipMode.SingleWriterExclusive = 1"
| "write_ownership_mode_to_u8 WriteOwnershipMode.ReadOnlyObject = 2"
| "write_ownership_mode_to_u8 WriteOwnershipMode.MultiWriterUnsupported = 3"

definition kWriteOwnership :: "(WriteOwnershipMode \<times> string) list" where
  "kWriteOwnership =
    [(WriteOwnershipMode.Unspecified, ''unspecified''),
     (WriteOwnershipMode.SingleWriterExclusive, ''single_writer_exclusive''),
     (WriteOwnershipMode.ReadOnlyObject, ''read_only_object''),
     (WriteOwnershipMode.MultiWriterUnsupported, ''multi_writer_unsupported'')]"

definition write_ownership_mode_to_token :: "WriteOwnershipMode \<Rightarrow> string" where
  "write_ownership_mode_to_token = lookup_token kWriteOwnership"

definition parse_write_ownership_mode :: "string \<Rightarrow> WriteOwnershipMode option" where
  "parse_write_ownership_mode = lookup_value kWriteOwnership"

primrec publication_durability_to_u8 :: "PublicationDurability \<Rightarrow> u8" where
  "publication_durability_to_u8 PublicationDurability.Unspecified = 0"
| "publication_durability_to_u8 PublicationDurability.Ephemeral = 1"
| "publication_durability_to_u8 PublicationDurability.DurableMetadata = 2"

definition kPublicationDurability :: "(PublicationDurability \<times> string) list" where
  "kPublicationDurability =
    [(PublicationDurability.Unspecified, ''unspecified''),
     (PublicationDurability.Ephemeral, ''ephemeral''),
     (PublicationDurability.DurableMetadata, ''durable_metadata'')]"

definition publication_durability_to_token :: "PublicationDurability \<Rightarrow> string" where
  "publication_durability_to_token = lookup_token kPublicationDurability"

definition parse_publication_durability :: "string \<Rightarrow> PublicationDurability option" where
  "parse_publication_durability = lookup_value kPublicationDurability"

primrec conflict_behavior_to_u8 :: "ConflictBehavior \<Rightarrow> u8" where
  "conflict_behavior_to_u8 ConflictBehavior.Unspecified = 0"
| "conflict_behavior_to_u8 ConflictBehavior.Reject = 1"
| "conflict_behavior_to_u8 ConflictBehavior.InvalidateReaders = 2"

definition kConflictBehavior :: "(ConflictBehavior \<times> string) list" where
  "kConflictBehavior =
    [(ConflictBehavior.Unspecified, ''unspecified''),
     (ConflictBehavior.Reject, ''reject''),
     (ConflictBehavior.InvalidateReaders, ''invalidate_readers'')]"

definition conflict_behavior_to_token :: "ConflictBehavior \<Rightarrow> string" where
  "conflict_behavior_to_token = lookup_token kConflictBehavior"

definition parse_conflict_behavior :: "string \<Rightarrow> ConflictBehavior option" where
  "parse_conflict_behavior = lookup_value kConflictBehavior"

primrec recovery_policy_to_u8 :: "RecoveryPolicy \<Rightarrow> u8" where
  "recovery_policy_to_u8 RecoveryPolicy.Unspecified = 0"
| "recovery_policy_to_u8 RecoveryPolicy.Conservative = 1"
| "recovery_policy_to_u8 RecoveryPolicy.CompleteDurablePending = 2"

definition kRecoveryPolicy :: "(RecoveryPolicy \<times> string) list" where
  "kRecoveryPolicy =
    [(RecoveryPolicy.Unspecified, ''unspecified''),
     (RecoveryPolicy.Conservative, ''conservative''),
     (RecoveryPolicy.CompleteDurablePending, ''complete_durable_pending'')]"

definition recovery_policy_to_token :: "RecoveryPolicy \<Rightarrow> string" where
  "recovery_policy_to_token = lookup_token kRecoveryPolicy"

definition parse_recovery_policy :: "string \<Rightarrow> RecoveryPolicy option" where
  "parse_recovery_policy = lookup_value kRecoveryPolicy"

primrec stale_read_policy_to_u8 :: "StaleReadPolicy \<Rightarrow> u8" where
  "stale_read_policy_to_u8 StaleReadPolicy.Unspecified = 0"
| "stale_read_policy_to_u8 StaleReadPolicy.Never = 1"
| "stale_read_policy_to_u8 StaleReadPolicy.Bounded = 2"
| "stale_read_policy_to_u8 StaleReadPolicy.Always = 3"

definition kStaleReadPolicy :: "(StaleReadPolicy \<times> string) list" where
  "kStaleReadPolicy =
    [(StaleReadPolicy.Unspecified, ''unspecified''),
     (StaleReadPolicy.Never, ''never''),
     (StaleReadPolicy.Bounded, ''bounded''),
     (StaleReadPolicy.Always, ''always'')]"

definition stale_read_policy_to_token :: "StaleReadPolicy \<Rightarrow> string" where
  "stale_read_policy_to_token = lookup_token kStaleReadPolicy"

definition parse_stale_read_policy :: "string \<Rightarrow> StaleReadPolicy option" where
  "parse_stale_read_policy = lookup_value kStaleReadPolicy"

primrec dirty_loss_policy_to_u8 :: "DirtyLossPolicy \<Rightarrow> u8" where
  "dirty_loss_policy_to_u8 DirtyLossPolicy.Unspecified = 0"
| "dirty_loss_policy_to_u8 DirtyLossPolicy.ReportUnknown = 1"
| "dirty_loss_policy_to_u8 DirtyLossPolicy.ReportLost = 2"
| "dirty_loss_policy_to_u8 DirtyLossPolicy.RequireRecovery = 3"

definition kDirtyLossPolicy :: "(DirtyLossPolicy \<times> string) list" where
  "kDirtyLossPolicy =
    [(DirtyLossPolicy.Unspecified, ''unspecified''),
     (DirtyLossPolicy.ReportUnknown, ''report_unknown''),
     (DirtyLossPolicy.ReportLost, ''report_lost''),
     (DirtyLossPolicy.RequireRecovery, ''require_recovery'')]"

definition dirty_loss_policy_to_token :: "DirtyLossPolicy \<Rightarrow> string" where
  "dirty_loss_policy_to_token = lookup_token kDirtyLossPolicy"

definition parse_dirty_loss_policy :: "string \<Rightarrow> DirtyLossPolicy option" where
  "parse_dirty_loss_policy = lookup_value kDirtyLossPolicy"

primrec read_outcome_to_u8 :: "ReadOutcome \<Rightarrow> u8" where
  "read_outcome_to_u8 ReadOutcome.Unknown = 0"
| "read_outcome_to_u8 ReadOutcome.ReadCurrent = 1"
| "read_outcome_to_u8 ReadOutcome.ReadAfterSync = 2"
| "read_outcome_to_u8 ReadOutcome.ReadStaleAllowed = 3"
| "read_outcome_to_u8 ReadOutcome.ReadBlocked = 4"
| "read_outcome_to_u8 ReadOutcome.Unsupported = 5"

definition kReadOutcome :: "(ReadOutcome \<times> string) list" where
  "kReadOutcome =
    [(ReadOutcome.Unknown, ''unknown''),
     (ReadOutcome.ReadCurrent, ''read_current''),
     (ReadOutcome.ReadAfterSync, ''read_after_sync''),
     (ReadOutcome.ReadStaleAllowed, ''read_stale_allowed''),
     (ReadOutcome.ReadBlocked, ''read_blocked''),
     (ReadOutcome.Unsupported, ''unsupported'')]"

definition read_outcome_to_token :: "ReadOutcome \<Rightarrow> string" where
  "read_outcome_to_token = lookup_token kReadOutcome"

definition read_outcome_from_u8 :: "u8 \<Rightarrow> ReadOutcome option" where
  "read_outcome_from_u8 = enum_from_u8_impl read_outcome_to_u8 kReadOutcome"

primrec authority_mode_to_u8 :: "AuthorityMode \<Rightarrow> u8" where
  "authority_mode_to_u8 AuthorityMode.NoAuthority = 0"
| "authority_mode_to_u8 AuthorityMode.SharedReaders = 1"
| "authority_mode_to_u8 AuthorityMode.ExclusiveWriter = 2"
| "authority_mode_to_u8 AuthorityMode.TransferPending = 3"
| "authority_mode_to_u8 AuthorityMode.RevalidationRequired = 4"

definition kAuthorityMode :: "(AuthorityMode \<times> string) list" where
  "kAuthorityMode =
    [(AuthorityMode.NoAuthority, ''none''),
     (AuthorityMode.SharedReaders, ''shared_readers''),
     (AuthorityMode.ExclusiveWriter, ''exclusive_writer''),
     (AuthorityMode.TransferPending, ''transfer_pending''),
     (AuthorityMode.RevalidationRequired, ''revalidation_required'')]"

definition authority_mode_to_token :: "AuthorityMode \<Rightarrow> string" where
  "authority_mode_to_token = lookup_token kAuthorityMode"

definition authority_mode_from_u8 :: "u8 \<Rightarrow> AuthorityMode option" where
  "authority_mode_from_u8 = enum_from_u8_impl authority_mode_to_u8 kAuthorityMode"

primrec publication_state_to_u8 :: "PublicationState \<Rightarrow> u8" where
  "publication_state_to_u8 PublicationState.NoPublication = 0"
| "publication_state_to_u8 PublicationState.PendingDurable = 1"
| "publication_state_to_u8 PublicationState.Committed = 2"
| "publication_state_to_u8 PublicationState.Aborted = 3"
| "publication_state_to_u8 PublicationState.RecoveryRequired = 4"

definition kPublicationState :: "(PublicationState \<times> string) list" where
  "kPublicationState =
    [(PublicationState.NoPublication, ''none''),
     (PublicationState.PendingDurable, ''pending_durable''),
     (PublicationState.Committed, ''committed''),
     (PublicationState.Aborted, ''aborted''),
     (PublicationState.RecoveryRequired, ''recovery_required'')]"

definition publication_state_to_token :: "PublicationState \<Rightarrow> string" where
  "publication_state_to_token = lookup_token kPublicationState"

definition publication_state_from_u8 :: "u8 \<Rightarrow> PublicationState option" where
  "publication_state_from_u8 = enum_from_u8_impl publication_state_to_u8 kPublicationState"

primrec invalidation_state_to_u8 :: "InvalidationState \<Rightarrow> u8" where
  "invalidation_state_to_u8 InvalidationState.Requested = 0"
| "invalidation_state_to_u8 InvalidationState.Acknowledged = 1"
| "invalidation_state_to_u8 InvalidationState.Superseded = 2"
| "invalidation_state_to_u8 InvalidationState.Unknown = 3"

definition kInvalidationState :: "(InvalidationState \<times> string) list" where
  "kInvalidationState =
    [(InvalidationState.Requested, ''requested''),
     (InvalidationState.Acknowledged, ''acknowledged''),
     (InvalidationState.Superseded, ''superseded''),
     (InvalidationState.Unknown, ''unknown'')]"

definition invalidation_state_to_token :: "InvalidationState \<Rightarrow> string" where
  "invalidation_state_to_token = lookup_token kInvalidationState"

definition invalidation_state_from_u8 :: "u8 \<Rightarrow> InvalidationState option" where
  "invalidation_state_from_u8 = enum_from_u8_impl invalidation_state_to_u8 kInvalidationState"

primrec dirty_condition_to_u8 :: "DirtyCondition \<Rightarrow> u8" where
  "dirty_condition_to_u8 DirtyCondition.Clean = 0"
| "dirty_condition_to_u8 DirtyCondition.DirtyUnpublished = 1"
| "dirty_condition_to_u8 DirtyCondition.DirtyPublished = 2"
| "dirty_condition_to_u8 DirtyCondition.DirtyLost = 3"
| "dirty_condition_to_u8 DirtyCondition.DirtyUnknown = 4"

definition kDirtyCondition :: "(DirtyCondition \<times> string) list" where
  "kDirtyCondition =
    [(DirtyCondition.Clean, ''clean''),
     (DirtyCondition.DirtyUnpublished, ''dirty_unpublished''),
     (DirtyCondition.DirtyPublished, ''dirty_published''),
     (DirtyCondition.DirtyLost, ''dirty_lost''),
     (DirtyCondition.DirtyUnknown, ''dirty_unknown'')]"

definition dirty_condition_to_token :: "DirtyCondition \<Rightarrow> string" where
  "dirty_condition_to_token = lookup_token kDirtyCondition"

definition dirty_condition_from_u8 :: "u8 \<Rightarrow> DirtyCondition option" where
  "dirty_condition_from_u8 = enum_from_u8_impl dirty_condition_to_u8 kDirtyCondition"

primrec sync_operation_kind_to_u8 :: "SyncOperationKind \<Rightarrow> u8" where
  "sync_operation_kind_to_u8 SyncOperationKind.Copy = 0"
| "sync_operation_kind_to_u8 SyncOperationKind.Flush = 1"
| "sync_operation_kind_to_u8 SyncOperationKind.Invalidate = 2"
| "sync_operation_kind_to_u8 SyncOperationKind.Reload = 3"
| "sync_operation_kind_to_u8 SyncOperationKind.Publish = 4"
| "sync_operation_kind_to_u8 SyncOperationKind.Acquire = 5"
| "sync_operation_kind_to_u8 SyncOperationKind.Release = 6"
| "sync_operation_kind_to_u8 SyncOperationKind.Revalidate = 7"

definition kSyncKind :: "(SyncOperationKind \<times> string) list" where
  "kSyncKind =
    [(SyncOperationKind.Copy, ''copy''),
     (SyncOperationKind.Flush, ''flush''),
     (SyncOperationKind.Invalidate, ''invalidate''),
     (SyncOperationKind.Reload, ''reload''),
     (SyncOperationKind.Publish, ''publish''),
     (SyncOperationKind.Acquire, ''acquire''),
     (SyncOperationKind.Release, ''release''),
     (SyncOperationKind.Revalidate, ''revalidate'')]"

definition sync_operation_kind_to_token :: "SyncOperationKind \<Rightarrow> string" where
  "sync_operation_kind_to_token = lookup_token kSyncKind"

definition sync_kind_from_u8 :: "u8 \<Rightarrow> SyncOperationKind option" where
  "sync_kind_from_u8 = enum_from_u8_impl sync_operation_kind_to_u8 kSyncKind"

primrec sync_state_to_u8 :: "SyncState \<Rightarrow> u8" where
  "sync_state_to_u8 SyncState.Planned = 0"
| "sync_state_to_u8 SyncState.Requested = 1"
| "sync_state_to_u8 SyncState.InProgress = 2"
| "sync_state_to_u8 SyncState.Completed = 3"
| "sync_state_to_u8 SyncState.Failed = 4"
| "sync_state_to_u8 SyncState.OutcomeUnknown = 5"
| "sync_state_to_u8 SyncState.Cancelled = 6"

definition kSyncState :: "(SyncState \<times> string) list" where
  "kSyncState =
    [(SyncState.Planned, ''planned''),
     (SyncState.Requested, ''requested''),
     (SyncState.InProgress, ''in_progress''),
     (SyncState.Completed, ''completed''),
     (SyncState.Failed, ''failed''),
     (SyncState.OutcomeUnknown, ''outcome_unknown''),
     (SyncState.Cancelled, ''cancelled'')]"

definition sync_state_to_token :: "SyncState \<Rightarrow> string" where
  "sync_state_to_token = lookup_token kSyncState"

definition sync_state_from_u8 :: "u8 \<Rightarrow> SyncState option" where
  "sync_state_from_u8 = enum_from_u8_impl sync_state_to_u8 kSyncState"

primrec decision_kind_to_u8 :: "DecisionKind \<Rightarrow> u8" where
  "decision_kind_to_u8 DecisionKind.DomainCreate = 0"
| "decision_kind_to_u8 DecisionKind.ParticipantRegister = 1"
| "decision_kind_to_u8 DecisionKind.ObjectRegister = 2"
| "decision_kind_to_u8 DecisionKind.RegionRegister = 3"
| "decision_kind_to_u8 DecisionKind.ReadAcquire = 4"
| "decision_kind_to_u8 DecisionKind.WriteAcquire = 5"
| "decision_kind_to_u8 DecisionKind.MarkDirty = 6"
| "decision_kind_to_u8 DecisionKind.Publish = 7"
| "decision_kind_to_u8 DecisionKind.Invalidate = 8"
| "decision_kind_to_u8 DecisionKind.SyncBegin = 9"
| "decision_kind_to_u8 DecisionKind.SyncComplete = 10"
| "decision_kind_to_u8 DecisionKind.Release = 11"
| "decision_kind_to_u8 DecisionKind.Fence = 12"
| "decision_kind_to_u8 DecisionKind.Recovery = 13"
| "decision_kind_to_u8 DecisionKind.Audit = 14"
| "decision_kind_to_u8 DecisionKind.PolicyChange = 15"
| "decision_kind_to_u8 DecisionKind.RegionRetire = 16"
| "decision_kind_to_u8 DecisionKind.ObjectRetire = 17"
| "decision_kind_to_u8 DecisionKind.Shutdown = 18"
| "decision_kind_to_u8 DecisionKind.Revalidate = 19"
| "decision_kind_to_u8 DecisionKind.Recover = 20"

definition kDecisionKind :: "(DecisionKind \<times> string) list" where
  "kDecisionKind =
    [(DecisionKind.DomainCreate, ''domain_create''),
     (DecisionKind.ParticipantRegister, ''participant_register''),
     (DecisionKind.ObjectRegister, ''object_register''),
     (DecisionKind.RegionRegister, ''region_register''),
     (DecisionKind.ReadAcquire, ''read_acquire''),
     (DecisionKind.WriteAcquire, ''write_acquire''),
     (DecisionKind.MarkDirty, ''mark_dirty''),
     (DecisionKind.Publish, ''publish''),
     (DecisionKind.Invalidate, ''invalidate''),
     (DecisionKind.SyncBegin, ''sync_begin''),
     (DecisionKind.SyncComplete, ''sync_complete''),
     (DecisionKind.Release, ''release''),
     (DecisionKind.Fence, ''fence''),
     (DecisionKind.Recovery, ''recovery''),
     (DecisionKind.Audit, ''audit''),
     (DecisionKind.PolicyChange, ''policy_change''),
     (DecisionKind.RegionRetire, ''region_retire''),
     (DecisionKind.ObjectRetire, ''object_retire''),
     (DecisionKind.Shutdown, ''shutdown''),
     (DecisionKind.Revalidate, ''revalidate''),
     (DecisionKind.Recover, ''recover'')]"

definition decision_kind_to_token :: "DecisionKind \<Rightarrow> string" where
  "decision_kind_to_token = lookup_token kDecisionKind"

definition decision_kind_from_u8 :: "u8 \<Rightarrow> DecisionKind option" where
  "decision_kind_from_u8 = enum_from_u8_impl decision_kind_to_u8 kDecisionKind"

primrec evidence_kind_to_u8 :: "EvidenceKind \<Rightarrow> u8" where
  "evidence_kind_to_u8 EvidenceKind.NoEvidence = 0"
| "evidence_kind_to_u8 EvidenceKind.RuntimeObservation = 1"
| "evidence_kind_to_u8 EvidenceKind.ByteComparison = 2"
| "evidence_kind_to_u8 EvidenceKind.BackendCompletion = 3"
| "evidence_kind_to_u8 EvidenceKind.ProcessLifecycle = 4"
| "evidence_kind_to_u8 EvidenceKind.ExplicitAck = 5"
| "evidence_kind_to_u8 EvidenceKind.PersistedMetadata = 6"
| "evidence_kind_to_u8 EvidenceKind.HardwareQuery = 7"
| "evidence_kind_to_u8 EvidenceKind.SyntheticFixture = 8"

definition kEvidenceKind :: "(EvidenceKind \<times> string) list" where
  "kEvidenceKind =
    [(EvidenceKind.NoEvidence, ''none''),
     (EvidenceKind.RuntimeObservation, ''runtime_observation''),
     (EvidenceKind.ByteComparison, ''byte_comparison''),
     (EvidenceKind.BackendCompletion, ''backend_completion''),
     (EvidenceKind.ProcessLifecycle, ''process_lifecycle''),
     (EvidenceKind.ExplicitAck, ''explicit_ack''),
     (EvidenceKind.PersistedMetadata, ''persisted_metadata''),
     (EvidenceKind.HardwareQuery, ''hardware_query''),
     (EvidenceKind.SyntheticFixture, ''synthetic_fixture'')]"

definition evidence_kind_to_token :: "EvidenceKind \<Rightarrow> string" where
  "evidence_kind_to_token = lookup_token kEvidenceKind"

definition parse_evidence_kind :: "string \<Rightarrow> EvidenceKind option" where
  "parse_evidence_kind = lookup_value kEvidenceKind"

definition evidence_kind_from_u8 :: "u8 \<Rightarrow> EvidenceKind option" where
  "evidence_kind_from_u8 = enum_from_u8_impl evidence_kind_to_u8 kEvidenceKind"

section \<open>Transition legality\<close>

definition is_legal_coherence_transition :: "CoherenceState \<Rightarrow> CoherenceState \<Rightarrow> bool" where
  "is_legal_coherence_transition source target =
    (if source = target then True
     else case source of
       CoherenceState.Unknown \<Rightarrow>
           target \<in> {CoherenceState.Invalid, CoherenceState.Stale, CoherenceState.Current,
             CoherenceState.SyncRequired, CoherenceState.RevalidationRequired,
             CoherenceState.Dirty, CoherenceState.Fenced, CoherenceState.Retired}
     | CoherenceState.Invalid \<Rightarrow>
           target \<in> {CoherenceState.Stale, CoherenceState.Current,
             CoherenceState.SyncRequired, CoherenceState.RevalidationRequired,
             CoherenceState.Fenced, CoherenceState.Retired, CoherenceState.Unknown}
     | CoherenceState.Stale \<Rightarrow>
           target \<in> {CoherenceState.Current, CoherenceState.Invalid,
             CoherenceState.SyncRequired, CoherenceState.RevalidationRequired,
             CoherenceState.Fenced, CoherenceState.Retired, CoherenceState.Dirty}
     | CoherenceState.Current \<Rightarrow>
           target \<in> {CoherenceState.Stale, CoherenceState.Invalid, CoherenceState.Dirty,
             CoherenceState.Fenced, CoherenceState.Retired,
             CoherenceState.RevalidationRequired}
     | CoherenceState.SyncRequired \<Rightarrow>
           target \<in> {CoherenceState.Current, CoherenceState.Stale, CoherenceState.Invalid,
             CoherenceState.RevalidationRequired, CoherenceState.Fenced,
             CoherenceState.Retired}
     | CoherenceState.RevalidationRequired \<Rightarrow>
           target \<in> {CoherenceState.Current, CoherenceState.Stale, CoherenceState.Invalid,
             CoherenceState.SyncRequired, CoherenceState.Fenced,
             CoherenceState.Retired, CoherenceState.Dirty}
     | CoherenceState.Dirty \<Rightarrow>
           target \<in> {CoherenceState.Current, CoherenceState.Stale, CoherenceState.Invalid,
             CoherenceState.Fenced, CoherenceState.Retired}
     | CoherenceState.Fenced \<Rightarrow>
           target \<in> {CoherenceState.Retired, CoherenceState.Invalid,
             CoherenceState.RevalidationRequired}
     | CoherenceState.Retired \<Rightarrow> False)"

definition is_legal_object_transition :: "ObjectLifecycle \<Rightarrow> ObjectLifecycle \<Rightarrow> bool" where
  "is_legal_object_transition source target =
    (if source = target then True
     else case source of
       ObjectLifecycle.Created \<Rightarrow>
           target \<in> {ObjectLifecycle.Active, ObjectLifecycle.Retired}
     | ObjectLifecycle.Active \<Rightarrow>
           target \<in> {ObjectLifecycle.Quiescing, ObjectLifecycle.Retired,
             ObjectLifecycle.RecoveryRequired}
     | ObjectLifecycle.Quiescing \<Rightarrow>
           target \<in> {ObjectLifecycle.Active, ObjectLifecycle.Retired,
             ObjectLifecycle.RecoveryRequired}
     | ObjectLifecycle.RecoveryRequired \<Rightarrow>
           target \<in> {ObjectLifecycle.Active, ObjectLifecycle.Retired}
     | ObjectLifecycle.Retired \<Rightarrow> False)"

definition is_legal_region_transition :: "RegionLifecycle \<Rightarrow> RegionLifecycle \<Rightarrow> bool" where
  "is_legal_region_transition source target =
    (if source = target then True
     else case source of
       RegionLifecycle.Registered \<Rightarrow>
           target \<in> {RegionLifecycle.Active, RegionLifecycle.Retired}
     | RegionLifecycle.Active \<Rightarrow>
           target \<in> {RegionLifecycle.Quiescing, RegionLifecycle.Retired}
     | RegionLifecycle.Quiescing \<Rightarrow>
           target \<in> {RegionLifecycle.Active, RegionLifecycle.Retired}
     | RegionLifecycle.Retired \<Rightarrow> False)"

definition is_legal_participant_transition :: "ParticipantLifecycle \<Rightarrow> ParticipantLifecycle \<Rightarrow> bool" where
  "is_legal_participant_transition source target =
    (if source = target then True
     else case source of
       ParticipantLifecycle.Observed \<Rightarrow>
           target \<in> {ParticipantLifecycle.Admitted, ParticipantLifecycle.Retired}
     | ParticipantLifecycle.Admitted \<Rightarrow>
           target \<in> {ParticipantLifecycle.Active, ParticipantLifecycle.Fenced,
             ParticipantLifecycle.Retired}
     | ParticipantLifecycle.Active \<Rightarrow>
           target \<in> {ParticipantLifecycle.Degraded, ParticipantLifecycle.Fenced,
             ParticipantLifecycle.Retired}
     | ParticipantLifecycle.Degraded \<Rightarrow>
           target \<in> {ParticipantLifecycle.Active, ParticipantLifecycle.Fenced,
             ParticipantLifecycle.Retired}
     | ParticipantLifecycle.Fenced \<Rightarrow>
           target \<in> {ParticipantLifecycle.Retired}
     | ParticipantLifecycle.Retired \<Rightarrow> False)"

definition is_legal_domain_transition :: "DomainLifecycle \<Rightarrow> DomainLifecycle \<Rightarrow> bool" where
  "is_legal_domain_transition source target =
    (if source = target then True
     else case source of
       DomainLifecycle.Created \<Rightarrow>
           target \<in> {DomainLifecycle.Active, DomainLifecycle.Retired}
     | DomainLifecycle.Active \<Rightarrow>
           target \<in> {DomainLifecycle.Quiescing, DomainLifecycle.RecoveryRequired,
             DomainLifecycle.Retired}
     | DomainLifecycle.Quiescing \<Rightarrow>
           target \<in> {DomainLifecycle.Active, DomainLifecycle.Retired}
     | DomainLifecycle.RecoveryRequired \<Rightarrow>
           target \<in> {DomainLifecycle.Active, DomainLifecycle.Retired}
     | DomainLifecycle.Retired \<Rightarrow> False)"

definition is_legal_sync_transition :: "SyncState \<Rightarrow> SyncState \<Rightarrow> bool" where
  "is_legal_sync_transition source target =
    (if source = target then True
     else case source of
       SyncState.Planned \<Rightarrow>
           target \<in> {SyncState.Requested, SyncState.Cancelled, SyncState.Failed}
     | SyncState.Requested \<Rightarrow>
           target \<in> {SyncState.InProgress, SyncState.Completed, SyncState.Failed,
             SyncState.Cancelled, SyncState.OutcomeUnknown}
     | SyncState.InProgress \<Rightarrow>
           target \<in> {SyncState.Completed, SyncState.Failed, SyncState.OutcomeUnknown,
             SyncState.Cancelled}
     | SyncState.Completed \<Rightarrow> False
     | SyncState.Failed \<Rightarrow>
           target \<in> {SyncState.Requested}
     | SyncState.OutcomeUnknown \<Rightarrow>
           target \<in> {SyncState.Completed, SyncState.Failed, SyncState.Cancelled}
     | SyncState.Cancelled \<Rightarrow> False)"

definition is_writable_state :: "CoherenceState \<Rightarrow> bool" where
  "is_writable_state state \<longleftrightarrow> state = CoherenceState.Current \<or> state = CoherenceState.Dirty"

definition is_current_state :: "CoherenceState \<Rightarrow> bool" where
  "is_current_state state \<longleftrightarrow> state = CoherenceState.Current"

definition is_readable_state :: "CoherenceState \<Rightarrow> bool" where
  "is_readable_state state =
     (case state of
        CoherenceState.Current \<Rightarrow> True
      | CoherenceState.Stale \<Rightarrow> True
      | CoherenceState.Dirty \<Rightarrow> True
      | _ \<Rightarrow> False)"

definition is_live_state :: "CoherenceState \<Rightarrow> bool" where
  "is_live_state state =
     (case state of
        CoherenceState.Retired \<Rightarrow> False
      | CoherenceState.Fenced \<Rightarrow> False
      | CoherenceState.Invalid \<Rightarrow> False
      | CoherenceState.Unknown \<Rightarrow> False
      | _ \<Rightarrow> True)"

definition is_authority_compatible_with_write :: "CoherenceState \<Rightarrow> bool" where
  "is_authority_compatible_with_write state \<longleftrightarrow>
     is_live_state state \<and> state \<noteq> CoherenceState.RevalidationRequired"

section \<open>The table interface\<close>

lemma lookup_token_mem: "v \<in> fst ` set t \<Longrightarrow> lookup_token t v \<in> snd ` set t"
  by (induction t) auto

lemma lookup_value_token:
  "distinct (map snd t) \<Longrightarrow> v \<in> fst ` set t \<Longrightarrow> lookup_value t (lookup_token t v) = Some v"
proof (induction t)
  case (Cons e t)
  show ?case
  proof (cases "fst e = v")
    case False
    then have v: "v \<in> fst ` set t" using Cons.prems by auto
    then have "snd e \<noteq> lookup_token t v" 
      using lookup_token_mem [OF v] Cons.prems(1) by (metis distinct.simps(2) list.map(2) list.set_map)
    then show ?thesis using False Cons.IH Cons.prems v by simp
  qed simp
qed simp

lemma lookup_value_SomeD: "lookup_value t s = Some v \<Longrightarrow> (v, s) \<in> set t"
  by (induction t) (auto split: if_splits)

lemma enum_from_u8_impl_SomeD:
  "enum_from_u8_impl r t b = Some v \<Longrightarrow> v \<in> fst ` set t \<and> r v = b"
  by (induction t) (auto split: if_splits)

lemma enum_from_u8_impl_mem:
  "distinct (map (\<lambda>e. r (fst e)) t) \<Longrightarrow> v \<in> fst ` set t \<Longrightarrow>
   enum_from_u8_impl r t (r v) = Some v"
proof (induction t)
  case (Cons e t)
  then show ?case by (cases "v \<in> fst ` set t") (auto simp: image_iff)
qed simp

locale enum_table =
  fixes table :: "('e \<times> string) list"
    and repr :: "'e \<Rightarrow> u8"
  assumes complete: "v \<in> fst ` set table"
    and distinct_tokens: "distinct (map snd table)"
    and distinct_repr: "distinct (map (\<lambda>e. repr (fst e)) table)"
begin

lemma value_of_token: "lookup_value table (lookup_token table v) = Some v"
  using distinct_tokens complete by (rule lookup_value_token)

lemma from_to_u8: "enum_from_u8_impl repr table (repr v) = Some v"
  using distinct_repr complete by (rule enum_from_u8_impl_mem)

lemma from_u8_iff: "enum_from_u8_impl repr table b = Some v \<longleftrightarrow> b = repr v"
  using from_to_u8 enum_from_u8_impl_SomeD by metis

lemma from_u8_rejects: "b \<notin> range repr \<Longrightarrow> enum_from_u8_impl repr table b = None"
  using from_u8_iff by (metis not_None_eq rangeI)

lemma token_inj: "lookup_token table v = lookup_token table w \<Longrightarrow> v = w"
  using value_of_token by (metis option.inject)

end

section \<open>Every enumeration of the source is such a table\<close>

interpretation memory_domain: enum_table kMemoryDomain memory_domain_to_u8
proof
  fix v :: MemoryDomain
  show "v \<in> fst ` set kMemoryDomain" by (cases v) (simp_all add: kMemoryDomain_def)
qed (simp_all add: kMemoryDomain_def)

interpretation evidence_class: enum_table kEvidenceClass evidence_class_to_u8
proof
  fix v :: EvidenceClass
  show "v \<in> fst ` set kEvidenceClass" by (cases v) (simp_all add: kEvidenceClass_def)
qed (simp_all add: kEvidenceClass_def)

interpretation coherence_state: enum_table kCoherenceState coherence_state_to_u8
proof
  fix v :: CoherenceState
  show "v \<in> fst ` set kCoherenceState" by (cases v) (simp_all add: kCoherenceState_def)
qed (simp_all add: kCoherenceState_def)

interpretation object_lifecycle: enum_table kObjectLifecycle object_lifecycle_to_u8
proof
  fix v :: ObjectLifecycle
  show "v \<in> fst ` set kObjectLifecycle" by (cases v) (simp_all add: kObjectLifecycle_def)
qed (simp_all add: kObjectLifecycle_def)

interpretation region_lifecycle: enum_table kRegionLifecycle region_lifecycle_to_u8
proof
  fix v :: RegionLifecycle
  show "v \<in> fst ` set kRegionLifecycle" by (cases v) (simp_all add: kRegionLifecycle_def)
qed (simp_all add: kRegionLifecycle_def)

interpretation participant_lifecycle: enum_table kParticipantLifecycle participant_lifecycle_to_u8
proof
  fix v :: ParticipantLifecycle
  show "v \<in> fst ` set kParticipantLifecycle" by (cases v) (simp_all add: kParticipantLifecycle_def)
qed (simp_all add: kParticipantLifecycle_def)

interpretation domain_lifecycle: enum_table kDomainLifecycle domain_lifecycle_to_u8
proof
  fix v :: DomainLifecycle
  show "v \<in> fst ` set kDomainLifecycle" by (cases v) (simp_all add: kDomainLifecycle_def)
qed (simp_all add: kDomainLifecycle_def)

interpretation consistency_model: enum_table kConsistencyModel consistency_model_to_u8
proof
  fix v :: ConsistencyModel
  show "v \<in> fst ` set kConsistencyModel" by (cases v) (simp_all add: kConsistencyModel_def)
qed (simp_all add: kConsistencyModel_def)

interpretation write_ownership_mode: enum_table kWriteOwnership write_ownership_mode_to_u8
proof
  fix v :: WriteOwnershipMode
  show "v \<in> fst ` set kWriteOwnership" by (cases v) (simp_all add: kWriteOwnership_def)
qed (simp_all add: kWriteOwnership_def)

interpretation publication_durability: enum_table kPublicationDurability publication_durability_to_u8
proof
  fix v :: PublicationDurability
  show "v \<in> fst ` set kPublicationDurability" by (cases v) (simp_all add: kPublicationDurability_def)
qed (simp_all add: kPublicationDurability_def)

interpretation conflict_behavior: enum_table kConflictBehavior conflict_behavior_to_u8
proof
  fix v :: ConflictBehavior
  show "v \<in> fst ` set kConflictBehavior" by (cases v) (simp_all add: kConflictBehavior_def)
qed (simp_all add: kConflictBehavior_def)

interpretation recovery_policy: enum_table kRecoveryPolicy recovery_policy_to_u8
proof
  fix v :: RecoveryPolicy
  show "v \<in> fst ` set kRecoveryPolicy" by (cases v) (simp_all add: kRecoveryPolicy_def)
qed (simp_all add: kRecoveryPolicy_def)

interpretation stale_read_policy: enum_table kStaleReadPolicy stale_read_policy_to_u8
proof
  fix v :: StaleReadPolicy
  show "v \<in> fst ` set kStaleReadPolicy" by (cases v) (simp_all add: kStaleReadPolicy_def)
qed (simp_all add: kStaleReadPolicy_def)

interpretation dirty_loss_policy: enum_table kDirtyLossPolicy dirty_loss_policy_to_u8
proof
  fix v :: DirtyLossPolicy
  show "v \<in> fst ` set kDirtyLossPolicy" by (cases v) (simp_all add: kDirtyLossPolicy_def)
qed (simp_all add: kDirtyLossPolicy_def)

interpretation read_outcome: enum_table kReadOutcome read_outcome_to_u8
proof
  fix v :: ReadOutcome
  show "v \<in> fst ` set kReadOutcome" by (cases v) (simp_all add: kReadOutcome_def)
qed (simp_all add: kReadOutcome_def)

interpretation authority_mode: enum_table kAuthorityMode authority_mode_to_u8
proof
  fix v :: AuthorityMode
  show "v \<in> fst ` set kAuthorityMode" by (cases v) (simp_all add: kAuthorityMode_def)
qed (simp_all add: kAuthorityMode_def)

interpretation publication_state: enum_table kPublicationState publication_state_to_u8
proof
  fix v :: PublicationState
  show "v \<in> fst ` set kPublicationState" by (cases v) (simp_all add: kPublicationState_def)
qed (simp_all add: kPublicationState_def)

interpretation invalidation_state: enum_table kInvalidationState invalidation_state_to_u8
proof
  fix v :: InvalidationState
  show "v \<in> fst ` set kInvalidationState" by (cases v) (simp_all add: kInvalidationState_def)
qed (simp_all add: kInvalidationState_def)

interpretation dirty_condition: enum_table kDirtyCondition dirty_condition_to_u8
proof
  fix v :: DirtyCondition
  show "v \<in> fst ` set kDirtyCondition" by (cases v) (simp_all add: kDirtyCondition_def)
qed (simp_all add: kDirtyCondition_def)

interpretation sync_operation_kind: enum_table kSyncKind sync_operation_kind_to_u8
proof
  fix v :: SyncOperationKind
  show "v \<in> fst ` set kSyncKind" by (cases v) (simp_all add: kSyncKind_def)
qed (simp_all add: kSyncKind_def)

interpretation sync_state: enum_table kSyncState sync_state_to_u8
proof
  fix v :: SyncState
  show "v \<in> fst ` set kSyncState" by (cases v) (simp_all add: kSyncState_def)
qed (simp_all add: kSyncState_def)

interpretation decision_kind: enum_table kDecisionKind decision_kind_to_u8
proof
  fix v :: DecisionKind
  show "v \<in> fst ` set kDecisionKind" by (cases v) (simp_all add: kDecisionKind_def)
qed (simp_all add: kDecisionKind_def)

interpretation evidence_kind: enum_table kEvidenceKind evidence_kind_to_u8
proof
  fix v :: EvidenceKind
  show "v \<in> fst ` set kEvidenceKind" by (cases v) (simp_all add: kEvidenceKind_def)
qed (simp_all add: kEvidenceKind_def)
end
