(* ===== verification/Policy.thy ===== *)
theory Policy
  imports Enums Status
begin

text \<open>
  Coherence policies (\<^verbatim>\<open>include/coherence/policy.hpp\<close>, \<^verbatim>\<open>src/policy.cpp\<close>): the policy record, its
  validation, and the canonical policies.  The text renderings \<open>render_policy\<close> and
  \<open>summarize_policy\<close> are output formatting and are not modelled.
\<close>

unbundle bit_operations_syntax

section \<open>The policy record\<close>

record CoherencePolicy =
  pol_id :: PolicyId
  pol_generation :: PolicyGeneration
  pol_name :: string
  pol_consistency :: ConsistencyModel
  pol_write_ownership :: WriteOwnershipMode
  pol_publication_durability :: PublicationDurability
  pol_conflict_behavior :: ConflictBehavior
  pol_recovery_policy :: RecoveryPolicy
  pol_stale_read_policy :: StaleReadPolicy
  pol_dirty_loss_policy :: DirtyLossPolicy
  pol_stale_read_bound_versions :: u64
  pol_evidence_max_age_operations :: u64
  pol_require_invalidation_acks_before_publication :: bool
  pol_require_sync_completion_for_currentness :: bool
  pol_allowed_domains_mask :: u32
  pol_require_content_fingerprint :: bool

text \<open>The member initialisers of the struct.\<close>

definition default_policy :: CoherencePolicy where
  "default_policy =
     \<lparr>pol_id = 0, pol_generation = 0, pol_name = [],
      pol_consistency = ConsistencyModel.Unspecified,
      pol_write_ownership = WriteOwnershipMode.Unspecified,
      pol_publication_durability = PublicationDurability.Unspecified,
      pol_conflict_behavior = ConflictBehavior.Unspecified,
      pol_recovery_policy = RecoveryPolicy.Unspecified,
      pol_stale_read_policy = StaleReadPolicy.Unspecified,
      pol_dirty_loss_policy = DirtyLossPolicy.Unspecified,
      pol_stale_read_bound_versions = 0, pol_evidence_max_age_operations = 0,
      pol_require_invalidation_acks_before_publication = True,
      pol_require_sync_completion_for_currentness = True,
      pol_allowed_domains_mask = 0xFFFFFFFF,
      pol_require_content_fingerprint = True\<rparr>"

definition allows_domain :: "CoherencePolicy \<Rightarrow> MemoryDomain \<Rightarrow> bool" where
  "allows_domain p d =
     (pol_allowed_domains_mask p AND push_bit (unat (memory_domain_to_u8 d)) 1 \<noteq> 0)"

section \<open>Validation\<close>

definition validate_policy :: "CoherencePolicy \<Rightarrow> StatusCode" where
  "validate_policy p =
     (if pol_consistency p = ConsistencyModel.Unspecified then StatusCode.InvalidArgument
      else if pol_write_ownership p = WriteOwnershipMode.Unspecified then StatusCode.InvalidArgument
      else if pol_publication_durability p = PublicationDurability.Unspecified
        then StatusCode.InvalidArgument
      else if pol_conflict_behavior p = ConflictBehavior.Unspecified then StatusCode.InvalidArgument
      else if pol_recovery_policy p = RecoveryPolicy.Unspecified then StatusCode.InvalidArgument
      else if pol_stale_read_policy p = StaleReadPolicy.Unspecified then StatusCode.InvalidArgument
      else if pol_dirty_loss_policy p = DirtyLossPolicy.Unspecified then StatusCode.InvalidArgument
      else if pol_write_ownership p = WriteOwnershipMode.MultiWriterUnsupported
        then StatusCode.Unsupported
      else if pol_stale_read_policy p = StaleReadPolicy.Bounded \<and> pol_stale_read_bound_versions p = 0
        then StatusCode.InvalidArgument
      else if pol_stale_read_policy p = StaleReadPolicy.Never
          \<and> pol_consistency p = ConsistencyModel.Eventual
        then StatusCode.InvalidArgument
      else if pol_allowed_domains_mask p = 0 then StatusCode.InvalidArgument
      else if pol_consistency p = ConsistencyModel.Strict
          \<and> pol_stale_read_policy p \<noteq> StaleReadPolicy.Never
        then StatusCode.InvalidArgument
      else if pol_require_content_fingerprint p = False
          \<and> pol_publication_durability p = PublicationDurability.DurableMetadata
          \<and> pol_consistency p = ConsistencyModel.Strict
        then StatusCode.InvalidArgument
      else StatusCode.Ok)"

section \<open>Canonical policies\<close>

definition strict_policy :: "string \<Rightarrow> CoherencePolicy" where
  "strict_policy name = default_policy
     \<lparr>pol_name := name,
      pol_consistency := ConsistencyModel.Strict,
      pol_write_ownership := WriteOwnershipMode.SingleWriterExclusive,
      pol_publication_durability := PublicationDurability.DurableMetadata,
      pol_conflict_behavior := ConflictBehavior.InvalidateReaders,
      pol_recovery_policy := RecoveryPolicy.CompleteDurablePending,
      pol_stale_read_policy := StaleReadPolicy.Never,
      pol_stale_read_bound_versions := 0,
      pol_dirty_loss_policy := DirtyLossPolicy.RequireRecovery,
      pol_evidence_max_age_operations := 0,
      pol_require_invalidation_acks_before_publication := True,
      pol_require_sync_completion_for_currentness := True,
      pol_require_content_fingerprint := True,
      pol_allowed_domains_mask := 0xFFFFFFFF\<rparr>"

definition release_acquire_policy :: "string \<Rightarrow> CoherencePolicy" where
  "release_acquire_policy name =
     (strict_policy name)\<lparr>pol_consistency := ConsistencyModel.ReleaseAcquire\<rparr>"

definition snapshot_policy :: "string \<Rightarrow> CoherencePolicy" where
  "snapshot_policy name = (strict_policy name)\<lparr>pol_consistency := ConsistencyModel.Snapshot\<rparr>"

definition eventual_policy :: "u64 \<Rightarrow> string \<Rightarrow> CoherencePolicy" where
  "eventual_policy stale_bound name = (strict_policy name)
     \<lparr>pol_consistency := ConsistencyModel.Eventual,
      pol_stale_read_policy := StaleReadPolicy.Bounded,
      pol_stale_read_bound_versions := stale_bound,
      pol_recovery_policy := RecoveryPolicy.Conservative\<rparr>"

definition make_policy :: "ConsistencyModel \<Rightarrow> string \<Rightarrow> CoherencePolicy" where
  "make_policy model name =
     (case model of
        ConsistencyModel.Strict \<Rightarrow> strict_policy (if name = [] then ''strict'' else name)
      | ConsistencyModel.ReleaseAcquire \<Rightarrow>
          release_acquire_policy (if name = [] then ''release_acquire'' else name)
      | ConsistencyModel.Snapshot \<Rightarrow> snapshot_policy (if name = [] then ''snapshot'' else name)
      | ConsistencyModel.Eventual \<Rightarrow> eventual_policy 8 (if name = [] then ''eventual'' else name)
      | ConsistencyModel.Unspecified \<Rightarrow>
          default_policy\<lparr>pol_name := (if name = [] then ''unspecified'' else name)\<rparr>)"

section \<open>What validation guarantees\<close>

lemmas canonical_policy_defs =
  strict_policy_def release_acquire_policy_def snapshot_policy_def eventual_policy_def default_policy_def

lemma validate_policy_single_writer:
  "validate_policy p = StatusCode.Ok \<Longrightarrow>
   pol_write_ownership p = WriteOwnershipMode.SingleWriterExclusive \<or>
   pol_write_ownership p = WriteOwnershipMode.ReadOnlyObject"
  by (cases "pol_write_ownership p") (auto simp: validate_policy_def split: if_splits)

lemma validate_policy_strict_never_stale:
  "validate_policy p = StatusCode.Ok \<Longrightarrow> pol_consistency p = ConsistencyModel.Strict \<Longrightarrow>
   pol_stale_read_policy p = StaleReadPolicy.Never"
  by (auto simp: validate_policy_def split: if_splits)

lemma validate_policy_bounded:
  "validate_policy p = StatusCode.Ok \<Longrightarrow> pol_stale_read_policy p = StaleReadPolicy.Bounded \<Longrightarrow>
   pol_stale_read_bound_versions p \<noteq> 0"
  by (auto simp: validate_policy_def split: if_splits)

text \<open>The canonical constructors: every model but \<open>Unspecified\<close> validates, the eventual policy
  exactly when its bound is non-zero, and an unspecified policy fails closed.\<close>

lemma validate_canonical:
  "validate_policy (strict_policy name) = StatusCode.Ok"
  "validate_policy (release_acquire_policy name) = StatusCode.Ok"
  "validate_policy (snapshot_policy name) = StatusCode.Ok"
  "validate_policy (eventual_policy b name) = (if b = 0 then StatusCode.InvalidArgument else StatusCode.Ok)"
  by (simp_all add: validate_policy_def canonical_policy_defs)

lemma make_policy_valid_iff:
  "validate_policy (make_policy model name) = StatusCode.Ok \<longleftrightarrow> model \<noteq> ConsistencyModel.Unspecified"
  by (cases model)
    (simp_all add: make_policy_def validate_canonical, simp add: validate_policy_def default_policy_def)

section \<open>Properties\<close>

text \<open>C35. Validation admits no policy under which two writers could coexist, no strict policy that
  permits stale reads and no bounded policy without a bound; and every canonical policy validates,
  while the unspecified one fails closed.\<close>

theorem validate_policy_sound:
  "(validate_policy p = StatusCode.Ok \<longrightarrow>
      pol_write_ownership p \<in> {WriteOwnershipMode.SingleWriterExclusive, WriteOwnershipMode.ReadOnlyObject} \<and>
      (pol_consistency p = ConsistencyModel.Strict \<longrightarrow> pol_stale_read_policy p = StaleReadPolicy.Never) \<and>
      (pol_stale_read_policy p = StaleReadPolicy.Bounded \<longrightarrow> pol_stale_read_bound_versions p \<noteq> 0)) \<and>
   (validate_policy (make_policy model name) = StatusCode.Ok \<longleftrightarrow> model \<noteq> ConsistencyModel.Unspecified)"
  using validate_policy_single_writer [of p] validate_policy_strict_never_stale [of p]
    validate_policy_bounded [of p] make_policy_valid_iff by blast

theorem validate_policy_sound_witness:
  "validate_policy (strict_policy ''p'') = StatusCode.Ok \<and>
   pol_write_ownership (strict_policy ''p'') \<in>
     {WriteOwnershipMode.SingleWriterExclusive, WriteOwnershipMode.ReadOnlyObject} \<and>
   pol_stale_read_policy (strict_policy ''p'') = StaleReadPolicy.Never"
  using validate_policy_sound [of "strict_policy ''p''"] validate_canonical(1)
  by (simp add: strict_policy_def)

end
