(* ===== verification/Evidence.thy ===== *)
theory Evidence
  imports Enums Status
begin

text \<open>
  Evidence records and their freshness assessment (\<^verbatim>\<open>include/coherence/evidence.hpp\<close>,
  \<^verbatim>\<open>src/evidence.cpp\<close>).  The rationale text of an assessment is a diagnostic and is not modelled.
\<close>

section \<open>Records\<close>

record EvidenceRecord =
  ev_id :: EvidenceId
  ev_generation :: EvidenceGeneration
  ev_kind :: EvidenceKind
  ev_evidence_class :: EvidenceClass
  ev_participant :: ParticipantId
  ev_boot :: ParticipantBootId
  ev_epoch :: CoordinatorEpoch
  ev_ownership_generation :: OwnershipGeneration
  ev_object :: ObjectId
  ev_object_generation :: ObjectGeneration
  ev_region :: RegionId
  ev_region_generation :: RegionGeneration
  ev_observed_version :: VersionId
  ev_observed_digest :: ContentDigest
  ev_observed_crc32c :: u32
  ev_sequence :: OperationSequence
  ev_process_local :: bool
  ev_note :: string

definition default_evidence :: EvidenceRecord where
  "default_evidence =
     \<lparr>ev_id = 0, ev_generation = 0, ev_kind = EvidenceKind.NoEvidence,
      ev_evidence_class = EvidenceClass.Unsupported, ev_participant = 0, ev_boot = 0, ev_epoch = 0,
      ev_ownership_generation = 0, ev_object = 0, ev_object_generation = 0, ev_region = 0,
      ev_region_generation = 0, ev_observed_version = 0, ev_observed_digest = 0,
      ev_observed_crc32c = 0, ev_sequence = 0, ev_process_local = False, ev_note = []\<rparr>"

datatype FreshnessVerdict = Fresh | Stale | Missing | Unsupported | RequiresRevalidation

record FreshnessAssessment =
  fa_verdict :: FreshnessVerdict
  fa_evidence :: EvidenceId
  fa_generation :: EvidenceGeneration
  fa_evidence_class :: EvidenceClass
  fa_reason :: StatusCode

definition fresh :: "FreshnessAssessment \<Rightarrow> bool" where
  "fresh a \<longleftrightarrow> fa_verdict a = FreshnessVerdict.Fresh"

record EvidenceContext =
  ec_current_epoch :: CoordinatorEpoch
  ec_live_boot :: ParticipantBootId
  ec_participant :: ParticipantId
  ec_current_sequence :: OperationSequence
  ec_max_age_operations :: u64
  ec_synthetic_domain :: bool

section \<open>Assessment\<close>

definition assess_evidence :: "EvidenceRecord \<Rightarrow> EvidenceContext \<Rightarrow> FreshnessAssessment" where
  "assess_evidence record context =
     (let out = (\<lambda>v reason. \<lparr>fa_verdict = v, fa_evidence = ev_id record,
                   fa_generation = ev_generation record,
                   fa_evidence_class = ev_evidence_class record, fa_reason = reason\<rparr>)
      in if ev_kind record = EvidenceKind.NoEvidence \<or> is_nil (ev_id record)
           then out FreshnessVerdict.Missing StatusCode.EvidenceMissing
         else if ev_evidence_class record = EvidenceClass.Unsupported
           then out FreshnessVerdict.Unsupported StatusCode.Unsupported
         else if ev_evidence_class record = EvidenceClass.Synthetic \<and> \<not> ec_synthetic_domain context
           then out FreshnessVerdict.Unsupported StatusCode.Unsupported
         else if ev_kind record = EvidenceKind.PersistedMetadata
           then out FreshnessVerdict.RequiresRevalidation StatusCode.RevalidationRequired
         else if ev_epoch record \<noteq> ec_current_epoch context
           then out FreshnessVerdict.Stale StatusCode.StaleEpoch
         else if ev_process_local record
             \<and> (is_nil (ev_boot record) \<or> is_nil (ec_live_boot context)
                 \<or> ev_boot record \<noteq> ec_live_boot context)
           then out FreshnessVerdict.Stale StatusCode.StaleBoot
         else if ev_sequence record > ec_current_sequence context
           then out FreshnessVerdict.Stale StatusCode.InternalInvariantViolation
         else if ec_max_age_operations context \<noteq> 0
             \<and> ec_current_sequence context - ev_sequence record > ec_max_age_operations context
           then out FreshnessVerdict.Stale StatusCode.EvidenceStale
         else out FreshnessVerdict.Fresh StatusCode.Ok)"

section \<open>When evidence is fresh\<close>

text \<open>The exact condition under which an observation supports a claim.\<close>

definition evidence_supports :: "EvidenceRecord \<Rightarrow> EvidenceContext \<Rightarrow> bool" where
  "evidence_supports record context \<longleftrightarrow>
     ev_kind record \<notin> {EvidenceKind.NoEvidence, EvidenceKind.PersistedMetadata} \<and>
     ev_id record \<noteq> 0 \<and>
     (ev_evidence_class record = EvidenceClass.Real \<or>
      ev_evidence_class record = EvidenceClass.Synthetic \<and> ec_synthetic_domain context) \<and>
     ev_epoch record = ec_current_epoch context \<and>
     (ev_process_local record \<longrightarrow> ev_boot record = ec_live_boot context \<and> ev_boot record \<noteq> 0) \<and>
     unat (ev_sequence record) \<le> unat (ec_current_sequence context) \<and>
     (ec_max_age_operations context = 0 \<or>
      unat (ec_current_sequence context)
        \<le> unat (ev_sequence record) + unat (ec_max_age_operations context))"

lemma fresh_iff_supports: "fresh (assess_evidence record context) \<longleftrightarrow> evidence_supports record context"
proof -
  have age: "ec_current_sequence context - ev_sequence record > m \<longleftrightarrow>
      unat (ev_sequence record) + unat m < unat (ec_current_sequence context)"
    if "ev_sequence record \<le> ec_current_sequence context" for m
    using that unat_sub [OF that] by (auto simp: word_less_nat_alt word_le_nat_alt)
  show ?thesis
    by (cases "ev_evidence_class record"; cases "ev_sequence record \<le> ec_current_sequence context")
      (auto simp: fresh_def assess_evidence_def evidence_supports_def Let_def age not_less
        word_le_nat_alt [symmetric])
qed

lemma fresh_reason_ok:
  "fa_reason (assess_evidence record context) = StatusCode.Ok \<longleftrightarrow> fresh (assess_evidence record context)"
  by (simp add: assess_evidence_def fresh_def Let_def)

section \<open>Properties\<close>


end
