(* ===== verification/Std_Map.thy ===== *)
theory Std_Map
  imports Prelude
begin

text \<open>
  \<^verbatim>\<open>std::map\<close> and \<^verbatim>\<open>std::set\<close> as the sources use them: an association list kept in strictly
  increasing key order, which is also the iteration order every loop of the engine relies on
  (\<open>lowest region identity first\<close>).  The lookup laws hold without the order invariant; the
  order invariant is a separate fact, preserved by every operation.  The locale \<open>key_map\<close> is
  the contract the engine's lemmas use, \<open>ordered_map\<close> adds the order and the size.
\<close>

type_synonym ('k, 'v) std_map = "('k \<times> 'v) list"

section \<open>Operations\<close>

text \<open>\<^verbatim>\<open>m[k] = v\<close> and \<^verbatim>\<open>insert_or_assign\<close>.\<close>

fun sm_put :: "'k::linorder \<Rightarrow> 'v \<Rightarrow> ('k, 'v) std_map \<Rightarrow> ('k, 'v) std_map" where
  "sm_put k v [] = [(k, v)]"
| "sm_put k v ((k', v') # m) =
     (if k < k' then (k, v) # (k', v') # m
      else if k = k' then (k, v) # m
      else (k', v') # sm_put k v m)"

text \<open>\<^verbatim>\<open>m.emplace(k, v)\<close>: no effect when the key is present.\<close>

definition sm_emplace :: "'k::linorder \<Rightarrow> 'v \<Rightarrow> ('k, 'v) std_map \<Rightarrow> ('k, 'v) std_map" where
  "sm_emplace k v m = (case map_of m k of None \<Rightarrow> sm_put k v m | Some _ \<Rightarrow> m)"

text \<open>\<^verbatim>\<open>m.erase(k)\<close>.\<close>

definition sm_erase :: "'k \<Rightarrow> ('k, 'v) std_map \<Rightarrow> ('k, 'v) std_map" where
  "sm_erase k m = filter (\<lambda>e. fst e \<noteq> k) m"

text \<open>A loop over the entries that mutates each mapped value in place.\<close>

definition sm_map :: "('k \<Rightarrow> 'v \<Rightarrow> 'w) \<Rightarrow> ('k, 'v) std_map \<Rightarrow> ('k, 'w) std_map" where
  "sm_map f m = map (\<lambda>e. (fst e, f (fst e) (snd e))) m"

text \<open>Mutating one mapped value found by key.\<close>

definition sm_update :: "'k::linorder \<Rightarrow> ('v \<Rightarrow> 'v) \<Rightarrow> ('k, 'v) std_map \<Rightarrow> ('k, 'v) std_map" where
  "sm_update k f m = (case map_of m k of None \<Rightarrow> m | Some v \<Rightarrow> sm_put k (f v) m)"

definition sm_values :: "('k, 'v) std_map \<Rightarrow> 'v list" where
  "sm_values m = map snd m"

definition sm_keys :: "('k, 'v) std_map \<Rightarrow> 'k list" where
  "sm_keys m = map fst m"

definition sm_sorted :: "('k::linorder, 'v) std_map \<Rightarrow> bool" where
  "sm_sorted m \<longleftrightarrow> sorted_wrt (<) (map fst m)"

text \<open>\<^verbatim>\<open>std::set::insert\<close> on an increasing list.\<close>

fun ss_insert :: "'k::linorder \<Rightarrow> 'k list \<Rightarrow> 'k list" where
  "ss_insert k [] = [k]"
| "ss_insert k (k' # s) =
     (if k < k' then k # k' # s else if k = k' then k' # s else k' # ss_insert k s)"

section \<open>Lookup laws\<close>

lemma map_of_sm_put [simp]: "map_of (sm_put k v m) = (map_of m)(k \<mapsto> v)"
  by (induction k v m rule: sm_put.induct) (auto simp: fun_eq_iff)

lemma map_of_sm_emplace [simp]:
  "map_of (sm_emplace k v m) j =
     (if j = k \<and> map_of m k = None then Some v else map_of m j)"
  by (auto simp: sm_emplace_def split: option.splits)

lemma map_of_sm_erase [simp]: "map_of (sm_erase k m) = (map_of m)(k := None)"
  unfolding sm_erase_def by (induction m) (auto simp: fun_eq_iff)

lemma map_of_sm_map [simp]: "map_of (sm_map f m) k = map_option (f k) (map_of m k)"
  unfolding sm_map_def by (induction m) auto

lemma map_of_sm_update [simp]:
  "map_of (sm_update k f m) j = (if j = k then map_option f (map_of m k) else map_of m j)"
  by (auto simp: sm_update_def split: option.splits)

lemma sm_values_iff_aux: "map_of m k = Some v \<Longrightarrow> v \<in> set (sm_values m)"
  unfolding sm_values_def by (force dest: map_of_SomeD)

lemma set_ss_insert [simp]: "set (ss_insert k s) = insert k (set s)"
  by (induction k s rule: ss_insert.induct) auto

section \<open>Order and size\<close>

lemma set_keys_sm_put: "fst ` set (sm_put k v m) = insert k (fst ` set m)"
  by (induction k v m rule: sm_put.induct) auto

lemma sm_sorted_Nil [simp]: "sm_sorted []"
  by (simp add: sm_sorted_def)

lemma sm_sorted_Cons: "sm_sorted (e # m) \<longleftrightarrow> (\<forall>j \<in> fst ` set m. fst e < j) \<and> sm_sorted m"
  by (auto simp: sm_sorted_def)

lemma sm_sorted_put: "sm_sorted m \<Longrightarrow> sm_sorted (sm_put k v m)"
proof (induction k v m rule: sm_put.induct)
  case (2 k v k' v' m)
  show ?case
  proof (cases "k < k'")
    case True
    with 2(2) show ?thesis by (auto simp: sm_sorted_Cons dest: less_trans)
  next
    case False
    with 2 show ?thesis by (auto simp: sm_sorted_Cons set_keys_sm_put simp del: set_map)
  qed
qed (simp add: sm_sorted_Cons)

lemma sm_sorted_erase: "sm_sorted m \<Longrightarrow> sm_sorted (sm_erase k m)"
  unfolding sm_sorted_def sm_erase_def by (induction m) auto

lemma sm_sorted_distinct: "sm_sorted m \<Longrightarrow> distinct (map fst m)"
  by (simp add: sm_sorted_def strict_sorted_iff)

lemma sm_sorted_map: "sm_sorted (sm_map f m) = sm_sorted m"
  by (simp add: sm_sorted_def sm_map_def comp_def)

lemma sm_values_iff: "sm_sorted m \<Longrightarrow> v \<in> set (sm_values m) \<longleftrightarrow> (\<exists>k. map_of m k = Some v)"
  using sm_sorted_distinct [of m] by (force simp: sm_values_def dest: map_of_SomeD)

lemma length_sm_put:
  "sm_sorted m \<Longrightarrow> length (sm_put k v m) = (if map_of m k = None then length m + 1 else length m)"
proof (induction k v m rule: sm_put.induct)
  case (2 k v k' v' m)
  then show ?case
    by (auto simp: sm_sorted_Cons map_of_eq_None_iff dest: less_asym split: if_splits)
qed simp

lemma length_sm_map [simp]: "length (sm_map f m) = length m"
  by (simp add: sm_map_def)

section \<open>The contract\<close>

locale key_map =
  fixes empty :: 'm
    and lookup :: "'m \<Rightarrow> 'k::linorder \<Rightarrow> 'v option"
    and put :: "'k \<Rightarrow> 'v \<Rightarrow> 'm \<Rightarrow> 'm"
    and erase :: "'k \<Rightarrow> 'm \<Rightarrow> 'm"
  assumes lookup_empty: "lookup empty = (\<lambda>_. None)"
    and lookup_put: "lookup (put k v m) = (lookup m)(k \<mapsto> v)"
    and lookup_erase: "lookup (erase k m) = (lookup m)(k := None)"
begin

lemma put_all: "(\<forall>j w. lookup m j = Some w \<longrightarrow> P j w) \<Longrightarrow> P k v \<Longrightarrow>
    lookup (put k v m) j = Some w \<Longrightarrow> P j w"
  by (auto simp: lookup_put split: if_splits)

lemma erase_all: "(\<forall>j w. lookup m j = Some w \<longrightarrow> P j w) \<Longrightarrow>
    lookup (erase k m) j = Some w \<Longrightarrow> P j w"
  by (auto simp: lookup_erase split: if_splits)

lemma put_other: "j \<noteq> k \<Longrightarrow> lookup (put k v m) j = lookup m j"
  by (simp add: lookup_put)

end

locale ordered_map = key_map empty lookup put erase
  for empty :: 'm
    and lookup :: "'m \<Rightarrow> 'k::linorder \<Rightarrow> 'v option"
    and put :: "'k \<Rightarrow> 'v \<Rightarrow> 'm \<Rightarrow> 'm"
    and erase :: "'k \<Rightarrow> 'm \<Rightarrow> 'm" +
  fixes ordered :: "'m \<Rightarrow> bool"
    and entries :: "'m \<Rightarrow> ('k \<times> 'v) list"
  assumes ordered_empty: "ordered empty"
    and ordered_put: "ordered m \<Longrightarrow> ordered (put k v m)"
    and ordered_erase: "ordered m \<Longrightarrow> ordered (erase k m)"
    and entries_sorted: "ordered m \<Longrightarrow> sorted_wrt (<) (map fst (entries m))"
    and entries_lookup: "ordered m \<Longrightarrow> (k, v) \<in> set (entries m) \<longleftrightarrow> lookup m k = Some v"
begin

lemma least_match:
  assumes "ordered m" "lookup m k = Some v" "P (k, v)"
  shows "\<exists>e. find P (entries m) = Some e \<and> P e \<and> fst e \<le> k \<and> lookup m (fst e) = Some (snd e)"
proof -
  have "find P es = Some e \<Longrightarrow> sorted_wrt (<) (map fst es) \<Longrightarrow> (k, v) \<in> set es
      \<Longrightarrow> P e \<and> e \<in> set es \<and> fst e \<le> k" for es e
    using \<open>P (k, v)\<close> by (induction es) (auto split: if_splits simp: less_imp_le)
  moreover have "\<exists>e. find P (entries m) = Some e"
    using assms entries_lookup [of m] by (metis find_None_iff not_Some_eq)
  ultimately show ?thesis
    using assms entries_sorted entries_lookup [of m] by (metis prod.collapse)
qed

end

interpretation std_map: ordered_map "[]" map_of sm_put sm_erase sm_sorted "\<lambda>m. m"
  by unfold_locales
    (auto simp: sm_sorted_put sm_sorted_erase sm_sorted_distinct sm_sorted_def [symmetric])

end
