(* ===== verification/Model.thy ===== *)
theory Model
  imports Policy Evidence Bytes Std_Map
begin

text \<open>
  The durable records of \<^verbatim>\<open>include/coherence/model.hpp\<close> with their member initialisers, content
  fingerprints (\<^verbatim>\<open>src/model.cpp\<close>) and their equality, which ignores the other members of an
  undefined fingerprint.  Field names carry a prefix per struct, because record fields share one
  name space here.  The renderings of \<^verbatim>\<open>src/model.cpp\<close> are output formatting and are not modelled.
\<close>

unbundle bit_operations_syntax

section \<open>Records\<close>

record ContentFingerprint =
  fp_digest :: ContentDigest
  fp_crc32c :: u32
  fp_length :: u64
  fp_defined :: bool

definition default_content_fingerprint :: ContentFingerprint where
  "default_content_fingerprint =
     \<lparr>fp_digest = 0, fp_crc32c = 0, fp_length = 0, fp_defined = False\<rparr>"

record DomainRecord =
  dom_id :: CoherenceDomainId
  dom_name :: string
  dom_generation :: u64
  dom_lifecycle :: DomainLifecycle
  dom_created_epoch :: CoordinatorEpoch
  dom_current_epoch :: CoordinatorEpoch

definition default_domain_record :: DomainRecord where
  "default_domain_record =
     \<lparr>dom_id = 0, dom_name = [], dom_generation = 1, dom_lifecycle = DomainLifecycle.Created,
      dom_created_epoch = 0, dom_current_epoch = 0\<rparr>"

record ParticipantRecord =
  par_id :: ParticipantId
  par_name :: string
  par_boot :: ParticipantBootId
  par_previous_boot :: ParticipantBootId
  par_lifecycle :: ParticipantLifecycle
  par_admitted_epoch :: CoordinatorEpoch
  par_last_epoch :: CoordinatorEpoch
  par_session :: SessionId
  par_last_sequence :: OperationSequence
  par_live :: bool
  par_region_count :: u64
  par_node_label :: string
  par_fence_reason :: string

definition default_participant_record :: ParticipantRecord where
  "default_participant_record =
     \<lparr>par_id = 0, par_name = [], par_boot = 0, par_previous_boot = 0,
      par_lifecycle = ParticipantLifecycle.Observed, par_admitted_epoch = 0,
      par_last_epoch = 0, par_session = 0, par_last_sequence = 0, par_live = False,
      par_region_count = 0, par_node_label = [], par_fence_reason = []\<rparr>"

record ReadGrant =
  grant_lease :: LeaseId
  grant_participant :: ParticipantId
  grant_boot :: ParticipantBootId
  grant_object :: ObjectId
  grant_object_generation :: ObjectGeneration
  grant_ownership_generation :: OwnershipGeneration
  grant_version :: VersionId
  grant_region :: RegionId
  grant_region_generation :: RegionGeneration
  grant_granted_sequence :: OperationSequence
  grant_released :: bool

definition default_read_grant :: ReadGrant where
  "default_read_grant =
     \<lparr>grant_lease = 0, grant_participant = 0, grant_boot = 0, grant_object = 0,
      grant_object_generation = 0, grant_ownership_generation = 0, grant_version = 0,
      grant_region = 0, grant_region_generation = 0, grant_granted_sequence = 0,
      grant_released = False\<rparr>"

record RegionRecord =
  reg_id :: RegionId
  reg_generation :: RegionGeneration
  reg_replica :: ReplicaId
  reg_replica_generation :: ReplicaGeneration
  reg_domain :: CoherenceDomainId
  reg_object :: ObjectId
  reg_object_generation :: ObjectGeneration
  reg_participant :: ParticipantId
  reg_boot :: ParticipantBootId
  reg_memory_domain :: MemoryDomain
  reg_evidence_class :: EvidenceClass
  reg_name :: string
  reg_offset :: u64
  reg_length :: u64
  reg_address_hint :: u64
  reg_declared_writable :: bool
  reg_lifecycle :: RegionLifecycle
  reg_state :: CoherenceState
  reg_version :: VersionId
  reg_last_synced_version :: VersionId
  reg_last_published_version :: VersionId
  reg_ownership_generation :: OwnershipGeneration
  reg_last_invalidation :: InvalidationId
  reg_pending_invalidation :: InvalidationId
  reg_pending_invalidation_target :: RegionGeneration
  reg_invalidation_pending :: bool
  reg_evidence :: EvidenceId
  reg_evidence_generation :: EvidenceGeneration
  reg_dirty :: DirtyCondition
  reg_dirty_base_version :: VersionId
  reg_dirty_published :: bool
  reg_content :: ContentFingerprint
  reg_updated_sequence :: OperationSequence
  reg_note :: string

definition default_region_record :: RegionRecord where
  "default_region_record =
     \<lparr>reg_id = 0, reg_generation = 0, reg_replica = 0, reg_replica_generation = 0,
      reg_domain = 0, reg_object = 0, reg_object_generation = 0, reg_participant = 0,
      reg_boot = 0, reg_memory_domain = MemoryDomain.Unknown,
      reg_evidence_class = EvidenceClass.Unsupported, reg_name = [], reg_offset = 0,
      reg_length = 0, reg_address_hint = 0, reg_declared_writable = True,
      reg_lifecycle = RegionLifecycle.Registered, reg_state = CoherenceState.Unknown,
      reg_version = 0, reg_last_synced_version = 0, reg_last_published_version = 0,
      reg_ownership_generation = 0, reg_last_invalidation = 0, reg_pending_invalidation = 0,
      reg_pending_invalidation_target = 0, reg_invalidation_pending = False,
      reg_evidence = 0, reg_evidence_generation = 0, reg_dirty = DirtyCondition.Clean,
      reg_dirty_base_version = 0, reg_dirty_published = False,
      reg_content = default_content_fingerprint, reg_updated_sequence = 0, reg_note = []\<rparr>"

record CompletedPublicationRequest =
  done_request :: RequestId
  done_version :: VersionId
  done_publication :: PublicationId
  done_committed_sequence :: OperationSequence

definition default_completed_publication_request :: CompletedPublicationRequest where
  "default_completed_publication_request =
     \<lparr>done_request = 0, done_version = 0, done_publication = 0, done_committed_sequence = 0\<rparr>"

record ObjectRecord =
  obj_id :: ObjectId
  obj_generation :: ObjectGeneration
  obj_domain :: CoherenceDomainId
  obj_name :: string
  obj_length :: u64
  obj_policy :: PolicyId
  obj_policy_generation :: PolicyGeneration
  obj_lifecycle :: ObjectLifecycle
  obj_authority :: AuthorityMode
  obj_writer :: ParticipantId
  obj_writer_boot :: ParticipantBootId
  obj_ownership_generation :: OwnershipGeneration
  obj_authoritative_version :: VersionId
  obj_published_version :: VersionId
  obj_publication :: PublicationId
  obj_committed_sequence :: OperationSequence
  obj_pending_publication :: PublicationId
  obj_pending_version :: VersionId
  obj_publication_state :: PublicationState
  obj_pending_content :: ContentFingerprint
  obj_replicas :: "RegionId list"
  obj_preferred_current_replica :: RegionId
  obj_reads :: "ReadGrant list"
  obj_outstanding_invalidations :: "InvalidationId list"
  obj_completed_requests :: "CompletedPublicationRequest list"
  obj_last_writer :: ParticipantId
  obj_last_writer_boot :: ParticipantBootId
  obj_has_unpublished_dirty :: bool
  obj_dirty_condition :: DirtyCondition
  obj_updated_sequence :: OperationSequence
  obj_recovery_note :: string

definition default_object_record :: ObjectRecord where
  "default_object_record =
     \<lparr>obj_id = 0, obj_generation = 0, obj_domain = 0, obj_name = [], obj_length = 0,
      obj_policy = 0, obj_policy_generation = 0, obj_lifecycle = ObjectLifecycle.Created,
      obj_authority = AuthorityMode.NoAuthority, obj_writer = 0, obj_writer_boot = 0,
      obj_ownership_generation = 0, obj_authoritative_version = 0, obj_published_version = 0,
      obj_publication = 0, obj_committed_sequence = 0, obj_pending_publication = 0,
      obj_pending_version = 0, obj_publication_state = PublicationState.NoPublication,
      obj_pending_content = default_content_fingerprint, obj_replicas = [],
      obj_preferred_current_replica = 0, obj_reads = [], obj_outstanding_invalidations = [],
      obj_completed_requests = [], obj_last_writer = 0, obj_last_writer_boot = 0,
      obj_has_unpublished_dirty = False, obj_dirty_condition = DirtyCondition.Clean,
      obj_updated_sequence = 0, obj_recovery_note = []\<rparr>"

record InvalidationRecord =
  inv_id :: InvalidationId
  inv_object :: ObjectId
  inv_object_generation :: ObjectGeneration
  inv_region :: RegionId
  inv_region_generation :: RegionGeneration
  inv_replica_generation :: ReplicaGeneration
  inv_published_version :: VersionId
  inv_superseded_version :: VersionId
  inv_ownership_generation :: OwnershipGeneration
  inv_epoch :: CoordinatorEpoch
  inv_target_participant :: ParticipantId
  inv_target_boot :: ParticipantBootId
  inv_state :: InvalidationState
  inv_acknowledgement_required :: bool
  inv_issued_sequence :: OperationSequence
  inv_settled_sequence :: OperationSequence
  inv_rationale :: string

definition default_invalidation_record :: InvalidationRecord where
  "default_invalidation_record =
     \<lparr>inv_id = 0, inv_object = 0, inv_object_generation = 0, inv_region = 0,
      inv_region_generation = 0, inv_replica_generation = 0, inv_published_version = 0,
      inv_superseded_version = 0, inv_ownership_generation = 0, inv_epoch = 0,
      inv_target_participant = 0, inv_target_boot = 0,
      inv_state = InvalidationState.Requested, inv_acknowledgement_required = True,
      inv_issued_sequence = 0, inv_settled_sequence = 0, inv_rationale = []\<rparr>"

record SyncRecord =
  sync_id :: SyncOperationId
  sync_kind :: SyncOperationKind
  sync_object :: ObjectId
  sync_object_generation :: ObjectGeneration
  sync_source_region :: RegionId
  sync_source_region_generation :: RegionGeneration
  sync_destination_region :: RegionId
  sync_destination_region_generation :: RegionGeneration
  sync_source_version :: VersionId
  sync_destination_prior_version :: VersionId
  sync_extent_offset :: u64
  sync_extent_length :: u64
  sync_expected_content :: ContentFingerprint
  sync_ownership_generation :: OwnershipGeneration
  sync_policy :: PolicyId
  sync_policy_generation :: PolicyGeneration
  sync_epoch :: CoordinatorEpoch
  sync_destination_participant :: ParticipantId
  sync_destination_boot :: ParticipantBootId
  sync_state :: SyncState
  sync_postcondition :: string
  sync_transport :: string
  sync_issued_sequence :: OperationSequence
  sync_settled_sequence :: OperationSequence
  sync_failure_reason :: string

definition default_sync_record :: SyncRecord where
  "default_sync_record =
     \<lparr>sync_id = 0, sync_kind = SyncOperationKind.Copy, sync_object = 0,
      sync_object_generation = 0, sync_source_region = 0, sync_source_region_generation = 0,
      sync_destination_region = 0, sync_destination_region_generation = 0,
      sync_source_version = 0, sync_destination_prior_version = 0, sync_extent_offset = 0,
      sync_extent_length = 0, sync_expected_content = default_content_fingerprint,
      sync_ownership_generation = 0, sync_policy = 0, sync_policy_generation = 0,
      sync_epoch = 0, sync_destination_participant = 0, sync_destination_boot = 0,
      sync_state = SyncState.Planned, sync_postcondition = [], sync_transport = [],
      sync_issued_sequence = 0, sync_settled_sequence = 0, sync_failure_reason = []\<rparr>"

record PendingPublication =
  pend_id :: PublicationId
  pend_object :: ObjectId
  pend_object_generation :: ObjectGeneration
  pend_version :: VersionId
  pend_prior_version :: VersionId
  pend_ownership_generation :: OwnershipGeneration
  pend_epoch :: CoordinatorEpoch
  pend_writer :: ParticipantId
  pend_writer_boot :: ParticipantBootId
  pend_request :: RequestId
  pend_content :: ContentFingerprint
  pend_sequence :: OperationSequence
  pend_durable :: bool

definition default_pending_publication :: PendingPublication where
  "default_pending_publication =
     \<lparr>pend_id = 0, pend_object = 0, pend_object_generation = 0, pend_version = 0,
      pend_prior_version = 0, pend_ownership_generation = 0, pend_epoch = 0, pend_writer = 0,
      pend_writer_boot = 0, pend_request = 0, pend_content = default_content_fingerprint,
      pend_sequence = 0, pend_durable = False\<rparr>"

section \<open>Fingerprints\<close>

definition fp_eq :: "ContentFingerprint \<Rightarrow> ContentFingerprint \<Rightarrow> bool" where
  "fp_eq a b =
     (if fp_defined a \<noteq> fp_defined b then False
      else if \<not> fp_defined a then True
      else fp_length a = fp_length b \<and> fp_crc32c a = fp_crc32c b \<and> fp_digest a = fp_digest b)"

definition be_word64 :: "bytes \<Rightarrow> u64" where
  "be_word64 bs = foldl (\<lambda>v b. push_bit 8 v OR ucast b) 0 bs"

definition fingerprint_bytes :: "bytes \<Rightarrow> ContentFingerprint" where
  "fingerprint_bytes bs =
     (let digest = sha256_digest bs
      in \<lparr>fp_digest = UInt128 (be_word64 (take 8 digest)) (be_word64 (take 8 (drop 8 digest))),
          fp_crc32c = crc32c bs, fp_length = of_nat (length bs), fp_defined = True\<rparr>)"

lemma fp_eq_refl [simp]: "fp_eq a a"
  by (simp add: fp_eq_def)

lemma fp_eq_sym: "fp_eq a b \<longleftrightarrow> fp_eq b a"
  by (auto simp: fp_eq_def)

lemma fp_eq_trans: "fp_eq a b \<Longrightarrow> fp_eq b c \<Longrightarrow> fp_eq a c"
  by (auto simp: fp_eq_def split: if_splits)

lemma fp_eq_defined_iff: "fp_defined a \<Longrightarrow> fp_eq a b \<longleftrightarrow> a = b"
  by (auto simp: fp_eq_def)

end
