(* ===== verification/Codec.thy ===== *)
theory Codec
  imports Serialize Model
begin

text \<open>
  The binary codecs of the durable records (\<^verbatim>\<open>src/codec.cpp\<close>, \<^verbatim>\<open>src/codec_internal.hpp\<close>), field by
  field in the order the source writes them, with the decode limits of \<^verbatim>\<open>include/coherence/codec.hpp\<close>.
  Every record codec is an interpretation of \<open>record_codec\<close> under the limits its decoder enforces.
\<close>

section \<open>Limits and helpers\<close>

definition kRecordVersion :: u16 where
  "kRecordVersion = 1"

record DecodeLimits =
  lim_max_text :: u32
  lim_max_blob :: u64
  lim_max_collection :: u64
  lim_max_object_length :: u64

definition default_decode_limits :: DecodeLimits where
  "default_decode_limits =
     \<lparr>lim_max_text = 4096, lim_max_blob = 2 ^ 28, lim_max_collection = 4000000,
      lim_max_object_length = 2 ^ 40\<rparr>"

definition enc_enum :: "('e \<Rightarrow> u8) \<Rightarrow> 'e \<Rightarrow> bytes" where
  "enc_enum to_u8 v = w_u8 (to_u8 v)"

definition dec_enum :: "(u8 \<Rightarrow> 'e option) \<Rightarrow> 'e reader" where
  "dec_enum parse r =
     rbind (r_u8 r) (\<lambda>(raw, r).
     case parse raw of None \<Rightarrow> Inl Refused | Some v \<Rightarrow> Inr (v, r))"

definition dec_text :: "DecodeLimits \<Rightarrow> string reader" where
  "dec_text limits r = r_text (lim_max_text limits) r"

definition dec_header :: "u16 \<Rightarrow> bytes \<Rightarrow> read_error + bytes" where
  "dec_header expected r =
     rbind (r_u16 r) (\<lambda>(version, r).
     rbind (unless (version \<noteq> expected) Refused) (\<lambda>_.
     Inr r))"

definition w_collection :: "('a \<Rightarrow> bytes) \<Rightarrow> 'a list \<Rightarrow> bytes" where
  "w_collection enc vs = w_u64 (of_nat (length vs)) @ concat (map enc vs)"

definition r_collection :: "DecodeLimits \<Rightarrow> 'a reader \<Rightarrow> 'a list reader" where
  "r_collection limits dec r =
     rbind (r_u64 r) (\<lambda>(count, r).
     rbind (unless (count > lim_max_collection limits) Refused) (\<lambda>_.
     r_repeat (unat count) dec r))"

section \<open>Enumerations decoded only by the binary formats\<close>

definition kOwnership :: "(WriteOwnershipMode \<times> string) list" where
  "kOwnership =
    [(WriteOwnershipMode.Unspecified, ''unspecified''),
     (WriteOwnershipMode.SingleWriterExclusive, ''single_writer_exclusive''),
     (WriteOwnershipMode.ReadOnlyObject, ''read_only_object''),
     (WriteOwnershipMode.MultiWriterUnsupported, ''multi_writer_unsupported'')]"

definition kDurability :: "(PublicationDurability \<times> string) list" where
  "kDurability =
    [(PublicationDurability.Unspecified, ''unspecified''),
     (PublicationDurability.Ephemeral, ''ephemeral''),
     (PublicationDurability.DurableMetadata, ''durable_metadata'')]"

definition kConflict :: "(ConflictBehavior \<times> string) list" where
  "kConflict =
    [(ConflictBehavior.Unspecified, ''unspecified''),
     (ConflictBehavior.Reject, ''reject''),
     (ConflictBehavior.InvalidateReaders, ''invalidate_readers'')]"

definition kRecovery :: "(RecoveryPolicy \<times> string) list" where
  "kRecovery =
    [(RecoveryPolicy.Unspecified, ''unspecified''),
     (RecoveryPolicy.Conservative, ''conservative''),
     (RecoveryPolicy.CompleteDurablePending, ''complete_durable_pending'')]"

definition kStale :: "(StaleReadPolicy \<times> string) list" where
  "kStale =
    [(StaleReadPolicy.Unspecified, ''unspecified''),
     (StaleReadPolicy.Never, ''never''),
     (StaleReadPolicy.Bounded, ''bounded''),
     (StaleReadPolicy.Always, ''always'')]"

definition kDirtyLoss :: "(DirtyLossPolicy \<times> string) list" where
  "kDirtyLoss =
    [(DirtyLossPolicy.Unspecified, ''unspecified''),
     (DirtyLossPolicy.ReportUnknown, ''report_unknown''),
     (DirtyLossPolicy.ReportLost, ''report_lost''),
     (DirtyLossPolicy.RequireRecovery, ''require_recovery'')]"

definition ownership_from_u8 :: "u8 \<Rightarrow> WriteOwnershipMode option" where
  "ownership_from_u8 = enum_from_u8_impl write_ownership_mode_to_u8 kOwnership"

definition durability_from_u8 :: "u8 \<Rightarrow> PublicationDurability option" where
  "durability_from_u8 = enum_from_u8_impl publication_durability_to_u8 kDurability"

definition conflict_from_u8 :: "u8 \<Rightarrow> ConflictBehavior option" where
  "conflict_from_u8 = enum_from_u8_impl conflict_behavior_to_u8 kConflict"

definition recovery_from_u8 :: "u8 \<Rightarrow> RecoveryPolicy option" where
  "recovery_from_u8 = enum_from_u8_impl recovery_policy_to_u8 kRecovery"

definition stale_from_u8 :: "u8 \<Rightarrow> StaleReadPolicy option" where
  "stale_from_u8 = enum_from_u8_impl stale_read_policy_to_u8 kStale"

definition dirty_loss_from_u8 :: "u8 \<Rightarrow> DirtyLossPolicy option" where
  "dirty_loss_from_u8 = enum_from_u8_impl dirty_loss_policy_to_u8 kDirtyLoss"

section \<open>Authority contexts\<close>

record AuthorityContext =
  actx_epoch :: CoordinatorEpoch
  actx_participant :: ParticipantId
  actx_boot :: ParticipantBootId
  actx_object :: ObjectId
  actx_object_generation :: ObjectGeneration
  actx_policy_generation :: PolicyGeneration
  actx_request :: RequestId

section \<open>Encoders and decoders\<close>

definition encode_fingerprint :: "ContentFingerprint \<Rightarrow> bytes" where
  "encode_fingerprint value =
     w_boolean (fp_defined value) @
     w_uuid (fp_digest value) @
     w_u32 (fp_crc32c value) @
     w_u64 (fp_length value)"

definition decode_fingerprint :: "DecodeLimits \<Rightarrow> ContentFingerprint reader" where
  "decode_fingerprint limits r =
     rbind (r_boolean r) (\<lambda>(v_defined, r).
     rbind (r_uuid r) (\<lambda>(v_digest, r).
     rbind (r_u32 r) (\<lambda>(v_crc, r).
     rbind (r_u64 r) (\<lambda>(v_length, r).
     rbind (unless (v_length > lim_max_object_length limits) Refused) (\<lambda>_.
     Inr (\<lparr>fp_digest = v_digest, fp_crc32c = v_crc, fp_length = v_length,
       fp_defined = v_defined\<rparr>, r))))))"

definition encode_policy :: "CoherencePolicy \<Rightarrow> bytes" where
  "encode_policy value =
     w_u16 kRecordVersion @
     w_u64 (pol_id value) @
     w_u64 (pol_generation value) @
     w_text (pol_name value) @
     enc_enum consistency_model_to_u8 (pol_consistency value) @
     enc_enum write_ownership_mode_to_u8 (pol_write_ownership value) @
     enc_enum publication_durability_to_u8 (pol_publication_durability value) @
     enc_enum conflict_behavior_to_u8 (pol_conflict_behavior value) @
     enc_enum recovery_policy_to_u8 (pol_recovery_policy value) @
     enc_enum stale_read_policy_to_u8 (pol_stale_read_policy value) @
     enc_enum dirty_loss_policy_to_u8 (pol_dirty_loss_policy value) @
     w_u64 (pol_stale_read_bound_versions value) @
     w_u64 (pol_evidence_max_age_operations value) @
     w_boolean (pol_require_invalidation_acks_before_publication value) @
     w_boolean (pol_require_sync_completion_for_currentness value) @
     w_u32 (pol_allowed_domains_mask value) @
     w_boolean (pol_require_content_fingerprint value)"

definition decode_policy :: "DecodeLimits \<Rightarrow> CoherencePolicy reader" where
  "decode_policy limits r =
     rbind (dec_header kRecordVersion r) (\<lambda>r.
     rbind (r_u64 r) (\<lambda>(v_id, r).
     rbind (r_u64 r) (\<lambda>(v_generation, r).
     rbind (dec_text limits r) (\<lambda>(v_name, r).
     rbind (dec_enum consistency_model_from_u8 r) (\<lambda>(v_consistency, r).
     rbind (dec_enum ownership_from_u8 r) (\<lambda>(v_write_ownership, r).
     rbind (dec_enum durability_from_u8 r) (\<lambda>(v_publication_durability, r).
     rbind (dec_enum conflict_from_u8 r) (\<lambda>(v_conflict_behavior, r).
     rbind (dec_enum recovery_from_u8 r) (\<lambda>(v_recovery_policy, r).
     rbind (dec_enum stale_from_u8 r) (\<lambda>(v_stale_read_policy, r).
     rbind (dec_enum dirty_loss_from_u8 r) (\<lambda>(v_dirty_loss_policy, r).
     rbind (r_u64 r) (\<lambda>(v_stale_read_bound_versions, r).
     rbind (r_u64 r) (\<lambda>(v_evidence_max_age_operations, r).
     rbind (r_boolean r) (\<lambda>(v_require_invalidation_acks_before_publication, r).
     rbind (r_boolean r) (\<lambda>(v_require_sync_completion_for_currentness, r).
     rbind (r_u32 r) (\<lambda>(v_allowed_domains_mask, r).
     rbind (r_boolean r) (\<lambda>(v_require_content_fingerprint, r).
     Inr (\<lparr>pol_id = v_id, pol_generation = v_generation, pol_name = v_name,
       pol_consistency = v_consistency, pol_write_ownership = v_write_ownership,
       pol_publication_durability = v_publication_durability,
       pol_conflict_behavior = v_conflict_behavior,
       pol_recovery_policy = v_recovery_policy,
       pol_stale_read_policy = v_stale_read_policy,
       pol_dirty_loss_policy = v_dirty_loss_policy,
       pol_stale_read_bound_versions = v_stale_read_bound_versions,
       pol_evidence_max_age_operations = v_evidence_max_age_operations,
       pol_require_invalidation_acks_before_publication = v_require_invalidation_acks_before_publication,
       pol_require_sync_completion_for_currentness = v_require_sync_completion_for_currentness,
       pol_allowed_domains_mask = v_allowed_domains_mask,
       pol_require_content_fingerprint = v_require_content_fingerprint\<rparr>, r))))))))))))))))))"

definition encode_evidence :: "EvidenceRecord \<Rightarrow> bytes" where
  "encode_evidence value =
     w_u16 kRecordVersion @
     w_u64 (ev_id value) @
     w_u64 (ev_generation value) @
     enc_enum evidence_kind_to_u8 (ev_kind value) @
     enc_enum evidence_class_to_u8 (ev_evidence_class value) @
     w_u64 (ev_participant value) @
     w_uuid (ev_boot value) @
     w_u64 (ev_epoch value) @
     w_u64 (ev_ownership_generation value) @
     w_u64 (ev_object value) @
     w_u64 (ev_object_generation value) @
     w_u64 (ev_region value) @
     w_u64 (ev_region_generation value) @
     w_u64 (ev_observed_version value) @
     w_uuid (ev_observed_digest value) @
     w_u32 (ev_observed_crc32c value) @
     w_u64 (ev_sequence value) @
     w_boolean (ev_process_local value) @
     w_text (ev_note value)"

definition decode_evidence :: "DecodeLimits \<Rightarrow> EvidenceRecord reader" where
  "decode_evidence limits r =
     rbind (dec_header kRecordVersion r) (\<lambda>r.
     rbind (r_u64 r) (\<lambda>(v_id, r).
     rbind (r_u64 r) (\<lambda>(v_generation, r).
     rbind (dec_enum evidence_kind_from_u8 r) (\<lambda>(v_kind, r).
     rbind (dec_enum evidence_class_from_u8 r) (\<lambda>(v_evidence_class, r).
     rbind (r_u64 r) (\<lambda>(v_participant, r).
     rbind (r_uuid r) (\<lambda>(v_boot, r).
     rbind (r_u64 r) (\<lambda>(v_epoch, r).
     rbind (r_u64 r) (\<lambda>(v_ownership_generation, r).
     rbind (r_u64 r) (\<lambda>(v_object, r).
     rbind (r_u64 r) (\<lambda>(v_object_generation, r).
     rbind (r_u64 r) (\<lambda>(v_region, r).
     rbind (r_u64 r) (\<lambda>(v_region_generation, r).
     rbind (r_u64 r) (\<lambda>(v_observed_version, r).
     rbind (r_uuid r) (\<lambda>(v_observed_digest, r).
     rbind (r_u32 r) (\<lambda>(v_observed_crc32c, r).
     rbind (r_u64 r) (\<lambda>(v_sequence, r).
     rbind (r_boolean r) (\<lambda>(v_process_local, r).
     rbind (dec_text limits r) (\<lambda>(v_note, r).
     Inr (\<lparr>ev_id = v_id, ev_generation = v_generation, ev_kind = v_kind,
       ev_evidence_class = v_evidence_class, ev_participant = v_participant,
       ev_boot = v_boot, ev_epoch = v_epoch,
       ev_ownership_generation = v_ownership_generation, ev_object = v_object,
       ev_object_generation = v_object_generation, ev_region = v_region,
       ev_region_generation = v_region_generation,
       ev_observed_version = v_observed_version, ev_observed_digest = v_observed_digest,
       ev_observed_crc32c = v_observed_crc32c, ev_sequence = v_sequence,
       ev_process_local = v_process_local, ev_note = v_note\<rparr>, r))))))))))))))))))))"

definition encode_authority_context :: "AuthorityContext \<Rightarrow> bytes" where
  "encode_authority_context value =
     w_u64 (actx_epoch value) @
     w_u64 (actx_participant value) @
     w_uuid (actx_boot value) @
     w_u64 (actx_object value) @
     w_u64 (actx_object_generation value) @
     w_u64 (actx_policy_generation value) @
     w_u64 (actx_request value)"

definition decode_authority_context :: "AuthorityContext reader" where
  "decode_authority_context r =
     rbind (r_u64 r) (\<lambda>(v_epoch, r).
     rbind (r_u64 r) (\<lambda>(v_participant, r).
     rbind (r_uuid r) (\<lambda>(v_boot, r).
     rbind (r_u64 r) (\<lambda>(v_object, r).
     rbind (r_u64 r) (\<lambda>(v_object_generation, r).
     rbind (r_u64 r) (\<lambda>(v_policy_generation, r).
     rbind (r_u64 r) (\<lambda>(v_request, r).
     Inr (\<lparr>actx_epoch = v_epoch, actx_participant = v_participant, actx_boot = v_boot,
       actx_object = v_object, actx_object_generation = v_object_generation,
       actx_policy_generation = v_policy_generation, actx_request = v_request\<rparr>, r))))))))"

definition encode_domain :: "DomainRecord \<Rightarrow> bytes" where
  "encode_domain value =
     w_u16 kRecordVersion @
     w_u64 (dom_id value) @
     w_text (dom_name value) @
     w_u64 (dom_generation value) @
     enc_enum domain_lifecycle_to_u8 (dom_lifecycle value) @
     w_u64 (dom_created_epoch value) @
     w_u64 (dom_current_epoch value)"

definition decode_domain :: "DecodeLimits \<Rightarrow> DomainRecord reader" where
  "decode_domain limits r =
     rbind (dec_header kRecordVersion r) (\<lambda>r.
     rbind (r_u64 r) (\<lambda>(v_id, r).
     rbind (dec_text limits r) (\<lambda>(v_name, r).
     rbind (r_u64 r) (\<lambda>(v_generation, r).
     rbind (dec_enum domain_lifecycle_from_u8 r) (\<lambda>(v_lifecycle, r).
     rbind (r_u64 r) (\<lambda>(v_created_epoch, r).
     rbind (r_u64 r) (\<lambda>(v_current_epoch, r).
     rbind (unless (v_generation = 0) Refused) (\<lambda>_.
     Inr (\<lparr>dom_id = v_id, dom_name = v_name, dom_generation = v_generation,
       dom_lifecycle = v_lifecycle, dom_created_epoch = v_created_epoch,
       dom_current_epoch = v_current_epoch\<rparr>, r)))))))))"

definition encode_participant :: "ParticipantRecord \<Rightarrow> bytes" where
  "encode_participant value =
     w_u16 kRecordVersion @
     w_u64 (par_id value) @
     w_text (par_name value) @
     w_uuid (par_boot value) @
     w_uuid (par_previous_boot value) @
     enc_enum participant_lifecycle_to_u8 (par_lifecycle value) @
     w_u64 (par_admitted_epoch value) @
     w_u64 (par_last_epoch value) @
     w_uuid (par_session value) @
     w_u64 (par_last_sequence value) @
     w_boolean (par_live value) @
     w_u64 (par_region_count value) @
     w_text (par_node_label value) @
     w_text (par_fence_reason value)"

definition decode_participant :: "DecodeLimits \<Rightarrow> ParticipantRecord reader" where
  "decode_participant limits r =
     rbind (dec_header kRecordVersion r) (\<lambda>r.
     rbind (r_u64 r) (\<lambda>(v_id, r).
     rbind (dec_text limits r) (\<lambda>(v_name, r).
     rbind (r_uuid r) (\<lambda>(v_boot, r).
     rbind (r_uuid r) (\<lambda>(v_previous_boot, r).
     rbind (dec_enum participant_lifecycle_from_u8 r) (\<lambda>(v_lifecycle, r).
     rbind (r_u64 r) (\<lambda>(v_admitted_epoch, r).
     rbind (r_u64 r) (\<lambda>(v_last_epoch, r).
     rbind (r_uuid r) (\<lambda>(v_session, r).
     rbind (r_u64 r) (\<lambda>(v_last_sequence, r).
     rbind (r_boolean r) (\<lambda>(v_live, r).
     rbind (r_u64 r) (\<lambda>(v_region_count, r).
     rbind (dec_text limits r) (\<lambda>(v_node_label, r).
     rbind (dec_text limits r) (\<lambda>(v_fence_reason, r).
     Inr (\<lparr>par_id = v_id, par_name = v_name, par_boot = v_boot,
       par_previous_boot = v_previous_boot, par_lifecycle = v_lifecycle,
       par_admitted_epoch = v_admitted_epoch, par_last_epoch = v_last_epoch,
       par_session = v_session, par_last_sequence = v_last_sequence, par_live = v_live,
       par_region_count = v_region_count, par_node_label = v_node_label,
       par_fence_reason = v_fence_reason\<rparr>, r)))))))))))))))"

definition encode_read_grant :: "ReadGrant \<Rightarrow> bytes" where
  "encode_read_grant value =
     w_u64 (grant_lease value) @
     w_u64 (grant_participant value) @
     w_uuid (grant_boot value) @
     w_u64 (grant_object value) @
     w_u64 (grant_object_generation value) @
     w_u64 (grant_ownership_generation value) @
     w_u64 (grant_version value) @
     w_u64 (grant_region value) @
     w_u64 (grant_region_generation value) @
     w_u64 (grant_granted_sequence value) @
     w_boolean (grant_released value)"

definition decode_read_grant :: "ReadGrant reader" where
  "decode_read_grant r =
     rbind (r_u64 r) (\<lambda>(v_lease, r).
     rbind (r_u64 r) (\<lambda>(v_participant, r).
     rbind (r_uuid r) (\<lambda>(v_boot, r).
     rbind (r_u64 r) (\<lambda>(v_object, r).
     rbind (r_u64 r) (\<lambda>(v_object_generation, r).
     rbind (r_u64 r) (\<lambda>(v_ownership_generation, r).
     rbind (r_u64 r) (\<lambda>(v_version, r).
     rbind (r_u64 r) (\<lambda>(v_region, r).
     rbind (r_u64 r) (\<lambda>(v_region_generation, r).
     rbind (r_u64 r) (\<lambda>(v_granted_sequence, r).
     rbind (r_boolean r) (\<lambda>(v_released, r).
     Inr (\<lparr>grant_lease = v_lease, grant_participant = v_participant, grant_boot = v_boot,
       grant_object = v_object, grant_object_generation = v_object_generation,
       grant_ownership_generation = v_ownership_generation, grant_version = v_version,
       grant_region = v_region, grant_region_generation = v_region_generation,
       grant_granted_sequence = v_granted_sequence, grant_released = v_released\<rparr>, r))))))))))))"

definition encode_completed_request :: "CompletedPublicationRequest \<Rightarrow> bytes" where
  "encode_completed_request value =
     w_u64 (done_request value) @
     w_u64 (done_version value) @
     w_u64 (done_publication value) @
     w_u64 (done_committed_sequence value)"

definition decode_completed_request :: "CompletedPublicationRequest reader" where
  "decode_completed_request r =
     rbind (r_u64 r) (\<lambda>(v_request, r).
     rbind (r_u64 r) (\<lambda>(v_version, r).
     rbind (r_u64 r) (\<lambda>(v_publication, r).
     rbind (r_u64 r) (\<lambda>(v_committed_sequence, r).
     Inr (\<lparr>done_request = v_request, done_version = v_version, done_publication = v_publication,
       done_committed_sequence = v_committed_sequence\<rparr>, r)))))"

definition encode_object :: "ObjectRecord \<Rightarrow> bytes" where
  "encode_object value =
     w_u16 kRecordVersion @
     w_u64 (obj_id value) @
     w_u64 (obj_generation value) @
     w_u64 (obj_domain value) @
     w_text (obj_name value) @
     w_u64 (obj_length value) @
     w_u64 (obj_policy value) @
     w_u64 (obj_policy_generation value) @
     enc_enum object_lifecycle_to_u8 (obj_lifecycle value) @
     enc_enum authority_mode_to_u8 (obj_authority value) @
     w_u64 (obj_writer value) @
     w_uuid (obj_writer_boot value) @
     w_u64 (obj_ownership_generation value) @
     w_u64 (obj_authoritative_version value) @
     w_u64 (obj_published_version value) @
     w_u64 (obj_publication value) @
     w_u64 (obj_committed_sequence value) @
     w_u64 (obj_pending_publication value) @
     w_u64 (obj_pending_version value) @
     enc_enum publication_state_to_u8 (obj_publication_state value) @
     encode_fingerprint (obj_pending_content value) @
     w_u64 (obj_preferred_current_replica value) @
     w_collection w_u64 (obj_replicas value) @
     w_collection encode_read_grant (obj_reads value) @
     w_collection w_u64 (obj_outstanding_invalidations value) @
     w_collection encode_completed_request (obj_completed_requests value) @
     w_u64 (obj_last_writer value) @
     w_uuid (obj_last_writer_boot value) @
     w_boolean (obj_has_unpublished_dirty value) @
     enc_enum dirty_condition_to_u8 (obj_dirty_condition value) @
     w_u64 (obj_updated_sequence value) @
     w_text (obj_recovery_note value)"

definition decode_object :: "DecodeLimits \<Rightarrow> ObjectRecord reader" where
  "decode_object limits r =
     rbind (dec_header kRecordVersion r) (\<lambda>r.
     rbind (r_u64 r) (\<lambda>(v_id, r).
     rbind (r_u64 r) (\<lambda>(v_generation, r).
     rbind (r_u64 r) (\<lambda>(v_domain, r).
     rbind (dec_text limits r) (\<lambda>(v_name, r).
     rbind (r_u64 r) (\<lambda>(v_length, r).
     rbind (unless (v_length > lim_max_object_length limits) Refused) (\<lambda>_.
     rbind (r_u64 r) (\<lambda>(v_policy, r).
     rbind (r_u64 r) (\<lambda>(v_policy_generation, r).
     rbind (dec_enum object_lifecycle_from_u8 r) (\<lambda>(v_lifecycle, r).
     rbind (dec_enum authority_mode_from_u8 r) (\<lambda>(v_authority, r).
     rbind (r_u64 r) (\<lambda>(v_writer, r).
     rbind (r_uuid r) (\<lambda>(v_writer_boot, r).
     rbind (r_u64 r) (\<lambda>(v_ownership_generation, r).
     rbind (r_u64 r) (\<lambda>(v_authoritative_version, r).
     rbind (r_u64 r) (\<lambda>(v_published_version, r).
     rbind (r_u64 r) (\<lambda>(v_publication, r).
     rbind (r_u64 r) (\<lambda>(v_committed_sequence, r).
     rbind (r_u64 r) (\<lambda>(v_pending_publication, r).
     rbind (r_u64 r) (\<lambda>(v_pending_version, r).
     rbind (dec_enum publication_state_from_u8 r) (\<lambda>(v_publication_state, r).
     rbind (decode_fingerprint limits r) (\<lambda>(v_pending_content, r).
     rbind (r_u64 r) (\<lambda>(v_preferred_current_replica, r).
     rbind (r_collection limits r_u64 r) (\<lambda>(v_replicas, r).
     rbind (r_collection limits decode_read_grant r) (\<lambda>(v_reads, r).
     rbind (r_collection limits r_u64 r) (\<lambda>(v_outstanding_invalidations, r).
     rbind (r_collection limits decode_completed_request r) (\<lambda>(v_completed_requests, r).
     rbind (r_u64 r) (\<lambda>(v_last_writer, r).
     rbind (r_uuid r) (\<lambda>(v_last_writer_boot, r).
     rbind (r_boolean r) (\<lambda>(v_has_unpublished_dirty, r).
     rbind (dec_enum dirty_condition_from_u8 r) (\<lambda>(v_dirty_condition, r).
     rbind (r_u64 r) (\<lambda>(v_updated_sequence, r).
     rbind (dec_text limits r) (\<lambda>(v_recovery_note, r).
     Inr (\<lparr>obj_id = v_id, obj_generation = v_generation, obj_domain = v_domain,
       obj_name = v_name, obj_length = v_length, obj_policy = v_policy,
       obj_policy_generation = v_policy_generation, obj_lifecycle = v_lifecycle,
       obj_authority = v_authority, obj_writer = v_writer,
       obj_writer_boot = v_writer_boot, obj_ownership_generation = v_ownership_generation,
       obj_authoritative_version = v_authoritative_version,
       obj_published_version = v_published_version, obj_publication = v_publication,
       obj_committed_sequence = v_committed_sequence,
       obj_pending_publication = v_pending_publication,
       obj_pending_version = v_pending_version,
       obj_publication_state = v_publication_state,
       obj_pending_content = v_pending_content, obj_replicas = v_replicas,
       obj_preferred_current_replica = v_preferred_current_replica, obj_reads = v_reads,
       obj_outstanding_invalidations = v_outstanding_invalidations,
       obj_completed_requests = v_completed_requests, obj_last_writer = v_last_writer,
       obj_last_writer_boot = v_last_writer_boot,
       obj_has_unpublished_dirty = v_has_unpublished_dirty,
       obj_dirty_condition = v_dirty_condition, obj_updated_sequence = v_updated_sequence,
       obj_recovery_note = v_recovery_note\<rparr>, r))))))))))))))))))))))))))))))))))"

definition encode_region :: "RegionRecord \<Rightarrow> bytes" where
  "encode_region value =
     w_u16 kRecordVersion @
     w_u64 (reg_id value) @
     w_u64 (reg_generation value) @
     w_u64 (reg_replica value) @
     w_u64 (reg_replica_generation value) @
     w_u64 (reg_domain value) @
     w_u64 (reg_object value) @
     w_u64 (reg_object_generation value) @
     w_u64 (reg_participant value) @
     w_uuid (reg_boot value) @
     enc_enum memory_domain_to_u8 (reg_memory_domain value) @
     enc_enum evidence_class_to_u8 (reg_evidence_class value) @
     w_text (reg_name value) @
     w_u64 (reg_offset value) @
     w_u64 (reg_length value) @
     w_u64 (reg_address_hint value) @
     w_boolean (reg_declared_writable value) @
     enc_enum region_lifecycle_to_u8 (reg_lifecycle value) @
     enc_enum coherence_state_to_u8 (reg_state value) @
     w_u64 (reg_version value) @
     w_u64 (reg_last_synced_version value) @
     w_u64 (reg_last_published_version value) @
     w_u64 (reg_ownership_generation value) @
     w_u64 (reg_last_invalidation value) @
     w_u64 (reg_pending_invalidation value) @
     w_u64 (reg_pending_invalidation_target value) @
     w_boolean (reg_invalidation_pending value) @
     w_u64 (reg_evidence value) @
     w_u64 (reg_evidence_generation value) @
     enc_enum dirty_condition_to_u8 (reg_dirty value) @
     w_u64 (reg_dirty_base_version value) @
     w_boolean (reg_dirty_published value) @
     encode_fingerprint (reg_content value) @
     w_u64 (reg_updated_sequence value) @
     w_text (reg_note value)"

definition decode_region :: "DecodeLimits \<Rightarrow> RegionRecord reader" where
  "decode_region limits r =
     rbind (dec_header kRecordVersion r) (\<lambda>r.
     rbind (r_u64 r) (\<lambda>(v_id, r).
     rbind (r_u64 r) (\<lambda>(v_generation, r).
     rbind (r_u64 r) (\<lambda>(v_replica, r).
     rbind (r_u64 r) (\<lambda>(v_replica_generation, r).
     rbind (r_u64 r) (\<lambda>(v_domain, r).
     rbind (r_u64 r) (\<lambda>(v_object, r).
     rbind (r_u64 r) (\<lambda>(v_object_generation, r).
     rbind (r_u64 r) (\<lambda>(v_participant, r).
     rbind (r_uuid r) (\<lambda>(v_boot, r).
     rbind (dec_enum memory_domain_from_u8 r) (\<lambda>(v_memory_domain, r).
     rbind (dec_enum evidence_class_from_u8 r) (\<lambda>(v_evidence_class, r).
     rbind (dec_text limits r) (\<lambda>(v_name, r).
     rbind (r_u64 r) (\<lambda>(v_offset, r).
     rbind (r_u64 r) (\<lambda>(v_length, r).
     rbind (r_u64 r) (\<lambda>(v_address_hint, r).
     rbind (unless (v_length > lim_max_object_length limits) Refused) (\<lambda>_.
     rbind (r_boolean r) (\<lambda>(v_declared_writable, r).
     rbind (dec_enum region_lifecycle_from_u8 r) (\<lambda>(v_lifecycle, r).
     rbind (dec_enum coherence_state_from_u8 r) (\<lambda>(v_state, r).
     rbind (r_u64 r) (\<lambda>(v_version, r).
     rbind (r_u64 r) (\<lambda>(v_last_synced_version, r).
     rbind (r_u64 r) (\<lambda>(v_last_published_version, r).
     rbind (r_u64 r) (\<lambda>(v_ownership_generation, r).
     rbind (r_u64 r) (\<lambda>(v_last_invalidation, r).
     rbind (r_u64 r) (\<lambda>(v_pending_invalidation, r).
     rbind (r_u64 r) (\<lambda>(v_pending_invalidation_target, r).
     rbind (r_boolean r) (\<lambda>(v_invalidation_pending, r).
     rbind (r_u64 r) (\<lambda>(v_evidence, r).
     rbind (r_u64 r) (\<lambda>(v_evidence_generation, r).
     rbind (dec_enum dirty_condition_from_u8 r) (\<lambda>(v_dirty, r).
     rbind (r_u64 r) (\<lambda>(v_dirty_base_version, r).
     rbind (r_boolean r) (\<lambda>(v_dirty_published, r).
     rbind (decode_fingerprint limits r) (\<lambda>(v_content, r).
     rbind (r_u64 r) (\<lambda>(v_updated_sequence, r).
     rbind (dec_text limits r) (\<lambda>(v_note, r).
     Inr (\<lparr>reg_id = v_id, reg_generation = v_generation, reg_replica = v_replica,
       reg_replica_generation = v_replica_generation, reg_domain = v_domain,
       reg_object = v_object, reg_object_generation = v_object_generation,
       reg_participant = v_participant, reg_boot = v_boot,
       reg_memory_domain = v_memory_domain, reg_evidence_class = v_evidence_class,
       reg_name = v_name, reg_offset = v_offset, reg_length = v_length,
       reg_address_hint = v_address_hint, reg_declared_writable = v_declared_writable,
       reg_lifecycle = v_lifecycle, reg_state = v_state, reg_version = v_version,
       reg_last_synced_version = v_last_synced_version,
       reg_last_published_version = v_last_published_version,
       reg_ownership_generation = v_ownership_generation,
       reg_last_invalidation = v_last_invalidation,
       reg_pending_invalidation = v_pending_invalidation,
       reg_pending_invalidation_target = v_pending_invalidation_target,
       reg_invalidation_pending = v_invalidation_pending, reg_evidence = v_evidence,
       reg_evidence_generation = v_evidence_generation, reg_dirty = v_dirty,
       reg_dirty_base_version = v_dirty_base_version,
       reg_dirty_published = v_dirty_published, reg_content = v_content,
       reg_updated_sequence = v_updated_sequence, reg_note = v_note\<rparr>, r)))))))))))))))))))))))))))))))))))))"

definition encode_invalidation :: "InvalidationRecord \<Rightarrow> bytes" where
  "encode_invalidation value =
     w_u16 kRecordVersion @
     w_u64 (inv_id value) @
     w_u64 (inv_object value) @
     w_u64 (inv_object_generation value) @
     w_u64 (inv_region value) @
     w_u64 (inv_region_generation value) @
     w_u64 (inv_replica_generation value) @
     w_u64 (inv_published_version value) @
     w_u64 (inv_superseded_version value) @
     w_u64 (inv_ownership_generation value) @
     w_u64 (inv_epoch value) @
     w_u64 (inv_target_participant value) @
     w_uuid (inv_target_boot value) @
     enc_enum invalidation_state_to_u8 (inv_state value) @
     w_boolean (inv_acknowledgement_required value) @
     w_u64 (inv_issued_sequence value) @
     w_u64 (inv_settled_sequence value) @
     w_text (inv_rationale value)"

definition decode_invalidation :: "DecodeLimits \<Rightarrow> InvalidationRecord reader" where
  "decode_invalidation limits r =
     rbind (dec_header kRecordVersion r) (\<lambda>r.
     rbind (r_u64 r) (\<lambda>(v_id, r).
     rbind (r_u64 r) (\<lambda>(v_object, r).
     rbind (r_u64 r) (\<lambda>(v_object_generation, r).
     rbind (r_u64 r) (\<lambda>(v_region, r).
     rbind (r_u64 r) (\<lambda>(v_region_generation, r).
     rbind (r_u64 r) (\<lambda>(v_replica_generation, r).
     rbind (r_u64 r) (\<lambda>(v_published_version, r).
     rbind (r_u64 r) (\<lambda>(v_superseded_version, r).
     rbind (r_u64 r) (\<lambda>(v_ownership_generation, r).
     rbind (r_u64 r) (\<lambda>(v_epoch, r).
     rbind (r_u64 r) (\<lambda>(v_target_participant, r).
     rbind (r_uuid r) (\<lambda>(v_target_boot, r).
     rbind (dec_enum invalidation_state_from_u8 r) (\<lambda>(v_state, r).
     rbind (r_boolean r) (\<lambda>(v_acknowledgement_required, r).
     rbind (r_u64 r) (\<lambda>(v_issued_sequence, r).
     rbind (r_u64 r) (\<lambda>(v_settled_sequence, r).
     rbind (dec_text limits r) (\<lambda>(v_rationale, r).
     Inr (\<lparr>inv_id = v_id, inv_object = v_object, inv_object_generation = v_object_generation,
       inv_region = v_region, inv_region_generation = v_region_generation,
       inv_replica_generation = v_replica_generation,
       inv_published_version = v_published_version,
       inv_superseded_version = v_superseded_version,
       inv_ownership_generation = v_ownership_generation, inv_epoch = v_epoch,
       inv_target_participant = v_target_participant, inv_target_boot = v_target_boot,
       inv_state = v_state, inv_acknowledgement_required = v_acknowledgement_required,
       inv_issued_sequence = v_issued_sequence, inv_settled_sequence = v_settled_sequence,
       inv_rationale = v_rationale\<rparr>, r)))))))))))))))))))"

definition encode_sync :: "SyncRecord \<Rightarrow> bytes" where
  "encode_sync value =
     w_u16 kRecordVersion @
     w_u64 (sync_id value) @
     enc_enum sync_operation_kind_to_u8 (sync_kind value) @
     w_u64 (sync_object value) @
     w_u64 (sync_object_generation value) @
     w_u64 (sync_source_region value) @
     w_u64 (sync_source_region_generation value) @
     w_u64 (sync_destination_region value) @
     w_u64 (sync_destination_region_generation value) @
     w_u64 (sync_source_version value) @
     w_u64 (sync_destination_prior_version value) @
     w_u64 (sync_extent_offset value) @
     w_u64 (sync_extent_length value) @
     encode_fingerprint (sync_expected_content value) @
     w_u64 (sync_ownership_generation value) @
     w_u64 (sync_policy value) @
     w_u64 (sync_policy_generation value) @
     w_u64 (sync_epoch value) @
     w_u64 (sync_destination_participant value) @
     w_uuid (sync_destination_boot value) @
     enc_enum sync_state_to_u8 (sync_state value) @
     w_text (sync_postcondition value) @
     w_text (sync_transport value) @
     w_u64 (sync_issued_sequence value) @
     w_u64 (sync_settled_sequence value) @
     w_text (sync_failure_reason value)"

definition decode_sync :: "DecodeLimits \<Rightarrow> SyncRecord reader" where
  "decode_sync limits r =
     rbind (dec_header kRecordVersion r) (\<lambda>r.
     rbind (r_u64 r) (\<lambda>(v_id, r).
     rbind (dec_enum sync_kind_from_u8 r) (\<lambda>(v_kind, r).
     rbind (r_u64 r) (\<lambda>(v_object, r).
     rbind (r_u64 r) (\<lambda>(v_object_generation, r).
     rbind (r_u64 r) (\<lambda>(v_source_region, r).
     rbind (r_u64 r) (\<lambda>(v_source_region_generation, r).
     rbind (r_u64 r) (\<lambda>(v_destination_region, r).
     rbind (r_u64 r) (\<lambda>(v_destination_region_generation, r).
     rbind (r_u64 r) (\<lambda>(v_source_version, r).
     rbind (r_u64 r) (\<lambda>(v_destination_prior_version, r).
     rbind (r_u64 r) (\<lambda>(v_extent_offset, r).
     rbind (r_u64 r) (\<lambda>(v_extent_length, r).
     rbind (unless (v_extent_length > lim_max_object_length limits) Refused) (\<lambda>_.
     rbind (decode_fingerprint limits r) (\<lambda>(v_expected_content, r).
     rbind (r_u64 r) (\<lambda>(v_ownership_generation, r).
     rbind (r_u64 r) (\<lambda>(v_policy, r).
     rbind (r_u64 r) (\<lambda>(v_policy_generation, r).
     rbind (r_u64 r) (\<lambda>(v_epoch, r).
     rbind (r_u64 r) (\<lambda>(v_destination_participant, r).
     rbind (r_uuid r) (\<lambda>(v_destination_boot, r).
     rbind (dec_enum sync_state_from_u8 r) (\<lambda>(v_state, r).
     rbind (dec_text limits r) (\<lambda>(v_postcondition, r).
     rbind (dec_text limits r) (\<lambda>(v_transport, r).
     rbind (r_u64 r) (\<lambda>(v_issued_sequence, r).
     rbind (r_u64 r) (\<lambda>(v_settled_sequence, r).
     rbind (dec_text limits r) (\<lambda>(v_failure_reason, r).
     Inr (\<lparr>sync_id = v_id, sync_kind = v_kind, sync_object = v_object,
       sync_object_generation = v_object_generation, sync_source_region = v_source_region,
       sync_source_region_generation = v_source_region_generation,
       sync_destination_region = v_destination_region,
       sync_destination_region_generation = v_destination_region_generation,
       sync_source_version = v_source_version,
       sync_destination_prior_version = v_destination_prior_version,
       sync_extent_offset = v_extent_offset, sync_extent_length = v_extent_length,
       sync_expected_content = v_expected_content,
       sync_ownership_generation = v_ownership_generation, sync_policy = v_policy,
       sync_policy_generation = v_policy_generation, sync_epoch = v_epoch,
       sync_destination_participant = v_destination_participant,
       sync_destination_boot = v_destination_boot, sync_state = v_state,
       sync_postcondition = v_postcondition, sync_transport = v_transport,
       sync_issued_sequence = v_issued_sequence,
       sync_settled_sequence = v_settled_sequence, sync_failure_reason = v_failure_reason\<rparr>, r))))))))))))))))))))))))))))"

definition encode_pending_publication :: "PendingPublication \<Rightarrow> bytes" where
  "encode_pending_publication value =
     w_u16 kRecordVersion @
     w_u64 (pend_id value) @
     w_u64 (pend_object value) @
     w_u64 (pend_object_generation value) @
     w_u64 (pend_version value) @
     w_u64 (pend_prior_version value) @
     w_u64 (pend_ownership_generation value) @
     w_u64 (pend_epoch value) @
     w_u64 (pend_writer value) @
     w_uuid (pend_writer_boot value) @
     w_u64 (pend_request value) @
     encode_fingerprint (pend_content value) @
     w_u64 (pend_sequence value) @
     w_boolean (pend_durable value)"

definition decode_pending_publication :: "DecodeLimits \<Rightarrow> PendingPublication reader" where
  "decode_pending_publication limits r =
     rbind (dec_header kRecordVersion r) (\<lambda>r.
     rbind (r_u64 r) (\<lambda>(v_id, r).
     rbind (r_u64 r) (\<lambda>(v_object, r).
     rbind (r_u64 r) (\<lambda>(v_object_generation, r).
     rbind (r_u64 r) (\<lambda>(v_version, r).
     rbind (r_u64 r) (\<lambda>(v_prior_version, r).
     rbind (r_u64 r) (\<lambda>(v_ownership_generation, r).
     rbind (r_u64 r) (\<lambda>(v_epoch, r).
     rbind (r_u64 r) (\<lambda>(v_writer, r).
     rbind (r_uuid r) (\<lambda>(v_writer_boot, r).
     rbind (r_u64 r) (\<lambda>(v_request, r).
     rbind (decode_fingerprint limits r) (\<lambda>(v_content, r).
     rbind (r_u64 r) (\<lambda>(v_sequence, r).
     rbind (r_boolean r) (\<lambda>(v_durable, r).
     Inr (\<lparr>pend_id = v_id, pend_object = v_object,
       pend_object_generation = v_object_generation, pend_version = v_version,
       pend_prior_version = v_prior_version,
       pend_ownership_generation = v_ownership_generation, pend_epoch = v_epoch,
       pend_writer = v_writer, pend_writer_boot = v_writer_boot, pend_request = v_request,
       pend_content = v_content, pend_sequence = v_sequence, pend_durable = v_durable\<rparr>, r)))))))))))))))"

section \<open>The binary-only tables are complete\<close>

interpretation ownership_binary: enum_table kOwnership write_ownership_mode_to_u8
proof
  fix v :: WriteOwnershipMode
  show "v \<in> fst ` set kOwnership" by (cases v) (simp_all add: kOwnership_def)
qed (simp_all add: kOwnership_def)

interpretation durability_binary: enum_table kDurability publication_durability_to_u8
proof
  fix v :: PublicationDurability
  show "v \<in> fst ` set kDurability" by (cases v) (simp_all add: kDurability_def)
qed (simp_all add: kDurability_def)

interpretation conflict_binary: enum_table kConflict conflict_behavior_to_u8
proof
  fix v :: ConflictBehavior
  show "v \<in> fst ` set kConflict" by (cases v) (simp_all add: kConflict_def)
qed (simp_all add: kConflict_def)

interpretation recovery_binary: enum_table kRecovery recovery_policy_to_u8
proof
  fix v :: RecoveryPolicy
  show "v \<in> fst ` set kRecovery" by (cases v) (simp_all add: kRecovery_def)
qed (simp_all add: kRecovery_def)

interpretation stale_binary: enum_table kStale stale_read_policy_to_u8
proof
  fix v :: StaleReadPolicy
  show "v \<in> fst ` set kStale" by (cases v) (simp_all add: kStale_def)
qed (simp_all add: kStale_def)

interpretation dirty_loss_binary: enum_table kDirtyLoss dirty_loss_policy_to_u8
proof
  fix v :: DirtyLossPolicy
  show "v \<in> fst ` set kDirtyLoss" by (cases v) (simp_all add: kDirtyLoss_def)
qed (simp_all add: kDirtyLoss_def)

section \<open>Round trips\<close>

lemma dec_enum_enc: "(\<And>v. parse (to_u8 v) = Some v) \<Longrightarrow> dec_enum parse (enc_enum to_u8 v @ r) = Inr (v, r)"
  by (simp add: dec_enum_def enc_enum_def codec_simps)

lemma dec_enums [codec_simps]:
  "dec_enum domain_lifecycle_from_u8 (enc_enum domain_lifecycle_to_u8 v0 @ r) = Inr (v0, r)"
  "dec_enum participant_lifecycle_from_u8 (enc_enum participant_lifecycle_to_u8 v1 @ r) = Inr (v1, r)"
  "dec_enum object_lifecycle_from_u8 (enc_enum object_lifecycle_to_u8 v2 @ r) = Inr (v2, r)"
  "dec_enum authority_mode_from_u8 (enc_enum authority_mode_to_u8 v3 @ r) = Inr (v3, r)"
  "dec_enum publication_state_from_u8 (enc_enum publication_state_to_u8 v4 @ r) = Inr (v4, r)"
  "dec_enum dirty_condition_from_u8 (enc_enum dirty_condition_to_u8 v5 @ r) = Inr (v5, r)"
  "dec_enum memory_domain_from_u8 (enc_enum memory_domain_to_u8 v6 @ r) = Inr (v6, r)"
  "dec_enum evidence_class_from_u8 (enc_enum evidence_class_to_u8 v7 @ r) = Inr (v7, r)"
  "dec_enum evidence_kind_from_u8 (enc_enum evidence_kind_to_u8 v8 @ r) = Inr (v8, r)"
  "dec_enum region_lifecycle_from_u8 (enc_enum region_lifecycle_to_u8 v9 @ r) = Inr (v9, r)"
  "dec_enum coherence_state_from_u8 (enc_enum coherence_state_to_u8 v10 @ r) = Inr (v10, r)"
  "dec_enum invalidation_state_from_u8 (enc_enum invalidation_state_to_u8 v11 @ r) = Inr (v11, r)"
  "dec_enum sync_kind_from_u8 (enc_enum sync_operation_kind_to_u8 v12 @ r) = Inr (v12, r)"
  "dec_enum sync_state_from_u8 (enc_enum sync_state_to_u8 v13 @ r) = Inr (v13, r)"
  "dec_enum consistency_model_from_u8 (enc_enum consistency_model_to_u8 v14 @ r) = Inr (v14, r)"
  "dec_enum ownership_from_u8 (enc_enum write_ownership_mode_to_u8 w0 @ r) = Inr (w0, r)"
  "dec_enum durability_from_u8 (enc_enum publication_durability_to_u8 w1 @ r) = Inr (w1, r)"
  "dec_enum conflict_from_u8 (enc_enum conflict_behavior_to_u8 w2 @ r) = Inr (w2, r)"
  "dec_enum recovery_from_u8 (enc_enum recovery_policy_to_u8 w3 @ r) = Inr (w3, r)"
  "dec_enum stale_from_u8 (enc_enum stale_read_policy_to_u8 w4 @ r) = Inr (w4, r)"
  "dec_enum dirty_loss_from_u8 (enc_enum dirty_loss_policy_to_u8 w5 @ r) = Inr (w5, r)"
  by (rule dec_enum_enc,
      simp add: domain_lifecycle_from_u8_def participant_lifecycle_from_u8_def
        object_lifecycle_from_u8_def authority_mode_from_u8_def
        publication_state_from_u8_def dirty_condition_from_u8_def
        memory_domain_from_u8_def evidence_class_from_u8_def evidence_kind_from_u8_def
        region_lifecycle_from_u8_def coherence_state_from_u8_def
        invalidation_state_from_u8_def sync_kind_from_u8_def sync_state_from_u8_def
        consistency_model_from_u8_def ownership_from_u8_def durability_from_u8_def
        conflict_from_u8_def recovery_from_u8_def stale_from_u8_def
        dirty_loss_from_u8_def
        domain_lifecycle.from_to_u8 participant_lifecycle.from_to_u8
        object_lifecycle.from_to_u8 authority_mode.from_to_u8
        publication_state.from_to_u8 dirty_condition.from_to_u8 memory_domain.from_to_u8
        evidence_class.from_to_u8 evidence_kind.from_to_u8 region_lifecycle.from_to_u8
        coherence_state.from_to_u8 invalidation_state.from_to_u8
        sync_operation_kind.from_to_u8 sync_state.from_to_u8
        consistency_model.from_to_u8 ownership_binary.from_to_u8
        durability_binary.from_to_u8 conflict_binary.from_to_u8
        recovery_binary.from_to_u8 stale_binary.from_to_u8 dirty_loss_binary.from_to_u8)+

lemma read_dec_text [codec_simps]:
  "length s \<le> unat (lim_max_text limits) \<Longrightarrow> dec_text limits (w_text s @ r) = Inr (s, r)"
  by (simp add: dec_text_def codec_simps)

lemma read_dec_header [codec_simps]: "dec_header v (w_u16 v @ r) = Inr r"
  by (simp add: dec_header_def codec_simps)

context record_codec
begin

lemma collection_encode:
  assumes "\<And>v. v \<in> set vs \<Longrightarrow> ok v" and "length vs \<le> unat (lim_max_collection limits)"
  shows "r_collection limits dec (w_collection enc vs @ r) = Inr (vs, r)"
  using assms repeat_encode [of vs "length vs" r]
  by (simp add: r_collection_def w_collection_def codec_simps unat_of_nat_le word_less_nat_alt)

end

text \<open>What each decoder requires of a record: bounded texts, bounded collections, bounded lengths.\<close>

definition text_ok :: "DecodeLimits \<Rightarrow> string \<Rightarrow> bool" where
  "text_ok limits s \<longleftrightarrow> length s \<le> unat (lim_max_text limits)"

definition fingerprint_ok :: "DecodeLimits \<Rightarrow> ContentFingerprint \<Rightarrow> bool" where
  "fingerprint_ok limits v \<longleftrightarrow> fp_length v \<le> lim_max_object_length limits"

definition policy_ok :: "DecodeLimits \<Rightarrow> CoherencePolicy \<Rightarrow> bool" where
  "policy_ok limits v \<longleftrightarrow> text_ok limits (pol_name v)"

definition evidence_ok :: "DecodeLimits \<Rightarrow> EvidenceRecord \<Rightarrow> bool" where
  "evidence_ok limits v \<longleftrightarrow> text_ok limits (ev_note v)"

definition domain_ok :: "DecodeLimits \<Rightarrow> DomainRecord \<Rightarrow> bool" where
  "domain_ok limits v \<longleftrightarrow> text_ok limits (dom_name v) \<and> dom_generation v \<noteq> 0"

definition participant_ok :: "DecodeLimits \<Rightarrow> ParticipantRecord \<Rightarrow> bool" where
  "participant_ok limits v \<longleftrightarrow>
     text_ok limits (par_name v) \<and> text_ok limits (par_node_label v) \<and> text_ok limits (par_fence_reason v)"

definition object_ok :: "DecodeLimits \<Rightarrow> ObjectRecord \<Rightarrow> bool" where
  "object_ok limits v \<longleftrightarrow>
     text_ok limits (obj_name v) \<and> text_ok limits (obj_recovery_note v) \<and>
     obj_length v \<le> lim_max_object_length limits \<and> fingerprint_ok limits (obj_pending_content v) \<and>
     length (obj_replicas v) \<le> unat (lim_max_collection limits) \<and>
     length (obj_reads v) \<le> unat (lim_max_collection limits) \<and>
     length (obj_outstanding_invalidations v) \<le> unat (lim_max_collection limits) \<and>
     length (obj_completed_requests v) \<le> unat (lim_max_collection limits)"

definition region_ok :: "DecodeLimits \<Rightarrow> RegionRecord \<Rightarrow> bool" where
  "region_ok limits v \<longleftrightarrow>
     text_ok limits (reg_name v) \<and> text_ok limits (reg_note v) \<and>
     reg_length v \<le> lim_max_object_length limits \<and> fingerprint_ok limits (reg_content v)"

definition invalidation_ok :: "DecodeLimits \<Rightarrow> InvalidationRecord \<Rightarrow> bool" where
  "invalidation_ok limits v \<longleftrightarrow> text_ok limits (inv_rationale v)"

definition sync_ok :: "DecodeLimits \<Rightarrow> SyncRecord \<Rightarrow> bool" where
  "sync_ok limits v \<longleftrightarrow>
     text_ok limits (sync_postcondition v) \<and> text_ok limits (sync_transport v) \<and>
     text_ok limits (sync_failure_reason v) \<and> sync_extent_length v \<le> lim_max_object_length limits \<and>
     fingerprint_ok limits (sync_expected_content v)"

definition pending_publication_ok :: "DecodeLimits \<Rightarrow> PendingPublication \<Rightarrow> bool" where
  "pending_publication_ok limits v \<longleftrightarrow> fingerprint_ok limits (pend_content v)"

lemma fingerprint_roundtrip [codec_simps]:
  "fingerprint_ok limits v \<Longrightarrow> decode_fingerprint limits (encode_fingerprint v @ r) = Inr (v, r)"
  by (simp add: encode_fingerprint_def decode_fingerprint_def fingerprint_ok_def codec_simps not_less)

lemma policy_roundtrip [codec_simps]:
  "policy_ok limits v \<Longrightarrow> decode_policy limits (encode_policy v @ r) = Inr (v, r)"
  by (simp add: encode_policy_def decode_policy_def policy_ok_def text_ok_def codec_simps not_less)

lemma evidence_roundtrip [codec_simps]:
  "evidence_ok limits v \<Longrightarrow> decode_evidence limits (encode_evidence v @ r) = Inr (v, r)"
  by (simp add: encode_evidence_def decode_evidence_def evidence_ok_def text_ok_def codec_simps not_less)

lemma authority_context_roundtrip [codec_simps]: "decode_authority_context (encode_authority_context v @ r) = Inr (v, r)"
  by (simp add: encode_authority_context_def decode_authority_context_def codec_simps)

lemma read_grant_roundtrip [codec_simps]: "decode_read_grant (encode_read_grant v @ r) = Inr (v, r)"
  by (simp add: encode_read_grant_def decode_read_grant_def codec_simps)

lemma completed_request_roundtrip [codec_simps]: "decode_completed_request (encode_completed_request v @ r) = Inr (v, r)"
  by (simp add: encode_completed_request_def decode_completed_request_def codec_simps)

interpretation read_grant_codec: record_codec encode_read_grant decode_read_grant "\<lambda>_. True"
  by unfold_locales (rule read_grant_roundtrip)

interpretation completed_codec: record_codec encode_completed_request decode_completed_request "\<lambda>_. True"
  by unfold_locales (rule completed_request_roundtrip)

lemmas read_collections [codec_simps] =
  u64_codec.collection_encode [OF TrueI] read_grant_codec.collection_encode [OF TrueI]
  completed_codec.collection_encode [OF TrueI]

lemma domain_roundtrip [codec_simps]:
  "domain_ok limits v \<Longrightarrow> decode_domain limits (encode_domain v @ r) = Inr (v, r)"
  by (simp add: encode_domain_def decode_domain_def domain_ok_def text_ok_def codec_simps not_less)

lemma participant_roundtrip [codec_simps]:
  "participant_ok limits v \<Longrightarrow> decode_participant limits (encode_participant v @ r) = Inr (v, r)"
  by (simp add: encode_participant_def decode_participant_def participant_ok_def text_ok_def codec_simps not_less)

lemma object_roundtrip [codec_simps]:
  "object_ok limits v \<Longrightarrow> decode_object limits (encode_object v @ r) = Inr (v, r)"
  by (simp add: encode_object_def decode_object_def object_ok_def text_ok_def codec_simps not_less)

lemma region_roundtrip [codec_simps]:
  "region_ok limits v \<Longrightarrow> decode_region limits (encode_region v @ r) = Inr (v, r)"
  by (simp add: encode_region_def decode_region_def region_ok_def text_ok_def codec_simps not_less)

lemma invalidation_roundtrip [codec_simps]:
  "invalidation_ok limits v \<Longrightarrow> decode_invalidation limits (encode_invalidation v @ r) = Inr (v, r)"
  by (simp add: encode_invalidation_def decode_invalidation_def invalidation_ok_def text_ok_def codec_simps not_less)

lemma sync_roundtrip [codec_simps]:
  "sync_ok limits v \<Longrightarrow> decode_sync limits (encode_sync v @ r) = Inr (v, r)"
  by (simp add: encode_sync_def decode_sync_def sync_ok_def text_ok_def codec_simps not_less)

lemma pending_publication_roundtrip [codec_simps]:
  "pending_publication_ok limits v \<Longrightarrow> decode_pending_publication limits (encode_pending_publication v @ r) = Inr (v, r)"
  by (simp add: encode_pending_publication_def decode_pending_publication_def pending_publication_ok_def text_ok_def codec_simps not_less)

section \<open>Every record codec meets the contract\<close>

interpretation policy_codec: record_codec "encode_policy" "decode_policy limits" "policy_ok limits" for limits
  by unfold_locales (rule policy_roundtrip)

interpretation evidence_codec: record_codec "encode_evidence" "decode_evidence limits" "evidence_ok limits" for limits
  by unfold_locales (rule evidence_roundtrip)

interpretation domain_codec: record_codec "encode_domain" "decode_domain limits" "domain_ok limits" for limits
  by unfold_locales (rule domain_roundtrip)

interpretation participant_codec: record_codec "encode_participant" "decode_participant limits" "participant_ok limits" for limits
  by unfold_locales (rule participant_roundtrip)

interpretation object_codec: record_codec "encode_object" "decode_object limits" "object_ok limits" for limits
  by unfold_locales (rule object_roundtrip)

interpretation region_codec: record_codec "encode_region" "decode_region limits" "region_ok limits" for limits
  by unfold_locales (rule region_roundtrip)

interpretation invalidation_codec: record_codec "encode_invalidation" "decode_invalidation limits" "invalidation_ok limits" for limits
  by unfold_locales (rule invalidation_roundtrip)

interpretation sync_codec: record_codec "encode_sync" "decode_sync limits" "sync_ok limits" for limits
  by unfold_locales (rule sync_roundtrip)

interpretation pending_publication_codec: record_codec "encode_pending_publication" "decode_pending_publication limits" "pending_publication_ok limits" for limits
  by unfold_locales (rule pending_publication_roundtrip)


section \<open>Properties\<close>

text \<open>C36. Every durable record survives its binary codec: a record within the decode limits is read
  back unchanged, and the bytes behind it are left for the next reader.\<close>

theorem record_roundtrips:
  "(domain_ok limits d \<longrightarrow> decode_domain limits (encode_domain d @ r) = Inr (d, r)) \<and>
   (policy_ok limits p \<longrightarrow> decode_policy limits (encode_policy p @ r) = Inr (p, r)) \<and>
   (participant_ok limits a \<longrightarrow> decode_participant limits (encode_participant a @ r) = Inr (a, r)) \<and>
   (object_ok limits ob \<longrightarrow> decode_object limits (encode_object ob @ r) = Inr (ob, r)) \<and>
   (region_ok limits g \<longrightarrow> decode_region limits (encode_region g @ r) = Inr (g, r)) \<and>
   (invalidation_ok limits i \<longrightarrow> decode_invalidation limits (encode_invalidation i @ r) = Inr (i, r)) \<and>
   (sync_ok limits s \<longrightarrow> decode_sync limits (encode_sync s @ r) = Inr (s, r)) \<and>
   (pending_publication_ok limits q \<longrightarrow>
      decode_pending_publication limits (encode_pending_publication q @ r) = Inr (q, r)) \<and>
   (evidence_ok limits e \<longrightarrow> decode_evidence limits (encode_evidence e @ r) = Inr (e, r))"
  by (simp add: codec_simps)

theorem record_roundtrips_witness:
  "decode_domain default_decode_limits (encode_domain default_domain_record @ [7]) =
     Inr (default_domain_record, [7]) \<and>
   decode_object default_decode_limits (encode_object default_object_record @ [7]) =
     Inr (default_object_record, [7])"
  using record_roundtrips [of default_decode_limits default_domain_record "[7]" _ _ default_object_record]
  by (simp add: domain_ok_def object_ok_def text_ok_def fingerprint_ok_def default_decode_limits_def
      default_domain_record_def default_object_record_def default_content_fingerprint_def)

end
