(* ===== verification/Persistence.thy ===== *)
theory Persistence
  imports Codec
begin

text \<open>
  Durability (\<^verbatim>\<open>include/coherence/persistence.hpp\<close>, \<^verbatim>\<open>src/persistence.cpp\<close>): the durable image, journal
  entries and their framing, snapshots, replay, the scrubbing of records before they are written,
  and the in-memory store, which keeps the same bytes a file store writes.  The file store adds
  operating-system calls around the same framing, replay and snapshot code and is not modelled.
  A journal entry of the source has one meaningful payload per kind; here the payload is the
  argument of the kind's constructor.
\<close>

section \<open>Image and journal entries\<close>

record DurableImage =
  img_sequence :: u64
  img_epoch :: CoordinatorEpoch
  img_domains :: "(CoherenceDomainId, DomainRecord) std_map"
  img_participants :: "(ParticipantId, ParticipantRecord) std_map"
  img_objects :: "(ObjectId, ObjectRecord) std_map"
  img_regions :: "(RegionId, RegionRecord) std_map"
  img_invalidations :: "(InvalidationId, InvalidationRecord) std_map"
  img_syncs :: "(SyncOperationId, SyncRecord) std_map"
  img_policies :: "(PolicyId, CoherencePolicy) std_map"
  img_pending_publications :: "(PublicationId, PendingPublication) std_map"

definition empty_image :: DurableImage where
  "empty_image =
     \<lparr>img_sequence = 0, img_epoch = 0, img_domains = [], img_participants = [], img_objects = [],
      img_regions = [], img_invalidations = [], img_syncs = [], img_policies = [],
      img_pending_publications = []\<rparr>"

definition record_count :: "DurableImage \<Rightarrow> nat" where
  "record_count img =
     length (img_domains img) + length (img_participants img) + length (img_objects img) +
     length (img_regions img) + length (img_invalidations img) + length (img_syncs img) +
     length (img_policies img) + length (img_pending_publications img)"

datatype JournalBody =
    Invalid
  | Snapshot
  | UpsertDomain DomainRecord
  | UpsertParticipant ParticipantRecord
  | UpsertObject ObjectRecord
  | UpsertRegion RegionRecord
  | UpsertInvalidation InvalidationRecord
  | UpsertSync SyncRecord
  | UpsertPolicy CoherencePolicy
  | SetPendingPublication PendingPublication
  | ClearPendingPublication ObjectId
  | RemoveObject ObjectId
  | RemoveRegion RegionId
  | SetEpoch CoordinatorEpoch
  | RemoveSync SyncOperationId
  | RemoveParticipant ParticipantId

record JournalEntry =
  je_sequence :: u64
  je_body :: JournalBody

primrec journal_kind_to_u16 :: "JournalBody \<Rightarrow> u16" where
  "journal_kind_to_u16 JournalBody.Invalid = 0"
| "journal_kind_to_u16 JournalBody.Snapshot = 1"
| "journal_kind_to_u16 (UpsertDomain x) = 2"
| "journal_kind_to_u16 (UpsertParticipant x) = 3"
| "journal_kind_to_u16 (UpsertObject x) = 4"
| "journal_kind_to_u16 (UpsertRegion x) = 5"
| "journal_kind_to_u16 (UpsertInvalidation x) = 6"
| "journal_kind_to_u16 (UpsertSync x) = 7"
| "journal_kind_to_u16 (UpsertPolicy x) = 8"
| "journal_kind_to_u16 (SetPendingPublication x) = 9"
| "journal_kind_to_u16 (ClearPendingPublication x) = 10"
| "journal_kind_to_u16 (RemoveObject x) = 11"
| "journal_kind_to_u16 (RemoveRegion x) = 12"
| "journal_kind_to_u16 (SetEpoch x) = 13"
| "journal_kind_to_u16 (RemoveSync x) = 14"
| "journal_kind_to_u16 (RemoveParticipant x) = 15"

record StoreLimits =
  sl_barrier_per_append :: bool
  sl_max_snapshot_bytes :: u64
  sl_max_journal_bytes :: u64
  sl_max_journal_record_bytes :: u64
  sl_max_records :: u64

definition default_store_limits :: StoreLimits where
  "default_store_limits =
     \<lparr>sl_barrier_per_append = True, sl_max_snapshot_bytes = 2 ^ 31, sl_max_journal_bytes = 2 ^ 31,
      sl_max_journal_record_bytes = 2 ^ 26, sl_max_records = 20000000\<rparr>"

record LoadReport =
  lr_journal_records_replayed :: u64
  lr_corrupt_records :: u64
  lr_snapshot_loaded :: bool
  lr_snapshot_bytes :: u64
  lr_journal_bytes :: u64
  lr_truncated_tail :: bool

definition empty_load_report :: LoadReport where
  "empty_load_report =
     \<lparr>lr_journal_records_replayed = 0, lr_corrupt_records = 0, lr_snapshot_loaded = False,
      lr_snapshot_bytes = 0, lr_journal_bytes = 0, lr_truncated_tail = False\<rparr>"

section \<open>Payloads\<close>

fun encode_payload :: "JournalBody \<Rightarrow> bytes option" where
  "encode_payload JournalBody.Snapshot = Some []"
| "encode_payload (UpsertDomain x) = Some (encode_domain x)"
| "encode_payload (UpsertParticipant x) = Some (encode_participant x)"
| "encode_payload (UpsertObject x) = Some (encode_object x)"
| "encode_payload (UpsertRegion x) = Some (encode_region x)"
| "encode_payload (UpsertInvalidation x) = Some (encode_invalidation x)"
| "encode_payload (UpsertSync x) = Some (encode_sync x)"
| "encode_payload (UpsertPolicy x) = Some (encode_policy x)"
| "encode_payload (SetPendingPublication x) = Some (encode_pending_publication x)"
| "encode_payload (ClearPendingPublication x) = Some (w_u64 x)"
| "encode_payload (RemoveObject x) = Some (w_u64 x)"
| "encode_payload (RemoveRegion x) = Some (w_u64 x)"
| "encode_payload (RemoveSync x) = Some (w_u64 x)"
| "encode_payload (RemoveParticipant x) = Some (w_u64 x)"
| "encode_payload (SetEpoch x) = Some (w_u64 x)"
| "encode_payload JournalBody.Invalid = None"

text \<open>A body reader: decode one record and wrap it in its constructor.\<close>

definition r_body :: "('a \<Rightarrow> JournalBody) \<Rightarrow> 'a reader \<Rightarrow> JournalBody reader" where
  "r_body mk dec r = rbind (dec r) (\<lambda>(v, r). Inr (mk v, r))"

text \<open>\<open>journal_kind_from_u16\<close> and \<open>decode_payload\<close>: the decoder the raw kind selects, if any.\<close>

definition payload_reader :: "u16 \<Rightarrow> DecodeLimits \<Rightarrow> JournalBody reader option" where
  "payload_reader raw limits =
     (if raw = 1 then Some (\<lambda>r. Inr (JournalBody.Snapshot, r))
      else if raw = 2 then Some (r_body UpsertDomain (decode_domain limits))
      else if raw = 3 then Some (r_body UpsertParticipant (decode_participant limits))
      else if raw = 4 then Some (r_body UpsertObject (decode_object limits))
      else if raw = 5 then Some (r_body UpsertRegion (decode_region limits))
      else if raw = 6 then Some (r_body UpsertInvalidation (decode_invalidation limits))
      else if raw = 7 then Some (r_body UpsertSync (decode_sync limits))
      else if raw = 8 then Some (r_body UpsertPolicy (decode_policy limits))
      else if raw = 9 then Some (r_body SetPendingPublication (decode_pending_publication limits))
      else if raw = 10 then Some (r_body ClearPendingPublication r_u64)
      else if raw = 11 then Some (r_body RemoveObject r_u64)
      else if raw = 12 then Some (r_body RemoveRegion r_u64)
      else if raw = 13 then Some (r_body SetEpoch r_u64)
      else if raw = 14 then Some (r_body RemoveSync r_u64)
      else if raw = 15 then Some (r_body RemoveParticipant r_u64)
      else None)"

section \<open>Journal frames\<close>

definition kJournalRecordMagic :: u32 where "kJournalRecordMagic = 0x43464A31"
definition kJournalFormatVersion :: u16 where "kJournalFormatVersion = 1"
definition kJournalHeaderSize :: nat where "kJournalHeaderSize = 24"

definition write_frame_header :: "u16 \<Rightarrow> u64 \<Rightarrow> u32 \<Rightarrow> u32 \<Rightarrow> bytes" where
  "write_frame_header kind sequence payload_length payload_crc =
     store_u32 kJournalRecordMagic @ store_u16 kJournalFormatVersion @ store_u16 kind @
     store_u64 sequence @ store_u32 payload_length @ store_u32 payload_crc"

definition encode_journal_entry :: "JournalEntry \<Rightarrow> bytes" where
  "encode_journal_entry entry =
     (case encode_payload (je_body entry) of
        None \<Rightarrow> []
      | Some payload \<Rightarrow>
          write_frame_header (journal_kind_to_u16 (je_body entry)) (je_sequence entry)
            (of_nat (length payload)) (crc32c_seed 0 payload) @ payload)"

definition decode_journal_entry :: "bytes \<Rightarrow> StoreLimits \<Rightarrow> JournalEntry Result" where
  "decode_journal_entry frame limits =
     (if length frame < kJournalHeaderSize then Inl StatusCode.TruncatedInput
      else if load_u32 frame 0 \<noteq> kJournalRecordMagic then Inl StatusCode.CorruptionDetected
      else if load_u16 frame 4 \<noteq> kJournalFormatVersion then Inl StatusCode.UnsupportedSchema
      else case payload_reader (load_u16 frame 6) default_decode_limits of
        None \<Rightarrow> Inl StatusCode.ProtocolViolation
      | Some decode_payload \<Rightarrow>
          let sequence = load_u64 frame 8;
              payload_length = load_u32 frame 16;
              payload_crc = load_u32 frame 20
          in if unat payload_length > unat (sl_max_journal_record_bytes limits)
               then Inl StatusCode.OversizedInput
             else if length frame < kJournalHeaderSize + unat payload_length
               then Inl StatusCode.TruncatedInput
             else let payload = take (unat payload_length) (drop kJournalHeaderSize frame)
             in if crc32c_seed 0 payload \<noteq> payload_crc then Inl StatusCode.IntegrityFailure
                else case decode_payload payload of
                    Inl e \<Rightarrow> Inl (if reader_status e = StatusCode.Ok
                                  then StatusCode.CorruptionDetected else reader_status e)
                  | Inr (body, rest) \<Rightarrow>
                      if expect_end rest \<noteq> StatusCode.Ok then Inl (expect_end rest)
                      else Inr \<lparr>je_sequence = sequence, je_body = body\<rparr>)"

section \<open>Snapshots\<close>

definition kSnapshotMagic :: u32 where "kSnapshotMagic = 0x43465331"
definition kSnapshotFormatVersion :: u16 where "kSnapshotFormatVersion = 1"
definition kSnapshotHeaderSize :: nat where "kSnapshotHeaderSize = 32"
definition kSnapshotTrailerSize :: nat where "kSnapshotTrailerSize = 32"
definition persistence_schema :: u32 where "persistence_schema = 1"

definition encode_image_payload :: "DurableImage \<Rightarrow> bytes" where
  "encode_image_payload img =
     w_u64 (img_sequence img) @
     w_u64 (img_epoch img) @
     w_collection encode_domain (sm_values (img_domains img)) @
     w_collection encode_participant (sm_values (img_participants img)) @
     w_collection encode_policy (sm_values (img_policies img)) @
     w_collection encode_object (sm_values (img_objects img)) @
     w_collection encode_region (sm_values (img_regions img)) @
     w_collection encode_invalidation (sm_values (img_invalidations img)) @
     w_collection encode_sync (sm_values (img_syncs img)) @
     w_collection encode_pending_publication (sm_values (img_pending_publications img))"

text \<open>\<open>decode_collection\<close>: each record is emplaced under its own key as it is read.\<close>

definition emplace_all :: "('v \<Rightarrow> 'k::linorder) \<Rightarrow> 'v list \<Rightarrow> ('k, 'v) std_map" where
  "emplace_all record_key records =
     foldl (\<lambda>out record. sm_emplace (record_key record) record out) [] records"

definition decode_collection ::
  "DecodeLimits \<Rightarrow> ('v \<Rightarrow> 'k::linorder) \<Rightarrow> 'v reader \<Rightarrow> ('k, 'v) std_map reader" where
  "decode_collection limits record_key dec r =
     rbind (r_collection limits dec r) (\<lambda>(records, r).
     Inr (emplace_all record_key records, r))"

definition decode_image_payload :: "DecodeLimits \<Rightarrow> DurableImage reader" where
  "decode_image_payload limits r =
     rbind (r_u64 r) (\<lambda>(v_sequence, r).
     rbind (r_u64 r) (\<lambda>(v_epoch, r).
     rbind (decode_collection limits dom_id (decode_domain limits) r) (\<lambda>(v_domains, r).
     rbind (decode_collection limits par_id (decode_participant limits) r) (\<lambda>(v_participants, r).
     rbind (decode_collection limits pol_id (decode_policy limits) r) (\<lambda>(v_policies, r).
     rbind (decode_collection limits obj_id (decode_object limits) r) (\<lambda>(v_objects, r).
     rbind (decode_collection limits reg_id (decode_region limits) r) (\<lambda>(v_regions, r).
     rbind (decode_collection limits inv_id (decode_invalidation limits) r) (\<lambda>(v_invalidations, r).
     rbind (decode_collection limits sync_id (decode_sync limits) r) (\<lambda>(v_syncs, r).
     rbind (decode_collection limits pend_id (decode_pending_publication limits) r) (\<lambda>(v_pending, r).
     Inr (\<lparr>img_sequence = v_sequence, img_epoch = v_epoch, img_domains = v_domains,
       img_participants = v_participants, img_objects = v_objects, img_regions = v_regions,
       img_invalidations = v_invalidations, img_syncs = v_syncs, img_policies = v_policies,
       img_pending_publications = v_pending\<rparr>, r)))))))))))"

definition snapshot_header :: "u64 \<Rightarrow> u32 \<Rightarrow> u64 \<Rightarrow> bytes" where
  "snapshot_header payload_length payload_crc sequence =
     (let header = store_u32 kSnapshotMagic @ store_u16 kSnapshotFormatVersion @
            store_u16 (ucast persistence_schema) @ store_u64 payload_length @
            store_u32 payload_crc @ store_u32 0 @ store_u64 sequence
      in store_at header 20 (store_u32 (crc32c (take (kSnapshotHeaderSize - 4) header))))"

definition encode_snapshot :: "DurableImage \<Rightarrow> bytes" where
  "encode_snapshot img =
     (let payload = encode_image_payload img;
          header = snapshot_header (of_nat (length payload)) (crc32c_seed 0 payload) (img_sequence img)
      in header @ payload @ sha256_digest (header @ payload))"

text \<open>The decode of a payload that passed every integrity check.\<close>

definition decode_snapshot_payload :: "bytes \<Rightarrow> u64 \<Rightarrow> StoreLimits \<Rightarrow> DurableImage Result" where
  "decode_snapshot_payload payload declared_sequence limits =
     (case decode_image_payload default_decode_limits payload of
        Inl e \<Rightarrow> Inl (if reader_status e = StatusCode.Ok
                      then StatusCode.CorruptionDetected else reader_status e)
      | Inr (img, rest) \<Rightarrow>
          if expect_end rest \<noteq> StatusCode.Ok then Inl (expect_end rest)
          else if declared_sequence \<noteq> img_sequence img then Inl StatusCode.IntegrityFailure
          else if record_count img > unat (sl_max_records limits) then Inl StatusCode.OversizedInput
          else Inr img)"

definition decode_snapshot :: "bytes \<Rightarrow> StoreLimits \<Rightarrow> DurableImage Result" where
  "decode_snapshot bs limits =
     (if length bs < kSnapshotHeaderSize + kSnapshotTrailerSize then Inl StatusCode.TruncatedInput
      else if load_u32 bs 0 \<noteq> kSnapshotMagic then Inl StatusCode.CorruptionDetected
      else if load_u16 bs 4 \<noteq> kSnapshotFormatVersion then Inl StatusCode.UnsupportedSchema
      else if load_u16 bs 6 \<noteq> ucast persistence_schema then Inl StatusCode.UnsupportedSchema
      else let payload_length = load_u64 bs 8;
               payload_crc = load_u32 bs 16;
               header_crc = load_u32 bs 20
      in case checked_add payload_length (of_nat (kSnapshotHeaderSize + kSnapshotTrailerSize)) of
           None \<Rightarrow> Inl StatusCode.OversizedInput
         | Some expected_total \<Rightarrow>
             if expected_total > sl_max_snapshot_bytes limits then Inl StatusCode.OversizedInput
             else if length bs \<noteq> unat expected_total then Inl StatusCode.TrailingGarbage
             else let header_copy = store_at (take kSnapshotHeaderSize bs) 20 (store_u32 0)
             in if crc32c (take (kSnapshotHeaderSize - 4) header_copy) \<noteq> header_crc
                  then Inl StatusCode.IntegrityFailure
                else let payload = take (unat payload_length) (drop kSnapshotHeaderSize bs)
                in if crc32c_seed 0 payload \<noteq> payload_crc then Inl StatusCode.IntegrityFailure
                   else let body = kSnapshotHeaderSize + unat payload_length;
                            trailer = take kSnapshotTrailerSize (drop body bs)
                   in if \<not> digest_equal trailer (sha256_digest (take body bs))
                        then Inl StatusCode.IntegrityFailure
                      else decode_snapshot_payload payload (load_u64 bs 24) limits)"

section \<open>Applying journal entries\<close>

definition apply_journal_entry :: "DurableImage \<Rightarrow> JournalEntry \<Rightarrow> StatusCode \<times> DurableImage" where
  "apply_journal_entry img entry =
     (if je_sequence entry = 0 then (StatusCode.InvalidArgument, img)
      else let advance = (\<lambda>img. (StatusCode.Ok,
             if je_sequence entry > img_sequence img then img\<lparr>img_sequence := je_sequence entry\<rparr> else img))
      in case je_body entry of
           JournalBody.Snapshot \<Rightarrow> (StatusCode.Ok, img)
         | UpsertDomain x \<Rightarrow> advance (img\<lparr>img_domains := sm_put (dom_id x) x (img_domains img)\<rparr>)
         | UpsertParticipant x \<Rightarrow>
             advance (img\<lparr>img_participants := sm_put (par_id x) x (img_participants img)\<rparr>)
         | RemoveParticipant k \<Rightarrow>
             advance (img\<lparr>img_participants := sm_erase k (img_participants img)\<rparr>)
         | UpsertObject x \<Rightarrow> advance (img\<lparr>img_objects := sm_put (obj_id x) x (img_objects img)\<rparr>)
         | RemoveObject k \<Rightarrow> advance (img\<lparr>img_objects := sm_erase k (img_objects img)\<rparr>)
         | UpsertRegion x \<Rightarrow> advance (img\<lparr>img_regions := sm_put (reg_id x) x (img_regions img)\<rparr>)
         | RemoveRegion k \<Rightarrow> advance (img\<lparr>img_regions := sm_erase k (img_regions img)\<rparr>)
         | UpsertInvalidation x \<Rightarrow>
             advance (img\<lparr>img_invalidations := sm_put (inv_id x) x (img_invalidations img)\<rparr>)
         | UpsertSync x \<Rightarrow> advance (img\<lparr>img_syncs := sm_put (sync_id x) x (img_syncs img)\<rparr>)
         | RemoveSync k \<Rightarrow> advance (img\<lparr>img_syncs := sm_erase k (img_syncs img)\<rparr>)
         | UpsertPolicy x \<Rightarrow> advance (img\<lparr>img_policies := sm_put (pol_id x) x (img_policies img)\<rparr>)
         | SetPendingPublication x \<Rightarrow>
             advance (img\<lparr>img_pending_publications := sm_put (pend_id x) x (img_pending_publications img)\<rparr>)
         | ClearPendingPublication k \<Rightarrow>
             advance (img\<lparr>img_pending_publications :=
               filter (\<lambda>e. pend_object (snd e) \<noteq> k) (img_pending_publications img)\<rparr>)
         | SetEpoch k \<Rightarrow> advance (img\<lparr>img_epoch := k\<rparr>)
         | JournalBody.Invalid \<Rightarrow> (StatusCode.ProtocolViolation, img))"

definition scrub_object_for_persistence :: "ObjectRecord \<Rightarrow> ObjectRecord" where
  "scrub_object_for_persistence record = record
     \<lparr>obj_reads := [], obj_authority := AuthorityMode.NoAuthority, obj_writer := 0,
      obj_writer_boot := 0, obj_has_unpublished_dirty := False\<rparr>"

definition scrub_participant_for_persistence :: "ParticipantRecord \<Rightarrow> ParticipantRecord" where
  "scrub_participant_for_persistence record = record
     \<lparr>par_session := 0, par_live := False, par_last_sequence := 0\<rparr>"

section \<open>The memory store\<close>

record MemoryDurableStore =
  ms_limits :: StoreLimits
  ms_snapshot :: bytes
  ms_journal :: bytes
  ms_sequence :: u64
  ms_next_sequence :: u64
  ms_append_count :: u64
  ms_fail_append_at :: u64
  ms_closed :: bool
  ms_opened :: bool

definition new_memory_store :: "StoreLimits \<Rightarrow> MemoryDurableStore" where
  "new_memory_store limits =
     \<lparr>ms_limits = limits, ms_snapshot = [], ms_journal = [], ms_sequence = 0, ms_next_sequence = 1,
      ms_append_count = 0, ms_fail_append_at = 0, ms_closed = False, ms_opened = False\<rparr>"

text \<open>The replay loop of \<open>open\<close>: it stops at the first frame it cannot trust.\<close>

function replay :: "StoreLimits \<Rightarrow> DurableImage \<Rightarrow> LoadReport \<Rightarrow> bytes \<Rightarrow> DurableImage \<times> LoadReport" where
  "replay limits img report data =
     (let corrupt = report\<lparr>lr_corrupt_records := lr_corrupt_records report + 1\<rparr>;
          truncated = corrupt\<lparr>lr_truncated_tail := True\<rparr>
      in if data = [] then (img, report)
         else if length data < kJournalHeaderSize then (img, truncated)
         else let payload_length = load_u32 data 16 in
         if unat payload_length > unat (sl_max_journal_record_bytes limits) then (img, truncated)
         else let frame_size = kJournalHeaderSize + unat payload_length in
         if length data < frame_size then (img, truncated)
         else case decode_journal_entry (take frame_size data) limits of
             Inl e \<Rightarrow> (img, truncated)
           | Inr entry \<Rightarrow>
               if fst (apply_journal_entry img entry) \<noteq> StatusCode.Ok
                 then (snd (apply_journal_entry img entry), corrupt)
               else replay limits (snd (apply_journal_entry img entry))
                 (report\<lparr>lr_journal_records_replayed := lr_journal_records_replayed report + 1\<rparr>)
                 (drop frame_size data))"
  by pat_completeness auto
termination
  by (relation "measure (\<lambda>(limits, img, report, data). length data)")
    (auto simp: kJournalHeaderSize_def Let_def)

declare replay.simps [simp del]

definition memory_open ::
  "MemoryDurableStore \<Rightarrow> (LoadReport \<times> DurableImage) Result \<times> MemoryDurableStore" where
  "memory_open s =
     (if ms_closed s then (Inl StatusCode.PersistenceFailure, s)
      else let loaded = (if ms_snapshot s \<noteq> []
             then (case decode_snapshot (ms_snapshot s) (ms_limits s) of
                 Inl e \<Rightarrow> Inl e
               | Inr img \<Rightarrow> Inr (img, empty_load_report
                   \<lparr>lr_snapshot_loaded := True, lr_snapshot_bytes := of_nat (length (ms_snapshot s))\<rparr>))
             else Inr (empty_image, empty_load_report))
      in case loaded of
           Inl e \<Rightarrow> (Inl e, s)
         | Inr (img, report) \<Rightarrow>
             let (img, report) = replay (ms_limits s) img
               (report\<lparr>lr_journal_bytes := of_nat (length (ms_journal s))\<rparr>) (ms_journal s)
             in (Inr (report, img),
                 s\<lparr>ms_sequence := img_sequence img, ms_next_sequence := img_sequence img + 1,
                   ms_opened := True\<rparr>))"

definition memory_append :: "MemoryDurableStore \<Rightarrow> JournalEntry \<Rightarrow> StatusCode \<times> MemoryDurableStore" where
  "memory_append s entry =
     (if ms_closed s \<or> \<not> ms_opened s then (StatusCode.PersistenceFailure, s)
      else let s = s\<lparr>ms_append_count := ms_append_count s + 1\<rparr>
      in if ms_fail_append_at s \<noteq> 0 \<and> ms_append_count s = ms_fail_append_at s
           then (StatusCode.PersistenceFailure, s)
         else let (stamped, s) =
             (if je_sequence entry = 0
                then (entry\<lparr>je_sequence := ms_next_sequence s\<rparr>,
                      s\<lparr>ms_next_sequence := ms_next_sequence s + 1\<rparr>)
              else if je_sequence entry \<ge> ms_next_sequence s
                then (entry, s\<lparr>ms_next_sequence := je_sequence entry + 1\<rparr>)
              else (entry, s))
         in let frame = encode_journal_entry stamped
         in if frame = [] then (StatusCode.InvalidArgument, s)
            else (StatusCode.Ok,
                  s\<lparr>ms_journal := ms_journal s @ frame, ms_sequence := je_sequence stamped\<rparr>))"

text \<open>\<open>DurableStore::append_batch\<close>: entries one by one through the store's own \<open>append\<close>, then
  \<open>flush\<close>, which the base class and the memory store answer with success.\<close>

fun append_batch ::
  "('s \<Rightarrow> JournalEntry \<Rightarrow> StatusCode \<times> 's) \<Rightarrow> 's \<Rightarrow> JournalEntry list \<Rightarrow> StatusCode \<times> 's" where
  "append_batch app s [] = (StatusCode.Ok, s)"
| "append_batch app s (entry # entries) =
     (let (status, s) = app s entry
      in if status \<noteq> StatusCode.Ok then (status, s) else append_batch app s entries)"

definition memory_compact :: "MemoryDurableStore \<Rightarrow> DurableImage \<Rightarrow> StatusCode \<times> MemoryDurableStore" where
  "memory_compact s img =
     (if ms_closed s \<or> \<not> ms_opened s then (StatusCode.PersistenceFailure, s)
      else (StatusCode.Ok,
            s\<lparr>ms_snapshot := encode_snapshot img, ms_journal := [], ms_sequence := img_sequence img,
              ms_next_sequence := img_sequence img + 1\<rparr>))"

definition memory_close :: "MemoryDurableStore \<Rightarrow> StatusCode \<times> MemoryDurableStore" where
  "memory_close s = (StatusCode.Ok, s\<lparr>ms_closed := True, ms_opened := False\<rparr>)"

section \<open>Frames\<close>

definition body_ok :: "JournalBody \<Rightarrow> bool" where
  "body_ok b =
     (let l = default_decode_limits in
      case b of
        JournalBody.Invalid \<Rightarrow> False
      | JournalBody.Snapshot \<Rightarrow> True
      | UpsertDomain x \<Rightarrow> domain_ok l x
      | UpsertParticipant x \<Rightarrow> participant_ok l x
      | UpsertObject x \<Rightarrow> object_ok l x
      | UpsertRegion x \<Rightarrow> region_ok l x
      | UpsertInvalidation x \<Rightarrow> invalidation_ok l x
      | UpsertSync x \<Rightarrow> sync_ok l x
      | UpsertPolicy x \<Rightarrow> policy_ok l x
      | SetPendingPublication x \<Rightarrow> pending_publication_ok l x
      | _ \<Rightarrow> True)"

text \<open>An entry the journal can carry: its record is within the decode limits, its payload within the
  record bound of the store and the 32-bit length field, and it has a log position.\<close>

definition entry_ok :: "StoreLimits \<Rightarrow> JournalEntry \<Rightarrow> bool" where
  "entry_ok limits entry \<longleftrightarrow>
     body_ok (je_body entry) \<and> je_sequence entry \<noteq> 0 \<and>
     length (the (encode_payload (je_body entry))) \<le> unat (sl_max_journal_record_bytes limits) \<and>
     length (the (encode_payload (je_body entry))) < 2 ^ 32"

lemma payload_roundtrip:
  assumes "body_ok b"
  obtains dec payload where "encode_payload b = Some payload"
    and "payload_reader (journal_kind_to_u16 b) default_decode_limits = Some dec"
    and "dec payload = Inr (b, [])"
proof -
  have rt: "record_codec enc dec ok \<Longrightarrow> ok x \<Longrightarrow> r_body mk dec (enc x) = Inr (mk x, [])"
    for enc and dec :: "'x reader" and ok x mk
    using record_codec.decode_all [of enc dec ok x] by (simp add: r_body_def)
  show thesis
    using assms that
    by (cases b) (simp_all add: body_ok_def Let_def payload_reader_def
        rt [OF domain_codec.record_codec_axioms] rt [OF participant_codec.record_codec_axioms]
        rt [OF object_codec.record_codec_axioms] rt [OF region_codec.record_codec_axioms]
        rt [OF invalidation_codec.record_codec_axioms] rt [OF sync_codec.record_codec_axioms]
        rt [OF policy_codec.record_codec_axioms] rt [OF pending_publication_codec.record_codec_axioms]
        rt [OF u64_codec.record_codec_axioms TrueI])
qed

lemma load_u16_append: "load_u16 (a @ b) (length a + off) = load_u16 b off"
  by (simp add: load_u16_def nth_append)

lemma load_u32_append: "load_u32 (a @ b) (length a + off) = load_u32 b off"
  by (simp add: load_u32_def nth_append add.assoc)

lemma load_u64_append: "load_u64 (a @ b) (length a + off) = load_u64 b off"
  by (simp add: load_u64_def nth_append add.assoc)

lemma frame_header_loads:
  assumes "frame = write_frame_header kind sq len crc @ rest"
  shows "load_u32 frame 0 = kJournalRecordMagic" "load_u16 frame 4 = kJournalFormatVersion"
    "load_u16 frame 6 = kind" "load_u64 frame 8 = sq" "load_u32 frame 16 = len"
    "load_u32 frame 20 = crc" "kJournalHeaderSize \<le> length frame"
    "drop kJournalHeaderSize frame = rest" "length frame = kJournalHeaderSize + length rest"
proof -
  note w = assms [unfolded write_frame_header_def append_assoc]
  let ?m = "store_u32 kJournalRecordMagic" and ?v = "store_u16 kJournalFormatVersion"
    and ?k = "store_u16 kind" and ?s = "store_u64 sq" and ?l = "store_u32 len"
  show "load_u32 frame 0 = kJournalRecordMagic" unfolding w by (rule load_store_u32)
  show "load_u16 frame 4 = kJournalFormatVersion"
    using load_u16_append [of ?m _ 0] unfolding w by (simp add: load_store_u16)
  show "load_u16 frame 6 = kind"
    using load_u16_append [of "?m @ ?v" _ 0] unfolding w by (simp add: load_store_u16)
  show "load_u64 frame 8 = sq"
    using load_u64_append [of "?m @ ?v @ ?k" _ 0] unfolding w by (simp add: load_store_u64)
  show "load_u32 frame 16 = len"
    using load_u32_append [of "?m @ ?v @ ?k @ ?s" _ 0] unfolding w by (simp add: load_store_u32)
  show "load_u32 frame 20 = crc"
    using load_u32_append [of "?m @ ?v @ ?k @ ?s @ ?l" _ 0] unfolding w by (simp add: load_store_u32)
  show "kJournalHeaderSize \<le> length frame" "drop kJournalHeaderSize frame = rest"
    "length frame = kJournalHeaderSize + length rest"
    unfolding w by (simp_all add: kJournalHeaderSize_def)
qed

lemma encode_journal_entry_frame:
  assumes "encode_payload (je_body e) = Some payload"
  shows "encode_journal_entry e =
    write_frame_header (journal_kind_to_u16 (je_body e)) (je_sequence e)
      (of_nat (length payload)) (crc32c_seed 0 payload) @ payload"
  using assms by (simp add: encode_journal_entry_def)

lemma unat_of_nat_u32: "n < 2 ^ 32 \<Longrightarrow> unat (of_nat n :: u32) = n"
  by (simp add: unat_of_nat)

lemma entry_frame:
  assumes "entry_ok limits e"
  obtains payload dec where "encode_payload (je_body e) = Some payload"
    and "payload_reader (journal_kind_to_u16 (je_body e)) default_decode_limits = Some dec"
    and "dec payload = Inr (je_body e, [])"
    and "unat (of_nat (length payload) :: u32) = length payload"
    and "length payload \<le> unat (sl_max_journal_record_bytes limits)"
proof -
  have "body_ok (je_body e)" using assms by (simp add: entry_ok_def)
  then obtain payload dec where p: "encode_payload (je_body e) = Some payload"
    "payload_reader (journal_kind_to_u16 (je_body e)) default_decode_limits = Some dec"
    "dec payload = Inr (je_body e, [])" by (rule payload_roundtrip)
  then show thesis using assms that unat_of_nat_u32 by (simp add: entry_ok_def)
qed

lemma journal_entry_roundtrip:
  assumes "entry_ok limits e"
  shows "decode_journal_entry (encode_journal_entry e) limits = Inr e"
proof -
  obtain payload dec where p: "encode_payload (je_body e) = Some payload"
    "payload_reader (journal_kind_to_u16 (je_body e)) default_decode_limits = Some dec"
    "dec payload = Inr (je_body e, [])" "unat (of_nat (length payload) :: u32) = length payload"
    "length payload \<le> unat (sl_max_journal_record_bytes limits)"
    using entry_frame [OF assms] .
  note frame = frame_header_loads [OF encode_journal_entry_frame [OF p(1)]]
  show ?thesis
    using p by (simp add: decode_journal_entry_def Let_def frame expect_end_def not_less)
qed

definition apply_all :: "DurableImage \<Rightarrow> JournalEntry list \<Rightarrow> DurableImage" where
  "apply_all img entries = foldl (\<lambda>img e. snd (apply_journal_entry img e)) img entries"

lemma apply_ok:
  assumes "entry_ok limits e"
  shows "fst (apply_journal_entry img e) = StatusCode.Ok"
proof (cases "je_body e")
  case Invalid
  with assms show ?thesis by (simp add: entry_ok_def body_ok_def)
qed (use assms in \<open>simp_all add: entry_ok_def apply_journal_entry_def Let_def\<close>)

abbreviation replayed_once :: "LoadReport \<Rightarrow> LoadReport" where
  "replayed_once report \<equiv>
     report\<lparr>lr_journal_records_replayed := lr_journal_records_replayed report + 1\<rparr>"

abbreviation torn :: "LoadReport \<Rightarrow> LoadReport" where
  "torn report \<equiv>
     report\<lparr>lr_corrupt_records := lr_corrupt_records report + 1, lr_truncated_tail := True\<rparr>"

lemma replay_entry:
  assumes "entry_ok limits e"
  shows "replay limits img report (encode_journal_entry e @ data) =
    replay limits (snd (apply_journal_entry img e)) (replayed_once report) data"
proof -
  obtain payload dec where p: "encode_payload (je_body e) = Some payload"
    "unat (of_nat (length payload) :: u32) = length payload"
    "length payload \<le> unat (sl_max_journal_record_bytes limits)"
    using entry_frame [OF assms] by metis
  note f = encode_journal_entry_frame [OF p(1)]
  have l: "length (encode_journal_entry e) = kJournalHeaderSize + length payload"
    by (rule frame_header_loads(9) [OF f])
  have h: "load_u32 (encode_journal_entry e @ data) 16 = of_nat (length payload)"
    unfolding f append_assoc by (rule frame_header_loads(5) [OF refl])
  have ne: "encode_journal_entry e @ data \<noteq> []" using l by (auto simp: kJournalHeaderSize_def)
  have cut: "take (kJournalHeaderSize + length payload) (encode_journal_entry e @ data) = encode_journal_entry e"
    "drop (kJournalHeaderSize + length payload) (encode_journal_entry e @ data) = data"
    "\<not> length (encode_journal_entry e @ data) < kJournalHeaderSize"
    "\<not> length (encode_journal_entry e @ data) < kJournalHeaderSize + length payload"
    "\<not> unat (sl_max_journal_record_bytes limits) < length payload"
    using l p(3) by simp_all
  show ?thesis
    by (subst replay.simps)
      (simp only: Let_def ne h p cut if_False journal_entry_roundtrip [OF assms] apply_ok [OF assms]
        sum.case simp_thms)
qed

lemma replay_entries:
  "(\<And>e. e \<in> set entries \<Longrightarrow> entry_ok limits e) \<Longrightarrow>
   replay limits img report (concat (map encode_journal_entry entries) @ data) =
   replay limits (apply_all img entries)
     (report\<lparr>lr_journal_records_replayed :=
        lr_journal_records_replayed report + of_nat (length entries)\<rparr>) data"
proof (induction entries arbitrary: img report)
  case (Cons e entries)
  have "replay limits img report (concat (map encode_journal_entry (e # entries)) @ data) =
      replay limits (snd (apply_journal_entry img e)) (replayed_once report)
        (concat (map encode_journal_entry entries) @ data)"
    using replay_entry [OF Cons.prems [of e]] by simp
  also have "\<dots> = replay limits (apply_all (snd (apply_journal_entry img e)) entries)
      (report\<lparr>lr_journal_records_replayed :=
         lr_journal_records_replayed (replayed_once report) + of_nat (length entries)\<rparr>) data"
    using Cons.prems by (subst Cons.IH) simp_all
  finally show ?case by (simp add: apply_all_def add.assoc)
qed (simp add: apply_all_def)

lemma replay_Nil: "replay limits img report [] = (img, report)"
  by (simp add: replay.simps Let_def)

text \<open>A strict, non-empty prefix of a frame is never applied.\<close>

lemma replay_torn:
  assumes "entry_ok limits e" and "0 < n" and "n < length (encode_journal_entry e)"
  shows "replay limits img report (take n (encode_journal_entry e)) = (img, torn report)"
proof -
  obtain payload dec where p: "encode_payload (je_body e) = Some payload"
    "unat (of_nat (length payload) :: u32) = length payload"
    using entry_frame [OF assms(1)] by metis
  note f = encode_journal_entry_frame [OF p(1)]
  let ?d = "take n (encode_journal_entry e)"
  have l: "length (encode_journal_entry e) = kJournalHeaderSize + length payload"
    by (rule frame_header_loads(9) [OF f])
  have len: "length ?d = n" using assms(3) by simp
  show ?thesis
  proof (cases "n < kJournalHeaderSize")
    case True
    then show ?thesis using len assms(2) by (subst replay.simps) (auto simp: Let_def)
  next
    case False
    have "load_u32 ?d 16 = load_u32 (encode_journal_entry e) 16"
      unfolding load_u32_def using False by (intro foldl_cong) (auto simp: kJournalHeaderSize_def)
    then have "unat (load_u32 ?d 16) = length payload"
      using frame_header_loads(5) [OF f] p(2) by simp
    then show ?thesis using len False assms l by (subst replay.simps) (auto simp: Let_def)
  qed
qed

lemma replay_crash_prefix:
  assumes "\<And>e. e \<in> set entries \<Longrightarrow> entry_ok limits e"
  shows "\<exists>k \<le> length entries.
    fst (replay limits img report (take n (concat (map encode_journal_entry entries)))) =
      apply_all img (take k entries) \<and>
    length (concat (map encode_journal_entry (take k entries))) \<le> n \<and>
    (k < length entries \<longrightarrow> n < length (concat (map encode_journal_entry (take (Suc k) entries))))"
  using assms
proof (induction entries arbitrary: img report n)
  case (Cons e entries)
  let ?f = "encode_journal_entry e"
  show ?case
  proof (cases "length ?f \<le> n")
    case True
    obtain k where k: "k \<le> length entries"
      "fst (replay limits (snd (apply_journal_entry img e)) (replayed_once report)
         (take (n - length ?f) (concat (map encode_journal_entry entries)))) =
       apply_all (snd (apply_journal_entry img e)) (take k entries)"
      "length (concat (map encode_journal_entry (take k entries))) \<le> n - length ?f"
      "k < length entries \<longrightarrow>
       n - length ?f < length (concat (map encode_journal_entry (take (Suc k) entries)))"
      using Cons.IH [of "snd (apply_journal_entry img e)" "replayed_once report" "n - length ?f"]
        Cons.prems by auto
    have "take n (concat (map encode_journal_entry (e # entries))) =
        ?f @ take (n - length ?f) (concat (map encode_journal_entry entries))"
      using True by simp
    then have "fst (replay limits img report (take n (concat (map encode_journal_entry (e # entries))))) =
        apply_all img (take (Suc k) (e # entries))"
      using replay_entry [OF Cons.prems [of e]] k(2) by (simp add: apply_all_def)
    then show ?thesis using k True by (intro exI [of _ "Suc k"]) auto
  next
    case False
    then have "take n (concat (map encode_journal_entry (e # entries))) = take n ?f" by simp
    moreover have "fst (replay limits img report (take n ?f)) = img"
      using replay_torn [OF Cons.prems [of e], of n] False by (cases "n = 0") (auto simp: replay_Nil)
    ultimately show ?thesis using False by (intro exI [of _ 0]) (simp add: apply_all_def)
  qed
qed (simp add: apply_all_def replay_Nil)

section \<open>Snapshots\<close>

lemma sm_put_last: "(\<And>j. j \<in> fst ` set m \<Longrightarrow> j < k) \<Longrightarrow> sm_put k v m = m @ [(k, v)]"
  by (induction k v m rule: sm_put.induct) (auto dest: less_asym)

lemma emplace_all_sorted:
  assumes "sm_sorted m" and "\<And>k v. (k, v) \<in> set m \<Longrightarrow> record_key v = k"
  shows "emplace_all record_key (sm_values m) = m"
  using assms
proof (induction m rule: rev_induct)
  case (snoc e m)
  obtain k v where e: "e = (k, v)" by (cases e)
  have srt: "sm_sorted m" and lt: "j \<in> fst ` set m \<Longrightarrow> j < k" for j
    using snoc.prems(1) by (auto simp: sm_sorted_def sorted_wrt_append e)
  have IH: "emplace_all record_key (sm_values m) = m"
    by (rule snoc.IH) (use srt snoc.prems(2) in auto)
  have "map_of m k = None" using lt by (auto simp: map_of_eq_None_iff)
  then have "sm_emplace k v m = m @ [(k, v)]" using lt by (simp add: sm_emplace_def sm_put_last)
  then show ?case using IH snoc.prems(2) [of k v] by (simp add: emplace_all_def sm_values_def e)
qed (simp add: emplace_all_def sm_values_def)

definition map_ok :: "('v \<Rightarrow> bool) \<Rightarrow> ('v \<Rightarrow> 'k::linorder) \<Rightarrow> ('k, 'v) std_map \<Rightarrow> bool" where
  "map_ok ok record_key m \<longleftrightarrow>
     sm_sorted m \<and> (\<forall>e \<in> set m. record_key (snd e) = fst e \<and> ok (snd e)) \<and>
     length m \<le> unat (lim_max_collection default_decode_limits)"

lemma decode_collection_encode:
  assumes "record_codec enc dec ok" and "map_ok ok record_key m"
  shows "decode_collection default_decode_limits record_key dec (w_collection enc (sm_values m) @ r) =
    Inr (m, r)"
proof -
  have "r_collection default_decode_limits dec (w_collection enc (sm_values m) @ r) = Inr (sm_values m, r)"
    by (rule record_codec.collection_encode [OF assms(1)])
      (use assms(2) in \<open>auto simp: map_ok_def sm_values_def\<close>)
  moreover have "emplace_all record_key (sm_values m) = m"
    by (rule emplace_all_sorted) (use assms(2) in \<open>auto simp: map_ok_def\<close>)
  ultimately show ?thesis by (simp add: decode_collection_def)
qed

definition image_ok :: "DurableImage \<Rightarrow> bool" where
  "image_ok img \<longleftrightarrow>
     (let l = default_decode_limits in
      map_ok (domain_ok l) dom_id (img_domains img) \<and>
      map_ok (participant_ok l) par_id (img_participants img) \<and>
      map_ok (policy_ok l) pol_id (img_policies img) \<and>
      map_ok (object_ok l) obj_id (img_objects img) \<and>
      map_ok (region_ok l) reg_id (img_regions img) \<and>
      map_ok (invalidation_ok l) inv_id (img_invalidations img) \<and>
      map_ok (sync_ok l) sync_id (img_syncs img) \<and>
      map_ok (pending_publication_ok l) pend_id (img_pending_publications img))"

lemma image_payload_roundtrip:
  "image_ok img \<Longrightarrow>
   decode_image_payload default_decode_limits (encode_image_payload img @ r) = Inr (img, r)"
  by (simp add: encode_image_payload_def decode_image_payload_def image_ok_def Let_def codec_simps
      decode_collection_encode [OF domain_codec.record_codec_axioms]
      decode_collection_encode [OF participant_codec.record_codec_axioms]
      decode_collection_encode [OF policy_codec.record_codec_axioms]
      decode_collection_encode [OF object_codec.record_codec_axioms]
      decode_collection_encode [OF region_codec.record_codec_axioms]
      decode_collection_encode [OF invalidation_codec.record_codec_axioms]
      decode_collection_encode [OF sync_codec.record_codec_axioms]
      decode_collection_encode [OF pending_publication_codec.record_codec_axioms])

lemma store_at_append:
  "length a = off \<Longrightarrow> length b = length c \<Longrightarrow> store_at (a @ b @ d) off c = a @ c @ d"
  by (simp add: store_at_def)

definition snapshot_prefix :: "u64 \<Rightarrow> u32 \<Rightarrow> bytes" where
  "snapshot_prefix len crc =
     store_u32 kSnapshotMagic @ store_u16 kSnapshotFormatVersion @ store_u16 (ucast persistence_schema) @
     store_u64 len @ store_u32 crc"

lemma length_snapshot_prefix [simp]: "length (snapshot_prefix len crc) = 20"
  by (simp add: snapshot_prefix_def)

lemma snapshot_header_eq:
  "snapshot_header len crc sq =
    snapshot_prefix len crc @
    store_u32 (crc32c (take 28 (snapshot_prefix len crc @ store_u32 0 @ store_u64 sq))) @ store_u64 sq"
proof -
  have "snapshot_header len crc sq =
      store_at (snapshot_prefix len crc @ store_u32 0 @ store_u64 sq) 20
        (store_u32 (crc32c (take 28 (snapshot_prefix len crc @ store_u32 0 @ store_u64 sq))))"
    by (simp add: snapshot_header_def snapshot_prefix_def Let_def kSnapshotHeaderSize_def)
  then show ?thesis by (simp only: store_at_append length_snapshot_prefix length_stores)
qed

lemma snapshot_prefix_loads:
  "load_u32 (snapshot_prefix len crc @ r) 0 = kSnapshotMagic"
  "load_u16 (snapshot_prefix len crc @ r) 4 = kSnapshotFormatVersion"
  "load_u16 (snapshot_prefix len crc @ r) 6 = ucast persistence_schema"
  "load_u64 (snapshot_prefix len crc @ r) 8 = len"
  "load_u32 (snapshot_prefix len crc @ r) 16 = crc"
proof -
  let ?m = "store_u32 kSnapshotMagic" and ?v = "store_u16 kSnapshotFormatVersion"
    and ?s = "store_u16 (ucast persistence_schema)" and ?l = "store_u64 len"
  note w = snapshot_prefix_def append_assoc
  show "load_u32 (snapshot_prefix len crc @ r) 0 = kSnapshotMagic"
    unfolding w by (rule load_store_u32)
  show "load_u16 (snapshot_prefix len crc @ r) 4 = kSnapshotFormatVersion"
    using load_u16_append [of ?m _ 0] unfolding w by (simp add: load_store_u16)
  show "load_u16 (snapshot_prefix len crc @ r) 6 = ucast persistence_schema"
    using load_u16_append [of "?m @ ?v" _ 0] unfolding w by (simp add: load_store_u16)
  show "load_u64 (snapshot_prefix len crc @ r) 8 = len"
    using load_u64_append [of "?m @ ?v @ ?s" _ 0] unfolding w by (simp add: load_store_u64)
  show "load_u32 (snapshot_prefix len crc @ r) 16 = crc"
    using load_u32_append [of "?m @ ?v @ ?s @ ?l" _ 0] unfolding w by (simp add: load_store_u32)
qed

lemma length_sha256_digest: "length (sha256_digest data) = 32"
proof -
  have "length (sha_output st) = 32" for st
    by (induction st rule: sha_output.induct) (simp add: be_bytes_u32_def)
  then show ?thesis by (simp add: sha256_digest_def sha256_finish_def Let_def split: prod.splits)
qed

lemma snapshot_roundtrip:
  assumes ok: "image_ok img"
    and size: "length (encode_snapshot img) \<le> unat (sl_max_snapshot_bytes limits)"
    and count: "record_count img \<le> unat (sl_max_records limits)"
  shows "decode_snapshot (encode_snapshot img) limits = Inr img"
proof -
  define payload where "payload = encode_image_payload img"
  define len :: u64 where "len = of_nat (length payload)"
  define pre where "pre = snapshot_prefix len (crc32c_seed 0 payload)"
  define hcrc where "hcrc = crc32c (take 28 (pre @ store_u32 0 @ store_u64 (img_sequence img)))"
  define header where "header = pre @ store_u32 hcrc @ store_u64 (img_sequence img)"
  define bs where "bs = encode_snapshot img"
  have bs: "bs = header @ payload @ sha256_digest (header @ payload)"
    by (simp add: bs_def encode_snapshot_def Let_def header_def hcrc_def pre_def len_def payload_def
        snapshot_header_eq)
  have hl: "length header = 32" by (simp add: header_def pre_def)
  have lbs: "length bs = 64 + length payload" by (simp add: bs hl length_sha256_digest)
  have "length bs < 2 ^ 64" using size unat_u64_lt [of "sl_max_snapshot_bytes limits"] by (simp add: bs_def)
  then have len: "unat len = length payload" and tot: "unat len + 64 < 2 ^ 64"
    using lbs by (simp_all add: len_def unat_of_nat)
  have tot_word: "checked_add len 64 = Some (len + 64)" "unat (len + 64) = length bs"
    using tot lbs len by (simp_all add: checked_add_eq unat_word_ariths)
  have loads: "load_u32 bs 0 = kSnapshotMagic" "load_u16 bs 4 = kSnapshotFormatVersion"
    "load_u16 bs 6 = ucast persistence_schema" "load_u64 bs 8 = len"
    "load_u32 bs 16 = crc32c_seed 0 payload"
    unfolding bs header_def pre_def append_assoc by (rule snapshot_prefix_loads)+
  have l20: "load_u32 bs 20 = hcrc"
    using load_u32_append [of pre "store_u32 hcrc @ _" 0] unfolding bs header_def append_assoc
    by (simp add: load_store_u32 pre_def)
  have l24: "load_u64 bs 24 = img_sequence img"
    using load_u64_append [of "pre @ store_u32 hcrc" "store_u64 (img_sequence img) @ _" 0]
    unfolding bs header_def append_assoc by (simp add: load_store_u64 pre_def)
  have hc: "store_at (take 32 bs) 20 (store_u32 0) = pre @ store_u32 0 @ store_u64 (img_sequence img)"
  proof -
    have "take 32 bs = pre @ store_u32 hcrc @ store_u64 (img_sequence img)" using hl by (simp add: bs header_def)
    then show ?thesis by (simp only: store_at_append pre_def length_snapshot_prefix length_stores)
  qed
  have parts: "take (length payload) (drop 32 bs) = payload"
    "take (32 + length payload) bs = header @ payload"
    "take 32 (drop (32 + length payload) bs) = sha256_digest (header @ payload)"
    using hl by (simp_all add: bs length_sha256_digest)
  have "decode_snapshot_payload payload (img_sequence img) limits = Inr img"
    using image_payload_roundtrip [OF ok, of "[]"] count
    by (simp add: decode_snapshot_payload_def payload_def expect_end_def)
  moreover have "\<not> len + 64 > sl_max_snapshot_bytes limits"
    using size tot_word(2) by (simp add: word_less_nat_alt bs_def)
  ultimately have "decode_snapshot bs limits = Inr img"
    using lbs by (simp add: decode_snapshot_def Let_def loads l20 l24 kSnapshotHeaderSize_def
        kSnapshotTrailerSize_def tot_word hc len parts digest_equal_iff del: take_append flip: hcrc_def)
  then show ?thesis by (simp add: bs_def)
qed

section \<open>The store as a durable log\<close>

text \<open>What a restart reads back from the bytes a store holds.\<close>

definition memory_recover :: "MemoryDurableStore \<Rightarrow> DurableImage option" where
  "memory_recover s =
     (case fst (memory_open (s\<lparr>ms_closed := False\<rparr>)) of Inl e \<Rightarrow> None | Inr (report, img) \<Rightarrow> Some img)"

text \<open>The log position \<open>append\<close> gives an entry.\<close>

definition memory_stamp :: "MemoryDurableStore \<Rightarrow> JournalEntry \<Rightarrow> JournalEntry" where
  "memory_stamp s e = (if je_sequence e = 0 then e\<lparr>je_sequence := ms_next_sequence s\<rparr> else e)"

definition journal_clean :: "MemoryDurableStore \<Rightarrow> bool" where
  "journal_clean s \<longleftrightarrow>
     (\<exists>entries. (\<forall>e \<in> set entries. entry_ok (ms_limits s) e) \<and>
        ms_journal s = concat (map encode_journal_entry entries))"

text \<open>The contract of a durable log: an accepted entry is what a restart adds to the image, a refused
  one changes nothing a restart can see.\<close>

locale durable_log =
  fixes recover :: "'s \<Rightarrow> DurableImage option"
    and app :: "'s \<Rightarrow> JournalEntry \<Rightarrow> StatusCode \<times> 's"
    and stamp :: "'s \<Rightarrow> JournalEntry \<Rightarrow> JournalEntry"
    and accepts :: "'s \<Rightarrow> JournalEntry \<Rightarrow> bool"
    and clean :: "'s \<Rightarrow> bool"
  assumes append_durable:
      "clean s \<Longrightarrow> accepts s (stamp s e) \<Longrightarrow> recover s = Some img \<Longrightarrow> app s e = (StatusCode.Ok, s') \<Longrightarrow>
       clean s' \<and> recover s' = Some (snd (apply_journal_entry img (stamp s e)))"
    and append_refused: "app s e = (status, s') \<Longrightarrow> status \<noteq> StatusCode.Ok \<Longrightarrow>
       recover s' = recover s \<and> clean s' = clean s"
    and stamp_body: "je_body (stamp s e) = je_body e"
    and accepts_stable: "app s e = (status, s') \<Longrightarrow> accepts s' = accepts s"
begin

text \<open>A batch that fails part-way leaves the image of a prefix of its entries, and nothing else.\<close>

lemma batch_prefix:
  assumes "clean s" "recover s = Some img" "append_batch app s entries = (status, s')"
    and "\<And>t e. e \<in> set entries \<Longrightarrow> accepts t = accepts s \<Longrightarrow> accepts s (stamp t e)"
  shows "\<exists>k \<le> length entries. \<exists>stamped.
    map je_body stamped = map je_body (take k entries) \<and>
    recover s' = Some (apply_all img stamped) \<and> clean s' \<and>
    (status = StatusCode.Ok \<longrightarrow> k = length entries)"
  using assms
proof (induction entries arbitrary: s img)
  case Nil
  then show ?case by (auto simp: apply_all_def)
next
  case (Cons e entries)
  obtain st t where t: "app s e = (st, t)" by fastforce
  show ?case
  proof (cases "st = StatusCode.Ok")
    case False
    then have "(status, s') = (st, t)" using Cons.prems(3) t by simp
    then show ?thesis using append_refused [OF t False] Cons.prems False
      by (intro exI [of _ 0]) (auto simp: apply_all_def)
  next
    case True
    let ?img = "snd (apply_journal_entry img (stamp s e))"
    have d: "clean t" "recover t = Some ?img"
      using append_durable [OF Cons.prems(1) _ Cons.prems(2)] Cons.prems(4) t True by auto
    have acc: "accepts t = accepts s" by (rule accepts_stable [OF t])
    have "append_batch app t entries = (status, s')" using Cons.prems(3) t True by simp
    then obtain k stamped where k: "k \<le> length entries"
      "map je_body stamped = map je_body (take k entries)"
      "recover s' = Some (apply_all ?img stamped)" "clean s'"
      "status = StatusCode.Ok \<longrightarrow> k = length entries"
      using Cons.IH [OF d(1) d(2)] Cons.prems(4) acc by auto
    then show ?thesis
      by (intro exI [of _ "Suc k"] conjI exI [of _ "stamp s e # stamped"])
        (auto simp: stamp_body apply_all_def)
  qed
qed

end

text \<open>Recovery is the snapshot, then the replayed journal.\<close>

definition snapshot_image :: "StoreLimits \<Rightarrow> bytes \<Rightarrow> DurableImage option" where
  "snapshot_image limits snapshot =
     (if snapshot = [] then Some empty_image
      else case decode_snapshot snapshot limits of Inl e \<Rightarrow> None | Inr img \<Rightarrow> Some img)"

text \<open>The image one replay step leads to, and whether replay goes on: the report only counts.\<close>

lemma replay_cases:
  obtains (stop) img' f where "\<And>report. replay limits img report data = (img', f report)"
  | (go) img' rest where "\<And>report. replay limits img report data =
      replay limits img' (replayed_once report) rest" and "length rest < length data"
proof -
  let ?n = "kJournalHeaderSize + unat (load_u32 data 16)"
  have pos: "0 < ?n" by (simp add: kJournalHeaderSize_def)
  show thesis
  proof (cases "data = [] \<or> length data < kJournalHeaderSize \<or>
      unat (load_u32 data 16) > unat (sl_max_journal_record_bytes limits) \<or> length data < ?n")
    case True
    then have "replay limits img report data = (img, if data = [] then report else torn report)" for report
      by (subst replay.simps) (auto simp: Let_def)
    then show thesis by (rule stop)
  next
    case valid: False
    show thesis
    proof (cases "decode_journal_entry (take ?n data) limits")
      case (Inl e)
      with valid have "replay limits img report data = (img, torn report)" for report
        by (subst replay.simps) (simp add: Let_def)
      then show thesis by (rule stop)
    next
      case (Inr e)
      show thesis
      proof (cases "fst (apply_journal_entry img e) = StatusCode.Ok")
        case True
        with valid Inr have "replay limits img report data =
            replay limits (snd (apply_journal_entry img e)) (replayed_once report) (drop ?n data)" for report
          by (subst replay.simps) (simp add: Let_def)
        then show thesis by (rule go) (use valid pos in auto)
      next
        case False
        with valid Inr have "replay limits img report data = (snd (apply_journal_entry img e),
            report\<lparr>lr_corrupt_records := lr_corrupt_records report + 1\<rparr>)" for report
          by (subst replay.simps) (simp add: Let_def)
        then show thesis by (rule stop)
      qed
    qed
  qed
qed

text \<open>What replay makes of arbitrary bytes.\<close>

lemma apply_refused: "fst (apply_journal_entry img e) \<noteq> StatusCode.Ok \<Longrightarrow> snd (apply_journal_entry img e) = img"
  by (cases "je_body e") (auto simp: apply_journal_entry_def Let_def)

definition trusted_prefix ::
  "StoreLimits \<Rightarrow> DurableImage \<Rightarrow> LoadReport \<Rightarrow> bytes \<Rightarrow> bytes list \<Rightarrow> JournalEntry list \<Rightarrow> bytes \<Rightarrow> bool" where
  "trusted_prefix limits img report data frames entries rest \<longleftrightarrow>
     data = concat frames @ rest \<and>
     list_all2 (\<lambda>frame entry. decode_journal_entry frame limits = Inr entry) frames entries \<and>
     kJournalHeaderSize * length entries \<le> length data \<and>
     fst (replay limits img report data) = apply_all img entries \<and>
     lr_journal_records_replayed (snd (replay limits img report data)) =
       lr_journal_records_replayed report + of_nat (length entries) \<and>
     lr_corrupt_records (snd (replay limits img report data)) =
       lr_corrupt_records report + (if rest = [] then 0 else 1)"

lemma trusted_prefix_stop:
  assumes "fst (replay limits img report data) = img"
    and "lr_journal_records_replayed (snd (replay limits img report data)) = lr_journal_records_replayed report"
    and "lr_corrupt_records (snd (replay limits img report data)) = lr_corrupt_records report + (if data = [] then 0 else 1)"
  shows "trusted_prefix limits img report data [] [] data"
  using assms by (simp add: trusted_prefix_def apply_all_def)

lemma trusted_prefix_go:
  assumes "decode_journal_entry (take n data) limits = Inr e" "kJournalHeaderSize \<le> n" "n \<le> length data"
    and "replay limits img report data = replay limits (snd (apply_journal_entry img e)) (replayed_once report) (drop n data)"
    and "trusted_prefix limits (snd (apply_journal_entry img e)) (replayed_once report) (drop n data) frames entries rest"
  shows "trusted_prefix limits img report data (take n data # frames) (e # entries) rest"
proof -
  have "data = take n data @ concat frames @ rest"
    using assms(5) append_take_drop_id [of n data] by (simp add: trusted_prefix_def)
  moreover have "kJournalHeaderSize * length entries \<le> length data - n"
    using assms(5) by (simp add: trusted_prefix_def)
  ultimately show ?thesis
    using assms by (auto simp: trusted_prefix_def apply_all_def add.assoc)
qed

lemma replay_trusted: "\<exists>frames entries rest. trusted_prefix limits img report data frames entries rest"
proof (induction "length data" arbitrary: img report data rule: less_induct)
  case less
  let ?n = "kJournalHeaderSize + unat (load_u32 data 16)"
  let ?damaged = "data = [] \<or> length data < kJournalHeaderSize \<or>
      unat (load_u32 data 16) > unat (sl_max_journal_record_bytes limits) \<or> length data < ?n"
  show ?case
  proof (cases "\<not> ?damaged \<and> (\<exists>e. decode_journal_entry (take ?n data) limits = Inr e \<and>
      fst (apply_journal_entry img e) = StatusCode.Ok)")
    case True
    then obtain e where e: "decode_journal_entry (take ?n data) limits = Inr e" 
      "fst (apply_journal_entry img e) = StatusCode.Ok" and ok: "\<not> ?damaged" by blast
    have go: "replay limits img report data =
        replay limits (snd (apply_journal_entry img e)) (replayed_once report) (drop ?n data)"
      using e ok by (subst replay.simps) (simp add: Let_def)
    have "length (drop ?n data) < length data" using ok by (auto simp: kJournalHeaderSize_def)
    from less [OF this] show ?thesis using trusted_prefix_go [OF e(1) _ _ go] ok by fastforce
  next
    case False
    then have "trusted_prefix limits img report data [] [] data"
      by (intro trusted_prefix_stop; subst replay.simps)
        (auto simp: Let_def apply_refused split: sum.splits)
    then show ?thesis by blast
  qed
qed

lemma fst_replay_report: "fst (replay limits img report data) = fst (replay limits img report' data)"
proof (induction "length data" arbitrary: img report report' data rule: less_induct)
  case less
  show ?case
  proof (cases rule: replay_cases [of limits img data])
    case (stop img' f)
    then show ?thesis by simp
  next
    case (go img' rest)
    then show ?thesis using less by metis
  qed
qed

lemma memory_recover_eq:
  "memory_recover s =
    map_option (\<lambda>img. fst (replay (ms_limits s) img empty_load_report (ms_journal s)))
      (snapshot_image (ms_limits s) (ms_snapshot s))"
proof -
  have r: "(case replay l img rep d of (img, report) \<Rightarrow> f report img) =
      f (snd (replay l img rep d)) (fst (replay l img empty_load_report d))"
    for l img rep d and f :: "LoadReport \<Rightarrow> DurableImage \<Rightarrow> 'x"
    using fst_replay_report [of l img rep d empty_load_report] by (simp add: split_beta)
  show ?thesis
    by (cases "ms_snapshot s = []"; cases "decode_snapshot (ms_snapshot s) (ms_limits s)")
      (simp_all add: memory_recover_def memory_open_def snapshot_image_def Let_def r)
qed

lemma memory_append_ok:
  assumes "memory_append s e = (StatusCode.Ok, s')"
  shows "ms_journal s' = ms_journal s @ encode_journal_entry (memory_stamp s e)"
    "ms_limits s' = ms_limits s" "ms_snapshot s' = ms_snapshot s"
  using assms
  by (auto simp: memory_append_def memory_stamp_def Let_def split: if_splits)

lemma memory_append_bytes:
  assumes "memory_append s e = (status, s')"
  shows "ms_limits s' = ms_limits s" "ms_snapshot s' = ms_snapshot s"
    "status \<noteq> StatusCode.Ok \<Longrightarrow> ms_journal s' = ms_journal s"
  using assms by (auto simp: memory_append_def Let_def split: if_splits)

lemma memory_append_durable:
  assumes clean: "journal_clean s" and ok: "entry_ok (ms_limits s) (memory_stamp s e)"
    and rec: "memory_recover s = Some img" and app: "memory_append s e = (StatusCode.Ok, s')"
  shows "journal_clean s' \<and> memory_recover s' = Some (snd (apply_journal_entry img (memory_stamp s e)))"
proof -
  obtain es where es: "\<forall>e \<in> set es. entry_ok (ms_limits s) e"
    "ms_journal s = concat (map encode_journal_entry es)"
    using clean by (auto simp: journal_clean_def)
  note s' = memory_append_ok [OF app]
  let ?e = "memory_stamp s e"
  have j: "ms_journal s' = concat (map encode_journal_entry (es @ [?e]))" by (simp add: s' es)
  have rep: "fst (replay (ms_limits s) i empty_load_report (concat (map encode_journal_entry xs))) =
      apply_all i xs" if "\<forall>e \<in> set xs. entry_ok (ms_limits s) e" for i xs
    using replay_entries [of xs "ms_limits s" i empty_load_report "[]"] that by (simp add: replay_Nil)
  obtain i where i: "snapshot_image (ms_limits s) (ms_snapshot s) = Some i" "img = apply_all i es"
    using rec rep es by (auto simp: memory_recover_eq)
  have "memory_recover s' = Some (apply_all i (es @ [?e]))"
    using rep [of "es @ [?e]" i] es ok by (simp add: memory_recover_eq s'(2,3) i j del: map_append)
  moreover have "journal_clean s'"
    unfolding journal_clean_def using es ok j s' by (intro exI [of _ "es @ [?e]"]) auto
  ultimately show ?thesis by (simp add: i apply_all_def)
qed

interpretation memory_log: durable_log memory_recover memory_append memory_stamp
  "\<lambda>s. entry_ok (ms_limits s)" journal_clean
proof
  fix s e img s'
  assume "journal_clean s" "entry_ok (ms_limits s) (memory_stamp s e)" "memory_recover s = Some img"
    "memory_append s e = (StatusCode.Ok, s')"
  then show "journal_clean s' \<and> memory_recover s' = Some (snd (apply_journal_entry img (memory_stamp s e)))"
    by (rule memory_append_durable)
next
  fix s e status s'
  assume "memory_append s e = (status, s')" "status \<noteq> StatusCode.Ok"
  then show "memory_recover s' = memory_recover s \<and> journal_clean s' = journal_clean s"
    using memory_append_bytes [of s e status s'] by (simp add: memory_recover_eq journal_clean_def)
next
  fix s e status s'
  assume "memory_append s e = (status, s')"
  then show "entry_ok (ms_limits s') = entry_ok (ms_limits s)"
    using memory_append_bytes(1) by simp
qed (simp add: memory_stamp_def)

lemma memory_compact_recover:
  assumes "memory_compact s img = (StatusCode.Ok, s')" and "image_ok img"
    and "length (encode_snapshot img) \<le> unat (sl_max_snapshot_bytes (ms_limits s))"
    and "record_count img \<le> unat (sl_max_records (ms_limits s))"
  shows "memory_recover s' = Some img \<and> journal_clean s'"
proof -
  have s': "ms_journal s' = []" "ms_limits s' = ms_limits s" "ms_snapshot s' = encode_snapshot img"
    using assms(1) by (auto simp: memory_compact_def split: if_splits)
  have "encode_snapshot img \<noteq> []" by (simp add: encode_snapshot_def Let_def snapshot_header_eq)
      (metis append_is_Nil_conv length_snapshot_prefix list.size(3) zero_neq_numeral)
  then show ?thesis
    using snapshot_roundtrip [OF assms(2-4)] s'
    by (auto simp: memory_recover_eq snapshot_image_def replay_Nil journal_clean_def
        intro: exI [of _ "[]"])
qed

section \<open>Properties\<close>


text \<open>An opened, empty store and the entry that sets the epoch.\<close>

definition example_store :: MemoryDurableStore where
  "example_store = (new_memory_store default_store_limits)\<lparr>ms_opened := True\<rparr>"

definition example_entry :: JournalEntry where
  "example_entry = \<lparr>je_sequence = 1, je_body = SetEpoch 7\<rparr>"

lemma example_entry_ok: "entry_ok default_store_limits example_entry"
  by (simp add: entry_ok_def body_ok_def example_entry_def default_store_limits_def w_u64_def)

lemma encode_example_entry: "encode_journal_entry example_entry \<noteq> []"
  by (simp add: encode_journal_entry_def example_entry_def write_frame_header_def store_u32_def)

lemma example_store_clean: "journal_clean example_store" "memory_recover example_store = Some empty_image"
  by (auto simp: journal_clean_def memory_recover_eq snapshot_image_def replay_Nil example_store_def
      new_memory_store_def intro: exI [of _ "[]"])


text \<open>C26. A crash that tears the journal at any byte loses only whole entries from its end: a restart
  finds the snapshot with exactly those entries applied whose frames were written completely.\<close>

theorem store_crash_consistent:
  assumes "\<forall>e \<in> set entries. entry_ok (ms_limits s) e"
    and "ms_journal s = concat (map encode_journal_entry entries)"
    and "snapshot_image (ms_limits s) (ms_snapshot s) = Some base"
  shows "\<exists>k \<le> length entries.
    memory_recover (s\<lparr>ms_journal := take n (ms_journal s)\<rparr>) = Some (apply_all base (take k entries)) \<and>
    length (concat (map encode_journal_entry (take k entries))) \<le> n \<and>
    (k < length entries \<longrightarrow> n < length (concat (map encode_journal_entry (take (Suc k) entries))))"
  using replay_crash_prefix [of entries "ms_limits s" base empty_load_report n] assms
  by (simp add: memory_recover_eq)

theorem store_crash_consistent_witness:
  "\<exists>k \<le> 1. memory_recover (example_store\<lparr>ms_journal := take 5 (encode_journal_entry example_entry)\<rparr>) =
     Some (apply_all empty_image (take k [example_entry])) \<and>
     length (concat (map encode_journal_entry (take k [example_entry]))) \<le> 5 \<and>
     (k < 1 \<longrightarrow> 5 < length (concat (map encode_journal_entry (take (Suc k) [example_entry]))))"
  using store_crash_consistent [of "[example_entry]"
      "example_store\<lparr>ms_journal := encode_journal_entry example_entry\<rparr>" empty_image 5] example_entry_ok
  by (simp add: example_store_def new_memory_store_def snapshot_image_def)


lemma length_encode_empty_image: "length (encode_snapshot empty_image) = 144"
  by (simp add: encode_snapshot_def Let_def snapshot_header_eq length_sha256_digest encode_image_payload_def
      empty_image_def w_collection_def w_u64_def sm_values_def)



end
