(* ===== verification/Texts.thy ===== *)
theory Texts
  imports Model
begin

text \<open>
  The texts the engine stores in its records (region notes, invalidation rationales, failure
  reasons, recovery notes).  They are persisted and returned to callers, so they are part of the
  state; nothing else in the engine reads them back.  \<open>StrongId::to_string\<close> and
  \<open>ContentFingerprint::to_string\<close> (\<^verbatim>\<open>include/coherence/ids.hpp\<close>, \<^verbatim>\<open>src/model.cpp\<close>) are modelled
  because those texts contain them.
\<close>

section \<open>Numbers and fingerprints\<close>

definition digit_char :: "nat \<Rightarrow> char" where
  "digit_char d = (if d < 10 then char_of (48 + d) else char_of (87 + d))"

text \<open>\<^verbatim>\<open>std::to_string\<close> on an unsigned value.\<close>

fun nat_to_decimal :: "nat \<Rightarrow> string" where
  "nat_to_decimal n = (if n < 10 then [digit_char n] else nat_to_decimal (n div 10) @ [digit_char (n mod 10)])"

declare nat_to_decimal.simps [simp del]

definition id_to_string :: "u64 \<Rightarrow> string" where
  "id_to_string x = nat_to_decimal (unat x)"

text \<open>\<^verbatim>\<open>%016llx\<close>.\<close>

primrec hex_digits :: "nat \<Rightarrow> nat \<Rightarrow> string" where
  "hex_digits 0 n = []"
| "hex_digits (Suc k) n = hex_digits k (n div 16) @ [digit_char (n mod 16)]"

definition to_hex :: "UInt128 \<Rightarrow> string" where
  "to_hex value = hex_digits 16 (unat (high value)) @ hex_digits 16 (unat (low value))"

definition fingerprint_to_string :: "ContentFingerprint \<Rightarrow> string" where
  "fingerprint_to_string fp =
     (if \<not> fp_defined fp then ''undefined''
      else to_hex (fp_digest fp) @ '':crc32c='' @ nat_to_decimal (unat (fp_crc32c fp)) @
           '':len='' @ id_to_string (fp_length fp))"

lemma length_hex_digits [simp]: "length (hex_digits k n) = k"
  by (induction k arbitrary: n) auto

section \<open>Region notes\<close>

definition note_superseded :: "VersionId \<Rightarrow> string" where
  "note_superseded v = ''superseded by authoritative version '' @ id_to_string v"

definition note_readmitted :: string where
  "note_readmitted = ''retired when the owning participant was re-admitted under a new boot identity''"

definition note_fenced :: "string \<Rightarrow> string" where
  "note_fenced reason = ''owning participant was fenced: '' @ reason"

definition note_registered :: string where
  "note_registered = ''registered; dynamic currentness requires revalidation''"

definition note_dirty :: "VersionId \<Rightarrow> string" where
  "note_dirty v = ''unpublished modification based on version '' @ id_to_string v"

definition note_invalidated :: "InvalidationId \<Rightarrow> string" where
  "note_invalidated i = ''invalidated by '' @ id_to_string i"

definition note_revalidated :: "VersionId \<Rightarrow> string" where
  "note_revalidated v = ''revalidated by direct observation at version '' @ id_to_string v"

definition note_revalidated_stale :: "VersionId \<Rightarrow> VersionId \<Rightarrow> string" where
  "note_revalidated_stale observed authoritative =
     ''revalidation observed version '' @ id_to_string observed @
     '' which is not the authoritative version '' @ id_to_string authoritative"

definition note_published :: "VersionId \<Rightarrow> string" where
  "note_published v =
     ''authoritative version '' @ id_to_string v @ '' published from this replica''"

definition note_never_published :: string where
  "note_never_published = ''unpublished modification was never published''"

definition note_sync_requested :: "SyncOperationId \<Rightarrow> RegionId \<Rightarrow> string" where
  "note_sync_requested s source =
     ''synchronization '' @ id_to_string s @ '' requested from '' @ id_to_string source"

definition note_sync_superseded :: "VersionId \<Rightarrow> string" where
  "note_sync_superseded v =
     ''synchronization completed against a superseded version '' @ id_to_string v"

definition note_synchronized :: "VersionId \<Rightarrow> RegionId \<Rightarrow> string" where
  "note_synchronized v source =
     ''synchronized to version '' @ id_to_string v @ '' from region '' @ id_to_string source"

definition note_sync_unknown :: "string \<Rightarrow> string" where
  "note_sync_unknown reason = ''synchronization outcome unknown: '' @ reason"

definition note_sync_mismatch :: "string \<Rightarrow> string" where
  "note_sync_mismatch reason = ''content mismatch during synchronization: '' @ reason"

definition note_sync_failed :: "string \<Rightarrow> string" where
  "note_sync_failed reason = ''synchronization failed: '' @ reason"

definition note_restored :: string where
  "note_restored =
     ''restored from durable metadata; currentness must be re-established by a new observation''"

section \<open>Synchronization, invalidation, participant and object texts\<close>

definition reason_sync_fenced :: string where
  "reason_sync_fenced = ''destination participant was fenced before synchronization completed''"

definition reason_sync_shutdown :: string where
  "reason_sync_shutdown = ''coordinator shutdown''"

definition reason_sync_retired :: string where
  "reason_sync_retired = ''the destination replica was retired before the transfer completed''"

definition reason_sync_advanced :: string where
  "reason_sync_advanced = ''the authoritative version advanced while the transfer was in flight''"

definition reason_sync_not_moved :: string where
  "reason_sync_not_moved = ''the caller reported that no bytes were moved''"

definition reason_sync_mismatch :: "ContentFingerprint \<Rightarrow> ContentFingerprint \<Rightarrow> string" where
  "reason_sync_mismatch expected observed =
     ''the destination fingerprint does not match the published content fingerprint: expected '' @
     fingerprint_to_string expected @ '' observed '' @ fingerprint_to_string observed"

definition reason_sync_restart :: string where
  "reason_sync_restart =
     ''the coordinator restarted while the transfer was in flight; whether bytes moved is '' @
     ''unknown and is reported as unknown''"

definition sync_default_transport :: string where
  "sync_default_transport = ''delegated''"

definition sync_postcondition_text ::
  "VersionId \<Rightarrow> ContentFingerprint \<Rightarrow> OwnershipGeneration \<Rightarrow> string" where
  "sync_postcondition_text v content g =
     ''destination replica holds version '' @ id_to_string v @ '' with fingerprint '' @
     fingerprint_to_string content @ '' and becomes current under ownership generation '' @
     id_to_string g"

definition rationale_write_transfer :: string where
  "rationale_write_transfer = ''superseded by a write transfer''"

definition rationale_explicit :: string where
  "rationale_explicit = ''explicit generation-bound invalidation''"

definition rationale_inert :: "CoherenceState \<Rightarrow> string" where
  "rationale_inert s =
     ''the targeted replica is inert ('' @ coherence_state_to_token s @
     ''); the invalidation is satisfied vacuously and is not applied to any replacement''"

definition rationale_gone :: string where
  "rationale_gone = ''target replica no longer exists''"

definition rationale_replaced :: string where
  "rationale_replaced =
     ''the targeted replica generation was replaced before the acknowledgement arrived''"

definition rationale_fenced :: string where
  "rationale_fenced = ''target replica generation disappeared with the fenced participant''"

definition rationale_shutdown :: string where
  "rationale_shutdown = ''coordinator shutdown before acknowledgement''"

definition rationale_restart :: string where
  "rationale_restart =
     ''the coordinator restarted before the acknowledgement arrived; every replica was '' @
     ''conservatively downgraded, which discharges the invalidation without claiming the '' @
     ''acknowledgement was observed''"

definition fence_reason_new_boot :: string where
  "fence_reason_new_boot = ''superseded by a new participant boot identity''"

definition recovery_note_fenced :: string where
  "recovery_note_fenced =
     ''dirty authority holder was fenced before publication; recoverable state is unknown''"

definition recovery_note_released :: string where
  "recovery_note_released =
     ''write authority released with an unpublished modification; the newest state was never '' @
     ''published and recovery must resolve the outcome''"

definition recovery_note_resolved :: string where
  "recovery_note_resolved =
     ''operator resolved recovery: the unpublished modification was lost and the last '' @
     ''authoritative version stands''"

definition recovery_note_epoch :: "u64 \<Rightarrow> CoordinatorEpoch \<Rightarrow> string" where
  "recovery_note_epoch previous epoch =
     ''dynamic authority was not restored: the coordinator epoch advanced from '' @
     id_to_string previous @ '' to '' @ id_to_string epoch"

definition recovery_note_completed :: string where
  "recovery_note_completed =
     ''; the durable pending publication was completed under its original publication and '' @
     ''version identity''"

definition recovery_note_operator :: string where
  "recovery_note_operator =
     ''; a durable pending publication exists whose completion the active recovery policy '' @
     ''does not authorise; an operator must resolve it''"

definition recovery_note_aborted :: string where
  "recovery_note_aborted =
     ''; an in-flight publication had no durable record and was aborted rather than assumed '' @
     ''to have committed''"

definition recovery_note_dirty :: string where
  "recovery_note_dirty =
     ''; an unpublished modification existed at restart and the runtime does not invent a '' @
     ''successful publication for it''"

definition default_policy_name :: string where
  "default_policy_name = ''policy''"

end
