(* ===== verification/Engine_State.thy ===== *)
theory Engine_State
  imports Persistence Texts "HOL-Library.Char_ord" "HOL-Library.List_Lexorder"
    "HOL-Library.Product_Lexorder"
begin

text \<open>
  The state of the coherence engine (\<^verbatim>\<open>src/engine_impl.hpp\<close>) and the helpers every operation is
  made of (\<^verbatim>\<open>src/engine_core.cpp\<close>, \<^verbatim>\<open>src/engine_helpers.cpp\<close>).  \<open>CoherenceEngine::Impl\<close> is the
  record \<open>engine\<close>; an operation under the engine mutex is a function from the engine to a result
  and the engine afterwards.  The store attached to an engine is the memory store of
  \<open>Persistence\<close>.  Status messages, decision rationales and the notes of the recovery report are
  diagnostics and are not part of the state; the texts kept in durable records are.
\<close>

section \<open>Configuration and decisions\<close>

record EngineConfig =
  cfg_initial_epoch :: CoordinatorEpoch
  cfg_max_domains :: u64
  cfg_max_participants :: u64
  cfg_max_objects :: u64
  cfg_max_regions :: u64
  cfg_max_regions_per_object :: u64
  cfg_max_reads_per_object :: u64
  cfg_max_object_length :: u64
  cfg_max_outstanding_invalidations :: u64
  cfg_max_inflight_syncs :: u64
  cfg_max_retained_requests_per_object :: u64
  cfg_max_decision_log :: u64
  cfg_enable_decision_log :: bool
  cfg_enable_durability :: bool

definition default_config :: EngineConfig where
  "default_config =
     \<lparr>cfg_initial_epoch = 1, cfg_max_domains = 64, cfg_max_participants = 65536,
      cfg_max_objects = 1000000, cfg_max_regions = 4000000, cfg_max_regions_per_object = 1000000,
      cfg_max_reads_per_object = 1000000, cfg_max_object_length = 0x10000000000,
      cfg_max_outstanding_invalidations = 1000000, cfg_max_inflight_syncs = 1000000,
      cfg_max_retained_requests_per_object = 64, cfg_max_decision_log = 4096,
      cfg_enable_decision_log = True, cfg_enable_durability = True\<rparr>"

record DecisionContext =
  dc_decision :: DecisionId
  dc_epoch :: CoordinatorEpoch
  dc_policy :: PolicyId
  dc_policy_generation :: PolicyGeneration
  dc_object :: ObjectId
  dc_object_generation :: ObjectGeneration
  dc_ownership_generation :: OwnershipGeneration
  dc_sequence :: OperationSequence

definition default_decision_context :: DecisionContext where
  "default_decision_context =
     \<lparr>dc_decision = 0, dc_epoch = 0, dc_policy = 0, dc_policy_generation = 0, dc_object = 0,
      dc_object_generation = 0, dc_ownership_generation = 0, dc_sequence = 0\<rparr>"

text \<open>A decision-log entry, without its summary text.\<close>

record DecisionRecord =
  dr_kind :: DecisionKind
  dr_context :: DecisionContext
  dr_code :: StatusCode

record RecoveryReport =
  rep_performed :: bool
  rep_previous_epoch :: CoordinatorEpoch
  rep_new_epoch :: CoordinatorEpoch
  rep_objects_restored :: u64
  rep_regions_restored :: u64
  rep_participants_restored :: u64
  rep_regions_downgraded :: u64
  rep_authority_revoked :: u64
  rep_publications_completed :: u64
  rep_publications_requiring_operator :: u64
  rep_syncs_classified_unknown :: u64
  rep_invalidations_superseded :: u64
  rep_journal_records_replayed :: u64
  rep_corrupt_records_skipped :: u64

definition empty_recovery_report :: RecoveryReport where
  "empty_recovery_report =
     \<lparr>rep_performed = False, rep_previous_epoch = 0, rep_new_epoch = 0, rep_objects_restored = 0,
      rep_regions_restored = 0, rep_participants_restored = 0, rep_regions_downgraded = 0,
      rep_authority_revoked = 0, rep_publications_completed = 0,
      rep_publications_requiring_operator = 0, rep_syncs_classified_unknown = 0,
      rep_invalidations_superseded = 0, rep_journal_records_replayed = 0,
      rep_corrupt_records_skipped = 0\<rparr>"

section \<open>The engine\<close>

record engine =
  eng_config :: EngineConfig
  eng_epoch :: CoordinatorEpoch
  eng_sequence :: OperationSequence
  eng_shutting_down :: bool
  eng_shutdown_complete :: bool
  eng_durable :: DurableImage
  eng_domains :: "(CoherenceDomainId, DomainRecord) std_map"
  eng_participants :: "(ParticipantId, ParticipantRecord) std_map"
  eng_objects :: "(ObjectId, ObjectRecord) std_map"
  eng_regions :: "(RegionId, RegionRecord) std_map"
  eng_invalidations :: "(InvalidationId, InvalidationRecord) std_map"
  eng_syncs :: "(SyncOperationId, SyncRecord) std_map"
  eng_policies :: "(PolicyId, CoherencePolicy) std_map"
  eng_domain_index :: "(string, CoherenceDomainId) std_map"
  eng_participant_index :: "(string, ParticipantId) std_map"
  eng_object_index :: "(CoherenceDomainId \<times> string, ObjectId) std_map"
  eng_region_index :: "(ObjectId \<times> string, RegionId) std_map"
  eng_in_flight_publications :: "(PublicationId, PendingPublication) std_map"
  eng_next_domain_id :: u64
  eng_next_participant_id :: u64
  eng_next_object_id :: u64
  eng_next_region_id :: u64
  eng_next_replica_id :: u64
  eng_next_publication_id :: u64
  eng_next_invalidation_id :: u64
  eng_next_sync_id :: u64
  eng_next_lease_id :: u64
  eng_next_policy_id :: u64
  eng_next_evidence_id :: u64
  eng_next_decision_id :: u64
  eng_store :: "MemoryDurableStore option"
  eng_next_journal_sequence :: u64
  eng_compaction_threshold_bytes :: u64
  eng_journal_bytes_at_last_compaction :: u64
  eng_store_healthy :: bool
  eng_recovery_performed :: bool
  eng_recovery_report :: RecoveryReport
  eng_decision_log :: "DecisionRecord list"
  eng_decisions_recorded :: u64

text \<open>The constructor: the epoch starts at one whatever the configuration says.\<close>

definition new_engine :: "EngineConfig \<Rightarrow> engine" where
  "new_engine config =
     \<lparr>eng_config = (if cfg_max_decision_log config = 0 then config\<lparr>cfg_max_decision_log := 1\<rparr> else config),
      eng_epoch = 1, eng_sequence = 1, eng_shutting_down = False, eng_shutdown_complete = False,
      eng_durable = empty_image\<lparr>img_epoch := 1\<rparr>, eng_domains = [], eng_participants = [],
      eng_objects = [], eng_regions = [], eng_invalidations = [], eng_syncs = [],
      eng_policies = [], eng_domain_index = [], eng_participant_index = [], eng_object_index = [],
      eng_region_index = [], eng_in_flight_publications = [], eng_next_domain_id = 1,
      eng_next_participant_id = 1, eng_next_object_id = 1, eng_next_region_id = 1,
      eng_next_replica_id = 1, eng_next_publication_id = 1, eng_next_invalidation_id = 1,
      eng_next_sync_id = 1, eng_next_lease_id = 1, eng_next_policy_id = 1,
      eng_next_evidence_id = 1, eng_next_decision_id = 1, eng_store = None,
      eng_next_journal_sequence = 1, eng_compaction_threshold_bytes = 8 * 1024 * 1024,
      eng_journal_bytes_at_last_compaction = 0, eng_store_healthy = True,
      eng_recovery_performed = False, eng_recovery_report = empty_recovery_report,
      eng_decision_log = [], eng_decisions_recorded = 0\<rparr>"

definition tick :: "engine \<Rightarrow> engine" where
  "tick e = e\<lparr>eng_sequence := next_id (eng_sequence e)\<rparr>"

text \<open>Writing a record back through the reference an operation holds into one of the maps.\<close>

definition put_participant :: "ParticipantId \<Rightarrow> ParticipantRecord \<Rightarrow> engine \<Rightarrow> engine" where
  "put_participant k p e = e\<lparr>eng_participants := sm_put k p (eng_participants e)\<rparr>"

definition put_object :: "ObjectId \<Rightarrow> ObjectRecord \<Rightarrow> engine \<Rightarrow> engine" where
  "put_object k ob e = e\<lparr>eng_objects := sm_put k ob (eng_objects e)\<rparr>"

definition put_region :: "RegionId \<Rightarrow> RegionRecord \<Rightarrow> engine \<Rightarrow> engine" where
  "put_region k r e = e\<lparr>eng_regions := sm_put k r (eng_regions e)\<rparr>"

definition put_invalidation :: "InvalidationId \<Rightarrow> InvalidationRecord \<Rightarrow> engine \<Rightarrow> engine" where
  "put_invalidation k i e = e\<lparr>eng_invalidations := sm_put k i (eng_invalidations e)\<rparr>"

definition put_sync :: "SyncOperationId \<Rightarrow> SyncRecord \<Rightarrow> engine \<Rightarrow> engine" where
  "put_sync k s e = e\<lparr>eng_syncs := sm_put k s (eng_syncs e)\<rparr>"

section \<open>Evidence, decisions\<close>

definition make_evidence ::
  "engine \<Rightarrow> EvidenceKind \<Rightarrow> EvidenceClass \<Rightarrow> ParticipantId \<Rightarrow> ParticipantBootId \<Rightarrow> ObjectId \<Rightarrow>
   ObjectGeneration \<Rightarrow> RegionId \<Rightarrow> RegionGeneration \<Rightarrow> VersionId \<Rightarrow> ContentFingerprint \<Rightarrow>
   EvidenceRecord \<times> engine" where
  "make_evidence e kind klass participant boot obj object_generation region region_generation
     version content =
     (default_evidence
        \<lparr>ev_id := eng_next_evidence_id e, ev_generation := 1, ev_kind := kind,
         ev_evidence_class := klass, ev_participant := participant, ev_boot := boot,
         ev_epoch := eng_epoch e, ev_object := obj, ev_object_generation := object_generation,
         ev_region := region, ev_region_generation := region_generation,
         ev_observed_version := version,
         ev_observed_digest := (if fp_defined content then fp_digest content else 0),
         ev_observed_crc32c := (if fp_defined content then fp_crc32c content else 0),
         ev_sequence := eng_sequence e,
         ev_process_local := (kind = EvidenceKind.ProcessLifecycle \<or>
           kind = EvidenceKind.BackendCompletion \<or> kind = EvidenceKind.RuntimeObservation)\<rparr>,
      e\<lparr>eng_next_evidence_id := eng_next_evidence_id e + 1\<rparr>)"

definition default_authority_context :: AuthorityContext where
  "default_authority_context =
     \<lparr>actx_epoch = 0, actx_participant = 0, actx_boot = 0, actx_object = 0,
      actx_object_generation = 0, actx_policy_generation = 0, actx_request = 0\<rparr>"

definition make_context ::
  "engine \<Rightarrow> AuthorityContext \<Rightarrow> ObjectId \<Rightarrow> ObjectGeneration \<Rightarrow> OwnershipGeneration \<Rightarrow>
   DecisionContext \<times> engine" where
  "make_context e authority obj generation ownership =
     (let found = (if is_defined obj then map_of (eng_objects e) obj else None);
          policy = (case found of None \<Rightarrow> 0 | Some ob \<Rightarrow> obj_policy ob);
          policy_generation = (case found of None \<Rightarrow> 0 | Some ob \<Rightarrow> obj_policy_generation ob)
      in (\<lparr>dc_decision = eng_next_decision_id e, dc_epoch = eng_epoch e, dc_policy = policy,
           dc_policy_generation = (if is_defined (actx_policy_generation authority)
             then actx_policy_generation authority else policy_generation),
           dc_object = obj, dc_object_generation = generation,
           dc_ownership_generation = ownership, dc_sequence = eng_sequence e\<rparr>,
          e\<lparr>eng_next_decision_id := eng_next_decision_id e + 1\<rparr>))"

text \<open>The decision log is a ring: the oldest entries are dropped while it is over its bound.\<close>

definition record_decision :: "DecisionKind \<Rightarrow> DecisionContext \<Rightarrow> StatusCode \<Rightarrow> engine \<Rightarrow> engine" where
  "record_decision kind context code e =
     (if \<not> cfg_enable_decision_log (eng_config e) then e
      else let log = eng_decision_log e @ [\<lparr>dr_kind = kind, dr_context = context, dr_code = code\<rparr>]
      in e\<lparr>eng_decision_log :=
             drop (length log - unat (cfg_max_decision_log (eng_config e))) log,
           eng_decisions_recorded := eng_decisions_recorded e + 1\<rparr>)"

section \<open>Durability\<close>

definition durability_active :: "engine \<Rightarrow> bool" where
  "durability_active e \<longleftrightarrow> cfg_enable_durability (eng_config e) \<and> eng_store e \<noteq> None"

definition append_locked :: "engine \<Rightarrow> JournalBody \<Rightarrow> StatusCode \<times> engine" where
  "append_locked e body =
     (case eng_store e of
        None \<Rightarrow> (StatusCode.Ok, e)
      | Some store \<Rightarrow>
          if \<not> cfg_enable_durability (eng_config e) then (StatusCode.Ok, e)
          else let stamped = \<lparr>je_sequence = eng_next_journal_sequence e, je_body = body\<rparr>;
                   (written, store) = memory_append store stamped;
                   e = e\<lparr>eng_next_journal_sequence := eng_next_journal_sequence e + 1,
                         eng_store := Some store\<rparr>
               in if written \<noteq> StatusCode.Ok then (written, e\<lparr>eng_store_healthy := False\<rparr>)
                  else let (applied, durable) = apply_journal_entry (eng_durable e) stamped;
                           e = e\<lparr>eng_durable := durable\<rparr>
                       in if applied \<noteq> StatusCode.Ok then (applied, e\<lparr>eng_store_healthy := False\<rparr>)
                          else (StatusCode.Ok, e))"

text \<open>Sequence numbers for a group of entries, in order.\<close>

fun stamp_entries :: "u64 \<Rightarrow> JournalBody list \<Rightarrow> JournalEntry list" where
  "stamp_entries n [] = []"
| "stamp_entries n (body # bodies) = \<lparr>je_sequence = n, je_body = body\<rparr> # stamp_entries (n + 1) bodies"

fun apply_entries :: "DurableImage \<Rightarrow> JournalEntry list \<Rightarrow> StatusCode \<times> DurableImage" where
  "apply_entries img [] = (StatusCode.Ok, img)"
| "apply_entries img (entry # entries) =
     (let (applied, img) = apply_journal_entry img entry
      in if applied \<noteq> StatusCode.Ok then (applied, img) else apply_entries img entries)"

definition append_many_locked :: "engine \<Rightarrow> JournalBody list \<Rightarrow> StatusCode \<times> engine" where
  "append_many_locked e bodies =
     (case eng_store e of
        None \<Rightarrow> (StatusCode.Ok, e)
      | Some store \<Rightarrow>
          if \<not> cfg_enable_durability (eng_config e) \<or> bodies = [] then (StatusCode.Ok, e)
          else let stamped = stamp_entries (eng_next_journal_sequence e) bodies;
                   (written, store) = append_batch memory_append store stamped;
                   e = e\<lparr>eng_next_journal_sequence :=
                           eng_next_journal_sequence e + of_nat (length bodies),
                         eng_store := Some store\<rparr>
               in if written \<noteq> StatusCode.Ok then (written, e\<lparr>eng_store_healthy := False\<rparr>)
                  else let (applied, durable) = apply_entries (eng_durable e) stamped;
                           e = e\<lparr>eng_durable := durable\<rparr>
                       in if applied \<noteq> StatusCode.Ok then (applied, e\<lparr>eng_store_healthy := False\<rparr>)
                          else (StatusCode.Ok, e))"

definition upsert_durable_object :: "ObjectRecord \<Rightarrow> engine \<Rightarrow> engine" where
  "upsert_durable_object ob e = snd (append_locked e (UpsertObject (scrub_object_for_persistence ob)))"

definition upsert_durable_region :: "RegionRecord \<Rightarrow> engine \<Rightarrow> engine" where
  "upsert_durable_region r e = snd (append_locked e (UpsertRegion r))"

definition upsert_durable_participant :: "ParticipantRecord \<Rightarrow> engine \<Rightarrow> engine" where
  "upsert_durable_participant p e =
     snd (append_locked e (UpsertParticipant (scrub_participant_for_persistence p)))"

definition maybe_compact_locked :: "engine \<Rightarrow> StatusCode \<times> engine" where
  "maybe_compact_locked e =
     (case eng_store e of
        None \<Rightarrow> (StatusCode.Ok, e)
      | Some store \<Rightarrow>
          if \<not> cfg_enable_durability (eng_config e) then (StatusCode.Ok, e)
          else if eng_in_flight_publications e \<noteq> [] then (StatusCode.Ok, e)
          else if length (ms_journal store) < unat (eng_compaction_threshold_bytes e)
            then (StatusCode.Ok, e)
          else let (compacted, store) = memory_compact store (eng_durable e);
                   e = e\<lparr>eng_store := Some store\<rparr>
               in if compacted \<noteq> StatusCode.Ok then (compacted, e\<lparr>eng_store_healthy := False\<rparr>)
                  else (StatusCode.Ok, e))"

definition compact_locked :: "engine \<Rightarrow> engine" where
  "compact_locked e =
     (case eng_store e of
        None \<Rightarrow> e
      | Some store \<Rightarrow>
          if \<not> cfg_enable_durability (eng_config e) then e
          else if eng_in_flight_publications e \<noteq> [] then e
          else e\<lparr>eng_store := Some (snd (memory_compact store (eng_durable e)))\<rparr>)"

end
