(* ===== verification/Engine_Helpers.thy ===== *)
theory Engine_Helpers
  imports Engine_State
begin

text \<open>
  The helpers shared by the operations: the \<open>*_locked\<close> members of \<open>Impl\<close> that touch objects and
  regions (\<^verbatim>\<open>src/engine_core.cpp\<close>), the resolution of a request against the live state, freshness
  assessment of a replica, replica selection and read grants (\<^verbatim>\<open>src/engine_helpers.cpp\<close>), and
  which parts of the engine each of them leaves alone.
\<close>

section \<open>Object and region helpers\<close>

definition object_replica_ids :: "engine \<Rightarrow> ObjectId \<Rightarrow> RegionId list" where
  "object_replica_ids e k = (case map_of (eng_objects e) k of None \<Rightarrow> [] | Some ob \<Rightarrow> obj_replicas ob)"

definition has_outstanding_invalidations :: "engine \<Rightarrow> ObjectId \<Rightarrow> bool" where
  "has_outstanding_invalidations e k =
     (case map_of (eng_objects e) k of
        None \<Rightarrow> False
      | Some ob \<Rightarrow> list_ex (\<lambda>i. case map_of (eng_invalidations e) i of
            None \<Rightarrow> False
          | Some iv \<Rightarrow> inv_state iv = InvalidationState.Requested) (obj_outstanding_invalidations ob))"

definition mark_region_stale :: "VersionId \<Rightarrow> RegionId \<Rightarrow> RegionId \<Rightarrow> engine \<Rightarrow> engine" where
  "mark_region_stale authoritative except_region k e =
     (if k = except_region then e
      else case map_of (eng_regions e) k of
          None \<Rightarrow> e
        | Some region \<Rightarrow>
            if reg_state region \<noteq> CoherenceState.Current then e
            else let region = region
                   \<lparr>reg_state := CoherenceState.Stale, reg_note := note_superseded authoritative,
                    reg_evidence := 0, reg_evidence_generation := 0\<rparr>
                 in upsert_durable_region region (put_region k region e))"

definition mark_regions_stale :: "ObjectId \<Rightarrow> VersionId \<Rightarrow> RegionId \<Rightarrow> engine \<Rightarrow> engine" where
  "mark_regions_stale k authoritative except_region e =
     (case map_of (eng_objects e) k of
        None \<Rightarrow> e
      | Some ob \<Rightarrow> fold (mark_region_stale authoritative except_region) (obj_replicas ob) e)"

text \<open>Which grants \<open>release_reads_for_participant_locked\<close> releases.\<close>

definition releases_grant :: "ParticipantId \<Rightarrow> ParticipantBootId \<Rightarrow> ReadGrant \<Rightarrow> bool" where
  "releases_grant participant boot grant \<longleftrightarrow>
     \<not> grant_released grant \<and> grant_participant grant = participant \<and>
     \<not> (is_defined boot \<and> grant_boot grant \<noteq> boot)"

definition release_reads_of_object :: "ParticipantId \<Rightarrow> ParticipantBootId \<Rightarrow> ObjectId \<Rightarrow> engine \<Rightarrow> engine" where
  "release_reads_of_object participant boot k e =
     (case map_of (eng_objects e) k of
        None \<Rightarrow> e
      | Some ob \<Rightarrow>
          if \<not> list_ex (releases_grant participant boot) (obj_reads ob) then e
          else let ob = ob
                 \<lparr>obj_reads := map (\<lambda>g. if releases_grant participant boot g
                    then g\<lparr>grant_released := True\<rparr> else g) (obj_reads ob),
                  obj_updated_sequence := eng_sequence e\<rparr>
               in upsert_durable_object ob (put_object k ob e))"

definition release_reads_for_participant ::
  "ParticipantId \<Rightarrow> ParticipantBootId \<Rightarrow> engine \<Rightarrow> engine" where
  "release_reads_for_participant participant boot e =
     fold (release_reads_of_object participant boot) (sm_keys (eng_objects e)) e"

text \<open>\<open>recompute_authority_locked\<close> on the object stored under a key; the caller holds a reference
  to that entry, so the invalidations it consults are those of the stored record.\<close>

definition recompute_authority :: "engine \<Rightarrow> ObjectRecord \<Rightarrow> ObjectRecord" where
  "recompute_authority e ob =
     (if obj_authority ob = AuthorityMode.ExclusiveWriter then ob
      else if obj_authority ob = AuthorityMode.RevalidationRequired then ob
      else if obj_authority ob = AuthorityMode.TransferPending
        then (if \<not> has_outstanding_invalidations e (obj_id ob)
                then ob\<lparr>obj_authority := AuthorityMode.ExclusiveWriter\<rparr> else ob)
      else ob\<lparr>obj_authority :=
          (if list_ex (\<lambda>g. \<not> grant_released g) (obj_reads ob)
             then AuthorityMode.SharedReaders else AuthorityMode.NoAuthority)\<rparr>)"

definition recompute_authority_locked :: "ObjectId \<Rightarrow> engine \<Rightarrow> engine" where
  "recompute_authority_locked k e =
     (case map_of (eng_objects e) k of None \<Rightarrow> e | Some ob \<Rightarrow> put_object k (recompute_authority e ob) e)"

definition release_region_name :: "RegionRecord \<Rightarrow> engine \<Rightarrow> engine" where
  "release_region_name r e =
     (if map_of (eng_region_index e) (reg_object r, reg_name r) = Some (reg_id r)
        then e\<lparr>eng_region_index := sm_erase (reg_object r, reg_name r) (eng_region_index e)\<rparr>
      else e)"

definition retotal_participant_regions :: "engine \<Rightarrow> engine" where
  "retotal_participant_regions e = e
     \<lparr>eng_participants := sm_map (\<lambda>k p. p
        \<lparr>par_region_count :=
           of_nat (length (filter (\<lambda>r. reg_participant r = k) (sm_values (eng_regions e))))\<rparr>)
        (eng_participants e)\<rparr>"

section \<open>Resolution\<close>

text \<open>Status, object and participant: the object is set as soon as it is found, also when a later
  check refuses the request.\<close>

definition resolve_locked ::
  "engine \<Rightarrow> AuthorityContext \<Rightarrow> StatusCode \<times> ObjectRecord option \<times> ParticipantRecord option" where
  "resolve_locked e ctx =
     (if eng_shutting_down e then (StatusCode.ShuttingDown, None, None)
      else if is_nil (actx_participant ctx) then (StatusCode.InvalidArgument, None, None)
      else if actx_epoch ctx \<noteq> eng_epoch e then (StatusCode.StaleEpoch, None, None)
      else case map_of (eng_objects e) (actx_object ctx) of
          None \<Rightarrow> (StatusCode.UnknownObject, None, None)
        | Some ob \<Rightarrow>
            if obj_generation ob \<noteq> actx_object_generation ctx
              then (StatusCode.StaleObjectGeneration, Some ob, None)
            else if obj_lifecycle ob = ObjectLifecycle.Retired then (StatusCode.Retired, Some ob, None)
            else if obj_lifecycle ob = ObjectLifecycle.RecoveryRequired
              then (StatusCode.RecoveryRequired, Some ob, None)
            else if obj_lifecycle ob = ObjectLifecycle.Quiescing
              then (StatusCode.Quiescing, Some ob, None)
            else if is_defined (actx_policy_generation ctx)
                \<and> actx_policy_generation ctx \<noteq> obj_policy_generation ob
              then (StatusCode.StalePolicy, Some ob, None)
            else case map_of (eng_participants e) (actx_participant ctx) of
                None \<Rightarrow> (StatusCode.UnknownParticipant, Some ob, None)
              | Some p \<Rightarrow>
                  if par_lifecycle p = ParticipantLifecycle.Fenced
                    then (StatusCode.Fenced, Some ob, Some p)
                  else if par_lifecycle p = ParticipantLifecycle.Retired
                    then (StatusCode.Retired, Some ob, Some p)
                  else if par_boot p \<noteq> actx_boot ctx then (StatusCode.StaleBoot, Some ob, Some p)
                  else (StatusCode.Ok, Some ob, Some p))"

definition resolve_internal_locked :: "engine \<Rightarrow> AuthorityContext \<Rightarrow> ObjectRecord Result" where
  "resolve_internal_locked e ctx =
     (if eng_shutting_down e then Inl StatusCode.ShuttingDown
      else if actx_epoch ctx \<noteq> eng_epoch e then Inl StatusCode.StaleEpoch
      else case map_of (eng_objects e) (actx_object ctx) of
          None \<Rightarrow> Inl StatusCode.UnknownObject
        | Some ob \<Rightarrow>
            if obj_generation ob \<noteq> actx_object_generation ctx then Inl StatusCode.StaleObjectGeneration
            else if obj_lifecycle ob = ObjectLifecycle.Retired then Inl StatusCode.Retired
            else Inr ob)"

definition resolve_region_locked ::
  "engine \<Rightarrow> ObjectRecord \<Rightarrow> RegionId \<Rightarrow> RegionGeneration \<Rightarrow> RegionRecord Result" where
  "resolve_region_locked e ob k generation =
     (case map_of (eng_regions e) k of
        None \<Rightarrow> Inl StatusCode.UnknownRegion
      | Some r \<Rightarrow>
          if reg_object r \<noteq> obj_id ob then Inl StatusCode.InvalidArgument
          else if is_defined generation \<and> reg_generation r \<noteq> generation
            then Inl StatusCode.StaleRegionGeneration
          else Inr r)"

definition policy_locked :: "engine \<Rightarrow> ObjectRecord \<Rightarrow> CoherencePolicy option" where
  "policy_locked e ob = map_of (eng_policies e) (obj_policy ob)"

text \<open>The ownership generation an operation puts into its decision context.\<close>

abbreviation (input) ownership_of :: "ObjectRecord option \<Rightarrow> OwnershipGeneration" where
  "ownership_of found \<equiv> (case found of None \<Rightarrow> 0 | Some ob \<Rightarrow> obj_ownership_generation ob)"

section \<open>Freshness of a replica\<close>

definition is_synthetic_domain :: "MemoryDomain \<Rightarrow> bool" where
  "is_synthetic_domain d \<longleftrightarrow> d = MemoryDomain.Synthetic \<or> d = MemoryDomain.CxlClass"

definition region_evidence_context :: "engine \<Rightarrow> CoherencePolicy \<Rightarrow> RegionRecord \<Rightarrow> EvidenceContext" where
  "region_evidence_context e policy region =
     \<lparr>ec_current_epoch = eng_epoch e,
      ec_live_boot = (case map_of (eng_participants e) (reg_participant region) of
          None \<Rightarrow> 0 | Some p \<Rightarrow> par_boot p),
      ec_participant = reg_participant region,
      ec_current_sequence = eng_sequence e,
      ec_max_age_operations = pol_evidence_max_age_operations policy,
      ec_synthetic_domain = is_synthetic_domain (reg_memory_domain region)\<rparr>"

definition region_evidence :: "engine \<Rightarrow> RegionRecord \<Rightarrow> EvidenceRecord" where
  "region_evidence e region =
     (if is_defined (reg_evidence region)
        then default_evidence
          \<lparr>ev_id := reg_evidence region, ev_generation := reg_evidence_generation region,
           ev_kind := EvidenceKind.ByteComparison, ev_evidence_class := reg_evidence_class region,
           ev_participant := reg_participant region, ev_boot := reg_boot region,
           ev_epoch := eng_epoch e, ev_region := reg_id region,
           ev_region_generation := reg_generation region, ev_observed_version := reg_version region,
           ev_observed_digest := fp_digest (reg_content region),
           ev_observed_crc32c := fp_crc32c (reg_content region),
           ev_sequence := reg_updated_sequence region, ev_process_local := True\<rparr>
      else default_evidence)"

definition assess_region_locked :: "engine \<Rightarrow> CoherencePolicy \<Rightarrow> RegionRecord \<Rightarrow> FreshnessAssessment" where
  "assess_region_locked e policy region =
     assess_evidence (region_evidence e region) (region_evidence_context e policy region)"

section \<open>Replica selection and read grants\<close>

definition region_state_is :: "engine \<Rightarrow> (CoherenceState \<Rightarrow> bool) \<Rightarrow> RegionId \<Rightarrow> bool" where
  "region_state_is e P k =
     (case map_of (eng_regions e) k of None \<Rightarrow> False | Some r \<Rightarrow> P (reg_state r))"

text \<open>The scan keeps the first match; a nil identity in the list never counts as one.\<close>

definition first_replica :: "engine \<Rightarrow> (CoherenceState \<Rightarrow> bool) \<Rightarrow> RegionId list \<Rightarrow> RegionId" where
  "first_replica e P ks =
     (case find (\<lambda>k. region_state_is e P k \<and> is_defined k) ks of None \<Rightarrow> 0 | Some k \<Rightarrow> k)"

definition select_read_region :: "engine \<Rightarrow> ObjectRecord \<Rightarrow> RegionId \<Rightarrow> RegionId \<times> ObjectRecord" where
  "select_read_region e ob requested =
     (if is_defined requested then (requested, ob)
      else if is_defined (obj_preferred_current_replica ob)
          \<and> region_state_is e is_current_state (obj_preferred_current_replica ob)
        then (obj_preferred_current_replica ob, ob)
      else let ob = ob\<lparr>obj_preferred_current_replica := 0\<rparr>;
               best_current = first_replica e is_current_state (obj_replicas ob);
               best_readable = first_replica e is_readable_state (obj_replicas ob)
           in if is_defined best_current
                then (best_current, ob\<lparr>obj_preferred_current_replica := best_current\<rparr>)
              else (best_readable, ob))"

text \<open>The live grant an identical earlier read left behind, if any.\<close>

definition same_grant :: "ParticipantId \<Rightarrow> ParticipantBootId \<Rightarrow> RegionRecord \<Rightarrow> ReadGrant \<Rightarrow> bool" where
  "same_grant participant boot region grant \<longleftrightarrow>
     \<not> grant_released grant \<and> grant_participant grant = participant \<and> grant_boot grant = boot \<and>
     grant_region grant = reg_id region \<and> grant_version grant = reg_version region"

definition add_read_grant ::
  "engine \<Rightarrow> ObjectRecord \<Rightarrow> RegionRecord \<Rightarrow> ParticipantId \<Rightarrow> ParticipantBootId \<Rightarrow> LeaseId \<Rightarrow> ObjectRecord" where
  "add_read_grant e ob region participant boot lease =
     (if list_ex (same_grant participant boot region) (obj_reads ob) then ob
      else if obj_authority ob = AuthorityMode.ExclusiveWriter
          \<or> obj_authority ob = AuthorityMode.TransferPending then ob
      else if length (obj_reads ob) \<ge> unat (cfg_max_reads_per_object (eng_config e)) then ob
      else let grant =
          \<lparr>grant_lease = lease, grant_participant = participant, grant_boot = boot,
           grant_object = obj_id ob, grant_object_generation = obj_generation ob,
           grant_ownership_generation = obj_ownership_generation ob,
           grant_version = reg_version region, grant_region = reg_id region,
           grant_region_generation = reg_generation region,
           grant_granted_sequence = eng_sequence e, grant_released = False\<rparr>
      in ob\<lparr>obj_reads := obj_reads ob @ [grant],
            obj_authority := (if obj_authority ob = AuthorityMode.NoAuthority
              then AuthorityMode.SharedReaders else obj_authority ob)\<rparr>)"

text \<open>The journal bodies the \<open>push_*_entry\<close> helpers append.\<close>

definition object_entry :: "ObjectRecord \<Rightarrow> JournalBody" where
  "object_entry ob = UpsertObject (scrub_object_for_persistence ob)"

end
