(* ===== verification/Engine_Participants.thy ===== *)
theory Engine_Participants
  imports Engine_Helpers
begin

text \<open>
  Domains and participants (\<^verbatim>\<open>src/engine_core.cpp\<close>): domain creation, admission of a participant
  boot, closing of a session, and fencing, which revokes everything one incarnation holds.
\<close>

section \<open>Domains\<close>

definition create_domain :: "engine \<Rightarrow> string \<Rightarrow> DomainRecord Result \<times> engine" where
  "create_domain e name =
     (if eng_shutting_down e then (Inl StatusCode.ShuttingDown, e)
      else if name = [] then (Inl StatusCode.InvalidArgument, e)
      else if map_of (eng_domain_index e) name \<noteq> None then (Inl StatusCode.DuplicateIdentity, e)
      else if length (eng_domains e) \<ge> unat (cfg_max_domains (eng_config e))
        then (Inl StatusCode.CapacityExceeded, e)
      else let rec = \<lparr>dom_id = eng_next_domain_id e, dom_name = name, dom_generation = 1,
                 dom_lifecycle = DomainLifecycle.Active, dom_created_epoch = eng_epoch e,
                 dom_current_epoch = eng_epoch e\<rparr>;
               e = e\<lparr>eng_next_domain_id := eng_next_domain_id e + 1\<rparr>;
               (written, e) = append_locked e (UpsertDomain rec)
           in if written \<noteq> StatusCode.Ok then (Inl written, e)
              else (Inr rec, tick (e
                \<lparr>eng_domains := sm_emplace (dom_id rec) rec (eng_domains e),
                 eng_domain_index := sm_emplace (dom_name rec) (dom_id rec) (eng_domain_index e)\<rparr>)))"

definition get_domain :: "engine \<Rightarrow> CoherenceDomainId \<Rightarrow> DomainRecord Result" where
  "get_domain e k = (case map_of (eng_domains e) k of None \<Rightarrow> Inl StatusCode.UnknownDomain | Some d \<Rightarrow> Inr d)"

section \<open>Admission\<close>

text \<open>What re-admission under a new boot does to one replica of the superseded boot; retirement of
  a replica by \<open>retire_region\<close> has the same effect on the record, except for the note.\<close>

definition retired_replica :: "OperationSequence \<Rightarrow> RegionRecord \<Rightarrow> RegionRecord" where
  "retired_replica sequence region = region
     \<lparr>reg_lifecycle := RegionLifecycle.Retired, reg_state := CoherenceState.Retired,
      reg_dirty := (if reg_dirty region = DirtyCondition.DirtyUnpublished
        then DirtyCondition.DirtyLost else reg_dirty region),
      reg_evidence := 0, reg_evidence_generation := 0, reg_invalidation_pending := False,
      reg_pending_invalidation := 0, reg_pending_invalidation_target := 0,
      reg_updated_sequence := sequence\<rparr>"

definition retire_superseded_region ::
  "ParticipantId \<Rightarrow> ParticipantBootId \<Rightarrow> RegionId \<Rightarrow> engine \<Rightarrow> engine" where
  "retire_superseded_region participant superseded_boot k e =
     (case map_of (eng_regions e) k of
        None \<Rightarrow> e
      | Some region \<Rightarrow>
          if reg_participant region \<noteq> participant \<or> reg_boot region \<noteq> superseded_boot then e
          else if reg_lifecycle region = RegionLifecycle.Retired then e
          else let region = (retired_replica (eng_sequence e) region)\<lparr>reg_note := note_readmitted\<rparr>
               in upsert_durable_region region (release_region_name region (put_region k region e)))"

text \<open>The record of a new incarnation under an existing name, and of a first admission.\<close>

definition readmitted_participant ::
  "ParticipantBootId \<Rightarrow> CoordinatorEpoch \<Rightarrow> ParticipantRecord \<Rightarrow> ParticipantRecord" where
  "readmitted_participant boot epoch rec = rec
     \<lparr>par_previous_boot := par_boot rec, par_boot := boot,
      par_lifecycle := ParticipantLifecycle.Active, par_live := True, par_admitted_epoch := epoch,
      par_last_epoch := epoch, par_session := 0, par_last_sequence := 0,
      par_fence_reason := fence_reason_new_boot\<rparr>"

definition admitted_participant ::
  "ParticipantId \<Rightarrow> string \<Rightarrow> ParticipantBootId \<Rightarrow> CoordinatorEpoch \<Rightarrow> ParticipantRecord" where
  "admitted_participant k name boot epoch = default_participant_record
     \<lparr>par_id := k, par_name := name, par_boot := boot,
      par_lifecycle := ParticipantLifecycle.Active, par_admitted_epoch := epoch,
      par_last_epoch := epoch, par_live := True\<rparr>"

text \<open>Journal and store the admitted record; the common tail of both admission paths.\<close>

definition admit_participant :: "ParticipantRecord \<Rightarrow> engine \<Rightarrow> ParticipantRecord Result \<times> engine" where
  "admit_participant rec e =
     (let (written, e) = append_locked e (UpsertParticipant (scrub_participant_for_persistence rec))
      in if written \<noteq> StatusCode.Ok then (Inl written, e)
         else (Inr rec, tick ((put_participant (par_id rec) rec e)
           \<lparr>eng_participant_index := sm_put (par_name rec) (par_id rec) (eng_participant_index e)\<rparr>)))"

definition register_participant ::
  "engine \<Rightarrow> string \<Rightarrow> ParticipantBootId \<Rightarrow> CoordinatorEpoch \<Rightarrow> string \<Rightarrow> ParticipantRecord Result \<times> engine" where
  "register_participant e name boot epoch node_label =
     (if eng_shutting_down e then (Inl StatusCode.ShuttingDown, e)
      else if name = [] then (Inl StatusCode.InvalidArgument, e)
      else if is_nil boot then (Inl StatusCode.InvalidArgument, e)
      else if epoch \<noteq> eng_epoch e then (Inl StatusCode.StaleEpoch, e)
      else case map_of (eng_participant_index e) name of
          None \<Rightarrow>
            if length (eng_participants e) \<ge> unat (cfg_max_participants (eng_config e))
              then (Inl StatusCode.CapacityExceeded, e)
            else let rec = admitted_participant (eng_next_participant_id e) name boot epoch;
                     e = e\<lparr>eng_next_participant_id := eng_next_participant_id e + 1\<rparr>
                 in admit_participant (rec\<lparr>par_node_label := node_label\<rparr>) e
        | Some k \<Rightarrow>
            let rec = the (map_of (eng_participants e) k)
            in if par_boot rec = boot \<and> par_lifecycle rec \<noteq> ParticipantLifecycle.Retired
                 then let rec = rec
                        \<lparr>par_last_epoch := epoch, par_live := True,
                         par_lifecycle := (if par_lifecycle rec = ParticipantLifecycle.Observed
                             \<or> par_lifecycle rec = ParticipantLifecycle.Admitted
                           then ParticipantLifecycle.Active else par_lifecycle rec)\<rparr>
                      in (Inr rec, tick (upsert_durable_participant rec (put_participant (par_id rec) rec e)))
               else if par_lifecycle rec = ParticipantLifecycle.Retired
                 then (Inl StatusCode.Retired, e)
               else let e = fold (retire_superseded_region (par_id rec) (par_boot rec))
                          (sm_keys (eng_regions e)) e
                    in admit_participant
                         ((readmitted_participant boot epoch rec)\<lparr>par_node_label := node_label\<rparr>) e)"

definition get_participant :: "engine \<Rightarrow> ParticipantId \<Rightarrow> ParticipantRecord Result" where
  "get_participant e k =
     (case map_of (eng_participants e) k of None \<Rightarrow> Inl StatusCode.UnknownParticipant | Some p \<Rightarrow> Inr p)"

definition find_participant :: "engine \<Rightarrow> string \<Rightarrow> ParticipantRecord Result" where
  "find_participant e name =
     (case map_of (eng_participant_index e) name of
        None \<Rightarrow> Inl StatusCode.UnknownParticipant
      | Some k \<Rightarrow> Inr (the (map_of (eng_participants e) k)))"

definition mark_session_closed ::
  "engine \<Rightarrow> ParticipantId \<Rightarrow> ParticipantBootId \<Rightarrow> ParticipantRecord Result \<times> engine" where
  "mark_session_closed e k boot =
     (case map_of (eng_participants e) k of
        None \<Rightarrow> (Inl StatusCode.UnknownParticipant, e)
      | Some rec \<Rightarrow>
          if par_boot rec \<noteq> boot then (Inl StatusCode.StaleBoot, e)
          else let rec = rec
                 \<lparr>par_live := False,
                  par_lifecycle := (if par_lifecycle rec = ParticipantLifecycle.Active
                    then ParticipantLifecycle.Degraded else par_lifecycle rec)\<rparr>
               in (Inr rec, tick (upsert_durable_participant rec (put_participant k rec e))))"

section \<open>Fencing\<close>

text \<open>The outcome of an unpublished modification whose holder is gone.\<close>

definition lose_dirty :: "DirtyLossPolicy \<Rightarrow> string \<Rightarrow> ObjectRecord \<Rightarrow> ObjectRecord" where
  "lose_dirty policy note ob =
     (case policy of
        DirtyLossPolicy.ReportLost \<Rightarrow>
          ob\<lparr>obj_has_unpublished_dirty := False, obj_dirty_condition := DirtyCondition.DirtyLost\<rparr>
      | DirtyLossPolicy.RequireRecovery \<Rightarrow>
          ob\<lparr>obj_has_unpublished_dirty := False, obj_dirty_condition := DirtyCondition.DirtyUnknown,
             obj_lifecycle := ObjectLifecycle.RecoveryRequired, obj_recovery_note := note\<rparr>
      | _ \<Rightarrow>
          ob\<lparr>obj_has_unpublished_dirty := False, obj_dirty_condition := DirtyCondition.DirtyUnknown\<rparr>)"

definition dirty_loss_policy_of :: "engine \<Rightarrow> ObjectRecord \<Rightarrow> DirtyLossPolicy" where
  "dirty_loss_policy_of e ob =
     (case policy_locked e ob of
        None \<Rightarrow> DirtyLossPolicy.ReportUnknown | Some p \<Rightarrow> pol_dirty_loss_policy p)"

definition publication_unsettled :: "ObjectRecord \<Rightarrow> bool" where
  "publication_unsettled ob \<longleftrightarrow>
     obj_publication_state ob = PublicationState.PendingDurable \<or>
     obj_publication_state ob = PublicationState.RecoveryRequired"

definition abort_publication :: "ObjectRecord \<Rightarrow> ObjectRecord" where
  "abort_publication ob = ob
     \<lparr>obj_publication_state := PublicationState.Aborted, obj_pending_publication := 0,
      obj_pending_version := 0, obj_pending_content := default_content_fingerprint\<rparr>"

definition fence_object ::
  "engine \<Rightarrow> ParticipantId \<Rightarrow> ParticipantBootId \<Rightarrow> ObjectRecord \<Rightarrow> ObjectRecord \<times> JournalBody list" where
  "fence_object e k boot ob =
     (if obj_writer ob = k \<and> obj_writer_boot ob = boot
        then let cleared = publication_unsettled ob;
                 ob = ob\<lparr>obj_authority := AuthorityMode.NoAuthority, obj_writer := 0,
                   obj_writer_boot := 0\<rparr>;
                 ob = (if cleared then abort_publication ob else ob);
                 ob = (if obj_has_unpublished_dirty ob
                   then lose_dirty (dirty_loss_policy_of e ob) recovery_note_fenced ob else ob);
                 ob = ob\<lparr>obj_updated_sequence := eng_sequence e\<rparr>
             in (ob, (if cleared then [ClearPendingPublication (obj_id ob)] else []) @ [object_entry ob])
      else (ob, []))"

definition fence_region ::
  "engine \<Rightarrow> ParticipantId \<Rightarrow> ParticipantBootId \<Rightarrow> string \<Rightarrow> RegionRecord \<Rightarrow> RegionRecord \<times> JournalBody list" where
  "fence_region e k boot reason region =
     (if reg_participant region \<noteq> k \<or> reg_boot region \<noteq> boot then (region, [])
      else if reg_state region = CoherenceState.Retired then (region, [])
      else let region = region
        \<lparr>reg_state := CoherenceState.Fenced,
         reg_dirty := (if reg_dirty region = DirtyCondition.DirtyUnpublished
           then DirtyCondition.DirtyLost else reg_dirty region),
         reg_evidence := 0, reg_evidence_generation := 0, reg_note := note_fenced reason,
         reg_updated_sequence := eng_sequence e\<rparr>
      in (region, [UpsertRegion region]))"

definition fence_sync ::
  "engine \<Rightarrow> ParticipantId \<Rightarrow> ParticipantBootId \<Rightarrow> SyncRecord \<Rightarrow> SyncRecord \<times> JournalBody list" where
  "fence_sync e k boot sync =
     (if sync_destination_participant sync \<noteq> k \<or> sync_destination_boot sync \<noteq> boot then (sync, [])
      else if sync_state sync = SyncState.Completed \<or> sync_state sync = SyncState.Cancelled
          \<or> sync_state sync = SyncState.Failed then (sync, [])
      else let sync = sync
        \<lparr>sync_state := SyncState.OutcomeUnknown, sync_settled_sequence := eng_sequence e,
         sync_failure_reason := reason_sync_fenced\<rparr>
      in (sync, [UpsertSync sync]))"

definition fence_invalidation ::
  "engine \<Rightarrow> ParticipantId \<Rightarrow> ParticipantBootId \<Rightarrow> InvalidationRecord \<Rightarrow> InvalidationRecord \<times> JournalBody list" where
  "fence_invalidation e k boot iv =
     (if inv_target_participant iv \<noteq> k \<or> inv_target_boot iv \<noteq> boot then (iv, [])
      else if inv_state iv \<noteq> InvalidationState.Requested then (iv, [])
      else let iv = iv
        \<lparr>inv_state := InvalidationState.Superseded, inv_settled_sequence := eng_sequence e,
         inv_rationale := rationale_fenced\<rparr>
      in (iv, [UpsertInvalidation iv]))"

text \<open>One loop of \<open>fence_participant\<close>: every record is replaced and the entries are collected.\<close>

definition sweep :: "('v \<Rightarrow> 'v \<times> JournalBody list) \<Rightarrow> ('k, 'v) std_map \<Rightarrow> ('k, 'v) std_map \<times> JournalBody list" where
  "sweep f m = (sm_map (\<lambda>k v. fst (f v)) m, concat (map (\<lambda>v. snd (f v)) (sm_values m)))"

definition fence_participant ::
  "engine \<Rightarrow> ParticipantId \<Rightarrow> CoordinatorEpoch \<Rightarrow> string \<Rightarrow> ParticipantRecord Result \<times> engine" where
  "fence_participant e k epoch reason =
     (case map_of (eng_participants e) k of
        None \<Rightarrow> (Inl StatusCode.UnknownParticipant, e)
      | Some participant \<Rightarrow>
          if epoch \<noteq> eng_epoch e then (Inl StatusCode.StaleEpoch, e)
          else if par_lifecycle participant = ParticipantLifecycle.Retired
            then (Inl StatusCode.Retired, e)
          else let boot = par_boot participant;
                   e = tick e;
                   (objects, entries1) = sweep (fence_object e k boot) (eng_objects e);
                   (regions, entries2) = sweep (fence_region e k boot reason) (eng_regions e);
                   (syncs, entries3) = sweep (fence_sync e k boot) (eng_syncs e);
                   (invalidations, entries4) = sweep (fence_invalidation e k boot) (eng_invalidations e);
                   e = e\<lparr>eng_objects := objects, eng_regions := regions, eng_syncs := syncs,
                         eng_invalidations := invalidations\<rparr>;
                   e = release_reads_for_participant k boot e;
                   e = fold recompute_authority_locked (sm_keys (eng_objects e)) e;
                   participant = participant
                     \<lparr>par_lifecycle := ParticipantLifecycle.Fenced, par_live := False,
                      par_fence_reason := reason, par_last_epoch := epoch\<rparr>;
                   e = put_participant k participant e;
                   (written, e) = append_many_locked e (entries1 @ entries2 @ entries3 @ entries4 @
                     [UpsertParticipant (scrub_participant_for_persistence participant)])
               in if written \<noteq> StatusCode.Ok then (Inl written, e)
                  else (Inr participant, tick e))"

end
