(* ===== verification/Engine_Registry.thy ===== *)
theory Engine_Registry
  imports Engine_Participants
begin

text \<open>
  Objects, policies and regions, their retirement, operator resolution of a recovery, the
  inspection snapshot and shutdown (\<^verbatim>\<open>src/engine_registry.cpp\<close>).
\<close>

section \<open>Objects and policies\<close>

definition register_object_guard ::
  "engine \<Rightarrow> CoherenceDomainId \<Rightarrow> string \<Rightarrow> u64 \<Rightarrow> CoherencePolicy \<Rightarrow> StatusCode" where
  "register_object_guard e domain name len policy =
     (if eng_shutting_down e then StatusCode.ShuttingDown
      else if map_of (eng_domains e) domain = None then StatusCode.UnknownDomain
      else if name = [] then StatusCode.InvalidArgument
      else if len = 0 \<or> len > cfg_max_object_length (eng_config e) then StatusCode.InvalidArgument
      else if validate_policy policy \<noteq> StatusCode.Ok then validate_policy policy
      else if map_of (eng_object_index e) (domain, name) \<noteq> None then StatusCode.DuplicateIdentity
      else if length (eng_objects e) \<ge> unat (cfg_max_objects (eng_config e))
        then StatusCode.CapacityExceeded
      else StatusCode.Ok)"

definition new_object_record ::
  "engine \<Rightarrow> CoherenceDomainId \<Rightarrow> string \<Rightarrow> u64 \<Rightarrow> PolicyId \<Rightarrow> ObjectRecord" where
  "new_object_record e domain name len policy = default_object_record
     \<lparr>obj_id := eng_next_object_id e, obj_generation := 1, obj_domain := domain, obj_name := name,
      obj_length := len, obj_policy := policy, obj_policy_generation := 1,
      obj_lifecycle := ObjectLifecycle.Active, obj_authority := AuthorityMode.NoAuthority,
      obj_ownership_generation := 1, obj_updated_sequence := eng_sequence e\<rparr>"

definition register_object ::
  "engine \<Rightarrow> CoherenceDomainId \<Rightarrow> string \<Rightarrow> u64 \<Rightarrow> CoherencePolicy \<Rightarrow> ObjectRecord Result \<times> engine" where
  "register_object e domain name len policy =
     (let refused = register_object_guard e domain name len policy
      in if refused \<noteq> StatusCode.Ok then (Inl refused, e)
         else let stored = policy
                \<lparr>pol_id := eng_next_policy_id e, pol_generation := 1,
                 pol_name := (if pol_name policy = [] then default_policy_name else pol_name policy)\<rparr>;
              rec = new_object_record e domain name len (pol_id stored);
              e = e\<lparr>eng_next_policy_id := eng_next_policy_id e + 1,
                    eng_next_object_id := eng_next_object_id e + 1\<rparr>;
              (written, e) = append_many_locked e [UpsertPolicy stored, object_entry rec]
          in if written \<noteq> StatusCode.Ok then (Inl written, e)
             else (Inr rec, tick (e
               \<lparr>eng_policies := sm_emplace (pol_id stored) stored (eng_policies e),
                eng_objects := sm_emplace (obj_id rec) rec (eng_objects e),
                eng_object_index := sm_emplace (domain, name) (obj_id rec) (eng_object_index e)\<rparr>)))"

definition get_object :: "engine \<Rightarrow> ObjectId \<Rightarrow> ObjectRecord Result" where
  "get_object e k = (case map_of (eng_objects e) k of None \<Rightarrow> Inl StatusCode.UnknownObject | Some ob \<Rightarrow> Inr ob)"

definition find_object :: "engine \<Rightarrow> CoherenceDomainId \<Rightarrow> string \<Rightarrow> ObjectRecord Result" where
  "find_object e domain name =
     (case map_of (eng_object_index e) (domain, name) of
        None \<Rightarrow> Inl StatusCode.UnknownObject
      | Some k \<Rightarrow> Inr (the (map_of (eng_objects e) k)))"

definition get_policy :: "engine \<Rightarrow> ObjectId \<Rightarrow> CoherencePolicy Result" where
  "get_policy e k =
     (case map_of (eng_objects e) k of
        None \<Rightarrow> Inl StatusCode.UnknownObject
      | Some ob \<Rightarrow> (case map_of (eng_policies e) (obj_policy ob) of
            None \<Rightarrow> Inl StatusCode.UnknownPolicy | Some p \<Rightarrow> Inr p))"

definition set_policy ::
  "engine \<Rightarrow> ObjectId \<Rightarrow> ObjectGeneration \<Rightarrow> PolicyGeneration \<Rightarrow> CoherencePolicy \<Rightarrow> ObjectRecord Result \<times> engine" where
  "set_policy e k generation expected_generation policy =
     (if eng_shutting_down e then (Inl StatusCode.ShuttingDown, e)
      else case map_of (eng_objects e) k of
          None \<Rightarrow> (Inl StatusCode.UnknownObject, e)
        | Some ob \<Rightarrow>
            if obj_generation ob \<noteq> generation then (Inl StatusCode.StaleObjectGeneration, e)
            else if obj_policy_generation ob \<noteq> expected_generation then (Inl StatusCode.StalePolicy, e)
            else if obj_publication_state ob = PublicationState.PendingDurable
              then (Inl StatusCode.InvalidState, e)
            else if validate_policy policy \<noteq> StatusCode.Ok then (Inl (validate_policy policy), e)
            else let stored = policy
                   \<lparr>pol_id := obj_policy ob, pol_generation := next_id (obj_policy_generation ob),
                    pol_name := (if pol_name policy = []
                      then (case map_of (eng_policies e) (obj_policy ob) of
                          None \<Rightarrow> default_policy_name | Some old \<Rightarrow> pol_name old)
                      else pol_name policy)\<rparr>;
                 ob = ob\<lparr>obj_policy := pol_id stored, obj_policy_generation := pol_generation stored,
                   obj_updated_sequence := eng_sequence e\<rparr>;
                 e = put_object k ob e;
                 (written, e) = append_many_locked e [UpsertPolicy stored, object_entry ob]
             in if written \<noteq> StatusCode.Ok then (Inl written, e)
                else let e = tick (e\<lparr>eng_policies := sm_put (pol_id stored) stored (eng_policies e)\<rparr>);
                         (context, e) = make_context e default_authority_context (obj_id ob)
                           (obj_generation ob) (obj_ownership_generation ob)
                     in (Inr ob, record_decision DecisionKind.PolicyChange context StatusCode.Ok e))"

section \<open>Regions\<close>

record RegionRegistration =
  rr_context :: AuthorityContext
  rr_domain :: CoherenceDomainId
  rr_requested_id :: RegionId
  rr_name :: string
  rr_memory_domain :: MemoryDomain
  rr_evidence_class :: EvidenceClass
  rr_offset :: u64
  rr_length :: u64
  rr_address_hint :: u64
  rr_requested_replica :: ReplicaId
  rr_declared_writable :: bool
  rr_initial_version :: VersionId
  rr_content :: ContentFingerprint

text \<open>The checks up to the identity allocation; on success the object and the participant.\<close>

definition register_region_guard ::
  "engine \<Rightarrow> RegionRegistration \<Rightarrow> (ObjectRecord \<times> ParticipantRecord) Result" where
  "register_region_guard e reg =
     (let ctx = rr_context reg in
      if eng_shutting_down e then Inl StatusCode.ShuttingDown
      else if actx_epoch ctx \<noteq> eng_epoch e then Inl StatusCode.StaleEpoch
      else case map_of (eng_objects e) (actx_object ctx) of
          None \<Rightarrow> Inl StatusCode.UnknownObject
        | Some ob \<Rightarrow>
      if obj_generation ob \<noteq> actx_object_generation ctx then Inl StatusCode.StaleObjectGeneration
      else if is_defined (rr_domain reg) \<and> rr_domain reg \<noteq> obj_domain ob
        then Inl StatusCode.InvalidArgument
      else if obj_lifecycle ob = ObjectLifecycle.Retired then Inl StatusCode.Retired
      else if obj_lifecycle ob = ObjectLifecycle.RecoveryRequired then Inl StatusCode.RecoveryRequired
      else case map_of (eng_participants e) (actx_participant ctx) of
          None \<Rightarrow> Inl StatusCode.UnknownParticipant
        | Some p \<Rightarrow>
      if par_boot p \<noteq> actx_boot ctx then Inl StatusCode.StaleBoot
      else if par_lifecycle p = ParticipantLifecycle.Fenced then Inl StatusCode.Fenced
      else if rr_memory_domain reg = MemoryDomain.Unknown then Inl StatusCode.InvalidArgument
      else if rr_evidence_class reg = EvidenceClass.Unsupported then Inl StatusCode.Unsupported
      else if rr_name reg = [] then Inl StatusCode.InvalidArgument
      else if rr_length reg = 0 then Inl StatusCode.InvalidArgument
      else if \<not> checked_range (rr_offset reg) (rr_length reg) (obj_length ob)
        then Inl StatusCode.InvalidArgument
      else if length (obj_replicas ob) \<ge> unat (cfg_max_regions_per_object (eng_config e))
        then Inl StatusCode.CapacityExceeded
      else if length (eng_regions e) \<ge> unat (cfg_max_regions (eng_config e))
        then Inl StatusCode.CapacityExceeded
      else case map_of (eng_policies e) (obj_policy ob) of
          None \<Rightarrow> Inl StatusCode.UnknownPolicy
        | Some policy \<Rightarrow>
      if \<not> allows_domain policy (rr_memory_domain reg) then Inl StatusCode.InvalidArgument
      else if is_defined (rr_requested_id reg) \<and> map_of (eng_regions e) (rr_requested_id reg) \<noteq> None
        then Inl StatusCode.DuplicateIdentity
      else Inr (ob, p))"

text \<open>A requested identity is taken as it is and the counter is moved past it; otherwise the
  counter allocates.\<close>

definition allocate :: "u64 \<Rightarrow> u64 \<Rightarrow> u64 \<times> u64" where
  "allocate requested counter =
     (if is_defined requested
        then (requested, if requested \<ge> counter then requested + 1 else counter)
      else (counter, counter + 1))"

definition new_region_record ::
  "engine \<Rightarrow> RegionRegistration \<Rightarrow> ObjectRecord \<Rightarrow> ParticipantRecord \<Rightarrow> RegionId \<Rightarrow> ReplicaId \<Rightarrow> RegionRecord" where
  "new_region_record e reg ob p k replica = default_region_record
     \<lparr>reg_id := k, reg_generation := 1, reg_replica := replica, reg_replica_generation := 1,
      reg_domain := obj_domain ob, reg_object := obj_id ob,
      reg_object_generation := obj_generation ob, reg_participant := par_id p,
      reg_boot := par_boot p, reg_memory_domain := rr_memory_domain reg,
      reg_evidence_class := rr_evidence_class reg, reg_name := rr_name reg,
      reg_offset := rr_offset reg, reg_length := rr_length reg,
      reg_address_hint := rr_address_hint reg, reg_declared_writable := rr_declared_writable reg,
      reg_lifecycle := RegionLifecycle.Active,
      reg_state := (if is_defined (rr_initial_version reg)
        then CoherenceState.RevalidationRequired else CoherenceState.Unknown),
      reg_version := rr_initial_version reg,
      reg_ownership_generation := obj_ownership_generation ob, reg_dirty := DirtyCondition.Clean,
      reg_content := rr_content reg, reg_updated_sequence := eng_sequence e,
      reg_note := note_registered\<rparr>"

text \<open>\<open>push_back\<close> when the identity is beyond the last one, else insertion at \<open>lower_bound\<close>.\<close>

definition insert_replica :: "RegionId \<Rightarrow> RegionId list \<Rightarrow> RegionId list" where
  "insert_replica k ks =
     (if ks = [] \<or> k > last ks then ks @ [k]
      else takeWhile (\<lambda>j. j < k) ks @ k # dropWhile (\<lambda>j. j < k) ks)"

text \<open>The replica joins its object: the object is journalled with it and the name is taken.\<close>

definition add_region ::
  "RegionRegistration \<Rightarrow> ObjectRecord \<Rightarrow> ParticipantRecord \<Rightarrow> RegionRecord \<Rightarrow> engine \<Rightarrow>
   RegionRecord Result \<times> engine" where
  "add_region reg ob p rec e =
     (let k = reg_id rec;
          ctx = rr_context reg;
          ob = ob\<lparr>obj_replicas := insert_replica k (obj_replicas ob),
            obj_updated_sequence := eng_sequence e\<rparr>;
          e = put_object (actx_object ctx) ob e;
          (written, e) = (if durability_active e
            then append_many_locked e [object_entry ob, UpsertRegion rec] else (StatusCode.Ok, e))
      in if written \<noteq> StatusCode.Ok then (Inl written, e)
         else (Inr rec, tick (put_participant (actx_participant ctx)
             (p\<lparr>par_region_count := par_region_count p + 1\<rparr>)
             (e\<lparr>eng_regions := sm_emplace k rec (eng_regions e),
                eng_region_index := sm_put (reg_object rec, reg_name rec) k (eng_region_index e)\<rparr>))))"

text \<open>A retired replica does not hold its name.\<close>

definition name_free :: "engine \<Rightarrow> RegionRecord \<Rightarrow> bool" where
  "name_free e rec =
     (case map_of (eng_region_index e) (reg_object rec, reg_name rec) of
        None \<Rightarrow> True
      | Some j \<Rightarrow> (case map_of (eng_regions e) j of
          None \<Rightarrow> True | Some r \<Rightarrow> reg_lifecycle r = RegionLifecycle.Retired))"

definition register_region :: "engine \<Rightarrow> RegionRegistration \<Rightarrow> RegionRecord Result \<times> engine" where
  "register_region e reg =
     (case register_region_guard e reg of
        Inl code \<Rightarrow> (Inl code, e)
      | Inr (ob, p) \<Rightarrow>
          let (k, next_region) = allocate (rr_requested_id reg) (eng_next_region_id e);
              (replica, next_replica) = allocate (rr_requested_replica reg) (eng_next_replica_id e);
              e = e\<lparr>eng_next_region_id := next_region, eng_next_replica_id := next_replica\<rparr>;
              rec = new_region_record e reg ob p k replica
          in if \<not> name_free e rec then (Inl StatusCode.DuplicateIdentity, e)
             else add_region reg ob p rec
               (e\<lparr>eng_region_index := sm_erase (reg_object rec, reg_name rec) (eng_region_index e)\<rparr>))"

definition get_region :: "engine \<Rightarrow> RegionId \<Rightarrow> RegionRecord Result" where
  "get_region e k = (case map_of (eng_regions e) k of None \<Rightarrow> Inl StatusCode.UnknownRegion | Some r \<Rightarrow> Inr r)"

section \<open>Retirement and recovery resolution\<close>

definition release_region_reads :: "RegionId \<Rightarrow> ObjectRecord \<Rightarrow> ObjectRecord" where
  "release_region_reads k ob = ob
     \<lparr>obj_reads := map (\<lambda>g. if grant_region g = k \<and> \<not> grant_released g
        then g\<lparr>grant_released := True\<rparr> else g) (obj_reads ob)\<rparr>"

text \<open>The object of a retired replica: its reads of the replica are released, its authority
  recomputed and the record journalled (a failed write is ignored here).\<close>

definition retire_region_object :: "RegionRecord \<Rightarrow> engine \<Rightarrow> engine" where
  "retire_region_object region e =
     (case map_of (eng_objects e) (reg_object region) of
        None \<Rightarrow> e
      | Some ob \<Rightarrow>
          let e = recompute_authority_locked (reg_object region)
                (put_object (reg_object region) (release_region_reads (reg_id region) ob) e)
          in snd (append_locked e (object_entry (the (map_of (eng_objects e) (reg_object region))))))"

definition retire_region :: "engine \<Rightarrow> RegionId \<Rightarrow> RegionGeneration \<Rightarrow> CoordinatorEpoch \<Rightarrow> StatusCode \<times> engine" where
  "retire_region e k generation epoch =
     (if epoch \<noteq> eng_epoch e then (StatusCode.StaleEpoch, e)
      else case map_of (eng_regions e) k of
          None \<Rightarrow> (StatusCode.UnknownRegion, e)
        | Some region \<Rightarrow>
            if reg_generation region \<noteq> generation then (StatusCode.StaleRegionGeneration, e)
            else if reg_lifecycle region = RegionLifecycle.Retired then (StatusCode.Ok, e)
            else if \<not> is_legal_region_transition (reg_lifecycle region) RegionLifecycle.Retired
              then (StatusCode.InvalidTransition, e)
            else let e = tick e;
                     region = retired_replica (eng_sequence e) region;
                     e = release_region_name region (put_region k region e);
                     e = retire_region_object region e;
                     (written, e) = append_locked e (UpsertRegion region)
                 in if written \<noteq> StatusCode.Ok then (written, e) else (StatusCode.Ok, tick e))"

definition resolved_object :: "OperationSequence \<Rightarrow> string \<Rightarrow> ObjectRecord \<Rightarrow> ObjectRecord" where
  "resolved_object sequence note ob = ob
     \<lparr>obj_lifecycle := ObjectLifecycle.Active, obj_has_unpublished_dirty := False,
      obj_dirty_condition := DirtyCondition.DirtyLost, obj_pending_publication := 0,
      obj_pending_version := 0, obj_pending_content := default_content_fingerprint,
      obj_publication_state := (if publication_unsettled ob then PublicationState.Aborted
        else obj_publication_state ob),
      obj_recovery_note := (if note = [] then recovery_note_resolved else note),
      obj_updated_sequence := sequence\<rparr>"

definition resolve_recovery ::
  "engine \<Rightarrow> ObjectId \<Rightarrow> ObjectGeneration \<Rightarrow> CoordinatorEpoch \<Rightarrow> string \<Rightarrow> ObjectRecord Result \<times> engine" where
  "resolve_recovery e k generation epoch note =
     (if epoch \<noteq> eng_epoch e then (Inl StatusCode.StaleEpoch, e)
      else case map_of (eng_objects e) k of
          None \<Rightarrow> (Inl StatusCode.UnknownObject, e)
        | Some ob \<Rightarrow>
            if is_defined generation \<and> obj_generation ob \<noteq> generation
              then (Inl StatusCode.StaleObjectGeneration, e)
            else if obj_lifecycle ob \<noteq> ObjectLifecycle.RecoveryRequired
              then (Inl StatusCode.InvalidState, e)
            else if \<not> is_legal_object_transition (obj_lifecycle ob) ObjectLifecycle.Active
              then (Inl StatusCode.InvalidTransition, e)
            else let e = tick e;
                     ob = resolved_object (eng_sequence e) note ob;
                     e = put_object k ob e;
                     (written, e) = append_locked e (object_entry ob)
                 in if written \<noteq> StatusCode.Ok then (Inl written, e)
                    else let (context, e) = make_context e default_authority_context (obj_id ob)
                               (obj_generation ob) (obj_ownership_generation ob)
                         in (Inr ob, record_decision DecisionKind.Recover context StatusCode.Ok e))"

definition retired_object :: "OperationSequence \<Rightarrow> ObjectRecord \<Rightarrow> ObjectRecord" where
  "retired_object sequence ob = ob
     \<lparr>obj_lifecycle := ObjectLifecycle.Retired, obj_authority := AuthorityMode.NoAuthority,
      obj_writer := 0, obj_writer_boot := 0, obj_pending_publication := 0,
      obj_pending_version := 0, obj_publication_state := PublicationState.NoPublication,
      obj_has_unpublished_dirty := False,
      obj_reads := map (\<lambda>g. g\<lparr>grant_released := True\<rparr>) (obj_reads ob),
      obj_updated_sequence := sequence\<rparr>"

definition retire_object_replica :: "RegionId \<Rightarrow> engine \<Rightarrow> engine" where
  "retire_object_replica k e =
     (case map_of (eng_regions e) k of
        None \<Rightarrow> e
      | Some region \<Rightarrow>
          let region = region
            \<lparr>reg_lifecycle := RegionLifecycle.Retired, reg_state := CoherenceState.Retired,
             reg_dirty := (if reg_dirty region = DirtyCondition.DirtyUnpublished
               then DirtyCondition.DirtyLost else reg_dirty region),
             reg_evidence := 0, reg_evidence_generation := 0,
             reg_updated_sequence := eng_sequence e\<rparr>
          in snd (append_locked (put_region k region e) (UpsertRegion region)))"

definition retire_object :: "engine \<Rightarrow> ObjectId \<Rightarrow> ObjectGeneration \<Rightarrow> CoordinatorEpoch \<Rightarrow> StatusCode \<times> engine" where
  "retire_object e k generation epoch =
     (if epoch \<noteq> eng_epoch e then (StatusCode.StaleEpoch, e)
      else case map_of (eng_objects e) k of
          None \<Rightarrow> (StatusCode.UnknownObject, e)
        | Some ob \<Rightarrow>
            if obj_generation ob \<noteq> generation then (StatusCode.StaleObjectGeneration, e)
            else if obj_lifecycle ob = ObjectLifecycle.Retired then (StatusCode.Ok, e)
            else if \<not> is_legal_object_transition (obj_lifecycle ob) ObjectLifecycle.Retired
              then (StatusCode.InvalidTransition, e)
            else let e = tick e;
                     ob = retired_object (eng_sequence e) ob;
                     (written, e) = append_locked (put_object k ob e) (object_entry ob)
                 in if written \<noteq> StatusCode.Ok then (written, e)
                    else (StatusCode.Ok, tick (fold retire_object_replica (obj_replicas ob) e)))"

section \<open>Inspection\<close>

record SnapshotOptions =
  opt_include_regions :: bool
  opt_include_reads :: bool
  opt_include_invalidations :: bool
  opt_include_syncs :: bool
  opt_include_participants :: bool
  opt_object_filter :: ObjectId
  opt_max_objects :: u64

record CoherenceSnapshot =
  snap_epoch :: CoordinatorEpoch
  snap_sequence :: OperationSequence
  snap_domains :: "DomainRecord list"
  snap_participants :: "ParticipantRecord list"
  snap_objects :: "ObjectRecord list"
  snap_regions :: "RegionRecord list"
  snap_invalidations :: "InvalidationRecord list"
  snap_syncs :: "SyncRecord list"
  snap_shutting_down :: bool

definition snapshot :: "engine \<Rightarrow> SnapshotOptions \<Rightarrow> CoherenceSnapshot" where
  "snapshot e options =
     (let keep = (\<lambda>k. is_nil (opt_object_filter options) \<or> k = opt_object_filter options);
          objects = filter (\<lambda>ob. keep (obj_id ob)) (sm_values (eng_objects e))
      in \<lparr>snap_epoch = eng_epoch e, snap_sequence = eng_sequence e,
          snap_domains = sm_values (eng_domains e),
          snap_participants = (if opt_include_participants options
            then sm_values (eng_participants e) else []),
          snap_objects = (if opt_max_objects options = 0 then objects
            else take (unat (opt_max_objects options)) objects),
          snap_regions = (if opt_include_regions options
            then filter (\<lambda>r. keep (reg_object r)) (sm_values (eng_regions e)) else []),
          snap_invalidations = (if opt_include_invalidations options
            then filter (\<lambda>iv. keep (inv_object iv)) (sm_values (eng_invalidations e)) else []),
          snap_syncs = (if opt_include_syncs options
            then filter (\<lambda>s. keep (sync_object s)) (sm_values (eng_syncs e)) else []),
          snap_shutting_down = eng_shutting_down e\<rparr>)"

section \<open>Shutdown\<close>

definition shutdown_object :: "ObjectId \<Rightarrow> engine \<Rightarrow> engine" where
  "shutdown_object k e =
     (case map_of (eng_objects e) k of
        None \<Rightarrow> e
      | Some ob \<Rightarrow>
          let pending = obj_publication_state ob = PublicationState.PendingDurable;
              ob = ob\<lparr>obj_authority := AuthorityMode.NoAuthority, obj_writer := 0, obj_writer_boot := 0\<rparr>;
              ob = (if pending then abort_publication ob else ob);
              e = (if pending then snd (append_locked e (ClearPendingPublication (obj_id ob))) else e);
              ob = ob\<lparr>obj_reads := map (\<lambda>g. g\<lparr>grant_released := True\<rparr>) (obj_reads ob),
                obj_updated_sequence := eng_sequence e\<rparr>
          in snd (append_locked (put_object k ob e) (object_entry ob)))"

definition shutdown_sync :: "SyncOperationId \<Rightarrow> engine \<Rightarrow> engine" where
  "shutdown_sync k e =
     (case map_of (eng_syncs e) k of
        None \<Rightarrow> e
      | Some sync \<Rightarrow>
          if sync_state sync = SyncState.Completed \<or> sync_state sync = SyncState.Cancelled
              \<or> sync_state sync = SyncState.Failed then e
          else let sync = sync
                 \<lparr>sync_state := SyncState.Cancelled, sync_settled_sequence := eng_sequence e,
                  sync_failure_reason := reason_sync_shutdown\<rparr>
               in snd (append_locked (put_sync k sync e) (UpsertSync sync)))"

definition shutdown_invalidation :: "InvalidationId \<Rightarrow> engine \<Rightarrow> engine" where
  "shutdown_invalidation k e =
     (case map_of (eng_invalidations e) k of
        None \<Rightarrow> e
      | Some iv \<Rightarrow>
          if inv_state iv \<noteq> InvalidationState.Requested then e
          else let iv = iv
                 \<lparr>inv_state := InvalidationState.Unknown, inv_settled_sequence := eng_sequence e,
                  inv_rationale := rationale_shutdown\<rparr>
               in snd (append_locked (put_invalidation k iv e) (UpsertInvalidation iv)))"

definition begin_shutdown :: "engine \<Rightarrow> CoordinatorEpoch \<Rightarrow> StatusCode \<times> engine" where
  "begin_shutdown e epoch =
     (if epoch \<noteq> eng_epoch e then (StatusCode.StaleEpoch, e)
      else if eng_shutting_down e then (StatusCode.Ok, e)
      else let e = (tick e)\<lparr>eng_shutting_down := True\<rparr>;
               e = fold shutdown_object (sm_keys (eng_objects e)) e;
               e = fold shutdown_sync (sm_keys (eng_syncs e)) e;
               e = fold shutdown_invalidation (sm_keys (eng_invalidations e)) e;
               (context, e) = make_context e default_authority_context 0 0 0
           in (StatusCode.Ok, record_decision DecisionKind.Shutdown context StatusCode.Ok e))"

definition complete_shutdown :: "engine \<Rightarrow> CoordinatorEpoch \<Rightarrow> StatusCode \<times> engine" where
  "complete_shutdown e epoch =
     (if epoch \<noteq> eng_epoch e then (StatusCode.StaleEpoch, e)
      else if \<not> eng_shutting_down e then (StatusCode.InvalidState, e)
      else if eng_shutdown_complete e then (StatusCode.Ok, e)
      else let store = (case eng_store e of
             None \<Rightarrow> None
           | Some store \<Rightarrow>
               if cfg_enable_durability (eng_config e)
                 then Some (snd (memory_close (snd (memory_compact store (eng_durable e)))))
               else Some store)
      in (StatusCode.Ok, e\<lparr>eng_store := store, eng_shutdown_complete := True\<rparr>))"

text \<open>The base class answers \<open>flush\<close> with success and the memory store does not override it with
  an effect.\<close>

definition flush_durable :: "engine \<Rightarrow> StatusCode \<times> engine" where
  "flush_durable e = (StatusCode.Ok, e)"

end
