(* ===== verification/Engine_Read.thy ===== *)
theory Engine_Read
  imports Engine_Registry
begin

text \<open>
  Read authority (\<^verbatim>\<open>src/engine_ops.cpp\<close>).  \<open>compute_read_locked\<close> is one long function in the
  source; here it is cut at the places where the source falls through to the next question:
  resolution and selection, the snapshot case, the current and stale-allowed cases, and the search
  for a source to synchronize from.
\<close>

record ReadRequest =
  rreq_context :: AuthorityContext
  rreq_region :: RegionId
  rreq_region_generation :: RegionGeneration
  rreq_snapshot_version :: VersionId
  rreq_require_current :: bool

record ReadDecision =
  rd_context :: DecisionContext
  rd_outcome :: ReadOutcome
  rd_reason :: StatusCode
  rd_region :: RegionId
  rd_region_generation :: RegionGeneration
  rd_region_state :: CoherenceState
  rd_authoritative_version :: VersionId
  rd_region_version :: VersionId
  rd_staleness :: u64
  rd_staleness_known :: bool
  rd_sync_required :: bool
  rd_stale_allowed :: bool
  rd_evidence_fresh :: bool
  rd_evidence :: EvidenceId
  rd_evidence_generation :: EvidenceGeneration
  rd_evidence_class :: EvidenceClass
  rd_required_sync :: SyncOperationId
  rd_lease :: LeaseId

definition default_read_decision :: ReadDecision where
  "default_read_decision =
     \<lparr>rd_context = default_decision_context, rd_outcome = ReadOutcome.Unknown,
      rd_reason = StatusCode.UnknownObject, rd_region = 0, rd_region_generation = 0,
      rd_region_state = CoherenceState.Unknown, rd_authoritative_version = 0,
      rd_region_version = 0, rd_staleness = 0, rd_staleness_known = False,
      rd_sync_required = False, rd_stale_allowed = False, rd_evidence_fresh = False,
      rd_evidence = 0, rd_evidence_generation = 0, rd_evidence_class = EvidenceClass.Unsupported,
      rd_required_sync = 0, rd_lease = 0\<rparr>"

text \<open>Every decision is recorded with its reason and returned.\<close>

definition decide_read ::
  "ReadOutcome \<Rightarrow> StatusCode \<Rightarrow> ReadDecision \<Rightarrow> engine \<Rightarrow> ReadDecision Result \<times> engine" where
  "decide_read outcome reason decision e =
     (Inr (decision\<lparr>rd_outcome := outcome, rd_reason := reason\<rparr>),
      record_decision DecisionKind.ReadAcquire (rd_context decision) reason e)"

definition describe_region ::
  "engine \<Rightarrow> CoherencePolicy \<Rightarrow> RegionRecord \<Rightarrow> ReadDecision \<Rightarrow> ReadDecision" where
  "describe_region e policy region decision =
     (let known = is_defined (rd_authoritative_version decision) \<and> is_defined (reg_version region)
            \<and> reg_version region \<le> rd_authoritative_version decision
      in decision
        \<lparr>rd_region_generation := reg_generation region, rd_region_state := reg_state region,
         rd_region_version := reg_version region, rd_evidence_class := reg_evidence_class region,
         rd_evidence := reg_evidence region,
         rd_evidence_generation := reg_evidence_generation region,
         rd_staleness_known := known,
         rd_staleness := (if known then rd_authoritative_version decision - reg_version region else 0),
         rd_evidence_fresh := fresh (assess_region_locked e policy region)\<rparr>)"

definition stale_permitted :: "CoherencePolicy \<Rightarrow> ReadDecision \<Rightarrow> bool" where
  "stale_permitted policy decision =
     (case pol_stale_read_policy policy of
        StaleReadPolicy.Always \<Rightarrow> True
      | StaleReadPolicy.Bounded \<Rightarrow> rd_staleness_known decision \<and>
          rd_staleness decision \<le> pol_stale_read_bound_versions policy
      | _ \<Rightarrow> False)"

definition read_snapshot ::
  "ReadRequest \<Rightarrow> ObjectRecord \<Rightarrow> RegionRecord \<Rightarrow> ReadDecision \<Rightarrow> engine \<Rightarrow> ReadDecision Result \<times> engine" where
  "read_snapshot req ob region decision e =
     (let snapshot = rreq_snapshot_version req in
      if is_nil snapshot then decide_read ReadOutcome.ReadBlocked StatusCode.InvalidArgument decision e
      else if snapshot > obj_authoritative_version ob
        then decide_read ReadOutcome.ReadBlocked StatusCode.StalePublication decision e
      else if is_defined (reg_version region) \<and> reg_version region \<ge> snapshot \<and>
          (is_current_state (reg_state region) \<or> reg_state region = CoherenceState.Stale)
        then decide_read ReadOutcome.ReadCurrent StatusCode.Ok (decision
          \<lparr>rd_authoritative_version := snapshot, rd_staleness := reg_version region - snapshot,
           rd_staleness_known := True\<rparr>) e
      else decide_read ReadOutcome.ReadAfterSync StatusCode.SyncRequired
        (decision\<lparr>rd_sync_required := True\<rparr>) e)"

text \<open>A current read: a lease is created (or the identical live grant found) for \<open>acquire_read\<close>.\<close>

definition read_current ::
  "bool \<Rightarrow> ReadRequest \<Rightarrow> ObjectRecord \<Rightarrow> RegionRecord \<Rightarrow> ReadDecision \<Rightarrow> engine \<Rightarrow> ReadDecision Result \<times> engine" where
  "read_current create_lease req ob region decision e =
     (if \<not> create_lease then decide_read ReadOutcome.ReadCurrent StatusCode.Ok decision e
      else let ctx = rreq_context req;
               e = tick e;
               lease = eng_next_lease_id e;
               e = e\<lparr>eng_next_lease_id := eng_next_lease_id e + 1\<rparr>;
               ob = add_read_grant e ob region (actx_participant ctx) (actx_boot ctx) lease;
               e = put_object (actx_object ctx) ob e;
               decision = (case find (same_grant (actx_participant ctx) (actx_boot ctx) region) (obj_reads ob) of
                   None \<Rightarrow> decision
                 | Some grant \<Rightarrow> decision\<lparr>rd_lease := grant_lease grant\<rparr>)
           in decide_read ReadOutcome.ReadCurrent StatusCode.Ok decision e)"

text \<open>A replica to synchronize from: the cached one when it is another current replica, else the
  first other current replica in the list, which becomes the cached one.\<close>

definition recoverable_source :: "engine \<Rightarrow> ObjectRecord \<Rightarrow> RegionRecord \<Rightarrow> bool \<times> ObjectRecord" where
  "recoverable_source e ob region =
     (let cached = obj_preferred_current_replica ob in
      if is_defined cached \<and> cached \<noteq> reg_id region \<and> region_state_is e is_current_state cached
        then (True, ob)
      else case find (\<lambda>k. k \<noteq> reg_id region \<and> k \<noteq> cached \<and>
            region_state_is e (\<lambda>st. st = CoherenceState.Current) k) (obj_replicas ob) of
          None \<Rightarrow> (False, ob)
        | Some k \<Rightarrow> (True, ob\<lparr>obj_preferred_current_replica := k\<rparr>))"

definition read_not_current ::
  "ReadRequest \<Rightarrow> ObjectRecord \<Rightarrow> RegionRecord \<Rightarrow> FreshnessAssessment \<Rightarrow> ReadDecision \<Rightarrow> engine \<Rightarrow>
   ReadDecision Result \<times> engine" where
  "read_not_current req ob region freshness decision e =
     (if reg_state region = CoherenceState.Retired
        then decide_read ReadOutcome.ReadBlocked StatusCode.Retired decision e
      else if reg_state region = CoherenceState.Fenced
        then decide_read ReadOutcome.ReadBlocked StatusCode.Fenced decision e
      else if \<not> fresh freshness \<and> fa_verdict freshness = FreshnessVerdict.Unsupported
        then decide_read ReadOutcome.Unsupported StatusCode.Unsupported decision e
      else let (found, ob) = recoverable_source e ob region;
               e = put_object (actx_object (rreq_context req)) ob e
           in if found
                then decide_read ReadOutcome.ReadAfterSync
                  (if fresh freshness then StatusCode.SyncRequired else fa_reason freshness)
                  (decision\<lparr>rd_sync_required := True\<rparr>) e
              else decide_read ReadOutcome.ReadBlocked
                (if fresh freshness then StatusCode.ReadNotCurrent else fa_reason freshness) decision e)"

definition read_region ::
  "bool \<Rightarrow> ReadRequest \<Rightarrow> CoherencePolicy \<Rightarrow> ObjectRecord \<Rightarrow> RegionRecord \<Rightarrow> ReadDecision \<Rightarrow> engine \<Rightarrow>
   ReadDecision Result \<times> engine" where
  "read_region create_lease req policy ob region decision e =
     (let decision = describe_region e policy region decision;
          freshness = assess_region_locked e policy region;
          current_by_version = is_nil (rd_authoritative_version decision)
            \<or> reg_version region = rd_authoritative_version decision
      in if pol_consistency policy = ConsistencyModel.Snapshot
           then read_snapshot req ob region decision e
         else if is_current_state (reg_state region) \<and> current_by_version \<and> fresh freshness
           then read_current create_lease req ob region decision e
         else if stale_permitted policy decision \<and> is_readable_state (reg_state region)
           then decide_read ReadOutcome.ReadStaleAllowed StatusCode.ReadNotCurrent
             (decision\<lparr>rd_stale_allowed := True\<rparr>) e
         else read_not_current req ob region freshness decision e)"

definition compute_read_locked :: "engine \<Rightarrow> ReadRequest \<Rightarrow> bool \<Rightarrow> ReadDecision Result \<times> engine" where
  "compute_read_locked e req create_lease =
     (let ctx = rreq_context req;
          (authority, found, participant) = resolve_locked e ctx;
          (context, e) = make_context e ctx (actx_object ctx) (actx_object_generation ctx)
            (ownership_of found);
          decision = default_read_decision\<lparr>rd_context := context\<rparr>
      in if authority \<noteq> StatusCode.Ok
           then decide_read (if authority = StatusCode.UnknownObject then ReadOutcome.Unknown
             else ReadOutcome.ReadBlocked) authority decision e
         else let ob = the found in
           case policy_locked e ob of
             None \<Rightarrow> (Inl StatusCode.UnknownPolicy,
               record_decision DecisionKind.ReadAcquire context StatusCode.UnknownPolicy e)
           | Some policy \<Rightarrow>
               if pol_write_ownership policy = WriteOwnershipMode.Unspecified
                   \<or> pol_consistency policy = ConsistencyModel.Unspecified
                 then decide_read ReadOutcome.Unsupported StatusCode.Unsupported decision e
               else let (k, ob) = select_read_region e ob (rreq_region req);
                        e = put_object (actx_object ctx) ob e;
                        decision = decision
                          \<lparr>rd_authoritative_version := obj_authoritative_version ob, rd_region := k\<rparr>
                    in if is_nil (obj_authoritative_version ob)
                         then decide_read ReadOutcome.ReadBlocked StatusCode.NotAuthoritative decision e
                       else if is_nil k
                         then decide_read ReadOutcome.ReadBlocked StatusCode.UnknownRegion decision e
                       else case resolve_region_locked e ob k (rreq_region_generation req) of
                           Inl code \<Rightarrow> decide_read ReadOutcome.ReadBlocked code decision e
                         | Inr region \<Rightarrow> read_region create_lease req policy ob region decision e)"

definition acquire_read :: "engine \<Rightarrow> ReadRequest \<Rightarrow> ReadDecision Result \<times> engine" where
  "acquire_read e req =
     (let (outcome, e) = compute_read_locked e req True
      in (outcome, case outcome of Inl _ \<Rightarrow> e | Inr _ \<Rightarrow> snd (maybe_compact_locked e)))"

definition explain_read :: "engine \<Rightarrow> ReadRequest \<Rightarrow> ReadDecision Result \<times> engine" where
  "explain_read e req = compute_read_locked e req False"

end
