(* ===== verification/Engine_Write.thy ===== *)
theory Engine_Write
  imports Engine_Read
begin

text \<open>
  Write authority and dirty state (\<open>acquire_write\<close> of \<^verbatim>\<open>src/engine_ops.cpp\<close>, \<open>mark_dirty\<close> of
  \<^verbatim>\<open>src/engine_ops2.cpp\<close>).  \<open>acquire_write\<close> is cut into the checks before any region is
  resolved, the resolution of the writer's region, the answer to a caller while authority is
  already held, and the reservation of a new ownership generation.
\<close>

section \<open>Requests and grants\<close>

record WriteRequest =
  wreq_context :: AuthorityContext
  wreq_region :: RegionId
  wreq_region_generation :: RegionGeneration

record WriteGrant =
  wg_context :: DecisionContext
  wg_granted :: bool
  wg_reason :: StatusCode
  wg_writer :: ParticipantId
  wg_writer_boot :: ParticipantBootId
  wg_base_version :: VersionId
  wg_authoritative_version :: VersionId
  wg_writer_region :: RegionId
  wg_writer_region_generation :: RegionGeneration
  wg_required_invalidations :: "InvalidationRecord list"
  wg_may_mutate_now :: bool

definition default_write_grant :: WriteGrant where
  "default_write_grant =
     \<lparr>wg_context = default_decision_context, wg_granted = False,
      wg_reason = StatusCode.UnknownObject, wg_writer = 0, wg_writer_boot = 0, wg_base_version = 0,
      wg_authoritative_version = 0, wg_writer_region = 0, wg_writer_region_generation = 0,
      wg_required_invalidations = [], wg_may_mutate_now = False\<rparr>"

text \<open>Every answer other than a failure is recorded with its reason.\<close>

definition answer_write :: "StatusCode \<Rightarrow> WriteGrant \<Rightarrow> engine \<Rightarrow> WriteGrant Result \<times> engine" where
  "answer_write reason grant e =
     (Inr (grant\<lparr>wg_reason := reason\<rparr>),
      record_decision DecisionKind.WriteAcquire (wg_context grant) reason e)"

section \<open>Acquiring write authority\<close>

definition write_policy_check :: "CoherencePolicy \<Rightarrow> ObjectRecord \<Rightarrow> StatusCode" where
  "write_policy_check policy ob =
     (if pol_write_ownership policy = WriteOwnershipMode.ReadOnlyObject
        then StatusCode.NotWriteAuthorized
      else if pol_write_ownership policy \<noteq> WriteOwnershipMode.SingleWriterExclusive
        then StatusCode.Unsupported
      else if obj_publication_state ob = PublicationState.PendingDurable then StatusCode.WriteConflict
      else if obj_has_unpublished_dirty ob then StatusCode.DirtyUnpublished
      else StatusCode.Ok)"

definition write_region_check :: "engine \<Rightarrow> WriteRequest \<Rightarrow> ObjectRecord \<Rightarrow> RegionRecord option Result" where
  "write_region_check e req ob =
     (if is_nil (wreq_region req) then Inr None
      else case resolve_region_locked e ob (wreq_region req) (wreq_region_generation req) of
          Inl code \<Rightarrow> Inl code
        | Inr region \<Rightarrow>
            if reg_participant region \<noteq> actx_participant (wreq_context req)
              then Inl StatusCode.NotWriteAuthorized
            else Inr (Some region))"

definition holds_write_authority :: "ObjectRecord \<Rightarrow> AuthorityContext \<Rightarrow> bool" where
  "holds_write_authority ob ctx \<longleftrightarrow>
     obj_writer ob = actx_participant ctx \<and> obj_writer_boot ob = actx_boot ctx"

text \<open>The invalidations of an object that are still to be acknowledged.\<close>

definition requested_invalidations :: "engine \<Rightarrow> ObjectRecord \<Rightarrow> InvalidationRecord list" where
  "requested_invalidations e ob =
     filter (\<lambda>iv. inv_state iv = InvalidationState.Requested)
       (List.map_filter (map_of (eng_invalidations e)) (obj_outstanding_invalidations ob))"

text \<open>A transfer the caller already reserved: it takes effect once nothing is outstanding.\<close>

definition continue_transfer ::
  "WriteRequest \<Rightarrow> ObjectRecord \<Rightarrow> WriteGrant \<Rightarrow> engine \<Rightarrow> WriteGrant Result \<times> engine" where
  "continue_transfer req ob grant e =
     (if \<not> has_outstanding_invalidations e (obj_id ob)
        then let ob = ob\<lparr>obj_authority := AuthorityMode.ExclusiveWriter\<rparr>;
                 (written, e) = append_locked (put_object (actx_object (wreq_context req)) ob e) (object_entry ob)
             in if written \<noteq> StatusCode.Ok then (Inl written, e)
                else answer_write StatusCode.Ok (grant\<lparr>wg_granted := True, wg_may_mutate_now := True\<rparr>) e
      else answer_write StatusCode.InvalidationOutstanding
        (grant\<lparr>wg_granted := True, wg_may_mutate_now := False,
               wg_required_invalidations := requested_invalidations e ob\<rparr>) e)"

text \<open>The replicas a new writer supersedes: live ones other than its own.\<close>

definition superseded_replicas :: "engine \<Rightarrow> ObjectRecord \<Rightarrow> RegionId \<Rightarrow> RegionRecord list" where
  "superseded_replicas e ob writer_region =
     filter (\<lambda>r. reg_id r \<noteq> writer_region \<and> is_live_state (reg_state r) \<and>
         reg_state r \<noteq> CoherenceState.RevalidationRequired)
       (List.map_filter (map_of (eng_regions e)) (obj_replicas ob))"

definition transfer_invalidation :: "engine \<Rightarrow> ObjectRecord \<Rightarrow> InvalidationId \<Rightarrow> RegionRecord \<Rightarrow> InvalidationRecord" where
  "transfer_invalidation e ob k region =
     (let target = map_of (eng_regions e) (reg_id region)
      in default_invalidation_record
        \<lparr>inv_id := k, inv_object := obj_id ob, inv_object_generation := obj_generation ob,
         inv_region := reg_id region, inv_region_generation := reg_generation region,
         inv_replica_generation := reg_replica_generation region,
         inv_published_version := obj_authoritative_version ob,
         inv_superseded_version := (case target of None \<Rightarrow> 0 | Some r \<Rightarrow> reg_version r),
         inv_ownership_generation := obj_ownership_generation ob, inv_epoch := eng_epoch e,
         inv_target_participant := (case target of None \<Rightarrow> 0 | Some r \<Rightarrow> reg_participant r),
         inv_target_boot := (case target of None \<Rightarrow> 0 | Some r \<Rightarrow> reg_boot r),
         inv_state := InvalidationState.Requested, inv_acknowledgement_required := True,
         inv_issued_sequence := eng_sequence e, inv_rationale := rationale_write_transfer\<rparr>)"

fun transfer_invalidations ::
  "engine \<Rightarrow> ObjectRecord \<Rightarrow> InvalidationId \<Rightarrow> RegionRecord list \<Rightarrow> InvalidationRecord list" where
  "transfer_invalidations e ob k [] = []"
| "transfer_invalidations e ob k (region # regions) =
     transfer_invalidation e ob k region # transfer_invalidations e ob (k + 1) regions"

definition register_transfer_invalidation :: "InvalidationRecord \<Rightarrow> engine \<Rightarrow> engine" where
  "register_transfer_invalidation iv e =
     (let e = put_invalidation (inv_id iv) iv e
      in case map_of (eng_regions e) (inv_region iv) of
           None \<Rightarrow> e
         | Some region \<Rightarrow> put_region (inv_region iv) (region
             \<lparr>reg_invalidation_pending := True, reg_pending_invalidation := inv_id iv,
              reg_pending_invalidation_target := reg_generation region,
              reg_updated_sequence := eng_sequence e\<rparr>) e)"

text \<open>The object while the reservation is made, and after a failed journal write.\<close>

definition reserved_object ::
  "OperationSequence \<Rightarrow> ParticipantId \<Rightarrow> ParticipantBootId \<Rightarrow> bool \<Rightarrow> ObjectRecord \<Rightarrow> ObjectRecord" where
  "reserved_object sequence writer boot immediate ob = ob
     \<lparr>obj_ownership_generation := next_id (obj_ownership_generation ob), obj_writer := writer,
      obj_writer_boot := boot,
      obj_authority := (if immediate then AuthorityMode.ExclusiveWriter else AuthorityMode.TransferPending),
      obj_updated_sequence := sequence,
      obj_reads := map (\<lambda>g. g\<lparr>grant_released := True\<rparr>) (obj_reads ob)\<rparr>"

definition rolled_back_object :: "ObjectRecord \<Rightarrow> ObjectRecord" where
  "rolled_back_object ob = ob
     \<lparr>obj_ownership_generation := obj_ownership_generation ob - 1,
      obj_authority := AuthorityMode.NoAuthority, obj_writer := 0, obj_writer_boot := 0,
      obj_outstanding_invalidations := []\<rparr>"

definition reserve_write ::
  "WriteRequest \<Rightarrow> CoherencePolicy \<Rightarrow> ObjectRecord \<Rightarrow> ParticipantRecord \<Rightarrow> WriteGrant \<Rightarrow> engine \<Rightarrow>
   WriteGrant Result \<times> engine" where
  "reserve_write req policy ob participant grant e =
     (let regions = superseded_replicas e ob (wg_writer_region grant) in
      if regions \<noteq> [] \<and> pol_conflict_behavior policy = ConflictBehavior.Reject
        then answer_write StatusCode.WriteConflict grant e
      else let e = tick e;
               ctx = wreq_context req;
               context = wg_context grant;
               ob = reserved_object (eng_sequence e) (actx_participant ctx) (par_boot participant)
                 (regions = []) ob;
               required = transfer_invalidations e ob (eng_next_invalidation_id e) regions;
               ob = ob\<lparr>obj_outstanding_invalidations :=
                 sort (obj_outstanding_invalidations ob @ map inv_id required)\<rparr>;
               e = e\<lparr>eng_next_invalidation_id := eng_next_invalidation_id e + of_nat (length required)\<rparr>;
               grant = grant\<lparr>wg_context := context\<lparr>dc_ownership_generation := obj_ownership_generation ob\<rparr>,
                 wg_granted := True, wg_may_mutate_now := (regions = []),
                 wg_base_version := obj_authoritative_version ob,
                 wg_required_invalidations := required\<rparr>;
               reason = (if regions = [] then StatusCode.Ok else StatusCode.InvalidationOutstanding);
               (written, e) = append_many_locked (put_object (actx_object ctx) ob e)
                 (object_entry ob # map UpsertInvalidation required)
           in if written \<noteq> StatusCode.Ok
                then (Inl written, put_object (actx_object ctx) (rolled_back_object ob) e)
              else (Inr (grant\<lparr>wg_reason := reason\<rparr>),
                    record_decision DecisionKind.WriteAcquire context reason
                      (fold register_transfer_invalidation required e)))"

definition acquire_write_region ::
  "WriteRequest \<Rightarrow> CoherencePolicy \<Rightarrow> ObjectRecord \<Rightarrow> ParticipantRecord \<Rightarrow> RegionRecord option \<Rightarrow>
   WriteGrant \<Rightarrow> engine \<Rightarrow> WriteGrant Result \<times> engine" where
  "acquire_write_region req policy ob participant writer_region grant e =
     (let ctx = wreq_context req in
      if obj_authority ob = AuthorityMode.ExclusiveWriter \<and> holds_write_authority ob ctx
        then answer_write StatusCode.Ok
          (grant\<lparr>wg_granted := True, wg_may_mutate_now := True,
                 wg_base_version := obj_authoritative_version ob\<rparr>) e
      else if obj_authority ob = AuthorityMode.TransferPending
        then (if \<not> holds_write_authority ob ctx
                then answer_write StatusCode.ExclusiveWriterConflict grant e
              else continue_transfer req ob grant e)
      else if obj_authority ob = AuthorityMode.ExclusiveWriter
        then answer_write StatusCode.ExclusiveWriterConflict grant e
      else case writer_region of
          Some region \<Rightarrow>
            if \<not> is_writable_state (reg_state region)
              then answer_write (if reg_state region = CoherenceState.RevalidationRequired
                then StatusCode.RevalidationRequired else StatusCode.SyncRequired) grant e
            else reserve_write req policy ob participant grant e
        | None \<Rightarrow> reserve_write req policy ob participant grant e)"

definition acquire_write :: "engine \<Rightarrow> WriteRequest \<Rightarrow> WriteGrant Result \<times> engine" where
  "acquire_write e req =
     (let ctx = wreq_context req;
          (authority, found, found_participant) = resolve_locked e ctx;
          (context, e) = make_context e ctx (actx_object ctx) (actx_object_generation ctx)
            (ownership_of found)
      in if authority \<noteq> StatusCode.Ok
           then (Inl authority, record_decision DecisionKind.WriteAcquire context authority e)
         else let ob = the found; participant = the found_participant;
                  grant = default_write_grant
                    \<lparr>wg_context := context, wg_writer := actx_participant ctx,
                     wg_writer_boot := par_boot participant,
                     wg_base_version := obj_authoritative_version ob,
                     wg_authoritative_version := obj_authoritative_version ob,
                     wg_reason := StatusCode.Ok\<rparr>
              in case policy_locked e ob of
                   None \<Rightarrow> (Inl StatusCode.UnknownPolicy, e)
                 | Some policy \<Rightarrow>
                     if write_policy_check policy ob \<noteq> StatusCode.Ok
                       then answer_write (write_policy_check policy ob) grant e
                     else case write_region_check e req ob of
                         Inl code \<Rightarrow> answer_write code grant e
                       | Inr writer_region \<Rightarrow>
                           acquire_write_region req policy ob participant writer_region
                             (case writer_region of None \<Rightarrow> grant
                              | Some region \<Rightarrow> grant\<lparr>wg_writer_region := reg_id region,
                                  wg_writer_region_generation := reg_generation region\<rparr>) e)"

section \<open>Marking a replica dirty\<close>

record DirtyRequest =
  dreq_context :: AuthorityContext
  dreq_region :: RegionId
  dreq_region_generation :: RegionGeneration
  dreq_ownership_generation :: OwnershipGeneration
  dreq_base_version :: VersionId
  dreq_content :: ContentFingerprint

text \<open>The checks after the request was resolved.\<close>

definition mark_dirty_guard :: "engine \<Rightarrow> DirtyRequest \<Rightarrow> ObjectRecord \<Rightarrow> RegionRecord Result" where
  "mark_dirty_guard e req ob =
     (let ctx = dreq_context req in
      if obj_authority ob \<noteq> AuthorityMode.ExclusiveWriter
        then Inl (if obj_authority ob = AuthorityMode.TransferPending
          then StatusCode.InvalidationOutstanding else StatusCode.NotWriteAuthorized)
      else if \<not> holds_write_authority ob ctx then Inl StatusCode.NotWriteAuthorized
      else if dreq_ownership_generation req \<noteq> obj_ownership_generation ob
        then Inl StatusCode.StaleOwnership
      else if dreq_base_version req \<noteq> obj_authoritative_version ob then Inl StatusCode.StalePublication
      else case resolve_region_locked e ob (dreq_region req) (dreq_region_generation req) of
          Inl code \<Rightarrow> Inl code
        | Inr region \<Rightarrow>
            if reg_participant region \<noteq> actx_participant ctx then Inl StatusCode.NotWriteAuthorized
            else if reg_state region \<noteq> CoherenceState.Current \<and> reg_state region \<noteq> CoherenceState.Dirty
              then Inl StatusCode.SyncRequired
            else if \<not> is_legal_coherence_transition (reg_state region) CoherenceState.Dirty
              then Inl StatusCode.InvalidTransition
            else Inr region)"

definition dirty_region ::
  "OperationSequence \<Rightarrow> OwnershipGeneration \<Rightarrow> VersionId \<Rightarrow> ContentFingerprint \<Rightarrow> RegionRecord \<Rightarrow> RegionRecord" where
  "dirty_region sequence ownership base content region = region
     \<lparr>reg_dirty := DirtyCondition.DirtyUnpublished, reg_dirty_base_version := base,
      reg_dirty_published := False, reg_state := CoherenceState.Dirty,
      reg_ownership_generation := ownership, reg_updated_sequence := sequence,
      reg_note := note_dirty base,
      reg_content := (if fp_defined content then content else reg_content region)\<rparr>"

definition mark_dirty :: "engine \<Rightarrow> DirtyRequest \<Rightarrow> DirtyCondition Result \<times> engine" where
  "mark_dirty e req =
     (let ctx = dreq_context req;
          (authority, found, participant) = resolve_locked e ctx;
          (context, e) = make_context e ctx (actx_object ctx) (actx_object_generation ctx)
            (ownership_of found);
          ob = the found;
          checked = (if authority \<noteq> StatusCode.Ok then Inl authority else mark_dirty_guard e req ob)
      in case checked of
           Inl code \<Rightarrow> (Inl code, record_decision DecisionKind.MarkDirty context code e)
         | Inr region \<Rightarrow>
             let e = tick e;
                 region = dirty_region (eng_sequence e) (obj_ownership_generation ob)
                   (dreq_base_version req) (dreq_content req) region;
                 ob = ob\<lparr>obj_has_unpublished_dirty := True,
                   obj_dirty_condition := DirtyCondition.DirtyUnpublished,
                   obj_updated_sequence := eng_sequence e\<rparr>;
                 e = put_region (dreq_region req) region (put_object (actx_object ctx) ob e);
                 (written, e) = append_many_locked e [object_entry ob, UpsertRegion region]
             in if written \<noteq> StatusCode.Ok then (Inl written, e)
                else (Inr DirtyCondition.DirtyUnpublished,
                      record_decision DecisionKind.MarkDirty context StatusCode.Ok e))"

end
