(* ===== verification/Engine_Invalidate.thy ===== *)
theory Engine_Invalidate
  imports Engine_Write
begin

text \<open>
  Generation-bound invalidation, its acknowledgement, and revalidation of a replica by a new
  observation (\<^verbatim>\<open>src/engine_ops2.cpp\<close>).
\<close>

section \<open>Requests and outcomes\<close>

record InvalidationRequest =
  ireq_context :: AuthorityContext
  ireq_target_region :: RegionId
  ireq_target_region_generation :: RegionGeneration
  ireq_target_replica_generation :: ReplicaGeneration
  ireq_ownership_generation :: OwnershipGeneration
  ireq_published_version :: VersionId
  ireq_acknowledgement_required :: bool

record InvalidationAck =
  iack_context :: AuthorityContext
  iack_invalidation :: InvalidationId
  iack_region :: RegionId
  iack_region_generation :: RegionGeneration
  iack_replica_generation :: ReplicaGeneration
  iack_superseded_version :: VersionId

record InvalidationOutcome =
  io_context :: DecisionContext
  io_invalidation :: InvalidationId
  io_state :: InvalidationState
  io_reason :: StatusCode
  io_region :: RegionId
  io_region_generation :: RegionGeneration
  io_replica_generation :: ReplicaGeneration
  io_idempotent_replay :: bool

definition default_invalidation_outcome :: InvalidationOutcome where
  "default_invalidation_outcome =
     \<lparr>io_context = default_decision_context, io_invalidation = 0,
      io_state = InvalidationState.Unknown, io_reason = StatusCode.Ok, io_region = 0,
      io_region_generation = 0, io_replica_generation = 0, io_idempotent_replay = False\<rparr>"

definition outcome_for ::
  "DecisionContext \<Rightarrow> InvalidationRecord \<Rightarrow> bool \<Rightarrow> InvalidationOutcome" where
  "outcome_for context iv again =
     \<lparr>io_context = context, io_invalidation = inv_id iv, io_state = inv_state iv,
      io_reason = StatusCode.Ok, io_region = inv_region iv,
      io_region_generation = inv_region_generation iv,
      io_replica_generation = inv_replica_generation iv, io_idempotent_replay = again\<rparr>"

section \<open>Invalidation\<close>

definition invalidate_guard :: "engine \<Rightarrow> InvalidationRequest \<Rightarrow> ObjectRecord \<Rightarrow> RegionRecord Result" where
  "invalidate_guard e req ob =
     (if ireq_ownership_generation req \<noteq> obj_ownership_generation ob then Inl StatusCode.StaleOwnership
      else case map_of (eng_regions e) (ireq_target_region req) of
          None \<Rightarrow> Inl StatusCode.UnknownRegion
        | Some region \<Rightarrow>
            if reg_object region \<noteq> obj_id ob then Inl StatusCode.InvalidArgument
            else if reg_generation region \<noteq> ireq_target_region_generation req
                \<or> reg_replica_generation region \<noteq> ireq_target_replica_generation req
              then Inl StatusCode.StaleRegionGeneration
            else Inr region)"

definition explicit_invalidation ::
  "engine \<Rightarrow> InvalidationRequest \<Rightarrow> ObjectRecord \<Rightarrow> RegionRecord \<Rightarrow> InvalidationRecord" where
  "explicit_invalidation e req ob region = default_invalidation_record
     \<lparr>inv_id := eng_next_invalidation_id e, inv_object := obj_id ob,
      inv_object_generation := obj_generation ob, inv_region := reg_id region,
      inv_region_generation := reg_generation region,
      inv_replica_generation := reg_replica_generation region,
      inv_published_version := (if is_defined (ireq_published_version req)
        then ireq_published_version req else obj_authoritative_version ob),
      inv_superseded_version := reg_version region,
      inv_ownership_generation := obj_ownership_generation ob, inv_epoch := eng_epoch e,
      inv_target_participant := reg_participant region, inv_target_boot := reg_boot region,
      inv_issued_sequence := eng_sequence e\<rparr>"

text \<open>An inert replica: the invalidation is settled as superseded at once.\<close>

definition invalidate_inert ::
  "InvalidationRequest \<Rightarrow> ObjectRecord \<Rightarrow> RegionRecord \<Rightarrow> DecisionContext \<Rightarrow> engine \<Rightarrow>
   InvalidationOutcome Result \<times> engine" where
  "invalidate_inert req ob region context e =
     (let e = tick e;
          iv = (explicit_invalidation e req ob region)
            \<lparr>inv_acknowledgement_required := False, inv_settled_sequence := eng_sequence e,
             inv_state := InvalidationState.Superseded,
             inv_rationale := rationale_inert (reg_state region)\<rparr>;
          e = e\<lparr>eng_next_invalidation_id := eng_next_invalidation_id e + 1\<rparr>;
          (written, e) = append_locked e (UpsertInvalidation iv)
      in if written \<noteq> StatusCode.Ok then (Inl written, e)
         else (Inr (outcome_for context iv True),
               record_decision DecisionKind.Invalidate context StatusCode.Ok
                 (put_invalidation (inv_id iv) iv e)))"

text \<open>What an applied invalidation leaves of a replica: bytes that are no source of truth.\<close>

definition invalidated_region :: "OperationSequence \<Rightarrow> InvalidationId \<Rightarrow> RegionRecord \<Rightarrow> RegionRecord" where
  "invalidated_region sequence k region = region
     \<lparr>reg_state := (if is_defined (reg_version region) then CoherenceState.Stale else CoherenceState.Invalid),
      reg_evidence := 0, reg_evidence_generation := 0, reg_invalidation_pending := False,
      reg_pending_invalidation := 0, reg_pending_invalidation_target := 0,
      reg_updated_sequence := sequence, reg_note := note_invalidated k\<rparr>"

definition pending_region :: "OperationSequence \<Rightarrow> InvalidationId \<Rightarrow> RegionRecord \<Rightarrow> RegionRecord" where
  "pending_region sequence k region = region
     \<lparr>reg_invalidation_pending := True, reg_pending_invalidation := k,
      reg_pending_invalidation_target := reg_generation region, reg_updated_sequence := sequence\<rparr>"

definition drop_invalidation :: "InvalidationId \<Rightarrow> ObjectRecord \<Rightarrow> ObjectRecord" where
  "drop_invalidation k ob = ob
     \<lparr>obj_outstanding_invalidations := removeAll k (obj_outstanding_invalidations ob)\<rparr>"

definition issue_invalidation ::
  "InvalidationRequest \<Rightarrow> ObjectRecord \<Rightarrow> RegionRecord \<Rightarrow> DecisionContext \<Rightarrow> engine \<Rightarrow>
   InvalidationOutcome Result \<times> engine" where
  "issue_invalidation req ob region context e =
     (let k = actx_object (ireq_context req);
          e = tick e;
          iv = (explicit_invalidation e req ob region)
            \<lparr>inv_acknowledgement_required := ireq_acknowledgement_required req,
             inv_rationale := rationale_explicit\<rparr>;
          e = e\<lparr>eng_next_invalidation_id := eng_next_invalidation_id e + 1\<rparr>;
          ob = ob\<lparr>obj_outstanding_invalidations := sort (obj_outstanding_invalidations ob @ [inv_id iv]),
            obj_updated_sequence := eng_sequence e\<rparr>;
          (iv', e, entries) =
            (if \<not> ireq_acknowledgement_required req
               then let iv' = iv\<lparr>inv_state := InvalidationState.Acknowledged,
                          inv_settled_sequence := eng_sequence e\<rparr>;
                        region = invalidated_region (eng_sequence e) (inv_id iv) region;
                        e = put_region (ireq_target_region req) region
                          (put_object k (drop_invalidation (inv_id iv) ob) e);
                        e = recompute_authority_locked k e
                    in (iv', e, [UpsertInvalidation iv, UpsertInvalidation iv', UpsertRegion region,
                         object_entry (the (map_of (eng_objects e) k))])
             else let region = pending_region (eng_sequence e) (inv_id iv) region;
                      e = put_region (ireq_target_region req) region (put_object k ob e)
                  in (iv, e, [UpsertInvalidation iv, UpsertRegion region, object_entry ob]));
          (written, e) = append_many_locked e entries
      in if written \<noteq> StatusCode.Ok then (Inl written, e)
         else (Inr (outcome_for context iv' False),
               record_decision DecisionKind.Invalidate context StatusCode.Ok
                 (put_invalidation (inv_id iv') iv' e)))"

text \<open>An outstanding invalidation of the same replica generation.\<close>

definition outstanding_for :: "engine \<Rightarrow> ObjectRecord \<Rightarrow> RegionRecord \<Rightarrow> InvalidationId option" where
  "outstanding_for e ob region =
     find (\<lambda>i. case map_of (eng_invalidations e) i of
         None \<Rightarrow> False
       | Some iv \<Rightarrow> inv_region iv = reg_id region \<and> inv_region_generation iv = reg_generation region \<and>
           inv_replica_generation iv = reg_replica_generation region) (obj_outstanding_invalidations ob)"

definition invalidate :: "engine \<Rightarrow> InvalidationRequest \<Rightarrow> InvalidationOutcome Result \<times> engine" where
  "invalidate e req =
     (let ctx = ireq_context req in
      case resolve_internal_locked e ctx of
        Inl code \<Rightarrow> (Inl code, e)
      | Inr ob \<Rightarrow>
          let (context, e) = make_context e ctx (actx_object ctx) (actx_object_generation ctx)
                (obj_ownership_generation ob)
          in case invalidate_guard e req ob of
               Inl code \<Rightarrow> (Inl code, e)
             | Inr region \<Rightarrow>
                 if reg_lifecycle region = RegionLifecycle.Retired
                     \<or> reg_state region = CoherenceState.Retired \<or> reg_state region = CoherenceState.Fenced
                   then invalidate_inert req ob region context e
                 else case outstanding_for e ob region of
                     Some i \<Rightarrow>
                       (Inr \<lparr>io_context = context, io_invalidation = i,
                          io_state = inv_state (the (map_of (eng_invalidations e) i)),
                          io_reason = StatusCode.Ok, io_region = reg_id region,
                          io_region_generation = reg_generation region,
                          io_replica_generation = reg_replica_generation region,
                          io_idempotent_replay = True\<rparr>, e)
                   | None \<Rightarrow> issue_invalidation req ob region context e)"

section \<open>Acknowledgement\<close>

text \<open>The checks that end the operation without an effect: a failure, or an answer for an
  invalidation that is already settled.\<close>

definition ack_guard ::
  "engine \<Rightarrow> InvalidationAck \<Rightarrow> InvalidationRecord \<Rightarrow> ObjectRecord \<Rightarrow> StatusCode" where
  "ack_guard e ack iv ob =
     (if obj_id ob \<noteq> inv_object iv then StatusCode.InvalidArgument
      else if inv_target_participant iv \<noteq> actx_participant (iack_context ack)
          \<or> inv_target_boot iv \<noteq> actx_boot (iack_context ack)
        then StatusCode.NotWriteAuthorized
      else StatusCode.Ok)"

definition supersede_invalidation :: "OperationSequence \<Rightarrow> string \<Rightarrow> InvalidationRecord \<Rightarrow> InvalidationRecord" where
  "supersede_invalidation sequence rationale iv = iv
     \<lparr>inv_state := InvalidationState.Superseded, inv_settled_sequence := sequence,
      inv_rationale := rationale\<rparr>"

text \<open>The settled record replaces the outstanding one, the object forgets it and its authority is
  recomputed.\<close>

definition settle_invalidation ::
  "InvalidationAck \<Rightarrow> InvalidationRecord \<Rightarrow> ObjectRecord \<Rightarrow> engine \<Rightarrow> engine" where
  "settle_invalidation ack iv ob e =
     recompute_authority_locked (actx_object (iack_context ack))
       (put_object (actx_object (iack_context ack)) (drop_invalidation (inv_id iv) ob)
         (put_invalidation (iack_invalidation ack) iv e))"

definition acknowledge_replica ::
  "InvalidationAck \<Rightarrow> InvalidationRecord \<Rightarrow> ObjectRecord \<Rightarrow> RegionRecord \<Rightarrow> DecisionContext \<Rightarrow> engine \<Rightarrow>
   InvalidationOutcome Result \<times> engine" where
  "acknowledge_replica ack iv ob region context e =
     (let k = actx_object (iack_context ack);
          e = tick e;
          iv = iv\<lparr>inv_state := InvalidationState.Acknowledged, inv_settled_sequence := eng_sequence e,
            inv_superseded_version := (if is_defined (iack_superseded_version ack)
              then iack_superseded_version ack else reg_version region)\<rparr>;
          region = invalidated_region (eng_sequence e) (inv_id iv) region;
          e = settle_invalidation ack iv ob (put_region (inv_region iv) region e);
          ob = (the (map_of (eng_objects e) k))\<lparr>obj_updated_sequence := eng_sequence e\<rparr>;
          (written, e) = append_many_locked (put_object k ob e)
            [UpsertInvalidation iv, UpsertRegion region, object_entry ob]
      in if written \<noteq> StatusCode.Ok then (Inl written, e)
         else (Inr (outcome_for context iv False),
               record_decision DecisionKind.Invalidate context StatusCode.Ok e))"

definition acknowledge_invalidation ::
  "engine \<Rightarrow> InvalidationAck \<Rightarrow> InvalidationOutcome Result \<times> engine" where
  "acknowledge_invalidation e ack =
     (case map_of (eng_invalidations e) (iack_invalidation ack) of
        None \<Rightarrow> (Inl StatusCode.UnknownInvalidation, e)
      | Some iv \<Rightarrow>
          let (authority, found, participant) = resolve_locked e (iack_context ack);
              (context, e) = make_context e (iack_context ack) (inv_object iv)
                (inv_object_generation iv) (inv_ownership_generation iv)
          in if authority \<noteq> StatusCode.Ok then (Inl authority, e)
             else let ob = the found in
               if ack_guard e ack iv ob \<noteq> StatusCode.Ok then (Inl (ack_guard e ack iv ob), e)
               else if inv_state iv = InvalidationState.Acknowledged
                 then (Inr (outcome_for context iv True), e)
               else if inv_state iv = InvalidationState.Superseded
                 then (Inr ((outcome_for context iv False)\<lparr>io_reason := StatusCode.StaleInvalidation\<rparr>), e)
               else case map_of (eng_regions e) (inv_region iv) of
                   None \<Rightarrow>
                     let iv = supersede_invalidation (eng_sequence e) rationale_gone iv;
                         e = settle_invalidation ack iv ob e;
                         (written, e) = append_locked e (UpsertInvalidation iv)
                     in if written \<noteq> StatusCode.Ok then (Inl written, e)
                        else (Inr (outcome_for context iv False), e)
                 | Some region \<Rightarrow>
                     if reg_generation region \<noteq> inv_region_generation iv
                         \<or> reg_replica_generation region \<noteq> inv_replica_generation iv
                         \<or> reg_generation region \<noteq> iack_region_generation ack
                         \<or> reg_replica_generation region \<noteq> iack_replica_generation ack
                       then let iv = supersede_invalidation (eng_sequence e) rationale_replaced iv;
                                e = settle_invalidation ack iv ob e;
                                (written, e) = append_many_locked e
                                  [UpsertInvalidation iv,
                                   object_entry (the (map_of (eng_objects e) (actx_object (iack_context ack))))]
                            in if written \<noteq> StatusCode.Ok then (Inl written, e)
                               else (Inr (outcome_for context iv False), e)
                     else acknowledge_replica ack iv ob region context e)"

section \<open>Revalidation\<close>

record RevalidateRequest =
  vreq_context :: AuthorityContext
  vreq_region :: RegionId
  vreq_region_generation :: RegionGeneration
  vreq_observed_version :: VersionId
  vreq_content :: ContentFingerprint
  vreq_byte_compared :: bool

definition revalidate_guard :: "engine \<Rightarrow> RevalidateRequest \<Rightarrow> ObjectRecord \<Rightarrow> RegionRecord Result" where
  "revalidate_guard e req ob =
     (case resolve_region_locked e ob (vreq_region req) (vreq_region_generation req) of
        Inl code \<Rightarrow> Inl code
      | Inr region \<Rightarrow>
          if reg_participant region \<noteq> actx_participant (vreq_context req)
              \<or> reg_boot region \<noteq> actx_boot (vreq_context req)
            then Inl StatusCode.NotWriteAuthorized
          else if reg_lifecycle region = RegionLifecycle.Retired then Inl StatusCode.Retired
          else case policy_locked e ob of
              None \<Rightarrow> Inl StatusCode.UnknownPolicy
            | Some policy \<Rightarrow>
                if pol_require_content_fingerprint policy \<and> \<not> fp_defined (vreq_content req)
                  then Inl StatusCode.EvidenceMissing
                else if \<not> vreq_byte_compared req \<and> pol_require_content_fingerprint policy
                  then Inl StatusCode.EvidenceMissing
                else if is_nil (vreq_observed_version req) then Inl StatusCode.InvalidArgument
                else Inr region)"

definition revalidated_region ::
  "OperationSequence \<Rightarrow> RevalidateRequest \<Rightarrow> ObjectRecord \<Rightarrow> EvidenceRecord \<Rightarrow> RegionRecord \<Rightarrow> RegionRecord" where
  "revalidated_region sequence req ob evidence region =
     (let authoritative = obj_authoritative_version ob;
          observed = vreq_observed_version req;
          matches = is_nil authoritative \<or> observed = authoritative;
          unpublished = reg_dirty region = DirtyCondition.DirtyUnpublished
      in region
        \<lparr>reg_version := observed, reg_ownership_generation := obj_ownership_generation ob,
         reg_evidence := ev_id evidence, reg_evidence_generation := ev_generation evidence,
         reg_updated_sequence := sequence,
         reg_content := (if fp_defined (vreq_content req) then vreq_content req else reg_content region),
         reg_dirty := (if unpublished then DirtyCondition.DirtyPublished else reg_dirty region),
         reg_dirty_published := (if unpublished then True else reg_dirty_published region),
         reg_state := (if matches then CoherenceState.Current else CoherenceState.Stale),
         reg_last_synced_version := (if matches then observed else reg_last_synced_version region),
         reg_note := (if matches then note_revalidated observed
           else note_revalidated_stale observed authoritative)\<rparr>)"

definition revalidate_region :: "engine \<Rightarrow> RevalidateRequest \<Rightarrow> RegionRecord Result \<times> engine" where
  "revalidate_region e req =
     (let ctx = vreq_context req;
          (authority, found, participant) = resolve_locked e ctx;
          ob = the found;
          checked = (if authority \<noteq> StatusCode.Ok then Inl authority else revalidate_guard e req ob)
      in case checked of
           Inl code \<Rightarrow> (Inl code, e)
         | Inr region \<Rightarrow>
             let e = tick e;
                 (evidence, e) = make_evidence e
                   (if vreq_byte_compared req then EvidenceKind.ByteComparison
                    else EvidenceKind.RuntimeObservation)
                   (reg_evidence_class region) (actx_participant ctx) (par_boot (the participant))
                   (obj_id ob) (obj_generation ob) (reg_id region) (reg_generation region)
                   (vreq_observed_version req) (vreq_content req);
                 region = revalidated_region (eng_sequence e) req ob evidence region;
                 (written, e) = append_locked (put_region (vreq_region req) region e) (UpsertRegion region)
             in if written \<noteq> StatusCode.Ok then (Inl written, e)
                else let (context, e) = make_context e ctx (obj_id ob) (obj_generation ob)
                           (obj_ownership_generation ob)
                     in (Inr region, record_decision DecisionKind.Revalidate context StatusCode.Ok e))"

end
