(* ===== verification/Engine_Publish.thy ===== *)
theory Engine_Publish
  imports Engine_Invalidate
begin

text \<open>
  Publication (\<open>publish\<close> of \<^verbatim>\<open>src/engine_ops3.cpp\<close>).  The source holds the engine mutex in two
  separate critical sections with the durable write between them, so other operations can run in
  between.  The model has one definition per section: \<open>publish_reserve\<close> validates and hands out a
  ticket (the local variables that survive the first section), \<open>publish_persist\<close> writes the
  pending record, and \<open>publish_commit\<close> re-validates the reservation and makes the version visible.
  \<open>publish\<close> is the uninterrupted composition.
\<close>

section \<open>Requests, receipts and tickets\<close>

record PublishRequest =
  preq_context :: AuthorityContext
  preq_ownership_generation :: OwnershipGeneration
  preq_region :: RegionId
  preq_region_generation :: RegionGeneration
  preq_expected_base_version :: VersionId
  preq_content :: ContentFingerprint
  preq_allow_without_dirty :: bool

record PublicationReceipt =
  pr_context :: DecisionContext
  pr_publication :: PublicationId
  pr_state :: PublicationState
  pr_reason :: StatusCode
  pr_version :: VersionId
  pr_prior_version :: VersionId
  pr_writer :: ParticipantId
  pr_writer_boot :: ParticipantBootId
  pr_content :: ContentFingerprint
  pr_durability :: PublicationDurability
  pr_durable :: bool
  pr_idempotent_replay :: bool
  pr_completed_by_recovery :: bool

definition default_receipt :: PublicationReceipt where
  "default_receipt =
     \<lparr>pr_context = default_decision_context, pr_publication = 0,
      pr_state = PublicationState.NoPublication, pr_reason = StatusCode.Ok, pr_version = 0,
      pr_prior_version = 0, pr_writer = 0, pr_writer_boot = 0,
      pr_content = default_content_fingerprint,
      pr_durability = PublicationDurability.Unspecified, pr_durable = False,
      pr_idempotent_replay = False, pr_completed_by_recovery = False\<rparr>"

record PublishTicket =
  tk_request :: PublishRequest
  tk_receipt :: PublicationReceipt
  tk_pending :: PendingPublication
  tk_entry :: JournalEntry
  tk_durable_required :: bool

section \<open>Phase 1: validate and reserve\<close>

text \<open>The checks between the idempotent-retry lookup and the reservation.\<close>

definition publish_guard ::
  "engine \<Rightarrow> PublishRequest \<Rightarrow> CoherencePolicy \<Rightarrow> ObjectRecord \<Rightarrow> StatusCode" where
  "publish_guard e req policy ob =
     (let base = obj_authoritative_version ob in
      if obj_authority ob \<noteq> AuthorityMode.ExclusiveWriter
        then (if obj_authority ob = AuthorityMode.TransferPending
          then StatusCode.InvalidationOutstanding else StatusCode.NotWriteAuthorized)
      else if \<not> holds_write_authority ob (preq_context req) then StatusCode.NotWriteAuthorized
      else if preq_ownership_generation req \<noteq> obj_ownership_generation ob then StatusCode.StaleOwnership
      else if preq_expected_base_version req \<noteq> base then StatusCode.StalePublication
      else if pol_require_invalidation_acks_before_publication policy
          \<and> has_outstanding_invalidations e (obj_id ob)
        then StatusCode.InvalidationOutstanding
      else if pol_require_content_fingerprint policy \<and> \<not> fp_defined (preq_content req)
        then StatusCode.EvidenceMissing
      else case resolve_region_locked e ob (preq_region req) (preq_region_generation req) of
          Inl code \<Rightarrow> code
        | Inr region \<Rightarrow>
            if reg_participant region \<noteq> actx_participant (preq_context req)
              then StatusCode.NotWriteAuthorized
            else if \<not> preq_allow_without_dirty req
              then (if reg_dirty region \<noteq> DirtyCondition.DirtyUnpublished then StatusCode.DirtyUnpublished
                    else if reg_dirty_base_version region \<noteq> base then StatusCode.StalePublication
                    else StatusCode.Ok)
            else (if reg_state region \<noteq> CoherenceState.Current \<and> reg_state region \<noteq> CoherenceState.Dirty
                    then StatusCode.SyncRequired
                  else if is_defined base \<and> reg_version region \<noteq> base then StatusCode.StalePublication
                  else StatusCode.Ok))"

definition completed_request :: "PublishRequest \<Rightarrow> ObjectRecord \<Rightarrow> CompletedPublicationRequest option" where
  "completed_request req ob =
     (if is_defined (actx_request (preq_context req))
        then find (\<lambda>c. done_request c = actx_request (preq_context req)) (obj_completed_requests ob)
      else None)"

definition replay_receipt ::
  "CoherencePolicy \<Rightarrow> CompletedPublicationRequest \<Rightarrow> PublicationReceipt \<Rightarrow> PublicationReceipt" where
  "replay_receipt policy completed receipt = receipt
     \<lparr>pr_publication := done_publication completed, pr_version := done_version completed,
      pr_state := PublicationState.Committed, pr_reason := StatusCode.Ok,
      pr_durable := (pol_publication_durability policy = PublicationDurability.DurableMetadata),
      pr_idempotent_replay := True\<rparr>"

definition pending_record ::
  "engine \<Rightarrow> PublishRequest \<Rightarrow> ObjectRecord \<Rightarrow> ParticipantRecord \<Rightarrow> PendingPublication" where
  "pending_record e req ob participant =
     (let base = obj_authoritative_version ob
      in \<lparr>pend_id = eng_next_publication_id e, pend_object = obj_id ob,
          pend_object_generation = obj_generation ob,
          pend_version = (if is_defined base then next_id base else 1), pend_prior_version = base,
          pend_ownership_generation = obj_ownership_generation ob, pend_epoch = eng_epoch e,
          pend_writer = actx_participant (preq_context req), pend_writer_boot = par_boot participant,
          pend_request = actx_request (preq_context req), pend_content = preq_content req,
          pend_sequence = eng_sequence e, pend_durable = False\<rparr>)"

definition reserve_publication ::
  "PublishRequest \<Rightarrow> CoherencePolicy \<Rightarrow> ObjectRecord \<Rightarrow> ParticipantRecord \<Rightarrow> PublicationReceipt \<Rightarrow> engine \<Rightarrow>
   PublishTicket \<times> engine" where
  "reserve_publication req policy ob participant receipt e =
     (let e = tick e;
          pending = pending_record e req ob participant;
          ob = ob\<lparr>obj_publication_state := PublicationState.PendingDurable,
            obj_pending_publication := pend_id pending, obj_pending_version := pend_version pending,
            obj_pending_content := preq_content req, obj_updated_sequence := eng_sequence e\<rparr>
      in (\<lparr>tk_request = req,
           tk_receipt = receipt\<lparr>pr_publication := pend_id pending, pr_version := pend_version pending\<rparr>,
           tk_pending = pending,
           tk_entry = \<lparr>je_sequence = eng_next_journal_sequence e, je_body = SetPendingPublication pending\<rparr>,
           tk_durable_required = (pol_publication_durability policy = PublicationDurability.DurableMetadata
             \<and> durability_active e)\<rparr>,
          (put_object (actx_object (preq_context req)) ob e)
            \<lparr>eng_next_publication_id := eng_next_publication_id e + 1,
             eng_in_flight_publications := sm_put (pend_id pending) pending (eng_in_flight_publications e),
             eng_next_journal_sequence := eng_next_journal_sequence e + 1\<rparr>))"

datatype publish_step = Done "PublicationReceipt Result" | Reserved PublishTicket

definition publish_reserve :: "engine \<Rightarrow> PublishRequest \<Rightarrow> publish_step \<times> engine" where
  "publish_reserve e req =
     (let ctx = preq_context req;
          (authority, found, found_participant) = resolve_locked e ctx;
          (context, e) = make_context e ctx (actx_object ctx) (actx_object_generation ctx)
            (ownership_of found)
      in if authority \<noteq> StatusCode.Ok
           then (Done (Inl authority), record_decision DecisionKind.Publish context authority e)
         else let ob = the found; participant = the found_participant in
           case policy_locked e ob of
             None \<Rightarrow> (Done (Inl StatusCode.UnknownPolicy), e)
           | Some policy \<Rightarrow>
               let receipt = default_receipt
                 \<lparr>pr_context := context, pr_durability := pol_publication_durability policy,
                  pr_prior_version := obj_authoritative_version ob, pr_writer := actx_participant ctx,
                  pr_writer_boot := par_boot participant, pr_content := preq_content req\<rparr>
               in case completed_request req ob of
                    Some completed \<Rightarrow>
                      (Done (Inr (replay_receipt policy completed receipt)),
                       record_decision DecisionKind.Publish context StatusCode.Ok e)
                  | None \<Rightarrow>
                      let code = publish_guard e req policy ob
                      in if code \<noteq> StatusCode.Ok
                           then (Done (Inr (receipt\<lparr>pr_reason := code\<rparr>)),
                                 record_decision DecisionKind.Publish context code e)
                         else let (ticket, e) = reserve_publication req policy ob participant receipt e
                              in (Reserved ticket, e))"

section \<open>Phase 2: the durable record\<close>

definition publish_persist :: "engine \<Rightarrow> PublishTicket \<Rightarrow> StatusCode \<times> engine" where
  "publish_persist e ticket =
     (if \<not> tk_durable_required ticket then (StatusCode.Ok, e)
      else case eng_store e of
          None \<Rightarrow> (StatusCode.Ok, e)
        | Some store \<Rightarrow>
            let (written, store) = memory_append store (tk_entry ticket);
                e = e\<lparr>eng_store := Some store\<rparr>
            in if written \<noteq> StatusCode.Ok then (written, e\<lparr>eng_store_healthy := False\<rparr>)
               else (StatusCode.Ok, e))"

section \<open>Phase 3: commit\<close>

text \<open>The image after the pending record was written, and after a superseded reservation was
  cleared in the journal.\<close>

definition apply_pending :: "PublishTicket \<Rightarrow> engine \<Rightarrow> engine" where
  "apply_pending ticket e =
     (if \<not> tk_durable_required ticket then e
      else let (applied, durable) = apply_journal_entry (eng_durable e) (tk_entry ticket);
               e = e\<lparr>eng_durable := durable\<rparr>
           in if applied \<noteq> StatusCode.Ok then e\<lparr>eng_store_healthy := False\<rparr> else e)"

definition clear_pending :: "PublishTicket \<Rightarrow> ObjectId \<Rightarrow> engine \<Rightarrow> engine" where
  "clear_pending ticket k e =
     (if \<not> tk_durable_required ticket then e
      else let clear = \<lparr>je_sequence = eng_next_journal_sequence e, je_body = ClearPendingPublication k\<rparr>
           in e\<lparr>eng_next_journal_sequence := eng_next_journal_sequence e + 1,
                eng_store := map_option (\<lambda>store. snd (memory_append store clear)) (eng_store e),
                eng_durable := snd (apply_journal_entry (eng_durable e) clear)\<rparr>)"

text \<open>The reservation still stands.\<close>

definition reservation_valid :: "PublishTicket \<Rightarrow> ObjectRecord \<Rightarrow> bool" where
  "reservation_valid ticket ob \<longleftrightarrow>
     obj_pending_publication ob = pend_id (tk_pending ticket) \<and>
     obj_ownership_generation ob = pend_ownership_generation (tk_pending ticket) \<and>
     obj_authoritative_version ob = pend_prior_version (tk_pending ticket)"

definition remember_request ::
  "EngineConfig \<Rightarrow> OperationSequence \<Rightarrow> PublishTicket \<Rightarrow> CompletedPublicationRequest list \<Rightarrow>
   CompletedPublicationRequest list" where
  "remember_request config sequence ticket completed =
     (let request = actx_request (preq_context (tk_request ticket));
          bound = (if cfg_max_retained_requests_per_object config = 0 then 1
            else unat (cfg_max_retained_requests_per_object config));
          completed' = completed @ [\<lparr>done_request = request, done_version = pend_version (tk_pending ticket),
            done_publication = pend_id (tk_pending ticket), done_committed_sequence = sequence\<rparr>]
      in if is_defined request then drop (length completed' - bound) completed' else completed)"

definition committed_object :: "EngineConfig \<Rightarrow> OperationSequence \<Rightarrow> PublishTicket \<Rightarrow> ObjectRecord \<Rightarrow> ObjectRecord" where
  "committed_object config sequence ticket ob =
     (let pending = tk_pending ticket
      in ob
        \<lparr>obj_authoritative_version := pend_version pending, obj_published_version := pend_version pending,
         obj_publication := pend_id pending, obj_publication_state := PublicationState.Committed,
         obj_committed_sequence := sequence, obj_pending_publication := 0, obj_pending_version := 0,
         obj_pending_content := default_content_fingerprint, obj_has_unpublished_dirty := False,
         obj_dirty_condition := DirtyCondition.DirtyPublished, obj_last_writer := pend_writer pending,
         obj_last_writer_boot := pend_writer_boot pending, obj_updated_sequence := sequence,
         obj_recovery_note := [],
         obj_completed_requests := remember_request config sequence ticket (obj_completed_requests ob)\<rparr>)"

definition published_region ::
  "OperationSequence \<Rightarrow> PublishTicket \<Rightarrow> EvidenceRecord \<Rightarrow> RegionRecord \<Rightarrow> RegionRecord" where
  "published_region sequence ticket evidence region =
     (let pending = tk_pending ticket; content = preq_content (tk_request ticket)
      in region
        \<lparr>reg_state := CoherenceState.Current, reg_version := pend_version pending,
         reg_last_published_version := pend_version pending,
         reg_ownership_generation := pend_ownership_generation pending,
         reg_dirty := DirtyCondition.DirtyPublished, reg_dirty_published := True,
         reg_evidence := ev_id evidence, reg_evidence_generation := ev_generation evidence,
         reg_content := (if fp_defined content then content else reg_content region),
         reg_updated_sequence := sequence, reg_note := note_published (pend_version pending)\<rparr>)"

definition publish_to_region :: "PublishTicket \<Rightarrow> ObjectRecord \<Rightarrow> engine \<Rightarrow> engine" where
  "publish_to_region ticket ob e =
     (let k = preq_region (tk_request ticket); pending = tk_pending ticket in
      case map_of (eng_regions e) k of
        None \<Rightarrow> e
      | Some region \<Rightarrow>
          let (evidence, e) = make_evidence e EvidenceKind.ByteComparison (reg_evidence_class region)
                (pend_writer pending) (pend_writer_boot pending) (obj_id ob) (obj_generation ob)
                (reg_id region) (reg_generation region) (pend_version pending)
                (preq_content (tk_request ticket))
          in put_region k (published_region (eng_sequence e) ticket evidence region) e)"

definition commit_entries :: "PublishTicket \<Rightarrow> ObjectRecord \<Rightarrow> engine \<Rightarrow> JournalBody list" where
  "commit_entries ticket ob e =
     (let k = preq_region (tk_request ticket) in
      [object_entry ob, ClearPendingPublication (obj_id ob)] @
      map UpsertRegion (case map_of (eng_regions e) k of None \<Rightarrow> [] | Some region \<Rightarrow> [region]) @
      map UpsertRegion (List.map_filter (map_of (eng_regions e))
        (filter (\<lambda>j. j \<noteq> k) (obj_replicas ob))))"

definition commit_publication ::
  "PublishTicket \<Rightarrow> ObjectRecord \<Rightarrow> engine \<Rightarrow> PublicationReceipt Result \<times> engine" where
  "commit_publication ticket ob e =
     (let k = pend_object (tk_pending ticket);
          receipt = tk_receipt ticket;
          e = tick e;
          ob = committed_object (eng_config e) (eng_sequence e) ticket ob;
          e = publish_to_region ticket ob (put_object k ob e);
          e = mark_regions_stale (obj_id ob) (pend_version (tk_pending ticket))
            (preq_region (tk_request ticket)) e;
          (written, e) = append_many_locked e (commit_entries ticket ob e);
          e = record_decision DecisionKind.Publish (pr_context receipt) StatusCode.Ok e
      in (Inr (receipt\<lparr>pr_state := PublicationState.Committed, pr_reason := StatusCode.Ok,
            pr_durable := tk_durable_required ticket\<rparr>),
          snd (maybe_compact_locked e)))"

definition publish_commit ::
  "engine \<Rightarrow> PublishTicket \<Rightarrow> StatusCode \<Rightarrow> PublicationReceipt Result \<times> engine" where
  "publish_commit e ticket durable_status =
     (let pending = tk_pending ticket;
          receipt = tk_receipt ticket;
          e = e\<lparr>eng_in_flight_publications := sm_erase (pend_id pending) (eng_in_flight_publications e)\<rparr>
      in case map_of (eng_objects e) (pend_object pending) of
           None \<Rightarrow> (Inl StatusCode.UnknownObject, e)
         | Some ob \<Rightarrow>
             if durable_status \<noteq> StatusCode.Ok
               then (Inl durable_status,
                     record_decision DecisionKind.Publish (pr_context receipt) durable_status
                       (put_object (pend_object pending) (abort_publication ob) e))
             else let e = apply_pending ticket e in
               if \<not> reservation_valid ticket ob
                 then (Inr (receipt\<lparr>pr_state := PublicationState.Aborted,
                         pr_reason := StatusCode.OutcomeUnknown\<rparr>),
                       record_decision DecisionKind.Publish (pr_context receipt) StatusCode.OutcomeUnknown
                         (clear_pending ticket (obj_id ob)
                           (put_object (pend_object pending) (abort_publication ob) e)))
               else commit_publication ticket ob e)"

section \<open>The whole operation, uninterrupted\<close>

definition publish :: "engine \<Rightarrow> PublishRequest \<Rightarrow> PublicationReceipt Result \<times> engine" where
  "publish e req =
     (case publish_reserve e req of
        (Done result, e) \<Rightarrow> (result, e)
      | (Reserved ticket, e) \<Rightarrow>
          let (durable_status, e) = publish_persist e ticket
          in publish_commit e ticket durable_status)"

end
