(* ===== verification/Engine_Sync.thy ===== *)
theory Engine_Sync
  imports Engine_Publish
begin

text \<open>
  Release of read leases and write authority, and synchronization of a replica from a current one:
  planning, completion and failure (\<^verbatim>\<open>src/engine_ops3.cpp\<close>).
\<close>

section \<open>Release\<close>

record ReleaseRequest =
  lreq_context :: AuthorityContext
  lreq_lease :: LeaseId
  lreq_ownership_generation :: OwnershipGeneration
  lreq_release_write_authority :: bool

record ReleaseOutcome =
  ro_context :: DecisionContext
  ro_reason :: StatusCode
  ro_lease :: LeaseId
  ro_participant :: ParticipantId
  ro_boot :: ParticipantBootId
  ro_version :: VersionId
  ro_already_released :: bool

text \<open>The first grant with the lease decides; it is marked released in place.\<close>

fun release_lease :: "LeaseId \<Rightarrow> ReadGrant list \<Rightarrow> ReadGrant list" where
  "release_lease lease [] = []"
| "release_lease lease (grant # grants) =
     (if grant_lease grant = lease then grant\<lparr>grant_released := True\<rparr> # grants
      else grant # release_lease lease grants)"

definition release_read ::
  "ReleaseRequest \<Rightarrow> ObjectRecord \<Rightarrow> DecisionContext \<Rightarrow> engine \<Rightarrow> ReleaseOutcome Result \<times> engine" where
  "release_read req ob context e =
     (let ctx = lreq_context req; k = actx_object ctx in
      case find (\<lambda>g. grant_lease g = lreq_lease req) (obj_reads ob) of
        None \<Rightarrow> (Inl StatusCode.UnknownRequest, e)
      | Some grant \<Rightarrow>
          if grant_participant grant \<noteq> actx_participant ctx \<or> grant_boot grant \<noteq> actx_boot ctx
            then (Inl StatusCode.NotWriteAuthorized, e)
          else let ob = ob\<lparr>obj_reads := release_lease (lreq_lease req) (obj_reads ob)\<rparr>;
                   e = recompute_authority_locked k (put_object k ob e);
                   ob = (the (map_of (eng_objects e) k))\<lparr>obj_updated_sequence := eng_sequence e\<rparr>;
                   (written, e) = append_many_locked (put_object k ob e) [object_entry ob]
               in if written \<noteq> StatusCode.Ok then (Inl written, e)
                  else (Inr \<lparr>ro_context = context, ro_reason = StatusCode.Ok, ro_lease = lreq_lease req,
                          ro_participant = actx_participant ctx, ro_boot = actx_boot ctx,
                          ro_version = grant_version grant, ro_already_released = grant_released grant\<rparr>,
                        record_decision DecisionKind.Release context StatusCode.Ok (tick e)))"

text \<open>A replica whose unpublished modification is given up.\<close>

definition give_up_dirty :: "OperationSequence \<Rightarrow> RegionRecord \<Rightarrow> RegionRecord" where
  "give_up_dirty sequence region = region
     \<lparr>reg_dirty := DirtyCondition.DirtyLost, reg_state := CoherenceState.Stale,
      reg_note := note_never_published, reg_updated_sequence := sequence\<rparr>"

definition give_up_region :: "RegionId \<Rightarrow> engine \<times> JournalBody list \<Rightarrow> engine \<times> JournalBody list" where
  "give_up_region k s =
     (case map_of (eng_regions (fst s)) k of
        None \<Rightarrow> s
      | Some region \<Rightarrow>
          if reg_dirty region \<noteq> DirtyCondition.DirtyUnpublished then s
          else let region = give_up_dirty (eng_sequence (fst s)) region
               in (put_region k region (fst s), snd s @ [UpsertRegion region]))"

definition release_write ::
  "ReleaseRequest \<Rightarrow> ObjectRecord \<Rightarrow> DecisionContext \<Rightarrow> engine \<Rightarrow> ReleaseOutcome Result \<times> engine" where
  "release_write req ob context e =
     (let ctx = lreq_context req; k = actx_object ctx;
          e = tick e;
          dirty = obj_has_unpublished_dirty ob;
          ob = ob\<lparr>obj_ownership_generation := next_id (obj_ownership_generation ob), obj_writer := 0,
            obj_writer_boot := 0, obj_authority := AuthorityMode.NoAuthority\<rparr>;
          ob = (if dirty then lose_dirty (dirty_loss_policy_of e ob) recovery_note_released ob else ob);
          (e, entries) = (if dirty then fold give_up_region (obj_replicas ob) (e, []) else (e, []));
          e = recompute_authority_locked k (put_object k ob e);
          ob = (the (map_of (eng_objects e) k))\<lparr>obj_updated_sequence := eng_sequence e\<rparr>;
          (written, e) = append_many_locked (put_object k ob e) (entries @ [object_entry ob])
      in if written \<noteq> StatusCode.Ok then (Inl written, e)
         else (Inr \<lparr>ro_context = context, ro_reason = StatusCode.Ok, ro_lease = 0,
                 ro_participant = actx_participant ctx, ro_boot = actx_boot ctx, ro_version = 0,
                 ro_already_released = False\<rparr>,
               record_decision DecisionKind.Release context StatusCode.Ok e))"

text \<open>\<open>release\<close> makes its context only when the object was found.\<close>

definition context_if_found ::
  "engine \<Rightarrow> AuthorityContext \<Rightarrow> ObjectRecord option \<Rightarrow> DecisionContext \<times> engine" where
  "context_if_found e ctx found =
     (case found of
        None \<Rightarrow> (default_decision_context, e)
      | Some ob \<Rightarrow> make_context e ctx (actx_object ctx) (actx_object_generation ctx)
          (obj_ownership_generation ob))"

definition release :: "engine \<Rightarrow> ReleaseRequest \<Rightarrow> ReleaseOutcome Result \<times> engine" where
  "release e req =
     (let ctx = lreq_context req;
          (authority, found, participant) = resolve_locked e ctx;
          (context, e) = context_if_found e ctx found
      in if authority \<noteq> StatusCode.Ok then (Inl authority, e)
         else let ob = the found in
           if is_defined (lreq_lease req) then release_read req ob context e
           else if \<not> lreq_release_write_authority req then (Inl StatusCode.InvalidArgument, e)
           else if \<not> holds_write_authority ob ctx then (Inl StatusCode.NotWriteAuthorized, e)
           else if lreq_ownership_generation req \<noteq> obj_ownership_generation ob
             then (Inl StatusCode.StaleOwnership, e)
           else release_write req ob context e)"

section \<open>Planning a synchronization\<close>

record SyncRequest =
  sreq_context :: AuthorityContext
  sreq_kind :: SyncOperationKind
  sreq_source_region :: RegionId
  sreq_source_region_generation :: RegionGeneration
  sreq_destination_region :: RegionId
  sreq_destination_region_generation :: RegionGeneration
  sreq_ownership_generation :: OwnershipGeneration
  sreq_transport :: string

record SyncOutcome =
  so_context :: DecisionContext
  so_operation :: SyncOperationId
  so_state :: SyncState
  so_reason :: StatusCode
  so_plan :: SyncRecord
  so_idempotent_replay :: bool

definition sync_destination_check :: "engine \<Rightarrow> SyncRequest \<Rightarrow> ObjectRecord \<Rightarrow> RegionRecord Result" where
  "sync_destination_check e req ob =
     (if policy_locked e ob = None then Inl StatusCode.UnknownPolicy
      else if length (eng_syncs e) \<ge> unat (cfg_max_inflight_syncs (eng_config e))
        then Inl StatusCode.CapacityExceeded
      else case resolve_region_locked e ob (sreq_destination_region req)
             (sreq_destination_region_generation req) of
          Inl code \<Rightarrow> Inl code
        | Inr destination \<Rightarrow>
            if reg_participant destination \<noteq> actx_participant (sreq_context req)
                \<or> reg_boot destination \<noteq> actx_boot (sreq_context req)
              then Inl StatusCode.NotWriteAuthorized
            else if reg_lifecycle destination = RegionLifecycle.Retired then Inl StatusCode.Retired
            else Inr destination)"

text \<open>A nominated source must be current; otherwise the first other replica of the object that is
  current at the authoritative version is taken.\<close>

definition sync_source :: "engine \<Rightarrow> SyncRequest \<Rightarrow> ObjectRecord \<Rightarrow> RegionRecord \<Rightarrow> RegionRecord Result" where
  "sync_source e req ob destination =
     (if is_defined (sreq_source_region req)
        then (case map_of (eng_regions e) (sreq_source_region req) of
            None \<Rightarrow> Inl StatusCode.UnknownRegion
          | Some source \<Rightarrow>
              if is_defined (sreq_source_region_generation req)
                  \<and> reg_generation source \<noteq> sreq_source_region_generation req
                then Inl StatusCode.StaleRegionGeneration
              else if reg_object source \<noteq> obj_id ob then Inl StatusCode.InvalidArgument
              else if reg_state source \<noteq> CoherenceState.Current then Inl StatusCode.ReadNotCurrent
              else Inr source)
      else case find (\<lambda>k. k \<noteq> reg_id destination \<and>
            (case map_of (eng_regions e) k of
               None \<Rightarrow> False
             | Some r \<Rightarrow> reg_state r = CoherenceState.Current \<and>
                 (is_nil (obj_authoritative_version ob) \<or> reg_version r = obj_authoritative_version ob)))
            (obj_replicas ob) of
          None \<Rightarrow> Inl StatusCode.NotAuthoritative
        | Some k \<Rightarrow> if is_nil k then Inl StatusCode.NotAuthoritative
            else Inr (the (map_of (eng_regions e) k)))"

definition sync_plan ::
  "engine \<Rightarrow> SyncRequest \<Rightarrow> ObjectRecord \<Rightarrow> RegionRecord \<Rightarrow> RegionRecord \<Rightarrow> SyncRecord" where
  "sync_plan e req ob source destination =
     (let version = (if is_defined (obj_authoritative_version ob) then obj_authoritative_version ob
            else reg_version source)
      in default_sync_record
        \<lparr>sync_id := eng_next_sync_id e, sync_kind := sreq_kind req, sync_object := obj_id ob,
         sync_object_generation := obj_generation ob, sync_source_region := reg_id source,
         sync_source_region_generation := reg_generation source,
         sync_destination_region := reg_id destination,
         sync_destination_region_generation := reg_generation destination,
         sync_source_version := version, sync_destination_prior_version := reg_version destination,
         sync_extent_offset := reg_offset source, sync_extent_length := reg_length source,
         sync_expected_content := reg_content source,
         sync_ownership_generation := obj_ownership_generation ob, sync_policy := obj_policy ob,
         sync_policy_generation := obj_policy_generation ob, sync_epoch := eng_epoch e,
         sync_destination_participant := reg_participant destination,
         sync_destination_boot := reg_boot destination, sync_state := SyncState.Requested,
         sync_transport := (if sreq_transport req = [] then sync_default_transport else sreq_transport req),
         sync_postcondition := sync_postcondition_text version (reg_content source)
           (obj_ownership_generation ob),
         sync_issued_sequence := eng_sequence e\<rparr>)"

definition awaiting_sync :: "OperationSequence \<Rightarrow> SyncOperationId \<Rightarrow> RegionId \<Rightarrow> RegionRecord \<Rightarrow> RegionRecord" where
  "awaiting_sync sequence k source region = region
     \<lparr>reg_state := (if reg_state region = CoherenceState.RevalidationRequired
           \<or> reg_state region = CoherenceState.Retired \<or> reg_state region = CoherenceState.Fenced
         then reg_state region else CoherenceState.SyncRequired),
      reg_note := note_sync_requested k source, reg_updated_sequence := sequence\<rparr>"

definition begin_sync :: "engine \<Rightarrow> SyncRequest \<Rightarrow> SyncOutcome Result \<times> engine" where
  "begin_sync e req =
     (let ctx = sreq_context req;
          (authority, found, participant) = resolve_locked e ctx;
          (context, e) = context_if_found e ctx found
      in if authority \<noteq> StatusCode.Ok then (Inl authority, e)
         else let ob = the found in
           case sync_destination_check e req ob of
             Inl code \<Rightarrow> (Inl code, e)
           | Inr destination \<Rightarrow>
               (case sync_source e req ob destination of
                  Inl code \<Rightarrow> (Inl code, e)
                | Inr source \<Rightarrow>
                    let e = tick e;
                        plan = sync_plan e req ob source destination;
                        e = e\<lparr>eng_next_sync_id := eng_next_sync_id e + 1\<rparr>;
                        destination = awaiting_sync (eng_sequence e) (sync_id plan) (reg_id source) destination;
                        e = put_region (sreq_destination_region req) destination e;
                        (written, e) = append_many_locked e [UpsertSync plan, UpsertRegion destination]
                    in if written \<noteq> StatusCode.Ok then (Inl written, e)
                       else (Inr \<lparr>so_context = context, so_operation = sync_id plan,
                               so_state = sync_state plan, so_reason = StatusCode.Ok, so_plan = plan,
                               so_idempotent_replay = False\<rparr>,
                             record_decision DecisionKind.SyncBegin context StatusCode.Ok
                               (put_sync (sync_id plan) plan e))))"

section \<open>Completing a synchronization\<close>

record SyncCompleteRequest =
  creq_context :: AuthorityContext
  creq_operation :: SyncOperationId
  creq_destination_region :: RegionId
  creq_destination_region_generation :: RegionGeneration
  creq_destination_new_version :: VersionId
  creq_observed_content :: ContentFingerprint
  creq_content_moved :: bool

text \<open>The checks after the operation was found and the caller resolved, up to the destination.\<close>

definition complete_sync_guard :: "SyncCompleteRequest \<Rightarrow> SyncRecord \<Rightarrow> StatusCode" where
  "complete_sync_guard req sync =
     (if sync_state sync = SyncState.Cancelled \<or> sync_state sync = SyncState.Failed
        then StatusCode.InvalidTransition
      else if sync_destination_participant sync \<noteq> actx_participant (creq_context req)
        then StatusCode.NotWriteAuthorized
      else if sync_destination_boot sync \<noteq> actx_boot (creq_context req) then StatusCode.StaleBoot
      else if creq_destination_region req \<noteq> sync_destination_region sync
          \<or> creq_destination_region_generation req \<noteq> sync_destination_region_generation sync
        then StatusCode.StaleRegionGeneration
      else if creq_destination_new_version req \<noteq> sync_source_version sync
        then StatusCode.StaleSyncOperation
      else StatusCode.Ok)"

definition settle_sync :: "SyncState \<Rightarrow> OperationSequence \<Rightarrow> string \<Rightarrow> SyncRecord \<Rightarrow> SyncRecord" where
  "settle_sync state sequence reason sync = sync
     \<lparr>sync_state := state, sync_settled_sequence := sequence, sync_failure_reason := reason\<rparr>"

definition sync_outcome :: "DecisionContext \<Rightarrow> SyncRecord \<Rightarrow> StatusCode \<Rightarrow> SyncRecord \<Rightarrow> SyncOutcome" where
  "sync_outcome context sync reason plan =
     \<lparr>so_context = context, so_operation = sync_id sync, so_state = sync_state sync,
      so_reason = reason, so_plan = plan, so_idempotent_replay = False\<rparr>"

definition failed_destination :: "CoherenceState \<Rightarrow> string \<Rightarrow> OperationSequence \<Rightarrow> RegionRecord \<Rightarrow> RegionRecord" where
  "failed_destination state note sequence region = region
     \<lparr>reg_state := state, reg_note := note, reg_updated_sequence := sequence\<rparr>"

text \<open>A completion that fails: the operation is settled as failed and the destination is
  downgraded.  The outcome carries the plan as it was before; a failed journal write is ignored
  only on the path where no bytes were moved, which is also the one that is not recorded.\<close>

definition reject_completion ::
  "SyncOperationId \<Rightarrow> CoherenceState \<Rightarrow> string \<Rightarrow> string \<Rightarrow> StatusCode \<Rightarrow> bool \<Rightarrow> SyncRecord \<Rightarrow> RegionRecord \<Rightarrow>
   DecisionContext \<Rightarrow> engine \<Rightarrow> SyncOutcome Result \<times> engine" where
  "reject_completion k state note reason code checked sync destination context e =
     (let e = tick e;
          settled = settle_sync SyncState.Failed (eng_sequence e) reason sync;
          destination = failed_destination state note (eng_sequence e) destination;
          e = put_region (sync_destination_region sync) destination (put_sync k settled e);
          (written, e) = append_many_locked e [UpsertSync settled, UpsertRegion destination]
      in if \<not> checked then (Inr (sync_outcome context settled code sync), e)
         else if written \<noteq> StatusCode.Ok then (Inl written, e)
         else (Inr (sync_outcome context settled code sync),
               record_decision DecisionKind.SyncComplete context code e))"

definition synchronized_region ::
  "OperationSequence \<Rightarrow> SyncCompleteRequest \<Rightarrow> SyncRecord \<Rightarrow> ObjectRecord \<Rightarrow> EvidenceRecord \<Rightarrow> RegionRecord \<Rightarrow>
   RegionRecord" where
  "synchronized_region sequence req sync ob evidence region = region
     \<lparr>reg_state := CoherenceState.Current, reg_version := sync_source_version sync,
      reg_last_synced_version := sync_source_version sync,
      reg_ownership_generation := obj_ownership_generation ob, reg_dirty := DirtyCondition.Clean,
      reg_dirty_published := False,
      reg_content := (if fp_defined (creq_observed_content req) then creq_observed_content req
        else reg_content region),
      reg_evidence := ev_id evidence, reg_evidence_generation := ev_generation evidence,
      reg_note := note_synchronized (sync_source_version sync) (sync_source_region sync),
      reg_updated_sequence := sequence\<rparr>"

definition accept_completion ::
  "SyncCompleteRequest \<Rightarrow> SyncRecord \<Rightarrow> ObjectRecord \<Rightarrow> RegionRecord \<Rightarrow> DecisionContext \<Rightarrow> engine \<Rightarrow>
   SyncOutcome Result \<times> engine" where
  "accept_completion req sync ob destination context e =
     (let ctx = creq_context req;
          e = tick e;
          settled = sync\<lparr>sync_state := SyncState.Completed, sync_settled_sequence := eng_sequence e\<rparr>;
          content = (if fp_defined (creq_observed_content req) then creq_observed_content req
            else reg_content destination);
          (evidence, e) = make_evidence e
            (if creq_content_moved req \<and> fp_defined (creq_observed_content req)
               then EvidenceKind.ByteComparison else EvidenceKind.BackendCompletion)
            (reg_evidence_class destination) (actx_participant ctx) (actx_boot ctx) (obj_id ob)
            (obj_generation ob) (reg_id destination) (reg_generation destination)
            (sync_source_version sync) content;
          destination = synchronized_region (eng_sequence e) req sync ob evidence destination;
          e = put_region (sync_destination_region sync) destination (put_sync (creq_operation req) settled e);
          (written, e) = append_many_locked e [UpsertSync settled, UpsertRegion destination]
      in if written \<noteq> StatusCode.Ok then (Inl written, e)
         else (Inr (sync_outcome context settled StatusCode.Ok settled),
               record_decision DecisionKind.SyncComplete context StatusCode.Ok e))"

definition complete_sync_at ::
  "SyncCompleteRequest \<Rightarrow> SyncRecord \<Rightarrow> ObjectRecord \<Rightarrow> RegionRecord \<Rightarrow> DecisionContext \<Rightarrow> engine \<Rightarrow>
   SyncOutcome Result \<times> engine" where
  "complete_sync_at req sync ob destination context e =
     (let verify = (case policy_locked e ob of None \<Rightarrow> False
            | Some policy \<Rightarrow> pol_require_content_fingerprint policy) \<and> fp_defined (sync_expected_content sync);
          mismatch = reason_sync_mismatch (sync_expected_content sync) (creq_observed_content req)
      in if reg_lifecycle destination = RegionLifecycle.Retired
             \<or> reg_state destination = CoherenceState.Retired
           then let e = tick e;
                    settled = settle_sync SyncState.Cancelled (eng_sequence e) reason_sync_retired sync;
                    (written, e) = append_many_locked (put_sync (creq_operation req) settled e) [UpsertSync settled]
                in if written \<noteq> StatusCode.Ok then (Inl written, e)
                   else (Inr (sync_outcome context settled StatusCode.Retired settled),
                         record_decision DecisionKind.SyncComplete context StatusCode.Retired e)
         else if obj_authoritative_version ob \<noteq> sync_source_version sync
           then reject_completion (creq_operation req) CoherenceState.Stale (note_sync_superseded (sync_source_version sync))
             reason_sync_advanced StatusCode.StalePublication True sync destination context e
         else if verify \<and> \<not> creq_content_moved req
           then reject_completion (creq_operation req) CoherenceState.SyncRequired reason_sync_not_moved reason_sync_not_moved
             StatusCode.ContentMismatch False sync destination context e
         else if verify \<and> \<not> fp_eq (creq_observed_content req) (sync_expected_content sync)
           then reject_completion (creq_operation req) CoherenceState.RevalidationRequired mismatch mismatch
             StatusCode.ContentMismatch True sync destination context e
         else accept_completion req sync ob destination context e)"

definition complete_sync :: "engine \<Rightarrow> SyncCompleteRequest \<Rightarrow> SyncOutcome Result \<times> engine" where
  "complete_sync e req =
     (case map_of (eng_syncs e) (creq_operation req) of
        None \<Rightarrow> (Inl StatusCode.UnknownSyncOperation, e)
      | Some sync \<Rightarrow>
          let (authority, found, participant) = resolve_locked e (creq_context req);
              (context, e) = make_context e (creq_context req) (sync_object sync)
                (sync_object_generation sync) (sync_ownership_generation sync)
          in if authority \<noteq> StatusCode.Ok then (Inl authority, e)
             else let ob = the found in
               if obj_id ob \<noteq> sync_object sync then (Inl StatusCode.InvalidArgument, e)
               else if sync_state sync = SyncState.Completed
                 then (Inr ((sync_outcome context sync StatusCode.Ok sync)\<lparr>so_idempotent_replay := True\<rparr>), e)
               else if complete_sync_guard req sync \<noteq> StatusCode.Ok
                 then (Inl (complete_sync_guard req sync), e)
               else case map_of (eng_regions e) (sync_destination_region sync) of
                   None \<Rightarrow> (Inl StatusCode.UnknownRegion, e)
                 | Some destination \<Rightarrow> complete_sync_at req sync ob destination context e)"

section \<open>Failing a synchronization\<close>

record SyncFailRequest =
  freq_context :: AuthorityContext
  freq_operation :: SyncOperationId
  freq_cause :: StatusCode
  freq_outcome_unknown :: bool
  freq_detail :: string

definition failed_sync_region :: "OperationSequence \<Rightarrow> SyncFailRequest \<Rightarrow> string \<Rightarrow> RegionRecord \<Rightarrow> RegionRecord" where
  "failed_sync_region sequence req reason region =
     (if freq_outcome_unknown req
        then failed_destination CoherenceState.SyncRequired (note_sync_unknown reason) sequence region
      else if freq_cause req = StatusCode.ContentMismatch
        then failed_destination CoherenceState.RevalidationRequired (note_sync_mismatch reason) sequence region
      else failed_destination CoherenceState.Invalid (note_sync_failed reason) sequence region)"

definition fail_sync :: "engine \<Rightarrow> SyncFailRequest \<Rightarrow> SyncOutcome Result \<times> engine" where
  "fail_sync e req =
     (case map_of (eng_syncs e) (freq_operation req) of
        None \<Rightarrow> (Inl StatusCode.UnknownSyncOperation, e)
      | Some sync \<Rightarrow>
          let (context, e) = make_context e (freq_context req) (sync_object sync)
                (sync_object_generation sync) (sync_ownership_generation sync)
          in if sync_state sync = SyncState.Completed
               then (Inr (sync_outcome context sync StatusCode.InvalidTransition sync), e)
             else if sync_destination_participant sync \<noteq> actx_participant (freq_context req)
                 \<or> sync_destination_boot sync \<noteq> actx_boot (freq_context req)
               then (Inl StatusCode.NotWriteAuthorized, e)
             else let e = tick e;
                      reason = (if freq_detail req = [] then status_code_name (freq_cause req)
                        else freq_detail req);
                      settled = settle_sync (if freq_outcome_unknown req then SyncState.OutcomeUnknown
                        else SyncState.Failed) (eng_sequence e) reason sync;
                      e = put_sync (freq_operation req) settled e;
                      (e, entries) = (case map_of (eng_regions e) (sync_destination_region sync) of
                          None \<Rightarrow> (e, [UpsertSync settled])
                        | Some region \<Rightarrow>
                            let region = failed_sync_region (eng_sequence e) req reason region
                            in (put_region (sync_destination_region sync) region e,
                                [UpsertSync settled, UpsertRegion region]));
                      (written, e) = append_many_locked e entries
                  in if written \<noteq> StatusCode.Ok then (Inl written, e)
                     else (Inr (sync_outcome context settled StatusCode.Ok settled),
                           record_decision DecisionKind.SyncComplete context StatusCode.Ok e))"

end
