(* ===== verification/Engine_Recovery.thy ===== *)
theory Engine_Recovery
  imports Engine_Sync
begin

text \<open>
  Attaching a durable store and recovering from it (\<open>attach_store\<close> of
  \<^verbatim>\<open>src/engine_recovery.cpp\<close>): one definition per loop of the source, each a fold over the records
  of the loaded image that also keeps the report, then the write-back of the outcome.
\<close>

section \<open>Loading\<close>

definition raise_counter :: "u64 \<Rightarrow> u64 \<Rightarrow> u64" where
  "raise_counter counter k = (if is_defined k \<and> k + 1 > counter then k + 1 else counter)"

definition recovery_epoch :: "EngineConfig \<Rightarrow> DurableImage \<Rightarrow> CoordinatorEpoch" where
  "recovery_epoch config img =
     max (img_epoch img + 1) (if is_defined (cfg_initial_epoch config) then cfg_initial_epoch config else 1)"

text \<open>The engine before the records are restored: every live map and index is empty.\<close>

definition cleared_engine :: "MemoryDurableStore \<Rightarrow> DurableImage \<Rightarrow> engine \<Rightarrow> engine" where
  "cleared_engine store img e =
     (let epoch = recovery_epoch (eng_config e) img
      in e\<lparr>eng_store := Some store, eng_epoch := epoch, eng_durable := img\<lparr>img_epoch := epoch\<rparr>,
           eng_domains := [], eng_participants := [], eng_objects := [], eng_regions := [],
           eng_invalidations := [], eng_syncs := [], eng_policies := [], eng_domain_index := [],
           eng_participant_index := [], eng_object_index := [], eng_region_index := []\<rparr>)"

section \<open>Restoring one record\<close>

definition restored_domain :: "CoordinatorEpoch \<Rightarrow> DomainRecord \<Rightarrow> DomainRecord" where
  "restored_domain epoch d = d
     \<lparr>dom_current_epoch := epoch,
      dom_lifecycle := (if dom_lifecycle d = DomainLifecycle.Quiescing
        then DomainLifecycle.RecoveryRequired else dom_lifecycle d)\<rparr>"

definition restored_participant :: "ParticipantRecord \<Rightarrow> ParticipantRecord" where
  "restored_participant p = p
     \<lparr>par_live := False, par_session := 0, par_last_sequence := 0,
      par_lifecycle := (if par_lifecycle p = ParticipantLifecycle.Active
        then ParticipantLifecycle.Degraded else par_lifecycle p)\<rparr>"

definition restored_invalidation :: "OperationSequence \<Rightarrow> InvalidationRecord \<Rightarrow> InvalidationRecord" where
  "restored_invalidation sequence iv =
     (if inv_state iv = InvalidationState.Requested
        then iv\<lparr>inv_state := InvalidationState.Unknown, inv_settled_sequence := sequence,
               inv_rationale := rationale_restart\<rparr>
      else iv)"

definition sync_in_flight :: "SyncState \<Rightarrow> bool" where
  "sync_in_flight s \<longleftrightarrow> s = SyncState.Requested \<or> s = SyncState.InProgress \<or> s = SyncState.Planned
     \<or> s = SyncState.OutcomeUnknown"

definition restored_sync :: "OperationSequence \<Rightarrow> SyncRecord \<Rightarrow> SyncRecord" where
  "restored_sync sequence s =
     (if sync_in_flight (sync_state s)
        then s\<lparr>sync_state := SyncState.OutcomeUnknown, sync_settled_sequence := sequence,
              sync_failure_reason := reason_sync_restart\<rparr>
      else s)"

text \<open>A durable pending publication is completed under its own identity when the policy says so,
  and handed to an operator otherwise; a pending state without a durable record is aborted.\<close>

definition complete_pending :: "OperationSequence \<Rightarrow> PendingPublication \<Rightarrow> ObjectRecord \<Rightarrow> ObjectRecord" where
  "complete_pending sequence pending ob = ob
     \<lparr>obj_authoritative_version := pend_version pending, obj_published_version := pend_version pending,
      obj_publication := pend_id pending, obj_publication_state := PublicationState.Committed,
      obj_committed_sequence := sequence, obj_pending_publication := 0, obj_pending_version := 0,
      obj_pending_content := default_content_fingerprint, obj_has_unpublished_dirty := False,
      obj_dirty_condition := DirtyCondition.DirtyPublished, obj_last_writer := pend_writer pending,
      obj_last_writer_boot := pend_writer_boot pending,
      obj_completed_requests := obj_completed_requests ob @
        (if is_defined (pend_request pending)
           then [\<lparr>done_request = pend_request pending, done_version = pend_version pending,
                  done_publication = pend_id pending, done_committed_sequence = sequence\<rparr>]
         else []),
      obj_recovery_note := obj_recovery_note ob @ recovery_note_completed\<rparr>"

definition durable_pending :: "DurableImage \<Rightarrow> ObjectRecord \<Rightarrow> PendingPublication option" where
  "durable_pending img ob =
     (if is_defined (obj_pending_publication ob)
        then map_of (img_pending_publications img) (obj_pending_publication ob) else None)"

definition completes_pending :: "engine \<Rightarrow> ObjectRecord \<Rightarrow> bool" where
  "completes_pending e ob \<longleftrightarrow>
     (case policy_locked e ob of
        None \<Rightarrow> False | Some policy \<Rightarrow> pol_recovery_policy policy = RecoveryPolicy.CompleteDurablePending)"

definition classify_publication :: "engine \<Rightarrow> DurableImage \<Rightarrow> ObjectRecord \<Rightarrow> ObjectRecord" where
  "classify_publication e img ob =
     (case durable_pending img ob of
        Some pending \<Rightarrow>
          if completes_pending e ob then complete_pending (eng_sequence e) pending ob
          else ob\<lparr>obj_publication_state := PublicationState.RecoveryRequired,
                  obj_lifecycle := ObjectLifecycle.RecoveryRequired,
                  obj_recovery_note := obj_recovery_note ob @ recovery_note_operator\<rparr>
      | None \<Rightarrow>
          if obj_publication_state ob = PublicationState.PendingDurable
            then (abort_publication ob)\<lparr>obj_recovery_note := obj_recovery_note ob @ recovery_note_aborted\<rparr>
          else ob)"

text \<open>The dirty-loss switch of recovery keeps the note it is given.\<close>

definition classify_dirty :: "engine \<Rightarrow> ObjectRecord \<Rightarrow> ObjectRecord" where
  "classify_dirty e ob =
     (if obj_has_unpublished_dirty ob
        then let lost = lose_dirty (dirty_loss_policy_of e ob) (obj_recovery_note ob) ob
             in lost\<lparr>obj_recovery_note := obj_recovery_note lost @ recovery_note_dirty\<rparr>
      else ob)"

definition restored_object :: "engine \<Rightarrow> DurableImage \<Rightarrow> ObjectRecord \<Rightarrow> ObjectRecord" where
  "restored_object e img stored =
     (let ob = stored
            \<lparr>obj_authority := AuthorityMode.RevalidationRequired, obj_writer := 0, obj_writer_boot := 0,
             obj_reads := [], obj_outstanding_invalidations := [],
             obj_updated_sequence := eng_sequence e,
             obj_recovery_note := recovery_note_epoch (img_epoch img) (eng_epoch e)\<rparr>;
          ob = classify_dirty e (classify_publication e img ob)
      in ob\<lparr>obj_lifecycle := (if obj_lifecycle ob = ObjectLifecycle.Quiescing
           then ObjectLifecycle.RecoveryRequired else obj_lifecycle ob)\<rparr>)"

definition terminal_region :: "RegionRecord \<Rightarrow> bool" where
  "terminal_region r \<longleftrightarrow> reg_state r = CoherenceState.Retired \<or> reg_lifecycle r = RegionLifecycle.Retired"

definition downgraded_region :: "OperationSequence \<Rightarrow> RegionRecord \<Rightarrow> RegionRecord" where
  "downgraded_region sequence r = r
     \<lparr>reg_state := (if terminal_region r then CoherenceState.Retired
        else if reg_state r = CoherenceState.Fenced then CoherenceState.Fenced
        else CoherenceState.RevalidationRequired),
      reg_invalidation_pending := False, reg_pending_invalidation := 0,
      reg_pending_invalidation_target := 0, reg_updated_sequence := sequence\<rparr>"

section \<open>The loops\<close>

type_synonym recovery = "engine \<times> RecoveryReport"

definition restore_domain :: "CoherenceDomainId \<times> DomainRecord \<Rightarrow> recovery \<Rightarrow> recovery" where
  "restore_domain kd s =
     (let (k, stored) = kd; (e, report) = s in
      if k \<noteq> dom_id stored then s
      else let d = restored_domain (eng_epoch e) stored
           in (e\<lparr>eng_domains := sm_emplace (dom_id d) d (eng_domains e),
                 eng_domain_index := sm_emplace (dom_name d) (dom_id d) (eng_domain_index e),
                 eng_next_domain_id := raise_counter (eng_next_domain_id e) (dom_id d)\<rparr>, report))"

definition restore_participant :: "ParticipantId \<times> ParticipantRecord \<Rightarrow> recovery \<Rightarrow> recovery" where
  "restore_participant kp s =
     (let (k, stored) = kp; (e, report) = s in
      if k \<noteq> par_id stored then s
      else let p = restored_participant stored
           in (e\<lparr>eng_participants := sm_emplace (par_id p) p (eng_participants e),
                 eng_participant_index := sm_emplace (par_name p) (par_id p) (eng_participant_index e),
                 eng_next_participant_id := raise_counter (eng_next_participant_id e) (par_id p)\<rparr>,
               report\<lparr>rep_participants_restored := rep_participants_restored report + 1\<rparr>))"

definition restore_policy :: "PolicyId \<times> CoherencePolicy \<Rightarrow> recovery \<Rightarrow> recovery" where
  "restore_policy kp s =
     (let (k, policy) = kp; (e, report) = s in
      if k \<noteq> pol_id policy then s
      else (e\<lparr>eng_policies := sm_emplace (pol_id policy) policy (eng_policies e),
              eng_next_policy_id := raise_counter (eng_next_policy_id e) (pol_id policy)\<rparr>, report))"

definition restore_invalidation :: "InvalidationId \<times> InvalidationRecord \<Rightarrow> recovery \<Rightarrow> recovery" where
  "restore_invalidation ki s =
     (let (k, stored) = ki; (e, report) = s in
      if k \<noteq> inv_id stored then s
      else let iv = restored_invalidation (eng_sequence e) stored
           in (e\<lparr>eng_invalidations := sm_emplace (inv_id iv) iv (eng_invalidations e),
                 eng_next_invalidation_id := raise_counter (eng_next_invalidation_id e) (inv_id iv)\<rparr>,
               if inv_state stored = InvalidationState.Requested
                 then report\<lparr>rep_invalidations_superseded := rep_invalidations_superseded report + 1\<rparr>
               else report))"

definition restore_sync :: "SyncOperationId \<times> SyncRecord \<Rightarrow> recovery \<Rightarrow> recovery" where
  "restore_sync ks s =
     (let (k, stored) = ks; (e, report) = s in
      if k \<noteq> sync_id stored then s
      else let sync = restored_sync (eng_sequence e) stored
           in (e\<lparr>eng_syncs := sm_emplace (sync_id sync) sync (eng_syncs e),
                 eng_next_sync_id := raise_counter (eng_next_sync_id e) (sync_id sync)\<rparr>,
               if sync_in_flight (sync_state stored)
                 then report\<lparr>rep_syncs_classified_unknown := rep_syncs_classified_unknown report + 1\<rparr>
               else report))"

definition restore_object :: "DurableImage \<Rightarrow> ObjectId \<times> ObjectRecord \<Rightarrow> recovery \<Rightarrow> recovery" where
  "restore_object img ko s =
     (let (k, stored) = ko; (e, report) = s in
      if k \<noteq> obj_id stored then s
      else let ob = restored_object e img stored;
               pending = durable_pending img stored \<noteq> None
           in (e\<lparr>eng_objects := sm_emplace (obj_id ob) ob (eng_objects e),
                 eng_object_index := sm_emplace (obj_domain ob, obj_name ob) (obj_id ob) (eng_object_index e),
                 eng_next_object_id := raise_counter (eng_next_object_id e) (obj_id ob)\<rparr>,
               report
                 \<lparr>rep_authority_revoked := rep_authority_revoked report + 1,
                  rep_objects_restored := rep_objects_restored report + 1,
                  rep_publications_completed := rep_publications_completed report +
                    (if pending \<and> completes_pending e stored then 1 else 0),
                  rep_publications_requiring_operator := rep_publications_requiring_operator report +
                    (if pending \<and> \<not> completes_pending e stored then 1 else 0)\<rparr>))"

definition restore_region :: "RegionId \<times> RegionRecord \<Rightarrow> recovery \<Rightarrow> recovery" where
  "restore_region kr s =
     (let (k, stored) = kr; (e, report) = s in
      if k \<noteq> reg_id stored then s
      else let region = downgraded_region (eng_sequence e) stored;
               (region, e) =
                 (if terminal_region stored then (region, e)
                  else let (evidence, e) = make_evidence e EvidenceKind.PersistedMetadata
                             (reg_evidence_class region) (reg_participant region) (reg_boot region)
                             (reg_object region) (reg_object_generation region) (reg_id region)
                             (reg_generation region) (reg_version region) (reg_content region)
                       in (region\<lparr>reg_evidence := ev_id evidence,
                             reg_evidence_generation := ev_generation evidence,
                             reg_note := note_restored\<rparr>, e))
           in (e\<lparr>eng_regions := sm_emplace (reg_id region) region (eng_regions e),
                 eng_region_index := (if reg_lifecycle region \<noteq> RegionLifecycle.Retired
                   then sm_emplace (reg_object region, reg_name region) (reg_id region) (eng_region_index e)
                   else eng_region_index e),
                 eng_next_region_id := raise_counter (eng_next_region_id e) (reg_id region),
                 eng_next_replica_id := raise_counter (eng_next_replica_id e) (reg_replica region)\<rparr>,
               report
                 \<lparr>rep_regions_downgraded := rep_regions_downgraded report +
                    (if \<not> terminal_region stored \<and> reg_state stored \<noteq> CoherenceState.Fenced
                       \<and> reg_state stored \<noteq> CoherenceState.RevalidationRequired then 1 else 0),
                  rep_regions_restored := rep_regions_restored report + 1\<rparr>))"

text \<open>The restored engine, before the outcome is written back.\<close>

definition restore_image :: "MemoryDurableStore \<Rightarrow> LoadReport \<Rightarrow> DurableImage \<Rightarrow> engine \<Rightarrow> recovery" where
  "restore_image store load img e =
     (let e' = cleared_engine store img e;
          report = empty_recovery_report
            \<lparr>rep_performed := True, rep_journal_records_replayed := lr_journal_records_replayed load,
             rep_corrupt_records_skipped := lr_corrupt_records load,
             rep_previous_epoch := img_epoch img, rep_new_epoch := eng_epoch e'\<rparr>;
          s = fold restore_domain (img_domains img) (e', report);
          s = fold restore_participant (img_participants img) s;
          s = fold restore_policy (img_policies img) s;
          s = fold restore_invalidation (img_invalidations img) s;
          s = fold restore_sync (img_syncs img) s;
          s = fold (restore_object img) (img_objects img) s;
          (e', report) = fold restore_region (img_regions img) s
      in (retotal_participant_regions (e'
            \<lparr>eng_next_journal_sequence := raise_counter (eng_next_journal_sequence e') (img_sequence img)\<rparr>),
          report))"

definition recovery_entries :: "DurableImage \<Rightarrow> engine \<Rightarrow> JournalBody list" where
  "recovery_entries img e =
     SetEpoch (eng_epoch e) #
     map (\<lambda>p. UpsertParticipant (scrub_participant_for_persistence p)) (sm_values (eng_participants e)) @
     map object_entry (sm_values (eng_objects e)) @
     map UpsertRegion (sm_values (eng_regions e)) @
     map UpsertInvalidation (sm_values (eng_invalidations e)) @
     map UpsertSync (sm_values (eng_syncs e)) @
     map (\<lambda>pending. ClearPendingPublication (pend_object pending)) (sm_values (img_pending_publications img))"

text \<open>The write-back: a failed write leaves the store marked unhealthy, and recovery stands.\<close>

definition finish_recovery :: "DurableImage \<Rightarrow> recovery \<Rightarrow> RecoveryReport Result \<times> engine" where
  "finish_recovery img s =
     (let (e, report) = s;
          (written, e) = append_many_locked e (recovery_entries img e);
          e = (if written \<noteq> StatusCode.Ok then e\<lparr>eng_store_healthy := False\<rparr> else e);
          e = tick ((compact_locked e)\<lparr>eng_recovery_performed := True\<rparr>);
          (context, e) = make_context e default_authority_context 0 0 0;
          e = record_decision DecisionKind.Recover context StatusCode.Ok e
      in (Inr report, e\<lparr>eng_recovery_report := report\<rparr>))"

definition attach_store :: "engine \<Rightarrow> MemoryDurableStore option \<Rightarrow> RecoveryReport Result \<times> engine" where
  "attach_store e given =
     (case given of
        None \<Rightarrow> (Inl StatusCode.InvalidArgument, e)
      | Some store \<Rightarrow>
          if eng_store e \<noteq> None then (Inl StatusCode.InvalidState, e)
          else if eng_domains e \<noteq> [] \<or> eng_objects e \<noteq> [] \<or> eng_regions e \<noteq> []
              \<or> eng_participants e \<noteq> []
            then (Inl StatusCode.InvalidState, e)
          else (case memory_open store of
              (Inl code, store) \<Rightarrow> (Inl code, e)
            | (Inr (load, img), store) \<Rightarrow> finish_recovery img (restore_image store load img e)))"

end
