(* ===== verification/Wire.thy ===== *)
theory Wire
  imports Engine_Recovery
begin

text \<open>
  The codecs of decisions, outcomes and requests on the control connection
  (\<^verbatim>\<open>src/codec_decisions.cpp\<close>), field by field in the order the source writes them.  Decisions and
  outcomes carry a rationale text that the engine model leaves out; on the wire it stands beside the
  record, so those codecs work on pairs.  Every codec is an interpretation of \<open>record_codec\<close>.
\<close>

section \<open>Status codes and decision contexts\<close>

definition enc_code :: "StatusCode \<Rightarrow> bytes" where
  "enc_code code = w_u16 (status_code_to_u16 code)"

text \<open>The declared code with a number, if there is one.\<close>

definition code_of_u16 :: "u16 \<Rightarrow> StatusCode option" where
  "code_of_u16 raw = find (\<lambda>code. status_code_to_u16 code = raw) (map fst kCodes)"

definition dec_code :: "StatusCode reader" where
  "dec_code r =
     rbind (r_u16 r) (\<lambda>(raw, r).
     case code_of_u16 raw of None \<Rightarrow> Inl Refused | Some code \<Rightarrow> Inr (code, r))"

definition enc_context :: "DecisionContext \<Rightarrow> bytes" where
  "enc_context v =
     w_u64 (dc_decision v) @ w_u64 (dc_epoch v) @ w_u64 (dc_policy v) @ w_u64 (dc_policy_generation v) @
     w_u64 (dc_object v) @ w_u64 (dc_object_generation v) @ w_u64 (dc_ownership_generation v) @
     w_u64 (dc_sequence v)"

definition dec_context :: "DecisionContext reader" where
  "dec_context r =
     rbind (r_u64 r) (\<lambda>(v_decision, r).
     rbind (r_u64 r) (\<lambda>(v_epoch, r).
     rbind (r_u64 r) (\<lambda>(v_policy, r).
     rbind (r_u64 r) (\<lambda>(v_policy_generation, r).
     rbind (r_u64 r) (\<lambda>(v_object, r).
     rbind (r_u64 r) (\<lambda>(v_object_generation, r).
     rbind (r_u64 r) (\<lambda>(v_ownership_generation, r).
     rbind (r_u64 r) (\<lambda>(v_sequence, r).
     Inr (\<lparr>dc_decision = v_decision, dc_epoch = v_epoch, dc_policy = v_policy,
        dc_policy_generation = v_policy_generation, dc_object = v_object,
        dc_object_generation = v_object_generation,
        dc_ownership_generation = v_ownership_generation, dc_sequence = v_sequence\<rparr>, r)))))))))"

section \<open>Decisions\<close>

definition encode_read_decision :: "ReadDecision \<times> string \<Rightarrow> bytes" where
  "encode_read_decision value =
     (case value of (v, rationale) \<Rightarrow>
     w_u16 kRecordVersion @
     enc_context (rd_context v) @
     enc_enum read_outcome_to_u8 (rd_outcome v) @
     enc_code (rd_reason v) @
     w_u64 (rd_region v) @
     w_u64 (rd_region_generation v) @
     enc_enum coherence_state_to_u8 (rd_region_state v) @
     w_u64 (rd_authoritative_version v) @
     w_u64 (rd_region_version v) @
     w_u64 (rd_staleness v) @
     w_boolean (rd_staleness_known v) @
     w_boolean (rd_sync_required v) @
     w_boolean (rd_stale_allowed v) @
     w_boolean (rd_evidence_fresh v) @
     w_u64 (rd_evidence v) @
     w_u64 (rd_evidence_generation v) @
     enc_enum evidence_class_to_u8 (rd_evidence_class v) @
     w_u64 (rd_required_sync v) @
     w_u64 (rd_lease v) @
     w_text rationale)"

definition decode_read_decision :: "DecodeLimits \<Rightarrow> (ReadDecision \<times> string) reader" where
  "decode_read_decision limits r =
     rbind (dec_header kRecordVersion r) (\<lambda>r.
     rbind (dec_context r) (\<lambda>(v_context, r).
     rbind (dec_enum read_outcome_from_u8 r) (\<lambda>(v_outcome, r).
     rbind (dec_code r) (\<lambda>(v_reason, r).
     rbind (r_u64 r) (\<lambda>(v_region, r).
     rbind (r_u64 r) (\<lambda>(v_region_generation, r).
     rbind (dec_enum coherence_state_from_u8 r) (\<lambda>(v_region_state, r).
     rbind (r_u64 r) (\<lambda>(v_authoritative_version, r).
     rbind (r_u64 r) (\<lambda>(v_region_version, r).
     rbind (r_u64 r) (\<lambda>(v_staleness, r).
     rbind (r_boolean r) (\<lambda>(v_staleness_known, r).
     rbind (r_boolean r) (\<lambda>(v_sync_required, r).
     rbind (r_boolean r) (\<lambda>(v_stale_allowed, r).
     rbind (r_boolean r) (\<lambda>(v_evidence_fresh, r).
     rbind (r_u64 r) (\<lambda>(v_evidence, r).
     rbind (r_u64 r) (\<lambda>(v_evidence_generation, r).
     rbind (dec_enum evidence_class_from_u8 r) (\<lambda>(v_evidence_class, r).
     rbind (r_u64 r) (\<lambda>(v_required_sync, r).
     rbind (r_u64 r) (\<lambda>(v_lease, r).
     rbind (dec_text limits r) (\<lambda>(rationale, r).
     Inr ((\<lparr>rd_context = v_context, rd_outcome = v_outcome, rd_reason = v_reason, rd_region
        = v_region, rd_region_generation = v_region_generation, rd_region_state =
        v_region_state, rd_authoritative_version = v_authoritative_version, rd_region_version =
        v_region_version, rd_staleness = v_staleness, rd_staleness_known = v_staleness_known,
        rd_sync_required = v_sync_required, rd_stale_allowed = v_stale_allowed,
        rd_evidence_fresh = v_evidence_fresh, rd_evidence = v_evidence, rd_evidence_generation =
        v_evidence_generation, rd_evidence_class = v_evidence_class, rd_required_sync =
        v_required_sync, rd_lease = v_lease\<rparr>, rationale), r)))))))))))))))))))))"

definition encode_write_grant :: "WriteGrant \<times> string \<Rightarrow> bytes" where
  "encode_write_grant value =
     (case value of (v, rationale) \<Rightarrow>
     w_u16 kRecordVersion @
     enc_context (wg_context v) @
     w_boolean (wg_granted v) @
     enc_code (wg_reason v) @
     w_u64 (wg_writer v) @
     w_uuid (wg_writer_boot v) @
     w_u64 (wg_base_version v) @
     w_u64 (wg_authoritative_version v) @
     w_u64 (wg_writer_region v) @
     w_u64 (wg_writer_region_generation v) @
     w_collection encode_invalidation (wg_required_invalidations v) @
     w_boolean (wg_may_mutate_now v) @
     w_text rationale)"

definition decode_write_grant :: "DecodeLimits \<Rightarrow> (WriteGrant \<times> string) reader" where
  "decode_write_grant limits r =
     rbind (dec_header kRecordVersion r) (\<lambda>r.
     rbind (dec_context r) (\<lambda>(v_context, r).
     rbind (r_boolean r) (\<lambda>(v_granted, r).
     rbind (dec_code r) (\<lambda>(v_reason, r).
     rbind (r_u64 r) (\<lambda>(v_writer, r).
     rbind (r_uuid r) (\<lambda>(v_writer_boot, r).
     rbind (r_u64 r) (\<lambda>(v_base_version, r).
     rbind (r_u64 r) (\<lambda>(v_authoritative_version, r).
     rbind (r_u64 r) (\<lambda>(v_writer_region, r).
     rbind (r_u64 r) (\<lambda>(v_writer_region_generation, r).
     rbind (r_collection limits (decode_invalidation limits) r) (\<lambda>(v_required_invalidations, r).
     rbind (r_boolean r) (\<lambda>(v_may_mutate_now, r).
     rbind (dec_text limits r) (\<lambda>(rationale, r).
     Inr ((\<lparr>wg_context = v_context, wg_granted = v_granted, wg_reason = v_reason, wg_writer
        = v_writer, wg_writer_boot = v_writer_boot, wg_base_version = v_base_version,
        wg_authoritative_version = v_authoritative_version, wg_writer_region = v_writer_region,
        wg_writer_region_generation = v_writer_region_generation, wg_required_invalidations =
        v_required_invalidations, wg_may_mutate_now = v_may_mutate_now\<rparr>, rationale), r))))))))))))))"

definition encode_publication :: "PublicationReceipt \<times> string \<Rightarrow> bytes" where
  "encode_publication value =
     (case value of (v, rationale) \<Rightarrow>
     w_u16 kRecordVersion @
     enc_context (pr_context v) @
     w_u64 (pr_publication v) @
     enc_enum publication_state_to_u8 (pr_state v) @
     enc_code (pr_reason v) @
     w_u64 (pr_version v) @
     w_u64 (pr_prior_version v) @
     w_u64 (pr_writer v) @
     w_uuid (pr_writer_boot v) @
     encode_fingerprint (pr_content v) @
     enc_enum publication_durability_to_u8 (pr_durability v) @
     w_boolean (pr_durable v) @
     w_boolean (pr_idempotent_replay v) @
     w_boolean (pr_completed_by_recovery v) @
     w_text rationale)"

definition decode_publication :: "DecodeLimits \<Rightarrow> (PublicationReceipt \<times> string) reader" where
  "decode_publication limits r =
     rbind (dec_header kRecordVersion r) (\<lambda>r.
     rbind (dec_context r) (\<lambda>(v_context, r).
     rbind (r_u64 r) (\<lambda>(v_publication, r).
     rbind (dec_enum publication_state_from_u8 r) (\<lambda>(v_state, r).
     rbind (dec_code r) (\<lambda>(v_reason, r).
     rbind (r_u64 r) (\<lambda>(v_version, r).
     rbind (r_u64 r) (\<lambda>(v_prior_version, r).
     rbind (r_u64 r) (\<lambda>(v_writer, r).
     rbind (r_uuid r) (\<lambda>(v_writer_boot, r).
     rbind (decode_fingerprint limits r) (\<lambda>(v_content, r).
     rbind (dec_enum durability_from_u8 r) (\<lambda>(v_durability, r).
     rbind (r_boolean r) (\<lambda>(v_durable, r).
     rbind (r_boolean r) (\<lambda>(v_idempotent_replay, r).
     rbind (r_boolean r) (\<lambda>(v_completed_by_recovery, r).
     rbind (dec_text limits r) (\<lambda>(rationale, r).
     Inr ((\<lparr>pr_context = v_context, pr_publication = v_publication, pr_state = v_state,
        pr_reason = v_reason, pr_version = v_version, pr_prior_version = v_prior_version,
        pr_writer = v_writer, pr_writer_boot = v_writer_boot, pr_content = v_content,
        pr_durability = v_durability, pr_durable = v_durable, pr_idempotent_replay =
        v_idempotent_replay, pr_completed_by_recovery = v_completed_by_recovery\<rparr>, rationale), r))))))))))))))))"

definition encode_invalidation_outcome :: "InvalidationOutcome \<times> string \<Rightarrow> bytes" where
  "encode_invalidation_outcome value =
     (case value of (v, rationale) \<Rightarrow>
     w_u16 kRecordVersion @
     enc_context (io_context v) @
     w_u64 (io_invalidation v) @
     enc_enum invalidation_state_to_u8 (io_state v) @
     enc_code (io_reason v) @
     w_u64 (io_region v) @
     w_u64 (io_region_generation v) @
     w_u64 (io_replica_generation v) @
     w_boolean (io_idempotent_replay v) @
     w_text rationale)"

definition decode_invalidation_outcome :: "DecodeLimits \<Rightarrow> (InvalidationOutcome \<times> string) reader" where
  "decode_invalidation_outcome limits r =
     rbind (dec_header kRecordVersion r) (\<lambda>r.
     rbind (dec_context r) (\<lambda>(v_context, r).
     rbind (r_u64 r) (\<lambda>(v_invalidation, r).
     rbind (dec_enum invalidation_state_from_u8 r) (\<lambda>(v_state, r).
     rbind (dec_code r) (\<lambda>(v_reason, r).
     rbind (r_u64 r) (\<lambda>(v_region, r).
     rbind (r_u64 r) (\<lambda>(v_region_generation, r).
     rbind (r_u64 r) (\<lambda>(v_replica_generation, r).
     rbind (r_boolean r) (\<lambda>(v_idempotent_replay, r).
     rbind (dec_text limits r) (\<lambda>(rationale, r).
     Inr ((\<lparr>io_context = v_context, io_invalidation = v_invalidation, io_state = v_state,
        io_reason = v_reason, io_region = v_region, io_region_generation = v_region_generation,
        io_replica_generation = v_replica_generation, io_idempotent_replay =
        v_idempotent_replay\<rparr>, rationale), r)))))))))))"

definition encode_sync_outcome :: "SyncOutcome \<times> string \<Rightarrow> bytes" where
  "encode_sync_outcome value =
     (case value of (v, rationale) \<Rightarrow>
     w_u16 kRecordVersion @
     enc_context (so_context v) @
     w_u64 (so_operation v) @
     enc_enum sync_state_to_u8 (so_state v) @
     enc_code (so_reason v) @
     encode_sync (so_plan v) @
     w_boolean (so_idempotent_replay v) @
     w_text rationale)"

definition decode_sync_outcome :: "DecodeLimits \<Rightarrow> (SyncOutcome \<times> string) reader" where
  "decode_sync_outcome limits r =
     rbind (dec_header kRecordVersion r) (\<lambda>r.
     rbind (dec_context r) (\<lambda>(v_context, r).
     rbind (r_u64 r) (\<lambda>(v_operation, r).
     rbind (dec_enum sync_state_from_u8 r) (\<lambda>(v_state, r).
     rbind (dec_code r) (\<lambda>(v_reason, r).
     rbind (decode_sync limits r) (\<lambda>(v_plan, r).
     rbind (r_boolean r) (\<lambda>(v_idempotent_replay, r).
     rbind (dec_text limits r) (\<lambda>(rationale, r).
     Inr ((\<lparr>so_context = v_context, so_operation = v_operation, so_state = v_state,
        so_reason = v_reason, so_plan = v_plan, so_idempotent_replay =
        v_idempotent_replay\<rparr>, rationale), r)))))))))"

definition encode_release_outcome :: "ReleaseOutcome \<times> string \<Rightarrow> bytes" where
  "encode_release_outcome value =
     (case value of (v, rationale) \<Rightarrow>
     w_u16 kRecordVersion @
     enc_context (ro_context v) @
     enc_code (ro_reason v) @
     w_u64 (ro_lease v) @
     w_u64 (ro_participant v) @
     w_uuid (ro_boot v) @
     w_u64 (ro_version v) @
     w_boolean (ro_already_released v) @
     w_text rationale)"

definition decode_release_outcome :: "DecodeLimits \<Rightarrow> (ReleaseOutcome \<times> string) reader" where
  "decode_release_outcome limits r =
     rbind (dec_header kRecordVersion r) (\<lambda>r.
     rbind (dec_context r) (\<lambda>(v_context, r).
     rbind (dec_code r) (\<lambda>(v_reason, r).
     rbind (r_u64 r) (\<lambda>(v_lease, r).
     rbind (r_u64 r) (\<lambda>(v_participant, r).
     rbind (r_uuid r) (\<lambda>(v_boot, r).
     rbind (r_u64 r) (\<lambda>(v_version, r).
     rbind (r_boolean r) (\<lambda>(v_already_released, r).
     rbind (dec_text limits r) (\<lambda>(rationale, r).
     Inr ((\<lparr>ro_context = v_context, ro_reason = v_reason, ro_lease = v_lease, ro_participant
        = v_participant, ro_boot = v_boot, ro_version = v_version, ro_already_released =
        v_already_released\<rparr>, rationale), r))))))))))"

section \<open>Requests\<close>

definition encode_read_request :: "ReadRequest \<Rightarrow> bytes" where
  "encode_read_request v =
     w_u16 kRecordVersion @
     encode_authority_context (rreq_context v) @
     w_u64 (rreq_region v) @
     w_u64 (rreq_region_generation v) @
     w_u64 (rreq_snapshot_version v) @
     w_boolean (rreq_require_current v)"

definition decode_read_request :: "ReadRequest reader" where
  "decode_read_request r =
     rbind (dec_header kRecordVersion r) (\<lambda>r.
     rbind (decode_authority_context r) (\<lambda>(v_context, r).
     rbind (r_u64 r) (\<lambda>(v_region, r).
     rbind (r_u64 r) (\<lambda>(v_region_generation, r).
     rbind (r_u64 r) (\<lambda>(v_snapshot_version, r).
     rbind (r_boolean r) (\<lambda>(v_require_current, r).
     Inr (\<lparr>rreq_context = v_context, rreq_region = v_region, rreq_region_generation =
        v_region_generation, rreq_snapshot_version = v_snapshot_version, rreq_require_current =
        v_require_current\<rparr>, r)))))))"

definition encode_write_request :: "WriteRequest \<Rightarrow> bytes" where
  "encode_write_request v =
     w_u16 kRecordVersion @
     encode_authority_context (wreq_context v) @
     w_u64 (wreq_region v) @
     w_u64 (wreq_region_generation v)"

definition decode_write_request :: "WriteRequest reader" where
  "decode_write_request r =
     rbind (dec_header kRecordVersion r) (\<lambda>r.
     rbind (decode_authority_context r) (\<lambda>(v_context, r).
     rbind (r_u64 r) (\<lambda>(v_region, r).
     rbind (r_u64 r) (\<lambda>(v_region_generation, r).
     Inr (\<lparr>wreq_context = v_context, wreq_region = v_region, wreq_region_generation =
        v_region_generation\<rparr>, r)))))"

definition encode_dirty_request :: "DirtyRequest \<Rightarrow> bytes" where
  "encode_dirty_request v =
     w_u16 kRecordVersion @
     encode_authority_context (dreq_context v) @
     w_u64 (dreq_region v) @
     w_u64 (dreq_region_generation v) @
     w_u64 (dreq_ownership_generation v) @
     w_u64 (dreq_base_version v) @
     encode_fingerprint (dreq_content v)"

definition decode_dirty_request :: "DecodeLimits \<Rightarrow> DirtyRequest reader" where
  "decode_dirty_request limits r =
     rbind (dec_header kRecordVersion r) (\<lambda>r.
     rbind (decode_authority_context r) (\<lambda>(v_context, r).
     rbind (r_u64 r) (\<lambda>(v_region, r).
     rbind (r_u64 r) (\<lambda>(v_region_generation, r).
     rbind (r_u64 r) (\<lambda>(v_ownership_generation, r).
     rbind (r_u64 r) (\<lambda>(v_base_version, r).
     rbind (decode_fingerprint limits r) (\<lambda>(v_content, r).
     Inr (\<lparr>dreq_context = v_context, dreq_region = v_region, dreq_region_generation =
        v_region_generation, dreq_ownership_generation = v_ownership_generation,
        dreq_base_version = v_base_version, dreq_content = v_content\<rparr>, r))))))))"

definition encode_publish_request :: "PublishRequest \<Rightarrow> bytes" where
  "encode_publish_request v =
     w_u16 kRecordVersion @
     encode_authority_context (preq_context v) @
     w_u64 (preq_ownership_generation v) @
     w_u64 (preq_region v) @
     w_u64 (preq_region_generation v) @
     w_u64 (preq_expected_base_version v) @
     encode_fingerprint (preq_content v) @
     w_boolean (preq_allow_without_dirty v)"

definition decode_publish_request :: "DecodeLimits \<Rightarrow> PublishRequest reader" where
  "decode_publish_request limits r =
     rbind (dec_header kRecordVersion r) (\<lambda>r.
     rbind (decode_authority_context r) (\<lambda>(v_context, r).
     rbind (r_u64 r) (\<lambda>(v_ownership_generation, r).
     rbind (r_u64 r) (\<lambda>(v_region, r).
     rbind (r_u64 r) (\<lambda>(v_region_generation, r).
     rbind (r_u64 r) (\<lambda>(v_expected_base_version, r).
     rbind (decode_fingerprint limits r) (\<lambda>(v_content, r).
     rbind (r_boolean r) (\<lambda>(v_allow_without_dirty, r).
     Inr (\<lparr>preq_context = v_context, preq_ownership_generation = v_ownership_generation,
        preq_region = v_region, preq_region_generation = v_region_generation,
        preq_expected_base_version = v_expected_base_version, preq_content = v_content,
        preq_allow_without_dirty = v_allow_without_dirty\<rparr>, r)))))))))"

definition encode_release_request :: "ReleaseRequest \<Rightarrow> bytes" where
  "encode_release_request v =
     w_u16 kRecordVersion @
     encode_authority_context (lreq_context v) @
     w_u64 (lreq_lease v) @
     w_u64 (lreq_ownership_generation v) @
     w_boolean (lreq_release_write_authority v)"

definition decode_release_request :: "ReleaseRequest reader" where
  "decode_release_request r =
     rbind (dec_header kRecordVersion r) (\<lambda>r.
     rbind (decode_authority_context r) (\<lambda>(v_context, r).
     rbind (r_u64 r) (\<lambda>(v_lease, r).
     rbind (r_u64 r) (\<lambda>(v_ownership_generation, r).
     rbind (r_boolean r) (\<lambda>(v_release_write_authority, r).
     Inr (\<lparr>lreq_context = v_context, lreq_lease = v_lease, lreq_ownership_generation =
        v_ownership_generation, lreq_release_write_authority = v_release_write_authority\<rparr>, r))))))"

definition encode_invalidation_request :: "InvalidationRequest \<Rightarrow> bytes" where
  "encode_invalidation_request v =
     w_u16 kRecordVersion @
     encode_authority_context (ireq_context v) @
     w_u64 (ireq_target_region v) @
     w_u64 (ireq_target_region_generation v) @
     w_u64 (ireq_target_replica_generation v) @
     w_u64 (ireq_ownership_generation v) @
     w_u64 (ireq_published_version v) @
     w_boolean (ireq_acknowledgement_required v)"

definition decode_invalidation_request :: "InvalidationRequest reader" where
  "decode_invalidation_request r =
     rbind (dec_header kRecordVersion r) (\<lambda>r.
     rbind (decode_authority_context r) (\<lambda>(v_context, r).
     rbind (r_u64 r) (\<lambda>(v_target_region, r).
     rbind (r_u64 r) (\<lambda>(v_target_region_generation, r).
     rbind (r_u64 r) (\<lambda>(v_target_replica_generation, r).
     rbind (r_u64 r) (\<lambda>(v_ownership_generation, r).
     rbind (r_u64 r) (\<lambda>(v_published_version, r).
     rbind (r_boolean r) (\<lambda>(v_acknowledgement_required, r).
     Inr (\<lparr>ireq_context = v_context, ireq_target_region = v_target_region,
        ireq_target_region_generation = v_target_region_generation,
        ireq_target_replica_generation = v_target_replica_generation, ireq_ownership_generation
        = v_ownership_generation, ireq_published_version = v_published_version,
        ireq_acknowledgement_required = v_acknowledgement_required\<rparr>, r)))))))))"

definition encode_invalidation_ack :: "InvalidationAck \<Rightarrow> bytes" where
  "encode_invalidation_ack v =
     w_u16 kRecordVersion @
     encode_authority_context (iack_context v) @
     w_u64 (iack_invalidation v) @
     w_u64 (iack_region v) @
     w_u64 (iack_region_generation v) @
     w_u64 (iack_replica_generation v) @
     w_u64 (iack_superseded_version v)"

definition decode_invalidation_ack :: "InvalidationAck reader" where
  "decode_invalidation_ack r =
     rbind (dec_header kRecordVersion r) (\<lambda>r.
     rbind (decode_authority_context r) (\<lambda>(v_context, r).
     rbind (r_u64 r) (\<lambda>(v_invalidation, r).
     rbind (r_u64 r) (\<lambda>(v_region, r).
     rbind (r_u64 r) (\<lambda>(v_region_generation, r).
     rbind (r_u64 r) (\<lambda>(v_replica_generation, r).
     rbind (r_u64 r) (\<lambda>(v_superseded_version, r).
     Inr (\<lparr>iack_context = v_context, iack_invalidation = v_invalidation, iack_region =
        v_region, iack_region_generation = v_region_generation, iack_replica_generation =
        v_replica_generation, iack_superseded_version = v_superseded_version\<rparr>, r))))))))"

definition encode_sync_request :: "SyncRequest \<Rightarrow> bytes" where
  "encode_sync_request v =
     w_u16 kRecordVersion @
     encode_authority_context (sreq_context v) @
     enc_enum sync_operation_kind_to_u8 (sreq_kind v) @
     w_u64 (sreq_source_region v) @
     w_u64 (sreq_source_region_generation v) @
     w_u64 (sreq_destination_region v) @
     w_u64 (sreq_destination_region_generation v) @
     w_u64 (sreq_ownership_generation v) @
     w_text (sreq_transport v)"

definition decode_sync_request :: "DecodeLimits \<Rightarrow> SyncRequest reader" where
  "decode_sync_request limits r =
     rbind (dec_header kRecordVersion r) (\<lambda>r.
     rbind (decode_authority_context r) (\<lambda>(v_context, r).
     rbind (dec_enum sync_kind_from_u8 r) (\<lambda>(v_kind, r).
     rbind (r_u64 r) (\<lambda>(v_source_region, r).
     rbind (r_u64 r) (\<lambda>(v_source_region_generation, r).
     rbind (r_u64 r) (\<lambda>(v_destination_region, r).
     rbind (r_u64 r) (\<lambda>(v_destination_region_generation, r).
     rbind (r_u64 r) (\<lambda>(v_ownership_generation, r).
     rbind (dec_text limits r) (\<lambda>(v_transport, r).
     Inr (\<lparr>sreq_context = v_context, sreq_kind = v_kind, sreq_source_region =
        v_source_region, sreq_source_region_generation = v_source_region_generation,
        sreq_destination_region = v_destination_region, sreq_destination_region_generation =
        v_destination_region_generation, sreq_ownership_generation = v_ownership_generation,
        sreq_transport = v_transport\<rparr>, r))))))))))"

definition encode_sync_complete :: "SyncCompleteRequest \<Rightarrow> bytes" where
  "encode_sync_complete v =
     w_u16 kRecordVersion @
     encode_authority_context (creq_context v) @
     w_u64 (creq_operation v) @
     w_u64 (creq_destination_region v) @
     w_u64 (creq_destination_region_generation v) @
     w_u64 (creq_destination_new_version v) @
     encode_fingerprint (creq_observed_content v) @
     w_boolean (creq_content_moved v)"

definition decode_sync_complete :: "DecodeLimits \<Rightarrow> SyncCompleteRequest reader" where
  "decode_sync_complete limits r =
     rbind (dec_header kRecordVersion r) (\<lambda>r.
     rbind (decode_authority_context r) (\<lambda>(v_context, r).
     rbind (r_u64 r) (\<lambda>(v_operation, r).
     rbind (r_u64 r) (\<lambda>(v_destination_region, r).
     rbind (r_u64 r) (\<lambda>(v_destination_region_generation, r).
     rbind (r_u64 r) (\<lambda>(v_destination_new_version, r).
     rbind (decode_fingerprint limits r) (\<lambda>(v_observed_content, r).
     rbind (r_boolean r) (\<lambda>(v_content_moved, r).
     Inr (\<lparr>creq_context = v_context, creq_operation = v_operation, creq_destination_region
        = v_destination_region, creq_destination_region_generation =
        v_destination_region_generation, creq_destination_new_version =
        v_destination_new_version, creq_observed_content = v_observed_content,
        creq_content_moved = v_content_moved\<rparr>, r)))))))))"

definition encode_sync_fail :: "SyncFailRequest \<Rightarrow> bytes" where
  "encode_sync_fail v =
     w_u16 kRecordVersion @
     encode_authority_context (freq_context v) @
     w_u64 (freq_operation v) @
     enc_code (freq_cause v) @
     w_boolean (freq_outcome_unknown v) @
     w_text (freq_detail v)"

definition decode_sync_fail :: "DecodeLimits \<Rightarrow> SyncFailRequest reader" where
  "decode_sync_fail limits r =
     rbind (dec_header kRecordVersion r) (\<lambda>r.
     rbind (decode_authority_context r) (\<lambda>(v_context, r).
     rbind (r_u64 r) (\<lambda>(v_operation, r).
     rbind (dec_code r) (\<lambda>(v_cause, r).
     rbind (r_boolean r) (\<lambda>(v_outcome_unknown, r).
     rbind (dec_text limits r) (\<lambda>(v_detail, r).
     Inr (\<lparr>freq_context = v_context, freq_operation = v_operation, freq_cause = v_cause,
        freq_outcome_unknown = v_outcome_unknown, freq_detail = v_detail\<rparr>, r)))))))"

definition encode_revalidate_request :: "RevalidateRequest \<Rightarrow> bytes" where
  "encode_revalidate_request v =
     w_u16 kRecordVersion @
     encode_authority_context (vreq_context v) @
     w_u64 (vreq_region v) @
     w_u64 (vreq_region_generation v) @
     w_u64 (vreq_observed_version v) @
     encode_fingerprint (vreq_content v) @
     w_boolean (vreq_byte_compared v)"

definition decode_revalidate_request :: "DecodeLimits \<Rightarrow> RevalidateRequest reader" where
  "decode_revalidate_request limits r =
     rbind (dec_header kRecordVersion r) (\<lambda>r.
     rbind (decode_authority_context r) (\<lambda>(v_context, r).
     rbind (r_u64 r) (\<lambda>(v_region, r).
     rbind (r_u64 r) (\<lambda>(v_region_generation, r).
     rbind (r_u64 r) (\<lambda>(v_observed_version, r).
     rbind (decode_fingerprint limits r) (\<lambda>(v_content, r).
     rbind (r_boolean r) (\<lambda>(v_byte_compared, r).
     Inr (\<lparr>vreq_context = v_context, vreq_region = v_region, vreq_region_generation =
        v_region_generation, vreq_observed_version = v_observed_version, vreq_content =
        v_content, vreq_byte_compared = v_byte_compared\<rparr>, r))))))))"

definition encode_region_registration :: "RegionRegistration \<Rightarrow> bytes" where
  "encode_region_registration v =
     w_u16 kRecordVersion @
     encode_authority_context (rr_context v) @
     w_u64 (rr_domain v) @
     w_u64 (rr_requested_id v) @
     w_text (rr_name v) @
     enc_enum memory_domain_to_u8 (rr_memory_domain v) @
     enc_enum evidence_class_to_u8 (rr_evidence_class v) @
     w_u64 (rr_offset v) @
     w_u64 (rr_length v) @
     w_u64 (rr_address_hint v) @
     w_u64 (rr_requested_replica v) @
     w_boolean (rr_declared_writable v) @
     w_u64 (rr_initial_version v) @
     encode_fingerprint (rr_content v)"

definition decode_region_registration :: "DecodeLimits \<Rightarrow> RegionRegistration reader" where
  "decode_region_registration limits r =
     rbind (dec_header kRecordVersion r) (\<lambda>r.
     rbind (decode_authority_context r) (\<lambda>(v_context, r).
     rbind (r_u64 r) (\<lambda>(v_domain, r).
     rbind (r_u64 r) (\<lambda>(v_requested_id, r).
     rbind (dec_text limits r) (\<lambda>(v_name, r).
     rbind (dec_enum memory_domain_from_u8 r) (\<lambda>(v_memory_domain, r).
     rbind (dec_enum evidence_class_from_u8 r) (\<lambda>(v_evidence_class, r).
     rbind (r_u64 r) (\<lambda>(v_offset, r).
     rbind (r_u64 r) (\<lambda>(v_length, r).
     rbind (r_u64 r) (\<lambda>(v_address_hint, r).
     rbind (unless (v_length > lim_max_object_length limits) Refused) (\<lambda>_.
     rbind (r_u64 r) (\<lambda>(v_requested_replica, r).
     rbind (r_boolean r) (\<lambda>(v_declared_writable, r).
     rbind (r_u64 r) (\<lambda>(v_initial_version, r).
     rbind (decode_fingerprint limits r) (\<lambda>(v_content, r).
     Inr (\<lparr>rr_context = v_context, rr_domain = v_domain, rr_requested_id = v_requested_id,
        rr_name = v_name, rr_memory_domain = v_memory_domain, rr_evidence_class =
        v_evidence_class, rr_offset = v_offset, rr_length = v_length, rr_address_hint =
        v_address_hint, rr_requested_replica = v_requested_replica, rr_declared_writable =
        v_declared_writable, rr_initial_version = v_initial_version, rr_content =
        v_content\<rparr>, r))))))))))))))))"

section \<open>Round trips\<close>

lemma code_of_to_u16 [simp]: "code_of_u16 (status_code_to_u16 code) = Some code"
  by (cases code) (simp_all add: code_of_u16_def kCodes_def)

lemma read_code [codec_simps]: "dec_code (enc_code code @ r) = Inr (code, r)"
  by (simp add: dec_code_def enc_code_def codec_simps)

lemma read_context [codec_simps]: "dec_context (enc_context v @ r) = Inr (v, r)"
  by (simp add: enc_context_def dec_context_def codec_simps)

lemma read_outcome_binary [codec_simps]:
  "dec_enum read_outcome_from_u8 (enc_enum read_outcome_to_u8 v @ r) = Inr (v, r)"
  by (rule dec_enum_enc) (simp add: read_outcome_from_u8_def read_outcome.from_to_u8)

text \<open>What a decoder requires beyond the type.\<close>

definition read_decision_ok :: "DecodeLimits \<Rightarrow> ReadDecision \<times> string \<Rightarrow> bool" where
  "read_decision_ok limits value \<longleftrightarrow> (case value of (v, rationale) \<Rightarrow>
     text_ok limits rationale)"

definition write_grant_ok :: "DecodeLimits \<Rightarrow> WriteGrant \<times> string \<Rightarrow> bool" where
  "write_grant_ok limits value \<longleftrightarrow> (case value of (v, rationale) \<Rightarrow>
     length (wg_required_invalidations v) \<le> unat (lim_max_collection limits) \<and> list_all (invalidation_ok limits) (wg_required_invalidations v) \<and>
     text_ok limits rationale)"

definition publication_ok :: "DecodeLimits \<Rightarrow> PublicationReceipt \<times> string \<Rightarrow> bool" where
  "publication_ok limits value \<longleftrightarrow> (case value of (v, rationale) \<Rightarrow>
     fingerprint_ok limits (pr_content v) \<and>
     text_ok limits rationale)"

definition invalidation_outcome_ok :: "DecodeLimits \<Rightarrow> InvalidationOutcome \<times> string \<Rightarrow> bool" where
  "invalidation_outcome_ok limits value \<longleftrightarrow> (case value of (v, rationale) \<Rightarrow>
     text_ok limits rationale)"

definition sync_outcome_ok :: "DecodeLimits \<Rightarrow> SyncOutcome \<times> string \<Rightarrow> bool" where
  "sync_outcome_ok limits value \<longleftrightarrow> (case value of (v, rationale) \<Rightarrow>
     sync_ok limits (so_plan v) \<and>
     text_ok limits rationale)"

definition release_outcome_ok :: "DecodeLimits \<Rightarrow> ReleaseOutcome \<times> string \<Rightarrow> bool" where
  "release_outcome_ok limits value \<longleftrightarrow> (case value of (v, rationale) \<Rightarrow>
     text_ok limits rationale)"

definition dirty_request_ok :: "DecodeLimits \<Rightarrow> DirtyRequest \<Rightarrow> bool" where
  "dirty_request_ok limits v \<longleftrightarrow> fingerprint_ok limits (dreq_content v)"

definition publish_request_ok :: "DecodeLimits \<Rightarrow> PublishRequest \<Rightarrow> bool" where
  "publish_request_ok limits v \<longleftrightarrow> fingerprint_ok limits (preq_content v)"

definition sync_request_ok :: "DecodeLimits \<Rightarrow> SyncRequest \<Rightarrow> bool" where
  "sync_request_ok limits v \<longleftrightarrow> text_ok limits (sreq_transport v)"

definition sync_complete_ok :: "DecodeLimits \<Rightarrow> SyncCompleteRequest \<Rightarrow> bool" where
  "sync_complete_ok limits v \<longleftrightarrow> fingerprint_ok limits (creq_observed_content v)"

definition sync_fail_ok :: "DecodeLimits \<Rightarrow> SyncFailRequest \<Rightarrow> bool" where
  "sync_fail_ok limits v \<longleftrightarrow> text_ok limits (freq_detail v)"

definition revalidate_request_ok :: "DecodeLimits \<Rightarrow> RevalidateRequest \<Rightarrow> bool" where
  "revalidate_request_ok limits v \<longleftrightarrow> fingerprint_ok limits (vreq_content v)"

definition region_registration_ok :: "DecodeLimits \<Rightarrow> RegionRegistration \<Rightarrow> bool" where
  "region_registration_ok limits v \<longleftrightarrow> text_ok limits (rr_name v) \<and> rr_length v \<le> lim_max_object_length limits \<and> fingerprint_ok limits (rr_content v)"

lemmas read_invalidations [codec_simps] = invalidation_codec.collection_encode

lemma read_decision_roundtrip [codec_simps]: "read_decision_ok limits v \<Longrightarrow> decode_read_decision limits (encode_read_decision v @ r) = Inr (v, r)"
  by (cases v, simp add: encode_read_decision_def decode_read_decision_def read_decision_ok_def text_ok_def list_all_iff codec_simps not_less)

lemma write_grant_roundtrip [codec_simps]: "write_grant_ok limits v \<Longrightarrow> decode_write_grant limits (encode_write_grant v @ r) = Inr (v, r)"
  by (cases v, simp add: encode_write_grant_def decode_write_grant_def write_grant_ok_def text_ok_def list_all_iff codec_simps not_less)

lemma publication_roundtrip [codec_simps]: "publication_ok limits v \<Longrightarrow> decode_publication limits (encode_publication v @ r) = Inr (v, r)"
  by (cases v, simp add: encode_publication_def decode_publication_def publication_ok_def text_ok_def list_all_iff codec_simps not_less)

lemma invalidation_outcome_roundtrip [codec_simps]: "invalidation_outcome_ok limits v \<Longrightarrow> decode_invalidation_outcome limits (encode_invalidation_outcome v @ r) = Inr (v, r)"
  by (cases v, simp add: encode_invalidation_outcome_def decode_invalidation_outcome_def invalidation_outcome_ok_def text_ok_def list_all_iff codec_simps not_less)

lemma sync_outcome_roundtrip [codec_simps]: "sync_outcome_ok limits v \<Longrightarrow> decode_sync_outcome limits (encode_sync_outcome v @ r) = Inr (v, r)"
  by (cases v, simp add: encode_sync_outcome_def decode_sync_outcome_def sync_outcome_ok_def text_ok_def list_all_iff codec_simps not_less)

lemma release_outcome_roundtrip [codec_simps]: "release_outcome_ok limits v \<Longrightarrow> decode_release_outcome limits (encode_release_outcome v @ r) = Inr (v, r)"
  by (cases v, simp add: encode_release_outcome_def decode_release_outcome_def release_outcome_ok_def text_ok_def list_all_iff codec_simps not_less)

lemma read_request_roundtrip [codec_simps]: "decode_read_request (encode_read_request v @ r) = Inr (v, r)"
  by (simp add: encode_read_request_def decode_read_request_def list_all_iff codec_simps not_less)

lemma write_request_roundtrip [codec_simps]: "decode_write_request (encode_write_request v @ r) = Inr (v, r)"
  by (simp add: encode_write_request_def decode_write_request_def list_all_iff codec_simps not_less)

lemma dirty_request_roundtrip [codec_simps]: "dirty_request_ok limits v \<Longrightarrow> decode_dirty_request limits (encode_dirty_request v @ r) = Inr (v, r)"
  by (simp add: encode_dirty_request_def decode_dirty_request_def dirty_request_ok_def text_ok_def list_all_iff codec_simps not_less)

lemma publish_request_roundtrip [codec_simps]: "publish_request_ok limits v \<Longrightarrow> decode_publish_request limits (encode_publish_request v @ r) = Inr (v, r)"
  by (simp add: encode_publish_request_def decode_publish_request_def publish_request_ok_def text_ok_def list_all_iff codec_simps not_less)

lemma release_request_roundtrip [codec_simps]: "decode_release_request (encode_release_request v @ r) = Inr (v, r)"
  by (simp add: encode_release_request_def decode_release_request_def list_all_iff codec_simps not_less)

lemma invalidation_request_roundtrip [codec_simps]: "decode_invalidation_request (encode_invalidation_request v @ r) = Inr (v, r)"
  by (simp add: encode_invalidation_request_def decode_invalidation_request_def list_all_iff codec_simps not_less)

lemma invalidation_ack_roundtrip [codec_simps]: "decode_invalidation_ack (encode_invalidation_ack v @ r) = Inr (v, r)"
  by (simp add: encode_invalidation_ack_def decode_invalidation_ack_def list_all_iff codec_simps not_less)

lemma sync_request_roundtrip [codec_simps]: "sync_request_ok limits v \<Longrightarrow> decode_sync_request limits (encode_sync_request v @ r) = Inr (v, r)"
  by (simp add: encode_sync_request_def decode_sync_request_def sync_request_ok_def text_ok_def list_all_iff codec_simps not_less)

lemma sync_complete_roundtrip [codec_simps]: "sync_complete_ok limits v \<Longrightarrow> decode_sync_complete limits (encode_sync_complete v @ r) = Inr (v, r)"
  by (simp add: encode_sync_complete_def decode_sync_complete_def sync_complete_ok_def text_ok_def list_all_iff codec_simps not_less)

lemma sync_fail_roundtrip [codec_simps]: "sync_fail_ok limits v \<Longrightarrow> decode_sync_fail limits (encode_sync_fail v @ r) = Inr (v, r)"
  by (simp add: encode_sync_fail_def decode_sync_fail_def sync_fail_ok_def text_ok_def list_all_iff codec_simps not_less)

lemma revalidate_request_roundtrip [codec_simps]: "revalidate_request_ok limits v \<Longrightarrow> decode_revalidate_request limits (encode_revalidate_request v @ r) = Inr (v, r)"
  by (simp add: encode_revalidate_request_def decode_revalidate_request_def revalidate_request_ok_def text_ok_def list_all_iff codec_simps not_less)

lemma region_registration_roundtrip [codec_simps]: "region_registration_ok limits v \<Longrightarrow> decode_region_registration limits (encode_region_registration v @ r) = Inr (v, r)"
  by (simp add: encode_region_registration_def decode_region_registration_def region_registration_ok_def text_ok_def list_all_iff codec_simps not_less)

interpretation read_decision_codec: record_codec encode_read_decision "decode_read_decision limits" "read_decision_ok limits" for limits
  by unfold_locales (simp add: codec_simps)

interpretation write_grant_codec: record_codec encode_write_grant "decode_write_grant limits" "write_grant_ok limits" for limits
  by unfold_locales (simp add: codec_simps)

interpretation publication_codec: record_codec encode_publication "decode_publication limits" "publication_ok limits" for limits
  by unfold_locales (simp add: codec_simps)

interpretation invalidation_outcome_codec: record_codec encode_invalidation_outcome "decode_invalidation_outcome limits" "invalidation_outcome_ok limits" for limits
  by unfold_locales (simp add: codec_simps)

interpretation sync_outcome_codec: record_codec encode_sync_outcome "decode_sync_outcome limits" "sync_outcome_ok limits" for limits
  by unfold_locales (simp add: codec_simps)

interpretation release_outcome_codec: record_codec encode_release_outcome "decode_release_outcome limits" "release_outcome_ok limits" for limits
  by unfold_locales (simp add: codec_simps)

interpretation read_request_codec: record_codec encode_read_request decode_read_request "\<lambda>_. True"
  by unfold_locales (simp add: codec_simps)

interpretation write_request_codec: record_codec encode_write_request decode_write_request "\<lambda>_. True"
  by unfold_locales (simp add: codec_simps)

interpretation dirty_request_codec: record_codec encode_dirty_request "decode_dirty_request limits" "dirty_request_ok limits" for limits
  by unfold_locales (simp add: codec_simps)

interpretation publish_request_codec: record_codec encode_publish_request "decode_publish_request limits" "publish_request_ok limits" for limits
  by unfold_locales (simp add: codec_simps)

interpretation release_request_codec: record_codec encode_release_request decode_release_request "\<lambda>_. True"
  by unfold_locales (simp add: codec_simps)

interpretation invalidation_request_codec: record_codec encode_invalidation_request decode_invalidation_request "\<lambda>_. True"
  by unfold_locales (simp add: codec_simps)

interpretation invalidation_ack_codec: record_codec encode_invalidation_ack decode_invalidation_ack "\<lambda>_. True"
  by unfold_locales (simp add: codec_simps)

interpretation sync_request_codec: record_codec encode_sync_request "decode_sync_request limits" "sync_request_ok limits" for limits
  by unfold_locales (simp add: codec_simps)

interpretation sync_complete_codec: record_codec encode_sync_complete "decode_sync_complete limits" "sync_complete_ok limits" for limits
  by unfold_locales (simp add: codec_simps)

interpretation sync_fail_codec: record_codec encode_sync_fail "decode_sync_fail limits" "sync_fail_ok limits" for limits
  by unfold_locales (simp add: codec_simps)

interpretation revalidate_request_codec: record_codec encode_revalidate_request "decode_revalidate_request limits" "revalidate_request_ok limits" for limits
  by unfold_locales (simp add: codec_simps)

interpretation region_registration_codec: record_codec encode_region_registration "decode_region_registration limits" "region_registration_ok limits" for limits
  by unfold_locales (simp add: codec_simps)

end
