(* ===== verification/Transport.thy ===== *)
theory Transport
  imports Status
begin

text \<open>
  The two loops of \<^verbatim>\<open>src/transport.cpp\<close> that turn a stream socket into exact transfers.  The operating
  system is a parameter: one \<^verbatim>\<open>recv\<close> call returns an error (\<open>None\<close>), zero bytes when the peer closed
  the connection, or some bytes; one \<^verbatim>\<open>send\<close> call returns how many bytes it took, zero standing for
  every result that is not positive.  What a stream socket guarantees of \<^verbatim>\<open>recv\<close> is \<open>stream_socket\<close>.
\<close>

type_synonym 's recv_call = "nat \<Rightarrow> 's \<Rightarrow> bytes option \<times> 's"
type_synonym 's send_call = "bytes \<Rightarrow> 's \<Rightarrow> nat \<times> 's"

record 's Socket =
  sock_valid :: bool
  sock_os :: 's

definition kMaxChunk :: nat where
  "kMaxChunk = 0x40000000"

function recv_loop :: "'s recv_call \<Rightarrow> nat \<Rightarrow> 's \<Rightarrow> bytes Result \<times> 's" where
  "recv_loop recv remaining s =
     (if remaining = 0 then (Inr [], s)
      else case recv (min remaining kMaxChunk) s of
          (None, s) \<Rightarrow> (Inl StatusCode.TransportFailure, s)
        | (Some received, s) \<Rightarrow>
            if received = [] then (Inl StatusCode.ConnectionClosed, s)
            else case recv_loop recv (remaining - length received) s of
                (Inl code, s) \<Rightarrow> (Inl code, s)
              | (Inr rest, s) \<Rightarrow> (Inr (received @ rest), s))"
  by pat_completeness auto
termination
  by (relation "measure (\<lambda>(recv, remaining, s). remaining)") auto

declare recv_loop.simps [simp del]

definition recv_exact :: "'s recv_call \<Rightarrow> nat \<Rightarrow> 's Socket \<Rightarrow> bytes Result \<times> 's Socket" where
  "recv_exact recv n sock =
     (if \<not> sock_valid sock then (Inl StatusCode.TransportFailure, sock)
      else let (outcome, s) = recv_loop recv n (sock_os sock) in (outcome, sock\<lparr>sock_os := s\<rparr>))"

function send_loop :: "'s send_call \<Rightarrow> bytes \<Rightarrow> 's \<Rightarrow> StatusCode \<times> 's" where
  "send_loop send data s =
     (if data = [] then (StatusCode.Ok, s)
      else case send (take kMaxChunk data) s of (sent, s) \<Rightarrow>
        if sent = 0 then (StatusCode.TransportFailure, s) else send_loop send (drop sent data) s)"
  by pat_completeness auto
termination
  by (relation "measure (\<lambda>(send, data, s). length data)") auto

declare send_loop.simps [simp del]

definition send_all :: "'s send_call \<Rightarrow> bytes \<Rightarrow> 's Socket \<Rightarrow> StatusCode \<times> 's Socket" where
  "send_all send data sock =
     (if \<not> sock_valid sock then (StatusCode.TransportFailure, sock)
      else let (outcome, s) = send_loop send data (sock_os sock) in (outcome, sock\<lparr>sock_os := s\<rparr>))"

section \<open>Exactness\<close>

text \<open>A stream socket hands out the pending bytes in order, at least one and at most as many as asked
  for in each call, as long as there are any.\<close>

definition stream_socket :: "'s recv_call \<Rightarrow> ('s \<Rightarrow> bytes) \<Rightarrow> bool" where
  "stream_socket recv pending \<longleftrightarrow>
     (\<forall>n s. 0 < n \<and> pending s \<noteq> [] \<longrightarrow>
        (\<exists>k s'. 0 < k \<and> k \<le> n \<and> k \<le> length (pending s) \<and>
           recv n s = (Some (take k (pending s)), s') \<and> pending s' = drop k (pending s)))"

lemma recv_loop_exact:
  assumes stream: "stream_socket recv pending" and "n \<le> length (pending s)"
  shows "\<exists>s'. recv_loop recv n s = (Inr (take n (pending s)), s') \<and> pending s' = drop n (pending s)"
  using assms(2)
proof (induction n arbitrary: s rule: less_induct)
  case (less n)
  show ?case
  proof (cases "n = 0")
    case True
    then show ?thesis by (simp add: recv_loop.simps)
  next
    case False
    then have "0 < min n kMaxChunk" "pending s \<noteq> []" using less.prems by (auto simp: kMaxChunk_def)
    then obtain k s1 where k: "0 < k" "k \<le> n" "k \<le> length (pending s)"
      "recv (min n kMaxChunk) s = (Some (take k (pending s)), s1)" "pending s1 = drop k (pending s)"
      using stream unfolding stream_socket_def by (metis min.boundedE)
    have "n - k < n" "n - k \<le> length (pending s1)" using less.prems k by simp_all
    then obtain s' where "recv_loop recv (n - k) s1 = (Inr (take (n - k) (pending s1)), s')"
      "pending s' = drop (n - k) (pending s1)"
      using less.IH by blast
    moreover have "take k (pending s) @ take (n - k) (drop k (pending s)) = take n (pending s)"
      using k(2) take_add [of k "n - k" "pending s"] by simp
    moreover have "take k (pending s) \<noteq> []" using k(1,3) by auto
    ultimately show ?thesis using False k by (simp add: recv_loop.simps [of recv n s] min_def)
  qed
qed

lemma recv_exact_stream:
  assumes "stream_socket recv pending" "sock_valid sock" "pending (sock_os sock) = data @ rest" "length data = n"
  shows "\<exists>sock'. recv_exact recv n sock = (Inr data, sock') \<and> sock_valid sock' \<and> pending (sock_os sock') = rest"
  using recv_loop_exact [OF assms(1), of n "sock_os sock"] assms(2-4) by (auto simp: recv_exact_def)

end
