(* ===== verification/Control_Protocol.thy ===== *)
theory Control_Protocol
  imports Wire Transport
begin

text \<open>
  The framed control protocol (\<^verbatim>\<open>include/coherence/protocol.hpp\<close>, \<^verbatim>\<open>src/protocol.cpp\<close>) and the payloads of
  the control messages (\<^verbatim>\<open>src/control_codec.hpp\<close>): message types, frames with their 60-byte header and
  body checksum, the handshake records, the response envelope.  Frames are read from a socket of
  \<open>Transport\<close>.
\<close>

section \<open>Message types\<close>

datatype MessageType =
    Invalid | Hello | HelloAck | Response | Goodbye | CreateDomain | RegisterParticipant
  | RegisterObject | RegisterRegion | AcquireRead | AcquireWrite | MarkDirty | Publish
  | Invalidate | AcknowledgeInvalidation | SyncBegin | SyncComplete | SyncFail | Release
  | Revalidate | Query | Snapshot | Audit | FenceParticipant | RetireRegion | RetireObject
  | Shutdown | Ping | SetPolicy | ListParticipants | ListObjects | ListRegions | DecisionLog
  | RecoveryInfo | DrainSessions | ListInvalidations | ResolveRecovery

primrec message_type_to_u16 :: "MessageType \<Rightarrow> u16" where
  "message_type_to_u16 MessageType.Invalid = 0"
| "message_type_to_u16 MessageType.Hello = 1"
| "message_type_to_u16 MessageType.HelloAck = 2"
| "message_type_to_u16 MessageType.Response = 3"
| "message_type_to_u16 MessageType.Goodbye = 4"
| "message_type_to_u16 MessageType.CreateDomain = 10"
| "message_type_to_u16 MessageType.RegisterParticipant = 11"
| "message_type_to_u16 MessageType.RegisterObject = 12"
| "message_type_to_u16 MessageType.RegisterRegion = 13"
| "message_type_to_u16 MessageType.AcquireRead = 14"
| "message_type_to_u16 MessageType.AcquireWrite = 15"
| "message_type_to_u16 MessageType.MarkDirty = 16"
| "message_type_to_u16 MessageType.Publish = 17"
| "message_type_to_u16 MessageType.Invalidate = 18"
| "message_type_to_u16 MessageType.AcknowledgeInvalidation = 19"
| "message_type_to_u16 MessageType.SyncBegin = 20"
| "message_type_to_u16 MessageType.SyncComplete = 21"
| "message_type_to_u16 MessageType.SyncFail = 22"
| "message_type_to_u16 MessageType.Release = 23"
| "message_type_to_u16 MessageType.Revalidate = 24"
| "message_type_to_u16 MessageType.Query = 25"
| "message_type_to_u16 MessageType.Snapshot = 26"
| "message_type_to_u16 MessageType.Audit = 27"
| "message_type_to_u16 MessageType.FenceParticipant = 28"
| "message_type_to_u16 MessageType.RetireRegion = 29"
| "message_type_to_u16 MessageType.RetireObject = 30"
| "message_type_to_u16 MessageType.Shutdown = 31"
| "message_type_to_u16 MessageType.Ping = 32"
| "message_type_to_u16 MessageType.SetPolicy = 33"
| "message_type_to_u16 MessageType.ListParticipants = 34"
| "message_type_to_u16 MessageType.ListObjects = 35"
| "message_type_to_u16 MessageType.ListRegions = 36"
| "message_type_to_u16 MessageType.DecisionLog = 37"
| "message_type_to_u16 MessageType.RecoveryInfo = 38"
| "message_type_to_u16 MessageType.DrainSessions = 39"
| "message_type_to_u16 MessageType.ListInvalidations = 40"
| "message_type_to_u16 MessageType.ResolveRecovery = 41"

primrec message_type_to_token :: "MessageType \<Rightarrow> string" where
  "message_type_to_token MessageType.Invalid = ''invalid''"
| "message_type_to_token MessageType.Hello = ''hello''"
| "message_type_to_token MessageType.HelloAck = ''hello_ack''"
| "message_type_to_token MessageType.Response = ''response''"
| "message_type_to_token MessageType.Goodbye = ''goodbye''"
| "message_type_to_token MessageType.CreateDomain = ''create_domain''"
| "message_type_to_token MessageType.RegisterParticipant = ''register_participant''"
| "message_type_to_token MessageType.RegisterObject = ''register_object''"
| "message_type_to_token MessageType.RegisterRegion = ''register_region''"
| "message_type_to_token MessageType.AcquireRead = ''acquire_read''"
| "message_type_to_token MessageType.AcquireWrite = ''acquire_write''"
| "message_type_to_token MessageType.MarkDirty = ''mark_dirty''"
| "message_type_to_token MessageType.Publish = ''publish''"
| "message_type_to_token MessageType.Invalidate = ''invalidate''"
| "message_type_to_token MessageType.AcknowledgeInvalidation = ''acknowledge_invalidation''"
| "message_type_to_token MessageType.SyncBegin = ''sync_begin''"
| "message_type_to_token MessageType.SyncComplete = ''sync_complete''"
| "message_type_to_token MessageType.SyncFail = ''sync_fail''"
| "message_type_to_token MessageType.Release = ''release''"
| "message_type_to_token MessageType.Revalidate = ''revalidate''"
| "message_type_to_token MessageType.Query = ''query''"
| "message_type_to_token MessageType.Snapshot = ''snapshot''"
| "message_type_to_token MessageType.Audit = ''audit''"
| "message_type_to_token MessageType.FenceParticipant = ''fence_participant''"
| "message_type_to_token MessageType.RetireRegion = ''retire_region''"
| "message_type_to_token MessageType.RetireObject = ''retire_object''"
| "message_type_to_token MessageType.Shutdown = ''shutdown''"
| "message_type_to_token MessageType.Ping = ''ping''"
| "message_type_to_token MessageType.SetPolicy = ''set_policy''"
| "message_type_to_token MessageType.ListParticipants = ''list_participants''"
| "message_type_to_token MessageType.ListObjects = ''list_objects''"
| "message_type_to_token MessageType.ListRegions = ''list_regions''"
| "message_type_to_token MessageType.DecisionLog = ''decision_log''"
| "message_type_to_token MessageType.RecoveryInfo = ''recovery_info''"
| "message_type_to_token MessageType.DrainSessions = ''drain_sessions''"
| "message_type_to_token MessageType.ListInvalidations = ''list_invalidations''"
| "message_type_to_token MessageType.ResolveRecovery = ''resolve_recovery''"

text \<open>The declared types a frame may carry: every one but \<open>Invalid\<close>.\<close>

definition message_type_from_u16 :: "u16 \<Rightarrow> MessageType option" where
  "message_type_from_u16 raw = map_of
    [(1, MessageType.Hello),
     (2, MessageType.HelloAck),
     (3, MessageType.Response),
     (4, MessageType.Goodbye),
     (10, MessageType.CreateDomain),
     (11, MessageType.RegisterParticipant),
     (12, MessageType.RegisterObject),
     (13, MessageType.RegisterRegion),
     (14, MessageType.AcquireRead),
     (15, MessageType.AcquireWrite),
     (16, MessageType.MarkDirty),
     (17, MessageType.Publish),
     (18, MessageType.Invalidate),
     (19, MessageType.AcknowledgeInvalidation),
     (20, MessageType.SyncBegin),
     (21, MessageType.SyncComplete),
     (22, MessageType.SyncFail),
     (23, MessageType.Release),
     (24, MessageType.Revalidate),
     (25, MessageType.Query),
     (26, MessageType.Snapshot),
     (27, MessageType.Audit),
     (28, MessageType.FenceParticipant),
     (29, MessageType.RetireRegion),
     (30, MessageType.RetireObject),
     (31, MessageType.Shutdown),
     (32, MessageType.Ping),
     (33, MessageType.SetPolicy),
     (34, MessageType.ListParticipants),
     (35, MessageType.ListObjects),
     (36, MessageType.ListRegions),
     (37, MessageType.DecisionLog),
     (38, MessageType.RecoveryInfo),
     (39, MessageType.DrainSessions),
     (40, MessageType.ListInvalidations),
     (41, MessageType.ResolveRecovery)] raw"

section \<open>Frames\<close>

definition protocol_version :: u32 where "protocol_version = 1"
definition kFrameMagic :: u32 where "kFrameMagic = 0x43464731"
definition kFrameHeaderSize :: nat where "kFrameHeaderSize = 60"

record FrameLimits =
  fl_max_body_bytes :: u32
  fl_max_blob_bytes :: u64

definition default_frame_limits :: FrameLimits where
  "default_frame_limits = \<lparr>fl_max_body_bytes = 16 * 1024 * 1024, fl_max_blob_bytes = 16 * 1024 * 1024\<rparr>"

record FrameHeader =
  fh_version :: u16
  fh_type :: MessageType
  fh_flags :: u32
  fh_session :: SessionId
  fh_epoch :: CoordinatorEpoch
  fh_sequence :: u64
  fh_correlation :: u64

record Frame =
  fr_header :: FrameHeader
  fr_body :: bytes

definition encode_frame :: "FrameHeader \<Rightarrow> bytes \<Rightarrow> bytes" where
  "encode_frame header body =
     store_u32 kFrameMagic @ store_u16 (fh_version header) @ store_u16 (message_type_to_u16 (fh_type header)) @
     store_u32 (fh_flags header) @ store_u64 (high (fh_session header)) @ store_u64 (low (fh_session header)) @
     store_u64 (fh_epoch header) @ store_u64 (fh_sequence header) @ store_u64 (fh_correlation header) @
     store_u32 (of_nat (length body)) @ store_u32 (crc32c body) @ body"

definition decode_frame_header :: "bytes \<Rightarrow> FrameLimits \<Rightarrow> FrameHeader Result" where
  "decode_frame_header bs limits =
     (if length bs < kFrameHeaderSize then Inl StatusCode.TruncatedInput
      else if load_u32 bs 0 \<noteq> kFrameMagic then Inl StatusCode.ProtocolViolation
      else if load_u16 bs 4 \<noteq> ucast protocol_version then Inl StatusCode.UnsupportedSchema
      else case message_type_from_u16 (load_u16 bs 6) of
          None \<Rightarrow> Inl StatusCode.ProtocolViolation
        | Some type \<Rightarrow>
            if load_u32 bs 52 > fl_max_body_bytes limits then Inl StatusCode.OversizedInput
            else Inr \<lparr>fh_version = load_u16 bs 4, fh_type = type, fh_flags = load_u32 bs 8,
              fh_session = UInt128 (load_u64 bs 12) (load_u64 bs 20), fh_epoch = load_u64 bs 28,
              fh_sequence = load_u64 bs 36, fh_correlation = load_u64 bs 44\<rparr>)"

definition read_frame :: "'s recv_call \<Rightarrow> FrameLimits \<Rightarrow> 's Socket \<Rightarrow> Frame Result \<times> 's Socket" where
  "read_frame recv limits sock =
     (case recv_exact recv kFrameHeaderSize sock of
        (Inl code, sock) \<Rightarrow> (Inl code, sock)
      | (Inr head, sock) \<Rightarrow>
          case decode_frame_header head limits of
            Inl code \<Rightarrow> (Inl code, sock)
          | Inr header \<Rightarrow>
              let body_length = load_u32 head 52;
                  (received, sock) = (if body_length \<noteq> 0 then recv_exact recv (unat body_length) sock
                    else (Inr [], sock))
              in case received of
                  Inl code \<Rightarrow> (Inl code, sock)
                | Inr body \<Rightarrow>
                    if crc32c body \<noteq> load_u32 head 56 then (Inl StatusCode.IntegrityFailure, sock)
                    else (Inr \<lparr>fr_header = header, fr_body = body\<rparr>, sock))"

definition write_frame :: "'s send_call \<Rightarrow> 's Socket \<Rightarrow> FrameHeader \<Rightarrow> bytes \<Rightarrow> StatusCode \<times> 's Socket" where
  "write_frame send sock header body = send_all send (encode_frame header body) sock"

section \<open>Handshake and responses\<close>

record HelloRequest =
  hr_protocol_version :: u32
  hr_schema :: u32
  hr_build :: string
  hr_participant_name :: string
  hr_boot :: ParticipantBootId
  hr_node_label :: string
  hr_nonce :: u64
  hr_observer :: bool

record HelloResponse =
  hs_session :: SessionId
  hs_epoch :: CoordinatorEpoch
  hs_protocol_version :: u32
  hs_schema :: u32
  hs_build :: string
  hs_nonce :: u64
  hs_participant :: ParticipantId
  hs_observer :: bool

record ResponseEnvelope =
  env_code :: StatusCode
  env_message :: string
  env_detail :: string

definition encode_hello_request :: "HelloRequest \<Rightarrow> bytes" where
  "encode_hello_request v =
     w_u32 (hr_protocol_version v) @ w_u32 (hr_schema v) @ w_text (hr_build v) @
     w_text (hr_participant_name v) @ w_uuid (hr_boot v) @ w_text (hr_node_label v) @
     w_u64 (hr_nonce v) @ w_boolean (hr_observer v)"

definition decode_hello_request :: "DecodeLimits \<Rightarrow> HelloRequest reader" where
  "decode_hello_request limits r =
     rbind (r_u32 r) (\<lambda>(v_protocol_version, r).
     rbind (r_u32 r) (\<lambda>(v_schema, r).
     rbind (dec_text limits r) (\<lambda>(v_build, r).
     rbind (dec_text limits r) (\<lambda>(v_participant_name, r).
     rbind (r_uuid r) (\<lambda>(v_boot, r).
     rbind (dec_text limits r) (\<lambda>(v_node_label, r).
     rbind (r_u64 r) (\<lambda>(v_nonce, r).
     rbind (r_boolean r) (\<lambda>(v_observer, r).
     Inr (\<lparr>hr_protocol_version = v_protocol_version, hr_schema = v_schema, hr_build = v_build,
        hr_participant_name = v_participant_name, hr_boot = v_boot, hr_node_label = v_node_label,
        hr_nonce = v_nonce, hr_observer = v_observer\<rparr>, r)))))))))"

definition encode_hello_response :: "HelloResponse \<Rightarrow> bytes" where
  "encode_hello_response v =
     w_uuid (hs_session v) @ w_u64 (hs_epoch v) @ w_u32 (hs_protocol_version v) @ w_u32 (hs_schema v) @
     w_text (hs_build v) @ w_u64 (hs_nonce v) @ w_u64 (hs_participant v) @ w_boolean (hs_observer v)"

definition decode_hello_response :: "DecodeLimits \<Rightarrow> HelloResponse reader" where
  "decode_hello_response limits r =
     rbind (r_uuid r) (\<lambda>(v_session, r).
     rbind (r_u64 r) (\<lambda>(v_epoch, r).
     rbind (r_u32 r) (\<lambda>(v_protocol_version, r).
     rbind (r_u32 r) (\<lambda>(v_schema, r).
     rbind (dec_text limits r) (\<lambda>(v_build, r).
     rbind (r_u64 r) (\<lambda>(v_nonce, r).
     rbind (r_u64 r) (\<lambda>(v_participant, r).
     rbind (r_boolean r) (\<lambda>(v_observer, r).
     Inr (\<lparr>hs_session = v_session, hs_epoch = v_epoch, hs_protocol_version = v_protocol_version,
        hs_schema = v_schema, hs_build = v_build, hs_nonce = v_nonce, hs_participant = v_participant,
        hs_observer = v_observer\<rparr>, r)))))))))"

definition encode_response_envelope :: "ResponseEnvelope \<Rightarrow> bytes" where
  "encode_response_envelope v =
     w_u16 (status_code_to_u16 (env_code v)) @ w_text (env_message v) @ w_text (env_detail v)"

definition decode_response_envelope :: "DecodeLimits \<Rightarrow> ResponseEnvelope reader" where
  "decode_response_envelope limits r =
     rbind (dec_code r) (\<lambda>(v_code, r).
     rbind (dec_text limits r) (\<lambda>(v_message, r).
     rbind (dec_text limits r) (\<lambda>(v_detail, r).
     Inr (\<lparr>env_code = v_code, env_message = v_message, env_detail = v_detail\<rparr>, r))))"

section \<open>Control payloads\<close>

definition encode_create_domain :: "string \<Rightarrow> bytes" where
  "encode_create_domain name = w_text name"

definition decode_create_domain :: "DecodeLimits \<Rightarrow> string reader" where
  "decode_create_domain limits r = r_text (lim_max_text limits) r"

definition encode_register_object :: "CoherenceDomainId \<times> string \<times> u64 \<times> CoherencePolicy \<Rightarrow> bytes" where
  "encode_register_object v = (case v of (domain, name, len, policy) \<Rightarrow>
     w_u64 domain @ w_text name @ w_u64 len @ encode_policy policy)"

definition decode_register_object ::
  "DecodeLimits \<Rightarrow> (CoherenceDomainId \<times> string \<times> u64 \<times> CoherencePolicy) reader" where
  "decode_register_object limits r =
     rbind (r_u64 r) (\<lambda>(domain, r).
     rbind (r_text (lim_max_text limits) r) (\<lambda>(name, r).
     rbind (r_u64 r) (\<lambda>(len, r).
     rbind (decode_policy limits r) (\<lambda>(policy, r).
     Inr ((domain, name, len, policy), r)))))"

definition encode_set_policy :: "ObjectId \<times> ObjectGeneration \<times> PolicyGeneration \<times> CoherencePolicy \<Rightarrow> bytes" where
  "encode_set_policy v = (case v of (obj, generation, expected, policy) \<Rightarrow>
     w_u64 obj @ w_u64 generation @ w_u64 expected @ encode_policy policy)"

definition decode_set_policy ::
  "DecodeLimits \<Rightarrow> (ObjectId \<times> ObjectGeneration \<times> PolicyGeneration \<times> CoherencePolicy) reader" where
  "decode_set_policy limits r =
     rbind (r_u64 r) (\<lambda>(obj, r).
     rbind (r_u64 r) (\<lambda>(generation, r).
     rbind (r_u64 r) (\<lambda>(expected, r).
     rbind (decode_policy limits r) (\<lambda>(policy, r).
     Inr ((obj, generation, expected, policy), r)))))"

definition encode_fence_participant :: "ParticipantId \<times> string \<Rightarrow> bytes" where
  "encode_fence_participant v = (case v of (k, reason) \<Rightarrow> w_u64 k @ w_text reason)"

definition decode_fence_participant :: "DecodeLimits \<Rightarrow> (ParticipantId \<times> string) reader" where
  "decode_fence_participant limits r =
     rbind (r_u64 r) (\<lambda>(k, r).
     rbind (r_text (lim_max_text limits) r) (\<lambda>(reason, r).
     Inr ((k, reason), r)))"

definition encode_retire :: "u64 \<times> u64 \<Rightarrow> bytes" where
  "encode_retire v = (case v of (k, generation) \<Rightarrow> w_u64 k @ w_u64 generation)"

definition decode_retire :: "(u64 \<times> u64) reader" where
  "decode_retire r =
     rbind (r_u64 r) (\<lambda>(k, r).
     rbind (r_u64 r) (\<lambda>(generation, r).
     Inr ((k, generation), r)))"

text \<open>The options the payload does not carry keep their initial values.\<close>

definition encode_snapshot_options :: "SnapshotOptions \<Rightarrow> bytes" where
  "encode_snapshot_options v =
     w_u64 (opt_object_filter v) @ w_u64 (opt_max_objects v) @ w_boolean (opt_include_regions v) @
     w_boolean (opt_include_participants v) @ w_boolean (opt_include_invalidations v) @
     w_boolean (opt_include_syncs v)"

definition decode_snapshot_options :: "SnapshotOptions \<Rightarrow> SnapshotOptions reader" where
  "decode_snapshot_options initial r =
     rbind (r_u64 r) (\<lambda>(v_filter, r).
     rbind (r_u64 r) (\<lambda>(v_max_objects, r).
     rbind (r_boolean r) (\<lambda>(v_regions, r).
     rbind (r_boolean r) (\<lambda>(v_participants, r).
     rbind (r_boolean r) (\<lambda>(v_invalidations, r).
     rbind (r_boolean r) (\<lambda>(v_syncs, r).
     Inr (initial\<lparr>opt_object_filter := v_filter, opt_max_objects := v_max_objects,
        opt_include_regions := v_regions, opt_include_participants := v_participants,
        opt_include_invalidations := v_invalidations, opt_include_syncs := v_syncs\<rparr>, r)))))))"

definition decode_text_block :: "DecodeLimits \<Rightarrow> string reader" where
  "decode_text_block limits r =
     r_text (if lim_max_text limits = 0 then 4096 else lim_max_text limits) r"

section \<open>Round trips\<close>

lemma message_type_from_to [simp]:
  "type \<noteq> MessageType.Invalid \<Longrightarrow> message_type_from_u16 (message_type_to_u16 type) = Some type"
  by (cases type) (simp_all add: message_type_from_u16_def)

lemma read_code_number [codec_simps]: "dec_code (w_u16 (status_code_to_u16 code) @ r) = Inr (code, r)"
  by (simp add: dec_code_def codec_simps)

definition hello_request_ok :: "DecodeLimits \<Rightarrow> HelloRequest \<Rightarrow> bool" where
  "hello_request_ok limits v \<longleftrightarrow> text_ok limits (hr_build v) \<and> text_ok limits (hr_participant_name v) \<and>
     text_ok limits (hr_node_label v)"

definition hello_response_ok :: "DecodeLimits \<Rightarrow> HelloResponse \<Rightarrow> bool" where
  "hello_response_ok limits v \<longleftrightarrow> text_ok limits (hs_build v)"

definition response_envelope_ok :: "DecodeLimits \<Rightarrow> ResponseEnvelope \<Rightarrow> bool" where
  "response_envelope_ok limits v \<longleftrightarrow> text_ok limits (env_message v) \<and> text_ok limits (env_detail v)"

interpretation hello_request_codec: record_codec encode_hello_request "decode_hello_request limits"
  "hello_request_ok limits" for limits
  by unfold_locales
    (simp add: encode_hello_request_def decode_hello_request_def hello_request_ok_def text_ok_def codec_simps)

interpretation hello_response_codec: record_codec encode_hello_response "decode_hello_response limits"
  "hello_response_ok limits" for limits
  by unfold_locales
    (simp add: encode_hello_response_def decode_hello_response_def hello_response_ok_def text_ok_def codec_simps)

interpretation response_envelope_codec: record_codec encode_response_envelope "decode_response_envelope limits"
  "response_envelope_ok limits" for limits
  by unfold_locales
    (simp add: encode_response_envelope_def decode_response_envelope_def response_envelope_ok_def text_ok_def
      codec_simps)

interpretation create_domain_codec: record_codec encode_create_domain "decode_create_domain limits"
  "text_ok limits" for limits
  by unfold_locales (simp add: encode_create_domain_def decode_create_domain_def text_ok_def codec_simps)

interpretation register_object_codec: record_codec encode_register_object "decode_register_object limits"
  "\<lambda>(domain, name, len, policy). text_ok limits name \<and> policy_ok limits policy" for limits
  by unfold_locales
    (auto simp: encode_register_object_def decode_register_object_def text_ok_def codec_simps)

interpretation set_policy_codec: record_codec encode_set_policy "decode_set_policy limits"
  "\<lambda>(obj, generation, expected, policy). policy_ok limits policy" for limits
  by unfold_locales (auto simp: encode_set_policy_def decode_set_policy_def codec_simps)

interpretation fence_participant_codec: record_codec encode_fence_participant "decode_fence_participant limits"
  "\<lambda>(k, reason). text_ok limits reason" for limits
  by unfold_locales (auto simp: encode_fence_participant_def decode_fence_participant_def text_ok_def codec_simps)

interpretation retire_codec: record_codec encode_retire decode_retire "\<lambda>_. True"
  by unfold_locales (auto simp: encode_retire_def decode_retire_def codec_simps)

interpretation snapshot_options_codec: record_codec encode_snapshot_options "decode_snapshot_options initial"
  "\<lambda>v. opt_include_reads v = opt_include_reads initial" for initial
  by unfold_locales (simp add: encode_snapshot_options_def decode_snapshot_options_def codec_simps)

section \<open>Frames over a socket\<close>

text \<open>The sixty bytes in front of the body.\<close>

definition frame_header_bytes :: "FrameHeader \<Rightarrow> bytes \<Rightarrow> bytes" where
  "frame_header_bytes header body =
     store_u32 kFrameMagic @ store_u16 (fh_version header) @ store_u16 (message_type_to_u16 (fh_type header)) @
     store_u32 (fh_flags header) @ store_u64 (high (fh_session header)) @ store_u64 (low (fh_session header)) @
     store_u64 (fh_epoch header) @ store_u64 (fh_sequence header) @ store_u64 (fh_correlation header) @
     store_u32 (of_nat (length body)) @ store_u32 (crc32c body)"

lemma encode_frame_split: "encode_frame header body = frame_header_bytes header body @ body"
  by (simp add: encode_frame_def frame_header_bytes_def)

lemma length_frame_header [simp]: "length (frame_header_bytes header body) = kFrameHeaderSize"
  by (simp add: frame_header_bytes_def kFrameHeaderSize_def)

lemma load_at:
  "length a = n \<Longrightarrow> load_u16 (a @ store_u16 x @ r) n = x"
  "length a = n \<Longrightarrow> load_u32 (a @ store_u32 y @ r) n = y"
  "length a = n \<Longrightarrow> load_u64 (a @ store_u64 z @ r) n = z"
  using load_u16_append [of a _ 0] load_u32_append [of a _ 0] load_u64_append [of a _ 0]
  by (simp_all add: load_store_u16 load_store_u32 load_store_u64)

lemma frame_header_fields:
  "load_u32 (frame_header_bytes header body) 0 = kFrameMagic"
  "load_u16 (frame_header_bytes header body) 4 = fh_version header"
  "load_u16 (frame_header_bytes header body) 6 = message_type_to_u16 (fh_type header)"
  "load_u32 (frame_header_bytes header body) 8 = fh_flags header"
  "load_u64 (frame_header_bytes header body) 12 = high (fh_session header)"
  "load_u64 (frame_header_bytes header body) 20 = low (fh_session header)"
  "load_u64 (frame_header_bytes header body) 28 = fh_epoch header"
  "load_u64 (frame_header_bytes header body) 36 = fh_sequence header"
  "load_u64 (frame_header_bytes header body) 44 = fh_correlation header"
  "load_u32 (frame_header_bytes header body) 52 = of_nat (length body)"
  "load_u32 (frame_header_bytes header body) 56 = crc32c body"
proof -
  let ?h = "frame_header_bytes header body"
  let ?m = "store_u32 kFrameMagic" and ?v = "store_u16 (fh_version header)"
    and ?t = "store_u16 (message_type_to_u16 (fh_type header))" and ?f = "store_u32 (fh_flags header)"
    and ?sh = "store_u64 (high (fh_session header))" and ?sl = "store_u64 (low (fh_session header))"
    and ?e = "store_u64 (fh_epoch header)" and ?q = "store_u64 (fh_sequence header)"
    and ?c = "store_u64 (fh_correlation header)" and ?l = "store_u32 (of_nat (length body) :: u32)"
  show "load_u32 ?h 0 = kFrameMagic" unfolding frame_header_bytes_def by (rule load_store_u32)
  show "load_u16 ?h 4 = fh_version header"
    using load_at(1) [of ?m 4] by (simp add: frame_header_bytes_def)
  show "load_u16 ?h 6 = message_type_to_u16 (fh_type header)"
    using load_at(1) [of "?m @ ?v" 6] by (simp add: frame_header_bytes_def)
  show "load_u32 ?h 8 = fh_flags header"
    using load_at(2) [of "?m @ ?v @ ?t" 8] by (simp add: frame_header_bytes_def)
  show "load_u64 ?h 12 = high (fh_session header)"
    using load_at(3) [of "?m @ ?v @ ?t @ ?f" 12] by (simp add: frame_header_bytes_def)
  show "load_u64 ?h 20 = low (fh_session header)"
    using load_at(3) [of "?m @ ?v @ ?t @ ?f @ ?sh" 20] by (simp add: frame_header_bytes_def)
  show "load_u64 ?h 28 = fh_epoch header"
    using load_at(3) [of "?m @ ?v @ ?t @ ?f @ ?sh @ ?sl" 28] by (simp add: frame_header_bytes_def)
  show "load_u64 ?h 36 = fh_sequence header"
    using load_at(3) [of "?m @ ?v @ ?t @ ?f @ ?sh @ ?sl @ ?e" 36] by (simp add: frame_header_bytes_def)
  show "load_u64 ?h 44 = fh_correlation header"
    using load_at(3) [of "?m @ ?v @ ?t @ ?f @ ?sh @ ?sl @ ?e @ ?q" 44] by (simp add: frame_header_bytes_def)
  show "load_u32 ?h 52 = of_nat (length body)"
    using load_at(2) [of "?m @ ?v @ ?t @ ?f @ ?sh @ ?sl @ ?e @ ?q @ ?c" 52 _ "store_u32 (crc32c body)"]
    by (simp add: frame_header_bytes_def)
  show "load_u32 ?h 56 = crc32c body"
    using load_at(2) [of "?m @ ?v @ ?t @ ?f @ ?sh @ ?sl @ ?e @ ?q @ ?c @ ?l" 56 _ "[]"]
    by (simp add: frame_header_bytes_def)
qed

text \<open>What \<open>decode_frame_header\<close> demands of a header that was sent.\<close>

definition header_ok :: "FrameLimits \<Rightarrow> FrameHeader \<Rightarrow> bytes \<Rightarrow> bool" where
  "header_ok limits header body \<longleftrightarrow> fh_version header = ucast protocol_version \<and>
     fh_type header \<noteq> MessageType.Invalid \<and> length body \<le> unat (fl_max_body_bytes limits)"

lemma header_ok_length: "header_ok limits header body \<Longrightarrow> unat (of_nat (length body) :: u32) = length body"
  using unat_of_nat_le unfolding header_ok_def by blast

lemma decode_frame_header_bytes:
  assumes "header_ok limits header body"
  shows "decode_frame_header (frame_header_bytes header body) limits = Inr header"
  using assms header_ok_length [OF assms]
  by (simp add: decode_frame_header_def frame_header_fields header_ok_def word_less_nat_alt not_less)

text \<open>The frame is read from whatever body of the announced length arrives behind its header.\<close>

lemma read_frame_stream:
  assumes stream: "stream_socket recv pending" and sock: "sock_valid sock"
    "pending (sock_os sock) = frame_header_bytes header sent @ body @ rest"
    and ok: "header_ok limits header sent" and len: "length body = length sent"
  shows "\<exists>sock'. read_frame recv limits sock =
      (if crc32c body = crc32c sent then Inr \<lparr>fr_header = header, fr_body = body\<rparr>
       else Inl StatusCode.IntegrityFailure, sock') \<and>
    sock_valid sock' \<and> pending (sock_os sock') = rest"
proof -
  obtain s1 where s1: "recv_exact recv kFrameHeaderSize sock = (Inr (frame_header_bytes header sent), s1)"
    "sock_valid s1" "pending (sock_os s1) = body @ rest"
    using recv_exact_stream [OF stream sock length_frame_header] by blast
  note n = header_ok_length [OF ok]
  show ?thesis
  proof (cases "sent = []")
    case True
    then show ?thesis
      using s1 len decode_frame_header_bytes [OF ok]
      by (simp add: read_frame_def Let_def frame_header_fields)
  next
    case False
    then have "(of_nat (length sent) :: u32) \<noteq> 0" using n by force
    moreover obtain s2 where "recv_exact recv (length sent) s1 = (Inr body, s2)" "sock_valid s2"
      "pending (sock_os s2) = rest"
      using recv_exact_stream [OF stream s1(2,3) len] by blast
    ultimately show ?thesis
      using s1 n decode_frame_header_bytes [OF ok]
      by (simp add: read_frame_def Let_def frame_header_fields)
  qed
qed

end
