(* ===== verification/Engine_Audit.thy ===== *)
theory Engine_Audit
  imports Engine_Recovery
begin

text \<open>
  The invariant auditor (\<^verbatim>\<open>CoherenceEngine::audit\<close>, \<^verbatim>\<open>src/engine_recovery.cpp\<close>): one list of findings
  per loop of the source, in its order, each loop body a concatenation of conditional findings, and
  the stable sort of all of them at the end.
\<close>

section \<open>Findings and reports\<close>

record AuditFinding =
  af_code :: StatusCode
  af_detail :: string
  af_object :: ObjectId
  af_region :: RegionId
  af_participant :: ParticipantId
  af_invalidation :: InvalidationId
  af_sync :: SyncOperationId

record AuditReport =
  ar_clean :: bool
  ar_epoch :: CoordinatorEpoch
  ar_sequence :: OperationSequence
  ar_objects_checked :: u64
  ar_regions_checked :: u64
  ar_participants_checked :: u64
  ar_invalidations_checked :: u64
  ar_syncs_checked :: u64
  ar_findings :: "AuditFinding list"

definition finding :: "StatusCode \<Rightarrow> string \<Rightarrow> AuditFinding" where
  "finding code detail = \<lparr>af_code = code, af_detail = detail, af_object = 0, af_region = 0,
     af_participant = 0, af_invalidation = 0, af_sync = 0\<rparr>"

text \<open>A finding that is added when its condition holds; \<open>about\<close> places it.\<close>

definition check :: "(AuditFinding \<Rightarrow> AuditFinding) \<Rightarrow> bool \<Rightarrow> StatusCode \<Rightarrow> string \<Rightarrow> AuditFinding list" where
  "check about wrong code detail = (if wrong then [about (finding code detail)] else [])"

section \<open>Identities and indices\<close>

primrec audit_domains :: "engine \<Rightarrow> string list \<Rightarrow> (CoherenceDomainId \<times> DomainRecord) list \<Rightarrow> AuditFinding list" where
  "audit_domains e names [] = []"
| "audit_domains e names (kd # rest) =
     (let (k, d) = kd in
      check id (dom_id d \<noteq> k) StatusCode.InternalInvariantViolation ''domain map key disagrees with record id'' @
      check id (dom_name d \<in> set names) StatusCode.DuplicateIdentity (''duplicate domain name '' @ dom_name d) @
      check id (map_of (eng_domain_index e) (dom_name d) \<noteq> Some (dom_id d)) StatusCode.InternalInvariantViolation
        (''domain name index disagrees with the domain record for '' @ dom_name d) @
      audit_domains e (dom_name d # names) rest)"

definition audit_retired_writer :: "engine \<Rightarrow> ParticipantRecord \<Rightarrow> AuditFinding list" where
  "audit_retired_writer e p =
     (if par_lifecycle p = ParticipantLifecycle.Retired
      then concat (map (\<lambda>ob. check id (obj_writer ob = par_id p) StatusCode.Retired
        (''a retired participant retains write authority over '' @ obj_name ob)) (sm_values (eng_objects e)))
      else [])"

primrec audit_participants :: "engine \<Rightarrow> string list \<Rightarrow> (ParticipantId \<times> ParticipantRecord) list \<Rightarrow> AuditFinding list" where
  "audit_participants e names [] = []"
| "audit_participants e names (kp # rest) =
     (let (k, p) = kp in
      check id (par_id p \<noteq> k) StatusCode.InternalInvariantViolation ''participant map key disagrees with record id'' @
      check id (par_name p \<in> set names) StatusCode.DuplicateIdentity (''duplicate participant name '' @ par_name p) @
      check id (map_of (eng_participant_index e) (par_name p) \<noteq> Some (par_id p)) StatusCode.InternalInvariantViolation
        (''participant name index disagrees for '' @ par_name p) @
      check id (par_lifecycle p = ParticipantLifecycle.Fenced \<and> par_live p) StatusCode.InternalInvariantViolation
        (''a fenced participant is marked live: '' @ par_name p) @
      audit_retired_writer e p @
      audit_participants e (par_name p # names) rest)"

definition audit_object_index :: "engine \<Rightarrow> AuditFinding list" where
  "audit_object_index e = concat (map (\<lambda>((domain, name), k).
     case map_of (eng_objects e) k of
       None \<Rightarrow> [finding StatusCode.UnknownObject ''object name index references a missing object'']
     | Some ob \<Rightarrow> check id (obj_domain ob \<noteq> domain \<or> obj_name ob \<noteq> name) StatusCode.InternalInvariantViolation
         (''object name index disagrees with the object record for '' @ name)) (eng_object_index e))"

definition audit_region_index :: "engine \<Rightarrow> AuditFinding list" where
  "audit_region_index e = concat (map (\<lambda>((obj, name), k).
     case map_of (eng_regions e) k of
       None \<Rightarrow> [finding StatusCode.UnknownRegion ''region name index references a missing region'']
     | Some r \<Rightarrow> check id (reg_object r \<noteq> obj \<or> reg_name r \<noteq> name) StatusCode.InternalInvariantViolation
         (''region name index disagrees with the region record for '' @ name)) (eng_region_index e))"

definition audit_store :: "engine \<Rightarrow> AuditFinding list" where
  "audit_store e = check id (cfg_enable_durability (eng_config e) \<and> eng_store e \<noteq> None \<and> \<not> eng_store_healthy e)
     StatusCode.PersistenceFailure ''the durable store reported a failure since the last successful append''"

section \<open>Regions\<close>

definition audit_region_owner :: "engine \<Rightarrow> RegionRecord \<Rightarrow> (AuditFinding \<Rightarrow> AuditFinding) \<Rightarrow> AuditFinding list" where
  "audit_region_owner e r about =
     (case map_of (eng_participants e) (reg_participant r) of
        None \<Rightarrow> [about (finding StatusCode.UnknownParticipant ''region references a missing participant'')]
      | Some p \<Rightarrow>
          let terminal = (reg_lifecycle r = RegionLifecycle.Retired \<or> reg_state r = CoherenceState.Fenced) in
          check about (\<not> terminal \<and> par_boot p \<noteq> reg_boot r) StatusCode.StaleBoot
            ''a live region carries a boot identity that is not the participant's live boot'' @
          check about (\<not> terminal \<and> par_lifecycle p = ParticipantLifecycle.Fenced) StatusCode.Fenced
            ''a region of a fenced participant is not marked fenced'')"

definition audit_region_pending :: "engine \<Rightarrow> RegionRecord \<Rightarrow> (AuditFinding \<Rightarrow> AuditFinding) \<Rightarrow> AuditFinding list" where
  "audit_region_pending e r about =
     (if \<not> reg_invalidation_pending r then []
      else if is_nil (reg_pending_invalidation r)
        then [about (finding StatusCode.InternalInvariantViolation ''a pending invalidation is not identified'')]
      else case map_of (eng_invalidations e) (reg_pending_invalidation r) of
          None \<Rightarrow> [about (finding StatusCode.UnknownInvalidation ''a pending invalidation references a missing record'')]
        | Some iv \<Rightarrow> check about (inv_state iv \<noteq> InvalidationState.Requested) StatusCode.InternalInvariantViolation
            ''a settled invalidation is still marked pending on the replica'')"

definition detail_generation :: "RegionRecord \<Rightarrow> ObjectRecord \<Rightarrow> string" where
  "detail_generation r ob = ''region binds to object generation '' @ id_to_string (reg_object_generation r) @
     '' but the object generation is '' @ id_to_string (obj_generation ob)"

definition detail_mismatch :: string where
  "detail_mismatch = ''a current replica does not match the authoritative version''"

definition detail_missing_object :: string where
  "detail_missing_object = ''region references a missing object''"

definition audit_region :: "engine \<Rightarrow> RegionRecord \<Rightarrow> AuditFinding list" where
  "audit_region e r =
     (case map_of (eng_objects e) (reg_object r) of
        None \<Rightarrow> [finding StatusCode.UnknownObject detail_missing_object]
      | Some ob \<Rightarrow>
          let about = (\<lambda>f. f\<lparr>af_object := obj_id ob, af_region := reg_id r\<rparr>) in
          check about (reg_object_generation r \<noteq> obj_generation ob) StatusCode.InternalInvariantViolation
            (detail_generation r ob) @
          check about (\<not> checked_range (reg_offset r) (reg_length r) (obj_length ob)) StatusCode.InvalidArgument
            ''region extent lies outside the object extent'' @
          audit_region_owner e r about @
          check about (reg_lifecycle r = RegionLifecycle.Retired \<and> reg_state r \<noteq> CoherenceState.Retired)
            StatusCode.InternalInvariantViolation ''a retired region is not in the retired coherence state'' @
          check about (reg_state r = CoherenceState.Retired \<and> reg_invalidation_pending r)
            StatusCode.InternalInvariantViolation ''a retired replica still has an outstanding invalidation'' @
          check about (reg_state r = CoherenceState.Current \<and> is_nil (reg_evidence r))
            StatusCode.EvidenceMissing ''a replica is marked current without any supporting evidence'' @
          check about (reg_state r = CoherenceState.Current \<and> is_defined (obj_authoritative_version ob) \<and>
              reg_version r \<noteq> obj_authoritative_version ob) StatusCode.ReadNotCurrent detail_mismatch @
          check about (reg_state r = CoherenceState.Dirty \<and> reg_dirty r \<noteq> DirtyCondition.DirtyUnpublished)
            StatusCode.InternalInvariantViolation ''a dirty replica does not carry an unpublished modification'' @
          check about (reg_state r = CoherenceState.Dirty \<and> \<not> reg_declared_writable r)
            StatusCode.InvalidTransition ''a replica declared read-only is marked dirty'' @
          audit_region_pending e r about @
          check about (is_defined (obj_authoritative_version ob) \<and> is_defined (reg_version r) \<and>
              reg_version r > obj_authoritative_version ob) StatusCode.InternalInvariantViolation
            ''a replica claims a version newer than the authoritative version'' @
          check about (is_defined (obj_ownership_generation ob) \<and> is_defined (reg_ownership_generation r) \<and>
              reg_ownership_generation r > obj_ownership_generation ob) StatusCode.StaleOwnership
            ''a replica carries an ownership generation from the future'')"

definition audit_region_counts :: "engine \<Rightarrow> AuditFinding list" where
  "audit_region_counts e = concat (map (\<lambda>(k, p).
     check id (par_region_count p \<noteq> of_nat (length (filter (\<lambda>r. reg_participant r = k) (sm_values (eng_regions e)))))
       StatusCode.InternalInvariantViolation (''participant region accounting does not close: '' @ par_name p))
     (eng_participants e))"

section \<open>Objects\<close>

definition audit_replicas :: "engine \<Rightarrow> ObjectRecord \<Rightarrow> (AuditFinding \<Rightarrow> AuditFinding) \<Rightarrow> AuditFinding list" where
  "audit_replicas e ob about =
     check about (\<not> distinct (obj_replicas ob)) StatusCode.DuplicateIdentity
       ''object lists the same replica more than once'' @
     check about (sort (obj_replicas ob) \<noteq> obj_replicas ob) StatusCode.InternalInvariantViolation
       ''object replica list is not in canonical order'' @
     concat (map (\<lambda>k. case map_of (eng_regions e) k of
         None \<Rightarrow> [about (finding StatusCode.UnknownRegion ''object references a missing replica'')]
       | Some r \<Rightarrow> check about (reg_object r \<noteq> obj_id ob) StatusCode.InternalInvariantViolation
           ''a replica listed by this object belongs to another object'') (obj_replicas ob))"

definition detail_no_owner :: string where
  "detail_no_owner = ''write authority is recorded without an owner''"

definition detail_dead_boot :: string where
  "detail_dead_boot = ''write authority is bound to a boot identity that is no longer live''"

definition audit_writer :: "engine \<Rightarrow> ObjectRecord \<Rightarrow> (AuditFinding \<Rightarrow> AuditFinding) \<Rightarrow> AuditFinding list" where
  "audit_writer e ob about =
     (if obj_authority ob \<noteq> AuthorityMode.ExclusiveWriter \<and> obj_authority ob \<noteq> AuthorityMode.TransferPending then []
      else if is_nil (obj_writer ob) then [about (finding StatusCode.NotAuthoritative detail_no_owner)]
      else case map_of (eng_participants e) (obj_writer ob) of
          None \<Rightarrow> [about (finding StatusCode.UnknownParticipant ''write authority references a missing participant'')]
        | Some p \<Rightarrow>
            check about (par_boot p \<noteq> obj_writer_boot ob) StatusCode.StaleBoot detail_dead_boot @
            check about (par_lifecycle p = ParticipantLifecycle.Fenced \<or> par_lifecycle p = ParticipantLifecycle.Retired)
              StatusCode.Fenced ''a fenced or retired participant retains write authority'')"

definition audit_grant :: "engine \<Rightarrow> ObjectRecord \<Rightarrow> (AuditFinding \<Rightarrow> AuditFinding) \<Rightarrow> ReadGrant \<Rightarrow> AuditFinding list" where
  "audit_grant e ob about g =
     (if grant_released g then []
      else (case map_of (eng_regions e) (grant_region g) of
              None \<Rightarrow> [about (finding StatusCode.UnknownRegion ''a live read grant references a missing replica'')]
            | Some r \<Rightarrow> check about (\<not> is_current_state (reg_state r) \<and> \<not> is_readable_state (reg_state r))
                StatusCode.ReadNotCurrent ''a live read grant references a replica that cannot be read'') @
           check about (obj_has_unpublished_dirty ob \<and> grant_version g \<noteq> obj_authoritative_version ob \<and>
               is_defined (grant_version g)) StatusCode.DirtyUnpublished
             ''a reader holds a version while an unpublished modification exists'')"

text \<open>The loop over the grants stops at the first one it reports.\<close>

definition audit_exclusion :: "ObjectRecord \<Rightarrow> (AuditFinding \<Rightarrow> AuditFinding) \<Rightarrow> AuditFinding list" where
  "audit_exclusion ob about =
     check about ((obj_authority ob = AuthorityMode.ExclusiveWriter \<or> obj_authority ob = AuthorityMode.TransferPending) \<and>
         list_ex (\<lambda>g. \<not> grant_released g \<and>
           \<not> (grant_participant g = obj_writer ob \<and> grant_boot g = obj_writer_boot ob)) (obj_reads ob))
       StatusCode.ExclusiveWriterConflict
       ''exclusive write authority coexists with a live read grant held by another participant incarnation''"

definition audit_pending :: "engine \<Rightarrow> ObjectRecord \<Rightarrow> (AuditFinding \<Rightarrow> AuditFinding) \<Rightarrow> AuditFinding list" where
  "audit_pending e ob about =
     (if obj_publication_state ob \<noteq> PublicationState.PendingDurable then []
      else check about (is_nil (obj_pending_publication ob)) StatusCode.InternalInvariantViolation
             ''a publication is pending durability without a publication identity'' @
           check about (cfg_enable_durability (eng_config e) \<and> eng_store e \<noteq> None \<and>
               map_of (img_pending_publications (eng_durable e)) (obj_pending_publication ob) = None \<and>
               map_of (eng_in_flight_publications e) (obj_pending_publication ob) = None)
             StatusCode.PersistenceFailure ''a publication is pending durability with no durable pending record'')"

definition audit_outstanding :: "engine \<Rightarrow> (AuditFinding \<Rightarrow> AuditFinding) \<Rightarrow> InvalidationId \<Rightarrow> AuditFinding list" where
  "audit_outstanding e about i =
     (case map_of (eng_invalidations e) i of
        None \<Rightarrow> [about (finding StatusCode.UnknownInvalidation ''an outstanding invalidation record is missing'')]
      | Some iv \<Rightarrow> check about (inv_state iv \<noteq> InvalidationState.Requested) StatusCode.InternalInvariantViolation
          ''a settled invalidation is still listed as outstanding'')"

definition audit_object :: "engine \<Rightarrow> ObjectRecord \<Rightarrow> AuditFinding list" where
  "audit_object e ob =
     (let about = (\<lambda>f. f\<lparr>af_object := obj_id ob\<rparr>) in
      check about (map_of (eng_domains e) (obj_domain ob) = None) StatusCode.UnknownDomain
        ''object references a missing domain'' @
      check about (map_of (eng_policies e) (obj_policy ob) = None) StatusCode.UnknownPolicy
        ''object references a missing policy'' @
      audit_replicas e ob about @
      check about (is_defined (obj_authoritative_version ob) \<and> is_nil (obj_publication ob))
        StatusCode.InternalInvariantViolation
        ''an object has an authoritative version but no publication identity'' @
      check about (is_defined (obj_published_version ob) \<and> is_defined (obj_authoritative_version ob) \<and>
          obj_published_version ob > obj_authoritative_version ob) StatusCode.StalePublication
        ''the published version is newer than the authoritative version'' @
      audit_writer e ob about @
      check about (obj_authority ob = AuthorityMode.TransferPending \<and> \<not> has_outstanding_invalidations e (obj_id ob))
        StatusCode.InternalInvariantViolation ''a write transfer is pending with no outstanding invalidation'' @
      concat (map (audit_grant e ob about) (obj_reads ob)) @
      audit_exclusion ob about @
      check about (obj_has_unpublished_dirty ob \<and> obj_dirty_condition ob \<noteq> DirtyCondition.DirtyUnpublished)
        StatusCode.InternalInvariantViolation
        ''an unpublished modification is tracked without the matching dirty condition'' @
      audit_pending e ob about @
      concat (map (audit_outstanding e about) (obj_outstanding_invalidations ob)))"

section \<open>Invalidations and synchronizations\<close>

definition audit_invalidation :: "engine \<Rightarrow> InvalidationRecord \<Rightarrow> AuditFinding list" where
  "audit_invalidation e iv =
     (let about = (\<lambda>f. f\<lparr>af_object := inv_object iv, af_region := inv_region iv, af_invalidation := inv_id iv\<rparr>) in
      check about (map_of (eng_objects e) (inv_object iv) = None) StatusCode.UnknownObject
        ''invalidation references a missing object'' @
      check about (is_defined (inv_epoch iv) \<and> inv_epoch iv > eng_epoch e) StatusCode.StaleEpoch
        ''invalidation carries an epoch from the future'' @
      check about (inv_state iv = InvalidationState.Acknowledged \<and> is_nil (inv_settled_sequence iv))
        StatusCode.InternalInvariantViolation ''an acknowledged invalidation has no settle sequence'' @
      check about (inv_target_boot iv \<noteq> 0 \<and> inv_state iv = InvalidationState.Requested \<and>
          (case map_of (eng_participants e) (inv_target_participant iv) of None \<Rightarrow> False
           | Some p \<Rightarrow> par_boot p \<noteq> inv_target_boot iv)) StatusCode.StaleBoot
        ''a requested invalidation targets a boot identity that is no longer live'')"

definition audit_sync :: "engine \<Rightarrow> SyncRecord \<Rightarrow> AuditFinding list" where
  "audit_sync e s =
     (let about = (\<lambda>f. f\<lparr>af_object := sync_object s, af_sync := sync_id s\<rparr>) in
      check about (map_of (eng_objects e) (sync_object s) = None) StatusCode.UnknownObject
        ''synchronization references a missing object'' @
      check about (map_of (eng_regions e) (sync_source_region s) = None) StatusCode.UnknownRegion
        ''synchronization references a missing source region'' @
      check about (map_of (eng_regions e) (sync_destination_region s) = None) StatusCode.UnknownRegion
        ''synchronization references a missing destination region'' @
      check about (is_defined (sync_epoch s) \<and> sync_epoch s > eng_epoch e) StatusCode.StaleEpoch
        ''synchronization carries an epoch from the future'' @
      check about (sync_state s = SyncState.Completed \<and> sync_destination_region_generation s \<noteq>
          (case map_of (eng_regions e) (sync_destination_region s) of None \<Rightarrow> 0 | Some r \<Rightarrow> reg_generation r))
        StatusCode.StaleRegionGeneration
        ''a completed synchronization targets a region generation that no longer exists'')"

section \<open>The audit\<close>

definition raw_findings :: "engine \<Rightarrow> AuditFinding list" where
  "raw_findings e =
     audit_domains e [] (eng_domains e) @ audit_participants e [] (eng_participants e) @
     audit_object_index e @ audit_region_index e @ audit_store e @
     concat (map (audit_region e) (sm_values (eng_regions e))) @ audit_region_counts e @
     concat (map (audit_object e) (sm_values (eng_objects e))) @
     concat (map (audit_invalidation e) (sm_values (eng_invalidations e))) @
     concat (map (audit_sync e) (sm_values (eng_syncs e)))"

text \<open>The order of the findings: code, then the identities, then the text.\<close>

definition finding_key :: "AuditFinding \<Rightarrow> u16 \<times> u64 \<times> u64 \<times> u64 \<times> u64 \<times> string" where
  "finding_key f = (status_code_to_u16 (af_code f), af_object f, af_region f, af_invalidation f, af_sync f, af_detail f)"

definition audit :: "engine \<Rightarrow> AuditReport" where
  "audit e =
     (let findings = sort_key finding_key (raw_findings e)
      in \<lparr>ar_clean = (findings = []), ar_epoch = eng_epoch e, ar_sequence = eng_sequence e,
          ar_objects_checked = of_nat (length (eng_objects e)),
          ar_regions_checked = of_nat (length (eng_regions e)),
          ar_participants_checked = of_nat (length (eng_participants e)),
          ar_invalidations_checked = of_nat (length (eng_invalidations e)),
          ar_syncs_checked = of_nat (length (eng_syncs e)), ar_findings = findings\<rparr>)"

end
