(* ===== verification/Coordinator.thy ===== *)
theory Coordinator
  imports Control_Protocol Engine_Audit
begin

text \<open>
  The coordinator (\<^verbatim>\<open>src/coordinator.cpp\<close>): sessions, the handshake with connection replacement, the
  admission of frames, the dispatch of requests to the engine and the teardown of a session.  A
  connection is served by a thread of its own; what it does between two receptions is one function
  here.  Session identities come from the operating system and are arguments.  A session is shared
  between its thread and the session table: \<open>co_store\<close> holds every session that is being served,
  \<open>co_sessions\<close> the identities in the table.  Bodies of responses are typed (\<open>reply\<close>): the records among
  them are encoded by \<open>Wire\<close> and \<open>Codec\<close>, the rest is rendered as text.
\<close>

section \<open>State\<close>

record Session =
  ses_id :: SessionId
  ses_participant :: ParticipantId
  ses_boot :: ParticipantBootId
  ses_observer :: bool
  ses_replaced :: bool
  ses_said_goodbye :: bool
  ses_last_sequence :: u64
  ses_recent_correlations :: "u64 list"
  ses_correlation_set :: "u64 list"
  ses_name :: string

record Coordinator =
  co_engine :: engine
  co_store :: "(SessionId, Session) std_map"
  co_sessions :: "SessionId list"
  co_participant_session :: "(ParticipantId, SessionId) std_map"
  co_stopping :: bool
  co_accepted :: u64
  co_rejected :: u64
  co_max_sessions :: u64
  co_correlation_window :: u64
  co_recovery :: RecoveryReport

definition default_snapshot_options :: SnapshotOptions where
  "default_snapshot_options =
     \<lparr>opt_include_regions = True, opt_include_reads = True, opt_include_invalidations = True,
      opt_include_syncs = True, opt_include_participants = True, opt_object_filter = 0, opt_max_objects = 0\<rparr>"

section \<open>Start\<close>

text \<open>A coordinator with a state directory recovers from the store there, one without starts afresh.\<close>

definition start_engine :: "EngineConfig \<Rightarrow> MemoryDurableStore option \<Rightarrow> RecoveryReport Result \<times> engine" where
  "start_engine config store =
     (case store of
        Some _ \<Rightarrow> attach_store (new_engine config) store
      | None \<Rightarrow> (Inr (empty_recovery_report\<lparr>rep_new_epoch := eng_epoch (new_engine config)\<rparr>), new_engine config))"

text \<open>The domain of the coordinator is found by its name or created.\<close>

definition start ::
  "EngineConfig \<Rightarrow> MemoryDurableStore option \<Rightarrow> string \<Rightarrow> u64 \<Rightarrow> u64 \<Rightarrow> Coordinator Result" where
  "start config store domain_name max_sessions window =
     (case start_engine (config\<lparr>cfg_enable_durability := (store \<noteq> None)\<rparr>) store of
        (Inl code, e) \<Rightarrow> Inl code
      | (Inr report, e) \<Rightarrow>
          let found = find (\<lambda>d. dom_name d = domain_name) (snap_domains (snapshot e default_snapshot_options));
              (domain, e) = (case found of Some d \<Rightarrow> (Inr d, e) | None \<Rightarrow> create_domain e domain_name)
          in case domain of
              Inl code \<Rightarrow> Inl code
            | Inr d \<Rightarrow> Inr \<lparr>co_engine = e, co_store = [], co_sessions = [], co_participant_session = [],
                co_stopping = False, co_accepted = 0, co_rejected = 0, co_max_sessions = max_sessions,
                co_correlation_window = window, co_recovery = report\<rparr>)"

section \<open>Handshake\<close>

definition new_session :: "SessionId \<Rightarrow> ParticipantId \<Rightarrow> HelloRequest \<Rightarrow> Session" where
  "new_session sid participant hello =
     \<lparr>ses_id = sid, ses_participant = participant, ses_boot = hr_boot hello, ses_observer = hr_observer hello,
      ses_replaced = False, ses_said_goodbye = False, ses_last_sequence = 0, ses_recent_correlations = [],
      ses_correlation_set = [], ses_name = hr_participant_name hello\<rparr>"

definition refuse :: "StatusCode \<Rightarrow> Coordinator \<Rightarrow> HelloResponse Result \<times> Coordinator" where
  "refuse code c = (Inl code, c\<lparr>co_rejected := co_rejected c + 1\<rparr>)"

text \<open>A live session of the participant leaves the table and learns that it was replaced.\<close>

definition replace_connection :: "ParticipantId \<Rightarrow> Coordinator \<Rightarrow> Coordinator" where
  "replace_connection k c =
     (case map_of (co_participant_session c) k of
        None \<Rightarrow> c
      | Some sid \<Rightarrow>
          if sid \<notin> set (co_sessions c) then c
          else c\<lparr>co_store := sm_map (\<lambda>j s. if j = sid then s\<lparr>ses_replaced := True\<rparr> else s) (co_store c),
                 co_sessions := filter (\<lambda>j. j \<noteq> sid) (co_sessions c),
                 co_participant_session := sm_erase k (co_participant_session c)\<rparr>)"

definition superseded_reason :: string where
  "superseded_reason = ''superseded by a new participant boot identity''"

definition displace :: "HelloRequest \<Rightarrow> Coordinator \<Rightarrow> Coordinator" where
  "displace hello c =
     (case find_participant (co_engine c) (hr_participant_name hello) of
        Inl _ \<Rightarrow> c
      | Inr existing \<Rightarrow>
          let c = replace_connection (par_id existing) c in
          if par_boot existing \<noteq> hr_boot hello
          then c\<lparr>co_engine := snd (fence_participant (co_engine c) (par_id existing) (eng_epoch (co_engine c))
                 superseded_reason)\<rparr>
          else c)"

text \<open>Admission of a participant: the capacity check and the replacement under the table lock, then the
  registration with the engine.  Observers skip all of it.\<close>

definition admit :: "HelloRequest \<Rightarrow> Coordinator \<Rightarrow> ParticipantId Result \<times> Coordinator" where
  "admit hello c =
     (if hr_observer hello then (Inr 0, c)
      else if hr_participant_name hello = [] then (Inl StatusCode.InvalidArgument, c)
      else if hr_boot hello = 0 then (Inl StatusCode.InvalidArgument, c)
      else if length (co_sessions c) \<ge> unat (if co_max_sessions c = 0 then 1 else co_max_sessions c)
        then (Inl StatusCode.CapacityExceeded, c)
      else let c = displace hello c;
               (registered, e) = register_participant (co_engine c) (hr_participant_name hello) (hr_boot hello)
                 (eng_epoch (co_engine c)) (hr_node_label hello)
           in (case registered of Inl code \<Rightarrow> Inl code | Inr p \<Rightarrow> Inr (par_id p), c\<lparr>co_engine := e\<rparr>))"

definition install_session :: "SessionId \<Rightarrow> ParticipantId \<Rightarrow> HelloRequest \<Rightarrow> Coordinator \<Rightarrow> Coordinator" where
  "install_session sid participant hello c =
     c\<lparr>co_store := sm_put sid (new_session sid participant hello) (co_store c),
       co_sessions := ss_insert sid (co_sessions c),
       co_participant_session := (if hr_observer hello then co_participant_session c
         else sm_put participant sid (co_participant_session c))\<rparr>"

definition hello :: "string \<Rightarrow> SessionId \<Rightarrow> HelloRequest \<Rightarrow> Coordinator \<Rightarrow> HelloResponse Result \<times> Coordinator" where
  "hello build sid req c =
     (if hr_protocol_version req \<noteq> protocol_version then refuse StatusCode.UnsupportedSchema c
      else if hr_schema req \<noteq> persistence_schema then refuse StatusCode.UnsupportedSchema c
      else if eng_shutting_down (co_engine c) then refuse StatusCode.ShuttingDown c
      else case admit req c of
          (Inl code, c) \<Rightarrow> refuse code c
        | (Inr participant, c) \<Rightarrow>
            if sid = 0 then refuse StatusCode.InternalError c
            else let c = install_session sid participant req c
                 in (Inr \<lparr>hs_session = sid, hs_epoch = eng_epoch (co_engine c),
                       hs_protocol_version = protocol_version, hs_schema = persistence_schema,
                       hs_build = build, hs_nonce = hr_nonce req, hs_participant = participant,
                       hs_observer = hr_observer req\<rparr>, c))"

text \<open>The first frame of a connection, if one was received.\<close>

definition handshake :: "string \<Rightarrow> SessionId \<Rightarrow> Frame Result \<Rightarrow> Coordinator \<Rightarrow> HelloResponse Result \<times> Coordinator" where
  "handshake build sid received c =
     (let c = c\<lparr>co_accepted := co_accepted c + 1\<rparr> in
      case received of
        Inl code \<Rightarrow> (Inl code, c)
      | Inr frame \<Rightarrow>
          if fh_type (fr_header frame) \<noteq> MessageType.Hello then refuse StatusCode.ProtocolViolation c
          else case decode_hello_request default_decode_limits (fr_body frame) of
              Inl _ \<Rightarrow> refuse StatusCode.ProtocolViolation c
            | Inr (req, rest) \<Rightarrow>
                if rest \<noteq> [] then refuse StatusCode.ProtocolViolation c else hello build sid req c)"

text \<open>The acknowledgement could not be sent: the session never starts.\<close>

definition hello_unsent :: "SessionId \<Rightarrow> ParticipantId \<Rightarrow> Coordinator \<Rightarrow> Coordinator" where
  "hello_unsent sid participant c =
     c\<lparr>co_store := sm_erase sid (co_store c), co_sessions := filter (\<lambda>j. j \<noteq> sid) (co_sessions c),
       co_participant_session := sm_erase participant (co_participant_session c)\<rparr>"

section \<open>Admission of frames\<close>

datatype frame_verdict = Closing StatusCode | Refusing StatusCode | Admitted

text \<open>The oldest correlations leave the window one by one.\<close>

fun trim_window :: "nat \<Rightarrow> u64 list \<Rightarrow> u64 list \<Rightarrow> u64 list \<times> u64 list" where
  "trim_window window [] known = ([], known)"
| "trim_window window (front # recent) known =
     (if length (front # recent) > window
      then trim_window window recent (filter (\<lambda>x. x \<noteq> front) known)
      else (front # recent, known))"

definition remember_correlation :: "u64 \<Rightarrow> u64 \<Rightarrow> Session \<Rightarrow> Session" where
  "remember_correlation window correlation s =
     (let (recent, known) = trim_window (unat window) (ses_recent_correlations s @ [correlation])
        (ss_insert correlation (ses_correlation_set s))
      in s\<lparr>ses_recent_correlations := recent, ses_correlation_set := known\<rparr>)"

definition admit_frame :: "u64 \<Rightarrow> CoordinatorEpoch \<Rightarrow> FrameHeader \<Rightarrow> Session \<Rightarrow> frame_verdict \<times> Session" where
  "admit_frame window epoch header s =
     (if fh_session header \<noteq> ses_id s then (Closing StatusCode.StaleSession, s)
      else if fh_sequence header \<le> ses_last_sequence s then (Closing StatusCode.ReplayedRequest, s)
      else if fh_correlation header \<in> set (ses_correlation_set s) then (Closing StatusCode.ReplayedRequest, s)
      else let s = s\<lparr>ses_last_sequence := fh_sequence header\<rparr> in
        if fh_epoch header \<noteq> epoch then (Refusing StatusCode.StaleEpoch, s)
        else (Admitted, remember_correlation window (fh_correlation header) s))"

section \<open>Dispatch\<close>

datatype reply =
    NoReply
  | PongReply u64 CoordinatorEpoch OperationSequence
  | DomainReply DomainRecord
  | ObjectReply ObjectRecord
  | RegionReply RegionRecord
  | ParticipantReply ParticipantRecord
  | ReadReply ReadDecision
  | GrantReply WriteGrant
  | DirtyReply DirtyCondition
  | PublicationReply PublicationReceipt
  | InvalidationReply InvalidationOutcome
  | InvalidationsReply "InvalidationRecord list"
  | SyncReply SyncOutcome
  | ReleaseReply ReleaseOutcome
  | SnapshotReply CoherenceSnapshot
  | ParticipantsReply "ParticipantRecord list"
  | ObjectsReply "ObjectRecord list"
  | RegionsReply "RegionRecord list"
  | AuditReply AuditReport
  | PolicyReply "CoherencePolicy Result"
  | DecisionLogReply "DecisionRecord list"
  | RecoveryReply RecoveryReport
  | TextReply string

type_synonym dispatched = "(StatusCode \<times> reply) \<times> engine"

text \<open>A payload that does not decode is answered with the status of the reader.\<close>

definition decoded :: "'a reader \<Rightarrow> bytes \<Rightarrow> engine \<Rightarrow> ('a \<Rightarrow> dispatched) \<Rightarrow> dispatched" where
  "decoded dec body e act =
     (case dec body of Inl err \<Rightarrow> ((reader_status err, NoReply), e) | Inr (v, rest) \<Rightarrow> act v)"

definition answer :: "('a \<Rightarrow> reply) \<Rightarrow> 'a Result \<times> engine \<Rightarrow> dispatched" where
  "answer wrap outcome =
     (case outcome of (Inl code, e) \<Rightarrow> ((code, NoReply), e) | (Inr v, e) \<Rightarrow> ((StatusCode.Ok, wrap v), e))"

definition answer_status :: "string \<Rightarrow> StatusCode \<times> engine \<Rightarrow> dispatched" where
  "answer_status text outcome =
     (case outcome of (code, e) \<Rightarrow> ((code, if code = StatusCode.Ok then TextReply text else NoReply), e))"

definition inspects :: "MessageType \<Rightarrow> bool" where
  "inspects type \<longleftrightarrow> type \<in> {MessageType.Query, MessageType.Snapshot, MessageType.Audit, MessageType.Ping,
     MessageType.ListParticipants, MessageType.ListObjects, MessageType.ListRegions,
     MessageType.DecisionLog, MessageType.RecoveryInfo}"

text \<open>The identity of the session replaces what the client wrote into the context.\<close>

definition as_session :: "Session \<Rightarrow> CoordinatorEpoch \<Rightarrow> AuthorityContext \<Rightarrow> AuthorityContext" where
  "as_session s epoch ctx = ctx\<lparr>actx_participant := ses_participant s, actx_boot := ses_boot s, actx_epoch := epoch\<rparr>"

definition dispatch_resolve :: "bytes \<Rightarrow> engine \<Rightarrow> dispatched" where
  "dispatch_resolve body e =
     decoded (\<lambda>r. rbind (r_u64 r) (\<lambda>(obj, r). rbind (r_u64 r) (\<lambda>(generation, r).
         rbind (decode_text_block default_decode_limits r) (\<lambda>(text, r). Inr ((obj, generation, text), r))))) body e
       (\<lambda>(obj, generation, text). answer ObjectReply (resolve_recovery e obj generation (eng_epoch e) text))"

text \<open>A query names an object, if eight bytes are there, and a selector, if anything is left.\<close>

definition dispatch_query :: "RecoveryReport \<Rightarrow> bytes \<Rightarrow> engine \<Rightarrow> dispatched" where
  "dispatch_query recovery body e =
     decoded (\<lambda>r. rbind (if length r \<ge> 8 then r_u64 r else Inr (0, r)) (\<lambda>(obj, r).
         rbind (if r \<noteq> [] then decode_text_block default_decode_limits r else Inr ([], r)) (\<lambda>(selector, r).
         Inr ((obj, selector), r)))) body e
       (\<lambda>(obj, selector).
          ((StatusCode.Ok,
            if selector = ''policy'' then PolicyReply (get_policy e obj)
            else if selector = ''audit'' then AuditReply (audit e)
            else if selector = ''decisions'' then DecisionLogReply (eng_decision_log e)
            else if selector = ''recovery'' then RecoveryReply recovery
            else SnapshotReply (snapshot e (default_snapshot_options\<lparr>opt_object_filter := obj\<rparr>))), e))"

text \<open>Only what targets this incarnation is listed.\<close>

definition dispatch_invalidations :: "Session \<Rightarrow> engine \<Rightarrow> dispatched" where
  "dispatch_invalidations s e =
     ((StatusCode.Ok, InvalidationsReply (filter (\<lambda>iv. inv_state iv = InvalidationState.Requested \<and>
        inv_target_participant iv = ses_participant s \<and> inv_target_boot iv = ses_boot s)
        (snap_invalidations (snapshot e default_snapshot_options)))), e)"

text \<open>Inspection and administration.\<close>

definition dispatch_admin :: "RecoveryReport \<Rightarrow> Session \<Rightarrow> Frame \<Rightarrow> engine \<Rightarrow> dispatched" where
  "dispatch_admin recovery s frame e =
     (let body = fr_body frame; limits = default_decode_limits; epoch = eng_epoch e;
          snap = snapshot e default_snapshot_options
      in case fh_type (fr_header frame) of
        MessageType.Snapshot \<Rightarrow> decoded (decode_snapshot_options default_snapshot_options) body e
          (\<lambda>options. ((StatusCode.Ok, SnapshotReply (snapshot e options)), e))
      | MessageType.Query \<Rightarrow> dispatch_query recovery body e
      | MessageType.Audit \<Rightarrow> ((StatusCode.Ok, AuditReply (audit e)), e)
      | MessageType.ListInvalidations \<Rightarrow> dispatch_invalidations s e
      | MessageType.DecisionLog \<Rightarrow> ((StatusCode.Ok, DecisionLogReply (eng_decision_log e)), e)
      | MessageType.RecoveryInfo \<Rightarrow> ((StatusCode.Ok, RecoveryReply recovery), e)
      | MessageType.ListParticipants \<Rightarrow> ((StatusCode.Ok, ParticipantsReply (snap_participants snap)), e)
      | MessageType.ListObjects \<Rightarrow> ((StatusCode.Ok, ObjectsReply (snap_objects snap)), e)
      | MessageType.ListRegions \<Rightarrow> ((StatusCode.Ok, RegionsReply (snap_regions snap)), e)
      | MessageType.SetPolicy \<Rightarrow> decoded (decode_set_policy limits) body e
          (\<lambda>(obj, generation, expected, policy). answer ObjectReply (set_policy e obj generation expected policy))
      | MessageType.FenceParticipant \<Rightarrow> decoded (decode_fence_participant limits) body e
          (\<lambda>(k, reason). answer ParticipantReply (fence_participant e k epoch reason))
      | MessageType.RetireRegion \<Rightarrow> decoded decode_retire body e
          (\<lambda>(k, generation). answer_status (''region '' @ id_to_string k @ '' retired'')
             (retire_region e k generation epoch))
      | MessageType.RetireObject \<Rightarrow> decoded decode_retire body e
          (\<lambda>(k, generation). answer_status (''object '' @ id_to_string k @ '' retired'')
             (retire_object e k generation epoch))
      | MessageType.Shutdown \<Rightarrow> answer_status ''shutdown initiated: authority revoked and pending work settled''
             (begin_shutdown e epoch)
      | _ \<Rightarrow> ((StatusCode.Unsupported, NoReply), e))"

text \<open>The requests of participants.\<close>

definition dispatch_request :: "RecoveryReport \<Rightarrow> Session \<Rightarrow> Frame \<Rightarrow> engine \<Rightarrow> dispatched" where
  "dispatch_request recovery s frame e =
     (let body = fr_body frame; limits = default_decode_limits; epoch = eng_epoch e;
          mine = as_session s epoch
      in case fh_type (fr_header frame) of
        MessageType.Ping \<Rightarrow> decoded r_u64 body e (\<lambda>nonce.
          ((StatusCode.Ok, PongReply nonce epoch (eng_sequence e)), e))
      | MessageType.CreateDomain \<Rightarrow> decoded (decode_create_domain limits) body e
          (\<lambda>name. answer DomainReply (create_domain e name))
      | MessageType.RegisterObject \<Rightarrow> decoded (decode_register_object limits) body e
          (\<lambda>(domain, name, len, policy). answer ObjectReply (register_object e domain name len policy))
      | MessageType.RegisterRegion \<Rightarrow> decoded (decode_region_registration limits) body e
          (\<lambda>reg. answer RegionReply (register_region e (reg\<lparr>rr_context := mine (rr_context reg)\<rparr>)))
      | MessageType.AcquireRead \<Rightarrow> decoded decode_read_request body e
          (\<lambda>req. answer ReadReply (acquire_read e (req\<lparr>rreq_context := mine (rreq_context req)\<rparr>)))
      | MessageType.AcquireWrite \<Rightarrow> decoded decode_write_request body e
          (\<lambda>req. answer GrantReply (acquire_write e (req\<lparr>wreq_context := mine (wreq_context req)\<rparr>)))
      | MessageType.MarkDirty \<Rightarrow> decoded (decode_dirty_request limits) body e
          (\<lambda>req. answer DirtyReply (mark_dirty e (req\<lparr>dreq_context := mine (dreq_context req)\<rparr>)))
      | MessageType.Publish \<Rightarrow> decoded (decode_publish_request limits) body e
          (\<lambda>req. answer PublicationReply (publish e (req\<lparr>preq_context := mine (preq_context req)\<rparr>)))
      | MessageType.Invalidate \<Rightarrow> decoded decode_invalidation_request body e
          (\<lambda>req. answer InvalidationReply (invalidate e
             (req\<lparr>ireq_context := (ireq_context req)\<lparr>actx_epoch := epoch\<rparr>\<rparr>)))
      | MessageType.AcknowledgeInvalidation \<Rightarrow> decoded decode_invalidation_ack body e
          (\<lambda>ack. answer InvalidationReply (acknowledge_invalidation e (ack\<lparr>iack_context := mine (iack_context ack)\<rparr>)))
      | MessageType.SyncBegin \<Rightarrow> decoded (decode_sync_request limits) body e
          (\<lambda>req. answer SyncReply (begin_sync e (req\<lparr>sreq_context := mine (sreq_context req)\<rparr>)))
      | MessageType.SyncComplete \<Rightarrow> decoded (decode_sync_complete limits) body e
          (\<lambda>req. answer SyncReply (complete_sync e (req\<lparr>creq_context := mine (creq_context req)\<rparr>)))
      | MessageType.SyncFail \<Rightarrow> decoded (decode_sync_fail limits) body e
          (\<lambda>req. answer SyncReply (fail_sync e (req\<lparr>freq_context := mine (freq_context req)\<rparr>)))
      | MessageType.Release \<Rightarrow> decoded decode_release_request body e
          (\<lambda>req. answer ReleaseReply (release e (req\<lparr>lreq_context := mine (lreq_context req)\<rparr>)))
      | MessageType.Revalidate \<Rightarrow> decoded (decode_revalidate_request limits) body e
          (\<lambda>req. answer RegionReply (revalidate_region e (req\<lparr>vreq_context := mine (vreq_context req)\<rparr>)))
      | MessageType.ResolveRecovery \<Rightarrow> dispatch_resolve body e
      | _ \<Rightarrow> dispatch_admin recovery s frame e)"

text \<open>Observers may only inspect; a shutdown that begins stops the server.\<close>

definition dispatch :: "Session \<Rightarrow> Frame \<Rightarrow> Coordinator \<Rightarrow> (StatusCode \<times> reply) \<times> Coordinator" where
  "dispatch s frame c =
     (if ses_observer s \<and> \<not> inspects (fh_type (fr_header frame))
      then ((StatusCode.NotWriteAuthorized, NoReply), c)
      else let (response, e) = dispatch_request (co_recovery c) s frame (co_engine c)
           in (response, c\<lparr>co_engine := e, co_stopping := (co_stopping c \<or>
                 fh_type (fr_header frame) = MessageType.Shutdown \<and> fst response = StatusCode.Ok)\<rparr>))"

section \<open>Serving a session\<close>

text \<open>One turn of the request loop; the flag tells whether the connection is closed after the answer.\<close>

definition serve_frame ::
  "SessionId \<Rightarrow> Frame \<Rightarrow> Coordinator \<Rightarrow> ((StatusCode \<times> reply) \<times> bool) \<times> Coordinator" where
  "serve_frame sid frame c =
     (case map_of (co_store c) sid of
        None \<Rightarrow> (((StatusCode.StaleSession, NoReply), True), c)
      | Some s \<Rightarrow>
          let (verdict, s) = admit_frame (co_correlation_window c) (eng_epoch (co_engine c)) (fr_header frame) s;
              c = c\<lparr>co_store := sm_put sid s (co_store c)\<rparr>
          in case verdict of
              Closing code \<Rightarrow> (((code, NoReply), True), c)
            | Refusing code \<Rightarrow> (((code, NoReply), False), c)
            | Admitted \<Rightarrow> let (response, c) = dispatch s frame c in ((response, False), c))"

definition say_goodbye :: "SessionId \<Rightarrow> Coordinator \<Rightarrow> Coordinator" where
  "say_goodbye sid c =
     c\<lparr>co_store := sm_map (\<lambda>j s. if j = sid then s\<lparr>ses_said_goodbye := True\<rparr> else s) (co_store c)\<rparr>"

definition lost_reason :: string where
  "lost_reason = ''the control connection was lost without a clean shutdown''"

text \<open>The end of a session: a participant that said goodbye is marked closed, one that vanished is fenced.\<close>

definition teardown :: "SessionId \<Rightarrow> Coordinator \<Rightarrow> Coordinator" where
  "teardown sid c =
     (case map_of (co_store c) sid of
        None \<Rightarrow> c
      | Some s \<Rightarrow>
          let c = c\<lparr>co_store := sm_erase sid (co_store c),
                co_sessions := filter (\<lambda>j. j \<noteq> sid) (co_sessions c),
                co_participant_session := (if map_of (co_participant_session c) (ses_participant s) = Some sid
                  then sm_erase (ses_participant s) (co_participant_session c) else co_participant_session c)\<rparr>;
              e = co_engine c
          in if ses_observer s \<or> ses_replaced s \<or> is_nil (ses_participant s) then c
             else case get_participant e (ses_participant s) of
                 Inl _ \<Rightarrow> c
               | Inr p \<Rightarrow>
                   if par_boot p \<noteq> ses_boot s then c
                   else c\<lparr>co_engine := (if ses_said_goodbye s
                       then snd (mark_session_closed e (ses_participant s) (ses_boot s))
                       else snd (fence_participant e (ses_participant s) (eng_epoch e) lost_reason))\<rparr>)"

text \<open>A connection from its first frame to its end, when no other connection comes between: the frames
  that are received, each with whether its answer could be sent.  The connection is lost where the
  list ends.\<close>

fun request_loop :: "SessionId \<Rightarrow> (Frame Result \<times> bool) list \<Rightarrow> Coordinator \<Rightarrow> Coordinator" where
  "request_loop sid [] c = c"
| "request_loop sid ((received, sent) # events) c =
     (case received of
        Inl _ \<Rightarrow> c
      | Inr frame \<Rightarrow>
          if fh_type (fr_header frame) = MessageType.Goodbye then say_goodbye sid c
          else let ((response, closed), c) = serve_frame sid frame c
               in if \<not> sent \<or> closed then c else request_loop sid events c)"

definition serve_socket ::
  "string \<Rightarrow> SessionId \<Rightarrow> Frame Result \<Rightarrow> bool \<Rightarrow> (Frame Result \<times> bool) list \<Rightarrow> Coordinator \<Rightarrow> Coordinator" where
  "serve_socket build sid received acknowledged events c =
     (case handshake build sid received c of
        (Inl code, c) \<Rightarrow> c
      | (Inr response, c) \<Rightarrow>
          if \<not> acknowledged then hello_unsent sid (hs_participant response) c
          else teardown sid (request_loop sid events c))"

definition active_sessions :: "Coordinator \<Rightarrow> u64" where
  "active_sessions c = of_nat (length (co_sessions c))"

definition shutdown_engine :: "Coordinator \<Rightarrow> StatusCode \<times> Coordinator" where
  "shutdown_engine c =
     (let (begun, e) = begin_shutdown (co_engine c) (eng_epoch (co_engine c)) in
      if begun \<noteq> StatusCode.Ok then (begun, c\<lparr>co_engine := e\<rparr>)
      else let (completed, e) = complete_shutdown e (eng_epoch e) in (completed, c\<lparr>co_engine := e\<rparr>))"

end
