(* ===== verification/Engine_Frames.thy ===== *)
theory Engine_Frames
  imports Engine_Recovery
begin

text \<open>
  What the building blocks of the operations leave alone, and the relations between an engine and
  a later one that the invariants rest on.  The locale \<open>live_relation\<close> is the contract of such a
  relation: it does not see changes outside objects, regions and synchronizations; its lemmas push
  the relation through the helpers once, for every instance.  \<open>live_preorder\<close> extends it with
  reflexivity and transitivity, which loops need.
  \<open>calm\<close> is its main instance: no replica becomes current, no authoritative version changes, and
  the single-writer condition of an object is not broken.
\<close>

section \<open>Frames\<close>

lemma tick_frame [simp]:
  "eng_config (tick e) = eng_config e" "eng_epoch (tick e) = eng_epoch e"
  "eng_shutting_down (tick e) = eng_shutting_down e"
  "eng_participants (tick e) = eng_participants e" "eng_objects (tick e) = eng_objects e"
  "eng_regions (tick e) = eng_regions e" "eng_invalidations (tick e) = eng_invalidations e"
  "eng_syncs (tick e) = eng_syncs e" "eng_policies (tick e) = eng_policies e"
  "eng_in_flight_publications (tick e) = eng_in_flight_publications e"
  by (simp_all add: tick_def)

lemma put_participant_frame [simp]:
  "eng_config (put_participant k p e) = eng_config e"
  "eng_epoch (put_participant k p e) = eng_epoch e"
  "eng_sequence (put_participant k p e) = eng_sequence e"
  "eng_shutting_down (put_participant k p e) = eng_shutting_down e"
  "eng_objects (put_participant k p e) = eng_objects e"
  "eng_regions (put_participant k p e) = eng_regions e"
  "eng_invalidations (put_participant k p e) = eng_invalidations e"
  "eng_syncs (put_participant k p e) = eng_syncs e"
  "eng_policies (put_participant k p e) = eng_policies e"
  "eng_in_flight_publications (put_participant k p e) = eng_in_flight_publications e"
  by (simp_all add: put_participant_def)

lemma put_object_frame [simp]:
  "eng_config (put_object k ob e) = eng_config e" "eng_epoch (put_object k ob e) = eng_epoch e"
  "eng_sequence (put_object k ob e) = eng_sequence e"
  "eng_shutting_down (put_object k ob e) = eng_shutting_down e"
  "eng_participants (put_object k ob e) = eng_participants e"
  "eng_regions (put_object k ob e) = eng_regions e"
  "eng_invalidations (put_object k ob e) = eng_invalidations e"
  "eng_syncs (put_object k ob e) = eng_syncs e"
  "eng_policies (put_object k ob e) = eng_policies e"
  "eng_in_flight_publications (put_object k ob e) = eng_in_flight_publications e"
  by (simp_all add: put_object_def)

lemma put_region_frame [simp]:
  "eng_config (put_region k r e) = eng_config e" "eng_epoch (put_region k r e) = eng_epoch e"
  "eng_sequence (put_region k r e) = eng_sequence e"
  "eng_shutting_down (put_region k r e) = eng_shutting_down e"
  "eng_participants (put_region k r e) = eng_participants e"
  "eng_objects (put_region k r e) = eng_objects e"
  "eng_invalidations (put_region k r e) = eng_invalidations e"
  "eng_syncs (put_region k r e) = eng_syncs e" "eng_policies (put_region k r e) = eng_policies e"
  "eng_in_flight_publications (put_region k r e) = eng_in_flight_publications e"
  by (simp_all add: put_region_def)

lemma put_invalidation_frame [simp]:
  "eng_config (put_invalidation k iv e) = eng_config e"
  "eng_epoch (put_invalidation k iv e) = eng_epoch e"
  "eng_sequence (put_invalidation k iv e) = eng_sequence e"
  "eng_shutting_down (put_invalidation k iv e) = eng_shutting_down e"
  "eng_participants (put_invalidation k iv e) = eng_participants e"
  "eng_objects (put_invalidation k iv e) = eng_objects e"
  "eng_regions (put_invalidation k iv e) = eng_regions e"
  "eng_syncs (put_invalidation k iv e) = eng_syncs e"
  "eng_policies (put_invalidation k iv e) = eng_policies e"
  "eng_in_flight_publications (put_invalidation k iv e) = eng_in_flight_publications e"
  by (simp_all add: put_invalidation_def)

lemma put_sync_frame [simp]:
  "eng_config (put_sync k s e) = eng_config e" "eng_epoch (put_sync k s e) = eng_epoch e"
  "eng_sequence (put_sync k s e) = eng_sequence e"
  "eng_shutting_down (put_sync k s e) = eng_shutting_down e"
  "eng_participants (put_sync k s e) = eng_participants e"
  "eng_objects (put_sync k s e) = eng_objects e" "eng_regions (put_sync k s e) = eng_regions e"
  "eng_invalidations (put_sync k s e) = eng_invalidations e"
  "eng_policies (put_sync k s e) = eng_policies e"
  "eng_in_flight_publications (put_sync k s e) = eng_in_flight_publications e"
  by (simp_all add: put_sync_def)

lemma make_evidence_frame [simp]:
  "eng_config (snd (make_evidence e kind klass p b ob og r rg v c)) = eng_config e"
  "eng_epoch (snd (make_evidence e kind klass p b ob og r rg v c)) = eng_epoch e"
  "eng_sequence (snd (make_evidence e kind klass p b ob og r rg v c)) = eng_sequence e"
  "eng_shutting_down (snd (make_evidence e kind klass p b ob og r rg v c)) = eng_shutting_down e"
  "eng_participants (snd (make_evidence e kind klass p b ob og r rg v c)) = eng_participants e"
  "eng_objects (snd (make_evidence e kind klass p b ob og r rg v c)) = eng_objects e"
  "eng_regions (snd (make_evidence e kind klass p b ob og r rg v c)) = eng_regions e"
  "eng_invalidations (snd (make_evidence e kind klass p b ob og r rg v c)) = eng_invalidations e"
  "eng_syncs (snd (make_evidence e kind klass p b ob og r rg v c)) = eng_syncs e"
  "eng_policies (snd (make_evidence e kind klass p b ob og r rg v c)) = eng_policies e"
  "eng_in_flight_publications (snd (make_evidence e kind klass p b ob og r rg v c)) = eng_in_flight_publications e"
  by (simp_all add: make_evidence_def)

lemma make_context_frame [simp]:
  "eng_config (snd (make_context e a ob g ow)) = eng_config e"
  "eng_epoch (snd (make_context e a ob g ow)) = eng_epoch e"
  "eng_sequence (snd (make_context e a ob g ow)) = eng_sequence e"
  "eng_shutting_down (snd (make_context e a ob g ow)) = eng_shutting_down e"
  "eng_participants (snd (make_context e a ob g ow)) = eng_participants e"
  "eng_objects (snd (make_context e a ob g ow)) = eng_objects e"
  "eng_regions (snd (make_context e a ob g ow)) = eng_regions e"
  "eng_invalidations (snd (make_context e a ob g ow)) = eng_invalidations e"
  "eng_syncs (snd (make_context e a ob g ow)) = eng_syncs e"
  "eng_policies (snd (make_context e a ob g ow)) = eng_policies e"
  "eng_in_flight_publications (snd (make_context e a ob g ow)) = eng_in_flight_publications e"
  by (simp_all add: make_context_def Let_def)

lemma record_decision_frame [simp]:
  "eng_config (record_decision kind ctx code e) = eng_config e"
  "eng_epoch (record_decision kind ctx code e) = eng_epoch e"
  "eng_sequence (record_decision kind ctx code e) = eng_sequence e"
  "eng_shutting_down (record_decision kind ctx code e) = eng_shutting_down e"
  "eng_participants (record_decision kind ctx code e) = eng_participants e"
  "eng_objects (record_decision kind ctx code e) = eng_objects e"
  "eng_regions (record_decision kind ctx code e) = eng_regions e"
  "eng_invalidations (record_decision kind ctx code e) = eng_invalidations e"
  "eng_syncs (record_decision kind ctx code e) = eng_syncs e"
  "eng_policies (record_decision kind ctx code e) = eng_policies e"
  "eng_in_flight_publications (record_decision kind ctx code e) = eng_in_flight_publications e"
  by (simp_all add: record_decision_def Let_def)

lemma append_locked_frame [simp]:
  "eng_config (snd (append_locked e body)) = eng_config e"
  "eng_epoch (snd (append_locked e body)) = eng_epoch e"
  "eng_sequence (snd (append_locked e body)) = eng_sequence e"
  "eng_shutting_down (snd (append_locked e body)) = eng_shutting_down e"
  "eng_participants (snd (append_locked e body)) = eng_participants e"
  "eng_objects (snd (append_locked e body)) = eng_objects e"
  "eng_regions (snd (append_locked e body)) = eng_regions e"
  "eng_invalidations (snd (append_locked e body)) = eng_invalidations e"
  "eng_syncs (snd (append_locked e body)) = eng_syncs e"
  "eng_policies (snd (append_locked e body)) = eng_policies e"
  "eng_in_flight_publications (snd (append_locked e body)) = eng_in_flight_publications e"
  by (simp_all add: append_locked_def Let_def case_prod_beta split: option.splits)

lemma append_many_locked_frame [simp]:
  "eng_config (snd (append_many_locked e bodies)) = eng_config e"
  "eng_epoch (snd (append_many_locked e bodies)) = eng_epoch e"
  "eng_sequence (snd (append_many_locked e bodies)) = eng_sequence e"
  "eng_shutting_down (snd (append_many_locked e bodies)) = eng_shutting_down e"
  "eng_participants (snd (append_many_locked e bodies)) = eng_participants e"
  "eng_objects (snd (append_many_locked e bodies)) = eng_objects e"
  "eng_regions (snd (append_many_locked e bodies)) = eng_regions e"
  "eng_invalidations (snd (append_many_locked e bodies)) = eng_invalidations e"
  "eng_syncs (snd (append_many_locked e bodies)) = eng_syncs e"
  "eng_policies (snd (append_many_locked e bodies)) = eng_policies e"
  "eng_in_flight_publications (snd (append_many_locked e bodies)) = eng_in_flight_publications e"
  by (simp_all add: append_many_locked_def Let_def case_prod_beta split: option.splits)

lemma upsert_durable_object_frame [simp]:
  "eng_config (upsert_durable_object ob e) = eng_config e"
  "eng_epoch (upsert_durable_object ob e) = eng_epoch e"
  "eng_sequence (upsert_durable_object ob e) = eng_sequence e"
  "eng_shutting_down (upsert_durable_object ob e) = eng_shutting_down e"
  "eng_participants (upsert_durable_object ob e) = eng_participants e"
  "eng_objects (upsert_durable_object ob e) = eng_objects e"
  "eng_regions (upsert_durable_object ob e) = eng_regions e"
  "eng_invalidations (upsert_durable_object ob e) = eng_invalidations e"
  "eng_syncs (upsert_durable_object ob e) = eng_syncs e"
  "eng_policies (upsert_durable_object ob e) = eng_policies e"
  "eng_in_flight_publications (upsert_durable_object ob e) = eng_in_flight_publications e"
  by (simp_all add: upsert_durable_object_def)

lemma upsert_durable_region_frame [simp]:
  "eng_config (upsert_durable_region r e) = eng_config e"
  "eng_epoch (upsert_durable_region r e) = eng_epoch e"
  "eng_sequence (upsert_durable_region r e) = eng_sequence e"
  "eng_shutting_down (upsert_durable_region r e) = eng_shutting_down e"
  "eng_participants (upsert_durable_region r e) = eng_participants e"
  "eng_objects (upsert_durable_region r e) = eng_objects e"
  "eng_regions (upsert_durable_region r e) = eng_regions e"
  "eng_invalidations (upsert_durable_region r e) = eng_invalidations e"
  "eng_syncs (upsert_durable_region r e) = eng_syncs e"
  "eng_policies (upsert_durable_region r e) = eng_policies e"
  "eng_in_flight_publications (upsert_durable_region r e) = eng_in_flight_publications e"
  by (simp_all add: upsert_durable_region_def)

lemma upsert_durable_participant_frame [simp]:
  "eng_config (upsert_durable_participant p e) = eng_config e"
  "eng_epoch (upsert_durable_participant p e) = eng_epoch e"
  "eng_sequence (upsert_durable_participant p e) = eng_sequence e"
  "eng_shutting_down (upsert_durable_participant p e) = eng_shutting_down e"
  "eng_participants (upsert_durable_participant p e) = eng_participants e"
  "eng_objects (upsert_durable_participant p e) = eng_objects e"
  "eng_regions (upsert_durable_participant p e) = eng_regions e"
  "eng_invalidations (upsert_durable_participant p e) = eng_invalidations e"
  "eng_syncs (upsert_durable_participant p e) = eng_syncs e"
  "eng_policies (upsert_durable_participant p e) = eng_policies e"
  "eng_in_flight_publications (upsert_durable_participant p e) = eng_in_flight_publications e"
  by (simp_all add: upsert_durable_participant_def)

lemma maybe_compact_locked_frame [simp]:
  "eng_config (snd (maybe_compact_locked e)) = eng_config e"
  "eng_epoch (snd (maybe_compact_locked e)) = eng_epoch e"
  "eng_sequence (snd (maybe_compact_locked e)) = eng_sequence e"
  "eng_shutting_down (snd (maybe_compact_locked e)) = eng_shutting_down e"
  "eng_participants (snd (maybe_compact_locked e)) = eng_participants e"
  "eng_objects (snd (maybe_compact_locked e)) = eng_objects e"
  "eng_regions (snd (maybe_compact_locked e)) = eng_regions e"
  "eng_invalidations (snd (maybe_compact_locked e)) = eng_invalidations e"
  "eng_syncs (snd (maybe_compact_locked e)) = eng_syncs e"
  "eng_policies (snd (maybe_compact_locked e)) = eng_policies e"
  "eng_in_flight_publications (snd (maybe_compact_locked e)) = eng_in_flight_publications e"
  by (simp_all add: maybe_compact_locked_def Let_def case_prod_beta split: option.splits)

lemma compact_locked_frame [simp]:
  "eng_config (compact_locked e) = eng_config e" "eng_epoch (compact_locked e) = eng_epoch e"
  "eng_sequence (compact_locked e) = eng_sequence e"
  "eng_shutting_down (compact_locked e) = eng_shutting_down e"
  "eng_participants (compact_locked e) = eng_participants e"
  "eng_objects (compact_locked e) = eng_objects e"
  "eng_regions (compact_locked e) = eng_regions e"
  "eng_invalidations (compact_locked e) = eng_invalidations e"
  "eng_syncs (compact_locked e) = eng_syncs e" "eng_policies (compact_locked e) = eng_policies e"
  "eng_in_flight_publications (compact_locked e) = eng_in_flight_publications e"
  by (simp_all add: compact_locked_def split: option.splits)

lemma release_region_name_frame [simp]:
  "eng_config (release_region_name r e) = eng_config e"
  "eng_epoch (release_region_name r e) = eng_epoch e"
  "eng_sequence (release_region_name r e) = eng_sequence e"
  "eng_shutting_down (release_region_name r e) = eng_shutting_down e"
  "eng_participants (release_region_name r e) = eng_participants e"
  "eng_objects (release_region_name r e) = eng_objects e"
  "eng_regions (release_region_name r e) = eng_regions e"
  "eng_invalidations (release_region_name r e) = eng_invalidations e"
  "eng_syncs (release_region_name r e) = eng_syncs e"
  "eng_policies (release_region_name r e) = eng_policies e"
  "eng_in_flight_publications (release_region_name r e) = eng_in_flight_publications e"
  by (simp_all add: release_region_name_def)

lemma apply_pending_frame [simp]:
  "eng_config (apply_pending ticket e) = eng_config e"
  "eng_epoch (apply_pending ticket e) = eng_epoch e"
  "eng_sequence (apply_pending ticket e) = eng_sequence e"
  "eng_shutting_down (apply_pending ticket e) = eng_shutting_down e"
  "eng_participants (apply_pending ticket e) = eng_participants e"
  "eng_objects (apply_pending ticket e) = eng_objects e"
  "eng_regions (apply_pending ticket e) = eng_regions e"
  "eng_invalidations (apply_pending ticket e) = eng_invalidations e"
  "eng_syncs (apply_pending ticket e) = eng_syncs e"
  "eng_policies (apply_pending ticket e) = eng_policies e"
  "eng_in_flight_publications (apply_pending ticket e) = eng_in_flight_publications e"
  by (simp_all add: apply_pending_def Let_def case_prod_beta)

lemma clear_pending_frame [simp]:
  "eng_config (clear_pending ticket k e) = eng_config e"
  "eng_epoch (clear_pending ticket k e) = eng_epoch e"
  "eng_sequence (clear_pending ticket k e) = eng_sequence e"
  "eng_shutting_down (clear_pending ticket k e) = eng_shutting_down e"
  "eng_participants (clear_pending ticket k e) = eng_participants e"
  "eng_objects (clear_pending ticket k e) = eng_objects e"
  "eng_regions (clear_pending ticket k e) = eng_regions e"
  "eng_invalidations (clear_pending ticket k e) = eng_invalidations e"
  "eng_syncs (clear_pending ticket k e) = eng_syncs e"
  "eng_policies (clear_pending ticket k e) = eng_policies e"
  "eng_in_flight_publications (clear_pending ticket k e) = eng_in_flight_publications e"
  by (simp_all add: clear_pending_def Let_def)

lemma publish_persist_frame [simp]:
  "eng_config (snd (publish_persist e ticket)) = eng_config e"
  "eng_epoch (snd (publish_persist e ticket)) = eng_epoch e"
  "eng_sequence (snd (publish_persist e ticket)) = eng_sequence e"
  "eng_shutting_down (snd (publish_persist e ticket)) = eng_shutting_down e"
  "eng_participants (snd (publish_persist e ticket)) = eng_participants e"
  "eng_objects (snd (publish_persist e ticket)) = eng_objects e"
  "eng_regions (snd (publish_persist e ticket)) = eng_regions e"
  "eng_invalidations (snd (publish_persist e ticket)) = eng_invalidations e"
  "eng_syncs (snd (publish_persist e ticket)) = eng_syncs e"
  "eng_policies (snd (publish_persist e ticket)) = eng_policies e"
  "eng_in_flight_publications (snd (publish_persist e ticket)) = eng_in_flight_publications e"
  by (simp_all add: publish_persist_def Let_def case_prod_beta split: option.splits)

lemma put_lookup [simp]:
  "map_of (eng_participants (put_participant k p e)) = (map_of (eng_participants e))(k \<mapsto> p)"
  "map_of (eng_objects (put_object k ob e)) = (map_of (eng_objects e))(k \<mapsto> ob)"
  "map_of (eng_regions (put_region k r e)) = (map_of (eng_regions e))(k \<mapsto> r)"
  "map_of (eng_invalidations (put_invalidation k iv e)) = (map_of (eng_invalidations e))(k \<mapsto> iv)"
  "map_of (eng_syncs (put_sync k s e)) = (map_of (eng_syncs e))(k \<mapsto> s)"
  by (simp_all add: put_participant_def put_object_def put_region_def put_invalidation_def put_sync_def)

section \<open>Relations that see only objects, regions and synchronizations\<close>

locale live_relation =
  fixes R :: "engine \<Rightarrow> engine \<Rightarrow> bool"
  assumes via: "R a b \<Longrightarrow> eng_objects c = eng_objects b \<Longrightarrow> eng_regions c = eng_regions b \<Longrightarrow>
    eng_syncs c = eng_syncs b \<Longrightarrow> R a c"
begin

lemma peel:
  "R a e \<Longrightarrow> R a (tick e)"
  "R a e \<Longrightarrow> R a (put_participant k p e)"
  "R a e \<Longrightarrow> R a (put_invalidation i iv e)"
  "R a e \<Longrightarrow> R a (snd (make_evidence e kind klass q b ob og r rg v c))"
  "R a e \<Longrightarrow> R a (snd (make_context e au ob g ow))"
  "R a e \<Longrightarrow> R a (record_decision dk ctx code e)"
  "R a e \<Longrightarrow> R a (snd (append_locked e body))"
  "R a e \<Longrightarrow> R a (snd (append_many_locked e bodies))"
  "R a e \<Longrightarrow> R a (upsert_durable_object ob' e)"
  "R a e \<Longrightarrow> R a (upsert_durable_region r' e)"
  "R a e \<Longrightarrow> R a (upsert_durable_participant p e)"
  "R a e \<Longrightarrow> R a (snd (maybe_compact_locked e))"
  "R a e \<Longrightarrow> R a (compact_locked e)"
  "R a e \<Longrightarrow> R a (release_region_name r' e)"
  "R a e \<Longrightarrow> R a (apply_pending ticket e)"
  "R a e \<Longrightarrow> R a (clear_pending ticket ob e)"
  "R a e \<Longrightarrow> R a (snd (publish_persist e ticket))"
  by (rule via; simp)+

lemma peel_field:
  "R a e \<Longrightarrow> R a (e\<lparr>eng_next_region_id := x\<rparr>)"
  "R a e \<Longrightarrow> R a (e\<lparr>eng_next_invalidation_id := x\<rparr>)"
  "R a e \<Longrightarrow> R a (e\<lparr>eng_next_lease_id := x\<rparr>)"
  "R a e \<Longrightarrow> R a (e\<lparr>eng_next_sync_id := x\<rparr>)"
  "R a e \<Longrightarrow> R a (e\<lparr>eng_next_publication_id := x\<rparr>)"
  "R a e \<Longrightarrow> R a (e\<lparr>eng_next_journal_sequence := x\<rparr>)"
  "R a e \<Longrightarrow> R a (e\<lparr>eng_in_flight_publications := fl\<rparr>)"
  "R a e \<Longrightarrow> R a (e\<lparr>eng_store := st\<rparr>)"
  "R a e \<Longrightarrow> R a (e\<lparr>eng_store_healthy := hl\<rparr>)"
  "R a e \<Longrightarrow> R a (e\<lparr>eng_shutting_down := sd\<rparr>)"
  "R a e \<Longrightarrow> R a (e\<lparr>eng_shutdown_complete := sd\<rparr>)"
  "R a e \<Longrightarrow> R a (e\<lparr>eng_policies := pl\<rparr>)"
  "R a e \<Longrightarrow> R a (e\<lparr>eng_participant_index := pi\<rparr>)"
  "R a e \<Longrightarrow> R a (e\<lparr>eng_next_participant_id := x\<rparr>)"
  "R a e \<Longrightarrow> R a (e\<lparr>eng_region_index := ri\<rparr>)"
  by (rule via; simp)+

end

locale live_preorder = live_relation +
  assumes refl: "R e e" and trans: "R a b \<Longrightarrow> R b c \<Longrightarrow> R a c"
begin

lemma fold: "(\<And>x e. R e (f x e)) \<Longrightarrow> R a e \<Longrightarrow> R a (fold f xs e)"
proof (induction xs arbitrary: e)
  case (Cons x xs)
  then have "R a (f x e)" using trans by blast
  with Cons show ?case by simp
qed simp

end

section \<open>Calm changes\<close>

text \<open>The single-writer condition of one object: it has a writer exactly while authority is
  exclusive or being transferred, and then no read lease is live.\<close>

definition exclusive :: "ObjectRecord \<Rightarrow> bool" where
  "exclusive ob \<longleftrightarrow> obj_authority ob = AuthorityMode.ExclusiveWriter \<or>
     obj_authority ob = AuthorityMode.TransferPending"

definition authority_ok :: "ObjectRecord \<Rightarrow> bool" where
  "authority_ok ob \<longleftrightarrow> (obj_writer ob \<noteq> 0 \<longleftrightarrow> exclusive ob) \<and>
     (exclusive ob \<longrightarrow> (\<forall>g \<in> set (obj_reads ob). grant_released g))"

definition object_kept :: "ObjectRecord \<Rightarrow> ObjectRecord \<Rightarrow> bool" where
  "object_kept ob ob' \<longleftrightarrow> obj_id ob' = obj_id ob \<and>
     obj_authoritative_version ob' = obj_authoritative_version ob \<and>
     set (obj_replicas ob) \<subseteq> set (obj_replicas ob') \<and> (authority_ok ob \<longrightarrow> authority_ok ob')"

definition region_kept :: "RegionRecord \<Rightarrow> RegionRecord \<Rightarrow> bool" where
  "region_kept r r' \<longleftrightarrow> reg_id r' = reg_id r \<and> reg_object r' = reg_object r \<and>
     (reg_state r' = CoherenceState.Current \<longrightarrow>
      reg_state r = CoherenceState.Current \<and> reg_version r' = reg_version r)"

definition object_new :: "ObjectId \<Rightarrow> ObjectRecord \<Rightarrow> bool" where
  "object_new k ob \<longleftrightarrow> obj_id ob = k \<and> obj_authoritative_version ob = 0 \<and> authority_ok ob"

definition region_placed :: "engine \<Rightarrow> RegionId \<Rightarrow> ObjectId \<Rightarrow> bool" where
  "region_placed e k obj \<longleftrightarrow> (\<exists>r. map_of (eng_regions e) k = Some r \<and> reg_object r = obj)"

definition region_new :: "engine \<Rightarrow> RegionId \<Rightarrow> RegionRecord \<Rightarrow> bool" where
  "region_new e k r \<longleftrightarrow> reg_id r = k \<and> reg_state r \<noteq> CoherenceState.Current \<and>
     (\<exists>ob. map_of (eng_objects e) (reg_object r) = Some ob \<and> k \<in> set (obj_replicas ob))"

definition sync_kept :: "SyncRecord \<Rightarrow> SyncRecord \<Rightarrow> bool" where
  "sync_kept s s' \<longleftrightarrow> sync_object s' = sync_object s \<and>
     sync_destination_region s' = sync_destination_region s"

definition calm :: "engine \<Rightarrow> engine \<Rightarrow> bool" where
  "calm e e' \<longleftrightarrow>
     (\<forall>k ob. map_of (eng_objects e) k = Some ob \<longrightarrow>
        (\<exists>ob'. map_of (eng_objects e') k = Some ob' \<and> object_kept ob ob')) \<and>
     (\<forall>k ob'. map_of (eng_objects e) k = None \<and> map_of (eng_objects e') k = Some ob' \<longrightarrow>
        object_new k ob') \<and>
     (\<forall>k r. map_of (eng_regions e) k = Some r \<longrightarrow>
        (\<exists>r'. map_of (eng_regions e') k = Some r' \<and> region_kept r r')) \<and>
     (\<forall>k r'. map_of (eng_regions e) k = None \<and> map_of (eng_regions e') k = Some r' \<longrightarrow>
        region_new e' k r') \<and>
     (\<forall>k s'. map_of (eng_syncs e') k = Some s' \<longrightarrow>
        (\<exists>s. map_of (eng_syncs e) k = Some s \<and> sync_kept s s') \<or>
        region_placed e' (sync_destination_region s') (sync_object s'))"

lemma object_kept_refl [simp]: "object_kept ob ob"
  by (simp add: object_kept_def)

lemma object_kept_trans: "object_kept a b \<Longrightarrow> object_kept b c \<Longrightarrow> object_kept a c"
  by (auto simp: object_kept_def)

lemma region_kept_refl [simp]: "region_kept r r"
  by (simp add: region_kept_def)

lemma region_kept_trans: "region_kept a b \<Longrightarrow> region_kept b c \<Longrightarrow> region_kept a c"
  by (auto simp: region_kept_def)

lemma sync_kept_refl [simp]: "sync_kept s s"
  by (simp add: sync_kept_def)

lemma object_new_kept: "object_new k ob \<Longrightarrow> object_kept ob ob' \<Longrightarrow> object_new k ob'"
  by (auto simp: object_new_def object_kept_def)

lemma calm_object: "calm e e' \<Longrightarrow> map_of (eng_objects e) k = Some ob \<Longrightarrow>
    \<exists>ob'. map_of (eng_objects e') k = Some ob' \<and> object_kept ob ob'"
  by (simp add: calm_def)

lemma calm_region: "calm e e' \<Longrightarrow> map_of (eng_regions e) k = Some r \<Longrightarrow>
    \<exists>r'. map_of (eng_regions e') k = Some r' \<and> region_kept r r'"
  by (simp add: calm_def)

lemma calm_sync: "calm e e' \<Longrightarrow> map_of (eng_syncs e') k = Some s' \<Longrightarrow>
    (\<exists>s. map_of (eng_syncs e) k = Some s \<and> sync_kept s s') \<or>
    region_placed e' (sync_destination_region s') (sync_object s')"
  by (simp add: calm_def)

lemma calm_region_placed: "calm e e' \<Longrightarrow> region_placed e k obj \<Longrightarrow> region_placed e' k obj"
  unfolding region_placed_def using calm_region [of e e' k] by (fastforce simp: region_kept_def)

lemma calm_region_new: "calm e e' \<Longrightarrow> region_new e k r \<Longrightarrow> region_kept r r' \<Longrightarrow> region_new e' k r'"
  unfolding region_new_def using calm_object [of e e' "reg_object r"]
  by (fastforce simp: region_kept_def object_kept_def)

lemma calm_trans:
  assumes ab: "calm a b" and bc: "calm b c"
  shows "calm a c"
proof -
  have "\<exists>ob'. map_of (eng_objects c) k = Some ob' \<and> object_kept ob ob'"
    if "map_of (eng_objects a) k = Some ob" for k ob
    using calm_object [OF ab that] calm_object [OF bc] object_kept_trans by blast
  moreover have "object_new k ob'"
    if "map_of (eng_objects a) k = None" "map_of (eng_objects c) k = Some ob'" for k ob'
    using that ab bc object_new_kept
    by (cases "map_of (eng_objects b) k") (fastforce simp: calm_def)+
  moreover have "\<exists>r'. map_of (eng_regions c) k = Some r' \<and> region_kept r r'"
    if "map_of (eng_regions a) k = Some r" for k r
    using calm_region [OF ab that] calm_region [OF bc] region_kept_trans by blast
  moreover have "region_new c k r'"
    if "map_of (eng_regions a) k = None" "map_of (eng_regions c) k = Some r'" for k r'
  proof (cases "map_of (eng_regions b) k")
    case None
    then show ?thesis using that bc by (simp add: calm_def)
  next
    case (Some r)
    then have "region_new b k r" using that ab by (simp add: calm_def)
    then show ?thesis using calm_region [OF bc Some] that calm_region_new [OF bc] by auto
  qed
  moreover have "(\<exists>s. map_of (eng_syncs a) k = Some s \<and> sync_kept s s') \<or>
        region_placed c (sync_destination_region s') (sync_object s')"
    if s': "map_of (eng_syncs c) k = Some s'" for k s'
  proof -
    consider s where "map_of (eng_syncs b) k = Some s" "sync_kept s s'"
      | "region_placed c (sync_destination_region s') (sync_object s')"
      using calm_sync [OF bc s'] by blast
    then show ?thesis
    proof cases
      case 1
      then have "(\<exists>t. map_of (eng_syncs a) k = Some t \<and> sync_kept t s) \<or>
          region_placed b (sync_destination_region s) (sync_object s)"
        using calm_sync [OF ab] by blast
      then show ?thesis
        using 1 calm_region_placed [OF bc] by (auto simp: sync_kept_def)
    qed simp
  qed
  ultimately show ?thesis unfolding calm_def by blast
qed

lemma calm_same:
  "eng_objects c = eng_objects b \<Longrightarrow> eng_regions c = eng_regions b \<Longrightarrow> eng_syncs c = eng_syncs b \<Longrightarrow> calm b c"
  by (auto simp: calm_def)

interpretation calm: live_preorder calm
  by unfold_locales (blast intro: calm_same calm_trans)+

lemma calm_put_object:
  "calm a e \<Longrightarrow> map_of (eng_objects e) k = Some ob \<Longrightarrow> object_kept ob ob' \<Longrightarrow> calm a (put_object k ob' e)"
  by (erule calm_trans) (auto simp: calm_def)

lemma calm_put_region:
  "calm a e \<Longrightarrow> map_of (eng_regions e) k = Some r \<Longrightarrow> region_kept r r' \<Longrightarrow> calm a (put_region k r' e)"
  by (erule calm_trans) (auto simp: calm_def)

lemma calm_put_sync:
  "calm a e \<Longrightarrow> map_of (eng_syncs e) k = Some s \<Longrightarrow> sync_kept s s' \<Longrightarrow> calm a (put_sync k s' e)"
  by (erule calm_trans) (auto simp: calm_def)

lemma calm_put_new_sync:
  "calm a e \<Longrightarrow> region_placed e (sync_destination_region s) (sync_object s) \<Longrightarrow> calm a (put_sync k s e)"
  by (erule calm_trans) (auto simp: calm_def region_placed_def)

lemmas calm_intros = calm.refl calm.peel calm.peel_field calm.fold calm_put_object calm_put_region
  calm_put_sync

end
