(* ===== verification/Engine_Safety.thy ===== *)
theory Engine_Safety
  imports Engine_Frames
begin

text \<open>
  The safety invariant of the engine and its preservation by every operation.  Most operations are
  calm; the three that make a replica current (revalidation, completion of a synchronization,
  commit of a publication) are treated one by one.
\<close>

section \<open>The invariant\<close>

text \<open>Records are stored under their own identity, every replica is listed by its object, a replica
  that is current holds the authoritative version once there is one, authority is single-writer,
  and a synchronization points at a replica of its object.\<close>

definition object_inv :: "ObjectId \<Rightarrow> ObjectRecord \<Rightarrow> bool" where
  "object_inv k ob \<longleftrightarrow> obj_id ob = k \<and> authority_ok ob"

definition region_inv :: "engine \<Rightarrow> RegionId \<Rightarrow> RegionRecord \<Rightarrow> bool" where
  "region_inv e k r \<longleftrightarrow> reg_id r = k \<and>
     (\<exists>ob. map_of (eng_objects e) (reg_object r) = Some ob \<and> k \<in> set (obj_replicas ob) \<and>
        (reg_state r = CoherenceState.Current \<and> obj_authoritative_version ob \<noteq> 0 \<longrightarrow>
         reg_version r = obj_authoritative_version ob))"

definition engine_inv :: "engine \<Rightarrow> bool" where
  "engine_inv e \<longleftrightarrow>
     (\<forall>k ob. map_of (eng_objects e) k = Some ob \<longrightarrow> object_inv k ob) \<and>
     (\<forall>k r. map_of (eng_regions e) k = Some r \<longrightarrow> region_inv e k r) \<and>
     (\<forall>k s. map_of (eng_syncs e) k = Some s \<longrightarrow>
        region_placed e (sync_destination_region s) (sync_object s))"

lemma inv_object: "engine_inv e \<Longrightarrow> map_of (eng_objects e) k = Some ob \<Longrightarrow> obj_id ob = k \<and> authority_ok ob"
  by (auto simp: engine_inv_def object_inv_def)

lemma inv_region: "engine_inv e \<Longrightarrow> map_of (eng_regions e) k = Some r \<Longrightarrow> region_inv e k r"
  by (auto simp: engine_inv_def)

lemma inv_region_id: "engine_inv e \<Longrightarrow> map_of (eng_regions e) k = Some r \<Longrightarrow> reg_id r = k"
  by (auto simp: engine_inv_def region_inv_def)

lemma inv_sync: "engine_inv e \<Longrightarrow> map_of (eng_syncs e) k = Some s \<Longrightarrow>
    region_placed e (sync_destination_region s) (sync_object s)"
  by (auto simp: engine_inv_def)

lemma inv_new_engine [simp]: "engine_inv (new_engine config)"
  by (simp add: engine_inv_def new_engine_def)

text \<open>Calm changes keep the invariant.\<close>

lemma calm_region_inv:
  assumes "calm e e'" "region_inv e k r" "region_kept r r'"
  shows "region_inv e' k r'"
proof -
  obtain ob where ob: "map_of (eng_objects e) (reg_object r) = Some ob" "k \<in> set (obj_replicas ob)"
    "reg_state r = CoherenceState.Current \<and> obj_authoritative_version ob \<noteq> 0 \<longrightarrow>
     reg_version r = obj_authoritative_version ob"
    using assms by (auto simp: region_inv_def)
  obtain ob' where "map_of (eng_objects e') (reg_object r) = Some ob'" "object_kept ob ob'"
    using calm_object assms(1) ob(1) by blast
  then show ?thesis
    using ob assms(2,3) by (auto simp: region_inv_def region_kept_def object_kept_def)
qed

lemma region_new_inv: "region_new e k r \<Longrightarrow> region_inv e k r"
  by (auto simp: region_new_def region_inv_def)

lemma calm_object_inv:
  assumes calm: "calm e e'" and inv: "engine_inv e" and ob': "map_of (eng_objects e') k = Some ob'"
  shows "object_inv k ob'"
proof (cases "map_of (eng_objects e) k")
  case None
  then show ?thesis using calm ob' by (auto simp: calm_def object_new_def object_inv_def)
next
  case (Some ob)
  then show ?thesis
    using calm_object [OF calm Some] inv_object [OF inv Some] ob'
    by (auto simp: object_kept_def object_inv_def)
qed

lemma calm_inv:
  assumes calm: "calm e e'" and inv: "engine_inv e"
  shows "engine_inv e'"
  unfolding engine_inv_def
proof (intro conjI allI impI)
  show "object_inv k ob'" if "map_of (eng_objects e') k = Some ob'" for k ob'
    using calm_object_inv [OF calm inv that] .
  show "region_inv e' k r'" if r': "map_of (eng_regions e') k = Some r'" for k r'
  proof (cases "map_of (eng_regions e) k")
    case None
    then show ?thesis using calm r' region_new_inv by (simp add: calm_def)
  next
    case (Some r)
    then show ?thesis
      using calm_region [OF calm Some] calm_region_inv [OF calm inv_region [OF inv Some]] r' by auto
  qed
  show "region_placed e' (sync_destination_region s') (sync_object s')"
    if "map_of (eng_syncs e') k = Some s'" for k s'
    using calm_sync [OF calm that] inv_sync [OF inv] calm_region_placed [OF calm]
    by (auto simp: sync_kept_def)
qed

text \<open>Making one replica current at the version of its object.\<close>

lemma inv_refresh_region:
  assumes inv: "engine_inv e" and r: "map_of (eng_regions e) k = Some r"
    and same: "reg_id r' = reg_id r" "reg_object r' = reg_object r"
    and version: "\<And>ob. map_of (eng_objects e) (reg_object r) = Some ob \<Longrightarrow>
      obj_authoritative_version ob \<noteq> 0 \<Longrightarrow> reg_version r' = obj_authoritative_version ob"
  shows "engine_inv (put_region k r' e)"
proof -
  have "region_inv e k r'"
    using inv_region [OF inv r] version same by (auto simp: region_inv_def)
  moreover have "region_placed (put_region k r' e) j obj = region_placed e j obj" for j obj
    using r same by (auto simp: region_placed_def)
  ultimately show ?thesis
    using inv by (auto simp: engine_inv_def region_inv_def)
qed

section \<open>Helpers of the operations are calm\<close>

lemmas kept_defs = object_kept_def authority_ok_def exclusive_def

lemma kept_recompute: "object_kept ob (recompute_authority e ob)"
  by (auto simp: recompute_authority_def kept_defs)

lemma calm_recompute: "calm a e \<Longrightarrow> calm a (recompute_authority_locked k e)"
  by (auto simp: recompute_authority_locked_def split: option.split intro: calm_put_object kept_recompute)

lemma calm_mark_region_stale: "calm e (mark_region_stale v x k e)"
  by (auto simp: mark_region_stale_def Let_def region_kept_def split: option.split intro!: calm_intros)

lemma calm_mark_regions_stale: "calm a e \<Longrightarrow> calm a (mark_regions_stale k v x e)"
  by (auto simp: mark_regions_stale_def split: option.split intro: calm.fold calm_mark_region_stale)

lemma calm_release_reads_of_object: "calm e (release_reads_of_object p b k e)"
proof -
  have "object_kept ob (ob\<lparr>obj_reads := map (\<lambda>g. if releases_grant p b g
      then g\<lparr>grant_released := True\<rparr> else g) (obj_reads ob), obj_updated_sequence := n\<rparr>)" for ob n
    by (auto simp: kept_defs)
  then show ?thesis
    by (auto simp: release_reads_of_object_def Let_def split: option.split intro!: calm_intros)
qed

lemma calm_release_reads: "calm a e \<Longrightarrow> calm a (release_reads_for_participant p b e)"
  unfolding release_reads_for_participant_def by (rule calm.fold [OF calm_release_reads_of_object])

lemma calm_retire_superseded_region: "calm e (retire_superseded_region p b k e)"
  by (auto simp: retire_superseded_region_def retired_replica_def Let_def region_kept_def
      split: option.split intro!: calm_intros)

lemma calm_sweep:
  assumes "calm a e" "os = eng_objects e" "rs = eng_regions e" "ss = eng_syncs e"
    and "\<And>ob. object_kept ob (f ob)" "\<And>r. region_kept r (g r)" "\<And>s. sync_kept s (h s)"
  shows "calm a (e\<lparr>eng_objects := sm_map (\<lambda>k. f) os, eng_regions := sm_map (\<lambda>k. g) rs,
      eng_syncs := sm_map (\<lambda>k. h) ss, eng_invalidations := iv\<rparr>)"
  using assms(1)
proof (rule calm_trans)
  show "calm e (e\<lparr>eng_objects := sm_map (\<lambda>k. f) os, eng_regions := sm_map (\<lambda>k. g) rs,
      eng_syncs := sm_map (\<lambda>k. h) ss, eng_invalidations := iv\<rparr>)"
    using assms(2-) by (auto simp: calm_def)
qed

lemma calm_new_object:
  assumes "calm a e" "object_new k ob" "os = eng_objects e"
  shows "calm a (e\<lparr>eng_policies := p, eng_objects := sm_emplace k ob os, eng_object_index := i\<rparr>)"
  using assms(1)
proof (rule calm_trans)
  show "calm e (e\<lparr>eng_policies := p, eng_objects := sm_emplace k ob os, eng_object_index := i\<rparr>)"
    using assms(2,3) by (auto simp: calm_def split: if_splits)
qed

lemma calm_new_region:
  assumes "calm a e" "region_new e k r" "rs = eng_regions e"
  shows "calm a (e\<lparr>eng_regions := sm_emplace k r rs, eng_region_index := i\<rparr>)"
  using assms(1)
proof (rule calm_trans)
  show "calm e (e\<lparr>eng_regions := sm_emplace k r rs, eng_region_index := i\<rparr>)"
    using assms(2,3) by (auto simp: calm_def region_new_def split: if_splits)
qed

section \<open>Domains, participants and fencing\<close>

lemma calm_create_domain: "calm e (snd (create_domain e name))"
  by (rule calm_same) (simp_all add: create_domain_def Let_def case_prod_beta)

lemma calm_admit_participant: "calm a e \<Longrightarrow> calm a (snd (admit_participant p e))"
  by (auto simp: admit_participant_def Let_def case_prod_beta intro!: calm_intros)

lemma calm_register_participant: "calm e (snd (register_participant e name boot epoch label))"
  by (auto simp: register_participant_def Let_def split: option.split
      intro!: calm_admit_participant calm.fold calm_retire_superseded_region calm_intros)

lemma calm_mark_session_closed: "calm e (snd (mark_session_closed e k boot))"
  by (auto simp: mark_session_closed_def Let_def split: option.split intro!: calm_intros)

lemma kept_lose_dirty: "object_kept ob (lose_dirty p note ob)"
  by (auto simp: lose_dirty_def kept_defs split: DirtyLossPolicy.split)

lemma kept_abort: "object_kept ob (abort_publication ob)"
  by (simp add: abort_publication_def kept_defs)

lemma kept_revoke:
  "object_kept ob (ob\<lparr>obj_authority := AuthorityMode.NoAuthority, obj_writer := 0, obj_writer_boot := 0\<rparr>)"
  by (simp add: kept_defs)

lemma kept_updated: "object_kept ob (ob\<lparr>obj_updated_sequence := n\<rparr>)"
  by (simp add: kept_defs)

lemma kept_fence_object: "object_kept ob (fst (fence_object e k boot ob))"
  by (auto simp: fence_object_def Let_def
      intro!: object_kept_trans [OF _ kept_updated] object_kept_trans [OF _ kept_lose_dirty]
        object_kept_trans [OF _ kept_abort] kept_revoke)

lemma kept_fence_region: "region_kept r (fst (fence_region e k boot reason r))"
  by (simp add: fence_region_def region_kept_def Let_def)

lemma kept_fence_sync: "sync_kept s (fst (fence_sync e k boot s))"
  by (simp add: fence_sync_def sync_kept_def Let_def)

lemma calm_fence_participant: "calm e (snd (fence_participant e k epoch reason))"
  by (auto simp: fence_participant_def sweep_def Let_def case_prod_beta split: option.split
      intro!: calm.peel calm.peel_field calm.fold calm_recompute calm.refl calm_release_reads calm_sweep
        kept_fence_object kept_fence_region kept_fence_sync)

section \<open>Objects, regions, shutdown\<close>

lemma object_new_record: "object_new (eng_next_object_id e) (new_object_record e domain name len p)"
  by (simp add: object_new_def new_object_record_def authority_ok_def exclusive_def default_object_record_def)

lemma calm_register_object: "calm e (snd (register_object e domain name len policy))"
proof -
  have "calm e (e\<lparr>eng_next_policy_id := m, eng_next_object_id := n\<rparr>)" for m n
    by (rule calm_same) simp_all
  then show ?thesis
    using object_new_record [of e domain name len]
    by (simp add: register_object_def Let_def case_prod_beta object_new_def calm.refl calm.peel
        calm_new_object)
qed

lemma calm_set_policy: "calm e (snd (set_policy e k g pg policy))"
  by (auto simp: set_policy_def Let_def case_prod_beta kept_defs split: option.split intro!: calm_intros)

lemma set_insert_replica [simp]: "set (insert_replica k ks) = insert k (set ks)"
proof -
  have "set ks = set (takeWhile (\<lambda>j. j < k) ks) \<union> set (dropWhile (\<lambda>j. j < k) ks)"
    by (metis set_append takeWhile_dropWhile_id)
  then show ?thesis by (auto simp: insert_replica_def)
qed

lemma register_region_guard_object:
  "register_region_guard e reg = Inr (ob, p) \<Longrightarrow>
   map_of (eng_objects e) (actx_object (rr_context reg)) = Some ob"
  by (auto simp: register_region_guard_def Let_def split: option.splits if_splits)

lemma calm_add_region:
  assumes inv: "engine_inv e" and calm: "calm e e1" and same: "eng_objects e1 = eng_objects e"
    and ob: "map_of (eng_objects e) (actx_object (rr_context reg)) = Some ob"
    and rec: "reg_object rec = obj_id ob" "reg_state rec \<noteq> CoherenceState.Current"
  shows "calm e (snd (add_region reg ob p rec e1))"
proof -
  let ?k = "actx_object (rr_context reg)"
  define ob' where "ob' = ob\<lparr>obj_replicas := insert_replica (reg_id rec) (obj_replicas ob),
    obj_updated_sequence := eng_sequence e1\<rparr>"
  have "object_kept ob ob'" by (auto simp: ob'_def kept_defs)
  then have step: "calm e (put_object ?k ob' e1)" using calm same ob by (auto intro: calm_put_object)
  define e2 where "e2 = snd (if durability_active (put_object ?k ob' e1)
    then append_many_locked (put_object ?k ob' e1) [object_entry ob', UpsertRegion rec]
    else (StatusCode.Ok, put_object ?k ob' e1))"
  have e2: "calm e e2" "map_of (eng_objects e2) ?k = Some ob'"
    using step by (auto simp: e2_def intro: calm.peel)
  have "obj_id ob = ?k" using inv_object [OF inv ob] by simp
  then have "region_new e2 (reg_id rec) rec"
    using e2(2) rec by (simp add: region_new_def ob'_def)
  moreover have "eng_regions e1 = eng_regions e2" by (simp add: e2_def)
  ultimately have "calm e (e2\<lparr>eng_regions := sm_emplace (reg_id rec) rec (eng_regions e1), eng_region_index := i\<rparr>)" for i
    using e2(1) by (rule calm_new_region [rotated])
  then show ?thesis
    using e2(1) unfolding e2_def
    by (auto simp: add_region_def Let_def case_prod_beta ob'_def [symmetric] intro!: calm.peel split: if_splits)
qed

lemma calm_register_region:
  assumes inv: "engine_inv e"
  shows "calm e (snd (register_region e reg))"
proof (cases "register_region_guard e reg")
  case (Inr r)
  obtain ob p where r: "r = (ob, p)" by force
  note ob = register_region_guard_object [OF Inr [unfolded r]]
  have "calm e (e\<lparr>eng_next_region_id := m, eng_next_replica_id := n, eng_region_index := i\<rparr>)"
    "calm e (e\<lparr>eng_next_region_id := m, eng_next_replica_id := n\<rparr>)" for m n i
    by (rule calm_same; simp)+
  then show ?thesis
    using Inr r
    by (simp add: register_region_def Let_def case_prod_beta calm_add_region [OF inv _ _ ob]
        new_region_record_def)
qed (simp add: register_region_def calm.refl)

lemma kept_release_region_reads: "object_kept ob (release_region_reads k ob)"
  by (auto simp: release_region_reads_def kept_defs)

lemma calm_retire_region_object: "calm a e \<Longrightarrow> calm a (retire_region_object r e)"
  by (auto simp: retire_region_object_def Let_def split: option.split
      intro!: calm.peel calm_recompute calm_put_object kept_release_region_reads)

lemma calm_retire_region: "calm e (snd (retire_region e k g epoch))"
  by (auto simp: retire_region_def retired_replica_def region_kept_def Let_def case_prod_beta
      split: option.split intro!: calm.peel calm_retire_region_object calm_put_region calm.refl)

lemma calm_resolve_recovery: "calm e (snd (resolve_recovery e k g epoch note))"
  by (auto simp: resolve_recovery_def resolved_object_def kept_defs Let_def case_prod_beta
      split: option.split intro!: calm_intros)

lemma calm_retire_object_replica: "calm e (retire_object_replica k e)"
  by (auto simp: retire_object_replica_def region_kept_def Let_def split: option.split intro!: calm_intros)

lemma calm_retire_object: "calm e (snd (retire_object e k g epoch))"
  by (auto simp: retire_object_def retired_object_def kept_defs Let_def case_prod_beta split: option.split
      intro!: calm.peel calm.fold calm_retire_object_replica calm_put_object calm.refl)

lemma calm_shutdown_object: "calm e (shutdown_object k e)"
  by (auto simp: shutdown_object_def abort_publication_def kept_defs Let_def split: option.split
      intro!: calm_intros)

lemma calm_shutdown_sync: "calm e (shutdown_sync k e)"
  by (auto simp: shutdown_sync_def sync_kept_def Let_def split: option.split intro!: calm_intros)

lemma calm_shutdown_invalidation: "calm e (shutdown_invalidation k e)"
  by (auto simp: shutdown_invalidation_def Let_def split: option.split intro!: calm_intros)

lemma calm_begin_shutdown: "calm e (snd (begin_shutdown e epoch))"
  by (auto simp: begin_shutdown_def Let_def case_prod_beta
      intro!: calm.peel calm.peel_field calm.refl calm.fold
        calm_shutdown_object calm_shutdown_sync calm_shutdown_invalidation)

lemma calm_complete_shutdown: "calm e (snd (complete_shutdown e epoch))"
  by (rule calm_same) (simp_all add: complete_shutdown_def Let_def)

section \<open>Resolution\<close>

text \<open>What a request that resolves has been checked for.\<close>

lemma resolve_ok:
  assumes "resolve_locked e ctx = (StatusCode.Ok, found, found_participant)"
  shows "\<exists>ob p. found = Some ob \<and> found_participant = Some p \<and>
    map_of (eng_objects e) (actx_object ctx) = Some ob \<and>
    map_of (eng_participants e) (actx_participant ctx) = Some p \<and>
    \<not> eng_shutting_down e \<and> actx_participant ctx \<noteq> 0 \<and> actx_epoch ctx = eng_epoch e \<and>
    obj_generation ob = actx_object_generation ctx \<and>
    obj_lifecycle ob \<notin> {ObjectLifecycle.Retired, ObjectLifecycle.RecoveryRequired, ObjectLifecycle.Quiescing} \<and>
    (actx_policy_generation ctx \<noteq> 0 \<longrightarrow> actx_policy_generation ctx = obj_policy_generation ob) \<and>
    par_lifecycle p \<notin> {ParticipantLifecycle.Fenced, ParticipantLifecycle.Retired} \<and>
    par_boot p = actx_boot ctx"
  using assms by (auto simp: resolve_locked_def split: if_splits option.splits)

lemma resolve_cases:
  obtains (Ok) ob p where "resolve_locked e ctx = (StatusCode.Ok, Some ob, Some p)"
    "map_of (eng_objects e) (actx_object ctx) = Some ob" "actx_participant ctx \<noteq> 0"
    "map_of (eng_participants e) (actx_participant ctx) = Some p" "par_boot p = actx_boot ctx"
  | (Refused) code found found_participant
    where "resolve_locked e ctx = (code, found, found_participant)" "code \<noteq> StatusCode.Ok"
proof (cases "resolve_locked e ctx")
  case (fields code found found_participant)
  show ?thesis
  proof (cases "code = StatusCode.Ok")
    case True
    then show ?thesis using fields resolve_ok [of e ctx found found_participant] Ok by blast
  qed (use fields Refused in blast)
qed

lemma resolve_region_ok:
  "resolve_region_locked e ob k g = Inr r \<longleftrightarrow> map_of (eng_regions e) k = Some r \<and>
     reg_object r = obj_id ob \<and> (g \<noteq> 0 \<longrightarrow> reg_generation r = g)"
  by (auto simp: resolve_region_locked_def split: option.splits)

section \<open>Reads\<close>

lemma calm_decide_read: "calm a e \<Longrightarrow> calm a (snd (decide_read out code d e))"
  by (simp add: decide_read_def calm.peel)

lemma kept_select: "object_kept ob (snd (select_read_region e ob k))"
  by (simp add: select_read_region_def kept_defs Let_def)

lemma kept_recoverable: "object_kept ob (snd (recoverable_source e ob r))"
  by (auto simp: recoverable_source_def kept_defs Let_def split: option.split)

lemma kept_add_read_grant: "object_kept ob (add_read_grant e ob r p b l)"
  by (auto simp: add_read_grant_def kept_defs Let_def)

lemma calm_read_current:
  "calm a e \<Longrightarrow> map_of (eng_objects e) (actx_object (rreq_context req)) = Some ob \<Longrightarrow>
   calm a (snd (read_current lease req ob r d e))"
  by (auto simp: read_current_def Let_def
      intro!: calm_decide_read calm_put_object [OF _ _ kept_add_read_grant] calm.peel calm.peel_field)

lemma calm_read_not_current:
  "calm a e \<Longrightarrow> map_of (eng_objects e) (actx_object (rreq_context req)) = Some ob \<Longrightarrow>
   calm a (snd (read_not_current req ob r f d e))"
  by (auto simp: read_not_current_def Let_def case_prod_beta
      intro!: calm_decide_read calm_put_object [OF _ _ kept_recoverable])

lemma calm_read_region:
  "calm a e \<Longrightarrow> map_of (eng_objects e) (actx_object (rreq_context req)) = Some ob \<Longrightarrow>
   calm a (snd (read_region lease req policy ob r d e))"
  by (simp add: read_region_def read_snapshot_def Let_def calm_decide_read calm_read_current
      calm_read_not_current)

lemma calm_compute_read: "calm e (snd (compute_read_locked e req lease))"
proof (cases e "rreq_context req" rule: resolve_cases)
  case (Ok ob p)
  show ?thesis
  proof -
    define e1 where "e1 = snd (make_context e (rreq_context req) (actx_object (rreq_context req))
      (actx_object_generation (rreq_context req)) (obj_ownership_generation ob))"
    define e2 where "e2 = put_object (actx_object (rreq_context req))
      (snd (select_read_region e1 ob (rreq_region req))) e1"
    have e1: "calm e e1" "map_of (eng_objects e1) (actx_object (rreq_context req)) = Some ob"
      using Ok by (simp_all add: e1_def calm.refl calm.peel)
    then have e2: "calm e e2" by (simp add: e2_def calm_put_object [OF _ _ kept_select])
    have ob2: "map_of (eng_objects e2) (actx_object (rreq_context req)) =
        Some (snd (select_read_region e1 ob (rreq_region req)))" by (simp add: e2_def)
    show ?thesis
      using Ok(1) e1 e2 ob2
      by (simp add: compute_read_locked_def Let_def case_prod_beta e1_def [symmetric] e2_def [symmetric]
          calm_decide_read calm.peel calm_read_region split: option.split sum.split)
  qed
next
  case (Refused code found q)
  then show ?thesis
    by (simp add: compute_read_locked_def Let_def case_prod_beta calm_decide_read calm.peel calm.refl)
qed

lemma calm_acquire_read: "calm e (snd (acquire_read e req))"
  using calm_compute_read [of e req True]
  by (simp add: acquire_read_def Let_def case_prod_beta calm.peel split: sum.split)

lemma calm_explain_read: "calm e (snd (explain_read e req))"
  by (simp add: explain_read_def calm_compute_read)

section \<open>Writes\<close>

lemma calm_answer_write: "calm a e \<Longrightarrow> calm a (snd (answer_write code g e))"
  by (simp add: answer_write_def calm.peel)

lemma kept_reserved:
  "w \<noteq> 0 \<Longrightarrow> object_kept ob ((reserved_object n w b i ob)\<lparr>obj_outstanding_invalidations := l\<rparr>)"
  by (auto simp: reserved_object_def kept_defs)

lemma kept_rolled_back: "object_kept ob (rolled_back_object ob)"
  by (simp add: rolled_back_object_def kept_defs)

lemma calm_register_transfer: "calm e (register_transfer_invalidation iv e)"
  by (auto simp: register_transfer_invalidation_def region_kept_def Let_def split: option.split
      intro!: calm.peel calm_put_region calm.refl)

lemma calm_reserve_write:
  assumes "calm a e" "map_of (eng_objects e) (actx_object (wreq_context req)) = Some ob"
    "actx_participant (wreq_context req) \<noteq> 0"
  shows "calm a (snd (reserve_write req policy ob p g e))"
  using assms
  by (auto simp: reserve_write_def Let_def case_prod_beta
      intro!: calm_answer_write calm.peel calm.peel_field calm.fold calm_register_transfer
        calm_put_object [OF _ _ kept_rolled_back] calm_put_object [OF _ _ kept_reserved])

lemma kept_continue:
  "obj_authority ob = AuthorityMode.TransferPending \<Longrightarrow>
   object_kept ob (ob\<lparr>obj_authority := AuthorityMode.ExclusiveWriter\<rparr>)"
  by (simp add: kept_defs)

lemma calm_acquire_write_region:
  assumes "calm a e" "map_of (eng_objects e) (actx_object (wreq_context req)) = Some ob"
    "actx_participant (wreq_context req) \<noteq> 0"
  shows "calm a (snd (acquire_write_region req policy ob p wr g e))"
  using assms
  by (simp add: acquire_write_region_def continue_transfer_def Let_def case_prod_beta calm_answer_write
      calm_reserve_write calm.peel calm_put_object kept_continue split: option.split)

lemma calm_acquire_write: "calm e (snd (acquire_write e req))"
proof (cases e "wreq_context req" rule: resolve_cases)
  case (Ok ob p)
  then show ?thesis
    by (auto simp: acquire_write_def Let_def case_prod_beta split: option.split sum.split
        intro!: calm_answer_write calm_acquire_write_region calm.peel calm.refl)
next
  case (Refused code found q)
  then show ?thesis by (simp add: acquire_write_def Let_def case_prod_beta calm.peel calm.refl)
qed

lemma mark_dirty_guard_ok:
  "mark_dirty_guard e req ob = Inr r \<Longrightarrow> map_of (eng_regions e) (dreq_region req) = Some r"
  by (auto simp: mark_dirty_guard_def resolve_region_ok Let_def split: if_splits sum.splits)

lemma calm_mark_dirty: "calm e (snd (mark_dirty e req))"
proof (cases e "dreq_context req" rule: resolve_cases)
  case (Ok ob p)
  then show ?thesis
    by (auto simp: mark_dirty_def dirty_region_def region_kept_def kept_defs Let_def case_prod_beta
        split: sum.split dest!: mark_dirty_guard_ok
        intro!: calm.peel calm_put_region calm_put_object calm.refl)
next
  case (Refused code found q)
  then show ?thesis by (simp add: mark_dirty_def Let_def case_prod_beta calm.peel calm.refl)
qed

end
