(* ===== verification/Engine_Currentness.thy ===== *)
theory Engine_Currentness
  imports Engine_Safety
begin

text \<open>
  The rest of the preservation proofs: invalidation, publication, release and synchronization, and
  the operations that make a replica current.  Each of these keeps the safety invariant because
  the version it certifies is the authoritative one.
\<close>

section \<open>Invalidation\<close>

lemma kept_invalidated: "region_kept r (invalidated_region n k r)"
  by (simp add: invalidated_region_def region_kept_def)

lemma kept_pending_region: "region_kept r (pending_region n k r)"
  by (simp add: pending_region_def region_kept_def)

lemma kept_drop: "object_kept ob (drop_invalidation k ob)"
  by (simp add: drop_invalidation_def kept_defs)

lemma invalidate_guard_ok:
  "invalidate_guard e req ob = Inr r \<Longrightarrow> map_of (eng_regions e) (ireq_target_region req) = Some r"
  by (auto simp: invalidate_guard_def split: if_splits option.splits)

lemma calm_issue_invalidation:
  assumes "calm a e" "map_of (eng_objects e) (actx_object (ireq_context req)) = Some ob"
    "map_of (eng_regions e) (ireq_target_region req) = Some r"
  shows "calm a (snd (issue_invalidation req ob r ctx e))"
proof -
  have kept: "object_kept ob (ob\<lparr>obj_outstanding_invalidations := l, obj_updated_sequence := n\<rparr>)" for l n
    by (simp add: kept_defs)
  show ?thesis
    using assms kept
    by (auto simp: issue_invalidation_def Let_def case_prod_beta
        intro!: calm.peel calm.peel_field calm_recompute calm_put_region [OF _ _ kept_invalidated]
          calm_put_region [OF _ _ kept_pending_region] calm_put_object object_kept_trans [OF kept kept_drop])
qed

lemma resolve_internal_ok:
  "resolve_internal_locked e ctx = Inr ob \<Longrightarrow> map_of (eng_objects e) (actx_object ctx) = Some ob"
  by (auto simp: resolve_internal_locked_def split: if_splits option.splits)

lemma calm_invalidate: "calm e (snd (invalidate e req))"
  by (auto simp: invalidate_def invalidate_inert_def Let_def case_prod_beta split: sum.split option.split
      dest!: resolve_internal_ok invalidate_guard_ok
      intro!: calm_issue_invalidation calm.peel calm.peel_field calm.refl)

lemma calm_settle_invalidation:
  "calm a e \<Longrightarrow> map_of (eng_objects e) (actx_object (iack_context ack)) = Some ob \<Longrightarrow>
   calm a (settle_invalidation ack iv ob e)"
  by (auto simp: settle_invalidation_def intro!: calm_recompute calm_put_object [OF _ _ kept_drop] calm.peel)

lemma settle_invalidation_object:
  "\<exists>ob'. map_of (eng_objects (settle_invalidation ack iv ob e)) (actx_object (iack_context ack)) = Some ob'"
  by (simp add: settle_invalidation_def recompute_authority_locked_def)

lemma calm_acknowledge_replica:
  assumes "calm a e" "map_of (eng_objects e) (actx_object (iack_context ack)) = Some ob"
    "map_of (eng_regions e) (inv_region iv) = Some r"
  shows "calm a (snd (acknowledge_replica ack iv ob r ctx e))"
proof -
  have "calm a (put_region (inv_region iv) (invalidated_region n k r) (tick e))" for n k
    using assms by (auto intro!: calm_put_region [OF _ _ kept_invalidated] calm.peel)
  then have settled: "calm a (settle_invalidation ack iv' ob (put_region (inv_region iv) (invalidated_region n k r) (tick e)))"
    for iv' n k using assms by (auto intro!: calm_settle_invalidation)
  show ?thesis
    using settle_invalidation_object [of ack _ ob]
    by (auto simp: acknowledge_replica_def Let_def case_prod_beta
        intro!: calm.peel calm_put_object [OF settled _ kept_updated])
qed

lemma calm_acknowledge: "calm e (snd (acknowledge_invalidation e ack))"
proof (cases e "iack_context ack" rule: resolve_cases)
  case (Ok ob p)
  then show ?thesis
    by (auto simp: acknowledge_invalidation_def Let_def case_prod_beta split: option.split
        intro!: calm_acknowledge_replica calm_settle_invalidation calm.peel calm.refl)
next
  case (Refused code found q)
  then show ?thesis
    by (simp add: acknowledge_invalidation_def Let_def case_prod_beta calm.peel calm.refl split: option.split)
qed

section \<open>Publication, up to the commit\<close>

lemma kept_reserve_publication:
  "object_kept ob (ob\<lparr>obj_publication_state := s, obj_pending_publication := k, obj_pending_version := v,
     obj_pending_content := c, obj_updated_sequence := n\<rparr>)"
  by (simp add: kept_defs)

lemma calm_reserve_publication:
  assumes "calm a e" "map_of (eng_objects e) (actx_object (preq_context req)) = Some ob"
  shows "calm a (snd (reserve_publication req policy ob p receipt e))"
proof -
  show ?thesis
    using assms by (auto simp: reserve_publication_def Let_def
        intro!: calm_put_object [OF _ _ kept_reserve_publication] calm.peel calm.peel_field)
qed

lemma calm_publish_reserve: "calm e (snd (publish_reserve e req))"
proof (cases e "preq_context req" rule: resolve_cases)
  case (Ok ob p)
  then show ?thesis
    by (auto simp: publish_reserve_def Let_def case_prod_beta split: option.split
        intro!: calm_reserve_publication calm.peel calm.refl)
next
  case (Refused code found q)
  then show ?thesis by (simp add: publish_reserve_def Let_def case_prod_beta calm.peel calm.refl)
qed

lemma calm_publish_persist: "calm e (snd (publish_persist e ticket))"
  by (simp add: calm.peel calm.refl)

section \<open>Release\<close>

lemma calm_context_if_found: "calm a e \<Longrightarrow> calm a (snd (context_if_found e ctx found))"
  by (simp add: context_if_found_def calm.peel split: option.split)

lemma context_if_found_frame [simp]:
  "eng_objects (snd (context_if_found e ctx found)) = eng_objects e"
  "eng_regions (snd (context_if_found e ctx found)) = eng_regions e"
  "eng_syncs (snd (context_if_found e ctx found)) = eng_syncs e"
  "eng_policies (snd (context_if_found e ctx found)) = eng_policies e"
  "eng_participants (snd (context_if_found e ctx found)) = eng_participants e"
  "eng_invalidations (snd (context_if_found e ctx found)) = eng_invalidations e"
  "eng_epoch (snd (context_if_found e ctx found)) = eng_epoch e"
  by (simp_all add: context_if_found_def split: option.split)

lemma released_leases: "g \<in> set (release_lease l gs) \<Longrightarrow> \<forall>g \<in> set gs. grant_released g \<Longrightarrow> grant_released g"
  by (induction l gs rule: release_lease.induct) (auto split: if_splits)

lemma kept_release_lease: "object_kept ob (ob\<lparr>obj_reads := release_lease l (obj_reads ob)\<rparr>)"
  using released_leases by (auto simp: kept_defs)

lemma calm_update_after_recompute:
  assumes "calm a (put_object k ob e)"
  shows "calm a (put_object k ((the (map_of (eng_objects (recompute_authority_locked k (put_object k ob e))) k))
     \<lparr>obj_updated_sequence := n\<rparr>) (recompute_authority_locked k (put_object k ob e)))"
proof (rule calm_put_object [OF calm_recompute [OF assms] _ kept_updated])
  show "map_of (eng_objects (recompute_authority_locked k (put_object k ob e))) k =
    Some (the (map_of (eng_objects (recompute_authority_locked k (put_object k ob e))) k))"
    by (simp add: recompute_authority_locked_def)
qed

lemma calm_release_read:
  assumes "calm a e" "map_of (eng_objects e) (actx_object (lreq_context req)) = Some ob"
  shows "calm a (snd (release_read req ob ctx e))"
proof -
  have "calm a (put_object (actx_object (lreq_context req)) (ob\<lparr>obj_reads := release_lease l (obj_reads ob)\<rparr>) e)" for l
    using assms by (rule calm_put_object [OF _ _ kept_release_lease])
  then show ?thesis
    using assms by (auto simp: release_read_def Let_def case_prod_beta split: option.split
        intro!: calm.peel calm_update_after_recompute)
qed

lemma kept_give_up: "region_kept r (give_up_dirty n r)"
  by (simp add: give_up_dirty_def region_kept_def)

lemma give_up_region_frame:
  "calm a (fst s) \<Longrightarrow> calm a (fst (give_up_region k s)) \<and>
   eng_objects (fst (give_up_region k s)) = eng_objects (fst s)"
  by (auto simp: give_up_region_def Let_def split: option.split intro: calm_put_region [OF _ _ kept_give_up])

lemma give_up_regions_frame:
  "calm a (fst s) \<Longrightarrow> calm a (fst (fold give_up_region ks s)) \<and>
   eng_objects (fst (fold give_up_region ks s)) = eng_objects (fst s)"
  by (induction ks arbitrary: s) (auto simp: give_up_region_frame)

lemma calm_release_write:
  assumes "calm a e" "map_of (eng_objects e) (actx_object (lreq_context req)) = Some ob"
  shows "calm a (snd (release_write req ob ctx e))"
proof -
  let ?k = "actx_object (lreq_context req)"
  let ?free = "ob\<lparr>obj_ownership_generation := next_id (obj_ownership_generation ob), obj_writer := 0,
    obj_writer_boot := 0, obj_authority := AuthorityMode.NoAuthority\<rparr>"
  have free: "object_kept ob ?free" by (simp add: kept_defs)
  have give: "calm a (fst (fold give_up_region ks (tick e, [])))"
    "eng_objects (fst (fold give_up_region ks (tick e, []))) = eng_objects e" for ks
    using give_up_regions_frame [of a "(tick e, [])" ks] assms(1) by (simp_all add: calm.peel)
  have "calm a (put_object ?k (lose_dirty pol msg ?free) (fst (fold give_up_region ks (tick e, []))))" for pol msg ks
    using give assms(2) by (auto intro!: calm_put_object object_kept_trans [OF free kept_lose_dirty])
  moreover have "calm a (put_object ?k ?free (tick e))"
    using assms free by (auto intro!: calm_put_object calm.peel)
  ultimately show ?thesis
    by (auto simp: release_write_def Let_def case_prod_beta
        intro!: calm.peel calm_update_after_recompute)
qed

lemma calm_release: "calm e (snd (release e req))"
proof (cases e "lreq_context req" rule: resolve_cases)
  case (Ok ob p)
  then show ?thesis
    by (auto simp: release_def Let_def case_prod_beta
        intro!: calm_release_read calm_release_write calm_context_if_found calm.refl)
next
  case (Refused code found q)
  then show ?thesis
    by (simp add: release_def Let_def case_prod_beta calm_context_if_found calm.refl)
qed

section \<open>Synchronization\<close>

lemma sync_destination_ok:
  "sync_destination_check e req ob = Inr r \<Longrightarrow>
   map_of (eng_regions e) (sreq_destination_region req) = Some r \<and> reg_object r = obj_id ob"
  by (auto simp: sync_destination_check_def resolve_region_ok split: if_splits sum.splits)

lemma kept_awaiting: "region_kept r (awaiting_sync n k src r)"
  by (auto simp: awaiting_sync_def region_kept_def)

lemma calm_begin_sync:
  assumes inv: "engine_inv e"
  shows "calm e (snd (begin_sync e req))"
proof (cases e "sreq_context req" rule: resolve_cases)
  case (Ok ob p)
  have placed: "calm e (put_sync k (sync_plan e1 req ob src r) e2)"
    if "map_of (eng_regions e) (sreq_destination_region req) = Some r" "reg_object r = obj_id ob"
      "calm e e2" for k e1 e2 src r
  proof (rule calm_put_new_sync [OF that(3)])
    have "region_placed e (sreq_destination_region req) (obj_id ob)"
      using that by (auto simp: region_placed_def)
    moreover have "reg_id r = sreq_destination_region req" using inv_region_id [OF inv that(1)] .
    ultimately show "region_placed e2 (sync_destination_region (sync_plan e1 req ob src r))
        (sync_object (sync_plan e1 req ob src r))"
      using calm_region_placed [OF that(3)] by (simp add: sync_plan_def Let_def)
  qed
  show ?thesis
    using Ok
    by (auto simp: begin_sync_def Let_def case_prod_beta split: sum.split
        dest!: sync_destination_ok
        intro!: calm.peel placed calm.peel_field calm_put_region [OF _ _ kept_awaiting]
          calm_context_if_found calm.refl)
next
  case (Refused code found q)
  then show ?thesis
    by (simp add: begin_sync_def Let_def case_prod_beta calm_context_if_found calm.refl)
qed

lemma kept_failed: "st \<noteq> CoherenceState.Current \<Longrightarrow> region_kept r (failed_destination st note n r)"
  by (simp add: failed_destination_def region_kept_def)

lemma kept_settle: "sync_kept s (settle_sync st n reason s)"
  by (simp add: settle_sync_def sync_kept_def)

lemma kept_failed_sync_region: "region_kept r (failed_sync_region n req reason r)"
  by (simp add: failed_sync_region_def kept_failed)

lemma calm_fail_sync: "calm e (snd (fail_sync e req))"
  by (auto simp: fail_sync_def Let_def case_prod_beta split: option.split
      intro!: calm.peel calm_put_region [OF _ _ kept_failed_sync_region] calm_put_sync [OF _ _ kept_settle] calm.refl)

lemma calm_reject_completion:
  assumes "calm a e" "st \<noteq> CoherenceState.Current" "map_of (eng_syncs e) k = Some s"
    "map_of (eng_regions e) (sync_destination_region s) = Some r"
  shows "calm a (snd (reject_completion k st note reason code checked s r ctx e))"
  using assms
  by (auto simp: reject_completion_def Let_def case_prod_beta
      intro!: calm.peel calm_put_region [OF _ _ kept_failed] calm_put_sync [OF _ _ kept_settle])

section \<open>Making a replica current\<close>

text \<open>One replica becomes current at the authoritative version of its object, and nothing else
  changes but the bookkeeping of synchronizations.\<close>

definition refreshes :: "engine \<Rightarrow> RegionId \<Rightarrow> engine \<Rightarrow> bool" where
  "refreshes e k e' \<longleftrightarrow>
     (\<exists>r r'. map_of (eng_regions e) k = Some r \<and> map_of (eng_regions e') = (map_of (eng_regions e))(k \<mapsto> r') \<and>
        reg_id r' = reg_id r \<and> reg_object r' = reg_object r \<and> reg_state r' = CoherenceState.Current \<and>
        (\<forall>ob. map_of (eng_objects e) (reg_object r) = Some ob \<and> obj_authoritative_version ob \<noteq> 0 \<longrightarrow>
           reg_version r' = obj_authoritative_version ob)) \<and>
     eng_objects e' = eng_objects e \<and>
     (\<forall>j s'. map_of (eng_syncs e') j = Some s' \<longrightarrow> (\<exists>s. map_of (eng_syncs e) j = Some s \<and> sync_kept s s'))"

text \<open>What the two certifying operations may do.\<close>

definition certifies :: "RegionId \<Rightarrow> engine \<Rightarrow> engine \<Rightarrow> bool" where
  "certifies k e e' \<longleftrightarrow> calm e e' \<or> refreshes e k e'"

lemma inv_via: "engine_inv e \<Longrightarrow> eng_objects e' = eng_objects e \<Longrightarrow> eng_regions e' = eng_regions e \<Longrightarrow>
    eng_syncs e' = eng_syncs e \<Longrightarrow> engine_inv e'"
  using calm_same calm_inv by blast

interpretation certifies: live_relation "certifies k" for k
proof unfold_locales
  show "certifies k a c" if "certifies k a b" "eng_objects c = eng_objects b"
    "eng_regions c = eng_regions b" "eng_syncs c = eng_syncs b" for a b c
    using that calm.via [of a b c] by (auto simp: certifies_def refreshes_def)
qed

lemma certifies_calm: "calm e e' \<Longrightarrow> certifies k e e'"
  by (simp add: certifies_def)

lemma refreshes_placed: "refreshes e k e' \<Longrightarrow> region_placed e' j obj = region_placed e j obj"
  by (cases "j = k") (auto simp: refreshes_def region_placed_def)

lemma certifies_placed: "certifies k e e' \<Longrightarrow> region_placed e j obj \<Longrightarrow> region_placed e' j obj"
  using calm_region_placed refreshes_placed by (auto simp: certifies_def)

lemma refreshes_inv:
  assumes inv: "engine_inv e" and fresh: "refreshes e k e'"
  shows "engine_inv e'"
proof -
  have "region_inv e' j r" if "map_of (eng_regions e') j = Some r" for j r
    using that fresh inv_region [OF inv, of j]
    by (cases "j = k") (auto simp: refreshes_def region_inv_def)
  moreover have "object_inv j ob" if "map_of (eng_objects e') j = Some ob" for j ob
    using that fresh inv by (auto simp: refreshes_def engine_inv_def)
  moreover have "region_placed e' (sync_destination_region s) (sync_object s)"
    if "map_of (eng_syncs e') j = Some s" for j s
    unfolding refreshes_placed [OF fresh]
    using that fresh inv_sync [OF inv] by (fastforce simp: refreshes_def sync_kept_def)
  ultimately show ?thesis by (auto simp: engine_inv_def)
qed

lemma certifies_inv: "engine_inv e \<Longrightarrow> certifies k e e' \<Longrightarrow> engine_inv e'"
  using calm_inv refreshes_inv by (auto simp: certifies_def)

lemma certifies_put_region:
  assumes calm: "calm e e1" and same: "eng_objects e1 = eng_objects e" "eng_regions e1 = eng_regions e"
    and syncs: "\<And>j s'. map_of (eng_syncs e1) j = Some s' \<Longrightarrow> \<exists>s. map_of (eng_syncs e) j = Some s \<and> sync_kept s s'"
    and r: "map_of (eng_regions e) k = Some r" "reg_id r' = reg_id r" "reg_object r' = reg_object r"
    and version: "\<And>ob. map_of (eng_objects e) (reg_object r) = Some ob \<Longrightarrow> reg_state r' = CoherenceState.Current \<Longrightarrow>
      obj_authoritative_version ob \<noteq> 0 \<Longrightarrow> reg_version r' = obj_authoritative_version ob"
  shows "certifies k e (put_region k r' e1)"
proof (cases "reg_state r' = CoherenceState.Current")
  case True
  then have "refreshes e k (put_region k r' e1)"
    using same syncs r version by (auto simp: refreshes_def)
  then show ?thesis by (simp add: certifies_def)
next
  case False
  then have "region_kept r r'" using r by (simp add: region_kept_def)
  then have "calm e (put_region k r' e1)" using calm_put_region [OF calm] r same by simp
  then show ?thesis by (simp add: certifies_def)
qed

section \<open>Revalidation\<close>

lemma revalidate_guard_ok:
  "revalidate_guard e req ob = Inr r \<Longrightarrow> map_of (eng_regions e) (vreq_region req) = Some r \<and> reg_object r = obj_id ob"
  by (auto simp: revalidate_guard_def resolve_region_ok split: if_splits sum.splits option.splits)

text \<open>A replica revalidated at another version than the authoritative one becomes stale.\<close>

lemma certifies_revalidate:
  assumes inv: "engine_inv e"
  shows "certifies (vreq_region req) e (snd (revalidate_region e req))"
proof (cases e "vreq_context req" rule: resolve_cases)
  case (Ok ob p)
  have id: "obj_id ob = actx_object (vreq_context req)" using inv_object [OF inv] Ok by blast
  have put: "certifies (vreq_region req) e (put_region (vreq_region req) (revalidated_region n req ob ev r) e1)"
    if "map_of (eng_regions e) (vreq_region req) = Some r \<and> reg_object r = obj_id ob"
      "eng_objects e1 = eng_objects e" "eng_regions e1 = eng_regions e" "eng_syncs e1 = eng_syncs e" for n ev r e1
    by (rule certifies_put_region [OF calm_same, where r = r])
      (use that Ok id in \<open>auto simp: revalidated_region_def Let_def split: if_splits\<close>)
  show ?thesis
  proof (cases "revalidate_guard e req ob")
    case (Inl code)
    then show ?thesis using Ok by (simp add: revalidate_region_def Let_def certifies_calm calm.refl)
  next
    case (Inr r)
    then show ?thesis
      using Ok revalidate_guard_ok [OF Inr]
      by (auto simp: revalidate_region_def Let_def case_prod_beta intro!: certifies.peel put)
  qed
next
  case (Refused code found q)
  then show ?thesis by (simp add: revalidate_region_def Let_def certifies_calm calm.refl)
qed

section \<open>Completion of a synchronization\<close>

lemma certifies_accept:
  assumes inv: "engine_inv e" and s: "map_of (eng_syncs e) (creq_operation req) = Some s"
    and r: "map_of (eng_regions e) (sync_destination_region s) = Some r"
    and ob: "map_of (eng_objects e) (sync_object s) = Some ob"
    and version: "obj_authoritative_version ob = sync_source_version s"
  shows "certifies (sync_destination_region s) e (snd (accept_completion req s ob r ctx e))"
proof -
  have object: "reg_object r = sync_object s"
    using inv_sync [OF inv s] r by (simp add: region_placed_def)
  have put: "certifies (sync_destination_region s) e
      (put_region (sync_destination_region s) (synchronized_region n req s ob ev r)
      (put_sync (creq_operation req) (s\<lparr>sync_state := st, sync_settled_sequence := m\<rparr>) e1))"
    if "eng_objects e1 = eng_objects e" "eng_regions e1 = eng_regions e" "eng_syncs e1 = eng_syncs e" for n ev st m e1
  proof (rule certifies_put_region [where r = r])
    show "calm e (put_sync (creq_operation req) (s\<lparr>sync_state := st, sync_settled_sequence := m\<rparr>) e1)"
      using that s by (intro calm_put_sync [where s = s] calm_same) (simp_all add: sync_kept_def)
  qed (use that r s ob object version in \<open>auto simp: synchronized_region_def sync_kept_def split: if_splits\<close>)
  show ?thesis
    by (auto simp: accept_completion_def Let_def case_prod_beta intro!: certifies.peel put)
qed

lemma certifies_complete_at:
  assumes inv: "engine_inv e" and s: "map_of (eng_syncs e) (creq_operation req) = Some s"
    and r: "map_of (eng_regions e) (sync_destination_region s) = Some r"
    and ob: "map_of (eng_objects e) (sync_object s) = Some ob"
  shows "certifies (sync_destination_region s) e (snd (complete_sync_at req s ob r ctx e))"
proof -
  have settled: "calm e (put_sync (creq_operation req) (settle_sync st n reason s) (tick e))" for st n reason
    using s by (auto intro!: calm_put_sync [OF _ _ kept_settle] calm.peel calm.refl)
  show ?thesis
    using certifies_accept [OF inv s r ob] r s
    by (auto simp: complete_sync_at_def Let_def case_prod_beta
        intro!: certifies_calm calm_reject_completion calm.refl calm.peel settled)
qed

lemma certifies_from_same:
  assumes "certifies k e1 e2" "eng_objects e1 = eng_objects e" "eng_regions e1 = eng_regions e" "eng_syncs e1 = eng_syncs e"
  shows "certifies k e e2"
  using assms calm_trans [OF calm_same [of e1 e], of e2] by (auto simp: certifies_def refreshes_def)

lemma certifies_complete_sync:
  assumes inv: "engine_inv e"
  obtains k where "certifies k e (snd (complete_sync e req))"
proof (cases "map_of (eng_syncs e) (creq_operation req)")
  case None
  then show thesis using that by (simp add: complete_sync_def certifies_calm calm.refl)
next
  case s: (Some s)
  have ctx: "calm e (snd (make_context e c o1 g1 w1))" for c o1 g1 w1
    by (simp add: calm.peel calm.refl)
  show thesis
  proof (cases e "creq_context req" rule: resolve_cases)
    case (Ok ob p)
    have "obj_id ob = actx_object (creq_context req)" using inv_object [OF inv] Ok by blast
    then have "certifies (sync_destination_region s) e (snd (complete_sync e req))"
      using Ok s by (auto simp: complete_sync_def Let_def case_prod_beta split: option.split
        intro!: certifies_calm [OF ctx] certifies_from_same [OF certifies_complete_at]
          inv_via [OF inv])
    then show thesis by (rule that)
  next
    case (Refused code found q)
    then have "calm e (snd (complete_sync e req))"
      using s by (simp add: complete_sync_def Let_def case_prod_beta ctx)
    then show thesis using that certifies_calm by blast
  qed
qed

section \<open>Commit of a publication\<close>

text \<open>Marking the replicas stale leaves no current replica but the published one.\<close>

definition staled :: "VersionId \<Rightarrow> RegionRecord \<Rightarrow> RegionRecord" where
  "staled v r = (if reg_state r \<noteq> CoherenceState.Current then r
     else r\<lparr>reg_state := CoherenceState.Stale, reg_note := note_superseded v, reg_evidence := 0,
       reg_evidence_generation := 0\<rparr>)"

lemma staled_simps [simp]:
  "reg_id (staled v r) = reg_id r" "reg_object (staled v r) = reg_object r"
  "reg_state (staled v r) \<noteq> CoherenceState.Current" "staled v (staled v r) = staled v r"
  by (auto simp: staled_def)

lemma mark_region_stale_at:
  "map_of (eng_regions (mark_region_stale v x k e)) j =
   (if j = k \<and> k \<noteq> x then map_option (staled v) (map_of (eng_regions e) j) else map_of (eng_regions e) j)"
  by (auto simp: mark_region_stale_def staled_def Let_def split: option.split)

lemma mark_regions_stale_fold_at:
  "map_of (eng_regions (fold (mark_region_stale v x) ks e)) j =
   (if j \<in> set ks \<and> j \<noteq> x then map_option (staled v) (map_of (eng_regions e) j) else map_of (eng_regions e) j)"
  by (induction ks arbitrary: e) (auto simp: mark_region_stale_at option.map_comp o_def)

lemma mark_regions_stale_at:
  "map_of (eng_regions (mark_regions_stale k v x e)) j =
   (case map_of (eng_objects e) k of None \<Rightarrow> map_of (eng_regions e) j
    | Some ob \<Rightarrow> if j \<in> set (obj_replicas ob) \<and> j \<noteq> x then map_option (staled v) (map_of (eng_regions e) j)
        else map_of (eng_regions e) j)"
  by (simp add: mark_regions_stale_def mark_regions_stale_fold_at split: option.split)

lemma mark_region_stale_frame [simp]:
  "eng_objects (mark_region_stale v x k e) = eng_objects e" "eng_syncs (mark_region_stale v x k e) = eng_syncs e"
  by (simp_all add: mark_region_stale_def Let_def split: option.split)

lemma mark_regions_stale_frame [simp]:
  "eng_objects (mark_regions_stale k v x e) = eng_objects e" "eng_syncs (mark_regions_stale k v x e) = eng_syncs e"
proof -
  have "eng_objects (fold (mark_region_stale v x) ks e) = eng_objects e \<and>
      eng_syncs (fold (mark_region_stale v x) ks e) = eng_syncs e" for ks
    by (induction ks arbitrary: e) simp_all
  then show "eng_objects (mark_regions_stale k v x e) = eng_objects e"
    "eng_syncs (mark_regions_stale k v x e) = eng_syncs e"
    by (simp_all add: mark_regions_stale_def split: option.split)
qed

lemma staled_object: "map_option (staled v) a = Some r \<Longrightarrow> \<exists>r0. a = Some r0 \<and> r = staled v r0"
  by (cases a) auto

text \<open>The effect of a commit: the object moves to the new version, the published replica is current
  there and every other replica of the object is stale.\<close>

definition advances :: "RegionId \<Rightarrow> ObjectId \<Rightarrow> VersionId \<Rightarrow> engine \<Rightarrow> engine \<Rightarrow> bool" where
  "advances x k v e e' \<longleftrightarrow>
     (\<exists>ob ob'. map_of (eng_objects e) k = Some ob \<and>
        map_of (eng_objects e') = (map_of (eng_objects e))(k \<mapsto> ob') \<and>
        obj_id ob' = obj_id ob \<and> authority_ok ob' = authority_ok ob \<and> obj_replicas ob' = obj_replicas ob \<and>
        obj_authoritative_version ob' = v \<and>
        (\<forall>j. j \<noteq> x \<longrightarrow> map_of (eng_regions e') j =
           (if j \<in> set (obj_replicas ob) then map_option (staled v) (map_of (eng_regions e) j)
            else map_of (eng_regions e) j))) \<and>
     (\<exists>r r'. map_of (eng_regions e) x = Some r \<and> map_of (eng_regions e') x = Some r' \<and>
        reg_id r' = reg_id r \<and> reg_object r = k \<and> reg_object r' = k \<and>
        reg_state r' = CoherenceState.Current \<and> reg_version r' = v) \<and>
     eng_syncs e' = eng_syncs e"

interpretation advances: live_relation "advances x k v" for x k v
  by unfold_locales (simp add: advances_def)

lemma advancesI:
  assumes "map_of (eng_objects e) k = Some ob" "map_of (eng_objects e') = (map_of (eng_objects e))(k \<mapsto> ob')"
    "obj_id ob' = obj_id ob" "authority_ok ob' = authority_ok ob" "obj_replicas ob' = obj_replicas ob"
    "obj_authoritative_version ob' = v"
    "\<And>j. j \<noteq> x \<Longrightarrow> map_of (eng_regions e') j =
       (if j \<in> set (obj_replicas ob) then map_option (staled v) (map_of (eng_regions e) j) else map_of (eng_regions e) j)"
    "map_of (eng_regions e) x = Some r" "map_of (eng_regions e') x = Some r'" "reg_id r' = reg_id r"
    "reg_object r = k" "reg_object r' = k" "reg_state r' = CoherenceState.Current" "reg_version r' = v"
    "eng_syncs e' = eng_syncs e"
  shows "advances x k v e e'"
  unfolding advances_def using assms by blast

lemma advances_from_same:
  assumes "advances x k v e1 e2" "eng_objects e1 = eng_objects e" "eng_regions e1 = eng_regions e"
    "eng_syncs e1 = eng_syncs e"
  shows "advances x k v e e2"
  using assms(1) unfolding advances_def assms(2-4) .

lemma advances_placed:
  assumes "advances x k v e e'" "region_placed e j obj"
  shows "region_placed e' j obj"
proof (cases "j = x")
  case False
  then have "map_of (eng_regions e') j = map_of (eng_regions e) j \<or>
      map_of (eng_regions e') j = map_option (staled v) (map_of (eng_regions e) j)"
    using assms(1) by (auto simp: advances_def)
  then show ?thesis using assms(2) by (auto simp: region_placed_def)
qed (use assms in \<open>auto simp: advances_def region_placed_def\<close>)

lemma advances_inv:
  assumes inv: "engine_inv e" and adv: "advances x k v e e'"
  shows "engine_inv e'"
proof -
  obtain ob ob' where ob: "map_of (eng_objects e) k = Some ob"
    "map_of (eng_objects e') = (map_of (eng_objects e))(k \<mapsto> ob')" "obj_id ob' = obj_id ob"
    "authority_ok ob' = authority_ok ob" "obj_replicas ob' = obj_replicas ob" "obj_authoritative_version ob' = v"
    "\<And>j. j \<noteq> x \<Longrightarrow> map_of (eng_regions e') j =
       (if j \<in> set (obj_replicas ob) then map_option (staled v) (map_of (eng_regions e) j) else map_of (eng_regions e) j)"
    using adv by (auto simp: advances_def)
  have "object_inv j ob1" if "map_of (eng_objects e') j = Some ob1" for j ob1
    using that ob inv_object [OF inv, of j] by (auto simp: object_inv_def split: if_splits)
  moreover have "region_inv e' j r" if r: "map_of (eng_regions e') j = Some r" for j r
  proof (cases "j = x")
    case True
    then show ?thesis using r adv ob inv_region [OF inv, of x] by (auto simp: advances_def region_inv_def)
  next
    case False
    then obtain r0 where r0: "map_of (eng_regions e) j = Some r0"
      "r = (if j \<in> set (obj_replicas ob) then staled v r0 else r0)"
      using ob(7) r staled_object by (cases "j \<in> set (obj_replicas ob)") auto
    have "region_inv e j r0" using inv_region [OF inv r0(1)] .
    then show ?thesis using r0(2) ob by (auto simp: region_inv_def)
  qed
  moreover have "eng_syncs e' = eng_syncs e" using adv by (simp add: advances_def)
  ultimately show ?thesis
    using inv_sync [OF inv] advances_placed [OF adv] by (auto simp: engine_inv_def)
qed

lemma publish_to_region_at:
  "map_of (eng_regions e) (preq_region (tk_request t)) = Some r \<Longrightarrow> reg_id r = i \<Longrightarrow> reg_object r = k \<Longrightarrow>
   \<exists>r'. map_of (eng_regions (publish_to_region t ob e)) (preq_region (tk_request t)) = Some r' \<and>
     reg_id r' = i \<and> reg_object r' = k \<and> reg_version r' = pend_version (tk_pending t) \<and>
     reg_state r' = CoherenceState.Current"
  by (auto simp: publish_to_region_def Let_def case_prod_beta published_region_def)

lemma publish_to_region_others:
  "j \<noteq> preq_region (tk_request t) \<Longrightarrow>
   map_of (eng_regions (publish_to_region t ob e)) j = map_of (eng_regions e) j"
  by (auto simp: publish_to_region_def Let_def case_prod_beta split: option.split)

lemma publish_to_region_frame [simp]:
  "eng_objects (publish_to_region t ob e) = eng_objects e"
  "eng_syncs (publish_to_region t ob e) = eng_syncs e"
  by (auto simp: publish_to_region_def Let_def case_prod_beta split: option.split)

lemma committed_object_simps [simp]:
  "obj_id (committed_object c n t ob) = obj_id ob"
  "obj_replicas (committed_object c n t ob) = obj_replicas ob"
  "obj_authoritative_version (committed_object c n t ob) = pend_version (tk_pending t)"
  "authority_ok (committed_object c n t ob) = authority_ok ob"
  by (simp_all add: committed_object_def Let_def authority_ok_def exclusive_def)

lemma commit_publication_advances:
  assumes inv: "engine_inv e" and ob: "map_of (eng_objects e) (pend_object (tk_pending t)) = Some ob"
    and placed: "region_placed e (preq_region (tk_request t)) (pend_object (tk_pending t))"
  shows "advances (preq_region (tk_request t)) (pend_object (tk_pending t)) (pend_version (tk_pending t))
    e (snd (commit_publication t ob e))"
proof -
  let ?k = "pend_object (tk_pending t)" and ?x = "preq_region (tk_request t)"
  have id: "obj_id ob = ?k" using inv_object [OF inv ob] by simp
  define ob' where "ob' = committed_object (eng_config (tick e)) (eng_sequence (tick e)) t ob"
  define e1 where "e1 = publish_to_region t ob' (put_object ?k ob' (tick e))"
  define e2 where "e2 = mark_regions_stale ?k (pend_version (tk_pending t)) ?x e1"
  obtain r where r: "map_of (eng_regions e) ?x = Some r" "reg_object r = ?k"
    using placed by (auto simp: region_placed_def)
  then obtain r' where r': "map_of (eng_regions e1) ?x = Some r'" "reg_id r' = reg_id r" "reg_object r' = ?k"
    "reg_version r' = pend_version (tk_pending t)" "reg_state r' = CoherenceState.Current"
    using publish_to_region_at [of "put_object ?k ob' (tick e)" t r "reg_id r" ?k ob'] by (auto simp: e1_def)
  have e1: "map_of (eng_objects e1) = (map_of (eng_objects e))(?k \<mapsto> ob')" by (simp add: e1_def)
  have others: "map_of (eng_regions e1) j = map_of (eng_regions e) j" if "j \<noteq> ?x" for j
    using publish_to_region_others [OF that] by (simp add: e1_def)
  have "advances ?x ?k (pend_version (tk_pending t)) e e2"
  proof (rule advancesI [of e ?k ob e2 ob' _ _ r r'])
    show "map_of (eng_regions e2) j = (if j \<in> set (obj_replicas ob)
        then map_option (staled (pend_version (tk_pending t))) (map_of (eng_regions e) j)
        else map_of (eng_regions e) j)" if "j \<noteq> ?x" for j
      using that e1 others by (simp add: e2_def mark_regions_stale_at) (simp add: ob'_def)
  qed (use ob r r' e1 in \<open>simp_all add: e2_def mark_regions_stale_at, simp_all add: ob'_def e1_def\<close>)
  then show ?thesis
    by (auto simp: commit_publication_def Let_def case_prod_beta e2_def e1_def ob'_def id intro!: advances.peel)
qed

lemma calm_clear_pending: "calm a e \<Longrightarrow> calm a (clear_pending t k e)"
  by (rule calm.via) simp_all

text \<open>Every path of the third section but the commit itself is calm.\<close>

lemma publish_commit_cases:
  obtains (Calm) "calm e (snd (publish_commit e t code))"
    | (Commit) ob e1 where "map_of (eng_objects e) (pend_object (tk_pending t)) = Some ob"
      "reservation_valid t ob" "code = StatusCode.Ok"
      "publish_commit e t code = commit_publication t ob e1"
      "eng_objects e1 = eng_objects e" "eng_regions e1 = eng_regions e" "eng_syncs e1 = eng_syncs e"
proof (cases "map_of (eng_objects e) (pend_object (tk_pending t))")
  case None
  then have "calm e (snd (publish_commit e t code))"
    by (simp add: publish_commit_def Let_def calm.peel_field calm.refl)
  then show thesis by (rule Calm)
next
  case (Some ob)
  have abort: "calm e (put_object (pend_object (tk_pending t)) (abort_publication ob) e1)"
    if "eng_objects e1 = eng_objects e" "eng_regions e1 = eng_regions e" "eng_syncs e1 = eng_syncs e" for e1
    using calm_put_object [OF calm.via [OF calm.refl that] _ kept_abort] that Some by simp
  show thesis
  proof (cases "code = StatusCode.Ok \<and> reservation_valid t ob")
    case True
    let ?e1 = "apply_pending t (e\<lparr>eng_in_flight_publications :=
      sm_erase (pend_id (tk_pending t)) (eng_in_flight_publications e)\<rparr>)"
    show thesis
      by (rule Commit [of ob ?e1, OF Some]) (use True Some in \<open>simp_all add: publish_commit_def Let_def\<close>)
  next
    case False
    have "calm e (snd (publish_commit e t code))"
      using False Some
      by (auto simp: publish_commit_def Let_def intro!: calm_clear_pending calm.peel abort)
    then show thesis by (rule Calm)
  qed
qed

lemma publish_commit_effect:
  assumes inv: "engine_inv e"
    and placed: "region_placed e (preq_region (tk_request t)) (pend_object (tk_pending t))"
  obtains (Calm) "calm e (snd (publish_commit e t code))"
    | (Advance) ob where "map_of (eng_objects e) (pend_object (tk_pending t)) = Some ob" "reservation_valid t ob"
      "code = StatusCode.Ok"
      "advances (preq_region (tk_request t)) (pend_object (tk_pending t)) (pend_version (tk_pending t))
        e (snd (publish_commit e t code))"
proof (cases e t code rule: publish_commit_cases)
  case Calm
  then show thesis by (rule that)
next
  case (Commit ob e1)
  have "engine_inv e1" using inv_via [OF inv Commit(5-7)] .
  moreover have "region_placed e1 (preq_region (tk_request t)) (pend_object (tk_pending t))"
    using placed Commit(6) by (simp add: region_placed_def)
  ultimately have "advances (preq_region (tk_request t)) (pend_object (tk_pending t)) (pend_version (tk_pending t))
      e1 (snd (publish_commit e t code))"
    using commit_publication_advances Commit(1,4,5) by simp
  then have "advances (preq_region (tk_request t)) (pend_object (tk_pending t)) (pend_version (tk_pending t))
      e (snd (publish_commit e t code))"
    using Commit(5-7) by (rule advances_from_same)
  then show thesis by (rule Advance [OF Commit(1-3)])
qed

end
