(* ===== verification/Engine_Restart.thy ===== *)
theory Engine_Restart
  imports Engine_Currentness
begin

text \<open>
  What recovery from a durable store gives back.  Each loop of \<open>attach_store\<close> restores exactly the
  records the image holds under their own key; the restored engine has no authority and no current
  replica, and it satisfies the safety invariant when the image is consistent.
\<close>

section \<open>The loops\<close>

text \<open>The loops of recovery that emplace one record per stored record: everything restored comes from
  the image, and everything the image holds under its own key is restored.\<close>

locale restore_loop =
  fixes proj :: "'s \<Rightarrow> (u64, 'b) std_map" and f :: "u64 \<times> 'a \<Rightarrow> 's \<Rightarrow> 's"
    and key :: "'a \<Rightarrow> u64" and g :: "'s \<Rightarrow> 'a \<Rightarrow> 'b"
  assumes loop: "map_of (proj (f (k, x) s)) j =
    (if j = k \<and> k = key x \<and> map_of (proj s) k = None then Some (g s x) else map_of (proj s) j)"
begin

lemma origin:
  "map_of (proj (fold f kvs s)) j = Some y \<Longrightarrow>
   map_of (proj s) j = Some y \<or> (\<exists>x s'. (j, x) \<in> set kvs \<and> key x = j \<and> y = g s' x)"
proof (induction kvs arbitrary: s)
  case (Cons kv kvs)
  obtain k x where kv: "kv = (k, x)" by force
  have "map_of (proj (f (k, x) s)) j = Some y \<or> (\<exists>x s'. (j, x) \<in> set kvs \<and> key x = j \<and> y = g s' x)"
    using Cons.IH [of "f (k, x) s"] Cons.prems kv by simp
  then show ?case using kv by (auto simp: loop split: if_splits)
qed simp

lemma stays: "map_of (proj s) j = Some y \<Longrightarrow> map_of (proj (fold f kvs s)) j = Some y"
proof (induction kvs arbitrary: s)
  case (Cons kv kvs)
  have "map_of (proj (f kv s)) j = Some y"
    using Cons.prems by (cases kv) (auto simp: loop)
  then show ?case using Cons.IH by simp
qed simp

lemma restored:
  "map_of kvs j = Some x \<Longrightarrow> key x = j \<Longrightarrow> map_of (proj s) j = None \<Longrightarrow>
   \<exists>s'. map_of (proj (fold f kvs s)) j = Some (g s' x)"
proof (induction kvs arbitrary: s)
  case (Cons kv kvs)
  obtain k z where kv: "kv = (k, z)" by force
  show ?case
  proof (cases "k = j")
    case True
    then have "map_of (proj (f kv s)) j = Some (g s x)" using Cons.prems kv by (simp add: loop)
    then show ?thesis using stays by auto
  next
    case False
    then show ?thesis using Cons kv by (simp add: loop)
  qed
qed simp

end

lemma lose_dirty_simps [simp]:
  "obj_id (lose_dirty p msg ob) = obj_id ob" "obj_replicas (lose_dirty p msg ob) = obj_replicas ob"
  "obj_writer (lose_dirty p msg ob) = obj_writer ob" "obj_reads (lose_dirty p msg ob) = obj_reads ob"
  "obj_authority (lose_dirty p msg ob) = obj_authority ob"
  by (simp_all add: lose_dirty_def split: DirtyLossPolicy.split)

lemma restored_object_simps [simp]:
  "obj_id (restored_object e img ob) = obj_id ob"
  "obj_replicas (restored_object e img ob) = obj_replicas ob"
  "obj_writer (restored_object e img ob) = 0" "obj_reads (restored_object e img ob) = []"
  "obj_authority (restored_object e img ob) = AuthorityMode.RevalidationRequired"
  by (simp_all add: restored_object_def classify_dirty_def classify_publication_def
      complete_pending_def abort_publication_def Let_def split: option.split)

definition restored_region :: "engine \<Rightarrow> RegionRecord \<Rightarrow> RegionRecord" where
  "restored_region e stored =
     (let region = downgraded_region (eng_sequence e) stored;
          evidence = fst (make_evidence e EvidenceKind.PersistedMetadata
            (reg_evidence_class region) (reg_participant region) (reg_boot region)
            (reg_object region) (reg_object_generation region) (reg_id region)
            (reg_generation region) (reg_version region) (reg_content region))
      in if terminal_region stored then region
         else region\<lparr>reg_evidence := ev_id evidence, reg_evidence_generation := ev_generation evidence,
           reg_note := note_restored\<rparr>)"

lemma downgraded_region_simps [simp]:
  "reg_id (downgraded_region n r) = reg_id r" "reg_object (downgraded_region n r) = reg_object r"
  "reg_state (downgraded_region n r) \<noteq> CoherenceState.Current"
  by (simp_all add: downgraded_region_def)

lemma restored_region_simps [simp]:
  "reg_id (restored_region e r) = reg_id r" "reg_object (restored_region e r) = reg_object r"
  "reg_state (restored_region e r) \<noteq> CoherenceState.Current"
  by (simp_all add: restored_region_def Let_def)

lemma restored_sync_simps [simp]:
  "sync_id (restored_sync n s) = sync_id s" "sync_object (restored_sync n s) = sync_object s"
  "sync_destination_region (restored_sync n s) = sync_destination_region s"
  by (simp_all add: restored_sync_def)

interpretation obj_loop: restore_loop "\<lambda>s. eng_objects (fst s)" "restore_object img" obj_id
  "\<lambda>s ob. restored_object (fst s) img ob" for img
  by unfold_locales (simp add: restore_object_def Let_def case_prod_beta)

lemma restore_region_regions:
  "eng_regions (fst (restore_region (k, x) (e, report))) =
   (if k \<noteq> reg_id x then eng_regions e else sm_emplace k (restored_region e x) (eng_regions e))"
proof (cases "k = reg_id x")
  case True
  then show ?thesis
    by (cases "terminal_region x")
      (simp_all add: restore_region_def restored_region_def Let_def case_prod_beta)
qed (simp add: restore_region_def)

interpretation reg_loop: restore_loop "\<lambda>s. eng_regions (fst s)" restore_region reg_id
  "\<lambda>s r. restored_region (fst s) r"
proof unfold_locales
  show "map_of (eng_regions (fst (restore_region (k, x) s))) j =
      (if j = k \<and> k = reg_id x \<and> map_of (eng_regions (fst s)) k = None
       then Some (restored_region (fst s) x) else map_of (eng_regions (fst s)) j)" for k x s j
    by (cases s) (simp add: restore_region_regions)
qed

interpretation sync_loop: restore_loop "\<lambda>s. eng_syncs (fst s)" restore_sync sync_id
  "\<lambda>s x. restored_sync (eng_sequence (fst s)) x"
  by unfold_locales (simp add: restore_sync_def Let_def case_prod_beta)

interpretation par_loop: restore_loop "\<lambda>s. eng_participants (fst s)" restore_participant par_id
  "\<lambda>s x. restored_participant x"
  by unfold_locales (simp add: restore_participant_def restored_participant_def Let_def case_prod_beta)

text \<open>A loop leaves the maps it does not fill alone.\<close>

lemma fold_frame: "(\<And>x s. P (f x s) = P s) \<Longrightarrow> P (fold f xs s) = P s"
  by (induction xs arbitrary: s) simp_all

lemmas restore_defs = restore_domain_def restore_participant_def restore_policy_def restore_invalidation_def
  restore_sync_def restore_object_def restore_region_def Let_def case_prod_beta

lemma restore_frames [simp]:
  "eng_objects (fst (fold restore_region rs s)) = eng_objects (fst s)"
  "eng_syncs (fst (fold restore_region rs s)) = eng_syncs (fst s)"
  "eng_participants (fst (fold restore_region rs s)) = eng_participants (fst s)"
  "eng_epoch (fst (fold restore_region rs s)) = eng_epoch (fst s)"
  "eng_regions (fst (fold (restore_object img) obs s)) = eng_regions (fst s)"
  "eng_syncs (fst (fold (restore_object img) obs s)) = eng_syncs (fst s)"
  "eng_participants (fst (fold (restore_object img) obs s)) = eng_participants (fst s)"
  "eng_epoch (fst (fold (restore_object img) obs s)) = eng_epoch (fst s)"
  "eng_regions (fst (fold restore_sync ss s)) = eng_regions (fst s)"
  "eng_objects (fst (fold restore_sync ss s)) = eng_objects (fst s)"
  "eng_participants (fst (fold restore_sync ss s)) = eng_participants (fst s)"
  "eng_epoch (fst (fold restore_sync ss s)) = eng_epoch (fst s)"
  by (rule fold_frame; simp add: restore_defs)+

lemma restore_frames' [simp]:
  "eng_regions (fst (fold restore_invalidation is s)) = eng_regions (fst s)"
  "eng_objects (fst (fold restore_invalidation is s)) = eng_objects (fst s)"
  "eng_syncs (fst (fold restore_invalidation is s)) = eng_syncs (fst s)"
  "eng_participants (fst (fold restore_invalidation is s)) = eng_participants (fst s)"
  "eng_epoch (fst (fold restore_invalidation is s)) = eng_epoch (fst s)"
  "eng_regions (fst (fold restore_policy ps s)) = eng_regions (fst s)"
  "eng_objects (fst (fold restore_policy ps s)) = eng_objects (fst s)"
  "eng_syncs (fst (fold restore_policy ps s)) = eng_syncs (fst s)"
  "eng_participants (fst (fold restore_policy ps s)) = eng_participants (fst s)"
  "eng_epoch (fst (fold restore_policy ps s)) = eng_epoch (fst s)"
  "eng_regions (fst (fold restore_participant qs s)) = eng_regions (fst s)"
  "eng_objects (fst (fold restore_participant qs s)) = eng_objects (fst s)"
  "eng_syncs (fst (fold restore_participant qs s)) = eng_syncs (fst s)"
  "eng_epoch (fst (fold restore_participant qs s)) = eng_epoch (fst s)"
  "eng_regions (fst (fold restore_domain ds s)) = eng_regions (fst s)"
  "eng_objects (fst (fold restore_domain ds s)) = eng_objects (fst s)"
  "eng_syncs (fst (fold restore_domain ds s)) = eng_syncs (fst s)"
  "eng_participants (fst (fold restore_domain ds s)) = eng_participants (fst s)"
  "eng_epoch (fst (fold restore_domain ds s)) = eng_epoch (fst s)"
  by (rule fold_frame; simp add: restore_defs)+

section \<open>The restored engine\<close>

text \<open>A store that an engine may be attached to: the objects of its image list their replicas and
  its synchronizations point at replicas of their object.\<close>

definition image_consistent :: "DurableImage \<Rightarrow> bool" where
  "image_consistent img \<longleftrightarrow>
     (\<forall>(k, r) \<in> set (img_regions img).
        \<exists>ob. map_of (img_objects img) (reg_object r) = Some ob \<and> obj_id ob = reg_object r \<and>
          k \<in> set (obj_replicas ob)) \<and>
     (\<forall>(k, s) \<in> set (img_syncs img).
        \<exists>r. map_of (img_regions img) (sync_destination_region s) = Some r \<and>
          reg_id r = sync_destination_region s \<and> reg_object r = sync_object s)"

definition store_consistent :: "MemoryDurableStore \<Rightarrow> bool" where
  "store_consistent store \<longleftrightarrow>
     (case memory_open store of (Inr (load, img), st) \<Rightarrow> image_consistent img | _ \<Rightarrow> True)"

lemma retotal_frame [simp]:
  "eng_objects (retotal_participant_regions e) = eng_objects e"
  "eng_regions (retotal_participant_regions e) = eng_regions e"
  "eng_syncs (retotal_participant_regions e) = eng_syncs e"
  "eng_epoch (retotal_participant_regions e) = eng_epoch e"
  by (simp_all add: retotal_participant_regions_def)

text \<open>Where the records of the restored engine come from.\<close>

lemma restore_image_objects:
  "\<exists>s. eng_objects (fst (restore_image store load img e)) = eng_objects (fst (fold (restore_object img) (img_objects img) s)) \<and>
     eng_objects (fst s) = []"
  by (simp add: restore_image_def Let_def case_prod_beta cleared_engine_def del: split_paired_Ex)
    (rule exI, rule conjI, rule refl, simp)

lemma restore_image_regions:
  "\<exists>s. eng_regions (fst (restore_image store load img e)) = eng_regions (fst (fold restore_region (img_regions img) s)) \<and>
     eng_regions (fst s) = []"
  by (simp add: restore_image_def Let_def case_prod_beta cleared_engine_def del: split_paired_Ex)
    (rule exI, rule conjI, rule refl, simp)

lemma restore_image_syncs:
  "\<exists>s. eng_syncs (fst (restore_image store load img e)) = eng_syncs (fst (fold restore_sync (img_syncs img) s)) \<and>
     eng_syncs (fst s) = []"
  by (simp add: restore_image_def Let_def case_prod_beta cleared_engine_def del: split_paired_Ex)
    (rule exI, rule conjI, rule refl, simp)

lemma restored_objects:
  assumes "map_of (eng_objects (fst (restore_image store load img e))) k = Some ob"
  obtains x e' where "(k, x) \<in> set (img_objects img)" "obj_id x = k" "ob = restored_object e' img x"
proof -
  obtain s where "eng_objects (fst s) = []"
    "map_of (eng_objects (fst (fold (restore_object img) (img_objects img) s))) k = Some ob"
    using restore_image_objects assms by metis
  then show thesis using obj_loop.origin that by fastforce
qed

lemma restored_regions:
  assumes "map_of (eng_regions (fst (restore_image store load img e))) k = Some r"
  obtains x e' where "(k, x) \<in> set (img_regions img)" "reg_id x = k" "r = restored_region e' x"
proof -
  obtain s where "eng_regions (fst s) = []"
    "map_of (eng_regions (fst (fold restore_region (img_regions img) s))) k = Some r"
    using restore_image_regions assms by metis
  then show thesis using reg_loop.origin that by fastforce
qed

lemma restored_syncs:
  assumes "map_of (eng_syncs (fst (restore_image store load img e))) k = Some y"
  obtains x n where "(k, x) \<in> set (img_syncs img)" "y = restored_sync n x"
proof -
  obtain s where "eng_syncs (fst s) = []"
    "map_of (eng_syncs (fst (fold restore_sync (img_syncs img) s))) k = Some y"
    using restore_image_syncs assms by metis
  then show thesis using sync_loop.origin that by fastforce
qed

lemma restored_object_at:
  assumes "map_of (img_objects img) k = Some ob" "obj_id ob = k"
  shows "\<exists>e'. map_of (eng_objects (fst (restore_image store load img e))) k = Some (restored_object e' img ob)"
proof -
  obtain s where s: "eng_objects (fst s) = []" "eng_objects (fst (restore_image store load img e)) =
      eng_objects (fst (fold (restore_object img) (img_objects img) s))"
    using restore_image_objects by metis
  then show ?thesis using obj_loop.restored [OF assms, of s img] by auto
qed

lemma restored_region_at:
  assumes "map_of (img_regions img) k = Some r" "reg_id r = k"
  shows "\<exists>e'. map_of (eng_regions (fst (restore_image store load img e))) k = Some (restored_region e' r)"
proof -
  obtain s where s: "eng_regions (fst s) = []" "eng_regions (fst (restore_image store load img e)) =
      eng_regions (fst (fold restore_region (img_regions img) s))"
    using restore_image_regions by metis
  then show ?thesis using reg_loop.restored [OF assms, of s] by auto
qed

lemma restore_image_inv:
  assumes "image_consistent img"
  shows "engine_inv (fst (restore_image store load img e))" (is "engine_inv ?e")
  unfolding engine_inv_def
proof (intro conjI allI impI)
  show "object_inv k ob" if "map_of (eng_objects ?e) k = Some ob" for k ob
    by (rule restored_objects [OF that]) (auto simp: object_inv_def authority_ok_def exclusive_def)
  show "region_inv ?e k r" if r: "map_of (eng_regions ?e) k = Some r" for k r
  proof -
    obtain x e' where x: "(k, x) \<in> set (img_regions img)" "reg_id x = k" "r = restored_region e' x"
      by (rule restored_regions [OF r])
    then obtain ob where "map_of (img_objects img) (reg_object x) = Some ob" "obj_id ob = reg_object x"
      "k \<in> set (obj_replicas ob)"
      using assms by (fastforce simp: image_consistent_def)
    then show ?thesis
      using restored_object_at [of img "reg_object x" ob store load e] x by (auto simp: region_inv_def)
  qed
  show "region_placed ?e (sync_destination_region s) (sync_object s)"
    if s: "map_of (eng_syncs ?e) k = Some s" for k s
  proof -
    obtain x n where x: "(k, x) \<in> set (img_syncs img)" "s = restored_sync n x"
      by (rule restored_syncs [OF s])
    then obtain r where "map_of (img_regions img) (sync_destination_region x) = Some r"
      "reg_id r = sync_destination_region x" "reg_object r = sync_object x"
      using assms by (fastforce simp: image_consistent_def)
    then show ?thesis
      using restored_region_at [of img "sync_destination_region x" r store load e] x
      by (auto simp: region_placed_def)
  qed
qed

lemma finish_recovery_frame:
  "eng_objects (snd (finish_recovery img (e, report))) = eng_objects e"
  "eng_regions (snd (finish_recovery img (e, report))) = eng_regions e"
  "eng_syncs (snd (finish_recovery img (e, report))) = eng_syncs e"
  "eng_participants (snd (finish_recovery img (e, report))) = eng_participants e"
  "eng_epoch (snd (finish_recovery img (e, report))) = eng_epoch e"
  by (simp_all add: finish_recovery_def Let_def case_prod_beta)

text \<open>Attaching a store either changes nothing or yields the engine recovered from its image.\<close>

lemma attach_store_cases:
  obtains (Refused) code where "attach_store e (Some store) = (Inl code, e)"
    | (Recovered) load img st where "memory_open store = (Inr (load, img), st)" "eng_objects e = []"
      "eng_regions e = []" "eng_store e = None"
      "attach_store e (Some store) = finish_recovery img (restore_image st load img e)"
proof (cases "memory_open store")
  case (Pair opened st)
  show thesis
  proof (cases "eng_store e \<noteq> None \<or> eng_domains e \<noteq> [] \<or> eng_objects e \<noteq> [] \<or> eng_regions e \<noteq> [] \<or>
      eng_participants e \<noteq> [] \<or> (\<exists>code. opened = Inl code)")
    case True
    then have "\<exists>code. attach_store e (Some store) = (Inl code, e)" using Pair by (auto simp: attach_store_def)
    then show thesis using Refused by blast
  next
    case False
    then obtain load img where "opened = Inr (load, img)" by (cases opened) auto
    then have "attach_store e (Some store) = finish_recovery img (restore_image st load img e)"
      using False Pair by (simp add: attach_store_def)
    then show thesis using \<open>opened = _\<close> False Pair Recovered by simp
  qed
qed

lemma attach_store_inv:
  assumes "engine_inv e" "store_consistent store"
  shows "engine_inv (snd (attach_store e (Some store)))"
proof (cases rule: attach_store_cases [of e store])
  case (Recovered load img st)
  have "engine_inv (fst (restore_image st load img e))"
    using assms(2) Recovered(1) by (intro restore_image_inv) (simp add: store_consistent_def)
  then show ?thesis
    using finish_recovery_frame [of img] Recovered(5)
    by (cases "restore_image st load img e") (auto intro: inv_via)
qed (use assms in simp)

end
