(* ===== verification/Engine_Steps.thy ===== *)
theory Engine_Steps
  imports Engine_Restart
begin

text \<open>
  The engine as a transition system.  Every public operation takes the state lock for its whole
  body, except \<^verbatim>\<open>publish\<close>, which releases it around the durable append: the state of the system is
  the engine and the publications in flight, and the three sections of a publication are separate
  steps that other operations may come between.
\<close>

section \<open>Calls\<close>

text \<open>The public operations that change the engine, with the arguments of the source.\<close>

datatype call =
    CreateDomain string
  | RegisterParticipant string ParticipantBootId CoordinatorEpoch string
  | MarkSessionClosed ParticipantId ParticipantBootId
  | FenceParticipant ParticipantId CoordinatorEpoch string
  | RegisterObject CoherenceDomainId string u64 CoherencePolicy
  | SetPolicy ObjectId ObjectGeneration PolicyGeneration CoherencePolicy
  | RegisterRegion RegionRegistration
  | RetireRegion RegionId RegionGeneration CoordinatorEpoch
  | ResolveRecovery ObjectId ObjectGeneration CoordinatorEpoch string
  | RetireObject ObjectId ObjectGeneration CoordinatorEpoch
  | AcquireRead ReadRequest
  | ExplainRead ReadRequest
  | AcquireWrite WriteRequest
  | MarkDirty DirtyRequest
  | Invalidate InvalidationRequest
  | AcknowledgeInvalidation InvalidationAck
  | RevalidateRegion RevalidateRequest
  | Release ReleaseRequest
  | BeginSync SyncRequest
  | CompleteSync SyncCompleteRequest
  | FailSync SyncFailRequest
  | FlushDurable
  | BeginShutdown CoordinatorEpoch
  | CompleteShutdown CoordinatorEpoch

primrec exec :: "call \<Rightarrow> engine \<Rightarrow> engine" where
  "exec (CreateDomain name) e = snd (create_domain e name)"
| "exec (RegisterParticipant name boot epoch label) e = snd (register_participant e name boot epoch label)"
| "exec (MarkSessionClosed k boot) e = snd (mark_session_closed e k boot)"
| "exec (FenceParticipant k epoch reason) e = snd (fence_participant e k epoch reason)"
| "exec (RegisterObject domain name len policy) e = snd (register_object e domain name len policy)"
| "exec (SetPolicy k g pg policy) e = snd (set_policy e k g pg policy)"
| "exec (RegisterRegion reg) e = snd (register_region e reg)"
| "exec (RetireRegion k g epoch) e = snd (retire_region e k g epoch)"
| "exec (ResolveRecovery k g epoch why) e = snd (resolve_recovery e k g epoch why)"
| "exec (RetireObject k g epoch) e = snd (retire_object e k g epoch)"
| "exec (AcquireRead req) e = snd (acquire_read e req)"
| "exec (ExplainRead req) e = snd (explain_read e req)"
| "exec (AcquireWrite req) e = snd (acquire_write e req)"
| "exec (MarkDirty req) e = snd (mark_dirty e req)"
| "exec (Invalidate req) e = snd (invalidate e req)"
| "exec (AcknowledgeInvalidation ack) e = snd (acknowledge_invalidation e ack)"
| "exec (RevalidateRegion req) e = snd (revalidate_region e req)"
| "exec (Release req) e = snd (release e req)"
| "exec (BeginSync req) e = snd (begin_sync e req)"
| "exec (CompleteSync req) e = snd (complete_sync e req)"
| "exec (FailSync req) e = snd (fail_sync e req)"
| "exec FlushDurable e = snd (flush_durable e)"
| "exec (BeginShutdown epoch) e = snd (begin_shutdown e epoch)"
| "exec (CompleteShutdown epoch) e = snd (complete_shutdown e epoch)"

section \<open>The transition system\<close>

text \<open>A publication in flight is its ticket and, once the durable append was attempted, its result.\<close>

type_synonym flight = "PublishTicket \<times> StatusCode option"

record system =
  sys_engine :: engine
  sys_flights :: "flight list"

inductive step :: "system \<Rightarrow> system \<Rightarrow> bool" where
  Call: "step s (s\<lparr>sys_engine := exec c (sys_engine s)\<rparr>)"
| Attach: "store_consistent store \<Longrightarrow>
    step s (s\<lparr>sys_engine := snd (attach_store (sys_engine s) (Some store))\<rparr>)"
| Answered: "publish_reserve (sys_engine s) req = (Done result, e) \<Longrightarrow> step s (s\<lparr>sys_engine := e\<rparr>)"
| Reserve: "publish_reserve (sys_engine s) req = (Reserved t, e) \<Longrightarrow>
    step s (s\<lparr>sys_engine := e, sys_flights := (t, None) # sys_flights s\<rparr>)"
| Persist: "sys_flights s = xs @ (t, None) # ys \<Longrightarrow> publish_persist (sys_engine s) t = (code, e) \<Longrightarrow>
    step s (s\<lparr>sys_engine := e, sys_flights := xs @ (t, Some code) # ys\<rparr>)"
| Commit: "sys_flights s = xs @ (t, Some code) # ys \<Longrightarrow> publish_commit (sys_engine s) t code = (result, e) \<Longrightarrow>
    step s (s\<lparr>sys_engine := e, sys_flights := xs @ ys\<rparr>)"

inductive reachable :: "EngineConfig \<Rightarrow> system \<Rightarrow> bool" for config where
  Start: "reachable config \<lparr>sys_engine = new_engine config, sys_flights = []\<rparr>"
| Step: "reachable config s \<Longrightarrow> step s s' \<Longrightarrow> reachable config s'"

section \<open>What one step does\<close>

lemma exec_effect:
  assumes inv: "engine_inv e"
  obtains k where "certifies k e (exec c e)"
proof (cases "\<exists>req. c = CompleteSync req")
  case True
  then obtain req where "c = CompleteSync req" by blast
  then show thesis using certifies_complete_sync [OF inv, of req] that by auto
next
  case False
  have "\<exists>k. certifies k e (exec c e)"
  proof (cases c)
    case (RevalidateRegion req)
    then show ?thesis using certifies_revalidate [OF inv] by auto
  next
    case FlushDurable
    then show ?thesis by (auto simp: flush_durable_def Let_def split: option.split intro!: certifies_calm calm_same)
  qed (use False inv in \<open>auto intro!: certifies_calm calm_create_domain calm_register_participant
      calm_mark_session_closed calm_fence_participant calm_register_object calm_set_policy
      calm_register_region calm_retire_region calm_resolve_recovery calm_retire_object calm_acquire_read
      calm_explain_read calm_acquire_write calm_mark_dirty calm_invalidate calm_acknowledge calm_release
      calm_begin_sync calm_fail_sync calm_begin_shutdown calm_complete_shutdown\<close>)
  then show thesis using that by blast
qed

text \<open>A ticket names a replica of its object, and the version after the one it is based on.\<close>

definition flight_ok :: "engine \<Rightarrow> PublishTicket \<Rightarrow> bool" where
  "flight_ok e t \<longleftrightarrow>
     region_placed e (preq_region (tk_request t)) (pend_object (tk_pending t)) \<and>
     pend_version (tk_pending t) = pend_prior_version (tk_pending t) + 1"

definition system_inv :: "system \<Rightarrow> bool" where
  "system_inv s \<longleftrightarrow> engine_inv (sys_engine s) \<and> (\<forall>(t, code) \<in> set (sys_flights s). flight_ok (sys_engine s) t)"

lemma resolve_region_refuses: "resolve_region_locked e ob k g \<noteq> Inl StatusCode.Ok"
  by (auto simp: resolve_region_locked_def split: option.split)

lemma publish_guard_ok:
  "publish_guard e req policy ob = StatusCode.Ok \<Longrightarrow> region_placed e (preq_region req) (obj_id ob)"
  by (auto simp: publish_guard_def Let_def region_placed_def resolve_region_ok resolve_region_refuses
      split: if_splits sum.splits)

lemma reserve_flight_ok:
  assumes "publish_reserve e req = (Reserved t, e')"
  shows "flight_ok e' t"
proof -
  have calm: "calm e e'" using calm_publish_reserve [of e req] assms by simp
  obtain e1 policy ob p receipt e2 where "publish_guard e1 req policy ob = StatusCode.Ok"
    "eng_regions e1 = eng_regions e" "t = fst (reserve_publication req policy ob p receipt e2)"
    using assms
    by (auto simp: publish_reserve_def Let_def case_prod_beta split: if_splits option.splits)
  then have "region_placed e (preq_region req) (obj_id ob)" "tk_request t = req"
    "pend_object (tk_pending t) = obj_id ob"
    "pend_version (tk_pending t) = pend_prior_version (tk_pending t) + 1"
    using publish_guard_ok [of e1 req policy ob]
    by (simp_all add: reserve_publication_def pending_record_def next_id_def Let_def region_placed_def)
  then show ?thesis using calm_region_placed [OF calm] by (simp add: flight_ok_def)
qed

text \<open>Every step is quiet for the live state, certifies one replica, advances one object by one version,
  or recovers an engine that had no object.\<close>

lemma step_effect:
  assumes inv: "system_inv s" and step: "step s s'"
  obtains (Certify) k where "certifies k (sys_engine s) (sys_engine s')"
    | (Advance) x k ob where "map_of (eng_objects (sys_engine s)) k = Some ob"
      "advances x k (obj_authoritative_version ob + 1) (sys_engine s) (sys_engine s')"
    | (Recover) store load img st where "store_consistent store" "memory_open store = (Inr (load, img), st)"
      "eng_objects (sys_engine s) = []" "eng_regions (sys_engine s) = []"
      "sys_engine s' = snd (finish_recovery img (restore_image st load img (sys_engine s)))"
      "sys_flights s' = sys_flights s"
proof -
  have e: "engine_inv (sys_engine s)" using inv by (simp add: system_inv_def)
  show thesis
    using step
  proof cases
    case (Call c)
    then show thesis using exec_effect [OF e, of c] that(1) by auto
  next
    case (Attach store)
    show thesis
    proof (cases rule: attach_store_cases [of "sys_engine s" store])
      case (Refused code)
      then show thesis using Attach that(1) certifies_calm [OF calm.refl] by simp
    next
      case (Recovered load img st)
      then show thesis using Attach that(3) by simp
    qed
  next
    case (Answered req result e')
    then show thesis using calm_publish_reserve [of "sys_engine s" req] that(1) [OF certifies_calm] by simp
  next
    case (Reserve req t e')
    then show thesis using calm_publish_reserve [of "sys_engine s" req] that(1) [OF certifies_calm] by simp
  next
    case (Persist xs t ys code e')
    then show thesis using calm_publish_persist [of "sys_engine s" t] that(1) [OF certifies_calm] by simp
  next
    case (Commit xs t code ys result e')
    then have t: "flight_ok (sys_engine s) t" using inv by (simp add: system_inv_def)
    then have placed: "region_placed (sys_engine s) (preq_region (tk_request t)) (pend_object (tk_pending t))"
      by (simp add: flight_ok_def)
    show thesis
    proof (cases rule: publish_commit_effect [OF e placed, where code = code])
      case 1
      then show thesis using Commit that(1) [OF certifies_calm] by simp
    next
      case (2 ob)
      then show thesis using Commit t that(2) by (simp add: reservation_valid_def flight_ok_def)
    qed
  qed
qed

lemma step_placed:
  assumes inv: "system_inv s" and step: "step s s'" and placed: "region_placed (sys_engine s) j obj"
  shows "region_placed (sys_engine s') j obj"
  using inv step
proof (cases rule: step_effect)
  case (Recover store load img st)
  then show ?thesis using placed by (simp add: region_placed_def)
qed (use placed certifies_placed advances_placed in blast)+

lemma step_engine_inv:
  assumes inv: "system_inv s" and step: "step s s'"
  shows "engine_inv (sys_engine s')"
proof -
  have e: "engine_inv (sys_engine s)" using inv by (simp add: system_inv_def)
  show ?thesis
    using inv step
  proof (cases rule: step_effect)
    case (Recover store load img st)
    have "engine_inv (fst (restore_image st load img (sys_engine s)))"
      using Recover(1,2) by (intro restore_image_inv) (simp add: store_consistent_def)
    then show ?thesis
      using finish_recovery_frame [of img] Recover(5)
      by (cases "restore_image st load img (sys_engine s)") (auto intro: inv_via)
  qed (use e certifies_inv advances_inv in blast)+
qed

lemma step_flights:
  assumes "step s s'" "(t, code) \<in> set (sys_flights s')"
  shows "(\<exists>code. (t, code) \<in> set (sys_flights s)) \<or> flight_ok (sys_engine s') t"
  using assms by cases (auto dest: reserve_flight_ok)

lemma step_system_inv:
  assumes inv: "system_inv s" and step: "step s s'"
  shows "system_inv s'"
proof -
  have "flight_ok (sys_engine s') t" if "(t, code) \<in> set (sys_flights s')" for t code
    using step_flights [OF step that] inv step_placed [OF inv step]
    by (fastforce simp: system_inv_def flight_ok_def)
  then show ?thesis using step_engine_inv [OF inv step] by (auto simp: system_inv_def)
qed

lemma reachable_inv: "reachable config s \<Longrightarrow> system_inv s"
proof (induction rule: reachable.induct)
  case Start
  then show ?case by (simp add: system_inv_def)
qed (rule step_system_inv)

lemma reachable_engine_inv: "reachable config s \<Longrightarrow> engine_inv (sys_engine s)"
  using reachable_inv by (auto simp: system_inv_def)

text \<open>Versions: an object persists, and only the commit of a standing reservation moves its version.\<close>

lemma certifies_version:
  assumes "certifies j e e'" "map_of (eng_objects e) k = Some ob"
  shows "\<exists>ob'. map_of (eng_objects e') k = Some ob' \<and> obj_authoritative_version ob' = obj_authoritative_version ob"
  using assms calm_object by (fastforce simp: certifies_def refreshes_def object_kept_def)

lemma advances_version:
  assumes "advances x j v e e'" "map_of (eng_objects e) k = Some ob"
  shows "\<exists>ob'. map_of (eng_objects e') k = Some ob' \<and>
    obj_authoritative_version ob' = (if k = j then v else obj_authoritative_version ob)"
  using assms by (auto simp: advances_def)

lemma publish_commit_version:
  assumes inv: "engine_inv e" and t: "flight_ok e t" and ob: "map_of (eng_objects e) k = Some ob"
  shows "\<exists>ob'. map_of (eng_objects (snd (publish_commit e t code))) k = Some ob' \<and>
     (obj_authoritative_version ob' = obj_authoritative_version ob \<or>
      obj_authoritative_version ob' = obj_authoritative_version ob + 1 \<and>
      pend_object (tk_pending t) = k \<and> reservation_valid t ob \<and> code = StatusCode.Ok)"
proof -
  have placed: "region_placed e (preq_region (tk_request t)) (pend_object (tk_pending t))"
    using t by (simp add: flight_ok_def)
  show ?thesis
  proof (cases rule: publish_commit_effect [OF inv placed, where code = code])
    case 1
    then show ?thesis using certifies_version [OF certifies_calm ob] by blast
  next
    case (2 ob1)
    then show ?thesis
      using advances_version [OF 2(4) ob] t ob
      by (cases "k = pend_object (tk_pending t)") (auto simp: flight_ok_def reservation_valid_def)
  qed
qed

lemma step_version:
  assumes inv: "system_inv s" and step: "step s s'" and ob: "map_of (eng_objects (sys_engine s)) k = Some ob"
  shows "\<exists>ob'. map_of (eng_objects (sys_engine s')) k = Some ob' \<and>
     (obj_authoritative_version ob' = obj_authoritative_version ob \<or>
      obj_authoritative_version ob' = obj_authoritative_version ob + 1 \<and>
      (\<exists>t. (t, Some StatusCode.Ok) \<in> set (sys_flights s) \<and> pend_object (tk_pending t) = k \<and>
         reservation_valid t ob \<and> sys_engine s' = snd (publish_commit (sys_engine s) t StatusCode.Ok)))"
proof -
  have e: "engine_inv (sys_engine s)" using inv by (simp add: system_inv_def)
  have quiet: ?thesis if "certifies j (sys_engine s) (sys_engine s')" for j
    using certifies_version [OF that ob] by blast
  show ?thesis
    using step
  proof cases
    case (Call c)
    then show ?thesis using exec_effect [OF e, of c] quiet by auto
  next
    case (Attach store)
    show ?thesis
    proof (cases rule: attach_store_cases [of "sys_engine s" store])
      case (Refused code)
      then show ?thesis using Attach ob by simp
    next
      case (Recovered load img st)
      then show ?thesis using ob by simp
    qed
  next
    case (Answered req result e')
    then show ?thesis using calm_publish_reserve [of "sys_engine s" req] quiet [OF certifies_calm] by simp
  next
    case (Reserve req t e')
    then show ?thesis using calm_publish_reserve [of "sys_engine s" req] quiet [OF certifies_calm] by simp
  next
    case (Persist xs t ys code e')
    then show ?thesis using calm_publish_persist [of "sys_engine s" t] quiet [OF certifies_calm] by simp
  next
    case (Commit xs t code ys result e')
    then have "flight_ok (sys_engine s) t" using inv by (simp add: system_inv_def)
    then obtain ob' where "map_of (eng_objects e') k = Some ob'"
      "obj_authoritative_version ob' = obj_authoritative_version ob \<or>
       obj_authoritative_version ob' = obj_authoritative_version ob + 1 \<and>
       pend_object (tk_pending t) = k \<and> reservation_valid t ob \<and> code = StatusCode.Ok"
      using publish_commit_version [OF e _ ob, of t code] Commit by auto
    moreover have "e' = snd (publish_commit (sys_engine s) t code)" using Commit by simp
    ultimately show ?thesis using Commit(1,2) by auto
  qed
qed

text \<open>Runs of calls, and the uninterrupted publication as three steps.\<close>

lemma reachable_calls:
  "reachable config s \<Longrightarrow> reachable config (s\<lparr>sys_engine := fold exec cs (sys_engine s)\<rparr>)"
proof (induction cs arbitrary: s)
  case (Cons c cs)
  have "reachable config (s\<lparr>sys_engine := exec c (sys_engine s)\<rparr>)"
    using Cons.prems step.Call by (rule reachable.Step)
  then show ?case using Cons.IH by fastforce
qed simp

lemma reachable_publish:
  assumes "reachable config s"
  shows "reachable config (s\<lparr>sys_engine := snd (publish (sys_engine s) req)\<rparr>)"
proof (cases "publish_reserve (sys_engine s) req")
  case (Pair outcome e1)
  show ?thesis
  proof (cases outcome)
    case (Done result)
    then show ?thesis
      using reachable.Step [OF assms step.Answered] Pair by (simp add: publish_def)
  next
    case (Reserved t)
    obtain code e2 where e2: "publish_persist e1 t = (code, e2)" by force
    obtain result e3 where e3: "publish_commit e2 t code = (result, e3)" by force
    let ?s1 = "s\<lparr>sys_engine := e1, sys_flights := (t, None) # sys_flights s\<rparr>"
    let ?s2 = "s\<lparr>sys_engine := e2, sys_flights := (t, Some code) # sys_flights s\<rparr>"
    have "step s ?s1" using step.Reserve [of s req t e1] Pair Reserved by simp
    moreover have "step ?s1 ?s2"
      using step.Persist [of ?s1 "[]" t "sys_flights s" code e2] e2 by simp
    moreover have "step ?s2 (s\<lparr>sys_engine := e3\<rparr>)"
      using step.Commit [of ?s2 "[]" t code "sys_flights s" result e3] e3 by simp
    ultimately have "reachable config (s\<lparr>sys_engine := e3\<rparr>)"
      using assms reachable.Step by blast
    then show ?thesis using Pair Reserved e2 e3 by (simp add: publish_def)
  qed
qed

end
