(* ===== verification/Protocol.thy ===== *)
theory Protocol
  imports Engine_Steps
begin

text \<open>
  The abstract coherence protocol and the proof that the engine refines it.  Of an object the
  protocol knows its version and the set of replicas that are current; a replica can lose
  currentness at any time, be certified at the version of its object, or publish the next version,
  which makes it the only current one.
\<close>

section \<open>The abstract protocol\<close>

type_synonym abstract = "ObjectId \<rightharpoonup> VersionId \<times> RegionId set"

text \<open>What may happen to an object while nothing is certified or published: it may be created at
  version 0, and its replicas may cease to be current.\<close>

definition quiet :: "abstract \<Rightarrow> abstract \<Rightarrow> bool" where
  "quiet \<sigma> \<sigma>' \<longleftrightarrow> (\<forall>k. case \<sigma> k of
       None \<Rightarrow> \<sigma>' k = None \<or> \<sigma>' k = Some (0, {})
     | Some (v, C) \<Rightarrow> \<exists>C'. C' \<subseteq> C \<and> \<sigma>' k = Some (v, C'))"

inductive protocol_step :: "abstract \<Rightarrow> abstract \<Rightarrow> bool" where
  Quiet: "quiet \<sigma> \<sigma>' \<Longrightarrow> protocol_step \<sigma> \<sigma>'"
| Certify: "\<sigma> k = Some (v, C) \<Longrightarrow> protocol_step \<sigma> (\<sigma>(k \<mapsto> (v, insert r C)))"
| Publish: "\<sigma> k = Some (v, C) \<Longrightarrow> protocol_step \<sigma> (\<sigma>(k \<mapsto> (v + 1, {r})))"
| Restart: "\<sigma> = Map.empty \<Longrightarrow> (\<And>k v C. \<sigma>' k = Some (v, C) \<Longrightarrow> C = {}) \<Longrightarrow> protocol_step \<sigma> \<sigma>'"

section \<open>The abstraction of an engine\<close>

definition currents :: "engine \<Rightarrow> ObjectId \<Rightarrow> RegionId set" where
  "currents e k = {j. \<exists>r. map_of (eng_regions e) j = Some r \<and> reg_object r = k \<and> reg_state r = CoherenceState.Current}"

definition abstraction :: "engine \<Rightarrow> abstract" where
  "abstraction e k = map_option (\<lambda>ob. (obj_authoritative_version ob, currents e k)) (map_of (eng_objects e) k)"

lemma calm_currents:
  assumes "calm e e'"
  shows "currents e' k \<subseteq> currents e k"
proof
  fix j assume "j \<in> currents e' k"
  then obtain r' where r': "map_of (eng_regions e') j = Some r'" "reg_object r' = k"
    "reg_state r' = CoherenceState.Current"
    by (auto simp: currents_def)
  show "j \<in> currents e k"
  proof (cases "map_of (eng_regions e) j")
    case None
    then show ?thesis using assms r' by (auto simp: calm_def region_new_def)
  next
    case (Some r)
    then show ?thesis
      using calm_region [OF assms Some] r' by (auto simp: currents_def region_kept_def)
  qed
qed

lemma calm_quiet:
  assumes calm: "calm e e'" and inv: "engine_inv e"
  shows "quiet (abstraction e) (abstraction e')"
  unfolding quiet_def
proof (intro allI)
  fix k
  show "case abstraction e k of None \<Rightarrow> abstraction e' k = None \<or> abstraction e' k = Some (0, {})
     | Some (v, C) \<Rightarrow> \<exists>C'. C' \<subseteq> C \<and> abstraction e' k = Some (v, C')"
  proof (cases "map_of (eng_objects e) k")
    case None
    have "currents e k = {}"
      using None inv_region [OF inv] by (fastforce simp: currents_def region_inv_def)
    then show ?thesis
      using None calm calm_currents [OF calm, of k]
      by (auto simp: abstraction_def calm_def object_new_def)
  next
    case (Some ob)
    then show ?thesis
      using calm_object [OF calm Some] calm_currents [OF calm, of k]
      by (auto simp: abstraction_def object_kept_def)
  qed
qed

lemma refreshes_certify:
  assumes inv: "engine_inv e" and fresh: "refreshes e k e'"
  shows "protocol_step (abstraction e) (abstraction e')"
proof -
  obtain r r' where r: "map_of (eng_regions e) k = Some r"
    "map_of (eng_regions e') = (map_of (eng_regions e))(k \<mapsto> r')" "reg_object r' = reg_object r"
    "reg_state r' = CoherenceState.Current" "eng_objects e' = eng_objects e"
    using fresh by (auto simp: refreshes_def)
  obtain ob where ob: "map_of (eng_objects e) (reg_object r) = Some ob"
    using inv_region [OF inv r(1)] by (auto simp: region_inv_def)
  have cur: "currents e' j = (if j = reg_object r then insert k (currents e j) else currents e j)" for j
    using r by (auto simp: currents_def split: if_splits)
  have "abstraction e' = (abstraction e)(reg_object r \<mapsto>
      (obj_authoritative_version ob, insert k (currents e (reg_object r))))"
    using ob r(5) by (auto simp: abstraction_def cur)
  moreover have "abstraction e (reg_object r) = Some (obj_authoritative_version ob, currents e (reg_object r))"
    using ob by (simp add: abstraction_def)
  ultimately show ?thesis using protocol_step.Certify by metis
qed

lemma advances_publish:
  assumes inv: "engine_inv e" and ob: "map_of (eng_objects e) k = Some ob"
    and adv: "advances x k (obj_authoritative_version ob + 1) e e'"
  shows "\<exists>\<sigma>. protocol_step (abstraction e) \<sigma> \<and> quiet \<sigma> (abstraction e')"
proof (intro exI conjI)
  let ?v = "obj_authoritative_version ob + 1"
  show "protocol_step (abstraction e) ((abstraction e)(k \<mapsto> (?v, {x})))"
    by (rule protocol_step.Publish [where C = "currents e k"]) (simp add: abstraction_def ob)
  obtain ob' where e': "map_of (eng_objects e') = (map_of (eng_objects e))(k \<mapsto> ob')"
    "obj_authoritative_version ob' = ?v"
    "\<And>j. j \<noteq> x \<Longrightarrow> map_of (eng_regions e') j =
       (if j \<in> set (obj_replicas ob) then map_option (staled ?v) (map_of (eng_regions e) j)
        else map_of (eng_regions e) j)"
    using adv ob by (auto simp: advances_def)
  have sub: "currents e' j \<subseteq> (if j = k then {x} else currents e j)" for j
  proof
    fix i assume "i \<in> currents e' j"
    then obtain r' where r': "map_of (eng_regions e') i = Some r'" "reg_object r' = j"
      "reg_state r' = CoherenceState.Current"
      by (auto simp: currents_def)
    show "i \<in> (if j = k then {x} else currents e j)"
    proof (cases "i = x")
      case True
      then show ?thesis using r' adv by (auto simp: advances_def)
    next
      case False
      have "map_option (staled ?v) (map_of (eng_regions e) i) \<noteq> Some r'"
        using r'(3) staled_object by fastforce
      then have "i \<notin> set (obj_replicas ob)" "map_of (eng_regions e) i = Some r'"
        using e'(3) [OF False] r'(1) by metis+
      then show ?thesis
        using inv_region [OF inv, of i r'] r' ob by (auto simp: region_inv_def currents_def)
    qed
  qed
  show "quiet ((abstraction e)(k \<mapsto> (?v, {x}))) (abstraction e')"
    unfolding quiet_def
  proof (intro allI)
    show "case ((abstraction e)(k \<mapsto> (?v, {x}))) j of
        None \<Rightarrow> abstraction e' j = None \<or> abstraction e' j = Some (0, {})
      | Some (v, C) \<Rightarrow> \<exists>C'. C' \<subseteq> C \<and> abstraction e' j = Some (v, C')" for j
      using sub [of j] e'(1,2) by (cases "j = k") (auto simp: abstraction_def split: option.split)
  qed
qed

lemma recovery_restart:
  assumes "eng_objects e = []"
  shows "protocol_step (abstraction e) (abstraction (snd (finish_recovery img (restore_image st load img e))))"
proof (rule protocol_step.Restart)
  show "abstraction e = Map.empty" using assms by (auto simp: abstraction_def)
  have "currents (fst (restore_image st load img e)) k = {}" for k
    by (auto simp: currents_def elim!: restored_regions)
  then have "currents (snd (finish_recovery img (restore_image st load img e))) k = {}" for k
    using finish_recovery_frame(2) [of img "fst (restore_image st load img e)" "snd (restore_image st load img e)"]
    by (simp add: currents_def)
  then show "C = {}"
    if "abstraction (snd (finish_recovery img (restore_image st load img e))) k = Some (v, C)" for k v C
    using that by (auto simp: abstraction_def)
qed

lemma system_refines:
  assumes inv: "system_inv s" and step: "step s s'"
  shows "protocol_step\<^sup>*\<^sup>* (abstraction (sys_engine s)) (abstraction (sys_engine s'))"
proof -
  have e: "engine_inv (sys_engine s)" using inv by (simp add: system_inv_def)
  show ?thesis
    using inv step
  proof (cases rule: step_effect)
    case (Certify k)
    then show ?thesis
      using calm_quiet [OF _ e] refreshes_certify [OF e] protocol_step.Quiet
      by (auto simp: certifies_def)
  next
    case (Advance x k ob)
    then obtain \<sigma> where "protocol_step (abstraction (sys_engine s)) \<sigma>" "quiet \<sigma> (abstraction (sys_engine s'))"
      using advances_publish [OF e] by blast
    then show ?thesis using protocol_step.Quiet by (meson converse_rtranclp_into_rtranclp r_into_rtranclp)
  next
    case (Recover store load img st)
    show ?thesis unfolding Recover(5) by (intro r_into_rtranclp recovery_restart Recover(3))
  qed
qed

section \<open>Consequences of the protocol\<close>

text \<open>Along any run the version of an object is reached by counting up, and nothing is certified at a
  version that was never published.\<close>

lemma quiet_version: "quiet \<sigma> \<sigma>' \<Longrightarrow> \<sigma> k = Some (v, C) \<Longrightarrow> \<exists>C'. C' \<subseteq> C \<and> \<sigma>' k = Some (v, C')"
  by (auto simp: quiet_def split: option.splits prod.splits dest!: spec [of _ k])

lemma protocol_step_version:
  "protocol_step \<sigma> \<sigma>' \<Longrightarrow> \<sigma> k = Some (v, C) \<Longrightarrow> \<exists>v' C'. \<sigma>' k = Some (v', C') \<and>
     (v' = v \<or> v' = v + 1 \<and> (\<exists>r. C' = {r}))"
  by (cases rule: protocol_step.cases) (auto dest: quiet_version)

end
