(* ===== verification/Engine_Contracts.thy ===== *)
theory Engine_Contracts
  imports Engine_Steps
begin

text \<open>
  What single operations promise: when a read may be served, when write authority is handed out,
  that stale requests change nothing, and how publications that race resolve.
\<close>

section \<open>Reads\<close>

lemma decide_read_outcome: "fst (decide_read out code d e) = Inr d' \<Longrightarrow> rd_outcome d' = out \<and> rd_region d' = rd_region d"
  by (auto simp: decide_read_def)

lemma describe_region_simps [simp]:
  "rd_region (describe_region e policy r d) = rd_region d"
  "rd_authoritative_version (describe_region e policy r d) = rd_authoritative_version d"
  by (simp_all add: describe_region_def Let_def)

lemma read_current_region:
  "fst (read_current lease req ob r d e) = Inr d' \<Longrightarrow> rd_region d' = rd_region d"
  by (auto simp: read_current_def Let_def decide_read_def split: if_splits option.splits)

lemma read_not_current_outcome:
  "fst (read_not_current req ob r f d e) = Inr d' \<Longrightarrow> rd_outcome d' \<noteq> ReadOutcome.ReadCurrent"
  by (auto simp: read_not_current_def Let_def case_prod_beta decide_read_def split: if_splits)

lemma read_region_current:
  assumes "fst (read_region lease req policy ob r d e) = Inr d'" "rd_outcome d' = ReadOutcome.ReadCurrent"
    "pol_consistency policy \<noteq> ConsistencyModel.Snapshot"
  shows "reg_state r = CoherenceState.Current \<and> rd_region d' = rd_region d \<and>
    (rd_authoritative_version d \<noteq> 0 \<longrightarrow> reg_version r = rd_authoritative_version d) \<and>
    fresh (assess_region_locked e policy r)"
  using assms read_current_region [of lease req ob r _ e d'] read_not_current_outcome [of req ob r _ _ e d']
  by (auto simp: read_region_def Let_def is_current_state_def decide_read_def split: if_splits)

lemma select_read_region_object:
  "obj_id (snd (select_read_region e ob k)) = obj_id ob"
  "obj_authoritative_version (snd (select_read_region e ob k)) = obj_authoritative_version ob"
  "obj_policy (snd (select_read_region e ob k)) = obj_policy ob"
  by (simp_all add: select_read_region_def Let_def)

lemma assess_region_put_object [simp]:
  "assess_region_locked (put_object k ob e) policy r = assess_region_locked e policy r"
  by (simp add: assess_region_locked_def region_evidence_def region_evidence_context_def put_object_def)

lemma compute_read_current:
  assumes read: "fst (compute_read_locked e req lease) = Inr d" "rd_outcome d = ReadOutcome.ReadCurrent"
    and strict: "\<And>ob policy. map_of (eng_objects e) (actx_object (rreq_context req)) = Some ob \<Longrightarrow>
      policy_locked e ob = Some policy \<Longrightarrow> pol_consistency policy \<noteq> ConsistencyModel.Snapshot"
  shows "\<exists>ob r policy e1. fst (resolve_locked e (rreq_context req)) = StatusCode.Ok \<and>
     map_of (eng_objects e) (actx_object (rreq_context req)) = Some ob \<and>
     map_of (eng_regions e) (rd_region d) = Some r \<and> reg_object r = obj_id ob \<and>
     reg_state r = CoherenceState.Current \<and> obj_authoritative_version ob \<noteq> 0 \<and>
     reg_version r = obj_authoritative_version ob \<and> policy_locked e ob = Some policy \<and>
     fresh (assess_region_locked e1 policy r) \<and> eng_epoch e1 = eng_epoch e \<and>
     eng_participants e1 = eng_participants e"
proof (cases e "rreq_context req" rule: resolve_cases)
  case (Refused code found q)
  then show ?thesis
    using read by (auto simp: compute_read_locked_def Let_def case_prod_beta decide_read_def split: if_splits)
next
  case (Ok ob p)
  let ?ctx = "rreq_context req"
  define e0 where "e0 = snd (make_context e ?ctx (actx_object ?ctx) (actx_object_generation ?ctx) (obj_ownership_generation ob))"
  have e0: "eng_regions e0 = eng_regions e" "eng_policies e0 = eng_policies e" "eng_epoch e0 = eng_epoch e"
    "eng_participants e0 = eng_participants e"
    by (simp_all add: e0_def)
  obtain policy where policy: "policy_locked e0 ob = Some policy"
    using Ok read by (auto simp: compute_read_locked_def Let_def case_prod_beta e0_def split: option.splits)
  obtain k ob1 where sel: "select_read_region e0 ob (rreq_region req) = (k, ob1)" by force
  have ob1: "obj_id ob1 = obj_id ob" "obj_authoritative_version ob1 = obj_authoritative_version ob"
    using select_read_region_object [of e0 ob "rreq_region req"] sel by simp_all
  let ?e1 = "put_object (actx_object ?ctx) ob1 e0"
  obtain r d0 where r: "resolve_region_locked ?e1 ob1 k (rreq_region_generation req) = Inr r"
    "fst (read_region lease req policy ob1 r d0 ?e1) = Inr d" "rd_region d0 = k"
    "rd_authoritative_version d0 = obj_authoritative_version ob" "obj_authoritative_version ob \<noteq> 0"
    using Ok read policy sel ob1
    by (auto simp: compute_read_locked_def Let_def case_prod_beta decide_read_def e0_def [symmetric]
        split: if_splits sum.splits)
  have strict': "pol_consistency policy \<noteq> ConsistencyModel.Snapshot"
    using strict Ok policy e0 by (simp add: policy_locked_def)
  have cur: "reg_state r = CoherenceState.Current" "rd_region d = k"
    "reg_version r = obj_authoritative_version ob" "fresh (assess_region_locked e0 policy r)"
    using read_region_current [OF r(2) read(2) strict'] r by simp_all
  moreover have "map_of (eng_regions e) k = Some r" "reg_object r = obj_id ob"
    using r(1) e0 ob1 by (simp_all add: resolve_region_ok)
  ultimately show ?thesis
    using Ok policy e0 r(5) by (auto simp: policy_locked_def)
qed

lemma fresh_region:
  assumes "fresh (assess_region_locked e policy r)"
  shows "reg_evidence r \<noteq> 0 \<and> reg_boot r \<noteq> 0 \<and>
    (\<exists>p. map_of (eng_participants e) (reg_participant r) = Some p \<and> par_boot p = reg_boot r)"
proof -
  have supports: "evidence_supports (region_evidence e r) (region_evidence_context e policy r)"
    using assms by (simp add: assess_region_locked_def fresh_iff_supports)
  then have "reg_evidence r \<noteq> 0"
    by (auto simp: evidence_supports_def region_evidence_def default_evidence_def)
  then show ?thesis
    using supports by (auto simp: evidence_supports_def region_evidence_def region_evidence_context_def
        split: option.splits)
qed

section \<open>Write authority\<close>

lemma answer_write_grant:
  "fst (answer_write code g e) = Inr g' \<Longrightarrow> wg_granted g' = wg_granted g \<and> wg_may_mutate_now g' = wg_may_mutate_now g"
  by (auto simp: answer_write_def)

lemma answer_write_frame [simp]: "eng_objects (snd (answer_write code g e)) = eng_objects e"
  by (simp add: answer_write_def)

lemma register_transfer_objects [simp]: "eng_objects (register_transfer_invalidation iv e) = eng_objects e"
  by (simp add: register_transfer_invalidation_def Let_def split: option.split)

lemma register_transfers_objects [simp]: "eng_objects (fold register_transfer_invalidation ivs e) = eng_objects e"
  by (induction ivs arbitrary: e) simp_all

text \<open>What an object looks like to its new writer.\<close>

definition writes_alone :: "AuthorityContext \<Rightarrow> bool \<Rightarrow> ObjectRecord \<Rightarrow> bool" where
  "writes_alone ctx now ob \<longleftrightarrow> holds_write_authority ob ctx \<and> (\<forall>g \<in> set (obj_reads ob). grant_released g) \<and>
     obj_authority ob = (if now then AuthorityMode.ExclusiveWriter else AuthorityMode.TransferPending)"

lemma reserve_write_grant:
  assumes "reserve_write req policy ob p g e = (Inr g', e')" "wg_granted g'" "\<not> wg_granted g"
    "par_boot p = actx_boot (wreq_context req)"
  shows "\<exists>ob'. map_of (eng_objects e') (actx_object (wreq_context req)) = Some ob' \<and>
    writes_alone (wreq_context req) (wg_may_mutate_now g') ob' \<and>
    obj_ownership_generation ob' = obj_ownership_generation ob + 1 \<and>
    obj_authoritative_version ob' = obj_authoritative_version ob"
proof -
  define regions where "regions = superseded_replicas e ob (wg_writer_region g)"
  define ob1 where "ob1 = reserved_object (eng_sequence (tick e)) (actx_participant (wreq_context req)) (par_boot p)
    (regions = []) ob"
  define required where "required = transfer_invalidations (tick e) ob1 (eng_next_invalidation_id (tick e)) regions"
  define ob2 where "ob2 = ob1\<lparr>obj_outstanding_invalidations :=
    sort (obj_outstanding_invalidations ob1 @ map inv_id required)\<rparr>"
  have go: "\<not> (regions \<noteq> [] \<and> pol_conflict_behavior policy = ConflictBehavior.Reject)"
    using assms(1-3) by (auto simp: reserve_write_def regions_def answer_write_def Let_def)
  have "map_of (eng_objects e') (actx_object (wreq_context req)) = Some ob2" "wg_may_mutate_now g' = (regions = [])"
    using assms(1) go
    unfolding reserve_write_def regions_def [symmetric] Let_def ob1_def [symmetric] required_def [symmetric]
      ob2_def [symmetric] if_not_P [OF go] case_prod_beta
    by (simp_all split: if_split_asm) auto
  then show ?thesis
    using assms(4) by (auto simp: ob2_def ob1_def writes_alone_def reserved_object_def
        holds_write_authority_def next_id_def)
qed

lemma continue_transfer_grant:
  assumes "continue_transfer req ob g e = (Inr g', e')" "holds_write_authority ob (wreq_context req)"
    "\<forall>g \<in> set (obj_reads ob). grant_released g" "obj_authority ob = AuthorityMode.TransferPending"
    "map_of (eng_objects e) (actx_object (wreq_context req)) = Some ob"
  shows "\<exists>ob'. map_of (eng_objects e') (actx_object (wreq_context req)) = Some ob' \<and>
    writes_alone (wreq_context req) (wg_may_mutate_now g') ob' \<and>
    obj_ownership_generation ob' = obj_ownership_generation ob \<and>
    obj_authoritative_version ob' = obj_authoritative_version ob"
  using assms
  by (auto simp: continue_transfer_def answer_write_def Let_def case_prod_beta writes_alone_def
      holds_write_authority_def split: if_splits)

lemma acquire_write_region_grant:
  assumes "acquire_write_region req policy ob p region g e = (Inr g', e')" "wg_granted g'" "\<not> wg_granted g"
    "par_boot p = actx_boot (wreq_context req)" "authority_ok ob" "actx_participant (wreq_context req) \<noteq> 0"
    "map_of (eng_objects e) (actx_object (wreq_context req)) = Some ob"
  shows "(obj_writer ob = 0 \<or> holds_write_authority ob (wreq_context req)) \<and>
    (\<exists>ob'. map_of (eng_objects e') (actx_object (wreq_context req)) = Some ob' \<and>
      writes_alone (wreq_context req) (wg_may_mutate_now g') ob' \<and>
      obj_ownership_generation ob' = (if obj_writer ob = 0 then obj_ownership_generation ob + 1 else obj_ownership_generation ob) \<and>
      obj_authoritative_version ob' = obj_authoritative_version ob)"
proof -
  let ?ctx = "wreq_context req"
  consider (held) "obj_authority ob = AuthorityMode.ExclusiveWriter" "holds_write_authority ob ?ctx"
    | (conflict) "exclusive ob" "\<not> holds_write_authority ob ?ctx"
    | (transfer) "obj_authority ob = AuthorityMode.TransferPending" "holds_write_authority ob ?ctx"
    | (free) "\<not> exclusive ob" by (auto simp: exclusive_def)
  then show ?thesis
  proof cases
    case held
    then show ?thesis
      using assms by (auto simp: acquire_write_region_def answer_write_def writes_alone_def Let_def
          authority_ok_def exclusive_def holds_write_authority_def)
  next
    case conflict
    then show ?thesis
      using assms by (auto simp: acquire_write_region_def answer_write_def Let_def exclusive_def split: if_splits)
  next
    case transfer
    then have "obj_writer ob \<noteq> 0" "\<forall>g \<in> set (obj_reads ob). grant_released g"
      using assms(5) by (auto simp: authority_ok_def exclusive_def)
    then show ?thesis
      using transfer assms continue_transfer_grant [of req ob g e g' e']
      by (simp add: acquire_write_region_def Let_def)
  next
    case free
    then have "obj_writer ob = 0" using assms(5) by (auto simp: authority_ok_def)
    moreover have "reserve_write req policy ob p g e = (Inr g', e')"
      using free assms(1-3)
      by (auto simp: acquire_write_region_def Let_def exclusive_def answer_write_def split: option.splits if_splits)
    ultimately show ?thesis using reserve_write_grant [OF _ assms(2-4)] by auto
  qed
qed

lemma acquire_write_grant:
  assumes inv: "engine_inv e" and grant: "acquire_write e req = (Inr g, e')" "wg_granted g"
  shows "\<exists>ob ob'. fst (resolve_locked e (wreq_context req)) = StatusCode.Ok \<and>
    map_of (eng_objects e) (actx_object (wreq_context req)) = Some ob \<and>
    (obj_writer ob = 0 \<or> holds_write_authority ob (wreq_context req)) \<and>
    map_of (eng_objects e') (actx_object (wreq_context req)) = Some ob' \<and>
    writes_alone (wreq_context req) (wg_may_mutate_now g) ob' \<and>
    obj_ownership_generation ob' = (if obj_writer ob = 0 then obj_ownership_generation ob + 1 else obj_ownership_generation ob) \<and>
    obj_authoritative_version ob' = obj_authoritative_version ob"
proof (cases e "wreq_context req" rule: resolve_cases)
  case (Refused code found q)
  then show ?thesis using grant by (auto simp: acquire_write_def Let_def case_prod_beta)
next
  case (Ok ob p)
  obtain policy region g0 e0 where
    "acquire_write_region req policy ob p region g0 e0 = (Inr g, e')" "\<not> wg_granted g0"
    "eng_objects e0 = eng_objects e"
  proof -
    show thesis
      using grant Ok
      by (auto simp: acquire_write_def Let_def case_prod_beta answer_write_def default_write_grant_def
          split: option.splits sum.splits if_splits intro!: that)
  qed
  then show ?thesis
    using acquire_write_region_grant [of req policy ob p region g0 e0 g e'] grant(2) Ok inv_object [OF inv] by auto
qed

section \<open>Requests with a stale identity\<close>

text \<open>A request is stale when it carries another epoch than the coordinator's, another boot than the
  participant registered last, the generation of an earlier object under that identity, a fenced or
  retired participant or a retired object.\<close>

definition stale_context :: "engine \<Rightarrow> AuthorityContext \<Rightarrow> bool" where
  "stale_context e ctx \<longleftrightarrow>
     actx_epoch ctx \<noteq> eng_epoch e \<or>
     (case map_of (eng_participants e) (actx_participant ctx) of None \<Rightarrow> True
      | Some p \<Rightarrow> par_boot p \<noteq> actx_boot ctx \<or> par_lifecycle p = ParticipantLifecycle.Fenced \<or>
          par_lifecycle p = ParticipantLifecycle.Retired) \<or>
     (case map_of (eng_objects e) (actx_object ctx) of None \<Rightarrow> True
      | Some ob \<Rightarrow> obj_generation ob \<noteq> actx_object_generation ctx \<or> obj_lifecycle ob = ObjectLifecycle.Retired)"

definition untouched :: "engine \<Rightarrow> engine \<Rightarrow> bool" where
  "untouched e e' \<longleftrightarrow> eng_objects e' = eng_objects e \<and> eng_regions e' = eng_regions e \<and>
     eng_syncs e' = eng_syncs e \<and> eng_invalidations e' = eng_invalidations e \<and>
     eng_participants e' = eng_participants e \<and> eng_policies e' = eng_policies e \<and> eng_epoch e' = eng_epoch e"

lemma stale_refused:
  assumes "stale_context e ctx"
  obtains code found p where "resolve_locked e ctx = (code, found, p)" "code \<noteq> StatusCode.Ok"
proof (cases "resolve_locked e ctx")
  case (fields code found p)
  then have "code \<noteq> StatusCode.Ok"
    using assms by (auto simp: resolve_locked_def stale_context_def split: if_splits option.splits)
  then show thesis using that fields by blast
qed

lemma refused_operations:
  assumes "resolve_locked e ctx = (code, found, p)" "code \<noteq> StatusCode.Ok"
  shows "rreq_context rd = ctx \<Longrightarrow> (\<exists>d. fst (acquire_read e rd) = Inr d \<and> rd_reason d = code \<and>
      rd_outcome d \<in> {ReadOutcome.ReadBlocked, ReadOutcome.Unknown}) \<and> untouched e (snd (acquire_read e rd))"
    and "wreq_context wr = ctx \<Longrightarrow> fst (acquire_write e wr) = Inl code \<and> untouched e (snd (acquire_write e wr))"
    and "dreq_context di = ctx \<Longrightarrow> fst (mark_dirty e di) = Inl code \<and> untouched e (snd (mark_dirty e di))"
    and "preq_context pu = ctx \<Longrightarrow> fst (publish e pu) = Inl code \<and> untouched e (snd (publish e pu))"
    and "vreq_context rv = ctx \<Longrightarrow> fst (revalidate_region e rv) = Inl code \<and> untouched e (snd (revalidate_region e rv))"
    and "lreq_context re = ctx \<Longrightarrow> fst (release e re) = Inl code \<and> untouched e (snd (release e re))"
    and "sreq_context sy = ctx \<Longrightarrow> fst (begin_sync e sy) = Inl code \<and> untouched e (snd (begin_sync e sy))"
    and "creq_context co = ctx \<Longrightarrow> (\<exists>c. fst (complete_sync e co) = Inl c) \<and> untouched e (snd (complete_sync e co))"
    and "iack_context ack = ctx \<Longrightarrow> (\<exists>c. fst (acknowledge_invalidation e ack) = Inl c) \<and>
      untouched e (snd (acknowledge_invalidation e ack))"
  using assms
  by (auto simp: untouched_def acquire_read_def compute_read_locked_def decide_read_def acquire_write_def
      mark_dirty_def publish_def publish_reserve_def revalidate_region_def release_def begin_sync_def
      complete_sync_def acknowledge_invalidation_def Let_def case_prod_beta split: option.split)

section \<open>Publication\<close>

text \<open>What a granted reservation rests on.\<close>

lemma publish_reserved:
  assumes "publish_reserve e req = (Reserved t, e1)"
  obtains ob p policy receipt e0 where "resolve_locked e (preq_context req) = (StatusCode.Ok, Some ob, Some p)"
    "map_of (eng_objects e) (actx_object (preq_context req)) = Some ob" "policy_locked e ob = Some policy"
    "completed_request req ob = None" "publish_guard e0 req policy ob = StatusCode.Ok"
    "e0 = snd (make_context e (preq_context req) (actx_object (preq_context req))
       (actx_object_generation (preq_context req)) (obj_ownership_generation ob))"
    "reserve_publication req policy ob p receipt e0 = (t, e1)"
proof (cases e "preq_context req" rule: resolve_cases)
  case (Refused code found q)
  then show thesis using assms by (auto simp: publish_reserve_def Let_def case_prod_beta)
next
  case (Ok ob p)
  define e0 where "e0 = snd (make_context e (preq_context req) (actx_object (preq_context req))
     (actx_object_generation (preq_context req)) (obj_ownership_generation ob))"
  have pol: "policy_locked e0 ob = policy_locked e ob" by (simp add: e0_def policy_locked_def)
  obtain policy receipt where "policy_locked e ob = Some policy" "completed_request req ob = None"
    "publish_guard e0 req policy ob = StatusCode.Ok" "reserve_publication req policy ob p receipt e0 = (t, e1)"
    using assms Ok(1)
    by (auto simp: publish_reserve_def Let_def case_prod_beta e0_def [symmetric] pol prod_eq_iff
        split: option.splits if_splits)
  then show thesis using that [OF Ok(1,2)] e0_def by blast
qed

lemma publish_guard_holds:
  assumes "publish_guard e req policy ob = StatusCode.Ok"
  shows "obj_authority ob = AuthorityMode.ExclusiveWriter \<and> holds_write_authority ob (preq_context req) \<and>
    preq_ownership_generation req = obj_ownership_generation ob \<and>
    preq_expected_base_version req = obj_authoritative_version ob"
  using assms by (auto simp: publish_guard_def Let_def split: if_splits)

lemma reserve_publication_ticket:
  assumes "reserve_publication req policy ob p receipt e = (t, e1)"
  shows "tk_request t = req \<and> pend_object (tk_pending t) = obj_id ob \<and>
    pend_prior_version (tk_pending t) = obj_authoritative_version ob \<and>
    pend_version (tk_pending t) = obj_authoritative_version ob + 1 \<and>
    pr_version (tk_receipt t) = pend_version (tk_pending t) \<and>
    pr_publication (tk_receipt t) = pend_id (tk_pending t) \<and>
    pr_idempotent_replay (tk_receipt t) = pr_idempotent_replay receipt \<and>
    tk_durable_required t = (pol_publication_durability policy = PublicationDurability.DurableMetadata \<and> durability_active e)"
  using assms by (auto simp: reserve_publication_def pending_record_def next_id_def Let_def durability_active_def tick_def)

text \<open>Every answer of the third section but the commit itself says that nothing was published.\<close>

lemma publish_commit_answer:
  assumes "publish_commit e t code = (Inr receipt, e')" "pr_state receipt = PublicationState.Committed"
  shows "\<exists>ob. map_of (eng_objects e) (pend_object (tk_pending t)) = Some ob \<and> reservation_valid t ob \<and>
    code = StatusCode.Ok \<and> pr_version receipt = pr_version (tk_receipt t) \<and>
    pr_publication receipt = pr_publication (tk_receipt t)"
  using assms
  by (auto simp: publish_commit_def commit_publication_def Let_def case_prod_beta split: option.splits if_splits)

lemma stale_commit_refused:
  assumes "\<And>ob. map_of (eng_objects e) (pend_object (tk_pending t)) = Some ob \<Longrightarrow>
      obj_authoritative_version ob \<noteq> pend_prior_version (tk_pending t)"
  shows "calm e (snd (publish_commit e t code))"
    and "fst (publish_commit e t code) = Inr receipt \<Longrightarrow> pr_state receipt = PublicationState.Aborted \<and>
      pr_reason receipt = StatusCode.OutcomeUnknown"
    and "eng_regions (snd (publish_commit e t code)) = eng_regions e"
proof -
  show "calm e (snd (publish_commit e t code))"
    by (cases e t code rule: publish_commit_cases) (use assms in \<open>auto simp: reservation_valid_def\<close>)
  show "pr_state receipt = PublicationState.Aborted \<and> pr_reason receipt = StatusCode.OutcomeUnknown"
    if "fst (publish_commit e t code) = Inr receipt"
    using that assms
    by (auto simp: publish_commit_def reservation_valid_def Let_def case_prod_beta split: option.splits if_splits)
  show "eng_regions (snd (publish_commit e t code)) = eng_regions e"
    using assms
    by (auto simp: publish_commit_def reservation_valid_def Let_def case_prod_beta split: option.splits)
qed

text \<open>A failed durable append publishes nothing.\<close>

lemma failed_append_publishes_nothing:
  assumes "code \<noteq> StatusCode.Ok"
  shows "calm e (snd (publish_commit e t code))" "\<exists>c. fst (publish_commit e t code) = Inl c"
    "eng_regions (snd (publish_commit e t code)) = eng_regions e"
proof -
  show "calm e (snd (publish_commit e t code))"
    by (cases e t code rule: publish_commit_cases) (use assms in auto)
qed (use assms in \<open>auto simp: publish_commit_def Let_def split: option.split\<close>)

text \<open>Who may ask and under which policy is not touched by a publication.\<close>

lemma mark_stale_identity [simp]:
  "eng_participants (mark_regions_stale k v x e) = eng_participants e"
  "eng_policies (mark_regions_stale k v x e) = eng_policies e"
  "eng_epoch (mark_regions_stale k v x e) = eng_epoch e"
  "eng_shutting_down (mark_regions_stale k v x e) = eng_shutting_down e"
proof -
  have "eng_participants (mark_region_stale v x k e) = eng_participants e"
    "eng_policies (mark_region_stale v x k e) = eng_policies e" "eng_epoch (mark_region_stale v x k e) = eng_epoch e"
    "eng_shutting_down (mark_region_stale v x k e) = eng_shutting_down e" for k e
    by (simp_all add: mark_region_stale_def Let_def split: option.split)
  then have "eng_participants (fold (mark_region_stale v x) ks e) = eng_participants e \<and>
    eng_policies (fold (mark_region_stale v x) ks e) = eng_policies e \<and>
    eng_epoch (fold (mark_region_stale v x) ks e) = eng_epoch e \<and>
    eng_shutting_down (fold (mark_region_stale v x) ks e) = eng_shutting_down e" for ks e
    by (induction ks arbitrary: e) simp_all
  then show "eng_participants (mark_regions_stale k v x e) = eng_participants e"
    "eng_policies (mark_regions_stale k v x e) = eng_policies e"
    "eng_epoch (mark_regions_stale k v x e) = eng_epoch e"
    "eng_shutting_down (mark_regions_stale k v x e) = eng_shutting_down e"
    by (simp_all add: mark_regions_stale_def split: option.split)
qed

lemma publish_to_region_identity [simp]:
  "eng_participants (publish_to_region t ob e) = eng_participants e"
  "eng_policies (publish_to_region t ob e) = eng_policies e" "eng_epoch (publish_to_region t ob e) = eng_epoch e"
  "eng_shutting_down (publish_to_region t ob e) = eng_shutting_down e"
  by (simp_all add: publish_to_region_def Let_def case_prod_beta split: option.split)

lemma reserve_publication_identity:
  assumes "reserve_publication req policy ob p receipt e = (t, e1)"
  shows "eng_participants e1 = eng_participants e" "eng_policies e1 = eng_policies e" "eng_epoch e1 = eng_epoch e"
    "eng_shutting_down e1 = eng_shutting_down e" "eng_regions e1 = eng_regions e" "eng_syncs e1 = eng_syncs e"
    "map_of (eng_objects e1) = (map_of (eng_objects e))(actx_object (preq_context req) \<mapsto>
      ob\<lparr>obj_publication_state := PublicationState.PendingDurable,
         obj_pending_publication := pend_id (tk_pending t),
         obj_pending_version := pend_version (tk_pending t), obj_pending_content := preq_content req,
         obj_updated_sequence := eng_sequence (tick e)\<rparr>)"
  using assms by (auto simp: reserve_publication_def Let_def)

text \<open>The committed object.\<close>

lemma commit_publication_object:
  "\<exists>c n. map_of (eng_objects (snd (commit_publication t ob e))) (pend_object (tk_pending t)) =
     Some (committed_object c n t ob)"
  by (simp add: commit_publication_def Let_def case_prod_beta) blast

lemma find_skip: "find P xs = None \<Longrightarrow> find P (xs @ ys) = find P ys"
  by (induction xs) (simp_all split: if_splits)

lemma remember_request_finds:
  assumes "actx_request (preq_context (tk_request t)) \<noteq> 0"
    "find (\<lambda>c. done_request c = actx_request (preq_context (tk_request t))) cs = None"
  shows "\<exists>c. find (\<lambda>c. done_request c = actx_request (preq_context (tk_request t))) (remember_request cfg n t cs) = Some c \<and>
    done_version c = pend_version (tk_pending t) \<and> done_publication c = pend_id (tk_pending t)"
proof -
  let ?P = "\<lambda>c. done_request c = actx_request (preq_context (tk_request t))"
  define bound where "bound = (if cfg_max_retained_requests_per_object cfg = 0 then 1
     else unat (cfg_max_retained_requests_per_object cfg))"
  have "0 < bound" by (simp add: bound_def unat_gt_0)
  then have "length cs + 1 - bound \<le> length cs" by simp
  moreover have "find ?P (drop m cs @ [c]) = Some c" if "?P c" for m c
    using that assms(2) by (subst find_skip) (auto simp: find_None_iff dest: in_set_dropD)
  ultimately show ?thesis
    using assms(1) by (simp add: remember_request_def Let_def bound_def [symmetric])
qed

text \<open>A publication that was answered as committed, taken apart.\<close>

lemma publish_committed:
  assumes "publish e req = (Inr receipt, e')" "pr_state receipt = PublicationState.Committed"
    "\<not> pr_idempotent_replay receipt"
  obtains t e1 e2 where "publish_reserve e req = (Reserved t, e1)" "publish_persist e1 t = (StatusCode.Ok, e2)"
    "publish_commit e2 t StatusCode.Ok = (Inr receipt, e')"
proof (cases "publish_reserve e req")
  case (Pair outcome e1)
  show thesis
  proof (cases outcome)
    case (Done result)
    then have "fst (publish_reserve e req) = Done (Inr receipt)"
      using assms(1) Pair by (simp add: publish_def)
    then show thesis
      using assms(2,3)
      by (auto simp: publish_reserve_def Let_def case_prod_beta default_receipt_def replay_receipt_def
          split: option.splits if_splits)
  next
    case (Reserved t)
    obtain code e2 where e2: "publish_persist e1 t = (code, e2)" by force
    then have commit: "publish_commit e2 t code = (Inr receipt, e')"
      using assms(1) Pair Reserved by (simp add: publish_def)
    then have "code = StatusCode.Ok" using publish_commit_answer assms(2) by blast
    then show thesis using that Pair Reserved e2 commit by blast
  qed
qed

lemma publish_persist_same:
  "publish_persist e t = (code, e2) \<Longrightarrow> eng_objects e2 = eng_objects e \<and> eng_regions e2 = eng_regions e \<and>
     eng_syncs e2 = eng_syncs e \<and> eng_participants e2 = eng_participants e \<and> eng_policies e2 = eng_policies e \<and>
     eng_epoch e2 = eng_epoch e \<and> eng_shutting_down e2 = eng_shutting_down e"
  using publish_persist_frame [of e t] by auto

lemma advances_alone:
  assumes inv: "engine_inv e" and adv: "advances x k v e e'" and j: "j \<noteq> x" "map_of (eng_regions e') j = Some r"
    "reg_object r = k"
  shows "reg_state r \<noteq> CoherenceState.Current"
proof -
  obtain ob where ob: "map_of (eng_objects e) k = Some ob" "map_of (eng_regions e') j =
      (if j \<in> set (obj_replicas ob) then map_option (staled v) (map_of (eng_regions e) j) else map_of (eng_regions e) j)"
    using adv j(1) by (auto simp: advances_def)
  have "j \<in> set (obj_replicas ob)"
  proof (rule ccontr)
    assume "j \<notin> set (obj_replicas ob)"
    then show False using ob j inv_region [OF inv, of j r] by (auto simp: region_inv_def)
  qed
  then have "map_option (staled v) (map_of (eng_regions e) j) = Some r" using ob(2) j(2) by simp
  then show ?thesis using staled_object by fastforce
qed

lemma publish_commit_advances:
  assumes inv: "engine_inv e"
    and placed: "region_placed e (preq_region (tk_request t)) (pend_object (tk_pending t))"
    and ob: "map_of (eng_objects e) (pend_object (tk_pending t)) = Some ob" "reservation_valid t ob"
  shows "advances (preq_region (tk_request t)) (pend_object (tk_pending t)) (pend_version (tk_pending t))
    e (snd (publish_commit e t StatusCode.Ok))"
proof -
  obtain e1 where e1: "publish_commit e t StatusCode.Ok = commit_publication t ob e1"
    "eng_objects e1 = eng_objects e" "eng_regions e1 = eng_regions e" "eng_syncs e1 = eng_syncs e"
    using ob by (simp add: publish_commit_def Let_def)
  have "advances (preq_region (tk_request t)) (pend_object (tk_pending t)) (pend_version (tk_pending t))
    e1 (snd (commit_publication t ob e1))"
    using e1 ob placed
    by (intro commit_publication_advances inv_via [OF inv]) (simp_all add: region_placed_def)
  then show ?thesis unfolding e1(1) using e1(2-4) by (rule advances_from_same)
qed

text \<open>The whole publication: what the caller held, and what the engine looks like afterwards.\<close>

lemma publish_effect:
  assumes inv: "engine_inv e" and pub: "publish e req = (Inr receipt, e')"
    "pr_state receipt = PublicationState.Committed" "\<not> pr_idempotent_replay receipt"
  shows "\<exists>ob ob' r. map_of (eng_objects e) (actx_object (preq_context req)) = Some ob \<and>
    obj_authority ob = AuthorityMode.ExclusiveWriter \<and> holds_write_authority ob (preq_context req) \<and>
    preq_ownership_generation req = obj_ownership_generation ob \<and>
    preq_expected_base_version req = obj_authoritative_version ob \<and>
    pr_version receipt = obj_authoritative_version ob + 1 \<and>
    map_of (eng_objects e') (actx_object (preq_context req)) = Some ob' \<and>
    obj_authoritative_version ob' = pr_version receipt \<and>
    map_of (eng_regions e') (preq_region req) = Some r \<and> reg_object r = obj_id ob \<and>
    reg_state r = CoherenceState.Current \<and> reg_version r = pr_version receipt \<and>
    (\<forall>j r. map_of (eng_regions e') j = Some r \<and> reg_object r = obj_id ob \<and> j \<noteq> preq_region req \<longrightarrow>
       reg_state r \<noteq> CoherenceState.Current)"
proof -
  obtain t e1 e2 where run: "publish_reserve e req = (Reserved t, e1)" "publish_persist e1 t = (StatusCode.Ok, e2)"
    "publish_commit e2 t StatusCode.Ok = (Inr receipt, e')"
    using publish_committed [OF pub] .
  obtain ob p policy rc e0 where ob: "map_of (eng_objects e) (actx_object (preq_context req)) = Some ob"
    "publish_guard e0 req policy ob = StatusCode.Ok" "reserve_publication req policy ob p rc e0 = (t, e1)"
    by (rule publish_reserved [OF run(1)]) blast
  have id: "obj_id ob = actx_object (preq_context req)" using inv_object [OF inv ob(1)] by simp
  note t = reserve_publication_ticket [OF ob(3)]
  note same = publish_persist_same [OF run(2)]
  have "engine_inv e1" using calm_inv [OF calm_publish_reserve inv, of req] run(1) by simp
  then have inv2: "engine_inv e2" using inv_via same by blast
  have placed: "region_placed e2 (preq_region (tk_request t)) (pend_object (tk_pending t))"
    using reserve_flight_ok [OF run(1)] same by (simp add: flight_ok_def region_placed_def)
  have adv: "advances (preq_region req) (obj_id ob) (obj_authoritative_version ob + 1) e2 e'"
  proof -
    obtain ob2 where "map_of (eng_objects e2) (pend_object (tk_pending t)) = Some ob2" "reservation_valid t ob2"
      using publish_commit_answer [OF run(3) pub(2)] by blast
    then show ?thesis using publish_commit_advances [OF inv2 placed] run(3) t by fastforce
  qed
  have receipt: "pr_version receipt = obj_authoritative_version ob + 1"
    using publish_commit_answer [OF run(3) pub(2)] t by auto
  obtain ob' r where "map_of (eng_objects e') (obj_id ob) = Some ob'" "obj_authoritative_version ob' = pr_version receipt"
    "map_of (eng_regions e') (preq_region req) = Some r" "reg_object r = obj_id ob"
    "reg_state r = CoherenceState.Current" "reg_version r = pr_version receipt"
    using adv receipt by (auto simp: advances_def)
  then show ?thesis
    using ob(1) id receipt publish_guard_holds [OF ob(2)] advances_alone [OF inv2 adv] by auto
qed

text \<open>Asking again with the same request identity.\<close>

lemma resolve_locked_cong:
  assumes "eng_shutting_down e' = eng_shutting_down e" "eng_epoch e' = eng_epoch e"
    "map_of (eng_participants e') (actx_participant ctx) = map_of (eng_participants e) (actx_participant ctx)"
    "resolve_locked e ctx = (StatusCode.Ok, Some ob, Some p)"
    "map_of (eng_objects e') (actx_object ctx) = Some ob'"
    "obj_generation ob' = obj_generation ob" "obj_lifecycle ob' = obj_lifecycle ob"
    "obj_policy_generation ob' = obj_policy_generation ob"
  shows "resolve_locked e' ctx = (StatusCode.Ok, Some ob', Some p)"
  using assms by (auto simp: resolve_locked_def split: option.splits if_splits)

lemma publish_replay:
  assumes "resolve_locked e (preq_context req) = (StatusCode.Ok, Some ob, Some p)"
    "policy_locked e ob = Some policy" "completed_request req ob = Some c"
  shows "\<exists>receipt. fst (publish e req) = Inr receipt \<and> pr_idempotent_replay receipt \<and>
    pr_state receipt = PublicationState.Committed \<and> pr_version receipt = done_version c \<and>
    pr_publication receipt = done_publication c"
    and "untouched e (snd (publish e req))"
  using assms
  by (auto simp: publish_def publish_reserve_def Let_def case_prod_beta replay_receipt_def policy_locked_def
      untouched_def)

lemma publish_idempotent:
  assumes inv: "engine_inv e" and pub: "publish e req = (Inr receipt, e')"
    "pr_state receipt = PublicationState.Committed" "\<not> pr_idempotent_replay receipt"
    and request: "actx_request (preq_context req) \<noteq> 0"
  shows "\<exists>again. fst (publish e' req) = Inr again \<and> pr_idempotent_replay again \<and>
    pr_state again = PublicationState.Committed \<and> pr_version again = pr_version receipt \<and>
    pr_publication again = pr_publication receipt" and "untouched e' (snd (publish e' req))"
proof -
  obtain t e1 e2 where run: "publish_reserve e req = (Reserved t, e1)" "publish_persist e1 t = (StatusCode.Ok, e2)"
    "publish_commit e2 t StatusCode.Ok = (Inr receipt, e')"
    using publish_committed [OF pub] .
  obtain ob p policy rc e0 where ob: "resolve_locked e (preq_context req) = (StatusCode.Ok, Some ob, Some p)"
    "map_of (eng_objects e) (actx_object (preq_context req)) = Some ob" "policy_locked e ob = Some policy"
    "completed_request req ob = None"
    "e0 = snd (make_context e (preq_context req) (actx_object (preq_context req))
       (actx_object_generation (preq_context req)) (obj_ownership_generation ob))"
    "reserve_publication req policy ob p rc e0 = (t, e1)"
    by (rule publish_reserved [OF run(1)]) blast
  have id: "obj_id ob = actx_object (preq_context req)" using inv_object [OF inv ob(2)] by simp
  note t = reserve_publication_ticket [OF ob(6)]
  note e1 = reserve_publication_identity [OF ob(6)]
  note same = publish_persist_same [OF run(2)]
  obtain ob2 where ob2: "map_of (eng_objects e2) (pend_object (tk_pending t)) = Some ob2" "reservation_valid t ob2"
    "pr_version receipt = pr_version (tk_receipt t)" "pr_publication receipt = pr_publication (tk_receipt t)"
    using publish_commit_answer [OF run(3) pub(2)] by blast
  have keep: "obj_generation ob2 = obj_generation ob" "obj_lifecycle ob2 = obj_lifecycle ob"
    "obj_policy_generation ob2 = obj_policy_generation ob" "obj_policy ob2 = obj_policy ob"
    "obj_completed_requests ob2 = obj_completed_requests ob"
    using ob2(1) same e1(7) t id by auto
  have commit: "publish_commit e2 t StatusCode.Ok = commit_publication t ob2 (apply_pending t (e2\<lparr>eng_in_flight_publications :=
      sm_erase (pend_id (tk_pending t)) (eng_in_flight_publications e2)\<rparr>))"
    using ob2 by (simp add: publish_commit_def Let_def)
  obtain c n where ob': "map_of (eng_objects e') (obj_id ob) = Some (committed_object c n t ob2)"
    using commit_publication_object [of t ob2] commit run(3) t by (metis snd_conv)
  have frame: "eng_participants e' = eng_participants e2" "eng_policies e' = eng_policies e2"
    "eng_epoch e' = eng_epoch e2" "eng_shutting_down e' = eng_shutting_down e2"
    using commit run(3) by (auto simp: commit_publication_def Let_def case_prod_beta)
  have resolve: "resolve_locked e' (preq_context req) = (StatusCode.Ok, Some (committed_object c n t ob2), Some p)"
    by (rule resolve_locked_cong [OF _ _ _ ob(1)])
      (use frame same e1 ob(5) ob' id keep in \<open>simp_all add: committed_object_def Let_def\<close>)
  obtain d where d: "completed_request req (committed_object c n t ob2) = Some d"
    "done_version d = pend_version (tk_pending t)" "done_publication d = pend_id (tk_pending t)"
    using remember_request_finds [of t "obj_completed_requests ob2" c n] ob(4) request t keep
    by (auto simp: completed_request_def committed_object_def Let_def split: if_splits)
  have policy: "policy_locked e' (committed_object c n t ob2) = Some policy"
    using frame same e1 ob(3,5) keep by (simp add: policy_locked_def committed_object_def Let_def)
  show "\<exists>again. fst (publish e' req) = Inr again \<and> pr_idempotent_replay again \<and>
    pr_state again = PublicationState.Committed \<and> pr_version again = pr_version receipt \<and>
    pr_publication again = pr_publication receipt" "untouched e' (snd (publish e' req))"
    using publish_replay [OF resolve policy d(1)] d ob2 t by simp_all
qed

end
