(* ===== verification/Engine_Failures.thy ===== *)
theory Engine_Failures
  imports Engine_Contracts
begin

text \<open>
  What the engine guarantees when participants fail: fencing takes every right of a boot away, an
  acknowledgement or a fence lets a pending transfer proceed, a completed synchronization is
  checked against what was expected, a released writer cannot come back, and recovery hands out
  nothing that the crash could have invalidated.
\<close>

section \<open>Fencing\<close>

text \<open>The objects of the later engine have the writers of the earlier one, and regions are untouched.\<close>

definition writers_kept :: "engine \<Rightarrow> engine \<Rightarrow> bool" where
  "writers_kept e e' \<longleftrightarrow> eng_regions e' = eng_regions e \<and>
     (\<forall>j ob'. map_of (eng_objects e') j = Some ob' \<longrightarrow>
        (\<exists>ob. map_of (eng_objects e) j = Some ob \<and> obj_writer ob' = obj_writer ob \<and>
           obj_writer_boot ob' = obj_writer_boot ob \<and>
           (\<forall>g \<in> set (obj_reads ob'). grant_released g \<or> g \<in> set (obj_reads ob))))"

lemma writers_keptD:
  "writers_kept e e' \<Longrightarrow> map_of (eng_objects e') j = Some ob' \<Longrightarrow>
   \<exists>ob. map_of (eng_objects e) j = Some ob \<and> obj_writer ob' = obj_writer ob \<and>
     obj_writer_boot ob' = obj_writer_boot ob \<and>
     (\<forall>g \<in> set (obj_reads ob'). grant_released g \<or> g \<in> set (obj_reads ob))"
  unfolding writers_kept_def by blast

lemma writers_kept_trans:
  assumes ab: "writers_kept a b" and bc: "writers_kept b c"
  shows "writers_kept a c"
  unfolding writers_kept_def
proof (intro conjI allI impI)
  show "eng_regions c = eng_regions a" using ab bc by (simp add: writers_kept_def)
  fix j ob' assume "map_of (eng_objects c) j = Some ob'"
  then obtain ob1 where ob1: "map_of (eng_objects b) j = Some ob1" "obj_writer ob' = obj_writer ob1"
    "obj_writer_boot ob' = obj_writer_boot ob1" "\<forall>g \<in> set (obj_reads ob'). grant_released g \<or> g \<in> set (obj_reads ob1)"
    using bc unfolding writers_kept_def by blast
  then obtain ob where "map_of (eng_objects a) j = Some ob" "obj_writer ob1 = obj_writer ob"
    "obj_writer_boot ob1 = obj_writer_boot ob" "\<forall>g \<in> set (obj_reads ob1). grant_released g \<or> g \<in> set (obj_reads ob)"
    using ab unfolding writers_kept_def by blast
  then show "\<exists>ob. map_of (eng_objects a) j = Some ob \<and> obj_writer ob' = obj_writer ob \<and>
      obj_writer_boot ob' = obj_writer_boot ob \<and> (\<forall>g \<in> set (obj_reads ob'). grant_released g \<or> g \<in> set (obj_reads ob))"
    using ob1 by auto
qed

interpretation writers: live_preorder writers_kept
proof unfold_locales
  show "writers_kept a c" if "writers_kept a b" "eng_objects c = eng_objects b" "eng_regions c = eng_regions b"
    for a b c using that by (simp add: writers_kept_def)
  show "writers_kept e e" for e by (auto simp: writers_kept_def)
  show "writers_kept a c" if "writers_kept a b" "writers_kept b c" for a b c
    using that by (rule writers_kept_trans)
qed

lemma writers_put_object:
  assumes "writers_kept a e" "map_of (eng_objects e) k = Some ob" "obj_writer ob' = obj_writer ob"
    "obj_writer_boot ob' = obj_writer_boot ob" "\<forall>g \<in> set (obj_reads ob'). grant_released g \<or> g \<in> set (obj_reads ob)"
  shows "writers_kept a (put_object k ob' e)"
proof -
  have "writers_kept e (put_object k ob' e)" using assms(2-) by (auto simp: writers_kept_def)
  then show ?thesis using writers.trans assms(1) by blast
qed

lemma writers_recompute: "writers_kept e (recompute_authority_locked k e)"
  by (auto simp: recompute_authority_locked_def recompute_authority_def split: option.split
      intro!: writers_put_object writers.refl)

lemma writers_release: "writers_kept e (release_reads_of_object p b k e)"
  by (auto simp: release_reads_of_object_def Let_def split: option.split
      intro!: writers_put_object writers.peel writers.refl)

text \<open>A loop over keys that settles each record it visits and leaves the others alone settles them all.\<close>

locale settling_loop =
  fixes proj :: "'s \<Rightarrow> ('k::linorder, 'v) std_map" and f :: "'k \<Rightarrow> 's \<Rightarrow> 's" and settled :: "'v \<Rightarrow> bool"
  assumes elsewhere: "j \<noteq> k \<Longrightarrow> map_of (proj (f k s)) j = map_of (proj s) j"
    and here: "map_of (proj (f k s)) k = Some y \<Longrightarrow> settled y"
begin

lemma untouched_elsewhere: "j \<notin> set ks \<Longrightarrow> map_of (proj (fold f ks s)) j = map_of (proj s) j"
  by (induction ks arbitrary: s) (auto simp: elsewhere)

lemma settles: "j \<in> set ks \<Longrightarrow> map_of (proj (fold f ks s)) j = Some y \<Longrightarrow> settled y"
proof (induction ks arbitrary: s)
  case (Cons k ks)
  show ?case
  proof (cases "j \<in> set ks")
    case True
    then show ?thesis using Cons by simp
  next
    case False
    then have "map_of (proj (f k s)) j = Some y" using Cons.prems by (simp add: untouched_elsewhere)
    then show ?thesis using here Cons.prems False by auto
  qed
qed simp

end

interpretation release_loop: settling_loop eng_objects "release_reads_of_object p b"
  "\<lambda>ob. \<forall>g \<in> set (obj_reads ob). \<not> releases_grant p b g" for p b
proof unfold_locales
  show "map_of (eng_objects (release_reads_of_object p b k e)) j = map_of (eng_objects e) j" if "j \<noteq> k" for j k e
    using that by (simp add: release_reads_of_object_def Let_def split: option.split)
  show "\<forall>g \<in> set (obj_reads ob). \<not> releases_grant p b g"
    if "map_of (eng_objects (release_reads_of_object p b k e)) k = Some ob" for k e ob
    using that by (auto simp: release_reads_of_object_def releases_grant_def Let_def list_ex_iff
        split: option.splits if_splits)
qed

lemma fence_object_writer:
  assumes "k \<noteq> 0"
  shows "\<not> (obj_writer (fst (fence_object e k b ob)) = k \<and> obj_writer_boot (fst (fence_object e k b ob)) = b)"
  using assms by (simp add: fence_object_def abort_publication_def Let_def)

lemma fence_region_state:
  "reg_participant (fst (fence_region e k b why r)) = k \<Longrightarrow> reg_boot (fst (fence_region e k b why r)) = b \<Longrightarrow>
   reg_state (fst (fence_region e k b why r)) \<in> {CoherenceState.Fenced, CoherenceState.Retired}"
  by (auto simp: fence_region_def Let_def split: if_splits)

lemma release_all_reads:
  assumes "map_of (eng_objects (release_reads_for_participant p b e)) j = Some ob"
  shows "\<forall>g \<in> set (obj_reads ob). \<not> releases_grant p b g"
proof (cases "j \<in> set (sm_keys (eng_objects e))")
  case True
  then show ?thesis using release_loop.settles assms by (simp add: release_reads_for_participant_def)
next
  case False
  then have "map_of (eng_objects e) j = None" by (auto simp: sm_keys_def map_of_eq_None_iff)
  then show ?thesis
    using assms release_loop.untouched_elsewhere [OF False, of p b e]
    by (simp add: release_reads_for_participant_def)
qed

lemma fence_effect:
  assumes p: "map_of (eng_participants e) k = Some p" "epoch = eng_epoch e"
    "par_lifecycle p \<noteq> ParticipantLifecycle.Retired" and k: "k \<noteq> 0"
    and e'_def: "e' = snd (fence_participant e k epoch reason)"
  shows "map_of (eng_objects e') j = Some ob \<Longrightarrow> \<not> (obj_writer ob = k \<and> obj_writer_boot ob = par_boot p)"
    and "map_of (eng_objects e') j = Some ob \<Longrightarrow> g \<in> set (obj_reads ob) \<Longrightarrow> grant_participant g = k \<Longrightarrow>
      grant_boot g = par_boot p \<Longrightarrow> grant_released g"
    and "map_of (eng_regions e') i = Some r \<Longrightarrow> reg_participant r = k \<Longrightarrow> reg_boot r = par_boot p \<Longrightarrow>
      reg_state r \<in> {CoherenceState.Fenced, CoherenceState.Retired}"
    and "\<exists>p'. map_of (eng_participants e') k = Some p' \<and> par_lifecycle p' = ParticipantLifecycle.Fenced \<and> \<not> par_live p'"
proof -
  let ?b = "par_boot p"
  define e0 where "e0 = tick e"
  define e1 where "e1 = e0\<lparr>eng_objects := sm_map (\<lambda>j ob. fst (fence_object e0 k ?b ob)) (eng_objects e),
    eng_regions := sm_map (\<lambda>j r. fst (fence_region e0 k ?b reason r)) (eng_regions e),
    eng_syncs := sm_map (\<lambda>j x. fst (fence_sync e0 k ?b x)) (eng_syncs e),
    eng_invalidations := sm_map (\<lambda>j x. fst (fence_invalidation e0 k ?b x)) (eng_invalidations e)\<rparr>"
  define e2 where "e2 = release_reads_for_participant k ?b e1"
  define e3 where "e3 = fold recompute_authority_locked (sm_keys (eng_objects e2)) e2"
  have e': "eng_objects e' = eng_objects e3" "eng_regions e' = eng_regions e3"
    "\<exists>p'. map_of (eng_participants e') k = Some p' \<and> par_lifecycle p' = ParticipantLifecycle.Fenced \<and> \<not> par_live p'"
    using p by (simp_all add: e'_def e3_def e2_def e1_def e0_def fence_participant_def sweep_def Let_def case_prod_beta)
  have kept12: "writers_kept e1 e2"
    unfolding e2_def release_reads_for_participant_def by (rule writers.fold [OF writers_release writers.refl])
  have kept23: "writers_kept e2 e3"
    unfolding e3_def by (rule writers.fold [OF writers_recompute writers.refl])
  note kept13 = writers_kept_trans [OF kept12 kept23]
  show "\<not> (obj_writer ob = k \<and> obj_writer_boot ob = ?b)" if ob: "map_of (eng_objects e') j = Some ob"
  proof -
    obtain ob1 where "obj_writer ob = obj_writer (fst (fence_object e0 k ?b ob1))"
      "obj_writer_boot ob = obj_writer_boot (fst (fence_object e0 k ?b ob1))"
      using writers_keptD [OF kept13 ob [unfolded e'(1)]] by (auto simp: e1_def)
    then show ?thesis using fence_object_writer [OF k] by metis
  qed
  show "grant_released g" if ob: "map_of (eng_objects e') j = Some ob" and g: "g \<in> set (obj_reads ob)"
    "grant_participant g = k" "grant_boot g = ?b"
    using writers_keptD [OF kept23 ob [unfolded e'(1)]] release_all_reads [of k ?b e1 j] g
    by (auto simp: e2_def releases_grant_def)
  show "reg_state r \<in> {CoherenceState.Fenced, CoherenceState.Retired}"
    if r: "map_of (eng_regions e') i = Some r" "reg_participant r = k" "reg_boot r = ?b"
  proof -
    have "eng_regions e' = eng_regions e1" using e'(2) kept13 by (simp add: writers_kept_def)
    then obtain r0 where "r = fst (fence_region e0 k ?b reason r0)" using r(1) by (auto simp: e1_def)
    then show ?thesis using fence_region_state r(2,3) by metis
  qed
  show "\<exists>p'. map_of (eng_participants e') k = Some p' \<and> par_lifecycle p' = ParticipantLifecycle.Fenced \<and> \<not> par_live p'"
    by (rule e'(3))
qed

section \<open>Recovery\<close>

lemma restored_participant_lost:
  "\<not> par_live (restored_participant p)" "par_lifecycle (restored_participant p) \<noteq> ParticipantLifecycle.Active"
  by (simp_all add: restored_participant_def)

lemma restored_participants:
  assumes "map_of (eng_participants (fst (restore_image store load img e))) k = Some p"
  shows "\<not> par_live p \<and> par_lifecycle p \<noteq> ParticipantLifecycle.Active"
proof -
  obtain s f where s: "eng_participants (fst s) = []" and p:
    "map_of (sm_map f (eng_participants (fst (fold restore_participant (img_participants img) s)))) k = Some p"
    and f: "\<And>k p. par_live (f k p) = par_live p" "\<And>k p. par_lifecycle (f k p) = par_lifecycle p"
    using assms
    by (auto simp: restore_image_def Let_def case_prod_beta retotal_participant_regions_def cleared_engine_def
        simp del: map_of_sm_map intro!: that)
  obtain q where "p = f k q" "map_of (eng_participants (fst (fold restore_participant (img_participants img) s))) k = Some q"
    using p by auto
  then show ?thesis
    using par_loop.origin [of "img_participants img" s k q] s f
    by (auto simp: restored_participant_lost)
qed

lemma restored_epoch: "eng_epoch (fst (restore_image store load img e)) = recovery_epoch (eng_config e) img"
  by (simp add: restore_image_def Let_def case_prod_beta cleared_engine_def)

lemma recovery_epoch_advances:
  assumes "img_epoch img \<noteq> 0xFFFFFFFFFFFFFFFF"
  shows "img_epoch img < recovery_epoch config img"
proof -
  have "img_epoch img + 1 \<noteq> 0"
  proof
    assume "img_epoch img + 1 = 0"
    then have "img_epoch img = - 1" by (simp add: eq_neg_iff_add_eq_0)
    then show False using assms by simp
  qed
  then have "unat (img_epoch img + 1) = unat (img_epoch img) + 1"
    using unatSuc [of "img_epoch img"] by (simp add: add.commute)
  then have "img_epoch img < img_epoch img + 1" by (simp add: word_less_nat_alt)
  then show ?thesis unfolding recovery_epoch_def by (rule less_le_trans) simp
qed

text \<open>No authority survives a restart.\<close>

lemma recovery_effect:
  assumes "attach_store e (Some store) = (Inr report, e')" "eng_store e = None"
    "memory_open store = (Inr (load, img), st)"
  shows "map_of (eng_regions e') k = Some r \<Longrightarrow> reg_state r \<in> {CoherenceState.Retired, CoherenceState.Fenced,
      CoherenceState.RevalidationRequired}"
    and "map_of (eng_objects e') k = Some ob \<Longrightarrow> obj_writer ob = 0 \<and> obj_reads ob = [] \<and>
      obj_authority ob = AuthorityMode.RevalidationRequired"
    and "map_of (eng_participants e') k = Some p \<Longrightarrow> \<not> par_live p \<and> par_lifecycle p \<noteq> ParticipantLifecycle.Active"
    and "eng_epoch e' = recovery_epoch (eng_config e) img"
proof -
  obtain e1 report' where e1: "restore_image st load img e = (e1, report')" by force
  have e': "e' = snd (finish_recovery img (e1, report'))"
    using assms e1 by (auto simp: attach_store_def split: if_splits)
  have from_e1: "fst (restore_image st load img e) = e1" using e1 by simp
  show "reg_state r \<in> {CoherenceState.Retired, CoherenceState.Fenced, CoherenceState.RevalidationRequired}"
    if "map_of (eng_regions e') k = Some r"
  proof (rule restored_regions [of st load img e k r])
    show "map_of (eng_regions (fst (restore_image st load img e))) k = Some r"
      using that unfolding e' finish_recovery_frame from_e1 .
  qed (auto simp: restored_region_def downgraded_region_def Let_def)
  show "obj_writer ob = 0 \<and> obj_reads ob = [] \<and> obj_authority ob = AuthorityMode.RevalidationRequired"
    if "map_of (eng_objects e') k = Some ob"
  proof (rule restored_objects [of st load img e k ob])
    show "map_of (eng_objects (fst (restore_image st load img e))) k = Some ob"
      using that unfolding e' finish_recovery_frame from_e1 .
  qed simp
  show "\<not> par_live p \<and> par_lifecycle p \<noteq> ParticipantLifecycle.Active"
    if "map_of (eng_participants e') k = Some p"
    using that restored_participants [of st load img e k p] unfolding e' finish_recovery_frame from_e1 by blast
  show "eng_epoch e' = recovery_epoch (eng_config e) img"
    using restored_epoch [of st load img e] unfolding e' finish_recovery_frame from_e1 .
qed

section \<open>Synchronization\<close>

text \<open>When a completion is certified, the destination is current at the authoritative version, and a
  policy that asks for content verification has seen the expected content.\<close>

lemma accept_completion_region:
  "\<exists>r'. map_of (eng_regions (snd (accept_completion req s ob r ctx e))) (sync_destination_region s) = Some r' \<and>
     reg_state r' = CoherenceState.Current \<and> reg_version r' = sync_source_version s"
  by (simp add: accept_completion_def synchronized_region_def Let_def case_prod_beta)

lemma complete_sync_at_accepts:
  assumes "complete_sync_at req s ob r ctx e = (Inr out, e')" "so_reason out = StatusCode.Ok"
  shows "e' = snd (accept_completion req s ob r ctx e)" "obj_authoritative_version ob = sync_source_version s"
    "\<And>policy. policy_locked e ob = Some policy \<Longrightarrow> pol_require_content_fingerprint policy \<Longrightarrow>
      fp_defined (sync_expected_content s) \<Longrightarrow>
      creq_content_moved req \<and> fp_eq (creq_observed_content req) (sync_expected_content s)"
    "reg_lifecycle r \<noteq> RegionLifecycle.Retired"
  using assms
  by (auto simp: complete_sync_at_def reject_completion_def sync_outcome_def Let_def case_prod_beta
      split: if_splits option.splits)

lemma complete_sync_accepts:
  assumes fin: "complete_sync e req = (Inr out, e')" "so_reason out = StatusCode.Ok" "\<not> so_idempotent_replay out"
  obtains s ob r r' where "map_of (eng_syncs e) (creq_operation req) = Some s"
    "map_of (eng_objects e) (actx_object (creq_context req)) = Some ob" "obj_id ob = sync_object s"
    "map_of (eng_regions e) (sync_destination_region s) = Some r"
    "map_of (eng_regions e') (sync_destination_region s) = Some r'"
    "reg_state r' = CoherenceState.Current" "reg_version r' = obj_authoritative_version ob"
    "sync_source_version s = obj_authoritative_version ob"
    "sync_destination_participant s = actx_participant (creq_context req)"
    "sync_destination_boot s = actx_boot (creq_context req)"
    "\<And>policy. policy_locked e ob = Some policy \<Longrightarrow> pol_require_content_fingerprint policy \<Longrightarrow>
      fp_defined (sync_expected_content s) \<Longrightarrow>
      creq_content_moved req \<and> fp_eq (creq_observed_content req) (sync_expected_content s)"
proof -
  obtain s where s: "map_of (eng_syncs e) (creq_operation req) = Some s"
    using fin(1) by (auto simp: complete_sync_def split: option.splits)
  show thesis
  proof (cases e "creq_context req" rule: resolve_cases)
    case (Refused code found q)
    then show thesis using fin s by (simp add: complete_sync_def Let_def case_prod_beta)
  next
    case (Ok ob p)
    obtain r ctx e1 where at: "complete_sync_at req s ob r ctx e1 = (Inr out, e')"
      "map_of (eng_regions e) (sync_destination_region s) = Some r" "obj_id ob = sync_object s"
      "complete_sync_guard req s = StatusCode.Ok" "policy_locked e1 ob = policy_locked e ob"
      using fin s Ok(1)
      by (auto simp: complete_sync_def Let_def case_prod_beta sync_outcome_def policy_locked_def
          split: if_splits option.splits)
    have guard: "sync_destination_participant s = actx_participant (creq_context req)"
      "sync_destination_boot s = actx_boot (creq_context req)"
      using at(4) by (auto simp: complete_sync_guard_def split: if_splits)
    note acc = complete_sync_at_accepts [OF at(1) fin(2)]
    show thesis
      using accept_completion_region [of req s ob r ctx e1] acc s Ok(2) at guard that by auto
  qed
qed

section \<open>Giving authority up\<close>

lemma recompute_authority_simps [simp]:
  "obj_writer (recompute_authority e ob) = obj_writer ob"
  "obj_ownership_generation (recompute_authority e ob) = obj_ownership_generation ob"
  "obj_outstanding_invalidations (recompute_authority e ob) = obj_outstanding_invalidations ob"
  "obj_id (recompute_authority e ob) = obj_id ob"
  "obj_authority ob = AuthorityMode.NoAuthority \<Longrightarrow> \<not> exclusive (recompute_authority e ob)"
  by (auto simp: recompute_authority_def exclusive_def)

lemma lose_dirty_generation [simp]:
  "obj_ownership_generation (lose_dirty p msg ob) = obj_ownership_generation ob"
  by (simp add: lose_dirty_def split: DirtyLossPolicy.split)

lemma released_after_recompute:
  assumes "obj_authority ob = AuthorityMode.NoAuthority" "obj_writer ob = 0"
  shows "\<exists>ob'. the (map_of (eng_objects (recompute_authority_locked k (put_object k ob e))) k) = ob' \<and>
    obj_writer ob' = 0 \<and> \<not> exclusive ob' \<and> obj_ownership_generation ob' = obj_ownership_generation ob"
  using assms by (simp add: recompute_authority_locked_def)

lemma exclusive_update [simp]: "exclusive (ob\<lparr>obj_updated_sequence := n\<rparr>) = exclusive ob"
  by (simp add: exclusive_def)

lemma release_write_effect:
  "\<exists>ob'. map_of (eng_objects (snd (release_write req ob ctx e))) (actx_object (lreq_context req)) = Some ob' \<and>
     obj_writer ob' = 0 \<and> \<not> exclusive ob' \<and> obj_ownership_generation ob' = obj_ownership_generation ob + 1"
proof -
  define free where "free = ob\<lparr>obj_ownership_generation := next_id (obj_ownership_generation ob), obj_writer := 0,
    obj_writer_boot := 0, obj_authority := AuthorityMode.NoAuthority\<rparr>"
  define ob1 where "ob1 = (if obj_has_unpublished_dirty ob
    then lose_dirty (dirty_loss_policy_of (tick e) free) recovery_note_released free else free)"
  have ob1: "obj_authority ob1 = AuthorityMode.NoAuthority" "obj_writer ob1 = 0"
    "obj_ownership_generation ob1 = obj_ownership_generation ob + 1"
    by (simp_all add: ob1_def free_def next_id_def)
  show ?thesis
    unfolding release_write_def Let_def free_def [symmetric] ob1_def [symmetric] case_prod_beta
    using released_after_recompute [OF ob1(1,2)] ob1(3) by auto
qed

lemma release_authority_effect:
  assumes "release e req = (Inr out, e')" "lreq_lease req = 0"
  obtains ob ob' where "map_of (eng_objects e) (actx_object (lreq_context req)) = Some ob"
    "holds_write_authority ob (lreq_context req)" "lreq_ownership_generation req = obj_ownership_generation ob"
    "map_of (eng_objects e') (actx_object (lreq_context req)) = Some ob'" "obj_writer ob' = 0" "\<not> exclusive ob'"
    "obj_ownership_generation ob' = obj_ownership_generation ob + 1"
proof (cases e "lreq_context req" rule: resolve_cases)
  case (Refused code found q)
  then show thesis using assms by (simp add: release_def Let_def case_prod_beta)
next
  case (Ok ob p)
  then obtain ctx e1 where "release_write req ob ctx e1 = (Inr out, e')" "holds_write_authority ob (lreq_context req)"
    "lreq_ownership_generation req = obj_ownership_generation ob"
    using assms by (auto simp: release_def Let_def case_prod_beta split: if_splits)
  then show thesis using release_write_effect [of req ob ctx e1] Ok(2) that by auto
qed

section \<open>Progress of a transfer\<close>

text \<open>The invalidations an object still waits for.\<close>

definition awaited :: "engine \<Rightarrow> ObjectRecord \<Rightarrow> InvalidationId list" where
  "awaited e ob = filter (\<lambda>i. case map_of (eng_invalidations e) i of None \<Rightarrow> False
     | Some iv \<Rightarrow> inv_state iv = InvalidationState.Requested) (obj_outstanding_invalidations ob)"

lemma has_outstanding_awaited:
  "map_of (eng_objects e) k = Some ob \<Longrightarrow> has_outstanding_invalidations e k \<longleftrightarrow> awaited e ob \<noteq> []"
  by (auto simp: has_outstanding_invalidations_def awaited_def list_ex_iff filter_empty_conv)

lemma settle_invalidation_effect:
  assumes "inv_id iv = iack_invalidation ack" "inv_state iv \<noteq> InvalidationState.Requested"
    "obj_id ob = actx_object (iack_context ack)" and e'_def: "e' = settle_invalidation ack iv ob e"
  shows "\<exists>ob'. map_of (eng_objects e') (obj_id ob) = Some ob' \<and>
    awaited e' ob' = removeAll (iack_invalidation ack) (awaited e ob) \<and> obj_writer ob' = obj_writer ob \<and>
    (obj_authority ob = AuthorityMode.TransferPending \<longrightarrow>
     obj_authority ob' = (if awaited e' ob' = [] then AuthorityMode.ExclusiveWriter else AuthorityMode.TransferPending))"
proof -
  let ?i = "iack_invalidation ack"
  let ?e1 = "put_object (obj_id ob) (drop_invalidation ?i ob) (put_invalidation ?i iv e)"
  let ?ob = "drop_invalidation ?i ob"
  have e': "e' = put_object (obj_id ob) (recompute_authority ?e1 ?ob) ?e1"
    using assms(1,3) by (simp add: e'_def settle_invalidation_def recompute_authority_locked_def)
  have aw: "awaited ?e1 ?ob = removeAll ?i (awaited e ob)"
    using assms(2) by (auto simp: awaited_def drop_invalidation_def removeAll_filter_not_eq filter_filter
        intro!: filter_cong)
  have aw': "awaited e' (recompute_authority ?e1 ?ob) = awaited ?e1 ?ob"
    by (simp add: e' awaited_def)
  have out: "has_outstanding_invalidations ?e1 (obj_id ob) \<longleftrightarrow> awaited ?e1 ?ob \<noteq> []"
    by (rule has_outstanding_awaited) simp
  show ?thesis
  proof (intro exI [of _ "recompute_authority ?e1 ?ob"] conjI impI)
    show "map_of (eng_objects e') (obj_id ob) = Some (recompute_authority ?e1 ?ob)" by (simp add: e')
    show "awaited e' (recompute_authority ?e1 ?ob) = removeAll ?i (awaited e ob)" by (simp add: aw' aw)
    show "obj_authority (recompute_authority ?e1 ?ob) =
        (if awaited e' (recompute_authority ?e1 ?ob) = [] then AuthorityMode.ExclusiveWriter else AuthorityMode.TransferPending)"
      if "obj_authority ob = AuthorityMode.TransferPending"
      using that out unfolding aw' by (simp add: recompute_authority_def drop_invalidation_def)
  qed (simp add: drop_invalidation_def)
qed

text \<open>What an acknowledgement does to the object that waits: one invalidation less is awaited, and the
  pending transfer takes effect with the last one.\<close>

definition progresses :: "InvalidationId \<Rightarrow> engine \<Rightarrow> ObjectRecord \<Rightarrow> engine \<Rightarrow> ObjectRecord \<Rightarrow> bool" where
  "progresses i e ob e' ob' \<longleftrightarrow>
     awaited e' ob' = removeAll i (awaited e ob) \<and> obj_writer ob' = obj_writer ob \<and>
     (obj_authority ob = AuthorityMode.TransferPending \<longrightarrow>
      obj_authority ob' = (if awaited e' ob' = [] then AuthorityMode.ExclusiveWriter else AuthorityMode.TransferPending))"

lemma awaited_cong: "eng_invalidations e' = eng_invalidations e \<Longrightarrow> awaited e' ob = awaited e ob"
  by (simp add: awaited_def)

lemma awaited_update [simp]: "awaited e (ob\<lparr>obj_updated_sequence := n\<rparr>) = awaited e ob"
  by (simp add: awaited_def)

lemma supersede_invalidation_simps:
  "inv_id (supersede_invalidation n why iv) = inv_id iv"
  "inv_state (supersede_invalidation n why iv) \<noteq> InvalidationState.Requested"
  by (simp_all add: supersede_invalidation_def)

text \<open>An accepted acknowledgement of a requested invalidation settles it, in a record that is no longer
  requested, on an engine with the same invalidations.\<close>

definition settles :: "InvalidationAck \<Rightarrow> InvalidationRecord \<Rightarrow> ObjectRecord \<Rightarrow> engine \<Rightarrow> engine \<Rightarrow> bool" where
  "settles ack iv ob e e' \<longleftrightarrow>
     (\<exists>iv' e1 ob' n. inv_id iv' = inv_id iv \<and> inv_state iv' \<noteq> InvalidationState.Requested \<and>
        eng_invalidations e1 = eng_invalidations e \<and>
        map_of (eng_objects (settle_invalidation ack iv' ob e1)) (actx_object (iack_context ack)) = Some ob' \<and>
        map_of (eng_objects e') (actx_object (iack_context ack)) \<in> {Some ob', Some (ob'\<lparr>obj_updated_sequence := n\<rparr>)} \<and>
        eng_invalidations e' = eng_invalidations (settle_invalidation ack iv' ob e1))"

lemma settle_invalidation_object_at:
  "\<exists>ob'. map_of (eng_objects (settle_invalidation ack iv ob e)) (actx_object (iack_context ack)) = Some ob'"
  by (simp add: settle_invalidation_def recompute_authority_locked_def split: option.split)

lemma settlesI:
  assumes "inv_id iv' = inv_id iv" "inv_state iv' \<noteq> InvalidationState.Requested"
    "eng_invalidations e1 = eng_invalidations e"
    "eng_objects e' = eng_objects (settle_invalidation ack iv' ob e1)"
    "eng_invalidations e' = eng_invalidations (settle_invalidation ack iv' ob e1)"
  shows "settles ack iv ob e e'"
  using assms settle_invalidation_object_at [of ack iv' ob e1] unfolding settles_def by (metis insertI1)

lemma acknowledge_replica_settles:
  assumes "acknowledge_replica ack iv ob r ctx e1 = (Inr out, e')" "eng_invalidations e1 = eng_invalidations e"
  shows "settles ack iv ob e e'"
proof -
  define iv' where "iv' = iv\<lparr>inv_state := InvalidationState.Acknowledged,
    inv_settled_sequence := eng_sequence (tick e1), inv_superseded_version :=
      (if is_defined (iack_superseded_version ack) then iack_superseded_version ack else reg_version r)\<rparr>"
  define e2 where "e2 = put_region (inv_region iv')
    (invalidated_region (eng_sequence (tick e1)) (inv_id iv') r) (tick e1)"
  define e3 where "e3 = settle_invalidation ack iv' ob e2"
  obtain ob' where ob': "map_of (eng_objects e3) (actx_object (iack_context ack)) = Some ob'"
    using settle_invalidation_object_at unfolding e3_def by blast
  have "map_of (eng_objects e') (actx_object (iack_context ack)) = Some (ob'\<lparr>obj_updated_sequence := eng_sequence e3\<rparr>)"
    "eng_invalidations e' = eng_invalidations e3"
    using assms(1) ob'
    unfolding acknowledge_replica_def Let_def case_prod_beta iv'_def [symmetric] e2_def [symmetric] e3_def [symmetric]
    by (auto split: if_splits)
  moreover have "inv_id iv' = inv_id iv" "inv_state iv' \<noteq> InvalidationState.Requested" by (simp_all add: iv'_def)
  moreover have "eng_invalidations e2 = eng_invalidations e" using assms(2) by (simp add: e2_def)
  ultimately show ?thesis using ob' unfolding settles_def e3_def by blast
qed

lemma acknowledge_settles:
  assumes iv: "map_of (eng_invalidations e) (iack_invalidation ack) = Some iv" "inv_state iv = InvalidationState.Requested"
    and ack: "acknowledge_invalidation e ack = (Inr out, e')"
    and ob: "map_of (eng_objects e) (actx_object (iack_context ack)) = Some ob"
  shows "settles ack iv ob e e'"
proof (cases e "iack_context ack" rule: resolve_cases)
  case (Refused code found q)
  then show ?thesis using ack iv by (simp add: acknowledge_invalidation_def Let_def case_prod_beta)
next
  case (Ok ob1 p)
  define e1 where "e1 = snd (make_context e (iack_context ack) (inv_object iv) (inv_object_generation iv)
    (inv_ownership_generation iv))"
  have e1: "eng_invalidations e1 = eng_invalidations e" by (simp add: e1_def)
  define settled where "settled why = settle_invalidation ack (supersede_invalidation (eng_sequence e1) why iv) ob e1" for why
  have resolved: "resolve_locked e (iack_context ack) = (StatusCode.Ok, Some ob, Some p)" using Ok(1,2) ob by simp
  have guard: "ack_guard e1 ack iv ob = StatusCode.Ok"
    using ack iv resolved by (auto simp: acknowledge_invalidation_def Let_def case_prod_beta e1_def split: if_splits)
  have "(\<exists>r ctx. acknowledge_replica ack iv ob r ctx e1 = (Inr out, e')) \<or>
      (\<exists>why. eng_objects e' = eng_objects (settled why) \<and> eng_invalidations e' = eng_invalidations (settled why))"
    using ack [unfolded acknowledge_invalidation_def Let_def case_prod_beta] iv resolved guard
    by (auto simp: e1_def [symmetric] settled_def [symmetric] split: if_splits option.splits)
  then show ?thesis
    using acknowledge_replica_settles [OF _ e1] settlesI [OF _ _ e1] unfolding settled_def
    by (metis supersede_invalidation_simps)
qed

lemma acknowledge_progress:
  assumes inv: "engine_inv e" and iv: "map_of (eng_invalidations e) (iack_invalidation ack) = Some iv"
    "inv_id iv = iack_invalidation ack" "inv_state iv = InvalidationState.Requested"
    and ack: "acknowledge_invalidation e ack = (Inr out, e')"
    and ob: "map_of (eng_objects e) (actx_object (iack_context ack)) = Some ob"
  shows "\<exists>ob'. map_of (eng_objects e') (actx_object (iack_context ack)) = Some ob' \<and>
    progresses (iack_invalidation ack) e ob e' ob'"
proof -
  have id: "obj_id ob = actx_object (iack_context ack)" using inv_object [OF inv ob] by simp
  obtain iv' e1 ob' n where settled: "inv_id iv' = inv_id iv" "inv_state iv' \<noteq> InvalidationState.Requested"
    "eng_invalidations e1 = eng_invalidations e"
    "map_of (eng_objects (settle_invalidation ack iv' ob e1)) (actx_object (iack_context ack)) = Some ob'"
    "map_of (eng_objects e') (actx_object (iack_context ack)) \<in> {Some ob', Some (ob'\<lparr>obj_updated_sequence := n\<rparr>)}"
    "eng_invalidations e' = eng_invalidations (settle_invalidation ack iv' ob e1)"
    using acknowledge_settles [OF iv(1,3) ack ob] unfolding settles_def by blast
  have "progresses (iack_invalidation ack) e ob (settle_invalidation ack iv' ob e1) ob'"
    using settle_invalidation_effect [of iv' ack ob _ e1] settled(1-4) iv(2) id awaited_cong [OF settled(3), of ob]
    by (auto simp: progresses_def)
  then show ?thesis
    using settled(5) awaited_cong [OF settled(6)] by (auto simp: progresses_def)
qed

end
