(* ===== verification/Engine_Example.thy ===== *)
theory Engine_Example
  imports Protocol Engine_Failures
begin

text \<open>
  A concrete run of the engine that the witnesses of the properties evaluate: two participants with
  one replica each of one object; the first publishes, the second synchronizes its replica, and
  write authority moves from the first to the second.
\<close>

definition demo_ctx :: "ParticipantId \<Rightarrow> u64 \<Rightarrow> u64 \<Rightarrow> AuthorityContext" where
  "demo_ctx p b r = \<lparr>actx_epoch = 1, actx_participant = p, actx_boot = UInt128 0 b, actx_object = 1,
     actx_object_generation = 1, actx_policy_generation = 0, actx_request = r\<rparr>"

definition demo_content :: "u64 \<Rightarrow> ContentFingerprint" where
  "demo_content n = \<lparr>fp_digest = UInt128 0 n, fp_crc32c = 1, fp_length = 64, fp_defined = True\<rparr>"

definition demo_registration :: "ParticipantId \<Rightarrow> u64 \<Rightarrow> string \<Rightarrow> RegionRegistration" where
  "demo_registration p b name =
     \<lparr>rr_context = demo_ctx p b 0, rr_domain = 1, rr_requested_id = 0, rr_name = name,
      rr_memory_domain = MemoryDomain.HostPageable, rr_evidence_class = EvidenceClass.Real,
      rr_offset = 0, rr_length = 64, rr_address_hint = 0, rr_requested_replica = 0,
      rr_declared_writable = True, rr_initial_version = 0, rr_content = default_content_fingerprint\<rparr>"

definition demo_calls :: "call list" where
  "demo_calls =
     [CreateDomain ''d'', RegisterParticipant ''a'' (UInt128 0 7) 1 [], RegisterParticipant ''b'' (UInt128 0 8) 1 [],
      RegisterObject 1 ''x'' 64 (strict_policy ''p''),
      RegisterRegion (demo_registration 1 7 ''r''), RegisterRegion (demo_registration 2 8 ''s''),
      RevalidateRegion \<lparr>vreq_context = demo_ctx 1 7 0, vreq_region = 1, vreq_region_generation = 1,
        vreq_observed_version = 1, vreq_content = demo_content 1, vreq_byte_compared = True\<rparr>,
      AcquireWrite \<lparr>wreq_context = demo_ctx 1 7 0, wreq_region = 1, wreq_region_generation = 1\<rparr>,
      MarkDirty \<lparr>dreq_context = demo_ctx 1 7 0, dreq_region = 1, dreq_region_generation = 1,
        dreq_ownership_generation = 2, dreq_base_version = 0, dreq_content = demo_content 2\<rparr>]"

definition demo_publish :: "VersionId \<Rightarrow> u64 \<Rightarrow> PublishRequest" where
  "demo_publish v r = \<lparr>preq_context = demo_ctx 1 7 r, preq_ownership_generation = 2, preq_region = 1,
     preq_region_generation = 1, preq_expected_base_version = v, preq_content = demo_content 2,
     preq_allow_without_dirty = (v \<noteq> 0)\<rparr>"

text \<open>Small limits, so that the capacity checks evaluate.\<close>

definition demo_config :: EngineConfig where
  "demo_config = \<lparr>cfg_initial_epoch = 1, cfg_max_domains = 4, cfg_max_participants = 4,
     cfg_max_objects = 4, cfg_max_regions = 4, cfg_max_regions_per_object = 4,
     cfg_max_reads_per_object = 4, cfg_max_object_length = 64, cfg_max_outstanding_invalidations = 4,
     cfg_max_inflight_syncs = 4, cfg_max_retained_requests_per_object = 4, cfg_max_decision_log = 4,
     cfg_enable_decision_log = True, cfg_enable_durability = True\<rparr>"

definition demo_engine :: engine where
  "demo_engine = fold exec demo_calls (new_engine demo_config)"

text \<open>The first publication, as a whole and between its second and third section.\<close>

definition ticket_of :: "publish_step \<times> engine \<Rightarrow> PublishTicket" where
  "ticket_of outcome = (case fst outcome of Reserved t \<Rightarrow> t)"

definition demo_ticket :: PublishTicket where
  "demo_ticket = ticket_of (publish_reserve demo_engine (demo_publish 0 42))"

definition demo_reserved :: engine where
  "demo_reserved = snd (publish_reserve demo_engine (demo_publish 0 42))"

definition demo_published :: engine where
  "demo_published = snd (publish demo_engine (demo_publish 0 42))"

text \<open>A second reservation on the same base before the first is committed.\<close>

definition demo_rival :: PublishTicket where
  "demo_rival = ticket_of (publish_reserve demo_reserved (demo_publish 0 43))"

definition demo_contended :: engine where
  "demo_contended = snd (publish_reserve demo_reserved (demo_publish 0 43))"

text \<open>The second replica is synchronized, the writer gives its authority up, and the second participant
  asks for it, which waits for the acknowledgement of the first.\<close>

definition demo_sync :: SyncRequest where
  "demo_sync = \<lparr>sreq_context = demo_ctx 2 8 0, sreq_kind = SyncOperationKind.Copy, sreq_source_region = 1,
     sreq_source_region_generation = 1, sreq_destination_region = 2, sreq_destination_region_generation = 1,
     sreq_ownership_generation = 2, sreq_transport = ''memcpy''\<rparr>"

definition demo_complete :: SyncCompleteRequest where
  "demo_complete = \<lparr>creq_context = demo_ctx 2 8 0, creq_operation = 1, creq_destination_region = 2,
     creq_destination_region_generation = 1, creq_destination_new_version = 1, creq_observed_content = demo_content 2,
     creq_content_moved = True\<rparr>"

definition demo_release :: ReleaseRequest where
  "demo_release = \<lparr>lreq_context = demo_ctx 1 7 0, lreq_lease = 0, lreq_ownership_generation = 2,
     lreq_release_write_authority = True\<rparr>"

definition demo_write :: WriteRequest where
  "demo_write = \<lparr>wreq_context = demo_ctx 2 8 0, wreq_region = 2, wreq_region_generation = 1\<rparr>"

definition demo_ack :: InvalidationAck where
  "demo_ack = \<lparr>iack_context = demo_ctx 1 7 0, iack_invalidation = 1, iack_region = 1, iack_region_generation = 1,
     iack_replica_generation = 1, iack_superseded_version = 1\<rparr>"

definition demo_syncing :: engine where
  "demo_syncing = exec (BeginSync demo_sync) demo_published"

definition demo_synced :: engine where
  "demo_synced = exec (CompleteSync demo_complete) demo_syncing"

definition demo_released :: engine where
  "demo_released = exec (Release demo_release) demo_synced"

definition demo_transfer :: engine where
  "demo_transfer = exec (AcquireWrite demo_write) demo_released"

definition demo_read :: ReadRequest where
  "demo_read = \<lparr>rreq_context = demo_ctx 1 7 0, rreq_region = 1, rreq_region_generation = 1,
     rreq_snapshot_version = 0, rreq_require_current = True\<rparr>"

text \<open>The engine before the publication, with a store that refuses to write.\<close>

definition demo_broken :: engine where
  "demo_broken = demo_engine\<lparr>eng_store := Some ((new_memory_store default_store_limits)\<lparr>ms_closed := True\<rparr>)\<rparr>"

definition reserved_ticket :: "publish_step \<Rightarrow> bool" where
  "reserved_ticket outcome = (case outcome of Reserved t \<Rightarrow> True | Done result \<Rightarrow> False)"

section \<open>The run, evaluated\<close>

lemma demo_run:
  "let r = publish_reserve demo_engine (demo_publish 0 42); p = publish demo_engine (demo_publish 0 42);
      r2 = publish_reserve (snd r) (demo_publish 0 43); s = begin_sync (snd p) demo_sync;
      c = complete_sync (snd s) demo_complete; l = release (snd c) demo_release;
      w = acquire_write (snd l) demo_write; b = publish_reserve demo_broken (demo_publish 0 42) in
   (case map_of (eng_regions (snd p)) 1 of None \<Rightarrow> False
    | Some r \<Rightarrow> reg_state r = CoherenceState.Current \<and> reg_version r = 1 \<and> reg_object r = 1) \<and>
   (case map_of (eng_objects (snd p)) 1 of None \<Rightarrow> False
    | Some ob \<Rightarrow> obj_authoritative_version ob = 1 \<and> obj_writer ob = 1 \<and> obj_authority ob = AuthorityMode.ExclusiveWriter \<and>
       (case policy_locked (snd p) ob of None \<Rightarrow> False
        | Some policy \<Rightarrow> pol_consistency policy = ConsistencyModel.Strict)) \<and>
   (case map_of (eng_participants (snd p)) 1 of None \<Rightarrow> False
    | Some p \<Rightarrow> par_boot p = UInt128 0 7 \<and> par_lifecycle p = ParticipantLifecycle.Active) \<and>
   eng_epoch (snd p) = 1 \<and> map fst (eng_objects (snd p)) = [1] \<and>
   map fst (eng_regions (snd p)) = [1, 2] \<and>
   map fst (filter (\<lambda>(k, r). reg_object r = 1 \<and> reg_state r = CoherenceState.Current) (eng_regions (snd p))) = [1] \<and>
   reserved_ticket (fst r) \<and> eng_store (snd r) = None \<and>
   map (\<lambda>(k, ob). obj_authoritative_version ob) (eng_objects (snd r)) = [0] \<and>
   map fst (eng_objects (snd r)) = [1] \<and>
   (case fst p of Inl code \<Rightarrow> False
    | Inr receipt \<Rightarrow> pr_state receipt = PublicationState.Committed \<and> \<not> pr_idempotent_replay receipt \<and> pr_version receipt = 1) \<and>
   reserved_ticket (fst r2) \<and> eng_store (snd r2) = None \<and>
   pend_object (tk_pending (ticket_of r)) = 1 \<and> pend_prior_version (tk_pending (ticket_of r)) = 0 \<and>
   pend_object (tk_pending (ticket_of r2)) = 1 \<and> pend_prior_version (tk_pending (ticket_of r2)) = 0 \<and>
   (case fst (publish_commit (snd r2) (ticket_of r2) StatusCode.Ok) of Inl code \<Rightarrow> False
    | Inr receipt \<Rightarrow> pr_state receipt = PublicationState.Committed) \<and>
   (case fst (acquire_read (snd p) demo_read) of Inl code \<Rightarrow> False
    | Inr d \<Rightarrow> rd_outcome d = ReadOutcome.ReadCurrent \<and> rd_region d = 1) \<and>
   (case fst c of Inl code \<Rightarrow> False
    | Inr out \<Rightarrow> so_reason out = StatusCode.Ok \<and> \<not> so_idempotent_replay out) \<and>
   (case fst l of Inl code \<Rightarrow> False | Inr out \<Rightarrow> True) \<and>
   (case fst w of Inl code \<Rightarrow> False
    | Inr g \<Rightarrow> wg_granted g \<and> \<not> wg_may_mutate_now g) \<and>
   (case map_of (eng_objects (snd w)) 1 of None \<Rightarrow> False
    | Some ob \<Rightarrow> obj_authority ob = AuthorityMode.TransferPending \<and> awaited (snd w) ob = [1] \<and> obj_writer ob = 2) \<and>
   (case map_of (eng_invalidations (snd w)) 1 of None \<Rightarrow> False
    | Some iv \<Rightarrow> inv_id iv = 1 \<and> inv_state iv = InvalidationState.Requested \<and> inv_object iv = 1 \<and>
        inv_target_participant iv = 1 \<and> inv_target_boot iv = UInt128 0 7) \<and>
   eng_store (snd w) = None \<and>
   (case resolve_locked (snd w) (demo_ctx 1 7 0) of (code, Some ob, Some p) \<Rightarrow> code = StatusCode.Ok \<and>
      obj_id ob = 1 \<and> obj_authority ob = AuthorityMode.TransferPending | _ \<Rightarrow> False) \<and>
   (case fst (publish (snd l) (demo_publish 0 42)) of Inl code \<Rightarrow> False
    | Inr receipt \<Rightarrow> pr_state receipt = PublicationState.Committed) \<and>
   (case fst (acknowledge_invalidation (snd w) demo_ack) of Inl code \<Rightarrow> False | Inr out \<Rightarrow> True) \<and>
   reserved_ticket (fst b) \<and>
   (case b of (Reserved t, e) \<Rightarrow>
      fst (publish_persist e t) = StatusCode.PersistenceFailure | _ \<Rightarrow> False)"
  by code_simp

lemmas demo_states = demo_published_def demo_reserved_def demo_contended_def demo_ticket_def demo_rival_def
  demo_syncing_def demo_synced_def demo_released_def demo_transfer_def

lemma demo_facts:
  shows demo_published_region:
      "case map_of (eng_regions demo_published) 1 of None \<Rightarrow> False | Some r \<Rightarrow>
       reg_state r = CoherenceState.Current \<and> reg_version r = 1 \<and> reg_object r = 1"
    and demo_published_object:
      "case map_of (eng_objects demo_published) 1 of None \<Rightarrow> False | Some ob \<Rightarrow>
       obj_authoritative_version ob = 1 \<and> obj_writer ob = 1 \<and> obj_authority ob =
       AuthorityMode.ExclusiveWriter \<and> (case policy_locked demo_published ob of None \<Rightarrow>
       False | Some policy \<Rightarrow> pol_consistency policy = ConsistencyModel.Strict)"
    and demo_published_participant:
      "case map_of (eng_participants demo_published) 1 of None \<Rightarrow> False | Some p
       \<Rightarrow> par_boot p = UInt128 0 7 \<and> par_lifecycle p = ParticipantLifecycle.Active"
    and demo_published_epoch:
      "eng_epoch demo_published = 1"
    and demo_published_objects:
      "map fst (eng_objects demo_published) = [1]"
    and demo_published_regions:
      "map fst (eng_regions demo_published) = [1, 2]"
    and demo_published_currents:
      "map fst (filter (\<lambda>(k, r). reg_object r = 1 \<and> reg_state r = CoherenceState.Current)
       (eng_regions demo_published)) = [1]"
    and demo_reserve_ok:
      "reserved_ticket (fst (publish_reserve demo_engine (demo_publish 0 42)))"
    and demo_reserved_store:
      "eng_store demo_reserved = None"
    and demo_reserved_versions:
      "map (\<lambda>(k, ob). obj_authoritative_version ob) (eng_objects demo_reserved) = [0]"
    and demo_reserved_objects:
      "map fst (eng_objects demo_reserved) = [1]"
    and demo_publish_receipt:
      "case fst (publish demo_engine (demo_publish 0 42)) of Inl code \<Rightarrow> False | Inr receipt
       \<Rightarrow> pr_state receipt = PublicationState.Committed \<and> \<not> pr_idempotent_replay
       receipt \<and> pr_version receipt = 1"
    and demo_rival_ok:
      "reserved_ticket (fst (publish_reserve demo_reserved (demo_publish 0 43)))"
    and demo_contended_store:
      "eng_store demo_contended = None"
    and demo_ticket_object:
      "pend_object (tk_pending demo_ticket) = 1"
    and demo_ticket_prior:
      "pend_prior_version (tk_pending demo_ticket) = 0"
    and demo_rival_object:
      "pend_object (tk_pending demo_rival) = 1"
    and demo_rival_prior:
      "pend_prior_version (tk_pending demo_rival) = 0"
    and demo_rival_commits:
      "case fst (publish_commit demo_contended demo_rival StatusCode.Ok) of Inl code \<Rightarrow>
       False | Inr receipt \<Rightarrow> pr_state receipt = PublicationState.Committed"
    and demo_read_decision:
      "case fst (acquire_read demo_published demo_read) of Inl code \<Rightarrow> False | Inr d
       \<Rightarrow> rd_outcome d = ReadOutcome.ReadCurrent \<and> rd_region d = 1"
    and demo_sync_completes:
      "case fst (complete_sync demo_syncing demo_complete) of Inl code \<Rightarrow> False | Inr out
       \<Rightarrow> so_reason out = StatusCode.Ok \<and> \<not> so_idempotent_replay out"
    and demo_release_ok:
      "case fst (release demo_synced demo_release) of Inl code \<Rightarrow> False | Inr out
       \<Rightarrow> True"
    and demo_write_grant:
      "case fst (acquire_write demo_released demo_write) of Inl code \<Rightarrow> False | Inr g
       \<Rightarrow> wg_granted g \<and> \<not> wg_may_mutate_now g"
    and demo_transfer_object:
      "case map_of (eng_objects demo_transfer) 1 of None \<Rightarrow> False | Some ob \<Rightarrow>
       obj_authority ob = AuthorityMode.TransferPending \<and> awaited demo_transfer ob = [1] \<and>
       obj_writer ob = 2"
    and demo_transfer_invalidation:
      "case map_of (eng_invalidations demo_transfer) 1 of None \<Rightarrow> False
       | Some iv \<Rightarrow> inv_id iv = 1 \<and> inv_state iv = InvalidationState.Requested \<and> inv_object iv = 1 \<and>
           inv_target_participant iv = 1 \<and> inv_target_boot iv = UInt128 0 7"
    and demo_transfer_store:
      "eng_store demo_transfer = None"
    and demo_transfer_resolves:
      "case resolve_locked demo_transfer (demo_ctx 1 7 0) of (code, Some ob, Some p) \<Rightarrow> code = StatusCode.Ok \<and>
         obj_id ob = 1 \<and> obj_authority ob = AuthorityMode.TransferPending | _ \<Rightarrow> False"
    and demo_replay:
      "case fst (publish demo_released (demo_publish 0 42)) of Inl code \<Rightarrow> False
       | Inr receipt \<Rightarrow> pr_state receipt = PublicationState.Committed"
    and demo_ack_ok:
      "case fst (acknowledge_invalidation demo_transfer demo_ack) of Inl code \<Rightarrow> False | Inr
       out \<Rightarrow> True"
    and demo_broken_reserve:
      "reserved_ticket (fst (publish_reserve demo_broken (demo_publish 0 42)))"
    and demo_broken_persist:
      "case publish_reserve demo_broken (demo_publish 0 42) of (Reserved t, e) \<Rightarrow> fst
       (publish_persist e t) = StatusCode.PersistenceFailure | _ \<Rightarrow> False"
  unfolding demo_states exec.simps
  by (insert demo_run [unfolded Let_def]) (elim conjE, assumption)+

end
