(* ===== verification/Engine_Properties.thy ===== *)
theory Engine_Properties
  imports Engine_Example
begin

text \<open>
  The safety properties of the engine over every reachable state: coherence of the replicas, the
  single writer, the version order and the refinement of the abstract protocol, each with a run
  of the example on which its hypotheses hold.
\<close>

section \<open>The example run is reachable\<close>

definition demo_system :: system where
  "demo_system = \<lparr>sys_engine = demo_published, sys_flights = []\<rparr>"

lemma demo_engine_reachable: "reachable demo_config \<lparr>sys_engine = demo_engine, sys_flights = []\<rparr>"
  using reachable_calls [OF reachable.Start, of demo_config demo_calls] by (simp add: demo_engine_def)

lemma demo_reachable: "reachable demo_config demo_system"
  using reachable_publish [OF demo_engine_reachable, of "demo_publish 0 42"]
  by (simp add: demo_system_def demo_published_def)

lemma demo_step_reachable: "reachable demo_config \<lparr>sys_engine = e, sys_flights = []\<rparr> \<Longrightarrow>
    reachable demo_config \<lparr>sys_engine = exec c e, sys_flights = []\<rparr>"
  using reachable_calls [of demo_config "\<lparr>sys_engine = e, sys_flights = []\<rparr>" "[c]"] by simp

lemma demo_later_reachable:
  "reachable demo_config \<lparr>sys_engine = demo_released, sys_flights = []\<rparr>"
  "reachable demo_config \<lparr>sys_engine = demo_transfer, sys_flights = []\<rparr>"
  "reachable demo_config \<lparr>sys_engine = demo_synced, sys_flights = []\<rparr>"
  unfolding demo_transfer_def demo_released_def demo_synced_def demo_syncing_def
  by (intro demo_step_reachable demo_reachable [unfolded demo_system_def])+

text \<open>The publication between its second and third section, alone and with a rival.\<close>

definition demo_flight :: system where
  "demo_flight = \<lparr>sys_engine = demo_reserved, sys_flights = [(demo_ticket, Some StatusCode.Ok)]\<rparr>"

definition demo_race :: system where
  "demo_race = \<lparr>sys_engine = demo_contended,
     sys_flights = [(demo_rival, Some StatusCode.Ok), (demo_ticket, Some StatusCode.Ok)]\<rparr>"

lemma reserve_ticket:
  "reserved_ticket (fst (publish_reserve e req)) \<Longrightarrow>
   publish_reserve e req = (Reserved (ticket_of (publish_reserve e req)), snd (publish_reserve e req))"
  by (auto simp: reserved_ticket_def ticket_of_def prod_eq_iff split: publish_step.splits)

lemma reserve_persist_reachable:
  assumes "reachable config s" "publish_reserve (sys_engine s) req = (Reserved t, e)" "eng_store e = None"
  shows "reachable config (s\<lparr>sys_engine := e, sys_flights := (t, Some StatusCode.Ok) # sys_flights s\<rparr>)"
proof -
  let ?s1 = "s\<lparr>sys_engine := e, sys_flights := (t, None) # sys_flights s\<rparr>"
  have "step s ?s1" by (rule step.Reserve [OF assms(2)])
  moreover have "publish_persist e t = (StatusCode.Ok, e)"
    using assms(3) by (simp add: publish_persist_def)
  then have "step ?s1 (s\<lparr>sys_engine := e, sys_flights := (t, Some StatusCode.Ok) # sys_flights s\<rparr>)"
    using step.Persist [of ?s1 "[]" t "sys_flights s" StatusCode.Ok e] by simp
  ultimately show ?thesis using assms(1) reachable.Step by blast
qed

lemma demo_reserve: "publish_reserve demo_engine (demo_publish 0 42) = (Reserved demo_ticket, demo_reserved)"
  using reserve_ticket [OF demo_reserve_ok]
  by (simp add: demo_ticket_def demo_reserved_def)

lemma demo_reserve_rival: "publish_reserve demo_reserved (demo_publish 0 43) = (Reserved demo_rival, demo_contended)"
  using reserve_ticket [OF demo_rival_ok]
  by (simp add: demo_rival_def demo_contended_def)

lemma demo_flight_reachable: "reachable demo_config demo_flight"
  using reserve_persist_reachable [OF demo_engine_reachable] demo_reserve demo_reserved_store
  by (simp add: demo_flight_def)

lemma demo_race_reachable: "reachable demo_config demo_race"
  using reserve_persist_reachable [OF demo_flight_reachable] demo_reserve_rival demo_contended_store
  by (simp add: demo_flight_def demo_race_def)

lemma demo_commit: "publish_commit demo_reserved demo_ticket StatusCode.Ok =
    (fst (publish demo_engine (demo_publish 0 42)), demo_published)"
  using demo_reserve demo_reserved_store by (simp add: demo_published_def publish_def publish_persist_def)

lemma demo_region:
  obtains r where "map_of (eng_regions demo_published) 1 = Some r" "reg_state r = CoherenceState.Current"
    "reg_version r = 1" "reg_object r = 1"
  using demo_published_region by (auto split: option.splits)

lemma demo_object:
  obtains ob where "map_of (eng_objects demo_published) 1 = Some ob" "obj_authoritative_version ob = 1"
    "obj_writer ob = 1"
  using demo_published_object by (auto split: option.splits)

section \<open>Coherence of the replicas\<close>

text \<open>C1. In every state the engine can reach, through any interleaving of its operations, of the three
  sections of concurrent publications, and of recovery from a consistent store, a replica that is
  marked current is a listed replica of an existing object and holds exactly the authoritative
  version of that object, once a version has been published.\<close>

theorem current_replica_is_authoritative:
  assumes "reachable config s"
    and "map_of (eng_regions (sys_engine s)) k = Some r" and "reg_state r = CoherenceState.Current"
  shows "\<exists>ob. map_of (eng_objects (sys_engine s)) (reg_object r) = Some ob \<and> k \<in> set (obj_replicas ob) \<and>
     (obj_authoritative_version ob \<noteq> 0 \<longrightarrow> reg_version r = obj_authoritative_version ob)"
  using inv_region [OF reachable_engine_inv [OF assms(1)] assms(2)] assms(3) by (auto simp: region_inv_def)

theorem current_replica_is_authoritative_witness:
  "\<exists>r ob. map_of (eng_regions demo_published) 1 = Some r \<and> reg_state r = CoherenceState.Current \<and>
     map_of (eng_objects demo_published) 1 = Some ob \<and> 1 \<in> set (obj_replicas ob) \<and>
     obj_authoritative_version ob = 1 \<and> reg_version r = 1"
proof -
  obtain r where r: "map_of (eng_regions demo_published) 1 = Some r" "reg_state r = CoherenceState.Current"
    "reg_version r = 1" "reg_object r = 1"
    by (rule demo_region)
  moreover obtain ob where "map_of (eng_objects demo_published) 1 = Some ob" "obj_authoritative_version ob = 1"
    by (rule demo_object)
  ultimately show ?thesis
    using current_replica_is_authoritative [OF demo_reachable, of 1 r] by (auto simp: demo_system_def)
qed

text \<open>C2. In every reachable state an object has a writer exactly while its authority is exclusive or
  being transferred, and then every read lease of the object has been released: at most one
  participant can mutate the object, and no reader holds a lease beside it.\<close>

theorem single_writer_excludes_readers:
  assumes "reachable config s" and "map_of (eng_objects (sys_engine s)) k = Some ob"
  shows "obj_id ob = k \<and> (obj_writer ob \<noteq> 0 \<longleftrightarrow> obj_authority ob = AuthorityMode.ExclusiveWriter \<or>
       obj_authority ob = AuthorityMode.TransferPending) \<and>
     (obj_writer ob \<noteq> 0 \<longrightarrow> (\<forall>g \<in> set (obj_reads ob). grant_released g))"
  using inv_object [OF reachable_engine_inv [OF assms(1)] assms(2)]
  by (auto simp: authority_ok_def exclusive_def)

theorem single_writer_excludes_readers_witness:
  "\<exists>ob. map_of (eng_objects demo_published) 1 = Some ob \<and> obj_writer ob \<noteq> 0 \<and>
     (\<forall>g \<in> set (obj_reads ob). grant_released g)"
proof -
  obtain ob where "map_of (eng_objects demo_published) 1 = Some ob" "obj_writer ob = 1"
    by (rule demo_object)
  then show ?thesis
    using single_writer_excludes_readers [OF demo_reachable, of 1 ob] by (auto simp: demo_system_def)
qed



text \<open>C4. One step never takes an object away, never moves its authoritative version except to the
  next one, and never changes it at all unless the step is the commit of a publication whose
  reservation still stands and whose durable append succeeded.\<close>

theorem version_advances_only_by_commit:
  assumes "reachable config s" and "step s s'" and "map_of (eng_objects (sys_engine s)) k = Some ob"
  shows "\<exists>ob'. map_of (eng_objects (sys_engine s')) k = Some ob' \<and>
     (obj_authoritative_version ob' = obj_authoritative_version ob \<or>
      obj_authoritative_version ob' = obj_authoritative_version ob + 1 \<and>
      (\<exists>t. (t, Some StatusCode.Ok) \<in> set (sys_flights s) \<and> pend_object (tk_pending t) = k \<and>
         reservation_valid t ob \<and> sys_engine s' = snd (publish_commit (sys_engine s) t StatusCode.Ok)))"
  using step_version [OF reachable_inv [OF assms(1)] assms(2,3)] .

theorem version_advances_only_by_commit_witness:
  "\<exists>ob ob'. map_of (eng_objects demo_reserved) 1 = Some ob \<and> obj_authoritative_version ob = 0 \<and>
     map_of (eng_objects demo_published) 1 = Some ob' \<and> obj_authoritative_version ob' = 1 \<and>
     reservation_valid demo_ticket ob"
proof -
  obtain ob where ob: "map_of (eng_objects demo_reserved) 1 = Some ob" "obj_authoritative_version ob = 0"
    using demo_reserved_versions demo_reserved_objects by (cases "eng_objects demo_reserved") auto
  moreover obtain ob' where ob': "map_of (eng_objects demo_published) 1 = Some ob'" "obj_authoritative_version ob' = 1"
    by (rule demo_object)
  moreover have "step demo_flight demo_system"
    using step.Commit [of demo_flight "[]" demo_ticket StatusCode.Ok "[]"] demo_commit
    by (simp add: demo_flight_def demo_system_def)
  ultimately show ?thesis
    using version_advances_only_by_commit [OF demo_flight_reachable, of demo_system 1 ob]
    by (auto simp: demo_system_def demo_flight_def)
qed

end
