(* ===== verification/Engine_Guarantees.thy ===== *)
theory Engine_Guarantees
  imports Engine_Properties
begin

text \<open>
  What the operations of the engine guarantee to their callers, each shown on the example run: reads
  and write grants, stale requests, racing and failing publications, idempotent replay,
  synchronization, release and transfer of write authority, fencing.
\<close>

section \<open>Reads and write grants\<close>



text \<open>C6. Write authority is granted only to a requester that resolves, on an object nobody else writes;
  afterwards that requester is the only writer, no reader holds a lease, and the ownership
  generation has moved if the authority is new.  The writer may mutate at once only if no
  acknowledgement is outstanding, that is, unless the authority is still in transfer.\<close>

theorem write_grant_is_exclusive:
  assumes "reachable config s" and "acquire_write (sys_engine s) req = (Inr g, e')" and "wg_granted g"
  shows "\<exists>ob ob'. fst (resolve_locked (sys_engine s) (wreq_context req)) = StatusCode.Ok \<and>
    map_of (eng_objects (sys_engine s)) (actx_object (wreq_context req)) = Some ob \<and>
    (obj_writer ob = 0 \<or> holds_write_authority ob (wreq_context req)) \<and>
    map_of (eng_objects e') (actx_object (wreq_context req)) = Some ob' \<and>
    holds_write_authority ob' (wreq_context req) \<and> (\<forall>l \<in> set (obj_reads ob'). grant_released l) \<and>
    obj_authority ob' = (if wg_may_mutate_now g then AuthorityMode.ExclusiveWriter else AuthorityMode.TransferPending) \<and>
    obj_ownership_generation ob' =
      (if obj_writer ob = 0 then obj_ownership_generation ob + 1 else obj_ownership_generation ob) \<and>
    obj_authoritative_version ob' = obj_authoritative_version ob"
  using acquire_write_grant [OF reachable_engine_inv [OF assms(1)] assms(2,3)]
  by (auto simp: writes_alone_def)

theorem write_grant_is_exclusive_witness:
  "\<exists>g ob. fst (acquire_write demo_released demo_write) = Inr g \<and> wg_granted g \<and> \<not> wg_may_mutate_now g \<and>
     map_of (eng_objects demo_transfer) 1 = Some ob \<and> obj_authority ob = AuthorityMode.TransferPending \<and>
     (\<forall>l \<in> set (obj_reads ob). grant_released l)"
proof -
  obtain g where g: "acquire_write demo_released demo_write = (Inr g, demo_transfer)" "wg_granted g"
    "\<not> wg_may_mutate_now g"
    using demo_write_grant by (cases "acquire_write demo_released demo_write")
      (auto simp: demo_transfer_def split: sum.splits)
  have "actx_object (wreq_context demo_write) = 1" by (simp add: demo_write_def demo_ctx_def)
  then show ?thesis
    using write_grant_is_exclusive [OF demo_later_reachable(1), of demo_write g demo_transfer] g by auto
qed

section \<open>Stale requests\<close>



section \<open>Publication\<close>

text \<open>C8. A publication that is answered as committed for the first time came from the exclusive writer
  under its ownership generation and on the authoritative version it named; afterwards the object
  has the next version, the published region holds it, and no other replica is current.\<close>

theorem publish_installs_next_version:
  assumes "reachable config s" and "publish (sys_engine s) req = (Inr receipt, e')"
    and "pr_state receipt = PublicationState.Committed" and "\<not> pr_idempotent_replay receipt"
  shows "\<exists>ob ob' r. map_of (eng_objects (sys_engine s)) (actx_object (preq_context req)) = Some ob \<and>
    obj_authority ob = AuthorityMode.ExclusiveWriter \<and> holds_write_authority ob (preq_context req) \<and>
    preq_ownership_generation req = obj_ownership_generation ob \<and>
    preq_expected_base_version req = obj_authoritative_version ob \<and>
    pr_version receipt = obj_authoritative_version ob + 1 \<and>
    map_of (eng_objects e') (actx_object (preq_context req)) = Some ob' \<and>
    obj_authoritative_version ob' = pr_version receipt \<and>
    map_of (eng_regions e') (preq_region req) = Some r \<and> reg_object r = obj_id ob \<and>
    reg_state r = CoherenceState.Current \<and> reg_version r = pr_version receipt \<and>
    (\<forall>j r. map_of (eng_regions e') j = Some r \<and> reg_object r = obj_id ob \<and> j \<noteq> preq_region req \<longrightarrow>
       reg_state r \<noteq> CoherenceState.Current)"
  by (rule publish_effect [OF reachable_engine_inv [OF assms(1)] assms(2-4)])

lemma demo_receipt:
  obtains receipt where "publish demo_engine (demo_publish 0 42) = (Inr receipt, demo_published)"
    "pr_state receipt = PublicationState.Committed" "\<not> pr_idempotent_replay receipt" "pr_version receipt = 1"
  using demo_publish_receipt
  by (cases "publish demo_engine (demo_publish 0 42)") (auto simp: demo_published_def split: sum.splits)

theorem publish_installs_next_version_witness:
  "\<exists>receipt r. fst (publish demo_engine (demo_publish 0 42)) = Inr receipt \<and> pr_version receipt = 1 \<and>
     map_of (eng_regions demo_published) 1 = Some r \<and> reg_version r = 1 \<and> reg_state r = CoherenceState.Current"
proof -
  obtain receipt where receipt: "publish demo_engine (demo_publish 0 42) = (Inr receipt, demo_published)"
    "pr_state receipt = PublicationState.Committed" "\<not> pr_idempotent_replay receipt" "pr_version receipt = 1"
    by (rule demo_receipt)
  have "preq_region (demo_publish 0 42) = 1" by (simp add: demo_publish_def)
  then show ?thesis
    using publish_installs_next_version [OF demo_engine_reachable, of "demo_publish 0 42" receipt demo_published] receipt
    by auto
qed

text \<open>C9. Sending a committed publication again under the same request identity is answered with the
  version and publication of the first commit, marked as a replay, and changes nothing.\<close>

theorem publish_is_idempotent:
  assumes "reachable config s" and "publish (sys_engine s) req = (Inr receipt, e')"
    and "pr_state receipt = PublicationState.Committed" and "\<not> pr_idempotent_replay receipt"
    and "actx_request (preq_context req) \<noteq> 0"
  shows "(\<exists>again. fst (publish e' req) = Inr again \<and> pr_idempotent_replay again \<and>
      pr_state again = PublicationState.Committed \<and> pr_version again = pr_version receipt \<and>
      pr_publication again = pr_publication receipt) \<and> untouched e' (snd (publish e' req))"
  using publish_idempotent [OF reachable_engine_inv [OF assms(1)] assms(2-5)] by blast

theorem publish_is_idempotent_witness:
  "\<exists>again. fst (publish demo_published (demo_publish 0 42)) = Inr again \<and> pr_idempotent_replay again \<and>
     pr_version again = 1"
proof -
  obtain receipt where receipt: "publish demo_engine (demo_publish 0 42) = (Inr receipt, demo_published)"
    "pr_state receipt = PublicationState.Committed" "\<not> pr_idempotent_replay receipt" "pr_version receipt = 1"
    by (rule demo_receipt)
  have "actx_request (preq_context (demo_publish 0 42)) \<noteq> 0" by (simp add: demo_publish_def demo_ctx_def)
  then show ?thesis
    using publish_is_idempotent [OF demo_engine_reachable, of "demo_publish 0 42" receipt demo_published] receipt
    by auto
qed

text \<open>Over a bounded number of steps the authoritative version counts the commits: it cannot come back.\<close>

lemma steps_version:
  assumes "reachable config s" "(step ^^ n) s s'" "map_of (eng_objects (sys_engine s)) k = Some ob"
  shows "reachable config s' \<and> (\<exists>ob' j. j \<le> n \<and> map_of (eng_objects (sys_engine s')) k = Some ob' \<and>
    obj_authoritative_version ob' = obj_authoritative_version ob + of_nat j)"
  using assms(2)
proof (induction n arbitrary: s')
  case 0
  then show ?case using assms by (auto intro: exI [of _ "0 :: nat"])
next
  case (Suc n)
  then obtain s1 where s1: "(step ^^ n) s s1" "step s1 s'" by auto
  obtain ob1 j where ob1: "reachable config s1" "j \<le> n" "map_of (eng_objects (sys_engine s1)) k = Some ob1"
    "obj_authoritative_version ob1 = obj_authoritative_version ob + of_nat j"
    using Suc.IH [OF s1(1)] by auto
  obtain ob' where ob': "map_of (eng_objects (sys_engine s')) k = Some ob'"
    "obj_authoritative_version ob' = obj_authoritative_version ob1 \<or>
     obj_authoritative_version ob' = obj_authoritative_version ob1 + 1"
    using step_version [OF reachable_inv [OF ob1(1)] s1(2) ob1(3)] by auto
  moreover have "reachable config s'" using reachable.Step [OF ob1(1) s1(2)] .
  ultimately show ?case
    using ob1 by (auto simp: add.assoc intro: exI [of _ j] exI [of _ "Suc j"])
qed

lemma version_does_not_return:
  fixes v :: VersionId
  assumes "j \<le> n" "n < 2 ^ 64 - 1"
  shows "v + 1 + of_nat j \<noteq> v"
proof
  assume "v + 1 + of_nat j = v"
  then have "(of_nat (Suc j) :: VersionId) = 0" by (simp add: add.commute add.left_commute)
  then have "(2 :: nat) ^ 64 dvd Suc j" by (simp only: word_of_nat_eq_0_iff) simp
  then show False using assms by (auto dest: dvd_imp_le)
qed

text \<open>C10. Of two publications reserved on the same version of an object at most one commits: once one
  has committed, the other one is refused or answered as aborted with an unknown outcome, however
  many steps of other callers come between (as long as they are too few to wrap the 64-bit version
  around), and its commit changes no replica.\<close>

theorem racing_publications_commit_once:
  assumes "reachable config s" and "sys_flights s = xs @ (t, Some code) # ys"
    and "publish_commit (sys_engine s) t code = (Inr receipt, e)" and "pr_state receipt = PublicationState.Committed"
    and "pend_object (tk_pending rival) = pend_object (tk_pending t)"
    and "pend_prior_version (tk_pending rival) = pend_prior_version (tk_pending t)"
    and "(step ^^ n) (s\<lparr>sys_engine := e, sys_flights := xs @ ys\<rparr>) s'" and "n < 2 ^ 64 - 1"
  shows "(case fst (publish_commit (sys_engine s') rival code') of Inl _ \<Rightarrow> True
      | Inr answer \<Rightarrow> pr_state answer = PublicationState.Aborted \<and> pr_reason answer = StatusCode.OutcomeUnknown) \<and>
    eng_regions (snd (publish_commit (sys_engine s') rival code')) = eng_regions (sys_engine s')"
proof -
  let ?k = "pend_object (tk_pending t)" and ?s1 = "s\<lparr>sys_engine := e, sys_flights := xs @ ys\<rparr>"
  have step: "step s ?s1" by (rule step.Commit [OF assms(2,3)])
  have flight: "flight_ok (sys_engine s) t"
    using reachable_inv [OF assms(1)] assms(2) by (simp add: system_inv_def)
  obtain ob where ob: "map_of (eng_objects (sys_engine s)) ?k = Some ob" "reservation_valid t ob" "code = StatusCode.Ok"
    using publish_commit_answer [OF assms(3,4)] by blast
  have "advances (preq_region (tk_request t)) ?k (pend_version (tk_pending t)) (sys_engine s) e"
    using publish_commit_advances [OF reachable_engine_inv [OF assms(1)] _ ob(1,2)] flight assms(3) ob(3)
    by (simp add: flight_ok_def)
  then obtain ob1 where ob1: "map_of (eng_objects (sys_engine ?s1)) ?k = Some ob1"
    "obj_authoritative_version ob1 = pend_prior_version (tk_pending t) + 1"
    using flight by (auto simp: advances_def flight_ok_def)
  obtain ob' j where "j \<le> n" "map_of (eng_objects (sys_engine s')) ?k = Some ob'"
    "obj_authoritative_version ob' = pend_prior_version (tk_pending t) + 1 + of_nat j"
    using steps_version [OF reachable.Step [OF assms(1) step] assms(7) ob1(1)] ob1(2) by auto
  then have "obj_authoritative_version ob'' \<noteq> pend_prior_version (tk_pending rival)"
    if "map_of (eng_objects (sys_engine s')) (pend_object (tk_pending rival)) = Some ob''" for ob''
    using that version_does_not_return [OF _ assms(8)] assms(5,6) by auto
  then show ?thesis
    using stale_commit_refused [of "sys_engine s'" rival] by (auto split: sum.splits)
qed

theorem racing_publications_commit_once_witness:
  "\<exists>receipt e. publish_commit demo_contended demo_rival StatusCode.Ok = (Inr receipt, e) \<and>
     pr_state receipt = PublicationState.Committed \<and>
     eng_regions (snd (publish_commit e demo_ticket StatusCode.Ok)) = eng_regions e"
proof -
  obtain receipt e where commit: "publish_commit demo_contended demo_rival StatusCode.Ok = (Inr receipt, e)"
    "pr_state receipt = PublicationState.Committed"
    using demo_rival_commits by (cases "publish_commit demo_contended demo_rival StatusCode.Ok") (auto split: sum.splits)
  then show ?thesis
    using racing_publications_commit_once [OF demo_race_reachable, of "[]" demo_rival StatusCode.Ok
        "[(demo_ticket, Some StatusCode.Ok)]" receipt e demo_ticket 0 "demo_race\<lparr>sys_engine := e,
        sys_flights := [(demo_ticket, Some StatusCode.Ok)]\<rparr>" StatusCode.Ok]
      demo_ticket_object demo_ticket_prior demo_rival_object demo_rival_prior
    by (simp add: demo_race_def)
qed

text \<open>C11. A publication whose durable append fails is answered with an error and publishes nothing: every
  object keeps its version, and a replica is current afterwards only if it was current before.\<close>

theorem failed_append_leaves_replicas:
  assumes "publish_reserve e req = (Reserved t, e1)" and "publish_persist e1 t = (code, e2)"
    and "code \<noteq> StatusCode.Ok"
  shows "isl (fst (publish e req)) \<and>
    (\<forall>k ob. map_of (eng_objects e) k = Some ob \<longrightarrow> (\<exists>ob'. map_of (eng_objects (snd (publish e req))) k = Some ob' \<and>
       obj_authoritative_version ob' = obj_authoritative_version ob)) \<and>
    (\<forall>k r. map_of (eng_regions e) k = Some r \<longrightarrow> (\<exists>r'. map_of (eng_regions (snd (publish e req))) k = Some r' \<and>
       (reg_state r' = CoherenceState.Current \<longrightarrow> reg_state r = CoherenceState.Current \<and> reg_version r' = reg_version r)))"
proof -
  have run: "publish e req = publish_commit e2 t code" using assms(1,2) by (simp add: publish_def)
  have "calm e e1" using calm_publish_reserve [of e req] assms(1) by simp
  moreover have "calm e1 e2" using calm_publish_persist [of e1 t] assms(2) by simp
  ultimately have calm: "calm e (snd (publish e req))"
    using failed_append_publishes_nothing(1) [OF assms(3), of e2 t] calm.trans unfolding run by blast
  have "isl (fst (publish e req))"
    using failed_append_publishes_nothing(2) [OF assms(3), of e2 t] by (auto simp: run)
  then show ?thesis using calm unfolding calm_def object_kept_def region_kept_def by blast
qed

theorem failed_append_leaves_replicas_witness:
  "isl (fst (publish demo_broken (demo_publish 0 42)))"
proof -
  obtain t e1 e2 where "publish_reserve demo_broken (demo_publish 0 42) = (Reserved t, e1)"
    "publish_persist e1 t = (StatusCode.PersistenceFailure, e2)"
    using demo_broken_persist
    by (cases "publish_reserve demo_broken (demo_publish 0 42)")
      (auto split: publish_step.splits simp: prod_eq_iff)
  then show ?thesis using failed_append_leaves_replicas by blast
qed

section \<open>Synchronization and release\<close>

text \<open>C12. A synchronization is completed only by the participant and boot it was opened for, while its
  source version is still the authoritative one, and, where the policy demands a content
  fingerprint, only if the content moved and the observed fingerprint is the expected one; then
  the destination replica is current at the authoritative version.\<close>

theorem sync_certifies_expected_content:
  assumes "complete_sync e req = (Inr out, e')" and "so_reason out = StatusCode.Ok" and "\<not> so_idempotent_replay out"
  shows "\<exists>sync ob r. map_of (eng_syncs e) (creq_operation req) = Some sync \<and>
    map_of (eng_objects e) (actx_object (creq_context req)) = Some ob \<and> obj_id ob = sync_object sync \<and>
    sync_source_version sync = obj_authoritative_version ob \<and>
    sync_destination_participant sync = actx_participant (creq_context req) \<and>
    sync_destination_boot sync = actx_boot (creq_context req) \<and>
    (\<forall>policy. policy_locked e ob = Some policy \<and> pol_require_content_fingerprint policy \<and>
       fp_defined (sync_expected_content sync) \<longrightarrow>
       creq_content_moved req \<and> fp_eq (creq_observed_content req) (sync_expected_content sync)) \<and>
    map_of (eng_regions e') (sync_destination_region sync) = Some r \<and> reg_state r = CoherenceState.Current \<and>
    reg_version r = obj_authoritative_version ob"
proof (rule complete_sync_accepts [OF assms])
qed blast

theorem sync_certifies_expected_content_witness:
  "\<exists>sync r. map_of (eng_syncs demo_syncing) 1 = Some sync \<and>
     map_of (eng_regions demo_synced) (sync_destination_region sync) = Some r \<and> reg_state r = CoherenceState.Current"
proof -
  obtain out where "complete_sync demo_syncing demo_complete = (Inr out, demo_synced)" "so_reason out = StatusCode.Ok"
    "\<not> so_idempotent_replay out"
    using demo_sync_completes by (cases "complete_sync demo_syncing demo_complete")
      (auto simp: demo_synced_def split: sum.splits)
  then show ?thesis
    using sync_certifies_expected_content [of demo_syncing demo_complete out demo_synced]
    by (auto simp: demo_complete_def)
qed


lemma demo_replayed:
  obtains receipt e where "publish demo_released (demo_publish 0 42) = (Inr receipt, e)"
    "pr_state receipt = PublicationState.Committed"
  using demo_replay by (cases "publish demo_released (demo_publish 0 42)") (auto split: sum.splits)


section \<open>Progress of a transfer\<close>

lemma resolved_object:
  "resolve_locked e ctx = (StatusCode.Ok, Some ob, Some p) \<Longrightarrow> map_of (eng_objects e) (actx_object ctx) = Some ob"
  using resolve_cases [of e ctx] by fastforce

text \<open>Without a store the acknowledgement of its target is accepted.\<close>

lemma append_without_store [simp]:
  "eng_store e = None \<Longrightarrow> append_many_locked e bodies = (StatusCode.Ok, e)"
  "eng_store e = None \<Longrightarrow> append_locked e body = (StatusCode.Ok, e)"
  by (simp_all add: append_many_locked_def append_locked_def)

lemma settle_invalidation_store [simp]: "eng_store (settle_invalidation ack iv ob e) = eng_store e"
  by (simp add: settle_invalidation_def recompute_authority_locked_def put_object_def put_invalidation_def
      split: option.split)

lemma acknowledge_replica_accepted:
  "eng_store e = None \<Longrightarrow> \<exists>out. fst (acknowledge_replica ack iv ob r ctx e) = Inr out"
  by (simp add: acknowledge_replica_def Let_def put_object_def put_region_def tick_def)

lemma acknowledge_accepted:
  assumes "eng_store e = None" "map_of (eng_invalidations e) (iack_invalidation ack) = Some iv"
    "inv_state iv = InvalidationState.Requested"
    "resolve_locked e (iack_context ack) = (StatusCode.Ok, Some ob, Some p)" "inv_object iv = obj_id ob"
    "inv_target_participant iv = actx_participant (iack_context ack)"
    "inv_target_boot iv = actx_boot (iack_context ack)"
  shows "\<exists>out. fst (acknowledge_invalidation e ack) = Inr out"
proof -
  define e1 where "e1 = snd (make_context e (iack_context ack) (inv_object iv) (inv_object_generation iv)
    (inv_ownership_generation iv))"
  have "eng_store e1 = None" using assms(1) by (simp add: e1_def make_context_def Let_def)
  moreover have "ack_guard e1 ack iv ob = StatusCode.Ok" using assms(5-7) by (simp add: ack_guard_def)
  ultimately show ?thesis
    using assms(2-4) acknowledge_replica_accepted [of e1 ack iv ob]
    unfolding acknowledge_invalidation_def Let_def
    by (simp add: case_prod_beta e1_def [symmetric] split: option.split)
qed



section \<open>Failures\<close>




text \<open>The example store after a crash: its journal records epoch 7.\<close>

definition crashed_store :: MemoryDurableStore where
  "crashed_store = example_store\<lparr>ms_journal := encode_journal_entry example_entry\<rparr>"

lemma crashed_store_opens:
  obtains load st where "memory_open crashed_store =
    (Inr (load, empty_image\<lparr>img_epoch := 7, img_sequence := 1\<rparr>), st)"
proof -
  have "replay default_store_limits empty_image report (encode_journal_entry example_entry) =
      (empty_image\<lparr>img_epoch := 7, img_sequence := 1\<rparr>, replayed_once report)" for report
    using replay_entry [OF example_entry_ok, of empty_image report "[]"]
    by (simp add: replay_Nil) (simp add: example_entry_def apply_journal_entry_def empty_image_def)
  then show thesis
    using that by (simp add: memory_open_def crashed_store_def example_store_def new_memory_store_def Let_def)
qed


end
