(* ===== verification/Service_Example.thy ===== *)
theory Service_Example
  imports Coordinator Engine_Guarantees
begin

text \<open>
  The example run behind a coordinator: the first participant holds write authority after its
  publication and either comes back under a new boot, or loses its connection and reconnects.
\<close>

definition demo_coordinator :: "engine \<Rightarrow> Coordinator" where
  "demo_coordinator e = \<lparr>co_engine = e, co_store = [], co_sessions = [], co_participant_session = [], co_stopping = False,
     co_accepted = 0, co_rejected = 0, co_max_sessions = 4, co_correlation_window = 4,
     co_recovery = empty_recovery_report\<rparr>"

definition demo_hello :: "string \<Rightarrow> u64 \<Rightarrow> HelloRequest" where
  "demo_hello name boot = \<lparr>hr_protocol_version = 1, hr_schema = 1, hr_build = [], hr_participant_name = name,
     hr_boot = UInt128 0 boot, hr_node_label = [], hr_nonce = 0, hr_observer = False\<rparr>"

definition demo_session :: Session where
  "demo_session = new_session (UInt128 0 1) 1 (demo_hello ''a'' 7)"

definition demo_service :: Coordinator where
  "demo_service = (demo_coordinator demo_published)
     \<lparr>co_store := [(UInt128 0 1, demo_session)], co_sessions := [UInt128 0 1],
      co_participant_session := [(1, UInt128 0 1)]\<rparr>"

definition demo_rejoin :: "HelloResponse Result \<times> Coordinator" where
  "demo_rejoin = hello [] (UInt128 0 2) (demo_hello ''a'' 9) demo_service"

definition demo_reconnect :: "HelloResponse Result \<times> Coordinator" where
  "demo_reconnect = hello [] (UInt128 0 3) (demo_hello ''a'' 7) (teardown (UInt128 0 1) demo_service)"

text \<open>The same at the engine: the participant is fenced and registers again under its boot.\<close>

definition demo_flagged :: engine where
  "demo_flagged = exec (call.RegisterParticipant ''a'' (UInt128 0 7) 1 []) (exec (call.FenceParticipant 1 1 []) demo_published)"

lemma demo_service_run:
  "let p = snd (publish demo_engine (demo_publish 0 42));
       c = (demo_coordinator p)\<lparr>co_store := [(UInt128 0 1, demo_session)], co_sessions := [UInt128 0 1],
         co_participant_session := [(1, UInt128 0 1)]\<rparr>;
       h = hello [] (UInt128 0 2) (demo_hello ''a'' 9) c;
       b = hello [] (UInt128 0 3) (demo_hello ''a'' 7) (teardown (UInt128 0 1) c) in
   ar_clean (audit p) \<and>
   (case find_participant p ''a'' of Inl _ \<Rightarrow> False
    | Inr q \<Rightarrow> par_id q = 1 \<and> par_boot q = UInt128 0 7 \<and> par_lifecycle q = ParticipantLifecycle.Active \<and>
        map_of (eng_participants p) 1 = Some q) \<and>
   (case fst h of Inl _ \<Rightarrow> False | Inr _ \<Rightarrow> True) \<and>
   (case map_of (eng_objects (co_engine (snd h))) 1 of None \<Rightarrow> False | Some ob \<Rightarrow> True) \<and>
   (case fst b of Inl _ \<Rightarrow> False | Inr _ \<Rightarrow> True) \<and>
   (case map_of (eng_participants (co_engine (snd b))) 1 of None \<Rightarrow> False
    | Some q \<Rightarrow> par_lifecycle q = ParticipantLifecycle.Fenced \<and> par_live q) \<and>
   \<not> ar_clean (audit (co_engine (snd b))) \<and>
   \<not> ar_clean (audit (exec (call.RegisterParticipant ''a'' (UInt128 0 7) 1 []) (exec (call.FenceParticipant 1 1 []) p)))"
  by code_simp

lemma demo_service_facts:
  shows demo_audit_clean: "ar_clean (audit demo_published)"
    and demo_find: "case find_participant demo_published ''a'' of Inl _ \<Rightarrow> False
      | Inr q \<Rightarrow> par_id q = 1 \<and> par_boot q = UInt128 0 7 \<and> par_lifecycle q = ParticipantLifecycle.Active \<and>
          map_of (eng_participants demo_published) 1 = Some q"
    and demo_rejoin_ok: "case fst demo_rejoin of Inl _ \<Rightarrow> False | Inr _ \<Rightarrow> True"
    and demo_rejoin_object: "case map_of (eng_objects (co_engine (snd demo_rejoin))) 1 of None \<Rightarrow> False | Some ob \<Rightarrow> True"
    and demo_reconnect_ok: "case fst demo_reconnect of Inl _ \<Rightarrow> False | Inr _ \<Rightarrow> True"
    and demo_reconnect_fenced: "case map_of (eng_participants (co_engine (snd demo_reconnect))) 1 of None \<Rightarrow> False
      | Some q \<Rightarrow> par_lifecycle q = ParticipantLifecycle.Fenced \<and> par_live q"
    and demo_reconnect_audit: "\<not> ar_clean (audit (co_engine (snd demo_reconnect)))"
    and demo_flagged_audit: "\<not> ar_clean (audit demo_flagged)"
  unfolding demo_flagged_def demo_published_def demo_rejoin_def demo_reconnect_def demo_service_def
  by (insert demo_service_run [unfolded Let_def]) (elim conjE, assumption)+

end
