(* ===== verification/Coordinator_Properties.thy ===== *)
theory Coordinator_Properties
  imports Service_Example
begin

text \<open>
  What the coordinator guarantees: frames survive the socket and damaged ones are refused, replayed
  frames are refused, a session acts only as itself and an observer not at all, and everything the
  coordinator does to the engine is a run of the engine, so that the guarantees of the engine hold
  for its clients.
\<close>

section \<open>Frames\<close>

text \<open>C29. Whatever pieces the socket delivers it in, a frame that was written is read back with its header
  and body, and nothing behind it is consumed; a frame in whose body up to four consecutive bytes
  were damaged is refused as an integrity failure.\<close>

theorem frames_survive_the_socket:
  assumes "stream_socket recv pending" and "sock_valid sock" and "header_ok limits header (pre @ w @ post)"
    and "length w' = length w" and "length w \<le> 4"
    and "pending (sock_os sock) = take kFrameHeaderSize (encode_frame header (pre @ w @ post)) @ (pre @ w' @ post) @ rest"
  shows "\<exists>sock'. read_frame recv limits sock =
      (if w' = w then Inr \<lparr>fr_header = header, fr_body = pre @ w @ post\<rparr> else Inl StatusCode.IntegrityFailure, sock') \<and>
    pending (sock_os sock') = rest"
proof -
  have head: "take kFrameHeaderSize (encode_frame header (pre @ w @ post)) = frame_header_bytes header (pre @ w @ post)"
    by (simp add: encode_frame_split)
  have "w' = w \<or> crc32c (pre @ w' @ post) \<noteq> crc32c (pre @ w @ post)"
    using crc32c_window [of pre w' post w] assms(4,5) by auto
  then show ?thesis
    using read_frame_stream [OF assms(1,2) assms(6) [unfolded head] assms(3)] assms(4) by auto
qed

text \<open>A socket that hands out one byte at a time.\<close>

definition drip :: "bytes recv_call" where
  "drip n s = (Some (take 1 s), drop 1 s)"

lemma drip_stream: "stream_socket drip id"
  unfolding stream_socket_def
proof (intro allI impI)
  fix n :: nat and s :: bytes
  assume "0 < n \<and> id s \<noteq> []"
  then show "\<exists>k s'. 0 < k \<and> k \<le> n \<and> k \<le> length (id s) \<and> drip n s = (Some (take k (id s)), s') \<and> id s' = drop k (id s)"
    by (intro exI [of _ 1] exI [of _ "drop 1 s"]) (auto simp: drip_def Suc_le_eq)
qed

definition ping_header :: FrameHeader where
  "ping_header = \<lparr>fh_version = 1, fh_type = MessageType.Ping, fh_flags = 0, fh_session = UInt128 0 1,
     fh_epoch = 1, fh_sequence = 1, fh_correlation = 5\<rparr>"

theorem frames_survive_the_socket_witness:
  "\<exists>sock. read_frame drip default_frame_limits
     \<lparr>sock_valid = True, sock_os = take kFrameHeaderSize (encode_frame ping_header [1, 2, 3]) @ [1, 7, 3]\<rparr> =
     (Inl StatusCode.IntegrityFailure, sock)"
proof -
  have "header_ok default_frame_limits ping_header ([1] @ [2] @ [3])"
    by (simp add: header_ok_def ping_header_def protocol_version_def default_frame_limits_def)
  then show ?thesis
    using frames_survive_the_socket [OF drip_stream, of
        "\<lparr>sock_valid = True, sock_os = take kFrameHeaderSize (encode_frame ping_header [1, 2, 3]) @ [1, 7, 3]\<rparr>"
        default_frame_limits ping_header "[1]" "[2]" "[3]" "[7]" "[]"]
    by auto
qed

section \<open>Replay\<close>

text \<open>The two records of a session's correlations agree and stay within the window.\<close>

definition window_inv :: "u64 \<Rightarrow> Session \<Rightarrow> bool" where
  "window_inv window s \<longleftrightarrow> distinct (ses_recent_correlations s) \<and>
     set (ses_correlation_set s) = set (ses_recent_correlations s) \<and>
     length (ses_recent_correlations s) \<le> unat window"

lemma trim_window_eq:
  assumes "distinct recent" "set known = set recent"
  shows "fst (trim_window n recent known) = drop (length recent - n) recent \<and>
    set (snd (trim_window n recent known)) = set (drop (length recent - n) recent)"
  using assms
proof (induction n recent known rule: trim_window.induct)
  case (2 n front recent known)
  show ?case
  proof (cases "length (front # recent) > n")
    case True
    then have "length (front # recent) - n = Suc (length recent - n)" by simp
    then show ?thesis using 2 True by auto
  qed (use 2 in auto)
qed simp

lemma remember_correlation_window:
  assumes "window_inv window s" "correlation \<notin> set (ses_correlation_set s)"
  shows "window_inv window (remember_correlation window correlation s)"
    "ses_recent_correlations (remember_correlation window correlation s) =
       drop (Suc (length (ses_recent_correlations s)) - unat window) (ses_recent_correlations s @ [correlation])"
    "ses_last_sequence (remember_correlation window correlation s) = ses_last_sequence s"
proof -
  let ?recent = "ses_recent_correlations s @ [correlation]" and ?known = "ss_insert correlation (ses_correlation_set s)"
  have "distinct ?recent" "set ?known = set ?recent" using assms by (auto simp: window_inv_def)
  note eq = trim_window_eq [OF this, of "unat window"]
  show "ses_recent_correlations (remember_correlation window correlation s) =
      drop (Suc (length (ses_recent_correlations s)) - unat window) ?recent"
    using eq by (simp add: remember_correlation_def case_prod_beta del: drop_append)
  show "window_inv window (remember_correlation window correlation s)"
    using eq distinct_drop [OF \<open>distinct ?recent\<close>]
    by (simp add: remember_correlation_def case_prod_beta window_inv_def del: drop_append distinct_append)
qed (simp add: remember_correlation_def case_prod_beta)

lemma admit_frame_window:
  "window_inv window s \<Longrightarrow> window_inv window (snd (admit_frame window epoch header s))"
  using remember_correlation_window(1) [of window "s\<lparr>ses_last_sequence := fh_sequence header\<rparr>" "fh_correlation header"]
  by (auto simp: admit_frame_def Let_def window_inv_def)

lemma admitted_advances:
  "fst (admit_frame window epoch header s) = Admitted \<Longrightarrow>
   fh_session header = ses_id s \<and> ses_last_sequence s < fh_sequence header \<and> fh_epoch header = epoch \<and>
   fh_correlation header \<notin> set (ses_correlation_set s) \<and>
   ses_last_sequence (snd (admit_frame window epoch header s)) = fh_sequence header \<and>
   ses_id (snd (admit_frame window epoch header s)) = ses_id s"
  by (auto simp: admit_frame_def Let_def remember_correlation_def case_prod_beta not_le split: if_splits)

lemma drop_append_shift:
  "d \<le> length xs \<Longrightarrow> d \<le> k \<Longrightarrow> (drop d xs @ ys) ! (k - d) = (xs @ ys) ! k"
  using nth_drop [of d "xs @ ys" "k - d"] by simp

lemma admitted_recent:
  assumes "window_inv window s" "admit_frame window epoch header s = (Admitted, s')"
  shows "fh_correlation header \<notin> set (ses_recent_correlations s) \<and> ses_recent_correlations s' =
    drop (Suc (length (ses_recent_correlations s)) - unat window) (ses_recent_correlations s @ [fh_correlation header])"
proof -
  let ?s = "s\<lparr>ses_last_sequence := fh_sequence header\<rparr>"
  have "window_inv window ?s" using assms(1) by (simp add: window_inv_def)
  moreover have "fh_correlation header \<notin> set (ses_correlation_set s)"
    "s' = remember_correlation window (fh_correlation header) ?s"
    using assms(2) by (auto simp: admit_frame_def Let_def split: if_splits)
  ultimately show ?thesis
    using remember_correlation_window(2) [of window ?s "fh_correlation header"] assms(1)
    by (simp add: window_inv_def del: drop_append)
qed

text \<open>The frames a session admits, in order; the epoch of the engine may change between them, and the
  first frame that closes the connection ends the session.\<close>

fun admissions :: "u64 \<Rightarrow> (CoordinatorEpoch \<times> FrameHeader) list \<Rightarrow> Session \<Rightarrow> FrameHeader list" where
  "admissions window [] s = []"
| "admissions window ((epoch, header) # frames) s =
     (case admit_frame window epoch header s of
        (Admitted, s) \<Rightarrow> header # admissions window frames s
      | (Refusing _, s) \<Rightarrow> admissions window frames s
      | (Closing _, s) \<Rightarrow> [])"

lemma refusing_keeps:
  "admit_frame window epoch header s = (Refusing code, s') \<Longrightarrow>
   ses_id s' = ses_id s \<and> ses_recent_correlations s' = ses_recent_correlations s \<and>
   ses_correlation_set s' = ses_correlation_set s \<and> ses_last_sequence s < ses_last_sequence s'"
  by (auto simp: admit_frame_def Let_def not_le split: if_splits)

lemma admissions_sequence:
  "(\<forall>h \<in> set (admissions window frames s). fh_session h = ses_id s \<and> ses_last_sequence s < fh_sequence h) \<and>
   sorted_wrt (\<lambda>a b. fh_sequence a < fh_sequence b) (admissions window frames s)"
proof (induction frames arbitrary: s)
  case (Cons frame frames)
  obtain epoch header where frame: "frame = (epoch, header)" by force
  obtain verdict s' where v: "admit_frame window epoch header s = (verdict, s')" by force
  show ?case
  proof (cases verdict)
    case Admitted
    then show ?thesis
      using Cons.IH [of s'] v frame admitted_advances [of window epoch header s] by (auto dest: order.strict_trans)
  next
    case (Refusing code)
    then show ?thesis
      using Cons.IH [of s'] v frame refusing_keeps [of window epoch header s code s'] by (auto dest: order.strict_trans)
  qed (simp add: v frame)
qed simp

lemma admissions_correlations:
  assumes "window_inv window s" "i < j" "j - i \<le> unat window" "length (ses_recent_correlations s) \<le> j"
    "j < length (ses_recent_correlations s @ map fh_correlation (admissions window frames s))"
  shows "(ses_recent_correlations s @ map fh_correlation (admissions window frames s)) ! i \<noteq>
    (ses_recent_correlations s @ map fh_correlation (admissions window frames s)) ! j"
  using assms
proof (induction frames arbitrary: s i j)
  case (Cons frame frames)
  obtain epoch header where frame: "frame = (epoch, header)" by force
  obtain verdict s' where v: "admit_frame window epoch header s = (verdict, s')" by force
  have inv: "window_inv window s'" using admit_frame_window [OF Cons.prems(1), of epoch header] v by simp
  show ?case
  proof (cases verdict)
    case Admitted
    let ?c = "fh_correlation header" and ?n = "length (ses_recent_correlations s)"
      and ?rest = "map fh_correlation (admissions window frames s')"
    let ?L = "ses_recent_correlations s @ [?c]"
    define d where "d = Suc ?n - unat window"
    have fresh: "?c \<notin> set (ses_recent_correlations s)" and recent: "ses_recent_correlations s' = drop d ?L"
      using admitted_recent [OF Cons.prems(1), of epoch header s'] v Admitted by (auto simp: d_def)
    have full: "ses_recent_correlations s @ map fh_correlation (admissions window (frame # frames) s) = ?L @ ?rest"
      using v frame Admitted by simp
    show ?thesis
    proof (cases "j = ?n")
      case True
      then show ?thesis using Cons.prems(2) fresh unfolding full by (auto simp: nth_append in_set_conv_nth)
    next
      case False
      then have j: "?n < j" "j < length (?L @ ?rest)" using Cons.prems(4,5) unfolding full by simp_all
      have d: "d \<le> i" "d \<le> length ?L" using Cons.prems(2,3) j by (simp_all add: d_def)
      have "(drop d ?L @ ?rest) ! (i - d) \<noteq> (drop d ?L @ ?rest) ! (j - d)"
        using Cons.IH [OF inv, of "i - d" "j - d"] recent d j Cons.prems(2,3) by (simp del: drop_append)
      then show ?thesis
        using drop_append_shift [OF d(2,1), of ?rest] drop_append_shift [OF d(2), of j ?rest] d(1) Cons.prems(2)
        unfolding full by (metis less_imp_le order.trans)
    qed
  next
    case (Refusing code)
    then show ?thesis
      using Cons.IH [OF inv, of i j] v frame refusing_keeps [of window epoch header s code s'] Cons.prems by simp
  qed (use Cons.prems v frame in simp)
qed simp

text \<open>C21. Whatever frames arrive on a connection, the ones the session admits name the session, have
  strictly increasing sequence numbers (so no frame is ever admitted twice), and no two of them
  within the correlation window share a correlation identity.\<close>

theorem frames_are_not_replayed:
  assumes "accepted = admissions window frames (new_session sid participant req)"
  shows "sorted_wrt (\<lambda>a b. fh_sequence a < fh_sequence b) accepted \<and> distinct accepted \<and>
    (\<forall>h \<in> set accepted. fh_session h = sid) \<and>
    (\<forall>i j. i < j \<and> j < length accepted \<and> j - i \<le> unat window \<longrightarrow>
       fh_correlation (accepted ! i) \<noteq> fh_correlation (accepted ! j))"
proof -
  let ?s = "new_session sid participant req"
  have "window_inv window ?s" by (simp add: window_inv_def new_session_def)
  then have "fh_correlation (accepted ! i) \<noteq> fh_correlation (accepted ! j)"
    if "i < j" "j < length accepted" "j - i \<le> unat window" for i j
    using admissions_correlations [of window ?s i j frames] that assms by (simp add: new_session_def)
  moreover have sorted: "sorted_wrt (\<lambda>a b. fh_sequence a < fh_sequence b) accepted"
    "\<forall>h \<in> set accepted. fh_session h = sid"
    using admissions_sequence [of window frames ?s] assms by (auto simp: new_session_def)
  moreover have "distinct accepted"
    using sorted(1) by (induction accepted) auto
  ultimately show ?thesis by blast
qed

definition observer_hello :: HelloRequest where
  "observer_hello = \<lparr>hr_protocol_version = 1, hr_schema = 1, hr_build = [], hr_participant_name = [], hr_boot = 0,
     hr_node_label = [], hr_nonce = 0, hr_observer = True\<rparr>"

theorem frames_are_not_replayed_witness:
  "admissions 4 [(1, ping_header), (1, ping_header)] (new_session (UInt128 0 1) 0 observer_hello) = [ping_header] \<and>
   distinct (admissions 4 [(1, ping_header), (1, ping_header)] (new_session (UInt128 0 1) 0 observer_hello))"
  using frames_are_not_replayed [of _ 4 "[(1, ping_header), (1, ping_header)]" "UInt128 0 1" 0 observer_hello, OF refl]
  by (simp add: admit_frame_def new_session_def ping_header_def remember_correlation_def Let_def)

section \<open>Sessions act as themselves\<close>

text \<open>The context a call carries.\<close>

fun call_context :: "call \<Rightarrow> AuthorityContext option" where
  "call_context (call.RegisterRegion reg) = Some (rr_context reg)"
| "call_context (call.AcquireRead req) = Some (rreq_context req)"
| "call_context (call.AcquireWrite req) = Some (wreq_context req)"
| "call_context (call.MarkDirty req) = Some (dreq_context req)"
| "call_context (call.AcknowledgeInvalidation ack) = Some (iack_context ack)"
| "call_context (call.RevalidateRegion req) = Some (vreq_context req)"
| "call_context (call.Release req) = Some (lreq_context req)"
| "call_context (call.BeginSync req) = Some (sreq_context req)"
| "call_context (call.CompleteSync req) = Some (creq_context req)"
| "call_context (call.FailSync req) = Some (freq_context req)"
| "call_context _ = None"

definition speaks_for :: "Session \<Rightarrow> CoordinatorEpoch \<Rightarrow> AuthorityContext \<Rightarrow> bool" where
  "speaks_for s epoch ctx \<longleftrightarrow> actx_participant ctx = ses_participant s \<and> actx_boot ctx = ses_boot s \<and> actx_epoch ctx = epoch"

text \<open>What a request may do to the engine: nothing, one call, or one publication.\<close>

definition acts :: "Session \<Rightarrow> engine \<Rightarrow> engine \<Rightarrow> bool" where
  "acts s e e' \<longleftrightarrow> e' = e \<or>
     (\<exists>c. e' = exec c e \<and> (\<forall>ctx. call_context c = Some ctx \<longrightarrow> speaks_for s (eng_epoch e) ctx)) \<or>
     (\<exists>req. e' = snd (publish e req) \<and> speaks_for s (eng_epoch e) (preq_context req))"

lemma acts_same [simp, intro]: "acts s e e" by (simp add: acts_def)

lemma acts_exec: "(\<And>ctx. call_context c = Some ctx \<Longrightarrow> speaks_for s (eng_epoch e) ctx) \<Longrightarrow> acts s e (exec c e)"
  by (auto simp: acts_def)

lemma acts_decoded: "(\<And>v. acts s e (snd (act v))) \<Longrightarrow> acts s e (snd (decoded dec body e act))"
  by (auto simp: decoded_def split: sum.split)

lemma snd_answer [simp]: "snd (answer wrap outcome) = snd outcome"
  by (auto simp: answer_def split: sum.split prod.split)

lemma snd_answer_status [simp]: "snd (answer_status text outcome) = snd outcome"
  by (simp add: answer_status_def split: prod.split)

lemma speaks_for_session [simp]: "speaks_for s epoch (as_session s epoch ctx)"
  by (simp add: speaks_for_def as_session_def)

lemmas acts_calls = acts_exec [of "call.CreateDomain name" for name, simplified]
  acts_exec [of "call.RegisterObject domain name len policy" for domain name len policy, simplified]
  acts_exec [of "call.RegisterRegion reg" for reg, simplified]
  acts_exec [of "call.AcquireRead req" for req, simplified] acts_exec [of "call.AcquireWrite req" for req, simplified]
  acts_exec [of "call.MarkDirty req" for req, simplified] acts_exec [of "call.Invalidate req" for req, simplified]
  acts_exec [of "call.AcknowledgeInvalidation ack" for ack, simplified]
  acts_exec [of "call.RevalidateRegion req" for req, simplified] acts_exec [of "call.Release req" for req, simplified]
  acts_exec [of "call.BeginSync req" for req, simplified] acts_exec [of "call.CompleteSync req" for req, simplified]
  acts_exec [of "call.FailSync req" for req, simplified]
  acts_exec [of "call.SetPolicy k g pg policy" for k g pg policy, simplified]
  acts_exec [of "call.FenceParticipant k epoch reason" for k epoch reason, simplified]
  acts_exec [of "call.RetireRegion k g epoch" for k g epoch, simplified]
  acts_exec [of "call.RetireObject k g epoch" for k g epoch, simplified]
  acts_exec [of "call.ResolveRecovery k g epoch why" for k g epoch why, simplified]
  acts_exec [of "call.BeginShutdown epoch" for epoch, simplified]

lemma acts_publish: "speaks_for s (eng_epoch e) (preq_context req) \<Longrightarrow> acts s e (snd (publish e req))"
  by (auto simp: acts_def)

lemma dispatch_admin_acts: "acts s e (snd (dispatch_admin recovery s frame e))"
  unfolding dispatch_admin_def Let_def dispatch_query_def dispatch_invalidations_def
  by (cases "fh_type (fr_header frame)") (auto intro!: acts_decoded acts_calls split: prod.split)

lemma dispatch_request_acts: "acts s e (snd (dispatch_request recovery s frame e))"
  unfolding dispatch_request_def Let_def dispatch_resolve_def
  by (cases "fh_type (fr_header frame)")
    (auto intro!: acts_decoded acts_calls acts_publish dispatch_admin_acts split: prod.split)

lemma dispatch_inspects:
  "inspects (fh_type (fr_header frame)) \<Longrightarrow> snd (dispatch_request recovery s frame e) = e"
  unfolding dispatch_request_def dispatch_admin_def Let_def dispatch_query_def decoded_def inspects_def
  by (cases "fh_type (fr_header frame)") (auto split: sum.split prod.split)


definition demo_frame :: "MessageType \<Rightarrow> bytes \<Rightarrow> Frame" where
  "demo_frame type body = \<lparr>fr_header = ping_header\<lparr>fh_type := type\<rparr>, fr_body = body\<rparr>"


section \<open>The coordinator runs the engine\<close>

text \<open>The coordinator and the publications in flight.  Every connection has a thread of its own: between
  any two steps of one of them those of the others may come, also within a handshake and between the
  three sections of a publication.\<close>

inductive co_step :: "Coordinator \<times> flight list \<Rightarrow> Coordinator \<times> flight list \<Rightarrow> bool" where
  Handshake: "co_step (c, fl) (snd (handshake build sid received c), fl)"
| Displace: "co_step (c, fl) (displace req c, fl)"
| Install: "co_step (c, fl) (install_session sid k req c, fl)"
| Unsent: "co_step (c, fl) (hello_unsent sid k c, fl)"
| Serve: "co_step (c, fl) (snd (serve_frame sid frame c), fl)"
| Goodbye: "co_step (c, fl) (say_goodbye sid c, fl)"
| Teardown: "co_step (c, fl) (teardown sid c, fl)"
| Shutdown: "co_step (c, fl) (snd (shutdown_engine c), fl)"
| Engine: "step \<lparr>sys_engine = co_engine c, sys_flights = fl\<rparr> s \<Longrightarrow>
    co_step (c, fl) (c\<lparr>co_engine := sys_engine s\<rparr>, sys_flights s)"

inductive co_reachable :: "Coordinator \<times> flight list \<Rightarrow> bool" where
  Start: "start config store name max_sessions window = Inr c \<Longrightarrow>
    (\<And>st. store = Some st \<Longrightarrow> store_consistent st) \<Longrightarrow> co_reachable (c, [])"
| Step: "co_reachable cs \<Longrightarrow> co_step cs cs' \<Longrightarrow> co_reachable cs'"

definition engine_reachable :: "flight list \<Rightarrow> engine \<Rightarrow> bool" where
  "engine_reachable fl e \<longleftrightarrow> (\<exists>config. reachable config \<lparr>sys_engine = e, sys_flights = fl\<rparr>)"

lemma engine_reachable_inv: "engine_reachable fl e \<Longrightarrow> engine_inv e"
  using reachable_engine_inv by (fastforce simp: engine_reachable_def)

lemma engine_reachable_exec [simp, intro]: "engine_reachable fl e \<Longrightarrow> engine_reachable fl (exec c e)"
  using reachable.Step [OF _ step.Call] by (fastforce simp: engine_reachable_def)

lemma engine_reachable_publish [simp, intro]: "engine_reachable fl e \<Longrightarrow> engine_reachable fl (snd (publish e req))"
  using reachable_publish by (fastforce simp: engine_reachable_def)

lemma engine_reachable_acts: "engine_reachable fl e \<Longrightarrow> acts s e e' \<Longrightarrow> engine_reachable fl e'"
  by (auto simp: acts_def)

lemma engine_reachable_step:
  "engine_reachable fl e \<Longrightarrow> step \<lparr>sys_engine = e, sys_flights = fl\<rparr> s \<Longrightarrow> engine_reachable (sys_flights s) (sys_engine s)"
  unfolding engine_reachable_def by (cases s) (auto intro: reachable.Step)

lemma engine_reachable_start:
  assumes "start config store name max_sessions window = Inr c" "\<And>st. store = Some st \<Longrightarrow> store_consistent st"
  shows "engine_reachable [] (co_engine c)"
proof -
  let ?config = "config\<lparr>cfg_enable_durability := (store \<noteq> None)\<rparr>"
  have new: "engine_reachable [] (new_engine ?config)" unfolding engine_reachable_def using reachable.Start by blast
  have attached: "engine_reachable [] (snd (attach_store (new_engine ?config) (Some st)))" if "store = Some st" for st
    using reachable.Step [OF reachable.Start step.Attach [OF assms(2) [OF that]], of ?config]
    by (auto simp: engine_reachable_def)
  obtain started e where e: "start_engine ?config store = (started, e)" by force
  have reach: "engine_reachable [] e"
    using e new attached by (cases store) (auto simp: start_engine_def dest: arg_cong [of _ _ snd])
  have "co_engine c = e \<or> co_engine c = exec (call.CreateDomain name) e"
    using assms(1) e by (auto simp: start_def Let_def case_prod_beta split: sum.splits option.splits)
  then show ?thesis using reach engine_reachable_exec [OF reach, of "call.CreateDomain name"] by metis
qed

lemma engine_reachable_fence: "engine_reachable fl e \<Longrightarrow> engine_reachable fl (snd (fence_participant e k epoch reason))"
  using engine_reachable_exec [of fl e "call.FenceParticipant k epoch reason"] by simp

lemma engine_reachable_displace: "engine_reachable fl (co_engine c) \<Longrightarrow> engine_reachable fl (co_engine (displace req c))"
  using engine_reachable_fence
  by (auto simp: displace_def replace_connection_def Let_def split: sum.split option.split)

lemma engine_reachable_admit: "engine_reachable fl (co_engine c) \<Longrightarrow> engine_reachable fl (co_engine (snd (admit req c)))"
  using engine_reachable_exec [OF engine_reachable_displace [of fl c req], of "call.RegisterParticipant
      (hr_participant_name req) (hr_boot req) (eng_epoch (co_engine (displace req c))) (hr_node_label req)"]
  by (simp add: admit_def Let_def case_prod_beta)

lemma engine_reachable_hello: "engine_reachable fl (co_engine c) \<Longrightarrow> engine_reachable fl (co_engine (snd (hello build sid req c)))"
  using engine_reachable_admit [of fl c req]
  by (auto simp: hello_def refuse_def install_session_def Let_def case_prod_beta split: sum.split prod.split)

lemma engine_reachable_handshake:
  "engine_reachable fl (co_engine c) \<Longrightarrow> engine_reachable fl (co_engine (snd (handshake build sid received c)))"
  using engine_reachable_hello [of fl "c\<lparr>co_accepted := co_accepted c + 1\<rparr>" build sid]
  by (auto simp: handshake_def refuse_def Let_def split: sum.split prod.split)

lemma engine_reachable_serve:
  assumes "engine_reachable fl (co_engine c)"
  shows "engine_reachable fl (co_engine (snd (serve_frame sid frame c)))"
proof -
  have "engine_reachable fl (co_engine (snd (dispatch s frame c')))" if "co_engine c' = co_engine c" for s c'
    using assms that dispatch_request_acts [of s "co_engine c'" "co_recovery c'" frame] engine_reachable_acts
    by (auto simp: dispatch_def case_prod_beta)
  then show ?thesis
    using assms by (auto simp: serve_frame_def Let_def case_prod_beta split: option.split frame_verdict.split)
qed

lemma engine_reachable_teardown: "engine_reachable fl (co_engine c) \<Longrightarrow> engine_reachable fl (co_engine (teardown sid c))"
  using engine_reachable_fence engine_reachable_exec [of fl "co_engine c" "call.MarkSessionClosed k boot" for k boot]
  by (auto simp: teardown_def Let_def split: option.split sum.split)

lemma engine_reachable_shutdown:
  assumes "engine_reachable fl (co_engine c)"
  shows "engine_reachable fl (co_engine (snd (shutdown_engine c)))"
  using engine_reachable_exec [OF assms, of "call.BeginShutdown (eng_epoch (co_engine c))"]
    engine_reachable_exec [of fl "snd (begin_shutdown (co_engine c) (eng_epoch (co_engine c)))" "call.CompleteShutdown epoch" for epoch]
  by (simp add: shutdown_engine_def Let_def case_prod_beta)

lemmas engine_reachable_handlers = engine_reachable_handshake engine_reachable_displace engine_reachable_serve
  engine_reachable_teardown engine_reachable_shutdown engine_reachable_step

lemma co_reachable_engine: "co_reachable cs \<Longrightarrow> engine_reachable (snd cs) (co_engine (fst cs))"
proof (induction rule: co_reachable.induct)
  case (Step cs cs')
  from Step(2,3) show ?case
    by cases (auto simp: hello_unsent_def say_goodbye_def install_session_def dest: engine_reachable_handlers)
qed (simp add: engine_reachable_start)

text \<open>A connection that is served without interruption is a sequence of such steps.\<close>

lemma request_loop_steps: "co_step\<^sup>*\<^sup>* (c, fl) (request_loop sid events c, fl)"
proof (induction events arbitrary: c)
  case (Cons event events)
  obtain received sent where event: "event = (received, sent)" by force
  have serve: "co_step\<^sup>*\<^sup>* (c, fl) (snd (serve_frame sid frame c), fl)" for frame
    by (rule r_into_rtranclp [where r = co_step]) (rule co_step.Serve)
  have bye: "co_step\<^sup>*\<^sup>* (c, fl) (say_goodbye sid c, fl)"
    by (rule r_into_rtranclp [where r = co_step]) (rule co_step.Goodbye)
  show ?case
    using serve bye rtranclp_trans [OF serve Cons.IH]
    by (auto simp: event Let_def case_prod_beta split: sum.split)
qed simp

lemma serve_socket_steps: "co_step\<^sup>*\<^sup>* (c, fl) (serve_socket build sid received acknowledged events c, fl)"
proof -
  have "co_step\<^sup>*\<^sup>* (c, fl) (snd (handshake build sid received c), fl)"
    by (rule r_into_rtranclp [where r = co_step]) (rule co_step.Handshake)
  moreover have "co_step\<^sup>*\<^sup>* (c', fl) (hello_unsent sid k c', fl)" for c' k
    by (rule r_into_rtranclp [where r = co_step]) (rule co_step.Unsent)
  moreover have "co_step\<^sup>*\<^sup>* (c', fl) (teardown sid (request_loop sid events c'), fl)" for c'
    using request_loop_steps by (rule rtranclp.rtrancl_into_rtrancl) (rule co_step.Teardown)
  ultimately show ?thesis
    by (auto simp: serve_socket_def case_prod_beta split: sum.split intro: rtranclp_trans)
qed


lemma demo_start: "case start demo_config None ''d'' 4 4 of Inl _ \<Rightarrow> False | Inr c \<Rightarrow> True"
  by code_simp


section \<open>Lost connections and new boots\<close>

text \<open>C19. A participant whose connection ends without a goodbye loses everything at once: after the
  teardown of its session its boot writes no object, holds no read lease and no readable region, the
  participant is fenced, and the session is gone from the tables.\<close>

theorem lost_connection_revokes:
  assumes "map_of (co_store c) sid = Some s" and "\<not> ses_observer s" and "\<not> ses_replaced s" and "\<not> ses_said_goodbye s"
    and "ses_participant s \<noteq> 0" and "map_of (eng_participants (co_engine c)) (ses_participant s) = Some p"
    and "par_boot p = ses_boot s" and "par_lifecycle p \<noteq> ParticipantLifecycle.Retired"
  shows "(\<forall>k ob. map_of (eng_objects (co_engine (teardown sid c))) k = Some ob \<longrightarrow>
      \<not> (obj_writer ob = ses_participant s \<and> obj_writer_boot ob = ses_boot s) \<and>
      (\<forall>g \<in> set (obj_reads ob). grant_participant g = ses_participant s \<and> grant_boot g = ses_boot s \<longrightarrow> grant_released g)) \<and>
    (\<forall>k r. map_of (eng_regions (co_engine (teardown sid c))) k = Some r \<and> reg_participant r = ses_participant s \<and>
      reg_boot r = ses_boot s \<longrightarrow> reg_state r \<in> {CoherenceState.Fenced, CoherenceState.Retired}) \<and>
    (\<exists>p'. map_of (eng_participants (co_engine (teardown sid c))) (ses_participant s) = Some p' \<and>
      par_lifecycle p' = ParticipantLifecycle.Fenced \<and> \<not> par_live p') \<and>
    sid \<notin> set (co_sessions (teardown sid c)) \<and> map_of (co_store (teardown sid c)) sid = None"
proof -
  have engine: "co_engine (teardown sid c) = snd (fence_participant (co_engine c) (ses_participant s)
      (eng_epoch (co_engine c)) lost_reason)"
    and tables: "sid \<notin> set (co_sessions (teardown sid c))" "map_of (co_store (teardown sid c)) sid = None"
    using assms by (auto simp: teardown_def get_participant_def Let_def)
  note effect = fence_effect [OF assms(6) refl assms(8,5) engine, unfolded assms(7)]
  show ?thesis using effect tables by blast
qed

theorem lost_connection_revokes_witness:
  "\<exists>p. map_of (eng_participants (co_engine (teardown (UInt128 0 1) demo_service))) 1 = Some p \<and>
     par_lifecycle p = ParticipantLifecycle.Fenced \<and>
     \<not> (\<exists>k ob. map_of (eng_objects (co_engine (teardown (UInt128 0 1) demo_service))) k = Some ob \<and>
        obj_writer ob = 1 \<and> obj_writer_boot ob = UInt128 0 7)"
proof -
  obtain p where p: "map_of (eng_participants demo_published) 1 = Some p" "par_boot p = UInt128 0 7"
    "par_lifecycle p = ParticipantLifecycle.Active"
    using demo_published_participant by (auto split: option.splits)
  have "map_of (co_store demo_service) (UInt128 0 1) = Some demo_session" "co_engine demo_service = demo_published"
    by (simp_all add: demo_service_def demo_coordinator_def)
  then show ?thesis
    using lost_connection_revokes [of demo_service "UInt128 0 1" demo_session p] p
    by (auto simp: demo_session_def new_session_def demo_hello_def)
qed

lemma register_participant_objects [simp]: "eng_objects (snd (register_participant e name boot epoch label)) = eng_objects e"
proof -
  have "eng_objects (fold (retire_superseded_region k b) ks e) = eng_objects e" for k b ks and e :: engine
    by (induction ks arbitrary: e) (simp_all add: retire_superseded_region_def Let_def split: option.split)
  then show ?thesis
    by (simp add: register_participant_def admit_participant_def Let_def case_prod_beta split: option.split)
qed

text \<open>C20. A participant that comes back under a new boot is admitted with nothing of its previous
  incarnation left: no object is written under the previous boot and no read lease of it is held,
  so two incarnations never hold authority at once.\<close>

theorem new_boot_inherits_nothing:
  assumes "hello build sid req c = (Inr response, c')" and "\<not> hr_observer req"
    and "find_participant (co_engine c) (hr_participant_name req) = Inr p" and "par_boot p \<noteq> hr_boot req"
    and "map_of (eng_participants (co_engine c)) (par_id p) = Some p" and "par_id p \<noteq> 0"
    and "par_lifecycle p \<noteq> ParticipantLifecycle.Retired"
    and "map_of (eng_objects (co_engine c')) k = Some ob"
  shows "\<not> (obj_writer ob = par_id p \<and> obj_writer_boot ob = par_boot p) \<and>
    (\<forall>g \<in> set (obj_reads ob). grant_participant g = par_id p \<and> grant_boot g = par_boot p \<longrightarrow> grant_released g)"
proof -
  define e where "e = snd (fence_participant (co_engine c) (par_id p) (eng_epoch (co_engine c)) superseded_reason)"
  have "co_engine (replace_connection (par_id p) c) = co_engine c"
    by (simp add: replace_connection_def split: option.split)
  then have "co_engine (displace req c) = e"
    using assms(3,4) by (simp add: displace_def Let_def e_def)
  then have "eng_objects (co_engine c') = eng_objects e"
    using assms(1,2)
    by (auto simp: hello_def admit_def refuse_def install_session_def Let_def case_prod_beta split: if_splits sum.splits prod.splits)
  then show ?thesis
    using fence_effect(1,2) [OF assms(5) refl assms(7,6) e_def] assms(8) by auto
qed

theorem new_boot_inherits_nothing_witness:
  "\<exists>response ob. fst demo_rejoin = Inr response \<and> map_of (eng_objects (co_engine (snd demo_rejoin))) 1 = Some ob \<and>
     \<not> (obj_writer ob = 1 \<and> obj_writer_boot ob = UInt128 0 7)"
proof -
  have service: "co_engine demo_service = demo_published" by (simp add: demo_service_def demo_coordinator_def)
  obtain p where p: "find_participant demo_published ''a'' = Inr p" "par_id p = 1" "par_boot p = UInt128 0 7"
    "par_lifecycle p = ParticipantLifecycle.Active" "map_of (eng_participants demo_published) 1 = Some p"
    using demo_find by (auto split: sum.splits)
  obtain response where response: "fst demo_rejoin = Inr response" using demo_rejoin_ok by (auto split: sum.splits)
  obtain ob where ob: "map_of (eng_objects (co_engine (snd demo_rejoin))) 1 = Some ob"
    using demo_rejoin_object by (auto split: option.splits)
  have "hello [] (UInt128 0 2) (demo_hello ''a'' 9) demo_service = (Inr response, snd demo_rejoin)"
    using response by (simp add: demo_rejoin_def prod_eq_iff)
  from new_boot_inherits_nothing [OF this, of p 1 ob] p ob response show ?thesis
    by (simp add: service demo_hello_def)
qed

end
