(* ===== verification/Engine_Tables.thy ===== *)
theory Engine_Tables
  imports Engine_Steps
begin

text \<open>
  The representation of the state: every table of the engine is a valid \<^verbatim>\<open>std::map\<close>, with its keys in
  strictly increasing order, and the decision log stays within its bound.  Every operation keeps
  this, so that a loop over a table visits each record once, and in the order of the identities.
\<close>

definition state_ok :: "engine \<Rightarrow> bool" where
  "state_ok e \<longleftrightarrow> sm_sorted (eng_domains e) \<and> sm_sorted (eng_participants e) \<and> sm_sorted (eng_objects e) \<and>
     sm_sorted (eng_regions e) \<and> sm_sorted (eng_invalidations e) \<and> sm_sorted (eng_syncs e) \<and>
     sm_sorted (eng_policies e) \<and> sm_sorted (eng_domain_index e) \<and> sm_sorted (eng_participant_index e) \<and>
     sm_sorted (eng_object_index e) \<and> sm_sorted (eng_region_index e) \<and> sm_sorted (eng_in_flight_publications e) \<and>
     length (eng_decision_log e) \<le> unat (cfg_max_decision_log (eng_config e))"

lemma sm_sorted_emplace: "sm_sorted m \<Longrightarrow> sm_sorted (sm_emplace k v m)"
  by (simp add: sm_emplace_def sm_sorted_put split: option.split)

lemmas sorted_rules = sm_sorted_put sm_sorted_erase sm_sorted_map sm_sorted_emplace

section \<open>Building blocks\<close>

lemma state_ok_fold: "(\<And>x e. state_ok e \<Longrightarrow> state_ok (f x e)) \<Longrightarrow> state_ok e \<Longrightarrow> state_ok (fold f xs e)"
  by (induction xs arbitrary: e) auto

lemma state_ok_fields [simp]:
  "state_ok (e\<lparr>eng_next_domain_id := x0\<rparr>) \<longleftrightarrow> state_ok e"
  "state_ok (e\<lparr>eng_next_participant_id := x1\<rparr>) \<longleftrightarrow> state_ok e"
  "state_ok (e\<lparr>eng_next_object_id := x2\<rparr>) \<longleftrightarrow> state_ok e"
  "state_ok (e\<lparr>eng_next_region_id := x3\<rparr>) \<longleftrightarrow> state_ok e"
  "state_ok (e\<lparr>eng_next_replica_id := x4\<rparr>) \<longleftrightarrow> state_ok e"
  "state_ok (e\<lparr>eng_next_publication_id := x5\<rparr>) \<longleftrightarrow> state_ok e"
  "state_ok (e\<lparr>eng_next_invalidation_id := x6\<rparr>) \<longleftrightarrow> state_ok e"
  "state_ok (e\<lparr>eng_next_sync_id := x7\<rparr>) \<longleftrightarrow> state_ok e"
  "state_ok (e\<lparr>eng_next_lease_id := x8\<rparr>) \<longleftrightarrow> state_ok e"
  "state_ok (e\<lparr>eng_next_policy_id := x9\<rparr>) \<longleftrightarrow> state_ok e"
  "state_ok (e\<lparr>eng_next_evidence_id := x10\<rparr>) \<longleftrightarrow> state_ok e"
  "state_ok (e\<lparr>eng_next_decision_id := x11\<rparr>) \<longleftrightarrow> state_ok e"
  "state_ok (e\<lparr>eng_store := x12\<rparr>) \<longleftrightarrow> state_ok e"
  "state_ok (e\<lparr>eng_store_healthy := x13\<rparr>) \<longleftrightarrow> state_ok e"
  "state_ok (e\<lparr>eng_next_journal_sequence := x14\<rparr>) \<longleftrightarrow> state_ok e"
  "state_ok (e\<lparr>eng_durable := x15\<rparr>) \<longleftrightarrow> state_ok e"
  "state_ok (e\<lparr>eng_shutting_down := x16\<rparr>) \<longleftrightarrow> state_ok e"
  "state_ok (e\<lparr>eng_shutdown_complete := x17\<rparr>) \<longleftrightarrow> state_ok e"
  "state_ok (e\<lparr>eng_sequence := x18\<rparr>) \<longleftrightarrow> state_ok e"
  "state_ok (e\<lparr>eng_epoch := x19\<rparr>) \<longleftrightarrow> state_ok e"
  "state_ok (e\<lparr>eng_recovery_performed := x20\<rparr>) \<longleftrightarrow> state_ok e"
  "state_ok (e\<lparr>eng_recovery_report := x21\<rparr>) \<longleftrightarrow> state_ok e"
  "state_ok (e\<lparr>eng_compaction_threshold_bytes := x22\<rparr>) \<longleftrightarrow> state_ok e"
  "state_ok (e\<lparr>eng_journal_bytes_at_last_compaction := x23\<rparr>) \<longleftrightarrow> state_ok e"
  by (simp_all add: state_ok_def)

lemma state_ok_tables [simp]:
  "state_ok e \<Longrightarrow> sm_sorted t0 \<Longrightarrow> state_ok (e\<lparr>eng_domains := t0\<rparr>)"
  "state_ok e \<Longrightarrow> sm_sorted t1 \<Longrightarrow> state_ok (e\<lparr>eng_participants := t1\<rparr>)"
  "state_ok e \<Longrightarrow> sm_sorted t2 \<Longrightarrow> state_ok (e\<lparr>eng_objects := t2\<rparr>)"
  "state_ok e \<Longrightarrow> sm_sorted t3 \<Longrightarrow> state_ok (e\<lparr>eng_regions := t3\<rparr>)"
  "state_ok e \<Longrightarrow> sm_sorted t4 \<Longrightarrow> state_ok (e\<lparr>eng_invalidations := t4\<rparr>)"
  "state_ok e \<Longrightarrow> sm_sorted t5 \<Longrightarrow> state_ok (e\<lparr>eng_syncs := t5\<rparr>)"
  "state_ok e \<Longrightarrow> sm_sorted t6 \<Longrightarrow> state_ok (e\<lparr>eng_policies := t6\<rparr>)"
  "state_ok e \<Longrightarrow> sm_sorted t7 \<Longrightarrow> state_ok (e\<lparr>eng_domain_index := t7\<rparr>)"
  "state_ok e \<Longrightarrow> sm_sorted t8 \<Longrightarrow> state_ok (e\<lparr>eng_participant_index := t8\<rparr>)"
  "state_ok e \<Longrightarrow> sm_sorted t9 \<Longrightarrow> state_ok (e\<lparr>eng_object_index := t9\<rparr>)"
  "state_ok e \<Longrightarrow> sm_sorted t10 \<Longrightarrow> state_ok (e\<lparr>eng_region_index := t10\<rparr>)"
  "state_ok e \<Longrightarrow> sm_sorted t11 \<Longrightarrow> state_ok (e\<lparr>eng_in_flight_publications := t11\<rparr>)"
  by (simp_all add: state_ok_def)

lemma state_okD [simp]:
  "state_ok e \<Longrightarrow> sm_sorted (eng_domains e)"
  "state_ok e \<Longrightarrow> sm_sorted (eng_participants e)"
  "state_ok e \<Longrightarrow> sm_sorted (eng_objects e)"
  "state_ok e \<Longrightarrow> sm_sorted (eng_regions e)"
  "state_ok e \<Longrightarrow> sm_sorted (eng_invalidations e)"
  "state_ok e \<Longrightarrow> sm_sorted (eng_syncs e)"
  "state_ok e \<Longrightarrow> sm_sorted (eng_policies e)"
  "state_ok e \<Longrightarrow> sm_sorted (eng_domain_index e)"
  "state_ok e \<Longrightarrow> sm_sorted (eng_participant_index e)"
  "state_ok e \<Longrightarrow> sm_sorted (eng_object_index e)"
  "state_ok e \<Longrightarrow> sm_sorted (eng_region_index e)"
  "state_ok e \<Longrightarrow> sm_sorted (eng_in_flight_publications e)"
  by (simp_all add: state_ok_def)

lemmas state_simps = Let_def case_prod_beta sorted_rules

lemma sorted_sweep [simp]: "sm_sorted (fst (sweep f m)) = sm_sorted m"
  by (simp add: sweep_def sm_sorted_map)

lemma state_ok_record_decision [simp]: "state_ok e \<Longrightarrow> state_ok (record_decision kind context code e)"
  unfolding state_ok_def record_decision_def Let_def by (simp del: drop_append length_append) arith

lemma state_ok_state [simp]:
  "state_ok e \<Longrightarrow> state_ok (tick e)"
  "state_ok e \<Longrightarrow> state_ok (put_participant k p e)"
  "state_ok e \<Longrightarrow> state_ok (put_object k' ob e)"
  "state_ok e \<Longrightarrow> state_ok (put_region k'' r e)"
  "state_ok e \<Longrightarrow> state_ok (put_invalidation k''' i e)"
  "state_ok e \<Longrightarrow> state_ok (put_sync k'''' s e)"
  "state_ok e \<Longrightarrow> state_ok (snd (make_evidence e kind klass participant boot obj
    object_generation region region_generation version content))"
  "state_ok e \<Longrightarrow> state_ok (snd (make_context e authority obj generation ownership))"
  "state_ok e \<Longrightarrow> state_ok (snd (append_locked e body))"
  "state_ok e \<Longrightarrow> state_ok (snd (append_many_locked e bodies))"
  "state_ok e \<Longrightarrow> state_ok (snd (maybe_compact_locked e))"
  "state_ok e \<Longrightarrow> state_ok (compact_locked e)"
  by (simp_all add: tick_def put_participant_def put_object_def put_region_def put_invalidation_def
      put_sync_def make_evidence_def make_context_def append_locked_def append_many_locked_def
      maybe_compact_locked_def compact_locked_def state_simps split: option.split sum.split)

lemma state_ok_state2 [simp]:
  "state_ok e \<Longrightarrow> state_ok (upsert_durable_object ob e)"
  "state_ok e \<Longrightarrow> state_ok (upsert_durable_region r e)"
  "state_ok e \<Longrightarrow> state_ok (upsert_durable_participant p e)"
  by (simp_all add: upsert_durable_object_def upsert_durable_region_def upsert_durable_participant_def
      state_simps split: option.split sum.split)

lemma state_ok_helpers [simp]:
  "state_ok e \<Longrightarrow> state_ok (mark_region_stale authoritative except_region k e)"
  "state_ok e \<Longrightarrow> state_ok (release_reads_of_object participant boot k' e)"
  "state_ok e \<Longrightarrow> state_ok (recompute_authority_locked k' e)"
  "state_ok e \<Longrightarrow> state_ok (release_region_name r e)"
  "state_ok e \<Longrightarrow> state_ok (retotal_participant_regions e)"
  by (simp_all add: mark_region_stale_def release_reads_of_object_def recompute_authority_locked_def
      release_region_name_def retotal_participant_regions_def state_simps split: option.split sum.split)

lemma state_ok_loops_helpers [simp]:
  "state_ok e \<Longrightarrow> state_ok (fold (mark_region_stale authoritative except_region) ks e)"
  "state_ok e \<Longrightarrow> state_ok (fold (release_reads_of_object participant boot) ks e)"
  by (rule state_ok_fold; simp)+

lemma state_ok_helpers2 [simp]:
  "state_ok e \<Longrightarrow> state_ok (mark_regions_stale k authoritative except_region e)"
  "state_ok e \<Longrightarrow> state_ok (release_reads_for_participant participant boot e)"
  by (simp_all add: mark_regions_stale_def release_reads_for_participant_def state_simps split:
      option.split sum.split)

lemma state_ok_loops_participants [simp]:
  "state_ok e \<Longrightarrow> state_ok (fold recompute_authority_locked ks e)"
  by (rule state_ok_fold; simp)+

lemma state_ok_participants [simp]:
  "state_ok e \<Longrightarrow> state_ok (snd (create_domain e name))"
  "state_ok e \<Longrightarrow> state_ok (retire_superseded_region participant superseded_boot k e)"
  "state_ok e \<Longrightarrow> state_ok (snd (admit_participant rec e))"
  "state_ok e \<Longrightarrow> state_ok (snd (mark_session_closed e k' boot))"
  "state_ok e \<Longrightarrow> state_ok (snd (fence_participant e k' epoch reason))"
  by (simp_all add: create_domain_def retire_superseded_region_def admit_participant_def
      mark_session_closed_def fence_participant_def state_simps split: option.split sum.split)

lemma state_ok_loops_participants2 [simp]:
  "state_ok e \<Longrightarrow> state_ok (fold (retire_superseded_region participant superseded_boot) ks e)"
  by (rule state_ok_fold; simp)+

lemma state_ok_participants2 [simp]:
  "state_ok e \<Longrightarrow> state_ok (snd (register_participant e name boot epoch node_label))"
  by (simp add: register_participant_def state_simps split: option.split sum.split)

lemma state_ok_registry [simp]:
  "state_ok e \<Longrightarrow> state_ok (snd (register_object e domain name len policy))"
  "state_ok e \<Longrightarrow> state_ok (snd (set_policy e k generation expected_generation policy))"
  "state_ok e \<Longrightarrow> state_ok (snd (add_region reg ob p rec e))"
  "state_ok e \<Longrightarrow> state_ok (retire_region_object region e)"
  "state_ok e \<Longrightarrow> state_ok (snd (resolve_recovery e k generation epoch note))"
  "state_ok e \<Longrightarrow> state_ok (retire_object_replica k' e)"
  "state_ok e \<Longrightarrow> state_ok (shutdown_object k e)"
  "state_ok e \<Longrightarrow> state_ok (shutdown_sync k'' e)"
  "state_ok e \<Longrightarrow> state_ok (shutdown_invalidation k''' e)"
  "state_ok e \<Longrightarrow> state_ok (snd (complete_shutdown e epoch))"
  "state_ok e \<Longrightarrow> state_ok (snd (flush_durable e))"
  by (simp_all add: register_object_def set_policy_def add_region_def retire_region_object_def
      resolve_recovery_def retire_object_replica_def shutdown_object_def shutdown_sync_def
      shutdown_invalidation_def complete_shutdown_def flush_durable_def state_simps split: option.split
      sum.split)

lemma state_ok_loops_registry [simp]:
  "state_ok e \<Longrightarrow> state_ok (fold retire_object_replica ks e)"
  "state_ok e \<Longrightarrow> state_ok (fold shutdown_object ks e)"
  "state_ok e \<Longrightarrow> state_ok (fold shutdown_sync ks e)"
  "state_ok e \<Longrightarrow> state_ok (fold shutdown_invalidation ks e)"
  by (rule state_ok_fold; simp)+

lemma state_ok_registry2 [simp]:
  "state_ok e \<Longrightarrow> state_ok (snd (register_region e reg))"
  "state_ok e \<Longrightarrow> state_ok (snd (retire_region e k generation epoch))"
  "state_ok e \<Longrightarrow> state_ok (snd (retire_object e k' generation' epoch))"
  "state_ok e \<Longrightarrow> state_ok (snd (begin_shutdown e epoch))"
  by (simp_all add: register_region_def retire_region_def retire_object_def begin_shutdown_def
      state_simps split: option.split sum.split)

lemma state_ok_read [simp]:
  "state_ok e \<Longrightarrow> state_ok (snd (decide_read outcome reason decision e))"
  by (simp add: decide_read_def state_simps split: option.split sum.split)

lemma state_ok_read2 [simp]:
  "state_ok e \<Longrightarrow> state_ok (snd (read_snapshot req ob region decision e))"
  "state_ok e \<Longrightarrow> state_ok (snd (read_current create_lease req ob region decision e))"
  "state_ok e \<Longrightarrow> state_ok (snd (read_not_current req ob region freshness decision e))"
  by (simp_all add: read_snapshot_def read_current_def read_not_current_def state_simps split:
      option.split sum.split)

lemma state_ok_read3 [simp]:
  "state_ok e \<Longrightarrow> state_ok (snd (read_region create_lease req policy ob region decision
    e))"
  by (simp add: read_region_def state_simps split: option.split sum.split)

lemma state_ok_read4 [simp]:
  "state_ok e \<Longrightarrow> state_ok (snd (compute_read_locked e req create_lease))"
  by (simp add: compute_read_locked_def state_simps split: option.split sum.split)

lemma state_ok_read5 [simp]:
  "state_ok e \<Longrightarrow> state_ok (snd (acquire_read e req))"
  "state_ok e \<Longrightarrow> state_ok (snd (explain_read e req))"
  by (simp_all add: acquire_read_def explain_read_def state_simps split: option.split sum.split)

lemma state_ok_write [simp]:
  "state_ok e \<Longrightarrow> state_ok (snd (answer_write reason grant e))"
  "state_ok e \<Longrightarrow> state_ok (register_transfer_invalidation iv e)"
  "state_ok e \<Longrightarrow> state_ok (snd (mark_dirty e req))"
  by (simp_all add: answer_write_def register_transfer_invalidation_def mark_dirty_def state_simps
      split: option.split sum.split)

lemma state_ok_loops_write [simp]:
  "state_ok e \<Longrightarrow> state_ok (fold register_transfer_invalidation ks e)"
  by (rule state_ok_fold; simp)+

lemma state_ok_write2 [simp]:
  "state_ok e \<Longrightarrow> state_ok (snd (continue_transfer req ob grant e))"
  "state_ok e \<Longrightarrow> state_ok (snd (reserve_write req policy ob participant grant e))"
  by (simp_all add: continue_transfer_def reserve_write_def state_simps split: option.split sum.split)

lemma state_ok_write3 [simp]:
  "state_ok e \<Longrightarrow> state_ok (snd (acquire_write_region req policy ob participant
    writer_region grant e))"
  by (simp add: acquire_write_region_def state_simps split: option.split sum.split)

lemma state_ok_write4 [simp]:
  "state_ok e \<Longrightarrow> state_ok (snd (acquire_write e req))"
  by (simp add: acquire_write_def state_simps split: option.split sum.split)

lemma state_ok_invalidate [simp]:
  "state_ok e \<Longrightarrow> state_ok (snd (invalidate_inert req ob region context e))"
  "state_ok e \<Longrightarrow> state_ok (snd (issue_invalidation req ob region context e))"
  "state_ok e \<Longrightarrow> state_ok (settle_invalidation ack iv ob e)"
  "state_ok e \<Longrightarrow> state_ok (snd (revalidate_region e req'))"
  by (simp_all add: invalidate_inert_def issue_invalidation_def settle_invalidation_def
      revalidate_region_def state_simps split: option.split sum.split)

lemma state_ok_invalidate2 [simp]:
  "state_ok e \<Longrightarrow> state_ok (snd (invalidate e req))"
  "state_ok e \<Longrightarrow> state_ok (snd (acknowledge_replica ack iv ob region context e))"
  by (simp_all add: invalidate_def acknowledge_replica_def state_simps split: option.split sum.split)

lemma state_ok_invalidate3 [simp]:
  "state_ok e \<Longrightarrow> state_ok (snd (acknowledge_invalidation e ack))"
  by (simp add: acknowledge_invalidation_def state_simps split: option.split sum.split)

lemma state_ok_publish [simp]:
  "state_ok e \<Longrightarrow> state_ok (snd (reserve_publication req policy ob participant receipt
    e))"
  "state_ok e \<Longrightarrow> state_ok (snd (publish_persist e ticket))"
  "state_ok e \<Longrightarrow> state_ok (apply_pending ticket e)"
  "state_ok e \<Longrightarrow> state_ok (clear_pending ticket k e)"
  "state_ok e \<Longrightarrow> state_ok (publish_to_region ticket ob e)"
  by (simp_all add: reserve_publication_def publish_persist_def apply_pending_def clear_pending_def
      publish_to_region_def state_simps split: option.split sum.split)

lemma state_ok_publish2 [simp]:
  "state_ok e \<Longrightarrow> state_ok (snd (publish_reserve e req))"
  "state_ok e \<Longrightarrow> state_ok (snd (commit_publication ticket ob e))"
  by (simp_all add: publish_reserve_def commit_publication_def state_simps split: option.split
      sum.split)

lemma state_ok_publish3 [simp]:
  "state_ok e \<Longrightarrow> state_ok (snd (publish_commit e ticket durable_status))"
  by (simp add: publish_commit_def state_simps split: option.split sum.split)

lemma state_ok_publish4 [simp]:
  "state_ok e \<Longrightarrow> state_ok (snd (publish e req))"
  by (simp add: publish_def state_simps split: option.split sum.split publish_step.split)

lemma state_ok_give_up [simp]: "state_ok (fst s) \<Longrightarrow> state_ok (fst (fold give_up_region ks s))"
  by (induction ks arbitrary: s) (simp_all add: give_up_region_def Let_def split: option.split)

lemma state_ok_sync [simp]:
  "state_ok e \<Longrightarrow> state_ok (snd (release_read req ob context e))"
  "state_ok e \<Longrightarrow> state_ok (snd (release_write req ob context e))"
  "state_ok e \<Longrightarrow> state_ok (snd (context_if_found e ctx found))"
  "state_ok e \<Longrightarrow> state_ok (snd (reject_completion k state note reason code checked sync
    destination context e))"
  "state_ok e \<Longrightarrow> state_ok (snd (accept_completion req' sync ob destination context e))"
  "state_ok e \<Longrightarrow> state_ok (snd (fail_sync e req''))"
  by (simp_all add: release_read_def release_write_def context_if_found_def reject_completion_def
      accept_completion_def fail_sync_def state_simps split: option.split sum.split)

lemma state_ok_sync2 [simp]:
  "state_ok e \<Longrightarrow> state_ok (snd (release e req))"
  "state_ok e \<Longrightarrow> state_ok (snd (begin_sync e req'))"
  "state_ok e \<Longrightarrow> state_ok (snd (complete_sync_at req'' sync ob destination context e))"
  by (simp_all add: release_def begin_sync_def complete_sync_at_def state_simps split: option.split
      sum.split)

lemma state_ok_sync3 [simp]:
  "state_ok e \<Longrightarrow> state_ok (snd (complete_sync e req))"
  by (simp add: complete_sync_def state_simps split: option.split sum.split)

section \<open>Recovery\<close>

text \<open>Recovery rebuilds the tables entry by entry, whatever the store holds.\<close>

lemma state_ok_restore:
  "state_ok (fst s) \<Longrightarrow> state_ok (fst (restore_domain kd s))"
  "state_ok (fst s) \<Longrightarrow> state_ok (fst (restore_participant kp s))"
  "state_ok (fst s) \<Longrightarrow> state_ok (fst (restore_policy kq s))"
  "state_ok (fst s) \<Longrightarrow> state_ok (fst (restore_invalidation ki s))"
  "state_ok (fst s) \<Longrightarrow> state_ok (fst (restore_sync ks s))"
  "state_ok (fst s) \<Longrightarrow> state_ok (fst (restore_object img ko s))"
  "state_ok (fst s) \<Longrightarrow> state_ok (fst (restore_region kr s))"
  by (simp_all add: restore_domain_def restore_participant_def restore_policy_def restore_invalidation_def
      restore_sync_def restore_object_def restore_region_def Let_def case_prod_beta sorted_rules)

lemma fold_first: "(\<And>x s. P (fst s) \<Longrightarrow> P (fst (f x s))) \<Longrightarrow> P (fst s) \<Longrightarrow> P (fst (fold f xs s))"
  by (induction xs arbitrary: s) auto

lemma state_ok_cleared [simp]: "state_ok e \<Longrightarrow> state_ok (cleared_engine store img e)"
  by (simp add: cleared_engine_def Let_def)

lemma state_ok_restore_image: "state_ok e \<Longrightarrow> state_ok (fst (restore_image store load img e))"
  by (simp add: restore_image_def Let_def case_prod_beta fold_first [where P = state_ok] state_ok_restore)

lemma state_ok_attach_store [simp]: "state_ok e \<Longrightarrow> state_ok (snd (attach_store e given))"
  using state_ok_restore_image [of e]
  by (auto simp: attach_store_def finish_recovery_def Let_def case_prod_beta split: option.split sum.split prod.split)

section \<open>Every reachable state\<close>

lemma state_ok_new [simp]: "state_ok (new_engine config)"
  by (simp add: state_ok_def new_engine_def)

lemma state_ok_exec [simp]: "state_ok e \<Longrightarrow> state_ok (exec c e)"
  by (cases c) simp_all

lemma state_ok_step: "step s s' \<Longrightarrow> state_ok (sys_engine s) \<Longrightarrow> state_ok (sys_engine s')"
proof (induction rule: step.induct)
  case (Answered s req result e)
  then show ?case using state_ok_publish2(1) [of "sys_engine s" req] by simp
next
  case (Reserve s req t e)
  then show ?case using state_ok_publish2(1) [of "sys_engine s" req] by simp
next
  case (Persist s xs t ys code e)
  then show ?case using state_ok_publish(2) [of "sys_engine s" t] by simp
next
  case (Commit s xs t code ys result e)
  then show ?case using state_ok_publish3 [of "sys_engine s" t code] by simp
qed simp_all

lemma reachable_state_ok: "reachable config s \<Longrightarrow> state_ok (sys_engine s)"
  by (induction rule: reachable.induct) (auto intro: state_ok_step)

end
