(* ===== verification/Audit_Properties.thy ===== *)
theory Audit_Properties
  imports Service_Example Engine_Tables
begin

text \<open>
  The auditor against the engine: a clean report implies the invariants it checks, and in a reachable
  state the violations that the engine excludes are never reported.
\<close>

section \<open>What a finding tells\<close>

lemma set_check [simp]: "f \<in> set (check about wrong code detail) \<longleftrightarrow> wrong \<and> f = about (finding code detail)"
  by (auto simp: check_def)

lemma check_Nil [simp]: "check about wrong code detail = [] \<longleftrightarrow> \<not> wrong"
  by (simp add: check_def)

lemma finding_simps [simp]: "af_code (finding code detail) = code" "af_detail (finding code detail) = detail"
  by (simp_all add: finding_def)

lemma clean_iff: "ar_clean (audit e) \<longleftrightarrow> raw_findings e = []"
  by (simp add: audit_def Let_def flip: length_0_conv)

lemma set_findings [simp]: "set (ar_findings (audit e)) = set (raw_findings e)"
  by (simp add: audit_def Let_def)

lemma values_at: "map_of m k = Some v \<Longrightarrow> v \<in> set (sm_values m)"
  by (force simp: sm_values_def dest: map_of_SomeD)

section \<open>A clean report\<close>

lemma clean_region:
  assumes "ar_clean (audit e)" "map_of (eng_regions e) k = Some r"
  shows "audit_region e r = []"
  using assms values_at [OF assms(2)] by (simp add: clean_iff raw_findings_def)

lemma clean_object:
  assumes "ar_clean (audit e)" "map_of (eng_objects e) k = Some ob"
  shows "audit_object e ob = []"
  using assms values_at [OF assms(2)] by (simp add: clean_iff raw_findings_def)

text \<open>C22. A clean audit report is evidence: it implies that every region belongs to an existing object and
  participant and lies within the object, that a current replica has evidence and the authoritative
  version, that no replica is ahead of the object, that a writer is a known participant under its
  current boot and not fenced or retired, that no other participant holds a read lease beside a
  writer, and that the replica lists are duplicate-free and name regions of the object.\<close>

theorem clean_audit_is_sound:
  assumes "ar_clean (audit e)"
  shows "(\<forall>k r. map_of (eng_regions e) k = Some r \<longrightarrow>
      (\<exists>ob p. map_of (eng_objects e) (reg_object r) = Some ob \<and> reg_object_generation r = obj_generation ob \<and>
         unat (reg_offset r) + unat (reg_length r) \<le> unat (obj_length ob) \<and>
         map_of (eng_participants e) (reg_participant r) = Some p \<and>
         (reg_state r = CoherenceState.Current \<longrightarrow> reg_evidence r \<noteq> 0 \<and>
            (obj_authoritative_version ob \<noteq> 0 \<longrightarrow> reg_version r = obj_authoritative_version ob)) \<and>
         (obj_authoritative_version ob \<noteq> 0 \<longrightarrow> reg_version r \<le> obj_authoritative_version ob))) \<and>
    (\<forall>k ob. map_of (eng_objects e) k = Some ob \<longrightarrow>
      (obj_authority ob \<in> {AuthorityMode.ExclusiveWriter, AuthorityMode.TransferPending} \<longrightarrow>
         (\<exists>p. map_of (eng_participants e) (obj_writer ob) = Some p \<and> par_boot p = obj_writer_boot ob \<and>
            par_lifecycle p \<notin> {ParticipantLifecycle.Fenced, ParticipantLifecycle.Retired}) \<and>
         (\<forall>g \<in> set (obj_reads ob). grant_released g \<or>
            grant_participant g = obj_writer ob \<and> grant_boot g = obj_writer_boot ob)) \<and>
      distinct (obj_replicas ob) \<and>
      (\<forall>j \<in> set (obj_replicas ob). \<exists>r. map_of (eng_regions e) j = Some r \<and> reg_object r = obj_id ob))"
proof (intro conjI allI impI)
  fix k r assume r: "map_of (eng_regions e) k = Some r"
  obtain ob where ob: "map_of (eng_objects e) (reg_object r) = Some ob"
    using clean_region [OF assms r] by (auto simp: audit_region_def split: option.splits)
  have clean: "audit_region e r = []" by (rule clean_region [OF assms r])
  obtain p where p: "map_of (eng_participants e) (reg_participant r) = Some p"
    using clean ob by (auto simp: audit_region_def audit_region_owner_def Let_def split: option.splits)
  have "checked_range (reg_offset r) (reg_length r) (obj_length ob)"
    using clean ob by (simp add: audit_region_def Let_def)
  then have "unat (reg_offset r) + unat (reg_length r) \<le> unat (obj_length ob)" by (simp add: checked_range_eq)
  moreover have "reg_object_generation r = obj_generation ob"
    "reg_state r = CoherenceState.Current \<longrightarrow> reg_evidence r \<noteq> 0 \<and>
       (obj_authoritative_version ob \<noteq> 0 \<longrightarrow> reg_version r = obj_authoritative_version ob)"
    "obj_authoritative_version ob \<noteq> 0 \<longrightarrow> reg_version r \<le> obj_authoritative_version ob"
    using clean ob by (auto simp: audit_region_def Let_def)
  ultimately show "\<exists>ob p. map_of (eng_objects e) (reg_object r) = Some ob \<and> reg_object_generation r = obj_generation ob \<and>
       unat (reg_offset r) + unat (reg_length r) \<le> unat (obj_length ob) \<and>
       map_of (eng_participants e) (reg_participant r) = Some p \<and>
       (reg_state r = CoherenceState.Current \<longrightarrow> reg_evidence r \<noteq> 0 \<and>
          (obj_authoritative_version ob \<noteq> 0 \<longrightarrow> reg_version r = obj_authoritative_version ob)) \<and>
       (obj_authoritative_version ob \<noteq> 0 \<longrightarrow> reg_version r \<le> obj_authoritative_version ob)"
    using ob p by blast
next
  fix k ob assume ob: "map_of (eng_objects e) k = Some ob"
  note clean = clean_object [OF assms ob, unfolded audit_object_def Let_def]
  show "distinct (obj_replicas ob)" "\<forall>j \<in> set (obj_replicas ob). \<exists>r. map_of (eng_regions e) j = Some r \<and> reg_object r = obj_id ob"
    using clean by (auto simp: audit_replicas_def split: option.splits)
  assume "obj_authority ob \<in> {AuthorityMode.ExclusiveWriter, AuthorityMode.TransferPending}"
  then show "\<exists>p. map_of (eng_participants e) (obj_writer ob) = Some p \<and> par_boot p = obj_writer_boot ob \<and>
      par_lifecycle p \<notin> {ParticipantLifecycle.Fenced, ParticipantLifecycle.Retired}"
    "\<forall>g \<in> set (obj_reads ob). grant_released g \<or> grant_participant g = obj_writer ob \<and> grant_boot g = obj_writer_boot ob"
    using clean by (auto simp: audit_writer_def audit_exclusion_def list_ex_iff split: option.splits if_splits)
qed

theorem clean_audit_is_sound_witness:
  "ar_clean (audit demo_published) \<and>
   (\<exists>r ob. map_of (eng_regions demo_published) 1 = Some r \<and> map_of (eng_objects demo_published) (reg_object r) = Some ob \<and>
      reg_object_generation r = obj_generation ob)"
proof -
  obtain r where "map_of (eng_regions demo_published) 1 = Some r" by (rule demo_region)
  then show ?thesis using clean_audit_is_sound [OF demo_audit_clean] demo_audit_clean by blast
qed

section \<open>The representation of the state\<close>



section \<open>What is never reported\<close>

definition benign :: "AuditFinding \<Rightarrow> bool" where
  "benign f \<longleftrightarrow> af_code f \<noteq> StatusCode.ExclusiveWriterConflict \<and> af_code f \<noteq> StatusCode.NotAuthoritative \<and>
     af_detail f \<noteq> detail_mismatch \<and> af_detail f \<noteq> detail_missing_object"

lemma benign_finding: "benign (finding code detail) \<longleftrightarrow>
    code \<noteq> StatusCode.ExclusiveWriterConflict \<and> code \<noteq> StatusCode.NotAuthoritative \<and>
    detail \<noteq> detail_mismatch \<and> detail \<noteq> detail_missing_object"
  by (simp add: benign_def)

lemma benign_placed [simp]:
  "benign (f\<lparr>af_object := ob\<rparr>) = benign f" "benign (f\<lparr>af_region := r\<rparr>) = benign f"
  "benign (f\<lparr>af_invalidation := i\<rparr>) = benign f" "benign (f\<lparr>af_sync := y\<rparr>) = benign f"
  by (simp_all add: benign_def)

lemma all_check [simp]:
  "list_all benign (check about wrong code detail) \<longleftrightarrow> (wrong \<longrightarrow> benign (about (finding code detail)))"
  by (simp add: check_def)

lemma all_concat: "(\<And>x. x \<in> set xs \<Longrightarrow> list_all P (f x)) \<Longrightarrow> list_all P (concat (map f xs))"
  by (induction xs) auto

lemmas benign_simps = benign_finding detail_mismatch_def detail_missing_object_def Let_def

lemma benign_domains [simp]: "list_all benign (audit_domains e names ds)"
  by (induction ds arbitrary: names) (simp_all add: benign_simps case_prod_beta)

lemma benign_retired_writer [simp]: "list_all benign (audit_retired_writer e p)"
  by (simp add: audit_retired_writer_def all_concat benign_simps)

lemma benign_participants [simp]: "list_all benign (audit_participants e names ps)"
  by (induction ps arbitrary: names) (simp_all add: benign_simps case_prod_beta)

lemma benign_indices [simp]:
  "list_all benign (audit_object_index e)" "list_all benign (audit_region_index e)" "list_all benign (audit_store e)"
  "list_all benign (audit_region_counts e)"
  by (auto simp: audit_object_index_def audit_region_index_def audit_store_def audit_region_counts_def benign_simps
      intro!: all_concat split: option.split)

lemma benign_invalidation [simp]: "list_all benign (audit_invalidation e iv)"
  by (simp add: benign_simps audit_invalidation_def)

lemma benign_sync [simp]: "list_all benign (audit_sync e y)"
  by (simp add: benign_simps audit_sync_def)

lemma benign_owner [simp]:
  "(\<And>h. benign (about h) = benign h) \<Longrightarrow> list_all benign (audit_region_owner e r about)"
  by (simp add: benign_simps audit_region_owner_def split: option.split)

lemma benign_region_pending [simp]:
  "(\<And>h. benign (about h) = benign h) \<Longrightarrow> list_all benign (audit_region_pending e r about)"
  by (simp add: benign_simps audit_region_pending_def split: option.split)

lemma benign_region:
  assumes "region_inv e k r"
  shows "list_all benign (audit_region e r)"
proof -
  obtain ob where ob: "map_of (eng_objects e) (reg_object r) = Some ob"
    and current: "reg_state r = CoherenceState.Current \<longrightarrow>
      obj_authoritative_version ob = 0 \<or> reg_version r = obj_authoritative_version ob"
    using assms by (auto simp: region_inv_def)
  from current show ?thesis by (simp add: audit_region_def ob benign_simps detail_generation_def)
qed

lemma benign_replicas [simp]:
  "(\<And>h. benign (about h) = benign h) \<Longrightarrow> list_all benign (audit_replicas e ob about)"
  by (simp add: benign_simps audit_replicas_def all_concat split: option.split)

lemma benign_writer [simp]:
  "(\<And>h. benign (about h) = benign h) \<Longrightarrow> authority_ok ob \<Longrightarrow> list_all benign (audit_writer e ob about)"
  by (auto simp: benign_simps audit_writer_def detail_dead_boot_def authority_ok_def exclusive_def split: option.split)

lemma benign_grant [simp]:
  "(\<And>h. benign (about h) = benign h) \<Longrightarrow> list_all benign (audit_grant e ob about g)"
  by (simp add: benign_simps audit_grant_def split: option.split)

lemma no_exclusion [simp]: "authority_ok ob \<Longrightarrow> audit_exclusion ob about = []"
  by (auto simp: audit_exclusion_def authority_ok_def exclusive_def list_ex_iff)

lemma benign_pending [simp]:
  "(\<And>h. benign (about h) = benign h) \<Longrightarrow> list_all benign (audit_pending e ob about)"
  by (simp add: benign_simps audit_pending_def)

lemma benign_outstanding [simp]:
  "(\<And>h. benign (about h) = benign h) \<Longrightarrow> list_all benign (audit_outstanding e about i)"
  by (simp add: benign_simps audit_outstanding_def split: option.split)

lemma benign_object: "authority_ok ob \<Longrightarrow> list_all benign (audit_object e ob)"
  by (simp add: audit_object_def all_concat benign_simps)

text \<open>C23. In no reachable state does the audit find a coherence violation: it never reports that a current
  replica differs from the authoritative version, that a writer coexists with a live read lease of
  another incarnation, that write authority has no owner, or that a region belongs to no object.\<close>

theorem audit_finds_no_coherence_violation:
  assumes "reachable config s" and "f \<in> set (ar_findings (audit (sys_engine s)))"
  shows "af_code f \<noteq> StatusCode.ExclusiveWriterConflict \<and> af_code f \<noteq> StatusCode.NotAuthoritative \<and>
    af_detail f \<noteq> detail_mismatch \<and> af_detail f \<noteq> detail_missing_object"
proof -
  let ?e = "sys_engine s"
  have inv: "engine_inv ?e" and ok: "state_ok ?e"
    using reachable_engine_inv reachable_state_ok assms(1) by blast+
  have "list_all benign (audit_region ?e r)" if "r \<in> set (sm_values (eng_regions ?e))" for r
    using that ok by (auto simp: sm_values_iff intro: benign_region [OF inv_region [OF inv]])
  moreover have "list_all benign (audit_object ?e ob)" if "ob \<in> set (sm_values (eng_objects ?e))" for ob
    using that ok inv_object [OF inv] by (auto simp: sm_values_iff intro!: benign_object)
  ultimately have "list_all benign (raw_findings ?e)" by (simp add: raw_findings_def all_concat)
  then have "benign f" using assms(2) by (simp add: list_all_iff)
  then show ?thesis by (simp add: benign_def)
qed

theorem audit_finds_no_coherence_violation_witness:
  "\<exists>f. f \<in> set (ar_findings (audit demo_flagged)) \<and> af_code f \<noteq> StatusCode.ExclusiveWriterConflict \<and>
     af_detail f \<noteq> detail_mismatch"
proof -
  have "reachable demo_config (demo_system\<lparr>sys_engine := demo_flagged\<rparr>)"
    using reachable.Step [OF reachable.Step [OF demo_reachable step.Call] step.Call,
        of "call.RegisterParticipant ''a'' (UInt128 0 7) 1 []" "call.FenceParticipant 1 1 []"]
    by (simp add: demo_flagged_def demo_system_def)
  note never = audit_finds_no_coherence_violation [OF this]
  have "raw_findings demo_flagged \<noteq> []" using demo_flagged_audit by (simp add: clean_iff)
  then obtain f where "f \<in> set (raw_findings demo_flagged)" using hd_in_set by blast
  then show ?thesis using never [of f] by auto
qed

end
