(* ===== verification/Divergences.thy ===== *)
theory Divergences
  imports Coordinator_Properties Audit_Properties
begin

text \<open>
  Places where the code does something else than its comments say, or than its other parts expect, each
  shown on the model.
\<close>

section \<open>The engine\<close>

text \<open>The configured initial epoch has no effect on a new engine (\<^verbatim>\<open>engine_core.cpp\<close>, the constructor).\<close>

lemma initial_epoch_is_ignored: "eng_epoch (new_engine config) = 1"
  by (simp add: new_engine_def)

text \<open>A canonical policy has generation zero, not one (\<^verbatim>\<open>policy.hpp\<close>, \<^verbatim>\<open>make_policy\<close>).\<close>

lemma canonical_policy_generation_is_zero: "pol_generation (make_policy model name) = 0"
  by (cases model) (simp_all add: make_policy_def strict_policy_def release_acquire_policy_def snapshot_policy_def
      eventual_policy_def default_policy_def)

text \<open>The replica a read selects depends on history: the cached replica is returned as long as it is
  current, even if a replica with a lower identity is current too (\<^verbatim>\<open>select_read_region_locked\<close>).\<close>

lemma cached_replica_is_preferred:
  assumes "map_of (eng_regions e) k = Some r" "reg_state r = CoherenceState.Current" "k \<noteq> 0"
    "obj_preferred_current_replica ob = k"
  shows "select_read_region e ob 0 = (k, ob)"
  using assms by (simp add: select_read_region_def region_state_is_def is_current_state_def)

text \<open>What reaches the store is never marked dirty, so that the dirty-loss classification of recovery has
  nothing to classify (\<^verbatim>\<open>scrub_object_for_persistence\<close>, \<^verbatim>\<open>attach_store\<close>).\<close>

lemma persisted_objects_are_clean: "classify_dirty e (scrub_object_for_persistence ob) = scrub_object_for_persistence ob"
  by (simp add: classify_dirty_def scrub_object_for_persistence_def)

text \<open>The largest identity a registration may request makes the counter wrap to the nil identity
  (\<^verbatim>\<open>register_region\<close>).\<close>

lemma largest_requested_identity_wraps: "allocate (- 1) counter = (- 1, 0)"
  by (simp add: allocate_def)

text \<open>Revalidation marks unpublished modifications as published although nothing was published
  (\<^verbatim>\<open>revalidate_region\<close>).\<close>

lemma revalidation_publishes_dirt:
  "reg_dirty region = DirtyCondition.DirtyUnpublished \<Longrightarrow>
   reg_dirty (revalidated_region sequence req ob evidence region) = DirtyCondition.DirtyPublished \<and>
   reg_dirty_published (revalidated_region sequence req ob evidence region)"
  by (simp add: revalidated_region_def Let_def)

text \<open>A participant that registers directly with the engine under a new boot leaves the write authority of
  its previous boot in place: no object changes (\<^verbatim>\<open>register_participant\<close>).  The coordinator fences the
  previous boot before it registers the new one.\<close>

lemma readmission_leaves_authority:
  "map_of (eng_objects e) k = Some ob \<Longrightarrow>
   map_of (eng_objects (snd (register_participant e name boot epoch label))) k = Some ob"
  by simp

section \<open>The coordinator\<close>

text \<open>An invalidation request is executed alike on every participant's session: the participant and the
  boot of its context are those of the payload.\<close>

lemma invalidate_ignores_session:
  assumes "fh_type (fr_header frame) = MessageType.Invalidate" "\<not> ses_observer s" "\<not> ses_observer s'"
  shows "dispatch s frame c = dispatch s' frame c"
  using assms by (simp add: dispatch_def dispatch_request_def Let_def)

text \<open>A request whose payload the decoder refuses (here a read request with an unknown version) is
  answered with the code of success and an empty body.\<close>

lemma unknown_version_refused: "decode_read_request (w_u16 2) = Inl Refused"
  by code_simp

lemma refused_payload_answers_ok:
  "dispatch demo_session (demo_frame MessageType.AcquireRead (w_u16 2)) c = ((StatusCode.Ok, NoReply), c)"
  by (simp add: unknown_version_refused reader_status_def dispatch_def dispatch_request_def decoded_def demo_session_def new_session_def demo_hello_def demo_frame_def Let_def)

text \<open>A participant that was fenced when its connection was lost reconnects under the same boot: it is
  admitted and marked live while it stays fenced, which the audit reports.\<close>

lemma reconnected_participant_is_fenced_and_live:
  "(\<exists>response. fst demo_reconnect = Inr response) \<and>
   (\<exists>p. map_of (eng_participants (co_engine (snd demo_reconnect))) 1 = Some p \<and>
      par_lifecycle p = ParticipantLifecycle.Fenced \<and> par_live p) \<and>
   \<not> ar_clean (audit (co_engine (snd demo_reconnect)))"
  using demo_reconnect_ok demo_reconnect_fenced demo_reconnect_audit by (auto split: sum.splits option.splits)

text \<open>Bytes behind the payload of a request are ignored.\<close>

lemma trailing_bytes_are_ignored:
  "dispatch demo_session (demo_frame MessageType.Ping (w_u64 nonce @ rest)) c =
   dispatch demo_session (demo_frame MessageType.Ping (w_u64 nonce)) c"
  using u64_codec.decode_encode [of nonce rest] u64_codec.decode_all [of nonce]
  by (simp add: dispatch_def dispatch_request_def decoded_def demo_session_def new_session_def demo_hello_def demo_frame_def Let_def)

end
