(* ===== verification/Platform_File.thy ===== *)
theory Platform_File
  imports Status Texts
begin

text \<open>
  The file operations of \<^verbatim>\<open>src/platform_file.cpp\<close>, in their POSIX branch.  The operating system and
  \<^verbatim>\<open>std::filesystem\<close> are a parameter: one record of calls over the state of the machine.  A call that a
  signal interrupts is made again by the code's own loops and is not an outcome here; \<open>None\<close>, \<open>False\<close> and
  a transfer of zero bytes are the outcomes the code treats as failures.  What the calls promise of files
  is \<open>posix_files\<close>, and the lemmas show what every operation then does to the disk, whichever of its calls
  fail.
\<close>

section \<open>The calls\<close>

record 'w os_calls =
  sys_exists :: "string \<Rightarrow> 'w \<Rightarrow> bool"
  sys_is_directory :: "string \<Rightarrow> 'w \<Rightarrow> bool"
  sys_create_directories :: "string \<Rightarrow> 'w \<Rightarrow> bool \<times> 'w"
  sys_stat :: "string \<Rightarrow> 'w \<Rightarrow> (bool \<times> u64) option"
  sys_fstat :: "nat \<Rightarrow> 'w \<Rightarrow> (bool \<times> u64) option"
  sys_open_append :: "string \<Rightarrow> 'w \<Rightarrow> nat option \<times> 'w"
  sys_open_read :: "string \<Rightarrow> 'w \<Rightarrow> nat option \<times> 'w"
  sys_read :: "nat \<Rightarrow> nat \<Rightarrow> 'w \<Rightarrow> bytes option \<times> 'w"
  sys_write :: "nat \<Rightarrow> bytes \<Rightarrow> 'w \<Rightarrow> nat option \<times> 'w"
  sys_fsync :: "nat \<Rightarrow> 'w \<Rightarrow> bool \<times> 'w"
  sys_close :: "nat \<Rightarrow> 'w \<Rightarrow> bool \<times> 'w"
  sys_rename :: "string \<Rightarrow> string \<Rightarrow> 'w \<Rightarrow> bool \<times> 'w"
  sys_remove :: "string \<Rightarrow> 'w \<Rightarrow> bool \<times> 'w"

section \<open>File handles\<close>

text \<open>\<open>handle_\<close> is the descriptor cast to a pointer, so descriptor zero is the null pointer.\<close>

record FileHandle =
  fh_handle :: nat
  fh_size :: u64

definition kMaxTransferChunk :: nat where
  "kMaxTransferChunk = 0x40000000"

definition reset_handle :: FileHandle where
  "reset_handle = \<lparr>fh_handle = 0, fh_size = 0\<rparr>"

definition open_append :: "'w os_calls \<Rightarrow> string \<Rightarrow> 'w \<Rightarrow> FileHandle Result \<times> 'w" where
  "open_append os path w =
     (case sys_open_append os path w of
        (None, w) \<Rightarrow> (Inl StatusCode.PersistenceFailure, w)
      | (Some fd, w) \<Rightarrow>
          (case sys_fstat os fd w of
             None \<Rightarrow> (Inl StatusCode.PersistenceFailure, snd (sys_close os fd w))
           | Some (directory, st_size) \<Rightarrow> (Inr \<lparr>fh_handle = fd, fh_size = st_size\<rparr>, w)))"

definition handle_valid :: "FileHandle \<Rightarrow> bool" where
  "handle_valid h \<longleftrightarrow> fh_handle h \<noteq> 0"

text \<open>The loop of \<open>write\<close>, with the number of bytes it transferred.\<close>

function write_loop :: "'w os_calls \<Rightarrow> nat \<Rightarrow> bytes \<Rightarrow> 'w \<Rightarrow> StatusCode \<times> nat \<times> 'w" where
  "write_loop os fd data w =
     (if data = [] then (StatusCode.Ok, 0, w)
      else case sys_write os fd (take kMaxTransferChunk data) w of
          (None, w) \<Rightarrow> (StatusCode.PersistenceFailure, 0, w)
        | (Some written, w) \<Rightarrow>
            if written = 0 then (StatusCode.PersistenceFailure, 0, w)
            else let (status, later, w) = write_loop os fd (drop written data) w
                 in (status, written + later, w))"
  by pat_completeness auto
termination
  by (relation "measure (\<lambda>(os, fd, data, w). length data)") auto

declare write_loop.simps [simp del]

definition handle_write :: "'w os_calls \<Rightarrow> FileHandle \<Rightarrow> bytes \<Rightarrow> 'w \<Rightarrow> StatusCode \<times> FileHandle \<times> 'w" where
  "handle_write os h data w =
     (if \<not> handle_valid h then (StatusCode.PersistenceFailure, h, w)
      else let (status, written, w) = write_loop os (fh_handle h) data w
           in (status, h\<lparr>fh_size := fh_size h + of_nat written\<rparr>, w))"

definition handle_flush :: "'w os_calls \<Rightarrow> FileHandle \<Rightarrow> 'w \<Rightarrow> StatusCode \<times> 'w" where
  "handle_flush os h w =
     (if \<not> handle_valid h then (StatusCode.PersistenceFailure, w)
      else let (ok, w) = sys_fsync os (fh_handle h) w
           in (if ok then StatusCode.Ok else StatusCode.PersistenceFailure, w))"

definition handle_close :: "'w os_calls \<Rightarrow> FileHandle \<Rightarrow> 'w \<Rightarrow> StatusCode \<times> FileHandle \<times> 'w" where
  "handle_close os h w =
     (if \<not> handle_valid h then (StatusCode.Ok, reset_handle, w)
      else let (ok, w) = sys_close os (fh_handle h) w
           in (if ok then StatusCode.Ok else StatusCode.PersistenceFailure, reset_handle, w))"

section \<open>Whole files\<close>

definition path_exists :: "'w os_calls \<Rightarrow> string \<Rightarrow> 'w \<Rightarrow> bool" where
  "path_exists os path w = sys_exists os path w"

definition query_file_size :: "'w os_calls \<Rightarrow> string \<Rightarrow> 'w \<Rightarrow> u64 option" where
  "query_file_size os path w =
     (case sys_stat os path w of
        None \<Rightarrow> None
      | Some (directory, st_size) \<Rightarrow> if directory then None else Some st_size)"

record FileReadResult =
  frr_bytes :: bytes
  frr_total_size :: u64
  frr_truncated_to_limit :: bool

text \<open>The loop of \<open>read_entire_file\<close>: until the buffer is full or the file ends.\<close>

function read_loop :: "'w os_calls \<Rightarrow> nat \<Rightarrow> nat \<Rightarrow> 'w \<Rightarrow> bytes Result \<times> 'w" where
  "read_loop os fd want w =
     (if want = 0 then (Inr [], w)
      else case sys_read os fd want w of
          (None, w) \<Rightarrow> (Inl StatusCode.PersistenceFailure, w)
        | (Some chunk, w) \<Rightarrow>
            if chunk = [] then (Inr [], w)
            else case read_loop os fd (want - length chunk) w of
                (Inl code, w) \<Rightarrow> (Inl code, w)
              | (Inr rest, w) \<Rightarrow> (Inr (chunk @ rest), w))"
  by pat_completeness auto
termination
  by (relation "measure (\<lambda>(os, fd, want, w). want)") auto

declare read_loop.simps [simp del]

text \<open>The size is taken from an open descriptor first.\<close>

definition probe_file :: "'w os_calls \<Rightarrow> string \<Rightarrow> u64 \<Rightarrow> 'w \<Rightarrow> StatusCode \<times> 'w" where
  "probe_file os path max_bytes w =
     (case sys_open_read os path w of
        (None, w) \<Rightarrow> (StatusCode.PersistenceFailure, w)
      | (Some probe, w) \<Rightarrow>
          let w' = snd (sys_close os probe w)
          in case sys_fstat os probe w of
               None \<Rightarrow> (StatusCode.PersistenceFailure, w')
             | Some (directory, st_size) \<Rightarrow>
                 if directory then (StatusCode.UnknownRequest, w')
                 else if st_size > max_bytes then (StatusCode.OversizedInput, w')
                 else (StatusCode.Ok, w'))"

definition read_entire_file :: "'w os_calls \<Rightarrow> string \<Rightarrow> u64 \<Rightarrow> 'w \<Rightarrow> FileReadResult Result \<times> 'w" where
  "read_entire_file os path max_bytes w =
     (let (probed, w) = probe_file os path max_bytes w
      in if probed \<noteq> StatusCode.Ok then (Inl probed, w)
         else case query_file_size os path w of
             None \<Rightarrow> (Inl StatusCode.UnknownRequest, w)
           | Some st_size \<Rightarrow>
               case sys_open_read os path w of
                 (None, w) \<Rightarrow> (Inl StatusCode.PersistenceFailure, w)
               | (Some fd, w) \<Rightarrow>
                   let (outcome, w) = read_loop os fd (unat st_size) w; w = snd (sys_close os fd w)
                   in case outcome of
                        Inl code \<Rightarrow> (Inl code, w)
                      | Inr data \<Rightarrow>
                          (Inr \<lparr>frr_bytes = data, frr_total_size = st_size,
                                frr_truncated_to_limit = False\<rparr>, w))"

definition remove_file :: "'w os_calls \<Rightarrow> string \<Rightarrow> 'w \<Rightarrow> StatusCode \<times> 'w" where
  "remove_file os path w =
     (let (ok, w) = sys_remove os path w
      in (if ok then StatusCode.Ok else StatusCode.PersistenceFailure, w))"

definition rotate_file :: "'w os_calls \<Rightarrow> string \<Rightarrow> string \<Rightarrow> 'w \<Rightarrow> StatusCode \<times> 'w" where
  "rotate_file os path backup w =
     (if \<not> path_exists os path w then (StatusCode.Ok, w)
      else let (_, w) = sys_remove os backup w; (ok, w) = sys_rename os path backup w
           in (if ok then StatusCode.Ok else StatusCode.PersistenceFailure, w))"

definition ensure_directory :: "'w os_calls \<Rightarrow> string \<Rightarrow> 'w \<Rightarrow> StatusCode \<times> 'w" where
  "ensure_directory os path w =
     (if sys_exists os path w then
        (if sys_is_directory os path w then StatusCode.Ok else StatusCode.PersistenceFailure, w)
      else let (ok, w) = sys_create_directories os path w
           in (if ok then StatusCode.Ok else StatusCode.PersistenceFailure, w))"

section \<open>Atomic replacement\<close>

text \<open>The sibling's suffix: the process id and the value the process-wide counter had.\<close>

definition unique_sibling :: "nat \<Rightarrow> u64 \<Rightarrow> string \<Rightarrow> string" where
  "unique_sibling pid n path = path @ ''.tmp-'' @ nat_to_decimal pid @ ''-'' @ id_to_string n"

text \<open>\<^verbatim>\<open>std::filesystem::path::parent_path\<close>.\<close>

definition parent_path :: "string \<Rightarrow> string" where
  "parent_path path =
     (let directory = rev (dropWhile (\<lambda>c. c \<noteq> CHR ''/'') (rev path));
          trimmed = rev (dropWhile (\<lambda>c. c = CHR ''/'') (rev directory))
      in if trimmed = [] \<and> directory \<noteq> [] then ''/'' else trimmed)"

definition sync_directory :: "'w os_calls \<Rightarrow> string \<Rightarrow> 'w \<Rightarrow> 'w" where
  "sync_directory os path w =
     (let dir = parent_path path
      in case sys_open_read os (if dir = [] then ''.'' else dir) w of
           (None, w) \<Rightarrow> w
         | (Some fd, w) \<Rightarrow> snd (sys_close os fd (snd (sys_fsync os fd w))))"

definition write_sibling :: "'w os_calls \<Rightarrow> string \<Rightarrow> bytes \<Rightarrow> 'w \<Rightarrow> StatusCode \<times> 'w" where
  "write_sibling os temp data w =
     (case open_append os temp w of
        (Inl code, w) \<Rightarrow> (code, w)
      | (Inr h, w) \<Rightarrow>
          let (wrote, h, w) = handle_write os h data w
          in if wrote \<noteq> StatusCode.Ok
               then let (_, _, w) = handle_close os h w in (wrote, snd (remove_file os temp w))
             else let (flushed, w) = handle_flush os h w
             in if flushed \<noteq> StatusCode.Ok
                  then let (_, _, w) = handle_close os h w in (flushed, snd (remove_file os temp w))
                else let (closed, _, w) = handle_close os h w
                in if closed \<noteq> StatusCode.Ok then (closed, snd (remove_file os temp w))
                   else (StatusCode.Ok, w))"

definition atomic_replace_file ::
  "'w os_calls \<Rightarrow> nat \<Rightarrow> u64 \<Rightarrow> string \<Rightarrow> bytes \<Rightarrow> 'w \<Rightarrow> StatusCode \<times> 'w" where
  "atomic_replace_file os pid n path data w =
     (let temp = unique_sibling pid n path; (wrote, w) = write_sibling os temp data w
      in if wrote \<noteq> StatusCode.Ok then (wrote, w)
         else let (ok, w) = sys_rename os temp path w
         in if \<not> ok then (StatusCode.PersistenceFailure, snd (remove_file os temp w))
            else (StatusCode.Ok, sync_directory os path w))"

section \<open>What the calls promise\<close>

text \<open>The abstract disk: what a path names, which path an append descriptor writes to, and what a read
  descriptor has yet to deliver.\<close>

datatype node = Directory | Regular bytes

record 'w disk =
  node_at :: "'w \<Rightarrow> string \<Rightarrow> node option"
  open_at :: "'w \<Rightarrow> nat \<Rightarrow> string option"
  unread :: "'w \<Rightarrow> nat \<Rightarrow> bytes"

fun file_bytes :: "node option \<Rightarrow> bytes" where
  "file_bytes (Some (Regular data)) = data"
| "file_bytes _ = []"

definition untouched :: "'w disk \<Rightarrow> 'w \<Rightarrow> 'w \<Rightarrow> bool" where
  "untouched d w w' \<longleftrightarrow> node_at d w' = node_at d w \<and> open_at d w' = open_at d w"

definition metadata_law :: "'w os_calls \<Rightarrow> 'w disk \<Rightarrow> bool" where
  "metadata_law os d \<longleftrightarrow> (\<forall>p w.
     (sys_exists os p w \<longleftrightarrow> node_at d w p \<noteq> None) \<and>
     (sys_is_directory os p w \<longleftrightarrow> node_at d w p = Some Directory) \<and>
     (case node_at d w p of
        None \<Rightarrow> sys_stat os p w = None
      | Some Directory \<Rightarrow> \<exists>n. sys_stat os p w = Some (True, n)
      | Some (Regular data) \<Rightarrow> sys_stat os p w = Some (False, of_nat (length data))))"

definition mkdir_law :: "'w os_calls \<Rightarrow> 'w disk \<Rightarrow> bool" where
  "mkdir_law os d \<longleftrightarrow> (\<forall>p w ok w'. sys_create_directories os p w = (ok, w') \<longrightarrow>
     open_at d w' = open_at d w \<and>
     (\<forall>q. take (length q) p \<noteq> q \<longrightarrow> node_at d w' q = node_at d w q))"

definition open_append_law :: "'w os_calls \<Rightarrow> 'w disk \<Rightarrow> bool" where
  "open_append_law os d \<longleftrightarrow> (\<forall>p w r w'. sys_open_append os p w = (r, w') \<longrightarrow>
     (case r of
        None \<Rightarrow> untouched d w w'
      | Some fd \<Rightarrow> open_at d w fd = None \<and> open_at d w' = (open_at d w)(fd \<mapsto> p) \<and>
          node_at d w p \<noteq> Some Directory \<and>
          node_at d w' = (node_at d w)(p \<mapsto> Regular (file_bytes (node_at d w p)))))"

definition write_law :: "'w os_calls \<Rightarrow> 'w disk \<Rightarrow> bool" where
  "write_law os d \<longleftrightarrow> (\<forall>fd p before data w r w'.
     open_at d w fd = Some p \<and> node_at d w p = Some (Regular before) \<and>
     sys_write os fd data w = (r, w') \<longrightarrow>
     open_at d w' = open_at d w \<and>
     (case r of
        None \<Rightarrow> node_at d w' = node_at d w
      | Some n \<Rightarrow> n \<le> length data \<and>
          node_at d w' = (node_at d w)(p \<mapsto> Regular (before @ take n data))))"

definition read_law :: "'w os_calls \<Rightarrow> 'w disk \<Rightarrow> bool" where
  "read_law os d \<longleftrightarrow>
     (\<forall>p w r w'. sys_open_read os p w = (r, w') \<longrightarrow> untouched d w w' \<and>
        (\<forall>fd. r = Some fd \<longrightarrow> open_at d w fd = None \<and> unread d w' fd = file_bytes (node_at d w p) \<and>
           (sys_fstat os fd w' = None \<or> sys_fstat os fd w' = sys_stat os p w))) \<and>
     (\<forall>fd n w r w'. sys_read os fd n w = (r, w') \<longrightarrow> untouched d w w' \<and>
        (\<forall>data. r = Some data \<longrightarrow> length data \<le> n \<and> take (length data) (unread d w fd) = data \<and>
           unread d w' fd = drop (length data) (unread d w fd) \<and>
           (data = [] \<longrightarrow> n = 0 \<or> unread d w fd = [])))"

definition close_law :: "'w os_calls \<Rightarrow> 'w disk \<Rightarrow> bool" where
  "close_law os d \<longleftrightarrow>
     (\<forall>fd w ok w'. sys_close os fd w = (ok, w') \<longrightarrow>
        node_at d w' = node_at d w \<and> open_at d w' = (open_at d w)(fd := None)) \<and>
     (\<forall>fd w ok w'. sys_fsync os fd w = (ok, w') \<longrightarrow> untouched d w w')"

text \<open>Renaming is atomic: it happens or it does not.  Descriptors follow the file, not the name.\<close>

definition rename_law :: "'w os_calls \<Rightarrow> 'w disk \<Rightarrow> bool" where
  "rename_law os d \<longleftrightarrow>
     (\<forall>p q w ok w'. sys_rename os p q w = (ok, w') \<longrightarrow>
        (if ok then node_at d w p \<noteq> None \<and>
            node_at d w' = (node_at d w)(p := None, q := node_at d w p) \<and>
            open_at d w' = (\<lambda>fd. if open_at d w fd = Some p then Some q
              else if open_at d w fd = Some q then None else open_at d w fd)
         else untouched d w w')) \<and>
     (\<forall>p w ok w'. sys_remove os p w = (ok, w') \<longrightarrow>
        (if ok then node_at d w' = (node_at d w)(p := None) \<and>
            open_at d w' = (\<lambda>fd. if open_at d w fd = Some p then None else open_at d w fd)
         else untouched d w w'))"

definition posix_files :: "'w os_calls \<Rightarrow> 'w disk \<Rightarrow> bool" where
  "posix_files os d \<longleftrightarrow>
     metadata_law os d \<and> mkdir_law os d \<and> open_append_law os d \<and> write_law os d \<and>
     read_law os d \<and> close_law os d \<and> rename_law os d"

text \<open>No descriptor is open for appending to a path.\<close>

definition not_open :: "'w disk \<Rightarrow> 'w \<Rightarrow> string \<Rightarrow> bool" where
  "not_open d w p \<longleftrightarrow> (\<forall>fd. open_at d w fd \<noteq> Some p)"

section \<open>Handles and the disk\<close>

lemma posix_open_append:
  assumes "posix_files os d" and "sys_open_append os p w = (Some fd, w')"
  shows "open_at d w fd = None" "open_at d w' = (open_at d w)(fd \<mapsto> p)"
    "node_at d w p \<noteq> Some Directory"
    "node_at d w' = (node_at d w)(p \<mapsto> Regular (file_bytes (node_at d w p)))"
  using assms unfolding posix_files_def open_append_law_def by fastforce+

lemma posix_close:
  assumes "posix_files os d" and "sys_close os fd w = (ok, w')"
  shows "node_at d w' = node_at d w" "open_at d w' = (open_at d w)(fd := None)"
  using assms unfolding posix_files_def close_law_def by auto

lemma posix_fsync: "posix_files os d \<Longrightarrow> sys_fsync os fd w = (ok, w') \<Longrightarrow> untouched d w w'"
  unfolding posix_files_def close_law_def by auto

lemma posix_write:
  assumes "posix_files os d" and "sys_write os fd data w = (r, w')"
    and "open_at d w fd = Some p" and "node_at d w p = Some (Regular before)"
  shows "open_at d w' = open_at d w"
    "r = None \<Longrightarrow> node_at d w' = node_at d w"
    "r = Some n \<Longrightarrow> n \<le> length data \<and> node_at d w' = (node_at d w)(p \<mapsto> Regular (before @ take n data))"
proof -
  have "write_law os d" using assms(1) by (simp add: posix_files_def)
  then have "open_at d w' = open_at d w \<and> (case r of None \<Rightarrow> node_at d w' = node_at d w
      | Some n \<Rightarrow> n \<le> length data \<and> node_at d w' = (node_at d w)(p \<mapsto> Regular (before @ take n data)))"
    using assms(2-4) unfolding write_law_def by blast
  then show "open_at d w' = open_at d w"
    "r = None \<Longrightarrow> node_at d w' = node_at d w"
    "r = Some n \<Longrightarrow> n \<le> length data \<and> node_at d w' = (node_at d w)(p \<mapsto> Regular (before @ take n data))"
    by auto
qed

lemma posix_rename:
  assumes "posix_files os d" and "sys_rename os p q w = (ok, w')"
  shows "ok \<Longrightarrow> node_at d w' = (node_at d w)(p := None, q := node_at d w p)"
    "ok \<Longrightarrow> open_at d w' = (\<lambda>fd. if open_at d w fd = Some p then Some q
       else if open_at d w fd = Some q then None else open_at d w fd)"
    "\<not> ok \<Longrightarrow> untouched d w w'"
proof -
  have "rename_law os d" using assms(1) by (simp add: posix_files_def)
  then have "if ok then node_at d w p \<noteq> None \<and>
      node_at d w' = (node_at d w)(p := None, q := node_at d w p) \<and>
      open_at d w' = (\<lambda>fd. if open_at d w fd = Some p then Some q
        else if open_at d w fd = Some q then None else open_at d w fd)
    else untouched d w w'"
    using assms(2) unfolding rename_law_def by blast
  then show "ok \<Longrightarrow> node_at d w' = (node_at d w)(p := None, q := node_at d w p)"
    "ok \<Longrightarrow> open_at d w' = (\<lambda>fd. if open_at d w fd = Some p then Some q
       else if open_at d w fd = Some q then None else open_at d w fd)"
    "\<not> ok \<Longrightarrow> untouched d w w'"
    by (simp_all split: if_splits)
qed

lemma posix_remove:
  assumes "posix_files os d" and "sys_remove os p w = (ok, w')"
  shows "ok \<Longrightarrow> node_at d w' = (node_at d w)(p := None)"
    "ok \<Longrightarrow> open_at d w' = (\<lambda>fd. if open_at d w fd = Some p then None else open_at d w fd)"
    "\<not> ok \<Longrightarrow> untouched d w w'"
proof -
  have "rename_law os d" using assms(1) by (simp add: posix_files_def)
  then have "if ok then node_at d w' = (node_at d w)(p := None) \<and>
      open_at d w' = (\<lambda>fd. if open_at d w fd = Some p then None else open_at d w fd)
    else untouched d w w'"
    using assms(2) unfolding rename_law_def by blast
  then show "ok \<Longrightarrow> node_at d w' = (node_at d w)(p := None)"
    "ok \<Longrightarrow> open_at d w' = (\<lambda>fd. if open_at d w fd = Some p then None else open_at d w fd)"
    "\<not> ok \<Longrightarrow> untouched d w w'"
    by (simp_all split: if_splits)
qed

lemma posix_metadata:
  assumes "posix_files os d"
  shows "sys_exists os p w \<longleftrightarrow> node_at d w p \<noteq> None"
    "sys_is_directory os p w \<longleftrightarrow> node_at d w p = Some Directory"
    "node_at d w p = Some (Regular data) \<Longrightarrow> sys_stat os p w = Some (False, of_nat (length data))"
    "node_at d w p = None \<Longrightarrow> sys_stat os p w = None"
proof -
  have "metadata_law os d" using assms by (simp add: posix_files_def)
  then have l: "(sys_exists os p w \<longleftrightarrow> node_at d w p \<noteq> None)"
    "(sys_is_directory os p w \<longleftrightarrow> node_at d w p = Some Directory)"
    "(case node_at d w p of
        None \<Rightarrow> sys_stat os p w = None
      | Some Directory \<Rightarrow> \<exists>n. sys_stat os p w = Some (True, n)
      | Some (Regular data) \<Rightarrow> sys_stat os p w = Some (False, of_nat (length data)))"
    unfolding metadata_law_def by blast+
  from l(1,2) show "sys_exists os p w \<longleftrightarrow> node_at d w p \<noteq> None"
    "sys_is_directory os p w \<longleftrightarrow> node_at d w p = Some Directory" .
  from l(3) show "node_at d w p = Some (Regular data) \<Longrightarrow> sys_stat os p w = Some (False, of_nat (length data))"
    "node_at d w p = None \<Longrightarrow> sys_stat os p w = None" by simp_all
qed

lemma untouched_refl [simp]: "untouched d w w"
  by (simp add: untouched_def)

text \<open>Opening for append gives a handle on the file, which the call creates when it is missing.\<close>

lemma open_append_ok:
  assumes "posix_files os d" and "open_append os p w = (Inr h, w')"
  shows "open_at d w (fh_handle h) = None" "open_at d w' = (open_at d w)(fh_handle h \<mapsto> p)"
    "node_at d w' = (node_at d w)(p \<mapsto> Regular (file_bytes (node_at d w p)))"
    "node_at d w p \<noteq> Some Directory"
proof -
  obtain fd where fd: "sys_open_append os p w = (Some fd, w')" "fh_handle h = fd"
    using assms(2) by (auto simp: open_append_def split: prod.splits option.splits)
  from posix_open_append [OF assms(1) fd(1)] show "open_at d w (fh_handle h) = None"
    "open_at d w' = (open_at d w)(fh_handle h \<mapsto> p)" "node_at d w p \<noteq> Some Directory"
    "node_at d w' = (node_at d w)(p \<mapsto> Regular (file_bytes (node_at d w p)))" by (simp_all add: fd(2))
qed

text \<open>When it fails it may have created the file, empty, and nothing else.\<close>

lemma open_append_failed:
  assumes "posix_files os d" and "open_append os p w = (Inl code, w')"
  shows "open_at d w' = open_at d w"
    "node_at d w' = node_at d w \<or>
     node_at d w p \<noteq> Some Directory \<and>
     node_at d w' = (node_at d w)(p \<mapsto> Regular (file_bytes (node_at d w p)))"
proof -
  consider "sys_open_append os p w = (None, w')"
    | fd w1 ok where "sys_open_append os p w = (Some fd, w1)" "sys_close os fd w1 = (ok, w')"
    using assms(2) by (auto simp: open_append_def split: prod.splits option.splits)
      (metis prod.collapse)
  then have "open_at d w' = open_at d w \<and> (node_at d w' = node_at d w \<or> node_at d w p \<noteq> Some Directory \<and>
     node_at d w' = (node_at d w)(p \<mapsto> Regular (file_bytes (node_at d w p))))"
  proof cases
    case 1
    then have "untouched d w w'" using assms(1) unfolding posix_files_def open_append_law_def by fastforce
    then show ?thesis by (simp add: untouched_def)
  next
    case 2
    from posix_open_append [OF assms(1) 2(1)] posix_close [OF assms(1) 2(2)] show ?thesis by auto
  qed
  then show "open_at d w' = open_at d w" "node_at d w' = node_at d w \<or>
     node_at d w p \<noteq> Some Directory \<and>
     node_at d w' = (node_at d w)(p \<mapsto> Regular (file_bytes (node_at d w p)))" by auto
qed

text \<open>A write appends a prefix of the data, all of it exactly when it succeeds.\<close>

lemma write_loop_disk:
  assumes "posix_files os d" and "write_loop os fd data w = (status, n, w')"
    and "open_at d w fd = Some p" and "node_at d w p = Some (Regular before)"
  shows "open_at d w' = open_at d w \<and> n \<le> length data \<and>
    (status = StatusCode.Ok \<longleftrightarrow> n = length data) \<and>
    node_at d w' = (node_at d w)(p \<mapsto> Regular (before @ take n data))"
  using assms(2-4)
proof (induction "length data" arbitrary: data w before n rule: less_induct)
  case less
  note law = posix_write [OF assms(1) _ less.prems(2,3)]
  show ?case
  proof (cases "data = []")
    case True
    then show ?thesis using less.prems by (auto simp: write_loop.simps)
  next
    case False
    obtain r w1 where r: "sys_write os fd (take kMaxTransferChunk data) w = (r, w1)" by fastforce
    show ?thesis
    proof (cases "r = None \<or> r = Some 0")
      case True
      then have "(status, n, w') = (StatusCode.PersistenceFailure, 0, w1)"
        using less.prems(1) r False by (subst (asm) write_loop.simps) auto
      then show ?thesis using law [OF r] True False less.prems(3) by (auto simp: fun_upd_idem)
    next
      case more: False
      then obtain k where k: "r = Some k" "0 < k" by auto
      obtain m where rest: "write_loop os fd (drop k data) w1 = (status, m, w')" and n: "n = k + m"
        using less.prems(1) r False k by (subst (asm) write_loop.simps) (auto split: prod.splits)
      have kl: "k \<le> length data" and w1: "open_at d w1 = open_at d w"
        "node_at d w1 = (node_at d w)(p \<mapsto> Regular (before @ take k data))"
        using law [OF r] k by (auto simp: min_absorb1)
      from less.hyps [of "drop k data" w1 m "before @ take k data"] rest k kl less.prems w1
      have "open_at d w' = open_at d w1 \<and> m \<le> length data - k \<and>
          (status = StatusCode.Ok \<longleftrightarrow> m = length data - k) \<and>
          node_at d w' = (node_at d w1)(p \<mapsto> Regular ((before @ take k data) @ take m (drop k data)))"
        using False by simp
      then show ?thesis using w1 n kl by (auto simp: take_add)
    qed
  qed
qed

lemma handle_write_disk:
  assumes "posix_files os d" and "handle_write os h data w = (status, h', w')"
    and "open_at d w (fh_handle h) = Some p" and "node_at d w p = Some (Regular before)"
  shows "open_at d w' = open_at d w \<and> fh_handle h' = fh_handle h \<and>
    (\<exists>n \<le> length data. node_at d w' = (node_at d w)(p \<mapsto> Regular (before @ take n data)) \<and>
       (status = StatusCode.Ok \<longrightarrow> n = length data) \<and>
       (handle_valid h \<longrightarrow> n = length data \<longrightarrow> status = StatusCode.Ok))"
proof (cases "handle_valid h")
  case True
  then obtain n where n: "write_loop os (fh_handle h) data w = (status, n, w')" "fh_handle h' = fh_handle h"
    using assms(2) by (auto simp: handle_write_def split: prod.splits)
  show ?thesis using write_loop_disk [OF assms(1) n(1) assms(3,4)] n(2) by auto
next
  case False
  then show ?thesis using assms(2-4)
    by (auto simp: handle_write_def fun_upd_idem intro!: exI [of _ 0])
qed

lemma handle_flush_disk:
  "posix_files os d \<Longrightarrow> handle_flush os h w = (status, w') \<Longrightarrow> untouched d w w'"
  by (auto simp: handle_flush_def split: if_splits prod.splits dest: posix_fsync)

lemma handle_close_disk:
  assumes "posix_files os d" and "handle_close os h w = (status, h', w')"
  shows "node_at d w' = node_at d w" "h' = reset_handle"
    "open_at d w' = (if handle_valid h then (open_at d w)(fh_handle h := None) else open_at d w)"
  using assms posix_close [OF assms(1)]
  by (auto simp: handle_close_def split: if_splits prod.splits)

lemma remove_file_disk:
  assumes "posix_files os d" and "remove_file os p w = (status, w')"
  shows "status = StatusCode.Ok \<Longrightarrow> node_at d w' = (node_at d w)(p := None)"
    "status \<noteq> StatusCode.Ok \<Longrightarrow> node_at d w' = node_at d w"
    "\<And>q. q \<noteq> p \<Longrightarrow> node_at d w' q = node_at d w q"
    "\<And>q. not_open d w q \<Longrightarrow> not_open d w' q"
  using assms posix_remove [OF assms(1)]
  by (auto simp: remove_file_def untouched_def not_open_def split: if_splits prod.splits)

lemma rotate_file_disk:
  assumes "posix_files os d" and "rotate_file os p backup w = (status, w')" and "p \<noteq> backup"
  shows "status = StatusCode.Ok \<Longrightarrow> node_at d w' p = None"
    "status \<noteq> StatusCode.Ok \<Longrightarrow> node_at d w' p = node_at d w p"
    "\<And>q. q \<noteq> p \<Longrightarrow> q \<noteq> backup \<Longrightarrow> node_at d w' q = node_at d w q"
    "\<And>q. not_open d w p \<Longrightarrow> not_open d w q \<Longrightarrow> not_open d w' q"
proof -
  have "(status = StatusCode.Ok \<longrightarrow> node_at d w' p = None) \<and>
      (status \<noteq> StatusCode.Ok \<longrightarrow> node_at d w' p = node_at d w p) \<and>
      (\<forall>q. q \<noteq> p \<longrightarrow> q \<noteq> backup \<longrightarrow> node_at d w' q = node_at d w q) \<and>
      (\<forall>q. not_open d w p \<longrightarrow> not_open d w q \<longrightarrow> not_open d w' q)"
  proof (cases "sys_exists os p w")
    case False
    then show ?thesis using assms(2) posix_metadata(1) [OF assms(1)]
      by (auto simp: rotate_file_def path_exists_def)
  next
    case True
    obtain ok1 w1 ok2 where c: "sys_remove os backup w = (ok1, w1)" "sys_rename os p backup w1 = (ok2, w')"
      "status = (if ok2 then StatusCode.Ok else StatusCode.PersistenceFailure)"
      using assms(2) True by (auto simp: rotate_file_def path_exists_def split: prod.splits)
    note r = posix_remove [OF assms(1) c(1)] and m = posix_rename [OF assms(1) c(2)]
    show ?thesis using r m c(3) assms(3)
      by (cases ok1; cases ok2) (auto simp: untouched_def not_open_def)
  qed
  then show "status = StatusCode.Ok \<Longrightarrow> node_at d w' p = None"
    "status \<noteq> StatusCode.Ok \<Longrightarrow> node_at d w' p = node_at d w p"
    "\<And>q. q \<noteq> p \<Longrightarrow> q \<noteq> backup \<Longrightarrow> node_at d w' q = node_at d w q"
    "\<And>q. not_open d w p \<Longrightarrow> not_open d w q \<Longrightarrow> not_open d w' q" by auto
qed

section \<open>Replacement is atomic\<close>

lemma posix_open_read:
  assumes "posix_files os d" and "sys_open_read os p w = (r, w')"
  shows "untouched d w w'" "r = Some fd \<Longrightarrow> open_at d w fd = None"
    "r = Some fd \<Longrightarrow> unread d w' fd = file_bytes (node_at d w p)"
    "r = Some fd \<Longrightarrow> sys_fstat os fd w' = None \<or> sys_fstat os fd w' = sys_stat os p w"
proof -
  have "read_law os d" using assms(1) by (simp add: posix_files_def)
  then have "untouched d w w' \<and>
        (\<forall>fd. r = Some fd \<longrightarrow> open_at d w fd = None \<and> unread d w' fd = file_bytes (node_at d w p) \<and>
           (sys_fstat os fd w' = None \<or> sys_fstat os fd w' = sys_stat os p w))"
    using assms(2) unfolding read_law_def by blast
  then show "untouched d w w'" "r = Some fd \<Longrightarrow> open_at d w fd = None"
    "r = Some fd \<Longrightarrow> unread d w' fd = file_bytes (node_at d w p)"
    "r = Some fd \<Longrightarrow> sys_fstat os fd w' = None \<or> sys_fstat os fd w' = sys_stat os p w" by auto
qed

lemma close_read:
  assumes "posix_files os d" and "sys_close os fd w = (ok, w')" and "open_at d w fd = None"
  shows "untouched d w w'"
  using posix_close [OF assms(1,2)] assms(3) by (simp add: untouched_def fun_upd_idem)

lemma untouched_trans: "untouched d a b \<Longrightarrow> untouched d b c \<Longrightarrow> untouched d a c"
  by (simp add: untouched_def)

lemma sync_directory_disk:
  assumes "posix_files os d"
  shows "untouched d w (sync_directory os p w)"
proof -
  obtain r w1 where r: "sys_open_read os (if parent_path p = [] then ''.'' else parent_path p) w = (r, w1)"
    by fastforce
  note o = posix_open_read [OF assms r]
  show ?thesis
  proof (cases r)
    case None
    then show ?thesis using o(1) r by (simp add: sync_directory_def Let_def)
  next
    case (Some fd)
    obtain ok w2 ok' w3 where c: "sys_fsync os fd w1 = (ok, w2)" "sys_close os fd w2 = (ok', w3)" by fastforce
    have "untouched d w w2" by (rule untouched_trans [OF o(1) posix_fsync [OF assms c(1)]])
    moreover from this have "untouched d w2 w3"
      using close_read [OF assms c(2)] o(2) [OF Some] by (simp add: untouched_def)
    ultimately show ?thesis using r Some c untouched_trans by (fastforce simp: sync_directory_def Let_def)
  qed
qed

text \<open>What is left of a sibling that is given up: its handle closed and the file removed.\<close>

definition discarded :: "'w os_calls \<Rightarrow> FileHandle \<Rightarrow> string \<Rightarrow> 'w \<Rightarrow> 'w" where
  "discarded os h temp w = snd (remove_file os temp (snd (snd (handle_close os h w))))"

lemma discarded_disk:
  assumes "posix_files os d" and "q \<noteq> temp"
  shows "node_at d (discarded os h temp w) q = node_at d w q"
    "not_open d w q \<Longrightarrow> not_open d (discarded os h temp w) q"
proof -
  obtain s1 h1 w1 where w1: "handle_close os h w = (s1, h1, w1)" by (metis prod_cases3)
  obtain s2 w2 where w2: "remove_file os temp w1 = (s2, w2)" by fastforce
  note c = handle_close_disk [OF assms(1) w1] and r = remove_file_disk(3,4) [OF assms(1) w2]
  show "node_at d (discarded os h temp w) q = node_at d w q"
    using w1 w2 c(1) r(1) assms(2) by (simp add: discarded_def)
  show "not_open d w q \<Longrightarrow> not_open d (discarded os h temp w) q"
    using w1 w2 c(3) r(2) [of q] by (simp add: discarded_def not_open_def split: if_splits)
qed

text \<open>A sibling that was written is complete, closed, and follows whatever the file already held.\<close>

lemma write_sibling_disk:
  assumes posix: "posix_files os d" and call: "write_sibling os temp data w = (status, w')"
    and closed: "not_open d w temp"
  shows "(\<forall>q. q \<noteq> temp \<longrightarrow> node_at d w' q = node_at d w q) \<and>
    (\<forall>q. q \<noteq> temp \<longrightarrow> not_open d w q \<longrightarrow> not_open d w' q) \<and>
    (status = StatusCode.Ok \<longrightarrow> not_open d w' temp \<and>
       node_at d w' temp = Some (Regular (file_bytes (node_at d w temp) @ data)))"
proof (cases "open_append os temp w")
  case (Pair r w1)
  show ?thesis
  proof (cases r)
    case (Inl code)
    then have "code \<noteq> StatusCode.Ok"
      using Pair by (auto simp: open_append_def split: prod.splits option.splits)
    then show ?thesis using call Pair Inl open_append_failed [OF posix, of temp w code w1]
      by (auto simp: write_sibling_def not_open_def)
  next
    case (Inr h)
    then have "open_append os temp w = (Inr h, w1)" using Pair by simp
    note o = open_append_ok [OF posix this]
    obtain s2 h2 w2 where w2: "handle_write os h data w1 = (s2, h2, w2)" by (metis prod_cases3)
    have op1: "open_at d w1 (fh_handle h) = Some temp"
      and nd1: "node_at d w1 temp = Some (Regular (file_bytes (node_at d w temp)))" using o by auto
    from handle_write_disk [OF posix w2 op1 nd1]
    have o2: "open_at d w2 = (open_at d w)(fh_handle h \<mapsto> temp)" "fh_handle h2 = fh_handle h"
      "\<And>q. q \<noteq> temp \<Longrightarrow> node_at d w2 q = node_at d w q"
      "s2 = StatusCode.Ok \<Longrightarrow> node_at d w2 temp = Some (Regular (file_bytes (node_at d w temp) @ data))"
      using o by auto
    obtain s3 w3 where w3: "handle_flush os h2 w2 = (s3, w3)" by fastforce
    note o3 = handle_flush_disk [OF posix w3]
    obtain s4 h4 w4 where w4: "handle_close os h2 w3 = (s4, h4, w4)" by (metis prod_cases3)
    note o4 = handle_close_disk [OF posix w4]
    show ?thesis
    proof (cases "s2 = StatusCode.Ok \<and> s3 = StatusCode.Ok \<and> s4 = StatusCode.Ok")
      case True
      then have "w' = w4" "status = StatusCode.Ok"
        using call Pair Inr w2 w3 w4 by (auto simp: write_sibling_def)
      moreover have "handle_valid h2" using True w3 by (auto simp: handle_flush_def split: if_splits)
      ultimately show ?thesis using o4 o3 o2 True closed by (auto simp: untouched_def not_open_def)
    next
      case False
      then have "status \<noteq> StatusCode.Ok" and
        "w' = discarded os h2 temp w2 \<or> w' = discarded os h2 temp w3"
        using call Pair Inr w2 w3 w4 by (auto simp: write_sibling_def discarded_def split: if_splits prod.splits)
      moreover have "not_open d w2 q" if "q \<noteq> temp" "not_open d w q" for q
        using that o2(1) by (auto simp: not_open_def)
      ultimately show ?thesis using discarded_disk [OF posix, where temp = temp and h = h2] o2(3) o3
        by (auto simp: untouched_def not_open_def)
    qed
  qed
qed

lemma unique_sibling_neq [simp]: "unique_sibling pid n path \<noteq> path" "path \<noteq> unique_sibling pid n path"
  by (simp_all add: unique_sibling_def)

text \<open>Whatever fails on the way, the path holds what it held before or, exactly when the replacement
  succeeds, what the sibling holds; no other path changes but the sibling.\<close>

lemma atomic_replace_disk:
  assumes posix: "posix_files os d" and call: "atomic_replace_file os pid n path data w = (status, w')"
    and closed: "not_open d w (unique_sibling pid n path)" "not_open d w path"
  shows "node_at d w' path =
      (if status = StatusCode.Ok
       then Some (Regular (file_bytes (node_at d w (unique_sibling pid n path)) @ data))
       else node_at d w path)"
    "\<And>q. q \<noteq> path \<Longrightarrow> q \<noteq> unique_sibling pid n path \<Longrightarrow> node_at d w' q = node_at d w q"
    "\<And>q. q \<noteq> unique_sibling pid n path \<Longrightarrow> not_open d w q \<Longrightarrow> not_open d w' q"
proof -
  let ?temp = "unique_sibling pid n path"
  obtain s1 w1 where w1: "write_sibling os ?temp data w = (s1, w1)" by fastforce
  note o1 = write_sibling_disk [OF posix w1 closed(1)]
  have "(node_at d w' path = (if status = StatusCode.Ok
        then Some (Regular (file_bytes (node_at d w ?temp) @ data)) else node_at d w path)) \<and>
      (\<forall>q. q \<noteq> path \<longrightarrow> q \<noteq> ?temp \<longrightarrow> node_at d w' q = node_at d w q) \<and>
      (\<forall>q. q \<noteq> ?temp \<longrightarrow> not_open d w q \<longrightarrow> not_open d w' q)"
  proof (cases "s1 = StatusCode.Ok")
    case False
    then show ?thesis using call w1 o1 by (auto simp: atomic_replace_file_def Let_def)
  next
    case True
    obtain ok w2 where w2: "sys_rename os ?temp path w1 = (ok, w2)" by fastforce
    note o2 = posix_rename [OF posix w2]
    show ?thesis
    proof (cases ok)
      case True
      then have "status = StatusCode.Ok" "w' = sync_directory os path w2"
        using call w1 w2 \<open>s1 = StatusCode.Ok\<close> by (auto simp: atomic_replace_file_def Let_def)
      then show ?thesis using sync_directory_disk [OF posix, of w2 path] o2 True o1 \<open>s1 = StatusCode.Ok\<close>
        by (auto simp: untouched_def not_open_def)
    next
      case False
      obtain s3 where w3: "remove_file os ?temp w2 = (s3, w')" and st: "status = StatusCode.PersistenceFailure"
        using call w1 w2 \<open>s1 = StatusCode.Ok\<close> False
        by (auto simp: atomic_replace_file_def Let_def) (metis prod.collapse)
      show ?thesis using remove_file_disk(3,4) [OF posix w3] o2(3) [OF False] o1 st
        by (auto simp: untouched_def not_open_def)
    qed
  qed
  then show "node_at d w' path = (if status = StatusCode.Ok
       then Some (Regular (file_bytes (node_at d w ?temp) @ data)) else node_at d w path)"
    "\<And>q. q \<noteq> path \<Longrightarrow> q \<noteq> ?temp \<Longrightarrow> node_at d w' q = node_at d w q"
    "\<And>q. q \<noteq> ?temp \<Longrightarrow> not_open d w q \<Longrightarrow> not_open d w' q" by auto
qed

section \<open>Reading\<close>

text \<open>A read that succeeds delivers the file, however the calls cut it up.\<close>

lemma read_loop_disk:
  assumes "posix_files os d" and "read_loop os fd want w = (r, w')"
  shows "untouched d w w' \<and> (\<forall>data. r = Inr data \<longrightarrow> data = take want (unread d w fd))"
  using assms(2)
proof (induction want arbitrary: w r rule: less_induct)
  case (less want)
  show ?case
  proof (cases "want = 0")
    case True
    then show ?thesis using less.prems by (auto simp: read_loop.simps)
  next
    case False
    obtain c w1 where c: "sys_read os fd want w = (c, w1)" by fastforce
    have law: "untouched d w w1" "\<And>data. c = Some data \<Longrightarrow> length data \<le> want \<and>
        take (length data) (unread d w fd) = data \<and> unread d w1 fd = drop (length data) (unread d w fd) \<and>
        (data = [] \<longrightarrow> unread d w fd = [])"
    proof -
      have "read_law os d" using assms(1) by (simp add: posix_files_def)
      note this [unfolded read_law_def, THEN conjunct2, THEN spec, THEN spec, THEN spec, THEN spec,
          THEN spec, THEN mp, OF c]
      then have "untouched d w w1 \<and> (\<forall>data. c = Some data \<longrightarrow> length data \<le> want \<and>
          take (length data) (unread d w fd) = data \<and> unread d w1 fd = drop (length data) (unread d w fd) \<and>
          (data = [] \<longrightarrow> want = 0 \<or> unread d w fd = []))"
        by assumption
      then show "untouched d w w1" "\<And>data. c = Some data \<Longrightarrow> length data \<le> want \<and>
        take (length data) (unread d w fd) = data \<and> unread d w1 fd = drop (length data) (unread d w fd) \<and>
        (data = [] \<longrightarrow> unread d w fd = [])" using False by simp_all
    qed
    show ?thesis
    proof (cases "c = None \<or> c = Some []")
      case True
      then have "w' = w1" "r = (if c = None then Inl StatusCode.PersistenceFailure else Inr [])"
        using less.prems c False by (subst (asm) read_loop.simps; auto)+
      then show ?thesis using law True by auto
    next
      case more: False
      then obtain data where data: "c = Some data" "data \<noteq> []" by auto
      obtain r1 where r1: "read_loop os fd (want - length data) w1 = (r1, w')"
        "r = (case r1 of Inl code \<Rightarrow> Inl code | Inr rest \<Rightarrow> Inr (data @ rest))"
        using less.prems c False data
        by (subst (asm) read_loop.simps) (auto split: prod.splits sum.splits)
      have "want - length data < want" using data(2) False by (cases data) auto
      note ih = less.IH [OF this r1(1)]
      note l = law(2) [OF data(1)]
      have "take want (unread d w fd) = data @ take (want - length data) (unread d w1 fd)"
        using l take_add [of "length data" "want - length data" "unread d w fd"] by simp
      moreover have "untouched d w w'" using law(1) ih by (blast intro: untouched_trans)
      ultimately show ?thesis using r1(2) ih by (cases r1) simp_all
    qed
  qed
qed

lemma query_file_size_eq:
  assumes "posix_files os d"
  shows "node_at d w p = Some (Regular data) \<Longrightarrow> query_file_size os p w = Some (of_nat (length data))"
    "node_at d w p = None \<Longrightarrow> query_file_size os p w = None"
  using posix_metadata(3,4) [OF assms] by (simp_all add: query_file_size_def)

lemma probe_file_disk:
  assumes "posix_files os d" and "probe_file os p bound w = (status, w')"
    and "node_at d w p = Some (Regular data)"
  shows "untouched d w w'" "status = StatusCode.Ok \<Longrightarrow> of_nat (length data) \<le> bound"
    "status = StatusCode.OversizedInput \<Longrightarrow> bound < of_nat (length data)"
proof -
  obtain r w1 where r: "sys_open_read os p w = (r, w1)" by fastforce
  note o = posix_open_read [OF assms(1) r]
  have "untouched d w w' \<and> (status = StatusCode.Ok \<longrightarrow> of_nat (length data) \<le> bound) \<and>
      (status = StatusCode.OversizedInput \<longrightarrow> bound < of_nat (length data))"
  proof (cases r)
    case None
    then show ?thesis using assms(2) r o(1) by (auto simp: probe_file_def)
  next
    case (Some fd)
    obtain ok w2 where c: "sys_close os fd w1 = (ok, w2)" by fastforce
    have "open_at d w1 fd = None" using o(1) o(2) [OF Some] by (simp add: untouched_def)
    from close_read [OF assms(1) c this] o(1) have "untouched d w w2" by (rule untouched_trans [rotated])
    then show ?thesis
      using assms(2) r Some c o(4) [OF Some] posix_metadata(3) [OF assms(1,3)]
      by (auto simp: probe_file_def not_less split: option.splits if_splits)
  qed
  then show "untouched d w w'" "status = StatusCode.Ok \<Longrightarrow> of_nat (length data) \<le> bound"
    "status = StatusCode.OversizedInput \<Longrightarrow> bound < of_nat (length data)" by auto
qed

lemma read_entire_file_disk:
  assumes posix: "posix_files os d" and call: "read_entire_file os p bound w = (r, w')"
    and reg: "node_at d w p = Some (Regular data)" and small: "length data < 2 ^ 64"
  shows "untouched d w w'"
    "r = Inr result \<Longrightarrow> frr_bytes result = data \<and> frr_total_size result = of_nat (length data) \<and>
       of_nat (length data) \<le> bound"
proof -
  obtain s1 w1 where w1: "probe_file os p bound w = (s1, w1)" by fastforce
  note o1 = probe_file_disk [OF posix w1 reg]
  have file1: "node_at d w1 p = Some (Regular data)" using o1(1) reg by (simp add: untouched_def)
  obtain c w2 where w2: "sys_open_read os p w1 = (c, w2)" by fastforce
  note o2 = posix_open_read [OF posix w2]
  have st_size: "unat (of_nat (length data) :: u64) = length data" using small by (simp add: unat_of_nat)
  have "untouched d w w' \<and> (\<forall>result. r = Inr result \<longrightarrow> frr_bytes result = data \<and>
      frr_total_size result = of_nat (length data) \<and> of_nat (length data) \<le> bound)"
  proof (cases "s1 = StatusCode.Ok \<and> c \<noteq> None")
    case False
    then show ?thesis using call w1 w2 o1(1) o2(1) query_file_size_eq(1) [OF posix file1]
      by (auto simp: read_entire_file_def Let_def intro: untouched_trans split: if_splits)
  next
    case True
    then obtain fd where fd: "c = Some fd" and ok: "s1 = StatusCode.Ok" by auto
    obtain e w3 where w3: "read_loop os fd (length data) w2 = (e, w3)" by fastforce
    note o3 = read_loop_disk [OF posix w3]
    obtain okc w4 where w4: "sys_close os fd w3 = (okc, w4)" by fastforce
    have "open_at d w3 fd = None" using o2(1) o2(2) [OF fd] o3 by (simp add: untouched_def)
    from close_read [OF posix w4 this] have "untouched d w w4"
      using o1(1) o2(1) o3 by (simp add: untouched_def)
    moreover have "w' = w4" "r = (case e of Inl code \<Rightarrow> Inl code | Inr got \<Rightarrow>
        Inr \<lparr>frr_bytes = got, frr_total_size = of_nat (length data), frr_truncated_to_limit = False\<rparr>)"
      using call w1 w2 w3 w4 fd ok query_file_size_eq(1) [OF posix file1] st_size
      by (auto simp: read_entire_file_def Let_def split: sum.splits)
    moreover have "e = Inr got \<Longrightarrow> got = data" for got
      using o3 o2(3) [OF fd] file1 by simp
    ultimately show ?thesis using o1(2) [OF ok] by (auto split: sum.splits)
  qed
  then show "untouched d w w'" "r = Inr result \<Longrightarrow> frr_bytes result = data \<and>
      frr_total_size result = of_nat (length data) \<and> of_nat (length data) \<le> bound" by auto
qed

end
