(* ===== verification/File_Store.thy ===== *)
theory File_Store
  imports Persistence Platform_File
begin

text \<open>
  \<open>FileDurableStore\<close> (\<^verbatim>\<open>src/persistence.cpp\<close>): the durable store of a deployed coordinator, a snapshot and a
  journal in one directory, written through the file operations of \<open>Platform_File\<close>.  The lemmas show
  that it reads back what the memory store would read from the same bytes, what an append leaves on the
  disk whichever call fails, and that a compaction keeps the state at every point at which it can stop:
  the old journal replayed over the new snapshot gives the snapshot again.
\<close>

section \<open>The store\<close>

record FileDurableStore =
  fs_directory :: string
  fs_limits :: StoreLimits
  fs_journal :: "FileHandle option"
  fs_bytes_since_compaction :: u64
  fs_next_sequence :: u64
  fs_opened :: bool

definition new_file_store :: "string \<Rightarrow> StoreLimits \<Rightarrow> FileDurableStore" where
  "new_file_store directory limits =
     \<lparr>fs_directory = directory, fs_limits = limits, fs_journal = None, fs_bytes_since_compaction = 0,
      fs_next_sequence = 1, fs_opened = False\<rparr>"

text \<open>\<open>operator/\<close> of \<^verbatim>\<open>std::filesystem::path\<close> with a relative right operand.\<close>

definition path_join :: "string \<Rightarrow> string \<Rightarrow> string" where
  "path_join directory name =
     (if directory = [] \<or> last directory = CHR ''/'' then directory @ name else directory @ ''/'' @ name)"

definition snapshot_path :: "FileDurableStore \<Rightarrow> string" where
  "snapshot_path s = path_join (fs_directory s) ''coherence-fabric.snapshot''"

definition journal_path :: "FileDurableStore \<Rightarrow> string" where
  "journal_path s = path_join (fs_directory s) ''coherence-fabric.journal''"

definition compacted_path :: "FileDurableStore \<Rightarrow> string" where
  "compacted_path s = journal_path s @ ''.compacted''"

definition size_or_zero :: "u64 option \<Rightarrow> u64" where
  "size_or_zero queried = (case queried of None \<Rightarrow> 0 | Some n \<Rightarrow> n)"

definition load_snapshot ::
  "'w os_calls \<Rightarrow> FileDurableStore \<Rightarrow> 'w \<Rightarrow> (DurableImage \<times> LoadReport) Result \<times> 'w" where
  "load_snapshot os s w =
     (if \<not> path_exists os (snapshot_path s) w then (Inr (empty_image, empty_load_report), w)
      else let report = empty_load_report
             \<lparr>lr_snapshot_bytes := size_or_zero (query_file_size os (snapshot_path s) w)\<rparr>
      in case read_entire_file os (snapshot_path s) (sl_max_snapshot_bytes (fs_limits s)) w of
           (Inl code, w) \<Rightarrow> (Inl code, w)
         | (Inr contents, w) \<Rightarrow>
             (case decode_snapshot (frr_bytes contents) (fs_limits s) of
                Inl code \<Rightarrow> (Inl code, w)
              | Inr img \<Rightarrow> (Inr (img, report\<lparr>lr_snapshot_loaded := True\<rparr>), w)))"

definition load_journal ::
  "'w os_calls \<Rightarrow> FileDurableStore \<Rightarrow> DurableImage \<Rightarrow> LoadReport \<Rightarrow> 'w \<Rightarrow>
   (DurableImage \<times> LoadReport) Result \<times> 'w" where
  "load_journal os s img report w =
     (let journal_bytes = size_or_zero (query_file_size os (journal_path s) w);
          report = report\<lparr>lr_journal_bytes := journal_bytes\<rparr>
      in if journal_bytes > sl_max_journal_bytes (fs_limits s) then (Inl StatusCode.OversizedInput, w)
         else if \<not> path_exists os (journal_path s) w then (Inr (img, report), w)
         else case read_entire_file os (journal_path s) (sl_max_journal_bytes (fs_limits s)) w of
             (Inl code, w) \<Rightarrow> (Inl code, w)
           | (Inr contents, w) \<Rightarrow> (Inr (replay (fs_limits s) img report (frr_bytes contents)), w))"

text \<open>A handle that \<open>journal_\<close> still owns is closed when the new one takes its place.\<close>

definition drop_handle :: "'w os_calls \<Rightarrow> FileHandle option \<Rightarrow> 'w \<Rightarrow> 'w" where
  "drop_handle os h w = (case h of None \<Rightarrow> w | Some h \<Rightarrow> snd (snd (handle_close os h w)))"

definition file_open ::
  "'w os_calls \<Rightarrow> FileDurableStore \<Rightarrow> 'w \<Rightarrow> (LoadReport \<times> DurableImage) Result \<times> FileDurableStore \<times> 'w" where
  "file_open os s w =
     (let (created, w) = ensure_directory os (fs_directory s) w
      in if created \<noteq> StatusCode.Ok then (Inl created, s, w)
         else case load_snapshot os s w of
             (Inl code, w) \<Rightarrow> (Inl code, s, w)
           | (Inr (img, report), w) \<Rightarrow>
               (case load_journal os s img report w of
                  (Inl code, w) \<Rightarrow> (Inl code, s, w)
                | (Inr (img, report), w) \<Rightarrow>
                    let s = s\<lparr>fs_next_sequence := img_sequence img + 1\<rparr>
                    in case open_append os (journal_path s) w of
                         (Inl code, w) \<Rightarrow> (Inl code, s, w)
                       | (Inr h, w) \<Rightarrow>
                           (Inr (report, img), s\<lparr>fs_journal := Some h, fs_opened := True\<rparr>,
                            drop_handle os (fs_journal s) w)))"

definition file_stamp :: "FileDurableStore \<Rightarrow> JournalEntry \<Rightarrow> JournalEntry" where
  "file_stamp s entry =
     (if je_sequence entry = 0 then entry\<lparr>je_sequence := fs_next_sequence s\<rparr> else entry)"

definition next_after :: "u64 \<Rightarrow> JournalEntry \<Rightarrow> u64" where
  "next_after next entry =
     (if je_sequence entry = 0 then next + 1
      else if je_sequence entry \<ge> next then je_sequence entry + 1 else next)"

definition file_append ::
  "'w os_calls \<Rightarrow> FileDurableStore \<Rightarrow> JournalEntry \<Rightarrow> 'w \<Rightarrow> StatusCode \<times> FileDurableStore \<times> 'w" where
  "file_append os s entry w =
     (case fs_journal s of
        None \<Rightarrow> (StatusCode.PersistenceFailure, s, w)
      | Some h \<Rightarrow>
          if \<not> fs_opened s then (StatusCode.PersistenceFailure, s, w)
          else let stamped = file_stamp s entry;
                   s = s\<lparr>fs_next_sequence := next_after (fs_next_sequence s) entry\<rparr>;
                   frame = encode_journal_entry stamped
          in if frame = [] then (StatusCode.InvalidArgument, s, w)
             else let (wrote, h, w) = handle_write os h frame w; s = s\<lparr>fs_journal := Some h\<rparr>
             in if wrote \<noteq> StatusCode.Ok then (wrote, s, w)
                else let (flushed, w) = (if sl_barrier_per_append (fs_limits s)
                       then handle_flush os h w else (StatusCode.Ok, w))
                in if flushed \<noteq> StatusCode.Ok then (flushed, s, w)
                   else (StatusCode.Ok,
                         s\<lparr>fs_bytes_since_compaction :=
                             fs_bytes_since_compaction s + of_nat (length frame)\<rparr>, w))"

text \<open>\<open>opened_\<close> is set together with \<open>journal_\<close> and \<open>journal_\<close> is reset only together with \<open>opened_\<close>, so
  the handle exists where \<open>compact\<close> uses it.\<close>

definition file_compact ::
  "'w os_calls \<Rightarrow> nat \<Rightarrow> u64 \<Rightarrow> FileDurableStore \<Rightarrow> DurableImage \<Rightarrow> 'w \<Rightarrow>
   StatusCode \<times> FileDurableStore \<times> 'w" where
  "file_compact os pid n s img w =
     (if \<not> fs_opened s \<or> fs_journal s = None then (StatusCode.PersistenceFailure, s, w)
      else let (closed, h, w) = handle_close os (the (fs_journal s)) w; s = s\<lparr>fs_journal := Some h\<rparr>
      in if closed \<noteq> StatusCode.Ok then (closed, s, w)
         else let (replaced, w) = atomic_replace_file os pid n (snapshot_path s) (encode_snapshot img) w
         in if replaced \<noteq> StatusCode.Ok
              then (case open_append os (journal_path s) w of
                      (Inl code, w) \<Rightarrow> (replaced, s, w)
                    | (Inr h, w) \<Rightarrow> (replaced, s\<lparr>fs_journal := Some h\<rparr>, w))
            else let (rotated, w) = rotate_file os (journal_path s) (compacted_path s) w
            in if rotated \<noteq> StatusCode.Ok then (rotated, s, w)
               else let (removed, w) = remove_file os (compacted_path s) w
               in if removed \<noteq> StatusCode.Ok then (removed, s, w)
                  else case open_append os (journal_path s) w of
                      (Inl code, w) \<Rightarrow> (code, s, w)
                    | (Inr h, w) \<Rightarrow>
                        (StatusCode.Ok,
                         s\<lparr>fs_journal := Some h, fs_bytes_since_compaction := 0,
                           fs_next_sequence := img_sequence img + 1\<rparr>, w))"

definition file_flush :: "'w os_calls \<Rightarrow> FileDurableStore \<Rightarrow> 'w \<Rightarrow> StatusCode \<times> 'w" where
  "file_flush os s w =
     (case fs_journal s of
        None \<Rightarrow> (StatusCode.Ok, w)
      | Some h \<Rightarrow> if \<not> fs_opened s then (StatusCode.Ok, w) else handle_flush os h w)"

definition file_append_batch ::
  "'w os_calls \<Rightarrow> JournalEntry list \<Rightarrow> FileDurableStore \<times> 'w \<Rightarrow> StatusCode \<times> FileDurableStore \<times> 'w" where
  "file_append_batch os entries sw =
     (case append_batch (\<lambda>(s, w) entry. file_append os s entry w) sw entries of
        (status, s, w) \<Rightarrow>
          if status \<noteq> StatusCode.Ok then (status, s, w)
          else let (flushed, w) = file_flush os s w in (flushed, s, w))"

definition file_close :: "'w os_calls \<Rightarrow> FileDurableStore \<Rightarrow> 'w \<Rightarrow> StatusCode \<times> FileDurableStore \<times> 'w" where
  "file_close os s w =
     (case fs_journal s of
        None \<Rightarrow> (StatusCode.Ok, s\<lparr>fs_opened := False\<rparr>, w)
      | Some h \<Rightarrow>
          let (closed, _, w) = handle_close os h w
          in (closed, s\<lparr>fs_journal := None, fs_opened := False\<rparr>, w))"

definition file_journal_bytes :: "'w os_calls \<Rightarrow> FileDurableStore \<Rightarrow> 'w \<Rightarrow> u64" where
  "file_journal_bytes os s w =
     (case fs_journal s of
        Some h \<Rightarrow> fh_size h
      | None \<Rightarrow> size_or_zero (query_file_size os (journal_path s) w))"

section \<open>Paths\<close>

lemma path_join_inj [simp]: "path_join d a = path_join d b \<longleftrightarrow> a = b"
  by (simp add: path_join_def)

lemma store_paths [simp]:
  "snapshot_path s \<noteq> journal_path s" "journal_path s \<noteq> snapshot_path s"
  "snapshot_path s \<noteq> compacted_path s" "compacted_path s \<noteq> snapshot_path s"
  "journal_path s \<noteq> compacted_path s" "compacted_path s \<noteq> journal_path s"
  "journal_path s \<noteq> unique_sibling pid n (snapshot_path s)"
  "compacted_path s \<noteq> unique_sibling pid n (snapshot_path s)"
  by (auto simp: snapshot_path_def journal_path_def compacted_path_def unique_sibling_def path_join_def)

lemma store_paths_update [simp]:
  "snapshot_path (s\<lparr>fs_journal := h\<rparr>) = snapshot_path s" "journal_path (s\<lparr>fs_journal := h\<rparr>) = journal_path s"
  "compacted_path (s\<lparr>fs_journal := h\<rparr>) = compacted_path s"
  "snapshot_path (s\<lparr>fs_next_sequence := k\<rparr>) = snapshot_path s"
  "journal_path (s\<lparr>fs_next_sequence := k\<rparr>) = journal_path s"
  "snapshot_path (s\<lparr>fs_bytes_since_compaction := b\<rparr>) = snapshot_path s"
  "journal_path (s\<lparr>fs_bytes_since_compaction := b\<rparr>) = journal_path s"
  "snapshot_path (s\<lparr>fs_opened := f\<rparr>) = snapshot_path s" "journal_path (s\<lparr>fs_opened := f\<rparr>) = journal_path s"
  by (simp_all add: snapshot_path_def journal_path_def compacted_path_def)

section \<open>Replaying a journal twice\<close>

text \<open>What a sequence of entries does to the value under one key: it sets it, whatever it was, or it
  drops it when it is of some kind and leaves it alone otherwise.  Doing it again changes nothing.\<close>

definition settles :: "('a option \<Rightarrow> 'a option) \<Rightarrow> bool" where
  "settles h \<longleftrightarrow> (\<exists>v. h = (\<lambda>_. v)) \<or> (\<exists>P. h = (\<lambda>x. Option.bind x (\<lambda>r. if P r then None else Some r)))"

lemma settles_again: "settles h \<Longrightarrow> h (h x) = h x"
  by (cases x) (auto simp: settles_def)

lemma settles_keep: "settles (\<lambda>x. x)"
proof -
  have "(\<lambda>x. x) = (\<lambda>x. Option.bind x (\<lambda>r. if (\<lambda>_. False) r then None else Some r))" by (auto simp: fun_eq_iff)
  then show ?thesis unfolding settles_def by (intro disjI2 exI [of _ "\<lambda>_. False"])
qed

lemma settles_set: "settles (\<lambda>_. v)"
  by (auto simp: settles_def)

lemma settles_drop: "settles (\<lambda>x. Option.bind x (\<lambda>r. if P r then None else Some r))"
  by (auto simp: settles_def)

lemma settles_comp:
  assumes "settles g" and "settles h"
  shows "settles (\<lambda>x. g (h x))"
proof -
  consider v where "g = (\<lambda>_. v)" | v where "h = (\<lambda>_. v)"
    | P Q where "g = (\<lambda>x. Option.bind x (\<lambda>r. if P r then None else Some r))"
        "h = (\<lambda>x. Option.bind x (\<lambda>r. if Q r then None else Some r))"
    using assms unfolding settles_def by blast
  then show ?thesis
  proof cases
    case 3
    then have "(\<lambda>x. g (h x)) = (\<lambda>x. Option.bind x (\<lambda>r. if P r \<or> Q r then None else Some r))"
      by (auto simp: fun_eq_iff split: bind_splits)
    then show ?thesis using settles_drop [of "\<lambda>r. P r \<or> Q r"] by simp
  qed (auto simp: settles_set)
qed

definition image_sorted :: "DurableImage \<Rightarrow> bool" where
  "image_sorted img \<longleftrightarrow>
     sm_sorted (img_domains img) \<and> sm_sorted (img_participants img) \<and> sm_sorted (img_objects img) \<and>
     sm_sorted (img_regions img) \<and> sm_sorted (img_invalidations img) \<and> sm_sorted (img_syncs img) \<and>
     sm_sorted (img_policies img) \<and> sm_sorted (img_pending_publications img)"

lemma sm_sorted_filter: "sm_sorted m \<Longrightarrow> sm_sorted (filter P m)"
  unfolding sm_sorted_def by (induction m) auto

lemma map_of_filter_snd:
  "sm_sorted m \<Longrightarrow> map_of (filter (\<lambda>e. \<not> P (snd e)) m) k =
     Option.bind (map_of m k) (\<lambda>r. if P r then None else Some r)"
  by (induction m) (auto simp: sm_sorted_Cons map_of_eq_None_iff image_iff dest!: sym [of "Some _"] map_of_SomeD
      split: bind_splits)

lemma image_sorted_apply: "image_sorted img \<Longrightarrow> image_sorted (snd (apply_journal_entry img e))"
  by (cases "je_body e")
    (simp_all add: apply_journal_entry_def Let_def image_sorted_def sm_sorted_put sm_sorted_erase sm_sorted_filter)

lemma apply_all_simps [simp]:
  "apply_all img [] = img" "apply_all img (e # es) = apply_all (snd (apply_journal_entry img e)) es"
  by (simp_all add: apply_all_def)

lemma image_sorted_apply_all: "image_sorted img \<Longrightarrow> image_sorted (apply_all img es)"
  by (induction es arbitrary: img) (simp_all add: image_sorted_apply)

text \<open>The tables one by one.\<close>

definition settling :: "(DurableImage \<Rightarrow> 'a option) \<Rightarrow> JournalEntry \<Rightarrow> bool" where
  "settling sel e \<longleftrightarrow>
     (\<exists>h. settles h \<and> (\<forall>img. image_sorted img \<longrightarrow> sel (snd (apply_journal_entry img e)) = h (sel img)))"

lemma settling_all:
  assumes "\<And>e. settling sel e"
  shows "\<exists>h. settles h \<and> (\<forall>img. image_sorted img \<longrightarrow> sel (apply_all img es) = h (sel img))"
proof (induction es)
  case Nil
  show ?case using settles_keep by (intro exI [of _ "\<lambda>x. x"]) simp
next
  case (Cons e es)
  obtain g where g: "settles g" "\<And>img. image_sorted img \<Longrightarrow> sel (apply_all img es) = g (sel img)"
    using Cons.IH by blast
  obtain h where h: "settles h" "\<And>img. image_sorted img \<Longrightarrow> sel (snd (apply_journal_entry img e)) = h (sel img)"
    using assms [of e] by (auto simp: settling_def)
  show ?case
    by (intro exI [of _ "\<lambda>x. g (h x)"]) (simp add: settles_comp g h image_sorted_apply)
qed

lemma settled_again:
  assumes "\<And>e. settling sel e" and "image_sorted base"
  shows "sel (apply_all (apply_all base es) es) = sel (apply_all base es)"
proof -
  obtain h where "settles h" "\<And>img. image_sorted img \<Longrightarrow> sel (apply_all img es) = h (sel img)"
    using settling_all [OF assms(1)] by blast
  then show ?thesis using assms(2) image_sorted_apply_all settles_again by metis
qed

lemma settling_step:
  "(\<forall>img. sel (snd (apply_journal_entry img e)) = sel img) \<or>
   (\<exists>v. \<forall>img. sel (snd (apply_journal_entry img e)) = v) \<Longrightarrow> settling sel e"
  unfolding settling_def using settles_keep settles_set by blast

lemma settling_tables:
  "settling (\<lambda>img. map_of (img_domains img) k1) e"
  "settling (\<lambda>img. map_of (img_participants img) k2) e"
  "settling (\<lambda>img. map_of (img_objects img) k3) e"
  "settling (\<lambda>img. map_of (img_regions img) k4) e"
  "settling (\<lambda>img. map_of (img_invalidations img) k5) e"
  "settling (\<lambda>img. map_of (img_syncs img) k6) e"
  "settling (\<lambda>img. map_of (img_policies img) k7) e"
  "settling (\<lambda>img. Some (img_epoch img)) e"
  by (rule settling_step; cases "je_body e"; auto simp: apply_journal_entry_def Let_def)+

lemma settling_pending: "settling (\<lambda>img. map_of (img_pending_publications img) k) e"
proof (cases "\<exists>x. je_body e = ClearPendingPublication x \<and> je_sequence e \<noteq> 0")
  case True
  then obtain x where x: "je_body e = ClearPendingPublication x" "je_sequence e \<noteq> 0" by blast
  have "map_of (img_pending_publications (snd (apply_journal_entry img e))) k =
      Option.bind (map_of (img_pending_publications img) k)
        (\<lambda>r. if pend_object r = x then None else Some r)" if "image_sorted img" for img
    using that map_of_filter_snd [of "img_pending_publications img" "\<lambda>r. pend_object r = x" k] x
    by (simp add: apply_journal_entry_def image_sorted_def)
  then show ?thesis unfolding settling_def using settles_drop [of "\<lambda>r. pend_object r = x"] by blast
next
  case False
  then show ?thesis
    by (intro settling_step; cases "je_body e"; auto simp: apply_journal_entry_def Let_def)
qed

lemma sm_sorted_eqI:
  "sm_sorted m \<Longrightarrow> sm_sorted m' \<Longrightarrow> (\<And>k. map_of m k = map_of m' k) \<Longrightarrow> m = m'"
proof (induction m arbitrary: m')
  case Nil
  have "m' = []" using Nil(3) [of "fst (hd m')"] by (cases m') auto
  then show ?case by simp
next
  case (Cons e m)
  obtain f m2 where m': "m' = f # m2"
    using Cons.prems(3) [of "fst e"] by (cases m') auto
  have e: "e = f"
    using Cons.prems(3) [of "fst e"] Cons.prems(3) [of "fst f"] Cons.prems(1,2)
    by (cases e; cases f)
      (auto simp: m' sm_sorted_Cons image_iff split: if_splits dest!: map_of_SomeD sym [of "Some _"],
       (metis fst_conv less_asym)+)
  have no: "map_of m (fst f) = None" "map_of m2 (fst f) = None"
    using Cons.prems(1,2) by (auto simp: m' e sm_sorted_Cons map_of_eq_None_iff)
  have "map_of m k = map_of m2 k" for k
    using Cons.prems(3) [of k] no by (cases "k = fst f"; cases f) (auto simp: m' e)
  with Cons show ?case by (auto simp: m' e sm_sorted_Cons)
qed

lemma sequence_step: "\<exists>n. \<forall>img. img_sequence (snd (apply_journal_entry img e)) = max (img_sequence img) n"
proof (cases "je_sequence e = 0 \<or> je_body e = JournalBody.Snapshot \<or> je_body e = JournalBody.Invalid")
  case True
  then show ?thesis by (intro exI [of _ 0]) (auto simp: apply_journal_entry_def)
next
  case False
  then show ?thesis
    by (intro exI [of _ "je_sequence e"]; cases "je_body e") (auto simp: apply_journal_entry_def Let_def max_def)
qed

lemma sequence_all: "\<exists>n. \<forall>img. img_sequence (apply_all img es) = max (img_sequence img) n"
proof (induction es)
  case Nil
  show ?case by (intro exI [of _ 0]) simp
next
  case (Cons e es)
  then obtain n m where "\<And>img. img_sequence (apply_all img es) = max (img_sequence img) n"
    "\<And>img. img_sequence (snd (apply_journal_entry img e)) = max (img_sequence img) m"
    using sequence_step [of e] by blast
  then show ?case by (intro exI [of _ "max m n"]) (simp add: max.assoc)
qed

lemma table_again:
  assumes "\<And>k e. settling (\<lambda>img. map_of (sel img) k) e"
    and "\<And>img. image_sorted img \<Longrightarrow> sm_sorted (sel img)" and "image_sorted base"
  shows "sel (apply_all (apply_all base es) es) = sel (apply_all base es)"
proof (rule sm_sorted_eqI)
  show "map_of (sel (apply_all (apply_all base es) es)) k = map_of (sel (apply_all base es)) k" for k
    using settled_again [OF assms(1) assms(3)] .
qed (simp_all add: assms(2,3) image_sorted_apply_all)

text \<open>Replaying a journal over the image it led to changes nothing.\<close>

lemma apply_all_again:
  assumes base: "image_sorted base"
  shows "apply_all (apply_all base es) es = apply_all base es"
proof -
  let ?one = "apply_all base es" and ?two = "apply_all (apply_all base es) es"
  have domains: "img_domains ?two = img_domains ?one"
    by (rule table_again [where sel = img_domains, OF settling_tables(1) _ base]) (simp add: image_sorted_def)
  have participants: "img_participants ?two = img_participants ?one"
    by (rule table_again [where sel = img_participants, OF settling_tables(2) _ base]) (simp add: image_sorted_def)
  have objects: "img_objects ?two = img_objects ?one"
    by (rule table_again [where sel = img_objects, OF settling_tables(3) _ base]) (simp add: image_sorted_def)
  have regions: "img_regions ?two = img_regions ?one"
    by (rule table_again [where sel = img_regions, OF settling_tables(4) _ base]) (simp add: image_sorted_def)
  have invalidations: "img_invalidations ?two = img_invalidations ?one"
    by (rule table_again [where sel = img_invalidations, OF settling_tables(5) _ base]) (simp add: image_sorted_def)
  have syncs: "img_syncs ?two = img_syncs ?one"
    by (rule table_again [where sel = img_syncs, OF settling_tables(6) _ base]) (simp add: image_sorted_def)
  have policies: "img_policies ?two = img_policies ?one"
    by (rule table_again [where sel = img_policies, OF settling_tables(7) _ base]) (simp add: image_sorted_def)
  have pending_publications: "img_pending_publications ?two = img_pending_publications ?one"
    by (rule table_again [where sel = img_pending_publications, OF settling_pending _ base]) (simp add: image_sorted_def)
  have "img_epoch ?two = img_epoch ?one"
    using settled_again [OF settling_tables(8) base] by simp
  moreover have "img_sequence ?two = img_sequence ?one"
    using sequence_all [of es] by (metis max.assoc max.idem)
  ultimately show ?thesis
    by (intro DurableImage.equality) (simp_all add: domains participants objects regions invalidations syncs policies pending_publications)
qed

section \<open>What a restart reads\<close>

lemma emplace_all_is_sorted: "sm_sorted (emplace_all record_key records)"
proof (induction records rule: rev_induct)
  case (snoc x records)
  then show ?case by (simp add: emplace_all_def sm_emplace_def sm_sorted_put split: option.splits)
qed (simp add: emplace_all_def)

lemma decode_collection_sorted: "decode_collection limits record_key dec r = Inr (m, r') \<Longrightarrow> sm_sorted m"
  by (auto simp: decode_collection_def rbind_def emplace_all_is_sorted split: sum.splits prod.splits)

lemma decode_image_payload_sorted: "decode_image_payload limits r = Inr (img, r') \<Longrightarrow> image_sorted img"
  unfolding decode_image_payload_def rbind_def image_sorted_def
  by (auto split: sum.splits prod.splits dest: decode_collection_sorted)

lemma decode_snapshot_sorted:
  assumes "decode_snapshot bs limits = Inr img"
  shows "image_sorted img"
proof -
  obtain payload sq where "decode_snapshot_payload payload sq limits = Inr img"
    using assms by (auto simp: decode_snapshot_def Let_def split: if_splits option.splits)
  then show ?thesis
    by (auto simp: decode_snapshot_payload_def split: sum.splits prod.splits if_splits
        dest: decode_image_payload_sorted)
qed

text \<open>The snapshot file, when there is one, then the journal.\<close>

fun stored_snapshot :: "StoreLimits \<Rightarrow> node option \<Rightarrow> DurableImage option" where
  "stored_snapshot limits None = Some empty_image"
| "stored_snapshot limits (Some Directory) = None"
| "stored_snapshot limits (Some (Regular data)) =
     (case decode_snapshot data limits of Inl e \<Rightarrow> None | Inr img \<Rightarrow> Some img)"

definition disk_recover :: "'w disk \<Rightarrow> FileDurableStore \<Rightarrow> 'w \<Rightarrow> DurableImage option" where
  "disk_recover d s w =
     map_option (\<lambda>img. fst (replay (fs_limits s) img empty_load_report (file_bytes (node_at d w (journal_path s)))))
       (stored_snapshot (fs_limits s) (node_at d w (snapshot_path s)))"

lemma stored_snapshot_sorted: "stored_snapshot limits n = Some img \<Longrightarrow> image_sorted img"
  by (induction limits n rule: stored_snapshot.induct)
    (auto simp: image_sorted_def empty_image_def split: sum.splits dest!: decode_snapshot_sorted)

lemma disk_recover_entries:
  assumes "\<forall>e \<in> set entries. entry_ok (fs_limits s) e"
    and "file_bytes (node_at d w (journal_path s)) = concat (map encode_journal_entry entries)"
  shows "disk_recover d s w =
    map_option (\<lambda>base. apply_all base entries)
      (stored_snapshot (fs_limits s) (node_at d w (snapshot_path s)))"
  using replay_entries [of entries "fs_limits s" _ empty_load_report "[]"] assms
  by (simp add: disk_recover_def replay_Nil)

text \<open>The memory store that holds the bytes of the two files.\<close>

definition memory_of :: "'w disk \<Rightarrow> FileDurableStore \<Rightarrow> 'w \<Rightarrow> MemoryDurableStore" where
  "memory_of d s w = (new_memory_store (fs_limits s))
     \<lparr>ms_snapshot := file_bytes (node_at d w (snapshot_path s)),
      ms_journal := file_bytes (node_at d w (journal_path s))\<rparr>"

section \<open>Opening\<close>

text \<open>A path that is free or names a file whose size a file size can hold.\<close>

fun plain :: "node option \<Rightarrow> bool" where
  "plain None = True"
| "plain (Some Directory) = False"
| "plain (Some (Regular data)) = (length data < 2 ^ 64)"

lemma plainE:
  assumes "plain n"
  obtains "n = None" | data where "n = Some (Regular data)" "length data < 2 ^ 64"
  using assms by (cases n rule: plain.cases) auto

lemma ensure_directory_disk:
  assumes "posix_files os d" and "ensure_directory os dir w = (status, w')"
  shows "open_at d w' = open_at d w" "\<And>q. take (length q) dir \<noteq> q \<Longrightarrow> node_at d w' q = node_at d w q"
proof -
  have "mkdir_law os d" using assms(1) by (simp add: posix_files_def)
  then have "open_at d w' = open_at d w \<and> (\<forall>q. take (length q) dir \<noteq> q \<longrightarrow> node_at d w' q = node_at d w q)"
    using assms(2) unfolding ensure_directory_def mkdir_law_def
    by (auto split: if_splits prod.splits)
  then show "open_at d w' = open_at d w" "\<And>q. take (length q) dir \<noteq> q \<Longrightarrow> node_at d w' q = node_at d w q"
    by auto
qed

lemma path_join_longer: "name \<noteq> [] \<Longrightarrow> take (length (path_join dir name)) dir \<noteq> path_join dir name"
  by (auto simp: path_join_def)

lemma load_snapshot_disk:
  assumes posix: "posix_files os d" and call: "load_snapshot os s w = (Inr (img, report), w')"
    and reg: "plain (node_at d w (snapshot_path s))"
  shows "untouched d w w'" "stored_snapshot (fs_limits s) (node_at d w (snapshot_path s)) = Some img"
    "report = empty_load_report
       \<lparr>lr_snapshot_loaded := node_at d w (snapshot_path s) \<noteq> None,
        lr_snapshot_bytes := of_nat (length (file_bytes (node_at d w (snapshot_path s))))\<rparr>"
proof -
  have "untouched d w w' \<and> stored_snapshot (fs_limits s) (node_at d w (snapshot_path s)) = Some img \<and>
    report = empty_load_report
       \<lparr>lr_snapshot_loaded := node_at d w (snapshot_path s) \<noteq> None,
        lr_snapshot_bytes := of_nat (length (file_bytes (node_at d w (snapshot_path s))))\<rparr>"
    using reg
  proof (cases rule: plainE)
    case 1
    then show ?thesis using call posix_metadata(1) [OF posix]
      by (auto simp: load_snapshot_def path_exists_def empty_load_report_def)
  next
    case (2 data)
    obtain r w1 where r: "read_entire_file os (snapshot_path s) (sl_max_snapshot_bytes (fs_limits s)) w = (r, w1)"
      by fastforce
    note rd = read_entire_file_disk [OF posix r 2]
    show ?thesis
      using call r rd 2 posix_metadata(1) [OF posix] query_file_size_eq(1) [OF posix 2(1)]
      by (cases r) (auto simp: load_snapshot_def path_exists_def size_or_zero_def empty_load_report_def split: sum.splits)
  qed
  then show "untouched d w w'" "stored_snapshot (fs_limits s) (node_at d w (snapshot_path s)) = Some img"
    "report = empty_load_report
       \<lparr>lr_snapshot_loaded := node_at d w (snapshot_path s) \<noteq> None,
        lr_snapshot_bytes := of_nat (length (file_bytes (node_at d w (snapshot_path s))))\<rparr>" by auto
qed

lemma load_journal_disk:
  assumes posix: "posix_files os d" and call: "load_journal os s img report w = (Inr (img', report'), w')"
    and reg: "plain (node_at d w (journal_path s))"
  shows "untouched d w w'"
    "(img', report') = replay (fs_limits s) img
       (report\<lparr>lr_journal_bytes := of_nat (length (file_bytes (node_at d w (journal_path s))))\<rparr>)
       (file_bytes (node_at d w (journal_path s)))"
proof -
  have "untouched d w w' \<and> (img', report') = replay (fs_limits s) img
       (report\<lparr>lr_journal_bytes := of_nat (length (file_bytes (node_at d w (journal_path s))))\<rparr>)
       (file_bytes (node_at d w (journal_path s)))"
    using reg
  proof (cases rule: plainE)
    case 1
    then show ?thesis using call posix_metadata(1) [OF posix] query_file_size_eq(2) [OF posix 1]
      by (auto simp: load_journal_def path_exists_def size_or_zero_def replay_Nil Let_def split: if_splits)
  next
    case (2 data)
    obtain r w1 where r: "read_entire_file os (journal_path s) (sl_max_journal_bytes (fs_limits s)) w = (r, w1)"
      by fastforce
    note rd = read_entire_file_disk [OF posix r 2]
    show ?thesis
      using call r rd 2 posix_metadata(1) [OF posix] query_file_size_eq(1) [OF posix 2(1)]
      by (cases r) (auto simp: load_journal_def path_exists_def size_or_zero_def Let_def split: if_splits)
  qed
  then show "untouched d w w'" "(img', report') = replay (fs_limits s) img
       (report\<lparr>lr_journal_bytes := of_nat (length (file_bytes (node_at d w (journal_path s))))\<rparr>)
       (file_bytes (node_at d w (journal_path s)))" by auto
qed

lemma memory_open_of:
  assumes "stored_snapshot (fs_limits s) (node_at d w (snapshot_path s)) = Some base"
    and "(img, report) = replay (fs_limits s) base
      (empty_load_report
        \<lparr>lr_snapshot_loaded := node_at d w (snapshot_path s) \<noteq> None,
         lr_snapshot_bytes := of_nat (length (file_bytes (node_at d w (snapshot_path s)))),
         lr_journal_bytes := of_nat (length (file_bytes (node_at d w (journal_path s))))\<rparr>)
      (file_bytes (node_at d w (journal_path s)))"
  shows "fst (memory_open (memory_of d s w)) = Inr (report, img)"
proof -
  let ?n = "node_at d w (snapshot_path s)"
  consider "?n = None" "base = empty_image"
    | data where "?n = Some (Regular data)" "decode_snapshot data (fs_limits s) = Inr base"
    using assms(1) by (cases "(fs_limits s, ?n)" rule: stored_snapshot.cases) (auto split: sum.splits)
  then show ?thesis
  proof cases
    case 1
    then show ?thesis using assms(2) [symmetric]
      by (simp add: memory_open_def memory_of_def new_memory_store_def empty_load_report_def)
  next
    case (2 data)
    then have "data \<noteq> []" by (auto simp: decode_snapshot_def kSnapshotHeaderSize_def)
    then show ?thesis using 2 assms(2) [symmetric]
      by (simp add: memory_open_def memory_of_def new_memory_store_def empty_load_report_def)
  qed
qed

lemma file_open_disk:
  assumes posix: "posix_files os d" and call: "file_open os s w = (Inr (report, img), s', w')"
    and fresh: "fs_journal s = None"
    and reg: "plain (node_at d w (snapshot_path s))" "plain (node_at d w (journal_path s))"
  shows "fst (memory_open (memory_of d s w)) = Inr (report, img)"
    and "\<exists>h. fs_journal s' = Some h \<and> open_at d w (fh_handle h) = None \<and>
      open_at d w' = (open_at d w)(fh_handle h \<mapsto> journal_path s)"
    and "s' = s\<lparr>fs_next_sequence := img_sequence img + 1, fs_journal := fs_journal s', fs_opened := True\<rparr>"
    and "node_at d w' (snapshot_path s) = node_at d w (snapshot_path s)"
    and "node_at d w' (journal_path s) = Some (Regular (file_bytes (node_at d w (journal_path s))))"
proof -
  obtain w1 base report1 w2 w3 h where calls:
    "ensure_directory os (fs_directory s) w = (StatusCode.Ok, w1)"
    "load_snapshot os s w1 = (Inr (base, report1), w2)"
    "load_journal os s base report1 w2 = (Inr (img, report), w3)"
    "open_append os (journal_path s) w3 = (Inr h, w')"
    and s': "s' = s\<lparr>fs_next_sequence := img_sequence img + 1, fs_journal := Some h, fs_opened := True\<rparr>"
    using call fresh
    by (auto simp: file_open_def Let_def drop_handle_def split: prod.splits sum.splits if_splits)
  have same1: "node_at d w1 (snapshot_path s) = node_at d w (snapshot_path s)"
    "node_at d w1 (journal_path s) = node_at d w (journal_path s)" "open_at d w1 = open_at d w"
    using ensure_directory_disk [OF posix calls(1)]
    by (simp_all add: snapshot_path_def journal_path_def path_join_longer)
  note l1 = load_snapshot_disk [OF posix calls(2), unfolded same1, OF reg(1)]
  have same2: "node_at d w2 = node_at d w1" "open_at d w2 = open_at d w1" using l1(1) by (simp_all add: untouched_def)
  note l2 = load_journal_disk [OF posix calls(3), unfolded same2 same1, OF reg(2)]
  have same3: "node_at d w3 = node_at d w1" "open_at d w3 = open_at d w"
    using l2(1) same1 same2 by (simp_all add: untouched_def)
  note l3 = open_append_ok [OF posix calls(4)]
  show "fst (memory_open (memory_of d s w)) = Inr (report, img)"
    using memory_open_of [OF l1(2)] l2(2) l1(3) by simp
  show "\<exists>h. fs_journal s' = Some h \<and> open_at d w (fh_handle h) = None \<and>
      open_at d w' = (open_at d w)(fh_handle h \<mapsto> journal_path s)"
    using l3 s' same3 by auto
  show "s' = s\<lparr>fs_next_sequence := img_sequence img + 1, fs_journal := fs_journal s', fs_opened := True\<rparr>"
    using s' by simp
  show "node_at d w' (snapshot_path s) = node_at d w (snapshot_path s)"
    "node_at d w' (journal_path s) = Some (Regular (file_bytes (node_at d w (journal_path s))))"
    using l3(3) same1 same3 by simp_all
qed

text \<open>Calls that only fail where the file is not there.\<close>

definition reliable :: "'w os_calls \<Rightarrow> 'w disk \<Rightarrow> bool" where
  "reliable os d \<longleftrightarrow>
     (\<forall>p w. node_at d w p \<noteq> None \<longrightarrow>
        (\<exists>fd w' st. sys_open_read os p w = (Some fd, w') \<and> sys_fstat os fd w' = Some st)) \<and>
     (\<forall>p w. node_at d w p \<noteq> Some Directory \<longrightarrow>
        (\<exists>fd w' st. sys_open_append os p w = (Some fd, w') \<and> sys_fstat os fd w' = Some st)) \<and>
     (\<forall>fd n w. \<exists>data w'. sys_read os fd n w = (Some data, w'))"

lemma read_loop_reliable: "reliable os d \<Longrightarrow> \<exists>data w'. read_loop os fd want w = (Inr data, w')"
proof (induction want arbitrary: w rule: less_induct)
  case (less want)
  obtain data w1 where c: "sys_read os fd want w = (Some data, w1)"
    using less.prems unfolding reliable_def by blast
  show ?case
  proof (cases "want = 0 \<or> data = []")
    case True
    then show ?thesis using c by (subst read_loop.simps) auto
  next
    case False
    then have "want - length data < want" by (cases data) auto
    from less.IH [OF this less.prems, of w1] show ?thesis
      using c False by (subst read_loop.simps) auto
  qed
qed

lemma read_entire_file_reliable:
  assumes "reliable os d" "posix_files os d" "node_at d w p = Some (Regular data)"
    and "length data \<le> unat bound"
  shows "\<exists>result w'. read_entire_file os p bound w = (Inr result, w')"
proof -
  obtain s1 w1 where w1: "probe_file os p bound w = (s1, w1)" by fastforce
  obtain fd w2 st where p: "sys_open_read os p w = (Some fd, w2)" "sys_fstat os fd w2 = Some st"
    using assms(1,3) unfolding reliable_def by blast
  have "sys_fstat os fd w2 = Some (False, of_nat (length data))"
    using posix_open_read(4) [OF assms(2) p(1), of fd] p(2) posix_metadata(3) [OF assms(2,3)] by auto
  moreover have "of_nat (length data) \<le> bound"
    using assms(4) by (simp add: word_le_nat_alt unat_of_nat)
  ultimately have "s1 = StatusCode.Ok" using w1 p by (auto simp: probe_file_def Let_def leD split: if_splits)
  moreover have n: "node_at d w1 p = Some (Regular data)"
    using probe_file_disk(1) [OF assms(2) w1 assms(3)] assms(3) by (simp add: untouched_def)
  moreover obtain fd2 w3 st2 where "sys_open_read os p w1 = (Some fd2, w3)" "sys_fstat os fd2 w3 = Some st2"
    using assms(1) n unfolding reliable_def by blast
  moreover obtain got w4 where "read_loop os fd2 (unat (of_nat (length data) :: u64)) w3 = (Inr got, w4)"
    using read_loop_reliable [OF assms(1)] by blast
  ultimately show ?thesis
    using w1 query_file_size_eq(1) [OF assms(2) n] by (simp add: read_entire_file_def)
qed

lemma load_snapshot_reliable:
  assumes "reliable os d" "posix_files os d" "plain (node_at d w (snapshot_path s))"
    and "length (file_bytes (node_at d w (snapshot_path s))) \<le> unat (sl_max_snapshot_bytes (fs_limits s))"
    and "load_snapshot os s w = (Inl code, w')"
  shows "\<exists>data. node_at d w (snapshot_path s) = Some (Regular data) \<and>
    decode_snapshot data (fs_limits s) = Inl code"
  using assms(3)
proof (cases rule: plainE)
  case 1
  then show ?thesis using assms(5) posix_metadata(1) [OF assms(2)]
    by (auto simp: load_snapshot_def path_exists_def)
next
  case (2 data)
  obtain result w1 where r:
    "read_entire_file os (snapshot_path s) (sl_max_snapshot_bytes (fs_limits s)) w = (Inr result, w1)"
    using read_entire_file_reliable [OF assms(1,2) 2(1)] assms(4) 2 by fastforce
  have "frr_bytes result = data" using read_entire_file_disk(2) [OF assms(2) r 2] by simp
  then show ?thesis using assms(5) 2 r posix_metadata(1) [OF assms(2)]
    by (auto simp: load_snapshot_def path_exists_def Let_def split: sum.splits)
qed

lemma load_journal_reliable:
  assumes "reliable os d" "posix_files os d" "plain (node_at d w (journal_path s))"
    and "length (file_bytes (node_at d w (journal_path s))) \<le> unat (sl_max_journal_bytes (fs_limits s))"
  shows "\<exists>x w'. load_journal os s img report w = (Inr x, w')"
  using assms(3)
proof (cases rule: plainE)
  case 1
  then show ?thesis using posix_metadata(1) [OF assms(2)] query_file_size_eq(2) [OF assms(2) 1]
    by (auto simp: load_journal_def path_exists_def size_or_zero_def)
next
  case (2 data)
  obtain result w1 where r:
    "read_entire_file os (journal_path s) (sl_max_journal_bytes (fs_limits s)) w = (Inr result, w1)"
    using read_entire_file_reliable [OF assms(1,2) 2(1)] assms(4) 2 by fastforce
  then have "of_nat (length data) \<le> sl_max_journal_bytes (fs_limits s)"
    using read_entire_file_disk(2) [OF assms(2) r 2] by simp
  then show ?thesis using 2 r query_file_size_eq(1) [OF assms(2) 2(1)] posix_metadata(1) [OF assms(2)]
    by (auto simp: load_journal_def path_exists_def size_or_zero_def Let_def)
qed

lemma open_append_reliable:
  "reliable os d \<Longrightarrow> node_at d w p \<noteq> Some Directory \<Longrightarrow> \<exists>h w'. open_append os p w = (Inr h, w')"
  unfolding reliable_def open_append_def by (fastforce split: prod.splits option.splits)

lemma file_open_reliable:
  assumes rel: "reliable os d" and posix: "posix_files os d"
    and dir: "node_at d w (fs_directory s) = Some Directory"
    and reg: "plain (node_at d w (snapshot_path s))" "plain (node_at d w (journal_path s))"
    and bound: "length (file_bytes (node_at d w (snapshot_path s))) \<le> unat (sl_max_snapshot_bytes (fs_limits s))"
      "length (file_bytes (node_at d w (journal_path s))) \<le> unat (sl_max_journal_bytes (fs_limits s))"
    and failed: "file_open os s w = (Inl code, s', w')"
  shows "\<exists>data. node_at d w (snapshot_path s) = Some (Regular data) \<and>
    decode_snapshot data (fs_limits s) = Inl code"
proof -
  have e: "ensure_directory os (fs_directory s) w = (StatusCode.Ok, w)"
    using dir posix_metadata(1,2) [OF posix] by (simp add: ensure_directory_def)
  obtain r w1 where r: "load_snapshot os s w = (r, w1)" by fastforce
  show ?thesis
  proof (cases r)
    case (Inl c)
    then show ?thesis using load_snapshot_reliable [OF rel posix reg(1) bound(1)] r failed e
      by (auto simp: file_open_def)
  next
    case (Inr x)
    obtain base report where x: "x = (base, report)" by fastforce
    have u1: "node_at d w1 = node_at d w"
      using load_snapshot_disk(1) [OF posix _ reg(1), of base report w1] r Inr x by (simp add: untouched_def)
    obtain img report2 w2 where j: "load_journal os s base report w1 = (Inr (img, report2), w2)"
      using load_journal_reliable [OF rel posix, of w1 s base report] reg(2) bound(2) u1 by fastforce
    have "node_at d w2 = node_at d w"
      using load_journal_disk(1) [OF posix j] reg(2) u1 by (simp add: untouched_def)
    then obtain h w3 where "open_append os (journal_path s) w2 = (Inr h, w3)"
      using open_append_reliable [OF rel, of w2 "journal_path s"] reg(2) by fastforce
    then show ?thesis using failed e r Inr x j by (auto simp: file_open_def Let_def)
  qed
qed

section \<open>Appending\<close>

text \<open>A store in use: its journal handle is the only one open on the journal, which holds the entries
  appended since the snapshot, and nothing is open on the snapshot.\<close>

definition store_ready :: "'w disk \<Rightarrow> FileDurableStore \<Rightarrow> 'w \<Rightarrow> JournalEntry list \<Rightarrow> bool" where
  "store_ready d s w entries \<longleftrightarrow>
     fs_opened s \<and>
     (\<exists>h. fs_journal s = Some h \<and> handle_valid h \<and>
        (\<forall>fd. open_at d w fd = Some (journal_path s) \<longleftrightarrow> fd = fh_handle h)) \<and>
     node_at d w (journal_path s) = Some (Regular (concat (map encode_journal_entry entries))) \<and>
     (\<forall>e \<in> set entries. entry_ok (fs_limits s) e) \<and>
     not_open d w (snapshot_path s)"

definition same_store :: "FileDurableStore \<Rightarrow> FileDurableStore \<Rightarrow> bool" where
  "same_store s s' \<longleftrightarrow> fs_directory s' = fs_directory s \<and> fs_limits s' = fs_limits s"

lemma same_store_paths:
  "same_store s s' \<Longrightarrow> snapshot_path s' = snapshot_path s"
  "same_store s s' \<Longrightarrow> journal_path s' = journal_path s"
  "same_store s s' \<Longrightarrow> disk_recover d s' w = disk_recover d s w"
  by (simp_all add: same_store_def snapshot_path_def journal_path_def disk_recover_def)

text \<open>Whatever fails, the journal grows by a prefix of the frame, by all of it when the append succeeds.\<close>

lemma file_append_disk:
  assumes posix: "posix_files os d" and ready: "store_ready d s w entries"
    and call: "file_append os s e w = (status, s', w')"
  shows "same_store s s' \<and> fs_opened s' \<and> open_at d w' = open_at d w \<and>
    (\<exists>h h'. fs_journal s = Some h \<and> fs_journal s' = Some h' \<and> fh_handle h' = fh_handle h) \<and>
    (\<exists>n \<le> length (encode_journal_entry (file_stamp s e)).
       node_at d w' = (node_at d w)(journal_path s \<mapsto> Regular (concat (map encode_journal_entry entries) @
         take n (encode_journal_entry (file_stamp s e)))) \<and>
       (status = StatusCode.Ok \<longrightarrow> n = length (encode_journal_entry (file_stamp s e))))"
proof -
  let ?frame = "encode_journal_entry (file_stamp s e)"
  let ?old = "concat (map encode_journal_entry entries)"
  obtain h where h: "fs_journal s = Some h" "fs_opened s" "open_at d w (fh_handle h) = Some (journal_path s)"
    "node_at d w (journal_path s) = Some (Regular ?old)"
    using ready by (auto simp: store_ready_def)
  show ?thesis
  proof (cases "?frame = []")
    case True
    then show ?thesis using call h
      by (auto simp: file_append_def same_store_def Let_def fun_upd_idem)
  next
    case False
    obtain s1 h1 w1 where w1: "handle_write os h ?frame w = (s1, h1, w1)" by (metis prod_cases3)
    from handle_write_disk [OF posix w1 h(3,4)] obtain n where n: "n \<le> length ?frame"
      "open_at d w1 = open_at d w" "fh_handle h1 = fh_handle h"
      "node_at d w1 = (node_at d w)(journal_path s \<mapsto> Regular (?old @ take n ?frame))"
      "s1 = StatusCode.Ok \<longrightarrow> n = length ?frame" by blast
    obtain s2 w2 where w2: "handle_flush os h1 w1 = (s2, w2)" by fastforce
    have u: "node_at d w2 = node_at d w1" "open_at d w2 = open_at d w1"
      using handle_flush_disk [OF posix w2] by (simp_all add: untouched_def)
    have "same_store s s' \<and> fs_opened s' \<and> fs_journal s' = Some h1 \<and> (w' = w1 \<or> w' = w2) \<and>
        (status = StatusCode.Ok \<longrightarrow> s1 = StatusCode.Ok)"
      using call h False w1 w2
      by (auto simp: file_append_def same_store_def Let_def split: if_splits prod.splits)
    then show ?thesis using n u h(1) by (intro conjI exI [of _ n]) auto
  qed
qed

lemma file_append_ready:
  assumes "posix_files os d" and ready: "store_ready d s w entries"
    and "entry_ok (fs_limits s) (file_stamp s e)" and "file_append os s e w = (StatusCode.Ok, s', w')"
  shows "store_ready d s' w' (entries @ [file_stamp s e])"
  using file_append_disk [OF assms(1,2,4)] assms(3) ready
  by (auto simp: store_ready_def same_store_paths handle_valid_def not_open_def) (simp_all add: same_store_def)

lemma replay_tail:
  assumes "\<forall>x \<in> set entries. entry_ok limits x" and "entry_ok limits e" and "n \<le> length (encode_journal_entry e)"
  shows "fst (replay limits base empty_load_report
      (concat (map encode_journal_entry entries) @ take n (encode_journal_entry e))) =
    (if n = length (encode_journal_entry e) then snd (apply_journal_entry (apply_all base entries) e)
     else apply_all base entries)"
proof (cases "n = length (encode_journal_entry e)")
  case True
  have "\<And>x. x \<in> set (entries @ [e]) \<Longrightarrow> entry_ok limits x" using assms(1,2) by auto
  from replay_entries [of "entries @ [e]" limits base empty_load_report "[]", OF this] True show ?thesis
    by (simp add: replay_Nil apply_all_def)
next
  case False
  then show ?thesis
    using replay_entries [of entries limits base empty_load_report "take n (encode_journal_entry e)"]
      replay_torn [OF assms(2), of n] assms(1,3) by (cases "n = 0") (auto simp: replay_Nil)
qed

section \<open>Compacting\<close>

text \<open>Over a snapshot of the image the journal led to, the journal itself and the empty journal lead to
  that image again.\<close>

lemma recover_over_new_snapshot:
  assumes ok: "\<forall>e \<in> set entries. entry_ok (fs_limits s) e"
    and rec: "disk_recover d s w = Some img"
    and old: "file_bytes (node_at d w (journal_path s)) = concat (map encode_journal_entry entries)"
    and snap: "stored_snapshot (fs_limits s) (node_at d w' (snapshot_path s)) = Some img"
    and new: "file_bytes (node_at d w' (journal_path s)) \<in> {[], concat (map encode_journal_entry entries)}"
  shows "disk_recover d s w' = Some img"
proof -
  obtain base where base: "stored_snapshot (fs_limits s) (node_at d w (snapshot_path s)) = Some base"
    "img = apply_all base entries"
    using rec disk_recover_entries [OF ok old] by auto
  have again: "apply_all img entries = img"
    using apply_all_again [OF stored_snapshot_sorted [OF base(1)]] base(2) by simp
  from new show ?thesis
    using disk_recover_entries [of "[]" s d w'] disk_recover_entries [OF ok, of d w'] snap again by auto
qed

lemma disk_recover_cong:
  assumes "node_at d w' (snapshot_path s) = node_at d w (snapshot_path s)"
    and "file_bytes (node_at d w' (journal_path s)) = file_bytes (node_at d w (journal_path s))"
  shows "disk_recover d s w' = disk_recover d s w"
  using assms by (simp add: disk_recover_def)

lemma reopen_disk:
  assumes "posix_files os d" and "open_append os p w = (r, w')"
  shows "q \<noteq> p \<Longrightarrow> node_at d w' q = node_at d w q"
    "file_bytes (node_at d w' p) = file_bytes (node_at d w p)"
proof -
  have "(q \<noteq> p \<longrightarrow> node_at d w' q = node_at d w q) \<and> file_bytes (node_at d w' p) = file_bytes (node_at d w p)"
  proof (cases r)
    case (Inl code)
    then show ?thesis using open_append_failed(2) [OF assms(1), of p w code w'] assms(2) by auto
  next
    case (Inr h)
    then show ?thesis using open_append_ok(3) [OF assms(1), of p w h w'] assms(2) by auto
  qed
  then show "q \<noteq> p \<Longrightarrow> node_at d w' q = node_at d w q"
    "file_bytes (node_at d w' p) = file_bytes (node_at d w p)" by auto
qed

lemma file_compact_disk:
  assumes posix: "posix_files os d" and ready: "store_ready d s w entries"
    and call: "file_compact os pid n s img w = (status, s', w')"
    and free: "node_at d w (unique_sibling pid n (snapshot_path s)) = None"
      "not_open d w (unique_sibling pid n (snapshot_path s))"
  shows "same_store s s'"
    "node_at d w' (snapshot_path s) = node_at d w (snapshot_path s) \<and>
     file_bytes (node_at d w' (journal_path s)) = concat (map encode_journal_entry entries) \<and>
     status \<noteq> StatusCode.Ok \<or>
     node_at d w' (snapshot_path s) = Some (Regular (encode_snapshot img)) \<and>
     file_bytes (node_at d w' (journal_path s)) \<in> {[], concat (map encode_journal_entry entries)} \<and>
     (status = StatusCode.Ok \<longrightarrow> file_bytes (node_at d w' (journal_path s)) = [])"
proof -
  let ?temp = "unique_sibling pid n (snapshot_path s)" and ?old = "concat (map encode_journal_entry entries)"
  obtain h where h: "fs_journal s = Some h" "fs_opened s" "handle_valid h"
    "\<And>fd. open_at d w fd = Some (journal_path s) \<longleftrightarrow> fd = fh_handle h"
    "node_at d w (journal_path s) = Some (Regular ?old)" "not_open d w (snapshot_path s)"
    using ready by (auto simp: store_ready_def)
  obtain s1 h1 w1 where w1: "handle_close os h w = (s1, h1, w1)" by (metis prod_cases3)
  note c = handle_close_disk [OF posix w1]
  have n1: "not_open d w1 ?temp" "not_open d w1 (snapshot_path s)" "not_open d w1 (journal_path s)"
    using c(3) free(2) h(3,4,6) by (auto simp: not_open_def)
  obtain s2 w2 where w2: "atomic_replace_file os pid n (snapshot_path s) (encode_snapshot img) w1 = (s2, w2)"
    by fastforce
  note a = atomic_replace_disk [OF posix w2 n1(1,2)]
  have a': "node_at d w2 (snapshot_path s) =
      (if s2 = StatusCode.Ok then Some (Regular (encode_snapshot img)) else node_at d w (snapshot_path s))"
    "node_at d w2 (journal_path s) = Some (Regular ?old)" "not_open d w2 (journal_path s)"
    using a c(1) free(1) h(5) n1(3) by auto
  obtain s3 w3 where w3: "rotate_file os (journal_path s) (compacted_path s) w2 = (s3, w3)" by fastforce
  note r = rotate_file_disk [OF posix w3]
  obtain s4 w4 where w4: "remove_file os (compacted_path s) w3 = (s4, w4)" by fastforce
  note m = remove_file_disk(3) [OF posix w4]
  obtain r2 w2' where o2: "open_append os (journal_path s) w2 = (r2, w2')" by fastforce
  obtain r4 w4' where o4: "open_append os (journal_path s) w4 = (r4, w4')" by fastforce
  note p2 = reopen_disk [OF posix o2] and p4 = reopen_disk [OF posix o4]
  have same: "same_store s s'"
    using call h w1 w2 w3 w4 o2 o4
    by (auto simp: file_compact_def same_store_def Let_def split: if_splits prod.splits sum.splits)
  consider "s1 \<noteq> StatusCode.Ok" "w' = w1" "status \<noteq> StatusCode.Ok"
    | "s2 \<noteq> StatusCode.Ok" "w' = w2'" "status \<noteq> StatusCode.Ok"
    | "s2 = StatusCode.Ok" "s3 \<noteq> StatusCode.Ok" "w' = w3" "status \<noteq> StatusCode.Ok"
    | "s2 = StatusCode.Ok" "s3 = StatusCode.Ok" "w' = w4" "status \<noteq> StatusCode.Ok"
    | "s2 = StatusCode.Ok" "s3 = StatusCode.Ok" "w' = w4'"
    using call h w1 w2 w3 w4 o2 o4
    by (auto simp: file_compact_def Let_def split: if_splits prod.splits sum.splits)
  then have "node_at d w' (snapshot_path s) = node_at d w (snapshot_path s) \<and>
     file_bytes (node_at d w' (journal_path s)) = ?old \<and> status \<noteq> StatusCode.Ok \<or>
     node_at d w' (snapshot_path s) = Some (Regular (encode_snapshot img)) \<and>
     file_bytes (node_at d w' (journal_path s)) \<in> {[], ?old} \<and>
     (status = StatusCode.Ok \<longrightarrow> file_bytes (node_at d w' (journal_path s)) = [])"
    by cases (use c(1) h(5) a' r m p2 p4 in auto)
  with same show "same_store s s'"
    "node_at d w' (snapshot_path s) = node_at d w (snapshot_path s) \<and>
     file_bytes (node_at d w' (journal_path s)) = ?old \<and> status \<noteq> StatusCode.Ok \<or>
     node_at d w' (snapshot_path s) = Some (Regular (encode_snapshot img)) \<and>
     file_bytes (node_at d w' (journal_path s)) \<in> {[], ?old} \<and>
     (status = StatusCode.Ok \<longrightarrow> file_bytes (node_at d w' (journal_path s)) = [])" by blast+
qed

end
