(* ===== verification/File_Properties.thy ===== *)
theory File_Properties
  imports File_Store
begin

text \<open>
  What the file store guarantees, and a machine in memory on which its guarantees are seen to apply: files
  and descriptors in association lists, and a list of faults that says how much the next write calls
  take, zero standing for a call that fails.
\<close>

section \<open>A machine in memory\<close>

record ram =
  ram_files :: "string \<Rightarrow> node option"
  ram_open :: "(nat \<times> string option) list"
  ram_reading :: "(nat \<times> string \<times> bytes) list"
  ram_faults :: "nat list"

definition ram_fresh :: "ram \<Rightarrow> nat" where
  "ram_fresh w = Suc (fold max (map fst (ram_open w) @ map fst (ram_reading w)) 0)"

definition ram_stat :: "string \<Rightarrow> ram \<Rightarrow> (bool \<times> u64) option" where
  "ram_stat p w =
     (case ram_files w p of
        None \<Rightarrow> None
      | Some Directory \<Rightarrow> Some (True, 0)
      | Some (Regular data) \<Rightarrow> Some (False, of_nat (length data)))"

definition ram_path :: "ram \<Rightarrow> nat \<Rightarrow> string option" where
  "ram_path w fd = (case map_of (ram_open w) fd of None \<Rightarrow> None | Some p \<Rightarrow> p)"

definition ram_unread :: "ram \<Rightarrow> nat \<Rightarrow> bytes" where
  "ram_unread w fd = (case map_of (ram_reading w) fd of None \<Rightarrow> [] | Some (p, data) \<Rightarrow> data)"

definition ram_fstat :: "nat \<Rightarrow> ram \<Rightarrow> (bool \<times> u64) option" where
  "ram_fstat fd w =
     (case ram_path w fd of
        Some p \<Rightarrow> ram_stat p w
      | None \<Rightarrow> (case map_of (ram_reading w) fd of None \<Rightarrow> None | Some (p, data) \<Rightarrow> ram_stat p w))"

definition ram_open_append :: "string \<Rightarrow> ram \<Rightarrow> nat option \<times> ram" where
  "ram_open_append p w =
     (if ram_files w p = Some Directory then (None, w)
      else (Some (ram_fresh w),
            w\<lparr>ram_files := (ram_files w)(p \<mapsto> Regular (file_bytes (ram_files w p))),
              ram_open := (ram_fresh w, Some p) # ram_open w\<rparr>))"

definition ram_open_read :: "string \<Rightarrow> ram \<Rightarrow> nat option \<times> ram" where
  "ram_open_read p w =
     (if ram_files w p = None then (None, w)
      else (Some (ram_fresh w),
            w\<lparr>ram_reading := (ram_fresh w, p, file_bytes (ram_files w p)) # ram_reading w\<rparr>))"

definition ram_read :: "nat \<Rightarrow> nat \<Rightarrow> ram \<Rightarrow> bytes option \<times> ram" where
  "ram_read fd n w =
     (case map_of (ram_reading w) fd of
        None \<Rightarrow> (Some [], w)
      | Some (p, data) \<Rightarrow> (Some (take n data), w\<lparr>ram_reading := (fd, p, drop n data) # ram_reading w\<rparr>))"

definition ram_write :: "nat \<Rightarrow> bytes \<Rightarrow> ram \<Rightarrow> nat option \<times> ram" where
  "ram_write fd data w =
     (case ram_path w fd of
        None \<Rightarrow> (None, w)
      | Some p \<Rightarrow>
          let n = (case ram_faults w of [] \<Rightarrow> length data | k # _ \<Rightarrow> min k (length data));
              w = w\<lparr>ram_faults := drop 1 (ram_faults w)\<rparr>
          in if n = 0 then (None, w)
             else (Some n, w\<lparr>ram_files := (ram_files w)(p \<mapsto> Regular (file_bytes (ram_files w p) @ take n data))\<rparr>))"

definition ram_close :: "nat \<Rightarrow> ram \<Rightarrow> bool \<times> ram" where
  "ram_close fd w = (True, w\<lparr>ram_open := (fd, None) # ram_open w\<rparr>)"

definition ram_rename :: "string \<Rightarrow> string \<Rightarrow> ram \<Rightarrow> bool \<times> ram" where
  "ram_rename p q w =
     (if ram_files w p = None then (False, w)
      else (True, w\<lparr>ram_files := (ram_files w)(p := None, q := ram_files w p),
        ram_open := map (\<lambda>(fd, x). (fd, if x = Some p then Some q else if x = Some q then None else x))
          (ram_open w)\<rparr>))"

definition ram_remove :: "string \<Rightarrow> ram \<Rightarrow> bool \<times> ram" where
  "ram_remove p w =
     (True, w\<lparr>ram_files := (ram_files w)(p := None),
        ram_open := map (\<lambda>(fd, x). (fd, if x = Some p then None else x)) (ram_open w)\<rparr>)"

definition ram_os :: "ram os_calls" where
  "ram_os =
     \<lparr>sys_exists = (\<lambda>p w. ram_files w p \<noteq> None), sys_is_directory = (\<lambda>p w. ram_files w p = Some Directory),
      sys_create_directories = (\<lambda>p w. (True, w\<lparr>ram_files := (ram_files w)(p \<mapsto> Directory)\<rparr>)),
      sys_stat = ram_stat, sys_fstat = ram_fstat, sys_open_append = ram_open_append,
      sys_open_read = ram_open_read, sys_read = ram_read, sys_write = ram_write,
      sys_fsync = (\<lambda>fd w. (True, w)), sys_close = ram_close, sys_rename = ram_rename,
      sys_remove = ram_remove\<rparr>"

definition ram_disk :: "ram disk" where
  "ram_disk = \<lparr>node_at = ram_files, open_at = ram_path, unread = ram_unread\<rparr>"

lemma ram_os_simps [simp]:
  "sys_exists ram_os p w = (ram_files w p \<noteq> None)" "sys_is_directory ram_os p w = (ram_files w p = Some Directory)"
  "sys_create_directories ram_os p w = (True, w\<lparr>ram_files := (ram_files w)(p \<mapsto> Directory)\<rparr>)"
  "sys_stat ram_os = ram_stat" "sys_fstat ram_os = ram_fstat" "sys_open_append ram_os = ram_open_append"
  "sys_open_read ram_os = ram_open_read" "sys_read ram_os = ram_read" "sys_write ram_os = ram_write"
  "sys_fsync ram_os fd w = (True, w)" "sys_close ram_os = ram_close" "sys_rename ram_os = ram_rename"
  "sys_remove ram_os = ram_remove"
  by (simp_all add: ram_os_def)

lemma ram_disk_simps [simp]:
  "node_at ram_disk = ram_files" "open_at ram_disk = ram_path" "unread ram_disk = ram_unread"
  by (simp_all add: ram_disk_def)

lemma fold_max_ge: "x \<in> set xs \<Longrightarrow> (x :: nat) \<le> fold max xs a"
proof (induction xs arbitrary: a)
  case (Cons y xs)
  have "b \<le> fold max xs b" for b by (induction xs arbitrary: b) (auto intro: le_trans [OF max.cobounded2])
  from this [of "max y a"] Cons show ?case by auto
qed simp

lemma ram_fresh_new: "map_of (ram_open w) (ram_fresh w) = None" "map_of (ram_reading w) (ram_fresh w) = None"
proof -
  have "ram_fresh w \<noteq> x" if "x \<in> set (map fst (ram_open w) @ map fst (ram_reading w))" for x
    using fold_max_ge [OF that, of 0] by (simp add: ram_fresh_def)
  then show "map_of (ram_open w) (ram_fresh w) = None" "map_of (ram_reading w) (ram_fresh w) = None"
    by (auto simp: map_of_eq_None_iff)
qed

lemma map_of_map_snd: "map_of (map (\<lambda>(k, x). (k, f x)) m) k = map_option f (map_of m k)"
  by (induction m) auto

lemma ram_posix: "posix_files ram_os ram_disk"
  unfolding posix_files_def
proof (intro conjI)
  show "metadata_law ram_os ram_disk"
    by (auto simp: metadata_law_def ram_stat_def split: option.splits node.splits)
  show "mkdir_law ram_os ram_disk"
    by (auto simp: mkdir_law_def ram_path_def)
  show "open_append_law ram_os ram_disk"
    by (auto simp: open_append_law_def ram_open_append_def untouched_def ram_path_def ram_fresh_new fun_eq_iff
        split: if_splits)
  show "write_law ram_os ram_disk"
    by (auto simp: write_law_def ram_write_def ram_path_def Let_def split: if_splits list.splits option.splits)
  show "read_law ram_os ram_disk"
    by (auto simp: read_law_def ram_open_read_def ram_read_def untouched_def ram_path_def ram_unread_def
        ram_fstat_def ram_stat_def ram_fresh_new fun_eq_iff min_def split: if_splits option.splits prod.splits)
  show "close_law ram_os ram_disk"
    by (auto simp: close_law_def ram_close_def ram_path_def untouched_def fun_eq_iff)
  show "rename_law ram_os ram_disk"
    by (auto simp: rename_law_def ram_rename_def ram_remove_def ram_path_def untouched_def fun_eq_iff
        map_of_map_snd split: if_splits option.splits)
qed

lemma ram_reliable: "reliable ram_os ram_disk"
  by (auto simp: reliable_def ram_open_read_def ram_open_append_def ram_read_def ram_fstat_def ram_path_def
      ram_stat_def ram_fresh_new split: option.splits node.splits)

section \<open>Properties\<close>


text \<open>A directory whose journal holds one entry, on a machine that transfers bytes one at a time.\<close>

definition demo_file_store :: FileDurableStore where
  "demo_file_store = new_file_store ''state'' default_store_limits"

definition demo_ram :: ram where
  "demo_ram =
     \<lparr>ram_files = [''state'' \<mapsto> Directory,
        journal_path demo_file_store \<mapsto> Regular (encode_journal_entry example_entry)],
      ram_open = [(1, Some (journal_path demo_file_store))], ram_reading = [], ram_faults = []\<rparr>"

definition demo_image :: DurableImage where
  "demo_image = empty_image\<lparr>img_epoch := 7, img_sequence := 1\<rparr>"

lemma demo_paths: "journal_path demo_file_store = ''state/coherence-fabric.journal''"
  "snapshot_path demo_file_store = ''state/coherence-fabric.snapshot''"
  by (simp_all add: journal_path_def snapshot_path_def path_join_def demo_file_store_def new_file_store_def)

lemma demo_ram_files:
  "ram_files demo_ram (journal_path demo_file_store) = Some (Regular (encode_journal_entry example_entry))"
  "ram_files demo_ram (snapshot_path demo_file_store) = None" "ram_files demo_ram ''state'' = Some Directory"
  by (simp_all add: demo_ram_def demo_paths)

lemma replay_example:
  "replay default_store_limits img report (encode_journal_entry example_entry) =
   (snd (apply_journal_entry img example_entry),
    report\<lparr>lr_journal_records_replayed := lr_journal_records_replayed report + 1\<rparr>)"
  using replay_entries [of "[example_entry]" default_store_limits img report "[]"] example_entry_ok
  by (simp add: replay_Nil)

lemma apply_example: "snd (apply_journal_entry empty_image example_entry) = demo_image"
  by (simp add: apply_journal_entry_def example_entry_def demo_image_def empty_image_def)

lemma length_example_entry: "length (encode_journal_entry example_entry) = 32"
proof -
  have "length (encode_journal_entry e) = 24 + length payload" if "encode_payload (je_body e) = Some payload" for e payload
    using that by (simp add: encode_journal_entry_def write_frame_header_def)
  from this [of example_entry] show ?thesis by (simp add: example_entry_def w_u64_def)
qed


text \<open>An append that succeeds is what a restart adds to the image; one that fails, at whatever call, leaves
  the image it would have found before or that image with the entry applied, and nothing else.\<close>

lemma file_append_durable:
  assumes posix: "posix_files os d" and ready: "store_ready d s w entries"
    and ok: "entry_ok (fs_limits s) (file_stamp s e)" and rec: "disk_recover d s w = Some img"
    and call: "file_append os s e w = (status, s', w')"
  shows "disk_recover d s' w' \<in> {Some img, Some (snd (apply_journal_entry img (file_stamp s e)))}"
    "status = StatusCode.Ok \<Longrightarrow>
       disk_recover d s' w' = Some (snd (apply_journal_entry img (file_stamp s e))) \<and>
       store_ready d s' w' (entries @ [file_stamp s e])"
proof -
  let ?frame = "encode_journal_entry (file_stamp s e)"
  note a = file_append_disk [OF posix ready call]
  then obtain n where n: "n \<le> length ?frame" "node_at d w' = (node_at d w)(journal_path s \<mapsto>
      Regular (concat (map encode_journal_entry entries) @ take n ?frame))"
    "status = StatusCode.Ok \<longrightarrow> n = length ?frame" by blast
  have entries: "\<forall>x \<in> set entries. entry_ok (fs_limits s) x"
    "file_bytes (node_at d w (journal_path s)) = concat (map encode_journal_entry entries)"
    using ready by (auto simp: store_ready_def)
  obtain base where base: "stored_snapshot (fs_limits s) (node_at d w (snapshot_path s)) = Some base"
    "img = apply_all base entries"
    using rec disk_recover_entries [OF entries] by auto
  have "disk_recover d s' w' = disk_recover d s w'" using a by (simp add: same_store_paths)
  also have "\<dots> = Some (if n = length ?frame then snd (apply_journal_entry img (file_stamp s e)) else img)"
    using replay_tail [OF entries(1) ok n(1), of base] base n(2) by (simp add: disk_recover_def)
  finally show "disk_recover d s' w' \<in> {Some img, Some (snd (apply_journal_entry img (file_stamp s e)))}"
    "status = StatusCode.Ok \<Longrightarrow>
       disk_recover d s' w' = Some (snd (apply_journal_entry img (file_stamp s e))) \<and>
       store_ready d s' w' (entries @ [file_stamp s e])"
    using n(3) file_append_ready [OF posix ready ok] call by auto
qed


text \<open>The store of the example, opened: one entry in the journal and the handle on it.\<close>

definition ready_store :: FileDurableStore where
  "ready_store = demo_file_store
     \<lparr>fs_journal := Some \<lparr>fh_handle = 1, fh_size = 32\<rparr>, fs_opened := True, fs_next_sequence := 2\<rparr>"

lemma ready_store_simps [simp]:
  "journal_path ready_store = journal_path demo_file_store" "snapshot_path ready_store = snapshot_path demo_file_store"
  "fs_limits ready_store = default_store_limits" "fs_opened ready_store"
  "fs_journal ready_store = Some \<lparr>fh_handle = 1, fh_size = 32\<rparr>" "fs_next_sequence ready_store = 2"
  by (simp_all add: ready_store_def journal_path_def snapshot_path_def demo_file_store_def new_file_store_def)

lemma demo_ready: "store_ready ram_disk ready_store demo_ram [example_entry]"
  using example_entry_ok
  by (simp add: store_ready_def handle_valid_def demo_ram_files not_open_def ram_path_def)
    (simp add: demo_ram_def demo_paths)

lemma demo_recover: "disk_recover ram_disk ready_store demo_ram = Some demo_image"
  by (simp add: disk_recover_def demo_ram_files replay_example apply_example)

lemma demo_image_ok:
  "image_ok demo_image" "length (encode_snapshot demo_image) = 144" "record_count demo_image = 0"
  by (simp_all add: image_ok_def map_ok_def demo_image_def empty_image_def Let_def record_count_def
      encode_snapshot_def snapshot_header_eq length_sha256_digest encode_image_payload_def
      w_collection_def w_u64_def sm_values_def)

text \<open>One write, all of it or torn.\<close>

lemma ram_write_all:
  assumes "ram_faults w = []" "ram_path w fd = Some p" "data \<noteq> []" "length data \<le> kMaxTransferChunk"
  shows "write_loop ram_os fd data w = (StatusCode.Ok, length data,
    w\<lparr>ram_files := (ram_files w)(p \<mapsto> Regular (file_bytes (ram_files w p) @ data))\<rparr>)"
  using assms by (simp add: write_loop.simps ram_write_def)

lemma ram_write_torn:
  assumes "ram_faults w = [k, 0]" "ram_path w fd = Some p" "0 < k" "k < length data" "length data \<le> kMaxTransferChunk"
  shows "write_loop ram_os fd data w = (StatusCode.PersistenceFailure, k,
    w\<lparr>ram_faults := [], ram_files := (ram_files w)(p \<mapsto> Regular (file_bytes (ram_files w p) @ take k data))\<rparr>)"
proof -
  have "data \<noteq> []" using assms(4) by auto
  then show ?thesis using assms by (simp add: write_loop.simps ram_write_def ram_path_def min_absorb1)
qed

lemma ram_open_append_ok:
  assumes "ram_files w p \<noteq> Some Directory"
  shows "open_append ram_os p w =
    (Inr \<lparr>fh_handle = ram_fresh w, fh_size = of_nat (length (file_bytes (ram_files w p)))\<rparr>,
     w\<lparr>ram_files := (ram_files w)(p \<mapsto> Regular (file_bytes (ram_files w p))),
       ram_open := (ram_fresh w, Some p) # ram_open w\<rparr>)"
  using assms by (simp add: open_append_def ram_open_append_def ram_fstat_def ram_path_def ram_stat_def)

lemma ram_fresh_pos [simp]: "0 < ram_fresh w"
  by (simp add: ram_fresh_def)

lemmas ram_handle = handle_write_def handle_flush_def handle_close_def handle_valid_def ram_close_def
  remove_file_def ram_remove_def

lemma ram_write_sibling:
  assumes "ram_files w p = None" "data \<noteq> []" "length data \<le> kMaxTransferChunk"
  shows "ram_faults w = [] \<Longrightarrow> \<exists>opened. write_sibling ram_os p data w =
      (StatusCode.Ok, w\<lparr>ram_files := (ram_files w)(p \<mapsto> Regular data), ram_open := opened\<rparr>)"
    "ram_faults w = [k, 0] \<Longrightarrow> 0 < k \<Longrightarrow> k < length data \<Longrightarrow>
      \<exists>w'. write_sibling ram_os p data w = (StatusCode.PersistenceFailure, w')"
  using assms
  by (auto simp: write_sibling_def ram_open_append_ok ram_handle ram_write_all [where p = p]
      ram_write_torn [where p = p] ram_path_def)

lemma ram_sync_directory:
  obtains opened reading where "sync_directory ram_os p w = w\<lparr>ram_open := opened, ram_reading := reading\<rparr>"
proof -
  let ?dir = "if parent_path p = [] then ''.'' else parent_path p"
  show thesis
  proof (cases "ram_files w ?dir")
    case None
    then have "sync_directory ram_os p w = w\<lparr>ram_open := ram_open w, ram_reading := ram_reading w\<rparr>"
      by (simp add: sync_directory_def Let_def ram_open_read_def)
    then show thesis by (rule that)
  next
    case (Some x)
    then have "sync_directory ram_os p w = w\<lparr>ram_open := (ram_fresh w, None) # ram_open w,
        ram_reading := (ram_fresh w, ?dir, file_bytes (ram_files w ?dir)) # ram_reading w\<rparr>"
      by (simp add: sync_directory_def Let_def ram_open_read_def ram_close_def)
    then show thesis by (rule that)
  qed
qed

lemma ram_replace:
  assumes "ram_files w (unique_sibling pid n p) = None" "data \<noteq> []" "length data \<le> kMaxTransferChunk"
  shows "ram_faults w = [] \<Longrightarrow> \<exists>opened reading. atomic_replace_file ram_os pid n p data w =
      (StatusCode.Ok, w\<lparr>ram_files := (ram_files w)(unique_sibling pid n p := None, p \<mapsto> Regular data),
        ram_open := opened, ram_reading := reading\<rparr>)"
    "ram_faults w = [k, 0] \<Longrightarrow> 0 < k \<Longrightarrow> k < length data \<Longrightarrow>
      \<exists>w'. atomic_replace_file ram_os pid n p data w = (StatusCode.PersistenceFailure, w')"
proof -
  assume "ram_faults w = []"
  from ram_write_sibling(1) [OF assms this] obtain opened where
    "write_sibling ram_os (unique_sibling pid n p) data w =
      (StatusCode.Ok, w\<lparr>ram_files := (ram_files w)(unique_sibling pid n p \<mapsto> Regular data), ram_open := opened\<rparr>)" ..
  moreover obtain opened' reading where "sync_directory ram_os p
      (snd (ram_rename (unique_sibling pid n p) p
        (w\<lparr>ram_files := (ram_files w)(unique_sibling pid n p \<mapsto> Regular data), ram_open := opened\<rparr>))) =
      (snd (ram_rename (unique_sibling pid n p) p
        (w\<lparr>ram_files := (ram_files w)(unique_sibling pid n p \<mapsto> Regular data), ram_open := opened\<rparr>)))
        \<lparr>ram_open := opened', ram_reading := reading\<rparr>" by (rule ram_sync_directory)
  ultimately show "\<exists>opened reading. atomic_replace_file ram_os pid n p data w =
      (StatusCode.Ok, w\<lparr>ram_files := (ram_files w)(unique_sibling pid n p := None, p \<mapsto> Regular data),
        ram_open := opened, ram_reading := reading\<rparr>)"
    by (intro exI [of _ opened'] exI [of _ reading]) (simp add: atomic_replace_file_def ram_rename_def)
next
  assume "ram_faults w = [k, 0]" "0 < k" "k < length data"
  from ram_write_sibling(2) [OF assms this] show
    "\<exists>w'. atomic_replace_file ram_os pid n p data w = (StatusCode.PersistenceFailure, w')"
    by (auto simp: atomic_replace_file_def)
qed

lemma ram_rotate:
  assumes "ram_files w p = Some x" and "p \<noteq> q"
  obtains opened where "rotate_file ram_os p q w =
    (StatusCode.Ok, w\<lparr>ram_files := (ram_files w)(q := None, p := None, q := Some x), ram_open := opened\<rparr>)"
  using assms by (auto simp: rotate_file_def path_exists_def ram_remove_def ram_rename_def)

lemma ram_compact:
  assumes s: "fs_opened s" "fs_journal s = Some h" "handle_valid h"
    and w: "ram_files w (journal_path s) = Some (Regular old)"
      "ram_files w (unique_sibling pid n (snapshot_path s)) = None"
    and data: "encode_snapshot img \<noteq> []" "length (encode_snapshot img) \<le> kMaxTransferChunk"
  shows "ram_faults w = [] \<Longrightarrow> \<exists>s' w'. file_compact ram_os pid n s img w = (StatusCode.Ok, s', w')"
    "ram_faults w = [k, 0] \<Longrightarrow> 0 < k \<Longrightarrow> k < length (encode_snapshot img) \<Longrightarrow>
     \<exists>s' w'. file_compact ram_os pid n s img w = (StatusCode.PersistenceFailure, s', w')"
proof -
  define w1 where "w1 = w\<lparr>ram_open := (fh_handle h, None) # ram_open w\<rparr>"
  have c: "handle_close ram_os h w = (StatusCode.Ok, reset_handle, w1)"
    using s(3) by (simp add: handle_close_def ram_close_def w1_def)
  have f: "ram_files w1 = ram_files w" "ram_faults w1 = ram_faults w" by (simp_all add: w1_def)
  note replace = ram_replace [of w1 pid n "snapshot_path s", unfolded f, OF w(2) data]
  {
    assume "ram_faults w = []"
    from replace(1) [OF this] obtain opened reading where r:
      "atomic_replace_file ram_os pid n (snapshot_path s) (encode_snapshot img) w1 = (StatusCode.Ok,
        w1\<lparr>ram_files := (ram_files w)(unique_sibling pid n (snapshot_path s) := None,
            snapshot_path s \<mapsto> Regular (encode_snapshot img)), ram_open := opened, ram_reading := reading\<rparr>)"
      (is "_ = (_, ?w2)") by blast
    have "ram_files ?w2 (journal_path s) = Some (Regular old)" using w(1) by simp
    then obtain w3 where w3: "rotate_file ram_os (journal_path s) (compacted_path s) ?w2 = (StatusCode.Ok, w3)"
      "ram_files w3 (journal_path s) = None"
      by (rule ram_rotate [where q = "compacted_path s"]) auto
    show "\<exists>s' w'. file_compact ram_os pid n s img w = (StatusCode.Ok, s', w')"
      using s(1,2) c r w3 by (simp add: file_compact_def remove_file_def ram_remove_def ram_open_append_ok)
  next
    assume "ram_faults w = [k, 0]" "0 < k" "k < length (encode_snapshot img)"
    from replace(2) [OF this] show "\<exists>s' w'. file_compact ram_os pid n s img w = (StatusCode.PersistenceFailure, s', w')"
      using s(1,2) c by (auto simp: file_compact_def Let_def split: prod.splits sum.splits)
  }
qed


section \<open>Where the store does not do what it means to\<close>

text \<open>A record that lost all but its first byte hides every record behind it: its magic and that of the
  next record overlap.\<close>

lemma magic_bytes:
  "store_u32 kJournalRecordMagic = [0x31, 0x4A, 0x46, 0x43]" "store_u32 kSnapshotMagic = [0x31, 0x53, 0x46, 0x43]"
  by (simp_all add: store_u32_def kJournalRecordMagic_def kSnapshotMagic_def upt_rec)

lemma load_four: "load_u32 (a # b # c # e # rest) 0 =
    ucast a OR push_bit 8 (ucast b) OR push_bit 16 (ucast c) OR push_bit 24 (ucast e)"
  by (simp add: load_u32_def upt_rec or.assoc)

lemma encoded_entry:
  assumes "entry_ok limits e"
  obtains rest where "encode_journal_entry e = 0x31 # 0x4A # 0x46 # 0x43 # rest" "20 \<le> length rest"
proof -
  obtain payload where "encode_payload (je_body e) = Some payload"
    using entry_frame [OF assms] by metis
  then have "encode_journal_entry e = store_u32 kJournalRecordMagic @
      (store_u16 kJournalFormatVersion @ store_u16 (journal_kind_to_u16 (je_body e)) @ store_u64 (je_sequence e) @
       store_u32 (of_nat (length payload)) @ store_u32 (crc32c_seed 0 payload)) @ payload"
    (is "_ = _ @ ?rest @ _")
    by (simp add: encode_journal_entry_def write_frame_header_def)
  then show thesis using that [of "?rest @ payload"] by (simp add: magic_bytes)
qed

lemma torn_byte_hides_next:
  assumes "entry_ok limits e" and "entry_ok limits e'"
  shows "fst (replay limits img report (take 1 (encode_journal_entry e) @ encode_journal_entry e')) = img"
proof -
  obtain rest where r: "encode_journal_entry e' = 0x31 # 0x4A # 0x46 # 0x43 # rest" by (rule encoded_entry [OF assms(2)])
  let ?data = "0x31 # 0x31 # 0x4A # 0x46 # 0x43 # rest"
  have data: "take 1 (encode_journal_entry e) @ encode_journal_entry e' = ?data"
    using r by (auto intro: encoded_entry [OF assms(1)])
  have "\<exists>code. decode_journal_entry (take n ?data) limits = Inl code" if n: "kJournalHeaderSize \<le> n" for n
  proof -
    obtain m where "n = Suc (Suc (Suc (Suc m)))" using n by (auto simp: kJournalHeaderSize_def dest!: le_Suc_ex)
    then have "load_u32 (take n ?data) 0 \<noteq> kJournalRecordMagic"
      by (simp add: load_four kJournalRecordMagic_def push_bit_eq_mult)
    then show ?thesis by (auto simp: decode_journal_entry_def)
  qed
  then obtain code where
    "decode_journal_entry (take (kJournalHeaderSize + unat (load_u32 ?data 16)) ?data) limits = Inl code"
    by (meson le_add1)
  then show ?thesis unfolding data by (subst replay.simps) (auto simp: Let_def)
qed

text \<open>Nothing removes the first byte of a record whose append failed.  The next append succeeds and is
  reported durable, and a restart does not find it.\<close>

definition lost_entry :: JournalEntry where
  "lost_entry = \<lparr>je_sequence = 3, je_body = SetEpoch 9\<rparr>"

lemma epoch_entry_ok: "sq \<noteq> 0 \<Longrightarrow> entry_ok default_store_limits \<lparr>je_sequence = sq, je_body = SetEpoch k\<rparr>"
  by (simp add: entry_ok_def body_ok_def default_store_limits_def w_u64_def)

lemma length_epoch_entry: "length (encode_journal_entry \<lparr>je_sequence = sq, je_body = SetEpoch k\<rparr>) = 32"
  by (simp add: encode_journal_entry_def write_frame_header_def w_u64_def)

lemma append_after_torn_write_is_lost:
  "\<exists>s1 w1 s2 w2.
     file_append ram_os ready_store \<lparr>je_sequence = 2, je_body = SetEpoch 8\<rparr> (demo_ram\<lparr>ram_faults := [1, 0]\<rparr>) =
       (StatusCode.PersistenceFailure, s1, w1) \<and>
     file_append ram_os s1 lost_entry w1 = (StatusCode.Ok, s2, w2) \<and>
     disk_recover ram_disk s2 w2 = Some demo_image \<and>
     img_epoch (snd (apply_journal_entry demo_image lost_entry)) = 9 \<and> img_epoch demo_image = 7"
proof -
  let ?torn = "\<lparr>je_sequence = 2, je_body = SetEpoch 8\<rparr>" and ?J = "journal_path demo_file_store"
  let ?F0 = "encode_journal_entry example_entry" and ?F1 = "encode_journal_entry ?torn"
    and ?F2 = "encode_journal_entry lost_entry"
  have len: "length ?F1 = 32" "length ?F2 = 32" by (simp_all add: length_epoch_entry lost_entry_def)
  have ne: "?F1 \<noteq> []" "?F2 \<noteq> []" "length ?F1 \<le> kMaxTransferChunk" "length ?F2 \<le> kMaxTransferChunk"
    using len by (auto simp: kMaxTransferChunk_def)
  define w1 where "w1 = demo_ram\<lparr>ram_faults := [], ram_files := (ram_files demo_ram)(?J \<mapsto> Regular (?F0 @ take 1 ?F1))\<rparr>"
  define s1 where "s1 = ready_store\<lparr>fs_next_sequence := 3, fs_journal := Some \<lparr>fh_handle = 1, fh_size = 33\<rparr>\<rparr>"
  define w2 where "w2 = w1\<lparr>ram_files := (ram_files w1)(?J \<mapsto> Regular ((?F0 @ take 1 ?F1) @ ?F2))\<rparr>"
  have path: "ram_path (demo_ram\<lparr>ram_faults := f\<rparr>) 1 = Some ?J" "ram_path w1 1 = Some ?J" for f
    by (simp_all add: ram_path_def w1_def demo_ram_def)
  have a1: "file_append ram_os ready_store ?torn (demo_ram\<lparr>ram_faults := [1, 0]\<rparr>) =
      (StatusCode.PersistenceFailure, s1, w1)"
    using ne len ram_write_torn [OF _ path(1) _ _ ne(3), of "[1, 0]" 1]
    by (simp add: file_append_def handle_write_def handle_valid_def file_stamp_def next_after_def s1_def w1_def
        demo_ram_files)
  have a2: "\<exists>s2. file_append ram_os s1 lost_entry w1 = (StatusCode.Ok, s2, w2) \<and> same_store ready_store s2"
    using ne ram_write_all [OF _ path(2) ne(2,4)]
    by (simp add: file_append_def handle_write_def handle_flush_def handle_valid_def file_stamp_def s1_def w2_def
        w1_def same_store_def lost_entry_def Let_def)
  have "fst (replay default_store_limits empty_image empty_load_report (?F0 @ take 1 ?F1 @ ?F2)) = demo_image"
    using replay_entries [of "[example_entry]" default_store_limits empty_image empty_load_report "take 1 ?F1 @ ?F2"]
      example_entry_ok torn_byte_hides_next [OF epoch_entry_ok [of 2 8] epoch_entry_ok [of 3 9]]
    by (simp add: apply_example lost_entry_def)
  then have "disk_recover ram_disk ready_store w2 = Some demo_image"
    by (simp add: disk_recover_def w2_def w1_def demo_ram_files)
  then show ?thesis
    using a1 a2 same_store_paths(3) [of ready_store _ ram_disk w2]
    by (auto simp: demo_image_def lost_entry_def apply_journal_entry_def empty_image_def)
qed

section \<open>A sibling left behind\<close>

lemma encoded_snapshot: obtains rest where "encode_snapshot img = 0x31 # 0x53 # 0x46 # 0x43 # rest" "60 \<le> length rest"
  using that by (simp add: encode_snapshot_def Let_def snapshot_header_eq snapshot_prefix_def magic_bytes length_sha256_digest)

text \<open>The sibling is opened for append and never truncated.  A crash in the middle of a compaction leaves
  one; when a later process has the same process id, as the first process of a container does, and its
  counter starts again at zero, the new snapshot is written behind the remains of the old one, the
  replacement succeeds, and no restart accepts the snapshot.\<close>

lemma stale_sibling_spoils_snapshot:
  assumes "posix_files os d" and "not_open d w (unique_sibling pid n p)" "not_open d w p"
    and "node_at d w (unique_sibling pid n p) = Some (Regular (take 1 (encode_snapshot old)))"
    and "atomic_replace_file os pid n p (encode_snapshot img) w = (StatusCode.Ok, w')"
  shows "stored_snapshot limits (node_at d w' p) = None"
proof -
  obtain rest where r: "encode_snapshot img = 0x31 # 0x53 # 0x46 # 0x43 # rest" by (rule encoded_snapshot)
  have "node_at d w' p = Some (Regular (0x31 # 0x31 # 0x53 # 0x46 # 0x43 # rest))"
    using atomic_replace_disk(1) [OF assms(1,5,2,3)] assms(4) r by (auto intro: encoded_snapshot [of old])
  moreover have "load_u32 (0x31 # 0x31 # 0x53 # 0x46 # 0x43 # rest) 0 \<noteq> kSnapshotMagic"
    by (simp add: load_four kSnapshotMagic_def push_bit_eq_mult)
  ultimately show ?thesis by (simp add: decode_snapshot_def)
qed

text \<open>A successful open that happens to get descriptor zero gives a handle the class takes for closed.\<close>

lemma descriptor_zero_is_closed:
  "sys_open_append os p w = (Some 0, w') \<Longrightarrow> sys_fstat os 0 w' = Some (False, k) \<Longrightarrow>
   \<exists>h. open_append os p w = (Inr h, w') \<and> handle_write os h data w' = (StatusCode.PersistenceFailure, h, w')"
  by (simp add: open_append_def handle_write_def handle_valid_def)

end
