(* ===== verification/Region_Store.thy ===== *)
theory Region_Store
  imports Model
begin

text \<open>
  The byte backing of a participant's replicas (\<^verbatim>\<open>src/adapters/region_store.cpp\<close>) and the deterministic
  generator it fills them from (\<open>DeterministicRandom\<close> of \<^verbatim>\<open>src/bytes.cpp\<close>).  A region's bytes live in a
  vector of the process or in a shared mapping.  The shared memory of the operating system is a
  parameter, in the POSIX branch of \<open>SharedSegment::open\<close>; so is the address the allocator gives a vector,
  which the store only compares and reports.  An access outside the span that holds the bytes is
  undefined behaviour in the source and the result \<open>None\<close> here.
\<close>

unbundle bit_operations_syntax

section \<open>The deterministic generator\<close>

record DeterministicRandom =
  rng_0 :: u64
  rng_1 :: u64
  rng_2 :: u64
  rng_3 :: u64

definition splitmix :: "u64 \<Rightarrow> u64" where
  "splitmix x =
     (let z = (x XOR drop_bit 30 x) * 0xBF58476D1CE4E5B9;
          z = (z XOR drop_bit 27 z) * 0x94D049BB133111EB
      in z XOR drop_bit 31 z)"

definition seed_random :: "u64 \<Rightarrow> DeterministicRandom" where
  "seed_random seed =
     (let step = 0x9E3779B97F4A7C15;
          a = splitmix (seed + step); b = splitmix (seed + 2 * step);
          c = splitmix (seed + 3 * step); d = splitmix (seed + 4 * step)
      in \<lparr>rng_0 = (if a OR b OR c OR d = 0 then step else a), rng_1 = b, rng_2 = c, rng_3 = d\<rparr>)"

definition next_u64 :: "DeterministicRandom \<Rightarrow> u64 \<times> DeterministicRandom" where
  "next_u64 g =
     (let result = push_bit 7 (rng_1 g * 5) OR drop_bit 57 (rng_1 g * 5);
          t = push_bit 17 (rng_1 g);
          s2 = rng_2 g XOR rng_0 g; s3 = rng_3 g XOR rng_1 g;
          s1 = rng_1 g XOR s2; s0 = rng_0 g XOR s3
      in (result, \<lparr>rng_0 = s0, rng_1 = s1, rng_2 = s2 XOR t, rng_3 = push_bit 45 s3 OR drop_bit 19 s3\<rparr>))"

definition next_u32 :: "DeterministicRandom \<Rightarrow> u32 \<times> DeterministicRandom" where
  "next_u32 g = (let (r, g) = next_u64 g in (ucast (drop_bit 32 r), g))"

text \<open>The rejection loop: \<open>None\<close> is a generator that never reaches the threshold.\<close>

partial_function (option) draw_above :: "u64 \<Rightarrow> DeterministicRandom \<Rightarrow> (u64 \<times> DeterministicRandom) option" where
  "draw_above threshold g =
     (let (r, g) = next_u64 g in if r \<ge> threshold then Some (r, g) else draw_above threshold g)"

definition next_below :: "u64 \<Rightarrow> DeterministicRandom \<Rightarrow> (u64 \<times> DeterministicRandom) option" where
  "next_below bound g =
     (if bound \<le> 1 then Some (0, g)
      else case draw_above ((NOT bound + 1) mod bound) g of
          None \<Rightarrow> None
        | Some (r, g) \<Rightarrow> Some (r mod bound, g))"

fun random_bytes :: "nat \<Rightarrow> DeterministicRandom \<Rightarrow> bytes" where
  "random_bytes 0 g = []"
| "random_bytes (Suc n) g = (let (r, g) = next_u32 g in ucast (r AND 0xFF) # random_bytes n g)"

definition pattern_seed :: "u64 \<Rightarrow> u64" where
  "pattern_seed seed = (if seed = 0 then 0x9E3779B97F4A7C15 else seed)"

definition make_pattern :: "u64 \<Rightarrow> u64 \<Rightarrow> bytes" where
  "make_pattern len seed = random_bytes (unat len) (seed_random (pattern_seed seed))"

section \<open>Shared segments\<close>

text \<open>The calls on shared memory, and the access through an address at which a segment is mapped.\<close>

record 'm shm_calls =
  shm_open :: "string \<Rightarrow> bool \<Rightarrow> 'm \<Rightarrow> nat option \<times> 'm"
  shm_truncate :: "nat \<Rightarrow> u64 \<Rightarrow> 'm \<Rightarrow> bool \<times> 'm"
  shm_map :: "nat \<Rightarrow> u64 \<Rightarrow> 'm \<Rightarrow> u64 option \<times> 'm"
  shm_unlink :: "string \<Rightarrow> 'm \<Rightarrow> 'm"
  shm_close :: "nat \<Rightarrow> 'm \<Rightarrow> 'm"
  shm_load :: "u64 \<Rightarrow> nat \<Rightarrow> nat \<Rightarrow> 'm \<Rightarrow> bytes"
  shm_store :: "u64 \<Rightarrow> nat \<Rightarrow> bytes \<Rightarrow> 'm \<Rightarrow> 'm"

record SharedSegment =
  seg_handle :: nat
  seg_base :: u64
  seg_length :: u64
  seg_name :: string

definition open_segment ::
  "'m shm_calls \<Rightarrow> string \<Rightarrow> u64 \<Rightarrow> bool \<Rightarrow> 'm \<Rightarrow> SharedSegment Result \<times> 'm" where
  "open_segment shm name len create m =
     (if name = [] then (Inl StatusCode.InvalidArgument, m)
      else if len = 0 then (Inl StatusCode.InvalidArgument, m)
      else case shm_open shm name create m of
          (None, m) \<Rightarrow> (Inl StatusCode.ResourceExhausted, m)
        | (Some fd, m) \<Rightarrow>
            (case (if create then shm_truncate shm fd len m else (True, m)) of
               (False, m) \<Rightarrow>
                 (Inl StatusCode.ResourceExhausted, shm_unlink shm name (shm_close shm fd m))
             | (True, m) \<Rightarrow>
                 (case shm_map shm fd len m of
                    (None, m) \<Rightarrow> (Inl StatusCode.ResourceExhausted, shm_close shm fd m)
                  | (Some base, m) \<Rightarrow>
                      (Inr \<lparr>seg_handle = fd, seg_base = base, seg_length = len, seg_name = name\<rparr>,
                       if create then shm_store shm base 0 (replicate (unat len) 0) m else m))))"

section \<open>Stored regions\<close>

datatype RegionBacking = HostHeap | SharedMapping | Synthetic | DeviceLocal

record StoredRegion =
  sr_id :: RegionId
  sr_name :: string
  sr_memory_domain :: MemoryDomain
  sr_evidence_class :: EvidenceClass
  sr_backing :: RegionBacking
  sr_length :: u64
  sr_host :: bytes
  sr_shared :: "SharedSegment option"
  sr_address_hint :: u64
  sr_device_adapter :: string

definition default_stored_region :: StoredRegion where
  "default_stored_region =
     \<lparr>sr_id = 0, sr_name = [], sr_memory_domain = MemoryDomain.HostPageable,
      sr_evidence_class = EvidenceClass.Real, sr_backing = RegionBacking.HostHeap, sr_length = 0,
      sr_host = [], sr_shared = None, sr_address_hint = 0, sr_device_adapter = []\<rparr>"

text \<open>The span \<open>bytes()\<close> gives: its size, what it holds, and a write into it.\<close>

definition span_size :: "StoredRegion \<Rightarrow> nat" where
  "span_size r = (case sr_shared r of Some seg \<Rightarrow> unat (sr_length r) | None \<Rightarrow> length (sr_host r))"

definition region_bytes :: "'m shm_calls \<Rightarrow> StoredRegion \<Rightarrow> 'm \<Rightarrow> bytes" where
  "region_bytes shm r m =
     (case sr_shared r of
        Some seg \<Rightarrow> shm_load shm (seg_base seg) 0 (unat (sr_length r)) m
      | None \<Rightarrow> sr_host r)"

definition write_span ::
  "'m shm_calls \<Rightarrow> StoredRegion \<Rightarrow> nat \<Rightarrow> bytes \<Rightarrow> 'm \<Rightarrow> (StoredRegion \<times> 'm) option" where
  "write_span shm r offset data m =
     (if offset + length data > span_size r then None
      else case sr_shared r of
          Some seg \<Rightarrow> Some (r, shm_store shm (seg_base seg) offset data m)
        | None \<Rightarrow> Some (r\<lparr>sr_host := store_at (sr_host r) offset data\<rparr>, m))"

text \<open>The pointer of the span: a vector keeps its buffer when it is moved into the map, and an empty one
  has none.\<close>

definition data_pointer :: "StoredRegion \<Rightarrow> u64" where
  "data_pointer r =
     (case sr_shared r of
        Some seg \<Rightarrow> seg_base seg
      | None \<Rightarrow> if sr_host r = [] then 0 else sr_address_hint r)"

section \<open>The store\<close>

record RegionStore =
  rs_regions :: "(RegionId, StoredRegion) std_map"
  rs_next_id :: u64

definition new_region_store :: RegionStore where
  "new_region_store = \<lparr>rs_regions = [], rs_next_id = 1\<rparr>"

definition next_local_id :: "RegionStore \<Rightarrow> RegionId \<times> RegionStore" where
  "next_local_id s = (rs_next_id s, s\<lparr>rs_next_id := rs_next_id s + 1\<rparr>)"

definition emplace_region :: "StoredRegion \<Rightarrow> RegionStore \<Rightarrow> RegionStore" where
  "emplace_region r s = s\<lparr>rs_regions := sm_emplace (sr_id r) r (rs_regions s)\<rparr>"

text \<open>\<open>address\<close> is where the allocator put the buffer.\<close>

definition add_host_region ::
  "u64 \<Rightarrow> string \<Rightarrow> u64 \<Rightarrow> MemoryDomain \<Rightarrow> u64 \<Rightarrow> RegionId \<Rightarrow> RegionStore \<Rightarrow> RegionId Result \<times> RegionStore" where
  "add_host_region address name len mdomain seed requested s =
     (if len = 0 then (Inl StatusCode.InvalidArgument, s)
      else let (rid, s) = (if is_defined requested then (requested, s) else next_local_id s);
               s = (if is_defined requested \<and> requested \<ge> rs_next_id s
                    then s\<lparr>rs_next_id := requested + 1\<rparr> else s)
      in if map_of (rs_regions s) rid \<noteq> None then (Inl StatusCode.DuplicateIdentity, s)
         else (Inr rid, emplace_region
           (default_stored_region
              \<lparr>sr_id := rid, sr_name := name, sr_memory_domain := mdomain,
               sr_evidence_class := EvidenceClass.Real, sr_backing := RegionBacking.HostHeap,
               sr_length := len, sr_host := make_pattern len seed, sr_address_hint := address\<rparr>) s))"

definition add_shared_region ::
  "'m shm_calls \<Rightarrow> string \<Rightarrow> string \<Rightarrow> u64 \<Rightarrow> bool \<Rightarrow> RegionStore \<Rightarrow> 'm \<Rightarrow> RegionId Result \<times> RegionStore \<times> 'm" where
  "add_shared_region shm name segment_name len create s m =
     (case open_segment shm segment_name len create m of
        (Inl code, m) \<Rightarrow> (Inl code, s, m)
      | (Inr seg, m) \<Rightarrow>
          let (rid, s) = next_local_id s
          in (Inr rid, emplace_region
                (default_stored_region
                   \<lparr>sr_id := rid, sr_name := name, sr_memory_domain := MemoryDomain.HostShared,
                    sr_evidence_class := EvidenceClass.Real, sr_backing := RegionBacking.SharedMapping,
                    sr_length := len, sr_shared := Some seg, sr_address_hint := seg_base seg\<rparr>) s, m))"

definition add_synthetic_cxl_region ::
  "u64 \<Rightarrow> string \<Rightarrow> u64 \<Rightarrow> u64 \<Rightarrow> RegionStore \<Rightarrow> RegionId Result \<times> RegionStore" where
  "add_synthetic_cxl_region address name len seed s =
     (case add_host_region address name len MemoryDomain.CxlClass seed 0 s of
        (Inl code, s) \<Rightarrow> (Inl code, s)
      | (Inr rid, s) \<Rightarrow>
          (Inr rid, s\<lparr>rs_regions := sm_update rid
             (\<lambda>r. r\<lparr>sr_evidence_class := EvidenceClass.Synthetic, sr_backing := RegionBacking.Synthetic\<rparr>)
             (rs_regions s)\<rparr>))"

definition attach_device_region ::
  "string \<Rightarrow> string \<Rightarrow> MemoryDomain \<Rightarrow> EvidenceClass \<Rightarrow> u64 \<Rightarrow> u64 \<Rightarrow> RegionStore \<Rightarrow> RegionId Result \<times> RegionStore" where
  "attach_device_region name adapter mdomain evidence len address s =
     (let (rid, s) = next_local_id s
      in (Inr rid, emplace_region
            (default_stored_region
               \<lparr>sr_id := rid, sr_name := name, sr_memory_domain := mdomain, sr_evidence_class := evidence,
                sr_backing := RegionBacking.DeviceLocal, sr_length := len, sr_address_hint := address,
                sr_device_adapter := adapter\<rparr>) s))"

definition find_region :: "RegionStore \<Rightarrow> RegionId \<Rightarrow> StoredRegion option" where
  "find_region s rid = map_of (rs_regions s) rid"

definition region_ids :: "RegionStore \<Rightarrow> RegionId list" where
  "region_ids s = sm_keys (rs_regions s)"

definition put_region :: "StoredRegion \<Rightarrow> RegionStore \<Rightarrow> RegionStore" where
  "put_region r s = s\<lparr>rs_regions := sm_put (sr_id r) r (rs_regions s)\<rparr>"

definition write_region ::
  "'m shm_calls \<Rightarrow> StoredRegion \<Rightarrow> nat \<Rightarrow> bytes \<Rightarrow> RegionStore \<Rightarrow> 'm \<Rightarrow> (StatusCode \<times> RegionStore \<times> 'm) option" where
  "write_region shm r offset data s m =
     (case write_span shm r offset data m of
        None \<Rightarrow> None
      | Some (r, m) \<Rightarrow> Some (StatusCode.Ok, put_region r s, m))"

definition fill_region ::
  "'m shm_calls \<Rightarrow> RegionId \<Rightarrow> u64 \<Rightarrow> u64 \<Rightarrow> u64 \<Rightarrow> RegionStore \<Rightarrow> 'm \<Rightarrow> (StatusCode \<times> RegionStore \<times> 'm) option" where
  "fill_region shm rid seed offset len s m =
     (case find_region s rid of
        None \<Rightarrow> Some (StatusCode.UnknownRegion, s, m)
      | Some r \<Rightarrow>
          let effective = (if len = 0 then sr_length r else len)
          in if \<not> checked_range offset effective (sr_length r) then Some (StatusCode.InvalidArgument, s, m)
             else write_region shm r (unat offset) (make_pattern effective seed) s m)"

definition poke_region ::
  "'m shm_calls \<Rightarrow> RegionId \<Rightarrow> u64 \<Rightarrow> u8 \<Rightarrow> u64 \<Rightarrow> RegionStore \<Rightarrow> 'm \<Rightarrow> (StatusCode \<times> RegionStore \<times> 'm) option" where
  "poke_region shm rid offset byte count s m =
     (case find_region s rid of
        None \<Rightarrow> Some (StatusCode.UnknownRegion, s, m)
      | Some r \<Rightarrow>
          if \<not> checked_range offset count (sr_length r) then Some (StatusCode.InvalidArgument, s, m)
          else write_region shm r (unat offset) (replicate (unat count) byte) s m)"

definition region_fingerprint :: "'m shm_calls \<Rightarrow> RegionId \<Rightarrow> RegionStore \<Rightarrow> 'm \<Rightarrow> ContentFingerprint Result" where
  "region_fingerprint shm rid s m =
     (case find_region s rid of
        None \<Rightarrow> Inl StatusCode.UnknownRegion
      | Some r \<Rightarrow> Inr (fingerprint_bytes (region_bytes shm r m)))"

definition copy_and_verify ::
  "'m shm_calls \<Rightarrow> RegionId \<Rightarrow> RegionId \<Rightarrow> RegionStore \<Rightarrow> 'm \<Rightarrow> (StatusCode \<times> RegionStore \<times> 'm) option" where
  "copy_and_verify shm source destination s m =
     (case find_region s source of
        None \<Rightarrow> Some (StatusCode.UnknownRegion, s, m)
      | Some from \<Rightarrow>
          (case find_region s destination of
             None \<Rightarrow> Some (StatusCode.UnknownRegion, s, m)
           | Some to \<Rightarrow>
               if sr_length from \<noteq> sr_length to then Some (StatusCode.InvalidArgument, s, m)
               else if data_pointer from = data_pointer to then Some (StatusCode.InvalidArgument, s, m)
               else if unat (sr_length from) > span_size from then None
               else case write_span shm to 0 (take (unat (sr_length from)) (region_bytes shm from m)) m of
                   None \<Rightarrow> None
                 | Some (to, m) \<Rightarrow>
                     let expected = fingerprint_bytes (region_bytes shm from m);
                         observed = fingerprint_bytes (region_bytes shm to m)
                     in Some (if fp_eq expected observed then StatusCode.Ok else StatusCode.ContentMismatch,
                              put_region to s, m)))"

section \<open>Spans and bounds\<close>

lemma length_random_bytes [simp]: "length (random_bytes n g) = n"
  by (induction n arbitrary: g) (simp_all add: split_beta)

lemma length_make_pattern [simp]: "length (make_pattern len seed) = unat len"
  by (simp add: make_pattern_def)

lemma length_store_at: "offset + length data \<le> length dst \<Longrightarrow> length (store_at dst offset data) = length dst"
  by (simp add: store_at_def)

lemma draw_above_ge: "draw_above threshold g = Some y \<Longrightarrow> threshold \<le> fst y"
  by (erule draw_above.raw_induct [where P = "\<lambda>threshold g y. threshold \<le> fst y", rotated])
    (auto split: if_splits prod.splits)

lemma next_below_bound:
  assumes "next_below bound g = Some (r, g')" and "bound \<noteq> 0"
  shows "r < bound"
proof (cases "bound \<le> 1")
  case True
  then show ?thesis using assms by (simp add: next_below_def word_neq_0_conv)
next
  case False
  then obtain x where "r = x mod bound"
    using assms(1) by (auto simp: next_below_def split: option.splits)
  moreover have "0 < unat bound" using assms(2) by (simp add: unat_gt_0)
  ultimately show ?thesis by (simp add: word_less_nat_alt unat_mod_distrib)
qed

text \<open>A region of the process has a vector of its length; only a device region has none.\<close>

definition region_backed :: "StoredRegion \<Rightarrow> bool" where
  "region_backed r \<longleftrightarrow>
     (sr_shared r = None \<longrightarrow> sr_backing r \<noteq> RegionBacking.DeviceLocal \<longrightarrow> length (sr_host r) = unat (sr_length r))"

definition store_wf :: "RegionStore \<Rightarrow> bool" where
  "store_wf s \<longleftrightarrow> sm_sorted (rs_regions s) \<and>
     (\<forall>k r. map_of (rs_regions s) k = Some r \<longrightarrow> sr_id r = k \<and> region_backed r)"

lemma store_wf_new: "store_wf new_region_store"
  by (simp add: store_wf_def new_region_store_def)

lemma store_wf_emplace: "store_wf s \<Longrightarrow> region_backed r \<Longrightarrow> store_wf (emplace_region r s)"
  by (auto simp: store_wf_def emplace_region_def sm_emplace_def sm_sorted_put split: option.splits if_splits)

lemma store_wf_next: "store_wf (s\<lparr>rs_next_id := k\<rparr>) = store_wf s"
  by (simp add: store_wf_def)

lemma store_wf_put: "store_wf s \<Longrightarrow> region_backed r \<Longrightarrow> store_wf (put_region r s)"
  by (auto simp: store_wf_def put_region_def sm_sorted_put)

lemma store_wf_add_host:
  "store_wf s \<Longrightarrow> store_wf (snd (add_host_region address name len mdomain seed requested s))"
  by (simp add: add_host_region_def Let_def next_local_id_def store_wf_next store_wf_emplace region_backed_def
      default_stored_region_def split: prod.splits)

lemma store_wf_add_shared:
  "store_wf s \<Longrightarrow> store_wf (fst (snd (add_shared_region shm name segment_name len create s m)))"
  by (auto simp: add_shared_region_def Let_def next_local_id_def store_wf_next store_wf_emplace region_backed_def
      default_stored_region_def split: prod.splits sum.splits)

lemma add_host_found:
  "add_host_region address name len mdomain seed requested s = (Inr rid, s') \<Longrightarrow>
   \<exists>r. map_of (rs_regions s') rid = Some r \<and> sr_backing r = RegionBacking.HostHeap"
  by (auto simp: add_host_region_def Let_def emplace_region_def default_stored_region_def
      split: prod.splits if_splits)

lemma store_wf_add_synthetic:
  assumes "store_wf s"
  shows "store_wf (snd (add_synthetic_cxl_region address name len seed s))"
proof -
  obtain r s' where a: "add_host_region address name len MemoryDomain.CxlClass seed 0 s = (r, s')" by fastforce
  then have "store_wf s'" using store_wf_add_host [OF assms, of address name len MemoryDomain.CxlClass seed 0] by simp
  then show ?thesis using a add_host_found [of address name len MemoryDomain.CxlClass seed 0 s]
    by (cases r) (fastforce simp: add_synthetic_cxl_region_def store_wf_def sm_update_def sm_sorted_put region_backed_def
        split: option.splits)+
qed

lemma store_wf_attach:
  "store_wf s \<Longrightarrow> store_wf (snd (attach_device_region name adapter mdomain evidence len address s))"
  by (simp add: attach_device_region_def Let_def next_local_id_def store_wf_next store_wf_emplace region_backed_def
      default_stored_region_def split: prod.splits)

lemma write_span_backed:
  assumes "write_span shm r offset data m = Some (r', m')" and "region_backed r"
  shows "region_backed r' \<and> sr_id r' = sr_id r"
  using assms by (auto simp: write_span_def region_backed_def span_size_def length_store_at split: if_splits option.splits)

lemma write_region_wf:
  assumes "write_region shm r offset data s m = Some (status, s', m')" and "store_wf s" and "region_backed r"
  shows "store_wf s' \<and> status = StatusCode.Ok"
proof -
  obtain r' where "write_span shm r offset data m = Some (r', m')" "s' = put_region r' s" "status = StatusCode.Ok"
    using assms(1) by (auto simp: write_region_def split: option.splits)
  then show ?thesis
    using write_span_backed [of shm r offset data m r' m'] assms(2,3) store_wf_put [of s r'] by simp
qed

lemma find_region_backed: "store_wf s \<Longrightarrow> find_region s rid = Some r \<Longrightarrow> region_backed r \<and> sr_id r = rid"
  by (auto simp: store_wf_def find_region_def)

lemma store_wf_fill:
  "store_wf s \<Longrightarrow> fill_region shm rid seed offset len s m = Some (status, s', m') \<Longrightarrow> store_wf s'"
  by (auto simp: fill_region_def Let_def split: option.splits if_splits dest: find_region_backed write_region_wf)

lemma store_wf_poke:
  "store_wf s \<Longrightarrow> poke_region shm rid offset byte count s m = Some (status, s', m') \<Longrightarrow> store_wf s'"
  by (auto simp: poke_region_def Let_def split: option.splits if_splits dest: find_region_backed write_region_wf)

lemma store_wf_copy:
  assumes "store_wf s" and "copy_and_verify shm source destination s m = Some (status, s', m')"
  shows "store_wf s'"
proof (cases "s' = s")
  case False
  then obtain to data to' where "find_region s destination = Some to"
    "write_span shm to 0 data m = Some (to', m')" "s' = put_region to' s"
    using assms(2) by (auto simp: copy_and_verify_def Let_def split: option.splits if_splits prod.splits)
  then show ?thesis
    using write_span_backed [of shm to 0 data m to' m'] find_region_backed [OF assms(1), of destination to]
      store_wf_put [OF assms(1), of to'] by simp
qed (simp add: assms(1))

text \<open>The checked range is the span, except for a device region.\<close>

lemma span_size_backed:
  "region_backed r \<Longrightarrow> sr_backing r \<noteq> RegionBacking.DeviceLocal \<Longrightarrow> span_size r = unat (sr_length r)"
  by (auto simp: region_backed_def span_size_def split: option.splits)

lemma write_region_in_span:
  "offset + length data \<le> span_size r \<Longrightarrow> \<exists>s' m'. write_region shm r offset data s m = Some (StatusCode.Ok, s', m')"
  by (auto simp: write_region_def write_span_def split: option.splits)

definition on_device :: "RegionStore \<Rightarrow> RegionId \<Rightarrow> bool" where
  "on_device s rid \<longleftrightarrow> (\<exists>r. find_region s rid = Some r \<and> sr_backing r = RegionBacking.DeviceLocal)"

text \<open>What any sequence of the store's operations leads to.\<close>

inductive store_reachable :: "'m shm_calls \<Rightarrow> RegionStore \<Rightarrow> bool" for shm where
  reach_new: "store_reachable shm new_region_store"
| reach_host: "store_reachable shm s \<Longrightarrow>
    store_reachable shm (snd (add_host_region address name len mdomain seed requested s))"
| reach_shared: "store_reachable shm s \<Longrightarrow>
    store_reachable shm (fst (snd (add_shared_region shm name segment_name len create s m)))"
| reach_synthetic: "store_reachable shm s \<Longrightarrow>
    store_reachable shm (snd (add_synthetic_cxl_region address name len seed s))"
| reach_device: "store_reachable shm s \<Longrightarrow>
    store_reachable shm (snd (attach_device_region name adapter mdomain evidence len address s))"
| reach_fill: "store_reachable shm s \<Longrightarrow> fill_region shm rid seed offset len s m = Some (status, s', m') \<Longrightarrow>
    store_reachable shm s'"
| reach_poke: "store_reachable shm s \<Longrightarrow> poke_region shm rid offset byte count s m = Some (status, s', m') \<Longrightarrow>
    store_reachable shm s'"
| reach_copy: "store_reachable shm s \<Longrightarrow>
    copy_and_verify shm source destination s m = Some (status, s', m') \<Longrightarrow> store_reachable shm s'"

lemma reachable_store_wf: "store_reachable shm s \<Longrightarrow> store_wf s"
  by (induction rule: store_reachable.induct)
    (auto intro: store_wf_new store_wf_add_host store_wf_add_shared store_wf_add_synthetic store_wf_attach
      store_wf_fill store_wf_poke store_wf_copy)

lemma fill_in_bounds:
  assumes "store_wf s" and "\<not> on_device s rid"
  shows "fill_region shm rid seed offset len s m \<noteq> None"
proof (cases "find_region s rid")
  case (Some r)
  then have "span_size r = unat (sr_length r)"
    using span_size_backed find_region_backed [OF assms(1) Some] assms(2) by (auto simp: on_device_def)
  then show ?thesis
    using Some write_region_in_span [of "unat offset" "make_pattern (if len = 0 then sr_length r else len) seed" r shm s m]
    by (auto simp: fill_region_def Let_def checked_range_eq)
qed (simp add: fill_region_def)

lemma poke_in_bounds:
  assumes "store_wf s" and "\<not> on_device s rid"
  shows "poke_region shm rid offset byte count s m \<noteq> None"
proof (cases "find_region s rid")
  case (Some r)
  then have "span_size r = unat (sr_length r)"
    using span_size_backed find_region_backed [OF assms(1) Some] assms(2) by (auto simp: on_device_def)
  then show ?thesis
    using Some write_region_in_span [of "unat offset" "replicate (unat count) byte" r shm s m]
    by (auto simp: poke_region_def checked_range_eq)
qed (simp add: poke_region_def)

lemma copy_in_bounds:
  assumes "store_wf s" and "\<not> on_device s source" and "\<not> on_device s destination"
  shows "copy_and_verify shm source destination s m \<noteq> None"
proof -
  have span: "span_size r = unat (sr_length r)" if "find_region s rid = Some r" "\<not> on_device s rid" for rid r
    using that span_size_backed find_region_backed [OF assms(1)] by (auto simp: on_device_def)
  show ?thesis
    using span [of source] span [of destination] assms(2,3)
    by (auto simp: copy_and_verify_def write_span_def Let_def split: option.splits)
qed

text \<open>A copy between two vectors of the process moves the bytes and touches no other region.\<close>

lemma copy_host_exact:
  assumes wf: "store_wf s" and src: "find_region s source = Some from" and dst: "find_region s destination = Some to"
    and host: "sr_shared from = None" "sr_shared to = None" "\<not> on_device s source" "\<not> on_device s destination"
    and len: "sr_length from = sr_length to" and ptr: "data_pointer from \<noteq> data_pointer to"
  obtains s' where "copy_and_verify shm source destination s m = Some (StatusCode.Ok, s', m)"
    "find_region s' destination = Some (to\<lparr>sr_host := sr_host from\<rparr>)"
    "\<And>k. k \<noteq> destination \<Longrightarrow> find_region s' k = find_region s k"
proof -
  have l: "length (sr_host from) = unat (sr_length to)" "length (sr_host to) = unat (sr_length to)" "sr_id to = destination"
    using find_region_backed [OF wf src] find_region_backed [OF wf dst] host len src dst
    by (auto simp: region_backed_def on_device_def)
  then have "copy_and_verify shm source destination s m =
      Some (StatusCode.Ok, put_region (to\<lparr>sr_host := sr_host from\<rparr>) s, m)"
    using src dst host len ptr
    by (simp add: copy_and_verify_def write_span_def span_size_def region_bytes_def store_at_def)
  then show thesis by (rule that) (simp_all add: put_region_def find_region_def l(3))
qed

section \<open>A shared memory\<close>

text \<open>Segments by name, and the addresses at which they are mapped, a new one for every mapping.\<close>

record shm_ram =
  so_objects :: "string \<Rightarrow> bytes option"
  so_fds :: "string list"
  so_maps :: "string list"

definition mapped_bytes :: "u64 \<Rightarrow> shm_ram \<Rightarrow> bytes" where
  "mapped_bytes base m =
     (let k = unat (drop_bit 12 base)
      in if 0 < k \<and> k \<le> length (so_maps m)
           then (case so_objects m (so_maps m ! (k - 1)) of None \<Rightarrow> [] | Some data \<Rightarrow> data) else [])"

definition ram_shm :: "shm_ram shm_calls" where
  "ram_shm =
     \<lparr>shm_open = (\<lambda>name create m.
        if (so_objects m name = None) \<noteq> create then (None, m)
        else (Some (length (so_fds m)),
              m\<lparr>so_fds := so_fds m @ [name],
                so_objects := (if create then (so_objects m)(name \<mapsto> []) else so_objects m)\<rparr>)),
      shm_truncate = (\<lambda>fd len m.
        (True, m\<lparr>so_objects := (so_objects m)(so_fds m ! fd \<mapsto> replicate (unat len) 0)\<rparr>)),
      shm_map = (\<lambda>fd len m.
        (Some (push_bit 12 (of_nat (length (so_maps m) + 1))), m\<lparr>so_maps := so_maps m @ [so_fds m ! fd]\<rparr>)),
      shm_unlink = (\<lambda>name m. m\<lparr>so_objects := (so_objects m)(name := None)\<rparr>),
      shm_close = (\<lambda>fd m. m),
      shm_load = (\<lambda>base offset n m. take n (drop offset (mapped_bytes base m))),
      shm_store = (\<lambda>base offset data m.
        m\<lparr>so_objects := (so_objects m)
          (so_maps m ! (unat (drop_bit 12 base) - 1) \<mapsto> store_at (mapped_bytes base m) offset data)\<rparr>)\<rparr>"

definition empty_shm :: shm_ram where
  "empty_shm = \<lparr>so_objects = (\<lambda>_. None), so_fds = [], so_maps = []\<rparr>"

text \<open>The copy refuses two regions whose spans start at the same address, and says that it thereby refuses
  two regions on the same pages.  A second mapping of one segment is at another address, so the copy
  is certified although no byte can have moved.\<close>

definition twice_mapped :: "RegionStore \<times> shm_ram" where
  "twice_mapped =
     (let (_, s, m) = add_shared_region ram_shm ''a'' ''/segment'' 2 True new_region_store empty_shm;
          (_, s, m) = add_shared_region ram_shm ''b'' ''/segment'' 2 False s m
      in (s, m))"

definition mapped_region :: "RegionId \<Rightarrow> string \<Rightarrow> nat \<Rightarrow> u64 \<Rightarrow> StoredRegion" where
  "mapped_region rid name fd base = default_stored_region
     \<lparr>sr_id := rid, sr_name := name, sr_memory_domain := MemoryDomain.HostShared,
      sr_backing := RegionBacking.SharedMapping, sr_length := 2, sr_address_hint := base,
      sr_shared := Some \<lparr>seg_handle = fd, seg_base = base, seg_length = 2, seg_name = ''/segment''\<rparr>\<rparr>"

lemma twice_mapped_regions:
  "rs_regions (fst twice_mapped) = [(1, mapped_region 1 ''a'' 0 0x1000), (2, mapped_region 2 ''b'' 1 0x2000)] \<and>
   so_maps (snd twice_mapped) = [''/segment'', ''/segment'']"
  by code_simp

lemma aliased_copy_is_certified:
  "\<exists>s m. copy_and_verify ram_shm 1 2 (fst twice_mapped) (snd twice_mapped) = Some (StatusCode.Ok, s, m)"
proof -
  have same: "mapped_bytes 0x2000 m = mapped_bytes 0x1000 m" if "so_maps m = [''/segment'', ''/segment'']" for m
    using that by (simp add: mapped_bytes_def drop_bit_eq_div)
  have maps: "so_maps (shm_store ram_shm base offset data m) = so_maps m" for base offset data m
    by (simp add: ram_shm_def)
  show ?thesis
    using twice_mapped_regions
    by (simp add: copy_and_verify_def find_region_def mapped_region_def default_stored_region_def data_pointer_def
        span_size_def write_span_def region_bytes_def Let_def maps same)
      (simp add: ram_shm_def same)
qed

text \<open>A device region has a length and no vector, and the range check reads the length.\<close>

lemma device_fill_is_undefined:
  "fill_region shm 1 seed 0 0 (snd (attach_device_region name adapter mdomain evidence len address new_region_store)) m =
   (if len = 0 then Some (StatusCode.Ok, snd (attach_device_region name adapter mdomain evidence len address new_region_store), m)
    else None)"
  by (auto simp: fill_region_def attach_device_region_def next_local_id_def new_region_store_def emplace_region_def
      find_region_def sm_emplace_def default_stored_region_def write_region_def write_span_def span_size_def
      checked_range_eq put_region_def store_at_def unat_gt_0 Let_def make_pattern_def)

end
