(* ===== verification/Client.thy ===== *)
theory Client
  imports Control_Protocol
begin

text \<open>
  The control client (\<^verbatim>\<open>src/client.cpp\<close>): one connection to the coordinator, a handshake, then requests that
  are sent and answered one at a time.  The socket is the one of \<open>Transport\<close>; the outcome of
  \<open>Socket::connect\<close>, the system calls that end a connection and the identification of the build are
  parameters.
\<close>

record ClientOptions =
  cli_host :: string
  cli_port :: u16
  cli_participant_name :: string
  cli_boot :: ParticipantBootId
  cli_node_label :: string
  cli_observer :: bool
  cli_frames :: FrameLimits

definition default_client_options :: ClientOptions where
  "default_client_options =
     \<lparr>cli_host = ''127.0.0.1'', cli_port = 0, cli_participant_name = [], cli_boot = 0, cli_node_label = [],
      cli_observer = False, cli_frames = default_frame_limits\<rparr>"

record Exchange =
  ex_envelope :: ResponseEnvelope
  ex_payload :: bytes

record 's ControlClient =
  cc_socket :: "'s Socket"
  cc_session :: HelloResponse
  cc_options :: ClientOptions
  cc_next_sequence :: u64
  cc_next_correlation :: u64
  cc_frames :: FrameLimits

definition default_hello_response :: HelloResponse where
  "default_hello_response =
     \<lparr>hs_session = 0, hs_epoch = 0, hs_protocol_version = 0, hs_schema = 0, hs_build = [], hs_nonce = 0,
      hs_participant = 0, hs_observer = False\<rparr>"

definition new_client :: "'s \<Rightarrow> 's ControlClient" where
  "new_client os =
     \<lparr>cc_socket = \<lparr>sock_valid = False, sock_os = os\<rparr>, cc_session = default_hello_response,
      cc_options = default_client_options, cc_next_sequence = 1, cc_next_correlation = 1,
      cc_frames = default_frame_limits\<rparr>"

text \<open>\<open>next_sequence_++\<close> and \<open>next_correlation_++\<close>, which every frame takes together.\<close>

definition advance_counters :: "'s ControlClient \<Rightarrow> 's ControlClient" where
  "advance_counters c =
     c\<lparr>cc_next_sequence := cc_next_sequence c + 1, cc_next_correlation := cc_next_correlation c + 1\<rparr>"

definition request_header :: "MessageType \<Rightarrow> 's ControlClient \<Rightarrow> FrameHeader" where
  "request_header type c =
     \<lparr>fh_version = ucast protocol_version, fh_type = type, fh_flags = 0,
      fh_session = hs_session (cc_session c), fh_epoch = hs_epoch (cc_session c),
      fh_sequence = cc_next_sequence c, fh_correlation = cc_next_correlation c\<rparr>"

section \<open>The handshake\<close>

definition hello_of :: "string \<Rightarrow> ClientOptions \<Rightarrow> u64 \<Rightarrow> HelloRequest" where
  "hello_of build options nonce =
     \<lparr>hr_protocol_version = protocol_version, hr_schema = persistence_schema, hr_build = build,
      hr_participant_name = cli_participant_name options, hr_boot = cli_boot options,
      hr_node_label = cli_node_label options, hr_nonce = nonce, hr_observer = cli_observer options\<rparr>"

text \<open>What the client makes of the first frame it receives.\<close>

definition accept_hello :: "Frame \<Rightarrow> 's ControlClient \<Rightarrow> StatusCode \<times> 's ControlClient" where
  "accept_hello frame c =
     (if fh_type (fr_header frame) \<noteq> MessageType.HelloAck then
        (if fh_type (fr_header frame) = MessageType.Response then
           (case decode_response_envelope default_decode_limits (fr_body frame) of
              Inr (envelope, _) \<Rightarrow> env_code envelope
            | Inl _ \<Rightarrow> StatusCode.ProtocolViolation)
         else StatusCode.ProtocolViolation, c)
      else case decode_hello_response default_decode_limits (fr_body frame) of
          Inl _ \<Rightarrow> (StatusCode.ProtocolViolation, c)
        | Inr (response, _) \<Rightarrow>
            (if hs_protocol_version response \<noteq> protocol_version then StatusCode.UnsupportedSchema
             else StatusCode.Ok, c\<lparr>cc_session := response\<rparr>))"

definition connect_and_handshake ::
  "'s recv_call \<Rightarrow> 's send_call \<Rightarrow> string \<Rightarrow> 's Result \<Rightarrow> ClientOptions \<Rightarrow> 's ControlClient \<Rightarrow>
   StatusCode \<times> 's ControlClient" where
  "connect_and_handshake recv send build connected options c =
     (let c = c\<lparr>cc_options := options, cc_frames := cli_frames options\<rparr>
      in case connected of
           Inl code \<Rightarrow> (code, c)
         | Inr os \<Rightarrow>
             let c = c\<lparr>cc_socket := \<lparr>sock_valid = True, sock_os = os\<rparr>\<rparr>;
                 req = hello_of build options (cc_next_correlation c);
                 header = (request_header MessageType.Hello c)\<lparr>fh_session := 0, fh_epoch := 0\<rparr>;
                 c = advance_counters c;
                 (sent, sock) = write_frame send (cc_socket c) header (encode_hello_request req);
                 c = c\<lparr>cc_socket := sock\<rparr>
             in if sent \<noteq> StatusCode.Ok then (sent, c)
                else case read_frame recv (cc_frames c) (cc_socket c) of
                    (Inl code, sock) \<Rightarrow> (code, c\<lparr>cc_socket := sock\<rparr>)
                  | (Inr frame, sock) \<Rightarrow> accept_hello frame (c\<lparr>cc_socket := sock\<rparr>))"

section \<open>Requests\<close>

definition accept_response :: "u64 \<Rightarrow> Frame \<Rightarrow> Exchange Result" where
  "accept_response correlation frame =
     (if fh_type (fr_header frame) \<noteq> MessageType.Response then Inl StatusCode.ProtocolViolation
      else if fh_correlation (fr_header frame) \<noteq> correlation then Inl StatusCode.ProtocolViolation
      else case decode_response_envelope default_decode_limits (fr_body frame) of
          Inl _ \<Rightarrow> Inl StatusCode.ProtocolViolation
        | Inr (envelope, payload) \<Rightarrow> Inr \<lparr>ex_envelope = envelope, ex_payload = payload\<rparr>)"

definition request ::
  "'s recv_call \<Rightarrow> 's send_call \<Rightarrow> MessageType \<Rightarrow> bytes \<Rightarrow> 's ControlClient \<Rightarrow> Exchange Result \<times> 's ControlClient" where
  "request recv send type body c =
     (if \<not> sock_valid (cc_socket c) then (Inl StatusCode.TransportFailure, c)
      else let header = request_header type c;
               c = advance_counters c;
               (sent, sock) = write_frame send (cc_socket c) header body;
               c = c\<lparr>cc_socket := sock\<rparr>
           in if sent \<noteq> StatusCode.Ok then (Inl sent, c)
              else case read_frame recv (cc_frames c) (cc_socket c) of
                  (Inl code, sock) \<Rightarrow> (Inl code, c\<lparr>cc_socket := sock\<rparr>)
                | (Inr frame, sock) \<Rightarrow> (accept_response (fh_correlation header) frame, c\<lparr>cc_socket := sock\<rparr>))"

definition ping ::
  "'s recv_call \<Rightarrow> 's send_call \<Rightarrow> u64 \<Rightarrow> 's ControlClient \<Rightarrow> Exchange Result \<times> 's ControlClient" where
  "ping recv send nonce c = request recv send MessageType.Ping (w_u64 nonce) c"

text \<open>\<open>Socket::shutdown\<close> and \<open>Socket::close\<close>: a socket that is not valid has nothing to end.\<close>

definition close_socket :: "('s \<Rightarrow> 's) \<Rightarrow> ('s \<Rightarrow> bool \<times> 's) \<Rightarrow> 's Socket \<Rightarrow> StatusCode \<times> 's Socket" where
  "close_socket sys_shutdown sys_close sock =
     (if \<not> sock_valid sock then (StatusCode.Ok, sock)
      else let (ok, os) = sys_close (sys_shutdown (sock_os sock))
           in (if ok then StatusCode.Ok else StatusCode.TransportFailure,
               \<lparr>sock_valid = False, sock_os = os\<rparr>))"

definition close_client ::
  "('s \<Rightarrow> 's) \<Rightarrow> ('s \<Rightarrow> bool \<times> 's) \<Rightarrow> 's send_call \<Rightarrow> 's ControlClient \<Rightarrow> StatusCode \<times> 's ControlClient" where
  "close_client sys_shutdown sys_close send c =
     (let c = (if sock_valid (cc_socket c)
               then let (_, sock) = write_frame send (cc_socket c) (request_header MessageType.Goodbye c) []
                    in (advance_counters c)\<lparr>cc_socket := sock\<rparr>
               else c);
          (closed, sock) = close_socket sys_shutdown sys_close (cc_socket c)
      in (closed, c\<lparr>cc_socket := sock\<rparr>))"

definition decode_exchange_envelope :: "Exchange \<Rightarrow> ResponseEnvelope option" where
  "decode_exchange_envelope exchange =
     (if status_code_name (env_code (ex_envelope exchange)) \<noteq> ''unknown_status''
      then Some (ex_envelope exchange) else None)"

section \<open>Counters and pairing\<close>

lemma request_counters:
  assumes "sock_valid (cc_socket c)" and "request recv send type body c = (r, c')"
  shows "cc_next_sequence c' = cc_next_sequence c + 1"
    "cc_next_correlation c' = cc_next_correlation c + 1" "cc_session c' = cc_session c"
  using assms
  by (auto simp: request_def advance_counters_def Let_def split: prod.splits if_splits sum.splits)

lemma sockets_stay_valid:
  "sock_valid (snd (send_all send data sock)) = sock_valid sock"
  "sock_valid (snd (recv_exact recv n sock)) = sock_valid sock"
  by (simp_all add: send_all_def recv_exact_def split: prod.splits)

lemma read_frame_valid: "sock_valid (snd (read_frame recv limits sock)) = sock_valid sock"
proof -
  have r: "sock_valid sock' = sock_valid s" if "recv_exact recv n s = (r, sock')" for n s r sock'
    using sockets_stay_valid(2) [of recv n s] that by simp
  show ?thesis
    by (auto simp: read_frame_def Let_def split: prod.splits sum.splits if_splits dest: r)
qed

lemma request_valid:
  assumes "sock_valid (cc_socket c)"
  shows "sock_valid (cc_socket (snd (request recv send type body c)))"
proof -
  obtain sent sock where s: "write_frame send (cc_socket c) (request_header type c) body = (sent, sock)" by fastforce
  have v: "sock_valid sock"
    using sockets_stay_valid(1) [of send "encode_frame (request_header type c) body" "cc_socket c"] s assms
    by (simp add: write_frame_def)
  obtain r sock' where "read_frame recv (cc_frames c) sock = (r, sock')" by fastforce
  moreover from this have "sock_valid sock'" using read_frame_valid [of recv "cc_frames c" sock] v by simp
  ultimately show ?thesis
    using s v assms by (auto simp: request_def advance_counters_def Let_def split: sum.splits)
qed

end
