(* ===== verification/Client_Sessions.thy ===== *)
theory Client_Sessions
  imports Client Coordinator Engine_Example
begin

text \<open>
  The control client and the coordinator's session together: the counters of the client and the replay
  checks of the coordinator fit.
\<close>

text \<open>What the client will send is ahead of everything the session has seen.\<close>

definition in_step :: "'s ControlClient \<Rightarrow> Session \<Rightarrow> bool" where
  "in_step c s \<longleftrightarrow>
     hs_session (cc_session c) = ses_id s \<and> ses_last_sequence s < cc_next_sequence c \<and>
     (\<forall>x \<in> set (ses_correlation_set s). x < cc_next_correlation c)"

text \<open>The frames of consecutive requests, each judged by the session the earlier ones left.\<close>

fun verdicts ::
  "'s recv_call \<Rightarrow> 's send_call \<Rightarrow> u64 \<Rightarrow> CoordinatorEpoch \<Rightarrow> (MessageType \<times> bytes) list \<Rightarrow>
   's ControlClient \<Rightarrow> Session \<Rightarrow> frame_verdict list" where
  "verdicts recv send window epoch [] c s = []"
| "verdicts recv send window epoch ((type, body) # requests) c s =
     (let (verdict, s) = admit_frame window epoch (request_header type c) s
      in verdict # verdicts recv send window epoch requests (snd (request recv send type body c)) s)"

lemma trim_window_subset: "set (snd (trim_window n recent known)) \<subseteq> set known"
  by (induction n recent known rule: trim_window.induct) auto

lemma remember_correlation_set:
  "set (ses_correlation_set (remember_correlation window correlation s)) \<subseteq> insert correlation (set (ses_correlation_set s))"
  using trim_window_subset [of "unat window" "ses_recent_correlations s @ [correlation]"
      "ss_insert correlation (ses_correlation_set s)"]
  by (auto simp: remember_correlation_def split: prod.splits)

lemma remember_correlation_frame [simp]:
  "ses_id (remember_correlation window correlation s) = ses_id s"
  "ses_last_sequence (remember_correlation window correlation s) = ses_last_sequence s"
  by (simp_all add: remember_correlation_def split: prod.splits)

lemma admitted_in_step:
  assumes step: "in_step c s" and epoch: "hs_epoch (cc_session c) = epoch"
    and room: "cc_next_sequence c < cc_next_sequence c + 1" "cc_next_correlation c < cc_next_correlation c + 1"
    and valid: "sock_valid (cc_socket c)"
  obtains s' where "admit_frame window epoch (request_header type c) s = (Admitted, s')"
    "in_step (snd (request recv send type body c)) s'"
proof -
  obtain r c' where c': "request recv send type body c = (r, c')" by fastforce
  note n = request_counters [OF valid c']
  let ?s = "remember_correlation window (cc_next_correlation c) (s\<lparr>ses_last_sequence := cc_next_sequence c\<rparr>)"
  have "admit_frame window epoch (request_header type c) s = (Admitted, ?s)"
    using step epoch by (auto simp: admit_frame_def in_step_def request_header_def)
  moreover have "in_step c' ?s"
    using step room n remember_correlation_set [of window "cc_next_correlation c" "s\<lparr>ses_last_sequence := cc_next_sequence c\<rparr>"]
    by (fastforce simp: in_step_def)
  ultimately show thesis using that c' by simp
qed

lemma verdicts_admitted:
  assumes "in_step c s" and "hs_epoch (cc_session c) = epoch" and "sock_valid (cc_socket c)"
    and "unat (cc_next_sequence c) + length requests < 2 ^ 64"
    and "unat (cc_next_correlation c) + length requests < 2 ^ 64"
  shows "verdicts recv send window epoch requests c s = replicate (length requests) Admitted"
  using assms
proof (induction requests arbitrary: c s)
  case (Cons r requests)
  obtain type body where r: "r = (type, body)" by fastforce
  have plus: "unat (x + 1) = unat x + 1" if "unat x + length (r # requests) < 2 ^ 64" for x :: u64
    using that by (simp add: unat_word_ariths)
  have lt: "x < x + 1" if "unat x + length (r # requests) < 2 ^ 64" for x :: u64
    using plus [OF that] by (simp add: word_less_nat_alt)
  obtain s' where s': "admit_frame window epoch (request_header type c) s = (Admitted, s')"
    "in_step (snd (request recv send type body c)) s'"
    using admitted_in_step [OF Cons.prems(1,2) lt [OF Cons.prems(4)] lt [OF Cons.prems(5)] Cons.prems(3)] by blast
  obtain x c' where c': "request recv send type body c = (x, c')" by fastforce
  note n = request_counters [OF Cons.prems(3) c']
  have "verdicts recv send window epoch requests c' s' = replicate (length requests) Admitted"
    by (rule Cons.IH)
      (use s'(2) c' n Cons.prems plus [OF Cons.prems(4)] plus [OF Cons.prems(5)]
         request_valid [OF Cons.prems(3), of recv send type body] in auto)
  then show ?case using r s'(1) c' by simp
qed simp

section \<open>From the greeting to the requests\<close>

text \<open>The frame a new client opens its connection with.\<close>

definition greeting :: "string \<Rightarrow> ClientOptions \<Rightarrow> Frame" where
  "greeting build options =
     \<lparr>fr_header = \<lparr>fh_version = ucast protocol_version, fh_type = MessageType.Hello, fh_flags = 0, fh_session = 0,
        fh_epoch = 0, fh_sequence = 1, fh_correlation = 1\<rparr>,
      fr_body = encode_hello_request (hello_of build options 1)\<rparr>"

lemma handshake_installs:
  assumes "handshake build sid (Inr frame) co = (Inr response, co')"
  obtains participant req where "map_of (co_store co') sid = Some (new_session sid participant req)"
    "hs_session response = sid" "hs_epoch response = eng_epoch (co_engine co')"
    "hs_protocol_version response = protocol_version" "hs_build response = build"
proof -
  obtain req rest co1 where "hello build sid req co1 = (Inr response, co')"
    using assms by (auto simp: handshake_def refuse_def Let_def split: if_splits sum.splits)
  then show thesis
    using that by (auto simp: hello_def refuse_def install_session_def Let_def split: if_splits sum.splits prod.splits)
qed

lemma client_accepts:
  assumes stream: "stream_socket recv pending"
    and sent: "write_frame send \<lparr>sock_valid = True, sock_os = os\<rparr> (fr_header (greeting build options))
      (fr_body (greeting build options)) = (StatusCode.Ok, sock)"
    and answer: "pending (sock_os sock) = encode_frame header (encode_hello_response response) @ later"
    and header: "fh_type header = MessageType.HelloAck"
      "header_ok (cli_frames options) header (encode_hello_response response)"
    and response: "hello_response_ok default_decode_limits response" "hs_protocol_version response = protocol_version"
  obtains c where "connect_and_handshake recv send build (Inr os) options (new_client os0) = (StatusCode.Ok, c)"
    "cc_session c = response" "cc_next_sequence c = 2" "cc_next_correlation c = 2" "sock_valid (cc_socket c)"
proof -
  have "sock_valid sock"
    using sockets_stay_valid(1) [of send "encode_frame (fr_header (greeting build options)) (fr_body (greeting build options))"
        "\<lparr>sock_valid = True, sock_os = os\<rparr>"] sent by (simp add: write_frame_def)
  moreover have "pending (sock_os sock) = frame_header_bytes header (encode_hello_response response) @
      encode_hello_response response @ later"
    using answer by (simp add: encode_frame_split)
  ultimately obtain sock' where r: "read_frame recv (cli_frames options) sock =
      (Inr \<lparr>fr_header = header, fr_body = encode_hello_response response\<rparr>, sock')" "sock_valid sock'"
    using read_frame_stream [OF stream _ _ header(2) refl, of sock later] by auto
  have "decode_hello_response default_decode_limits (encode_hello_response response) = Inr (response, [])"
    using hello_response_codec.decode_encode [OF response(1), of "[]"] by simp
  then show thesis
    using that sent r header(1) response(2)
    by (simp add: connect_and_handshake_def accept_hello_def new_client_def advance_counters_def request_header_def
        greeting_def)
qed

section \<open>Properties\<close>

text \<open>C39. The client and the coordinator agree.  When the coordinator answers the greeting of a new client and
  the acknowledgement arrives, in whatever pieces, the client's handshake succeeds, the coordinator
  has a session for it, and from then on every request of the client is admitted as long as the
  coordinator keeps its epoch: none is taken for a replay, whatever the answers to the earlier ones,
  up to the number of requests the counters can count.\<close>

theorem client_joins_and_is_admitted:
  assumes "stream_socket recv pending"
    and "handshake build' sid (Inr (greeting build options)) co = (Inr response, co')"
    and "write_frame send \<lparr>sock_valid = True, sock_os = os\<rparr> (fr_header (greeting build options))
      (fr_body (greeting build options)) = (StatusCode.Ok, sock)"
    and "pending (sock_os sock) = encode_frame header (encode_hello_response response) @ later"
    and "fh_type header = MessageType.HelloAck"
    and "header_ok (cli_frames options) header (encode_hello_response response)"
    and "text_ok default_decode_limits build'"
    and "length requests + 2 < 2 ^ 64"
  shows "\<exists>c s. connect_and_handshake recv send build (Inr os) options (new_client os0) = (StatusCode.Ok, c) \<and>
    map_of (co_store co') sid = Some s \<and>
    verdicts recv send (co_correlation_window co') (eng_epoch (co_engine co')) requests c s =
      replicate (length requests) Admitted"
proof -
  obtain participant req where h: "map_of (co_store co') sid = Some (new_session sid participant req)"
    "hs_session response = sid" "hs_epoch response = eng_epoch (co_engine co')"
    "hs_protocol_version response = protocol_version" "hs_build response = build'"
    using handshake_installs [OF assms(2)] by metis
  obtain c where c: "connect_and_handshake recv send build (Inr os) options (new_client os0) = (StatusCode.Ok, c)"
    "cc_session c = response" "cc_next_sequence c = 2" "cc_next_correlation c = 2" "sock_valid (cc_socket c)"
    using client_accepts [OF assms(1,3,4,5,6) _ h(4)] h(5) assms(7) by (auto simp: hello_response_ok_def)
  have "in_step c (new_session sid participant req)" using c h by (simp add: in_step_def new_session_def)
  from verdicts_admitted [OF this _ c(5)] show ?thesis using c h assms(8) by auto
qed

text \<open>An observer joins a coordinator that has just started; the transport takes and gives whole pieces.\<close>

definition whole_recv :: "bytes recv_call" where
  "whole_recv n s = (Some (take n s), drop n s)"

definition whole_send :: "bytes send_call" where
  "whole_send data s = (length data, s)"

definition observer_options :: ClientOptions where
  "observer_options = default_client_options\<lparr>cli_observer := True\<rparr>"

definition quiet_coordinator :: "engine \<Rightarrow> Coordinator" where
  "quiet_coordinator e = \<lparr>co_engine = e, co_store = [], co_sessions = [], co_participant_session = [], co_stopping = False,
     co_accepted = 0, co_rejected = 0, co_max_sessions = 4, co_correlation_window = 4,
     co_recovery = empty_recovery_report\<rparr>"

definition ack_header :: FrameHeader where
  "ack_header = \<lparr>fh_version = 1, fh_type = MessageType.HelloAck, fh_flags = 0, fh_session = UInt128 0 1,
     fh_epoch = 1, fh_sequence = 1, fh_correlation = 1\<rparr>"

lemma whole_stream: "stream_socket whole_recv id"
  unfolding stream_socket_def
proof (intro allI impI)
  fix n :: nat and s :: bytes
  assume "0 < n \<and> id s \<noteq> []"
  then show "\<exists>k s'. 0 < k \<and> k \<le> n \<and> k \<le> length (id s) \<and> whole_recv n s = (Some (take k (id s)), s') \<and> id s' = drop k (id s)"
    by (intro exI [of _ "min n (length s)"] exI [of _ "drop n s"]) (auto simp: whole_recv_def min_def)
qed

lemma whole_send_all: "sock_valid sock \<Longrightarrow> send_all whole_send data sock = (StatusCode.Ok, sock)"
proof -
  have "send_loop whole_send data s = (StatusCode.Ok, s)" for s
  proof (induction "length data" arbitrary: data rule: less_induct)
    case less
    show ?case
    proof (cases "data = []")
      case False
      then have "0 < min (length data) kMaxChunk" by (simp add: kMaxChunk_def)
      then show ?thesis using less False by (subst send_loop.simps) (auto simp: whole_send_def min_def)
    qed (simp add: send_loop.simps)
  qed
  then show "sock_valid sock \<Longrightarrow> send_all whole_send data sock = (StatusCode.Ok, sock)" by (simp add: send_all_def)
qed

theorem client_joins_and_is_admitted_witness:
  "\<exists>response co' c s.
     handshake [] (UInt128 0 1) (Inr (greeting [] observer_options)) (quiet_coordinator (new_engine demo_config)) =
       (Inr response, co') \<and>
     connect_and_handshake whole_recv whole_send [] (Inr (encode_frame ack_header (encode_hello_response response)))
       observer_options (new_client []) = (StatusCode.Ok, c) \<and>
     map_of (co_store co') (UInt128 0 1) = Some s \<and>
     verdicts whole_recv whole_send (co_correlation_window co') (eng_epoch (co_engine co'))
       [(MessageType.Ping, []), (MessageType.Audit, [])] c s = [Admitted, Admitted]"
proof -
  let ?co = "quiet_coordinator (new_engine demo_config)"
  define response where "response = \<lparr>hs_session = UInt128 0 1, hs_epoch = eng_epoch (new_engine demo_config),
     hs_protocol_version = protocol_version, hs_schema = persistence_schema, hs_build = [], hs_nonce = 1,
     hs_participant = 0, hs_observer = True\<rparr>"
  have ok: "hello_request_ok default_decode_limits (hello_of [] observer_options 1)"
    by (simp add: hello_request_ok_def hello_of_def observer_options_def default_client_options_def text_ok_def)
  have dec: "decode_hello_request default_decode_limits (encode_hello_request (hello_of [] observer_options 1)) =
      Inr (hello_of [] observer_options 1, [])"
    using hello_request_codec.decode_encode [OF ok, of "[]"] by simp
  have "\<exists>co'. handshake [] (UInt128 0 1) (Inr (greeting [] observer_options)) ?co = (Inr response, co')"
    by (simp add: handshake_def greeting_def dec Let_def)
      (simp add: hello_def hello_of_def observer_options_def admit_def
        quiet_coordinator_def new_engine_def response_def install_session_def zero_UInt128_def Let_def)
  then obtain co' where h: "handshake [] (UInt128 0 1) (Inr (greeting [] observer_options)) ?co = (Inr response, co')" ..
  have head: "header_ok (cli_frames observer_options) ack_header (encode_hello_response response)"
    by (simp add: header_ok_def ack_header_def protocol_version_def observer_options_def default_client_options_def
        default_frame_limits_def encode_hello_response_def response_def w_u64_def w_u32_def w_text_def w_uuid_def
        w_boolean_def w_u8_def)
  let ?os = "encode_frame ack_header (encode_hello_response response)"
  have w: "write_frame whole_send \<lparr>sock_valid = True, sock_os = ?os\<rparr> (fr_header (greeting [] observer_options))
      (fr_body (greeting [] observer_options)) = (StatusCode.Ok, \<lparr>sock_valid = True, sock_os = ?os\<rparr>)"
    by (simp add: write_frame_def whole_send_all)
  have "\<exists>c s. connect_and_handshake whole_recv whole_send [] (Inr ?os) observer_options (new_client []) = (StatusCode.Ok, c) \<and>
      map_of (co_store co') (UInt128 0 1) = Some s \<and>
      verdicts whole_recv whole_send (co_correlation_window co') (eng_epoch (co_engine co'))
        [(MessageType.Ping, []), (MessageType.Audit, [])] c s =
      replicate (length [(MessageType.Ping, [] :: bytes), (MessageType.Audit, [])]) Admitted"
    by (rule client_joins_and_is_admitted [OF whole_stream h w _ _ head, where later = "[]"])
      (simp_all add: text_ok_def, simp add: ack_header_def)
  then show ?thesis using h by (auto simp: numeral_2_eq_2)
qed

end
