(* ===== verification/Rendering.thy ===== *)
theory Rendering
  imports Engine_Audit Wire
begin

text \<open>
  The deterministic renderings: records (\<^verbatim>\<open>src/model.cpp\<close>), policies (\<^verbatim>\<open>src/policy.cpp\<close>), evidence
  (\<^verbatim>\<open>src/evidence.cpp\<close>), decisions (\<^verbatim>\<open>src/decision.cpp\<close>), snapshots and audit reports
  (\<^verbatim>\<open>src/engine_recovery.cpp\<close>).  The coordinator answers the inspecting requests with these texts and the
  agent reads them back, so they are part of the protocol.  The rationale of a decision and the
  identification of the build are arguments.
\<close>

section \<open>Fields\<close>

abbreviation newline :: char where
  "newline \<equiv> CHR 0x0A"

definition append_field :: "string \<Rightarrow> string \<Rightarrow> string" where
  "append_field key value = '' '' @ key @ ''='' @ value"

definition append_id :: "string \<Rightarrow> u64 \<Rightarrow> string" where
  "append_id key i = append_field key (id_to_string i)"

definition flag :: "bool \<Rightarrow> string" where
  "flag b = (if b then ''true'' else ''false'')"

definition size_to_string :: "'a list \<Rightarrow> string" where
  "size_to_string xs = nat_to_decimal (length xs)"

definition format_id :: "string \<Rightarrow> u64 \<Rightarrow> string" where
  "format_id kind value = kind @ ''#'' @ id_to_string value"

text \<open>A text that is appended only when it is not empty.\<close>

definition optional_line :: "string \<Rightarrow> string \<Rightarrow> string" where
  "optional_line prefix value = (if value = [] then [] else [newline] @ prefix @ value)"

section \<open>Records\<close>

definition render_object :: "ObjectRecord \<Rightarrow> string" where
  "render_object r =
     ''object'' @ append_id ''id'' (obj_id r) @ append_id ''generation'' (obj_generation r) @
     append_id ''domain'' (obj_domain r) @ append_field ''name'' (obj_name r) @
     append_id ''length'' (obj_length r) @ [newline] @
     ''  policy='' @ id_to_string (obj_policy r) @ append_id ''policy_generation'' (obj_policy_generation r) @
     append_field ''lifecycle'' (object_lifecycle_to_token (obj_lifecycle r)) @ [newline] @
     ''  authority='' @ authority_mode_to_token (obj_authority r) @ append_id ''writer'' (obj_writer r) @
     append_id ''ownership_generation'' (obj_ownership_generation r) @ [newline] @
     ''  authoritative_version='' @ id_to_string (obj_authoritative_version r) @
     append_id ''publication'' (obj_publication r) @
     append_field ''publication_state'' (publication_state_to_token (obj_publication_state r)) @ [newline] @
     ''  dirty_condition='' @ dirty_condition_to_token (obj_dirty_condition r) @
     append_field ''has_unpublished_dirty'' (flag (obj_has_unpublished_dirty r)) @
     append_field ''replicas'' (size_to_string (obj_replicas r)) @
     append_field ''reads'' (size_to_string (obj_reads r)) @
     append_field ''outstanding_invalidations'' (size_to_string (obj_outstanding_invalidations r)) @
     optional_line ''  recovery_note='' (obj_recovery_note r)"

definition render_region :: "RegionRecord \<Rightarrow> string" where
  "render_region r =
     ''region'' @ append_id ''id'' (reg_id r) @ append_id ''generation'' (reg_generation r) @
     append_id ''replica'' (reg_replica r) @ append_id ''replica_generation'' (reg_replica_generation r) @
     append_field ''name'' (reg_name r) @ [newline] @
     append_id ''object'' (reg_object r) @ append_id ''object_generation'' (reg_object_generation r) @
     append_id ''participant'' (reg_participant r) @ append_field ''boot'' (to_hex (reg_boot r)) @ [newline] @
     append_field ''memory_domain'' (memory_domain_to_token (reg_memory_domain r)) @
     append_field ''evidence_class'' (evidence_class_to_token (reg_evidence_class r)) @
     append_field ''lifecycle'' (region_lifecycle_to_token (reg_lifecycle r)) @
     append_field ''state'' (coherence_state_to_token (reg_state r)) @ [newline] @
     append_id ''offset'' (reg_offset r) @ append_id ''length'' (reg_length r) @
     append_id ''version'' (reg_version r) @ append_id ''last_synced_version'' (reg_last_synced_version r) @
     append_id ''ownership_generation'' (reg_ownership_generation r) @ [newline] @
     append_field ''dirty'' (dirty_condition_to_token (reg_dirty r)) @
     append_field ''invalidation_pending'' (flag (reg_invalidation_pending r)) @
     append_field ''content'' (fingerprint_to_string (reg_content r)) @
     optional_line '' note='' (reg_note r)"

definition render_participant :: "ParticipantRecord \<Rightarrow> string" where
  "render_participant r =
     ''participant'' @ append_id ''id'' (par_id r) @ append_field ''name'' (par_name r) @ [newline] @
     append_field ''boot'' (to_hex (par_boot r)) @ append_field ''previous_boot'' (to_hex (par_previous_boot r)) @
     append_field ''lifecycle'' (participant_lifecycle_to_token (par_lifecycle r)) @
     append_field ''live'' (flag (par_live r)) @ [newline] @
     append_id ''admitted_epoch'' (par_admitted_epoch r) @ append_id ''last_epoch'' (par_last_epoch r) @
     append_id ''regions'' (par_region_count r) @
     optional_line '' fence_reason='' (par_fence_reason r)"

definition render_invalidation :: "InvalidationRecord \<Rightarrow> string" where
  "render_invalidation r =
     ''invalidation'' @ append_id ''id'' (inv_id r) @ append_id ''object'' (inv_object r) @
     append_id ''object_generation'' (inv_object_generation r) @ append_id ''region'' (inv_region r) @
     append_id ''region_generation'' (inv_region_generation r) @
     append_id ''replica_generation'' (inv_replica_generation r) @ [newline] @
     append_id ''published_version'' (inv_published_version r) @
     append_id ''superseded_version'' (inv_superseded_version r) @
     append_id ''ownership_generation'' (inv_ownership_generation r) @ append_id ''epoch'' (inv_epoch r) @
     append_id ''target'' (inv_target_participant r) @ append_field ''target_boot'' (to_hex (inv_target_boot r)) @
     append_field ''state'' (invalidation_state_to_token (inv_state r)) @
     append_field ''ack_required'' (flag (inv_acknowledgement_required r))"

definition render_sync :: "SyncRecord \<Rightarrow> string" where
  "render_sync r =
     ''sync'' @ append_id ''id'' (sync_id r) @ append_field ''kind'' (sync_operation_kind_to_token (sync_kind r)) @
     append_field ''state'' (sync_state_to_token (sync_state r)) @ [newline] @
     append_id ''object'' (sync_object r) @ append_id ''object_generation'' (sync_object_generation r) @
     append_id ''source'' (sync_source_region r) @ append_id ''source_generation'' (sync_source_region_generation r) @
     append_id ''destination'' (sync_destination_region r) @
     append_id ''destination_generation'' (sync_destination_region_generation r) @ [newline] @
     append_id ''source_version'' (sync_source_version r) @
     append_id ''destination_prior_version'' (sync_destination_prior_version r) @
     append_id ''ownership_generation'' (sync_ownership_generation r) @ append_id ''epoch'' (sync_epoch r) @
     append_field ''transport'' (sync_transport r) @ [newline] @
     append_field ''expected_content'' (fingerprint_to_string (sync_expected_content r)) @
     append_field ''postcondition'' (sync_postcondition r) @
     optional_line '' failure_reason='' (sync_failure_reason r)"

section \<open>Policies and evidence\<close>

definition assigned :: "u64 \<Rightarrow> string \<Rightarrow> string" where
  "assigned i absent = (if is_nil i then absent else id_to_string i)"

text \<open>The permitted memory domains, in the order of their values.\<close>

primrec separated :: "bool \<Rightarrow> string list \<Rightarrow> string" where
  "separated first [] = []"
| "separated first (t # ts) = (if first then [] else '','') @ t @ separated False ts"

definition render_policy :: "CoherencePolicy \<Rightarrow> string" where
  "render_policy p =
     ''policy id='' @ assigned (pol_id p) ''unassigned'' @
     '' generation='' @ assigned (pol_generation p) ''unassigned'' @ '' name='' @ pol_name p @ [newline] @
     ''  consistency='' @ consistency_model_to_token (pol_consistency p) @
     '' write_ownership='' @ write_ownership_mode_to_token (pol_write_ownership p) @
     '' publication_durability='' @ publication_durability_to_token (pol_publication_durability p) @ [newline] @
     ''  conflict_behavior='' @ conflict_behavior_to_token (pol_conflict_behavior p) @
     '' recovery_policy='' @ recovery_policy_to_token (pol_recovery_policy p) @
     '' stale_read_policy='' @ stale_read_policy_to_token (pol_stale_read_policy p) @ [newline] @
     ''  stale_read_bound_versions='' @ id_to_string (pol_stale_read_bound_versions p) @
     '' evidence_max_age_operations='' @ id_to_string (pol_evidence_max_age_operations p) @ [newline] @
     ''  dirty_loss_policy='' @ dirty_loss_policy_to_token (pol_dirty_loss_policy p) @
     '' require_invalidation_acks_before_publication='' @
       flag (pol_require_invalidation_acks_before_publication p) @ [newline] @
     ''  require_sync_completion_for_currentness='' @ flag (pol_require_sync_completion_for_currentness p) @
     '' require_content_fingerprint='' @ flag (pol_require_content_fingerprint p) @ [newline] @
     ''  allowed_domains='' @
       separated True (map memory_domain_to_token (filter (allows_domain p) (map fst kMemoryDomain)))"

definition summarize_policy :: "CoherencePolicy \<Rightarrow> string" where
  "summarize_policy p =
     pol_name p @ ''/'' @ assigned (pol_generation p) ''-'' @
     '' consistency='' @ consistency_model_to_token (pol_consistency p) @
     '' ownership='' @ write_ownership_mode_to_token (pol_write_ownership p) @
     '' durability='' @ publication_durability_to_token (pol_publication_durability p)"

definition render_evidence :: "EvidenceRecord \<Rightarrow> string" where
  "render_evidence r =
     ''evidence '' @ format_id ''ev'' (ev_id r) @ '' gen='' @ id_to_string (ev_generation r) @
     '' kind='' @ evidence_kind_to_token (ev_kind r) @ '' class='' @ evidence_class_to_token (ev_evidence_class r) @
     '' epoch='' @ id_to_string (ev_epoch r) @ '' object='' @ id_to_string (ev_object r) @
     '' objgen='' @ id_to_string (ev_object_generation r) @ '' region='' @ id_to_string (ev_region r) @
     '' reggen='' @ id_to_string (ev_region_generation r) @ '' version='' @ id_to_string (ev_observed_version r) @
     '' seq='' @ id_to_string (ev_sequence r) @
     (if ev_process_local r then '' process_local'' else []) @
     (if ev_note r = [] then [] else '' note=\"'' @ ev_note r @ ''\"'')"

section \<open>Decisions\<close>

definition append_context :: "DecisionContext \<Rightarrow> string" where
  "append_context c =
     ''decision='' @ id_to_string (dc_decision c) @ append_id ''epoch'' (dc_epoch c) @
     append_id ''object'' (dc_object c) @ append_id ''object_generation'' (dc_object_generation c) @
     append_id ''ownership_generation'' (dc_ownership_generation c) @ append_id ''policy'' (dc_policy c) @
     append_id ''policy_generation'' (dc_policy_generation c) @ append_id ''sequence'' (dc_sequence c)"

definition rationale_line :: "string \<Rightarrow> string" where
  "rationale_line rationale = [newline] @ ''  rationale='' @ rationale"

definition render_read_decision :: "ReadDecision \<times> string \<Rightarrow> string" where
  "render_read_decision = (\<lambda>(d, rationale).
     ''read_decision outcome='' @ read_outcome_to_token (rd_outcome d) @
     '' reason='' @ status_code_name (rd_reason d) @ [newline] @ ''  '' @ append_context (rd_context d) @ [newline] @
     append_id '' region'' (rd_region d) @ append_id ''region_generation'' (rd_region_generation d) @
     append_field ''region_state'' (coherence_state_to_token (rd_region_state d)) @ [newline] @
     append_id '' authoritative_version'' (rd_authoritative_version d) @
     append_id ''region_version'' (rd_region_version d) @
     append_field ''staleness'' (if rd_staleness_known d then id_to_string (rd_staleness d) else ''unknown'') @ [newline] @
     append_field '' sync_required'' (flag (rd_sync_required d)) @
     append_field ''stale_allowed'' (flag (rd_stale_allowed d)) @
     append_field ''evidence_fresh'' (flag (rd_evidence_fresh d)) @
     append_field ''evidence_class'' (evidence_class_to_token (rd_evidence_class d)) @ [newline] @
     (if is_nil (rd_evidence d) then []
      else append_id '' evidence'' (rd_evidence d) @ append_id ''evidence_generation'' (rd_evidence_generation d)) @
     (if is_nil (rd_required_sync d) then [] else append_id '' required_sync'' (rd_required_sync d)) @
     (if is_nil (rd_lease d) then [] else append_id '' lease'' (rd_lease d)) @
     rationale_line rationale)"

definition render_write_grant :: "WriteGrant \<times> string \<Rightarrow> string" where
  "render_write_grant = (\<lambda>(g, rationale).
     ''write_grant granted='' @ flag (wg_granted g) @ '' reason='' @ status_code_name (wg_reason g) @ [newline] @
     ''  '' @ append_context (wg_context g) @ [newline] @
     append_id '' writer'' (wg_writer g) @ append_field ''writer_boot'' (to_hex (wg_writer_boot g)) @
     append_id ''base_version'' (wg_base_version g) @
     append_id ''authoritative_version'' (wg_authoritative_version g) @ [newline] @
     append_id '' writer_region'' (wg_writer_region g) @
     append_id ''writer_region_generation'' (wg_writer_region_generation g) @
     append_field ''may_mutate_now'' (flag (wg_may_mutate_now g)) @
     append_field ''required_invalidations'' (size_to_string (wg_required_invalidations g)) @ [newline] @
     concat (map (\<lambda>i. ''  '' @ render_invalidation i @ [newline]) (wg_required_invalidations g)) @
     ''  rationale='' @ rationale)"

definition render_publication :: "PublicationReceipt \<times> string \<Rightarrow> string" where
  "render_publication = (\<lambda>(r, rationale).
     ''publication '' @ id_to_string (pr_publication r) @ '' state='' @ publication_state_to_token (pr_state r) @
     '' reason='' @ status_code_name (pr_reason r) @ [newline] @ ''  '' @ append_context (pr_context r) @ [newline] @
     append_id '' version'' (pr_version r) @ append_id ''prior_version'' (pr_prior_version r) @
     append_id ''writer'' (pr_writer r) @ append_field ''writer_boot'' (to_hex (pr_writer_boot r)) @ [newline] @
     append_field '' durability'' (publication_durability_to_token (pr_durability r)) @
     append_field ''durable'' (flag (pr_durable r)) @
     append_field ''idempotent_replay'' (flag (pr_idempotent_replay r)) @
     append_field ''completed_by_recovery'' (flag (pr_completed_by_recovery r)) @ [newline] @
     append_field '' content'' (fingerprint_to_string (pr_content r)) @ rationale_line rationale)"

definition render_invalidation_outcome :: "InvalidationOutcome \<times> string \<Rightarrow> string" where
  "render_invalidation_outcome = (\<lambda>(r, rationale).
     ''invalidation_outcome '' @ id_to_string (io_invalidation r) @
     '' state='' @ invalidation_state_to_token (io_state r) @
     '' reason='' @ status_code_name (io_reason r) @ [newline] @ ''  '' @ append_context (io_context r) @ [newline] @
     append_id '' region'' (io_region r) @ append_id ''region_generation'' (io_region_generation r) @
     append_id ''replica_generation'' (io_replica_generation r) @
     append_field ''idempotent_replay'' (flag (io_idempotent_replay r)) @ rationale_line rationale)"

definition render_sync_outcome :: "SyncOutcome \<times> string \<Rightarrow> string" where
  "render_sync_outcome = (\<lambda>(r, rationale).
     ''sync_outcome '' @ id_to_string (so_operation r) @ '' state='' @ sync_state_to_token (so_state r) @
     '' reason='' @ status_code_name (so_reason r) @ [newline] @ ''  '' @ append_context (so_context r) @ [newline] @
     ''  '' @ render_sync (so_plan r) @ [newline] @
     append_field '' idempotent_replay'' (flag (so_idempotent_replay r)) @ rationale_line rationale)"

section \<open>Snapshots and reports\<close>

definition indented :: "('a \<Rightarrow> string) \<Rightarrow> 'a list \<Rightarrow> string" where
  "indented render xs = concat (map (\<lambda>x. ''  '' @ render x @ [newline]) xs)"

definition render_domain :: "DomainRecord \<Rightarrow> string" where
  "render_domain d =
     ''domain '' @ id_to_string (dom_id d) @ '' name='' @ dom_name d @
     '' generation='' @ id_to_string (dom_generation d) @
     '' lifecycle='' @ domain_lifecycle_to_token (dom_lifecycle d) @
     '' created_epoch='' @ id_to_string (dom_created_epoch d) @
     '' current_epoch='' @ id_to_string (dom_current_epoch d)"

definition snapshot_header :: "string \<Rightarrow> CoherenceSnapshot \<Rightarrow> string" where
  "snapshot_header build s =
     ''coherence_snapshot build=\"'' @ build @ ''\" epoch='' @ id_to_string (snap_epoch s) @
     '' sequence='' @ id_to_string (snap_sequence s) @ '' shutting_down='' @ flag (snap_shutting_down s) @ [newline] @
     ''domains='' @ size_to_string (snap_domains s) @ '' participants='' @ size_to_string (snap_participants s) @
     '' objects='' @ size_to_string (snap_objects s) @ '' regions='' @ size_to_string (snap_regions s) @
     '' invalidations='' @ size_to_string (snap_invalidations s) @ '' syncs='' @ size_to_string (snap_syncs s) @ [newline]"

definition render_snapshot :: "string \<Rightarrow> CoherenceSnapshot \<Rightarrow> string" where
  "render_snapshot build s =
     snapshot_header build s @ indented render_domain (snap_domains s) @
     indented render_participant (snap_participants s) @ indented render_object (snap_objects s) @
     indented render_region (snap_regions s) @ indented render_invalidation (snap_invalidations s) @
     indented render_sync (snap_syncs s)"

definition render_finding :: "AuditFinding \<Rightarrow> string" where
  "render_finding f =
     ''violation code='' @ status_code_name (af_code f) @ '' object='' @ id_to_string (af_object f) @
     '' region='' @ id_to_string (af_region f) @ '' participant='' @ id_to_string (af_participant f) @
     '' detail='' @ af_detail f"

definition render_audit :: "AuditReport \<Rightarrow> string" where
  "render_audit r =
     ''invariant_audit result='' @ (if ar_clean r then ''clean'' else ''violations'') @
     '' violations='' @ size_to_string (ar_findings r) @ '' epoch='' @ id_to_string (ar_epoch r) @
     '' sequence='' @ id_to_string (ar_sequence r) @ [newline] @
     ''  checked objects='' @ id_to_string (ar_objects_checked r) @
     '' regions='' @ id_to_string (ar_regions_checked r) @
     '' participants='' @ id_to_string (ar_participants_checked r) @
     '' invalidations='' @ id_to_string (ar_invalidations_checked r) @
     '' synchronizations='' @ id_to_string (ar_syncs_checked r) @ [newline] @
     indented render_finding (ar_findings r)"

text \<open>The notes of a recovery report are not part of the engine's model and are an argument.  The field
  called \<open>domains_restored\<close> holds the number of objects.\<close>

definition render_recovery :: "string list \<Rightarrow> RecoveryReport \<Rightarrow> string" where
  "render_recovery notes r =
     ''recovery performed='' @ flag (rep_performed r) @
     '' previous_epoch='' @ id_to_string (rep_previous_epoch r) @
     '' new_epoch='' @ id_to_string (rep_new_epoch r) @ [newline] @
     ''  domains_restored='' @ id_to_string (rep_objects_restored r) @
     '' participants_restored='' @ id_to_string (rep_participants_restored r) @
     '' regions_restored='' @ id_to_string (rep_regions_restored r) @ [newline] @
     ''  regions_downgraded='' @ id_to_string (rep_regions_downgraded r) @
     '' authority_revoked='' @ id_to_string (rep_authority_revoked r) @
     '' publications_completed='' @ id_to_string (rep_publications_completed r) @
     '' publications_requiring_operator='' @ id_to_string (rep_publications_requiring_operator r) @ [newline] @
     ''  syncs_classified_unknown='' @ id_to_string (rep_syncs_classified_unknown r) @
     '' invalidations_superseded='' @ id_to_string (rep_invalidations_superseded r) @
     '' journal_records_replayed='' @ id_to_string (rep_journal_records_replayed r) @
     '' corrupt_records_skipped='' @ id_to_string (rep_corrupt_records_skipped r) @ [newline] @
     indented (\<lambda>note. ''note='' @ note) notes"

end
