(* ===== verification/Text_Scan.thy ===== *)
theory Text_Scan
  imports Texts
begin

text \<open>
  What the agent reads out of texts (\<^verbatim>\<open>src/agent.cpp\<close>): the tokens of a command line, decimal numbers
  as \<open>strtoll\<close> and \<open>strtoull\<close> read them, and the fields of a rendered record, found by a search for
  the key.  The string operations of the standard library are modelled as they are documented.
\<close>

section \<open>Command lines\<close>

definition is_separator :: "char \<Rightarrow> bool" where
  "is_separator c \<longleftrightarrow> c \<in> {CHR '' '', CHR 0x09, CHR 0x0D, CHR 0x0A}"

text \<open>The loop carries the token it is collecting.\<close>

primrec split_from :: "string \<Rightarrow> string \<Rightarrow> string list" where
  "split_from current [] = (if current = [] then [] else [current])"
| "split_from current (c # cs) =
     (if is_separator c then (if current = [] then split_from [] cs else current # split_from [] cs)
      else split_from (current @ [c]) cs)"

definition split_command :: "string \<Rightarrow> string list" where
  "split_command text = split_from [] text"

definition key_value :: "string \<Rightarrow> string \<Rightarrow> string" where
  "key_value key value = key @ ''='' @ value"

section \<open>Numbers\<close>

definition is_digit :: "char \<Rightarrow> bool" where
  "is_digit c \<longleftrightarrow> 48 \<le> (of_char c :: nat) \<and> (of_char c :: nat) \<le> 57"

definition is_space :: "char \<Rightarrow> bool" where
  "is_space c \<longleftrightarrow> c = CHR '' '' \<or> 9 \<le> (of_char c :: nat) \<and> (of_char c :: nat) \<le> 13"

definition digits_value :: "string \<Rightarrow> nat" where
  "digits_value ds = foldl (\<lambda>n c. 10 * n + (of_char c - 48)) 0 ds"

text \<open>Both conversions read the text up to its first NUL, skip white space, take a sign and the digits.
  Without a digit nothing is consumed.  The result is the sign, the magnitude and the text that is
  left.\<close>

definition scan_number :: "string \<Rightarrow> bool \<times> nat \<times> string" where
  "scan_number text =
     (let s = takeWhile (\<lambda>c. c \<noteq> CHR 0x00) text;
          t = dropWhile is_space s;
          negative = (t \<noteq> [] \<and> hd t = CHR ''-'');
          t = (if t \<noteq> [] \<and> (hd t = CHR ''-'' \<or> hd t = CHR ''+'') then tl t else t);
          ds = takeWhile is_digit t
      in if ds = [] then (False, 0, s) else (negative, digits_value ds, dropWhile is_digit t))"

text \<open>Out of range both saturate; a minus sign negates an unsigned value modulo \<open>2 ^ 64\<close>.\<close>

definition strtoull :: "string \<Rightarrow> u64" where
  "strtoull text =
     (case scan_number text of (negative, n, _) \<Rightarrow>
        if n \<ge> 2 ^ 64 then - 1 else if negative then - of_nat n else of_nat n)"

definition strtoll :: "string \<Rightarrow> int \<times> string" where
  "strtoll text =
     (case scan_number text of (negative, n, rest) \<Rightarrow>
        (if negative then max (- (2 ^ 63)) (- int n) else min (2 ^ 63 - 1) (int n), rest))"

text \<open>The whole text must be a number.\<close>

definition parse_i64 :: "string \<Rightarrow> int option" where
  "parse_i64 text =
     (if text = [] then None
      else case strtoll text of (value, rest) \<Rightarrow> if rest \<noteq> [] then None else Some value)"

definition to_u64 :: "string \<Rightarrow> u64" where
  "to_u64 value = (if value = [] then 0 else strtoull value)"

section \<open>Searches\<close>

text \<open>\<open>find\<close> and \<open>rfind\<close> of \<open>std::string\<close>, with \<open>None\<close> for \<open>npos\<close>, and a \<open>substr\<close> that ends at a found
  position.\<close>

definition matches_at :: "string \<Rightarrow> string \<Rightarrow> nat \<Rightarrow> bool" where
  "matches_at needle text i \<longleftrightarrow> take (length needle) (drop i text) = needle"

definition find_text :: "string \<Rightarrow> string \<Rightarrow> nat \<Rightarrow> nat option" where
  "find_text text needle pos = find (matches_at needle text) [pos..<Suc (length text)]"

definition rfind_text :: "string \<Rightarrow> string \<Rightarrow> nat \<Rightarrow> nat option" where
  "rfind_text text needle pos = find (matches_at needle text) (rev [0..<Suc (min pos (length text))])"

definition substr_until :: "string \<Rightarrow> nat \<Rightarrow> nat option \<Rightarrow> string" where
  "substr_until text start end_pos =
     (case end_pos of None \<Rightarrow> drop start text | Some e \<Rightarrow> take (e - start) (drop start text))"

definition ends_value :: "char \<Rightarrow> bool" where
  "ends_value c \<longleftrightarrow> c = CHR '' '' \<or> c = CHR 0x0A"

definition extract_field :: "string \<Rightarrow> string \<Rightarrow> string" where
  "extract_field text key =
     (let needle = key @ ''=''
      in case find_text text needle 0 of
           None \<Rightarrow> []
         | Some pos \<Rightarrow> takeWhile (\<lambda>c. \<not> ends_value c) (drop (pos + length needle) text))"

section \<open>Decimal texts read back\<close>

lemma digit_char_digit: "d < 10 \<Longrightarrow> is_digit (digit_char d) \<and> of_char (digit_char d) = 48 + d"
  by (simp add: is_digit_def digit_char_def)

lemma decimal_digits: "\<forall>c \<in> set (nat_to_decimal n). is_digit c"
  by (induction n rule: nat_to_decimal.induct)
    (subst nat_to_decimal.simps, auto simp: digit_char_digit)

lemma decimal_nonempty: "nat_to_decimal n \<noteq> []"
  by (subst nat_to_decimal.simps) simp

lemma decimal_value: "digits_value (nat_to_decimal n) = n"
  by (induction n rule: nat_to_decimal.induct)
    (subst nat_to_decimal.simps, auto simp: digits_value_def digit_char_digit)

lemma digit_char_classes:
  assumes "is_digit c"
  shows "c \<noteq> CHR 0x00" "\<not> is_space c" "c \<noteq> CHR ''-''" "c \<noteq> CHR ''+''" "\<not> ends_value c" "c \<noteq> CHR ''=''"
  using assms by (auto simp: is_digit_def is_space_def ends_value_def)

lemma scan_decimal: "scan_number (nat_to_decimal n) = (False, n, [])"
proof -
  let ?t = "nat_to_decimal n"
  have "takeWhile (\<lambda>c. c \<noteq> CHR 0x00) ?t = ?t" "takeWhile is_digit ?t = ?t" "dropWhile is_digit ?t = []"
    using decimal_digits [of n] digit_char_classes(1) by (auto simp: takeWhile_eq_all_conv)
  moreover have "is_digit (hd ?t)" using decimal_digits [of n] decimal_nonempty [of n] by simp
  then have "dropWhile is_space ?t = ?t" "hd ?t \<noteq> CHR ''-''" "hd ?t \<noteq> CHR ''+''"
    using digit_char_classes [of "hd ?t"] by (cases ?t; simp)+
  ultimately show ?thesis by (simp only: scan_number_def Let_def decimal_value if_False simp_thms decimal_nonempty)
qed

lemma to_u64_id: "to_u64 (id_to_string x) = x"
  using unsigned_less [of x, where ?'a = nat] by (simp add: to_u64_def id_to_string_def decimal_nonempty strtoull_def scan_decimal)

lemma parse_i64_decimal: "n < 2 ^ 63 \<Longrightarrow> parse_i64 (nat_to_decimal n) = Some (int n)"
  by (simp add: parse_i64_def decimal_nonempty strtoll_def scan_decimal)

lemma parse_i64_bounds: "parse_i64 text = Some v \<Longrightarrow> - (2 ^ 63) \<le> v \<and> v < 2 ^ 63"
  by (auto simp: parse_i64_def strtoll_def split: if_splits prod.splits)

section \<open>Tokens\<close>

lemma split_from_tokens:
  "t \<in> set (split_from current text) \<Longrightarrow> \<forall>c \<in> set current. \<not> is_separator c \<Longrightarrow>
   t \<noteq> [] \<and> (\<forall>c \<in> set t. \<not> is_separator c)"
proof (induction "text" arbitrary: current)
  case (Cons c cs)
  show ?case
  proof (cases "is_separator c")
    case True
    then have "t = current \<and> current \<noteq> [] \<or> t \<in> set (split_from [] cs)"
      using Cons.prems(1) by (simp split: if_splits)
    then show ?thesis using Cons.IH [of "[]"] Cons.prems(2) by force
  next
    case False
    then show ?thesis using Cons.IH [of "current @ [c]"] Cons.prems by simp
  qed
qed (simp split: if_splits)

lemma split_command_tokens: "t \<in> set (split_command text) \<Longrightarrow> t \<noteq> [] \<and> (\<forall>c \<in> set t. \<not> is_separator c)"
  using split_from_tokens [of t "[]" "text"] by (simp add: split_command_def)

section \<open>Fields of a text\<close>

text \<open>The search for a key goes from one equals sign to the next: a piece without one either ends in the
  key, and then its value follows, or holds no occurrence.\<close>

lemma find_text_0: "find_text text needle 0 =
  (if matches_at needle text 0 then Some 0 else case text of [] \<Rightarrow> None | _ # cs \<Rightarrow> map_option Suc (find_text cs needle 0))"
proof (cases "text")
  case Nil
  then show ?thesis by (simp add: find_text_def)
next
  case (Cons c cs)
  have "find P (map Suc xs) = map_option Suc (find (\<lambda>i. P (Suc i)) xs)" for P xs
    by (induction xs) auto
  then have "find (matches_at needle (c # cs)) [Suc 0..<Suc (Suc (length cs))] =
      map_option Suc (find (matches_at needle cs) [0..<Suc (length cs)])"
    by (simp only: map_Suc_upt [symmetric]) (simp add: matches_at_def [abs_def])
  moreover have "[0..<Suc (length text)] = 0 # [Suc 0..<Suc (length text)]" by (rule upt_conv_Cons) simp
  ultimately show ?thesis using Cons by (simp add: find_text_def)
qed

lemma extract_Cons:
  "\<not> matches_at (key @ ''='') (c # cs) 0 \<Longrightarrow> extract_field (c # cs) key = extract_field cs key"
  by (subst extract_field_def, subst find_text_0)
    (simp add: extract_field_def Let_def split: option.splits)

lemma extract_here:
  "extract_field (key @ ''='' @ rest) key = takeWhile (\<lambda>c. \<not> ends_value c) rest"
  by (subst extract_field_def, subst find_text_0) (simp add: matches_at_def)

text \<open>The part of the piece that can still be the beginning of an occurrence.\<close>

lemma matches_piece:
  assumes "CHR ''='' \<notin> set piece" and "CHR ''='' \<notin> set key" and "matches_at (key @ ''='') (piece @ ''='' @ rest) 0"
  shows "piece = key"
proof -
  let ?text = "piece @ ''='' @ rest" and ?n = "length (key @ ''='')"
  have "?text = (key @ ''='') @ drop ?n ?text"
    using assms(3) append_take_drop_id [of ?n ?text, symmetric] by (simp add: matches_at_def)
  then have "takeWhile (\<lambda>c. c \<noteq> CHR ''='') ?text = takeWhile (\<lambda>c. c \<noteq> CHR ''='') ((key @ ''='') @ drop ?n ?text)"
    by (rule arg_cong)
  moreover have "takeWhile (\<lambda>c. c \<noteq> CHR ''='') (xs @ CHR ''='' # ys) = xs" if "CHR ''='' \<notin> set xs" for xs ys
    using that by (induction xs) auto
  ultimately show ?thesis using assms(1,2) by simp
qed

lemma extract_piece:
  assumes "CHR ''='' \<notin> set piece" and "CHR ''='' \<notin> set key"
  shows "extract_field (piece @ ''='' @ rest) key =
    (if \<exists>pre. piece = pre @ key then takeWhile (\<lambda>c. \<not> ends_value c) rest else extract_field rest key)"
  using assms(1)
proof (induction piece)
  case Nil
  show ?case
  proof (cases "key = []")
    case True
    then show ?thesis using extract_here [of "[]" rest] by simp
  next
    case False
    then show ?thesis using matches_piece [of "[]" key rest] assms(2) by (auto intro!: extract_Cons)
  qed
next
  case (Cons c piece)
  show ?case
  proof (cases "c # piece = key")
    case True
    then show ?thesis using extract_here [of key rest] by (auto intro: exI [of _ "[]"])
  next
    case False
    then have "\<not> matches_at (key @ ''='') (c # piece @ ''='' @ rest) 0"
      using matches_piece [of "c # piece" key rest] Cons.prems assms(2) by auto
    moreover have "(\<exists>pre. c # piece = pre @ key) \<longleftrightarrow> (\<exists>pre. piece = pre @ key)"
      using False by (auto simp: Cons_eq_append_conv)
    ultimately show ?thesis using Cons by (simp add: extract_Cons)
  qed
qed

end
