(* ===== verification/Spec2Isabelle.thy ===== *)
theory Spec2Isabelle
  imports Divergences File_Properties Region_Store Client_Sessions Rendering Text_Scan
begin

text \<open>
  \<^bold>\<open>Coherence Fabric.\<close>  A coordinator keeps replicas of shared objects coherent.  Participants register
  regions of memory as replicas of objects, read under leases, write under exclusive authority,
  publish new versions, acknowledge invalidations and synchronize replicas.  The heart is the engine,
  a single-threaded state machine behind a lock; below it a durable store with a journal and a
  snapshot; around it a server that speaks a framed binary protocol.

  \<^bold>\<open>Values and encodings.\<close>  \<open>Prelude\<close> has the machine integers and identities (\<^verbatim>\<open>include/coherence/ids.hpp\<close>):
  a 64-bit identity is a word with zero as the nil value, a boot or session identity a pair of words.
  \<open>Status\<close> and \<open>Enums\<close> have the status codes and the enumerations with their bytes, tokens and
  transition tables (\<^verbatim>\<open>status.hpp\<close>, \<^verbatim>\<open>enums.hpp\<close>, \<^verbatim>\<open>src/enums.cpp\<close>); a fallible operation returns a code or
  a value, and the message texts of a status are left out.  \<open>Std_Map\<close> models \<^verbatim>\<open>std::map\<close> as an association
  list in key order.  \<open>Bytes\<close> (\<^verbatim>\<open>src/bytes.cpp\<close>) has checked arithmetic, CRC-32C and SHA-256, proved against
  bit-serial and standard references.  \<open>Serialize\<close>, \<open>Codec\<close> and \<open>Wire\<close> have the byte reader and writer
  and the codecs of all durable records, decisions and requests (\<^verbatim>\<open>src/serialize.cpp\<close>, \<^verbatim>\<open>src/codec.cpp\<close>,
  \<^verbatim>\<open>src/codec_decisions.cpp\<close>); each is an instance of the locale \<open>record_codec\<close>, which carries the round
  trip and the facts that follow from it.  \<open>Policy\<close>, \<open>Evidence\<close> and \<open>Model\<close> have the records of
  \<^verbatim>\<open>policy.hpp\<close>, \<^verbatim>\<open>evidence.hpp\<close> and \<^verbatim>\<open>model.hpp\<close> with policy validation and evidence assessment; \<open>Texts\<close>
  has the notes that are stored inside records.

  \<^bold>\<open>The store.\<close>  \<open>Persistence\<close> (\<^verbatim>\<open>src/persistence.cpp\<close>) has the journal frames, the snapshot, replay and
  the in-memory store with its injected append failures.  The locale \<open>durable_log\<close> is the contract the
  engine relies on: an append that succeeds is recovered, one that fails changes nothing.  Replay is a
  recursive function that ends because every frame is at least twenty-four bytes long, so no fuel is
  needed anywhere in it.

  \<^bold>\<open>The engine.\<close>  \<open>Engine_State\<close> is the record of \<^verbatim>\<open>src/engine_impl.hpp\<close> with the private helpers of
  \<^verbatim>\<open>src/engine_core.cpp\<close>, \<open>Engine_Helpers\<close> is \<^verbatim>\<open>src/engine_helpers.cpp\<close>.  The operations follow the files
  of the source: \<open>Engine_Participants\<close> (\<^verbatim>\<open>engine_core.cpp\<close>: domains, participants, fencing),
  \<open>Engine_Registry\<close> (\<^verbatim>\<open>engine_registry.cpp\<close>: objects, regions, policies, shutdown), \<open>Engine_Read\<close> and
  \<open>Engine_Write\<close> (\<^verbatim>\<open>engine_ops.cpp\<close> and \<open>mark_dirty\<close>), \<open>Engine_Invalidate\<close> (\<^verbatim>\<open>engine_ops2.cpp\<close>),
  \<open>Engine_Publish\<close> and \<open>Engine_Sync\<close> (\<^verbatim>\<open>engine_ops3.cpp\<close>), \<open>Engine_Recovery\<close> and \<open>Engine_Audit\<close>
  (\<^verbatim>\<open>engine_recovery.cpp\<close>).  An operation takes the engine and a request and returns the answer and the
  next engine; every early return of the source is a branch.  \<^verbatim>\<open>publish\<close> gives up the lock around its
  durable append, and is three functions: \<open>publish_reserve\<close>, \<open>publish_persist\<close> and \<open>publish_commit\<close>.

  \<^bold>\<open>What is proved of the engine.\<close>  \<open>Engine_Steps\<close> makes it a transition system whose state is the engine
  and the publications in flight, with one step per operation, per section of a publication and per
  recovery.  \<open>Engine_Frames\<close> defines what a change may do to objects, regions and synchronizations (the
  locales \<open>live_relation\<close> and \<open>live_preorder\<close>, with the relation \<open>calm\<close> as their main instance),
  \<open>Engine_Safety\<close>, \<open>Engine_Currentness\<close> and \<open>Engine_Restart\<close> prove that every operation keeps the safety
  invariant, and \<open>Protocol\<close> that the engine refines an abstract protocol of versions and sets of current
  replicas.  \<open>Engine_Contracts\<close> and \<open>Engine_Failures\<close> have the lemmas on single operations.  The
  properties are in \<open>Engine_Properties\<close> (coherence of replicas, single writer, refinement, version order)
  and \<open>Engine_Guarantees\<close> (reads, write grants, stale requests, publication, synchronization, transfer,
  fencing, recovery); \<open>Engine_Example\<close> is a run that all of them are applied to.  \<open>Audit_Properties\<close> relates
  the auditor to the invariants.

  \<^bold>\<open>The server.\<close>  \<open>Transport\<close> has the send and receive loops of \<^verbatim>\<open>src/transport.cpp\<close> over an arbitrary
  operating-system call; what a stream socket promises is the predicate \<open>stream_socket\<close>.
  \<open>Control_Protocol\<close> has the frames and payloads (\<^verbatim>\<open>src/protocol.cpp\<close>, \<^verbatim>\<open>src/control_codec.hpp\<close>), and
  \<open>Coordinator\<close> the server (\<^verbatim>\<open>src/coordinator.cpp\<close>): start, handshake, frame admission, dispatch, teardown.
  \<open>Coordinator_Properties\<close> proves that frames survive the socket, are not replayed, that a session acts
  as itself, that a lost connection or a new boot leaves no authority behind, and that every
  interleaving of connections is a run of the engine, so that coherence holds for the clients.
  \<open>Service_Example\<close> is the example run behind a coordinator.  \<open>Divergences\<close> shows where the code and its
  comments differ.

  \<^bold>\<open>Not modelled.\<close>  The file store (\<^verbatim>\<open>FileDurableStore\<close>, \<^verbatim>\<open>src/platform_file.cpp\<close>), opening of sockets
  and random identities are operating-system calls; identities are arguments instead.  The text
  renderings (\<^verbatim>\<open>src/decision.cpp\<close>, the \<^verbatim>\<open>render\<close> functions) are output only; the coordinator returns typed
  replies in their place.  The client-side agent (\<^verbatim>\<open>src/agent.cpp\<close>), the client wrapper
  (\<^verbatim>\<open>src/client.cpp\<close>), the memory adapters (\<^verbatim>\<open>src/adapters\<close>) and the command-line programs (\<^verbatim>\<open>apps\<close>) drive
  the modelled interfaces over devices, shared memory and sockets.  Threads appear as interleavings of
  the steps of the coordinator and the engine; memory-model effects below the locks do not.
\<close>

end
